(* ===== verification/Prelude.thy ===== *)
theory Prelude
  imports Main "HOL-Library.Sublist"
begin

text \<open>
  The vocabulary every component shares. The program is Python over plain
  dictionaries, so the prelude fixes how its strings, its JSON values and its ordered
  dictionaries are written in HOL:
  \<^item> a Python string is a \<open>string\<close> (a list of characters); the methods the code calls
    (\<open>strip\<close>, \<open>rstrip\<close>, \<open>split\<close>, \<open>partition\<close>, \<open>lower\<close>, slicing, \<open>repr\<close>) are functions
    on lists;
  \<^item> a JSON value is the datatype \<open>json\<close>, an object being an association list that keeps
    Python's insertion order; \<open>jget\<close> is \<open>dict.get\<close>, \<open>jset\<close> is item assignment;
  \<^item> \<open>truthy\<close> is Python's truth test and \<open>jor a b\<close> the expression \<open>a or b\<close>.
  The custom resources are validated by the OpenAPI schemas of \<open>deploy/crds\<close> before the
  controller sees them, so a field the code reads as an object (a string, a list) is one,
  or is absent; \<open>jget\<close> on a value that is not an object is \<open>JNull\<close>.
\<close>

section \<open>Collections of facts\<close>

named_theorems quiet_intros
  \<open>introduction rules: a computation leaves the status patch alone\<close>
named_theorems guarded_intros
  \<open>introduction rules: a computation reports every requeue in the Ready condition\<close>
named_theorems run_simps
  \<open>equations that run a computation symbolically\<close>
named_theorems str_simps
  \<open>equations of the string helpers, for concrete strings\<close>

section \<open>Strings\<close>

definition py_ws :: "char list" where
  "py_ws = [CHR '' '', CHR 0x09, CHR 0x0A, CHR 0x0B, CHR 0x0C, CHR 0x0D,
            CHR 0x1C, CHR 0x1D, CHR 0x1E, CHR 0x1F]"

definition newline :: char where
  "newline = CHR 0x0A"

text \<open>\<open>lstrip_of\<close>, \<open>rstrip_of\<close> and \<open>strip_of\<close> remove a set of characters from an end.\<close>

definition lstrip_of :: "char list \<Rightarrow> string \<Rightarrow> string" where
  "lstrip_of cs s = dropWhile (\<lambda>c. c \<in> set cs) s"

definition rstrip_of :: "char list \<Rightarrow> string \<Rightarrow> string" where
  "rstrip_of cs s = rev (dropWhile (\<lambda>c. c \<in> set cs) (rev s))"

definition strip_of :: "char list \<Rightarrow> string \<Rightarrow> string" where
  "strip_of cs s = rstrip_of cs (lstrip_of cs s)"

definition strip :: "string \<Rightarrow> string" where
  "strip s = strip_of py_ws s"

definition upper_letters :: string where
  "upper_letters = ''ABCDEFGHIJKLMNOPQRSTUVWXYZ''"

definition lower_letters :: string where
  "lower_letters = ''abcdefghijklmnopqrstuvwxyz''"

definition digit_chars :: string where
  "digit_chars = ''0123456789''"

definition alnum_chars :: string where
  "alnum_chars = upper_letters @ lower_letters @ digit_chars"

definition lower_char :: "char \<Rightarrow> char" where
  "lower_char c = (case map_of (zip upper_letters lower_letters) c of
     Some d \<Rightarrow> d | None \<Rightarrow> c)"

definition lower :: "string \<Rightarrow> string" where
  "lower s = map lower_char s"

definition starts_with :: "string \<Rightarrow> string \<Rightarrow> bool" where
  "starts_with p s \<longleftrightarrow> take (length p) s = p"

definition ends_with :: "string \<Rightarrow> string \<Rightarrow> bool" where
  "ends_with p s \<longleftrightarrow> starts_with (rev p) (rev s)"

definition drop_prefix :: "string \<Rightarrow> string \<Rightarrow> string" where
  "drop_prefix p s = (if starts_with p s then drop (length p) s else s)"

definition drop_suffix :: "string \<Rightarrow> string \<Rightarrow> string" where
  "drop_suffix p s = (if ends_with p s then take (length s - length p) s else s)"

fun is_infix :: "string \<Rightarrow> string \<Rightarrow> bool" where
  "is_infix p [] = (p = [])"
| "is_infix p (c # s) = (starts_with p (c # s) \<or> is_infix p s)"

text \<open>\<open>s.split(c)\<close>, \<open>s.split(c, 1)\<close> and \<open>s.partition(c)\<close>.\<close>

fun split_on :: "char \<Rightarrow> string \<Rightarrow> string list" where
  "split_on c [] = [[]]"
| "split_on c (x # xs) =
     (if x = c then [] # split_on c xs
      else (case split_on c xs of [] \<Rightarrow> [[x]] | p # ps \<Rightarrow> (x # p) # ps))"

definition before :: "char \<Rightarrow> string \<Rightarrow> string" where
  "before c s = takeWhile (\<lambda>x. x \<noteq> c) s"

definition after :: "char \<Rightarrow> string \<Rightarrow> string option" where
  "after c s = (case dropWhile (\<lambda>x. x \<noteq> c) s of [] \<Rightarrow> None | _ # r \<Rightarrow> Some r)"

definition replace_char :: "char \<Rightarrow> string \<Rightarrow> string \<Rightarrow> string" where
  "replace_char c r s = concat (map (\<lambda>x. if x = c then r else [x]) s)"

fun join :: "string \<Rightarrow> string list \<Rightarrow> string" where
  "join sep [] = []"
| "join sep [x] = x"
| "join sep (x # y # ys) = x @ sep @ join sep (y # ys)"

text \<open>Decimal numerals, \<open>str(n)\<close> and \<open>int(s)\<close>.\<close>

definition digit_char :: "nat \<Rightarrow> char" where
  "digit_char n = digit_chars ! (n mod 10)"

fun nat_str :: "nat \<Rightarrow> string" where
  "nat_str n = (if n < 10 then [digit_char n] else nat_str (n div 10) @ [digit_char n])"

declare nat_str.simps [simp del]

definition int_str :: "int \<Rightarrow> string" where
  "int_str i = (if i < 0 then CHR ''-'' # nat_str (nat (- i)) else nat_str (nat i))"

definition digit_val :: "char \<Rightarrow> int option" where
  "digit_val c = map_of (zip digit_chars [0, 1, 2, 3, 4, 5, 6, 7, 8, 9]) c"

text \<open>Python accepts single underscores between digits, a sign and surrounding blanks.\<close>

fun digits_val :: "int \<Rightarrow> bool \<Rightarrow> string \<Rightarrow> int option" where
  "digits_val acc ok [] = (if ok then Some acc else None)"
| "digits_val acc ok (c # cs) =
     (if c = CHR ''_'' then (if ok then digits_val acc False cs else None)
      else (case digit_val c of
              None \<Rightarrow> None
            | Some d \<Rightarrow> digits_val (10 * acc + d) True cs))"

definition py_int :: "string \<Rightarrow> int option" where
  "py_int s =
     (case strip s of
        [] \<Rightarrow> None
      | c # cs \<Rightarrow>
          (if c = CHR ''-'' then map_option uminus (digits_val 0 False cs)
           else if c = CHR ''+'' then digits_val 0 False cs
           else digits_val 0 False (c # cs)))"

text \<open>
  \<open>repr\<close> of a string: single quotes unless the string holds a single quote and no double
  quote; the quote in use, the backslash and the three named control characters are
  escaped.
\<close>

definition repr_char :: "char \<Rightarrow> char \<Rightarrow> string" where
  "repr_char q c =
     (if c = q \<or> c = CHR 0x5C then [CHR 0x5C, c]
      else if c = CHR 0x0A then [CHR 0x5C, CHR ''n'']
      else if c = CHR 0x0D then [CHR 0x5C, CHR ''r'']
      else if c = CHR 0x09 then [CHR 0x5C, CHR ''t'']
      else [c])"

definition repr :: "string \<Rightarrow> string" where
  "repr s =
     (let q = (if CHR 0x27 \<in> set s \<and> CHR 0x22 \<notin> set s then CHR 0x22 else CHR 0x27)
      in [q] @ concat (map (repr_char q) s) @ [q])"

subsection \<open>Facts about the string helpers\<close>

lemma rstrip_of_Nil [simp]: "rstrip_of cs [] = []"
  by (simp add: rstrip_of_def)

lemma strip_of_Nil [simp]: "strip_of cs [] = []"
  by (simp add: strip_of_def lstrip_of_def)

lemma strip_Nil [simp]: "strip [] = []"
  by (simp add: strip_def)

lemma rstrip_of_prefix: "prefix (rstrip_of cs s) s"
proof -
  have "suffix (dropWhile (\<lambda>c. c \<in> set cs) (rev s)) (rev s)"
    by (rule suffix_dropWhile)
  then show ?thesis
    by (simp add: rstrip_of_def suffix_to_prefix)
qed

lemma length_rstrip_of: "length (rstrip_of cs s) \<le> length s"
  by (rule prefix_length_le [OF rstrip_of_prefix])

lemma set_rstrip_of: "set (rstrip_of cs s) \<subseteq> set s"
  by (rule set_mono_prefix [OF rstrip_of_prefix])

lemma set_lstrip_of: "set (lstrip_of cs s) \<subseteq> set s"
  by (auto simp: lstrip_of_def dest: set_dropWhileD)

lemma set_strip_of: "set (strip_of cs s) \<subseteq> set s"
  using set_rstrip_of set_lstrip_of by (fastforce simp: strip_of_def)

lemma last_rstrip_of: "rstrip_of cs s \<noteq> [] \<Longrightarrow> last (rstrip_of cs s) \<notin> set cs"
  using hd_dropWhile [of "\<lambda>c. c \<in> set cs" "rev s"]
  by (auto simp: rstrip_of_def last_rev)

lemma hd_lstrip_of: "lstrip_of cs s \<noteq> [] \<Longrightarrow> hd (lstrip_of cs s) \<notin> set cs"
  using hd_dropWhile [of "\<lambda>c. c \<in> set cs" s] by (auto simp: lstrip_of_def)

lemma hd_strip_of: "strip_of cs s \<noteq> [] \<Longrightarrow> hd (strip_of cs s) \<notin> set cs"
proof -
  assume ne: "strip_of cs s \<noteq> []"
  obtain zs where z: "lstrip_of cs s = strip_of cs s @ zs"
    using rstrip_of_prefix [of cs "lstrip_of cs s"] by (auto simp: strip_of_def prefix_def)
  with ne have "hd (lstrip_of cs s) = hd (strip_of cs s)" and "lstrip_of cs s \<noteq> []"
    by auto
  with hd_lstrip_of [of cs s] show ?thesis by simp
qed

lemma last_strip_of: "strip_of cs s \<noteq> [] \<Longrightarrow> last (strip_of cs s) \<notin> set cs"
  unfolding strip_of_def by (rule last_rstrip_of)

lemma rstrip_of_id: "s = [] \<or> last s \<notin> set cs \<Longrightarrow> rstrip_of cs s = s"
  by (cases s rule: rev_cases) (auto simp: rstrip_of_def)

lemma lstrip_of_id: "s = [] \<or> hd s \<notin> set cs \<Longrightarrow> lstrip_of cs s = s"
  by (cases s) (auto simp: lstrip_of_def)

lemma strip_of_id:
  "s = [] \<or> (hd s \<notin> set cs \<and> last s \<notin> set cs) \<Longrightarrow> strip_of cs s = s"
  by (auto simp: strip_of_def lstrip_of_id rstrip_of_id)

lemma strip_of_idem [simp]: "strip_of cs (strip_of cs s) = strip_of cs s"
  using hd_strip_of last_strip_of by (auto intro!: strip_of_id)

lemma starts_with_append [simp]: "starts_with p (p @ s)"
  by (simp add: starts_with_def)

lemma starts_with_iff_prefix: "starts_with p s \<longleftrightarrow> prefix p s"
  by (metis append_take_drop_id append_eq_conv_conj prefix_def starts_with_def)

lemma split_on_nonempty [simp]: "split_on c s \<noteq> []"
  by (induction s) (auto split: list.splits)

lemma split_on_no_sep: "p \<in> set (split_on c s) \<Longrightarrow> c \<notin> set p"
  by (induction s arbitrary: p) (auto split: if_splits list.splits)

lemma split_on_set: "p \<in> set (split_on c s) \<Longrightarrow> set p \<subseteq> set s"
  by (induction s arbitrary: p) (fastforce split: if_splits list.splits)+

lemma join_split_on: "join [c] (split_on c s) = s"
proof (induction s)
  case Nil
  then show ?case by simp
next
  case (Cons x xs)
  obtain p ps where p: "split_on c xs = p # ps"
    by (cases "split_on c xs") auto
  with Cons show ?case
    by (cases ps) auto
qed

lemma before_after: "after c s = Some r \<Longrightarrow> s = before c s @ c # r"
proof -
  assume a: "after c s = Some r"
  then obtain x where d: "dropWhile (\<lambda>x. x \<noteq> c) s = x # r"
    by (auto simp: after_def split: list.splits)
  then have "x = c" using hd_dropWhile [of "\<lambda>x. x \<noteq> c" s] by simp
  with d show ?thesis using takeWhile_dropWhile_id [of "\<lambda>x. x \<noteq> c" s]
    by (simp add: before_def)
qed

lemma after_None: "after c s = None \<longleftrightarrow> c \<notin> set s"
proof (cases "dropWhile (\<lambda>x. x \<noteq> c) s")
  case Nil
  then show ?thesis
    by (simp only: after_def list.case) (auto simp: dropWhile_eq_Nil_conv)
next
  case (Cons x r)
  then have "c \<in> set s"
    using dropWhile_eq_Nil_conv [of "\<lambda>x. x \<noteq> c" s] by auto
  with Cons show ?thesis by (simp add: after_def)
qed

section \<open>JSON values\<close>

datatype json =
    JNull
  | JBool bool
  | JInt int
  | JStr string
  | JArr "json list"
  | JObj "(string \<times> json) list"

type_synonym dict = "(string \<times> json) list"

text \<open>Item assignment keeps the position of an existing key, as a Python dict does.\<close>

fun dset :: "'k \<Rightarrow> 'v \<Rightarrow> ('k \<times> 'v) list \<Rightarrow> ('k \<times> 'v) list" where
  "dset k v [] = [(k, v)]"
| "dset k v ((k', v') # kvs) = (if k' = k then (k, v) # kvs else (k', v') # dset k v kvs)"

definition dremove :: "'k \<Rightarrow> ('k \<times> 'v) list \<Rightarrow> ('k \<times> 'v) list" where
  "dremove k kvs = filter (\<lambda>kv. fst kv \<noteq> k) kvs"

abbreviation dget :: "('k \<times> 'v) list \<Rightarrow> 'k \<Rightarrow> 'v option" where
  "dget kvs k \<equiv> map_of kvs k"

text \<open>\<open>d.update(e)\<close> and \<open>{**d, **e}\<close>.\<close>

definition dupdate :: "('k \<times> 'v) list \<Rightarrow> ('k \<times> 'v) list \<Rightarrow> ('k \<times> 'v) list" where
  "dupdate d e = foldl (\<lambda>acc kv. dset (fst kv) (snd kv) acc) d e"

definition wf_dict :: "('k \<times> 'v) list \<Rightarrow> bool" where
  "wf_dict d \<longleftrightarrow> distinct (map fst d)"

fun jget :: "json \<Rightarrow> string \<Rightarrow> json" where
  "jget (JObj kvs) k = (case map_of kvs k of None \<Rightarrow> JNull | Some v \<Rightarrow> v)"
| "jget _ k = JNull"

fun jhas :: "json \<Rightarrow> string \<Rightarrow> bool" where
  "jhas (JObj kvs) k = (map_of kvs k \<noteq> None)"
| "jhas _ k = False"

fun jdict :: "json \<Rightarrow> dict" where
  "jdict (JObj kvs) = kvs"
| "jdict _ = []"

fun jlist :: "json \<Rightarrow> json list" where
  "jlist (JArr xs) = xs"
| "jlist _ = []"

fun jstr :: "json \<Rightarrow> string" where
  "jstr (JStr s) = s"
| "jstr _ = []"

fun jint :: "json \<Rightarrow> int" where
  "jint (JInt i) = i"
| "jint _ = 0"

fun is_obj :: "json \<Rightarrow> bool" where
  "is_obj (JObj _) = True"
| "is_obj _ = False"

fun truthy :: "json \<Rightarrow> bool" where
  "truthy JNull = False"
| "truthy (JBool b) = b"
| "truthy (JInt i) = (i \<noteq> 0)"
| "truthy (JStr s) = (s \<noteq> [])"
| "truthy (JArr xs) = (xs \<noteq> [])"
| "truthy (JObj kvs) = (kvs \<noteq> [])"

definition jor :: "json \<Rightarrow> json \<Rightarrow> json" where
  "jor a b = (if truthy a then a else b)"

definition sor :: "string \<Rightarrow> string \<Rightarrow> string" where
  "sor a b = (if a \<noteq> [] then a else b)"

text \<open>\<open>(j.get(k) or {})\<close>, \<open>(j.get(k) or [])\<close>, \<open>(j.get(k) or "")\<close>, and a reference's name.\<close>

definition oget :: "json \<Rightarrow> string \<Rightarrow> json" where
  "oget j k = jor (jget j k) (JObj [])"

definition lget :: "json \<Rightarrow> string \<Rightarrow> json list" where
  "lget j k = jlist (jor (jget j k) (JArr []))"

definition sget :: "json \<Rightarrow> string \<Rightarrow> string" where
  "sget j k = jstr (jor (jget j k) (JStr []))"

definition ref_name :: "json \<Rightarrow> string \<Rightarrow> string" where
  "ref_name j k = sget (oget j k) ''name''"

definition strs :: "string list \<Rightarrow> json" where
  "strs xs = JArr (map JStr xs)"

definition str_dict :: "(string \<times> string) list \<Rightarrow> json" where
  "str_dict kvs = JObj (map (\<lambda>(k, v). (k, JStr v)) kvs)"

subsection \<open>Facts about dictionaries\<close>

lemma dget_dset [simp]: "dget (dset k v d) k' = (if k' = k then Some v else dget d k')"
  by (induction k v d rule: dset.induct) auto

lemma keys_dset: "fst ` set (dset k v d) = insert k (fst ` set d)"
  by (induction k v d rule: dset.induct) auto

lemma wf_dict_Nil [simp]: "wf_dict []"
  by (simp add: wf_dict_def)

lemma wf_dict_dset [simp]: "wf_dict d \<Longrightarrow> wf_dict (dset k v d)"
  by (induction k v d rule: dset.induct) (auto simp: wf_dict_def keys_dset)

lemma dset_same: "wf_dict d \<Longrightarrow> dget d k = Some v \<Longrightarrow> dset k v d = d"
  by (induction d) (auto simp: wf_dict_def split: if_splits)

lemma dget_dremove [simp]: "dget (dremove k d) k' = (if k' = k then None else dget d k')"
  by (induction d) (auto simp: dremove_def)

lemma wf_dict_dremove [simp]: "wf_dict d \<Longrightarrow> wf_dict (dremove k d)"
  by (induction d) (auto simp: wf_dict_def dremove_def)

lemma dget_dupdate:
  "wf_dict e \<Longrightarrow> dget (dupdate d e) k = (case dget e k of None \<Rightarrow> dget d k | Some v \<Rightarrow> Some v)"
proof (induction e arbitrary: d)
  case Nil
  then show ?case by (simp add: dupdate_def)
next
  case (Cons kv e)
  then have "dget (dupdate (dset (fst kv) (snd kv) d) e) k =
      (case dget e k of None \<Rightarrow> dget (dset (fst kv) (snd kv) d) k | Some v \<Rightarrow> Some v)"
    by (simp add: wf_dict_def)
  moreover have "dget e (fst kv) = None"
    using Cons.prems by (auto simp: wf_dict_def map_of_eq_None_iff)
  ultimately show ?case
    by (cases kv) (auto simp: dupdate_def split: option.splits)
qed

lemma wf_dict_dupdate [simp]: "wf_dict d \<Longrightarrow> wf_dict (dupdate d e)"
  by (induction e arbitrary: d) (auto simp: dupdate_def)

lemma jget_JObj_dset [simp]:
  "jget (JObj (dset k v d)) k' = (if k' = k then v else jget (JObj d) k')"
  by simp

lemma truthy_JObj [simp]: "\<not> truthy j \<Longrightarrow> jor j (JObj []) = JObj []"
  by (simp add: jor_def)

lemma jor_simps [simp]: "jor JNull b = b" "jor (JStr (c # s)) b = JStr (c # s)"
  "jor (JStr []) b = b" "jor (JObj (kv # d)) b = JObj (kv # d)" "jor (JObj []) b = b"
  "jor (JArr (x # xs)) b = JArr (x # xs)" "jor (JArr []) b = b"
  by (simp_all add: jor_def)

lemma oget_JNull [simp]: "oget JNull k = JObj []" "lget JNull k = []" "sget JNull k = []"
  by (simp_all add: oget_def lget_def sget_def)

lemma sor_simps [simp]: "sor [] b = b" "sor (c # s) b = c # s"
  by (simp_all add: sor_def)

end
