(* ===== verification/Config.thy ===== *)
theory Config
  imports Prelude
begin

text \<open>
  \<open>config.py\<close>: the controller's static configuration, one record field per attribute of
  the class with the class's defaults, the environment overlay \<open>from_env\<close>, and the host
  names resolved from the platform's base domain.
\<close>

section \<open>The configuration record\<close>

datatype auth_mode = TOKEN | KUBERNETES

fun auth_mode_value :: "auth_mode \<Rightarrow> string" where
  "auth_mode_value TOKEN = ''token''"
| "auth_mode_value KUBERNETES = ''kubernetes''"

text \<open>\<open>AuthMode(value)\<close> raises \<open>ValueError\<close> on any other string.\<close>

definition auth_mode_of :: "string \<Rightarrow> auth_mode option" where
  "auth_mode_of v =
     (if v = ''token'' then Some TOKEN
      else if v = ''kubernetes'' then Some KUBERNETES else None)"

record config =
  openbao_addr :: string
  kv_mount :: string
  auth_mode :: auth_mode
  token_secret_namespace :: string
  token_secret_name :: string
  token_secret_key :: string
  k8s_auth_mount :: string
  k8s_auth_role :: string
  jwt_path :: string
  authentik_addr :: string
  authentik_secret_path :: string
  authentik_token_key :: string
  authentik_public_host :: string
  authorization_flow_slug :: string
  invalidation_flow_slug :: string
  authentication_flow_slug :: string
  signing_key_name :: string
  cluster_secret_store :: string
  database_credentials_path :: string
  database_password_length :: int
  db_provision_image :: string
  argocd_namespace :: string
  argocd_project :: string
  odoo_image_repository :: string
  odoo_image_tag :: string
  base_domain :: string
  scoped_secrets_prefix :: string
  argo_namespace :: string
  build_workflow_template :: string
  build_service_account :: string
  harbor_host :: string
  harbor_project :: string
  harbor_username :: string
  harbor_secret_path :: string
  harbor_secret_key :: string
  harbor_push_endpoint :: string
  harbor_pull_secret_path :: string
  github_app_secret_path :: string
  github_app_id_key :: string
  github_app_private_key_key :: string
  webhook_host :: string
  cluster_issuer :: string
  preview_ingress_class :: string
  preview_sensor_service_account :: string
  github_api_url :: string
  s3_endpoint :: string
  s3_bucket :: string
  s3_secret_path :: string
  s3_access_key_key :: string
  s3_secret_key_key :: string
  snapshot_workflow_template :: string
  restore_workflow_template :: string
  snapshot_postgres_image :: string
  snapshot_awscli_image :: string
  odoo_notify_url :: string
  odoo_notify_secret_path :: string
  odoo_notify_token_key :: string

definition default_config :: config where
  "default_config = \<lparr>
     openbao_addr = ''http://openbao.openbao.svc.cluster.local:8200'',
     kv_mount = ''secret'',
     auth_mode = TOKEN,
     token_secret_namespace = ''openbao'',
     token_secret_name = ''openbao-keys'',
     token_secret_key = ''root-token'',
     k8s_auth_mount = ''kubernetes'',
     k8s_auth_role = ''adomi-platform-controller'',
     jwt_path = ''/var/run/secrets/kubernetes.io/serviceaccount/token'',
     authentik_addr = ''http://authentik-server.authentik.svc.cluster.local'',
     authentik_secret_path = ''authentik'',
     authentik_token_key = ''bootstrap-token'',
     authentik_public_host = [],
     authorization_flow_slug = ''default-provider-authorization-implicit-consent'',
     invalidation_flow_slug = ''default-provider-invalidation-flow'',
     authentication_flow_slug = ''default-authentication-flow'',
     signing_key_name = ''authentik Self-signed Certificate'',
     cluster_secret_store = ''openbao'',
     database_credentials_path = ''databases'',
     database_password_length = 32,
     db_provision_image = ''postgres:16'',
     argocd_namespace = ''argocd'',
     argocd_project = ''default'',
     odoo_image_repository = ''ghcr.io/adomi-io/odoo'',
     odoo_image_tag = ''19.0'',
     base_domain = [],
     scoped_secrets_prefix = ''scoped'',
     argo_namespace = ''argo'',
     build_workflow_template = ''odoo-image-build'',
     build_service_account = ''odoo-build'',
     harbor_host = [],
     harbor_project = ''previews'',
     harbor_username = ''admin'',
     harbor_secret_path = ''harbor-app'',
     harbor_secret_key = ''admin-password'',
     harbor_push_endpoint = [],
     harbor_pull_secret_path = ''harbor-pull'',
     github_app_secret_path = ''github-app'',
     github_app_id_key = ''app-id'',
     github_app_private_key_key = ''private-key'',
     webhook_host = [],
     cluster_issuer = ''letsencrypt-prod'',
     preview_ingress_class = ''traefik'',
     preview_sensor_service_account = ''odoo-previews'',
     github_api_url = ''https://api.github.com'',
     s3_endpoint = ''http://seaweedfs-s3.seaweedfs.svc.cluster.local:8333'',
     s3_bucket = ''platform'',
     s3_secret_path = ''s3'',
     s3_access_key_key = ''access-key'',
     s3_secret_key_key = ''secret-key'',
     snapshot_workflow_template = ''odoo-db-snapshot'',
     restore_workflow_template = ''odoo-db-restore'',
     snapshot_postgres_image = ''postgres:16'',
     snapshot_awscli_image = ''amazon/aws-cli:2'',
     odoo_notify_url = [],
     odoo_notify_secret_path = ''adomi-ingest'',
     odoo_notify_token_key = ''token''\<rparr>"

section \<open>The environment overlay\<close>

text \<open>
  \<open>_env\<close>: an unset or empty variable falls back to the default. The process environment
  is a map from names to values; \<open>None\<close> is the \<open>ValueError\<close> of an unknown auth mode.
\<close>

definition env_or :: "(string \<Rightarrow> string option) \<Rightarrow> string \<Rightarrow> string \<Rightarrow> string" where
  "env_or env name dflt = (case env name of
     Some v \<Rightarrow> (if v \<noteq> [] then v else dflt) | None \<Rightarrow> dflt)"

definition overlay :: "(string \<Rightarrow> string option) \<Rightarrow> auth_mode \<Rightarrow> config" where
  "overlay env mode = (let d = default_config in \<lparr>
     openbao_addr = env_or env ''OPENBAO_ADDR'' (openbao_addr d),
     kv_mount = env_or env ''OPENBAO_KV_MOUNT'' (kv_mount d),
     auth_mode = mode,
     token_secret_namespace = env_or env ''OPENBAO_TOKEN_SECRET_NAMESPACE'' (token_secret_namespace d),
     token_secret_name = env_or env ''OPENBAO_TOKEN_SECRET_NAME'' (token_secret_name d),
     token_secret_key = env_or env ''OPENBAO_TOKEN_SECRET_KEY'' (token_secret_key d),
     k8s_auth_mount = env_or env ''OPENBAO_KUBERNETES_AUTH_MOUNT'' (k8s_auth_mount d),
     k8s_auth_role = env_or env ''OPENBAO_KUBERNETES_AUTH_ROLE'' (k8s_auth_role d),
     jwt_path = env_or env ''OPENBAO_JWT_PATH'' (jwt_path d),
     authentik_addr = env_or env ''AUTHENTIK_ADDR'' (authentik_addr d),
     authentik_secret_path = env_or env ''AUTHENTIK_SECRET_PATH'' (authentik_secret_path d),
     authentik_token_key = env_or env ''AUTHENTIK_TOKEN_KEY'' (authentik_token_key d),
     authentik_public_host = env_or env ''AUTHENTIK_PUBLIC_HOST'' (authentik_public_host d),
     authorization_flow_slug = env_or env ''AUTHENTIK_AUTHORIZATION_FLOW'' (authorization_flow_slug d),
     invalidation_flow_slug = env_or env ''AUTHENTIK_INVALIDATION_FLOW'' (invalidation_flow_slug d),
     authentication_flow_slug = env_or env ''AUTHENTIK_AUTHENTICATION_FLOW'' (authentication_flow_slug d),
     signing_key_name = env_or env ''AUTHENTIK_SIGNING_KEY_NAME'' (signing_key_name d),
     cluster_secret_store = env_or env ''CLUSTER_SECRET_STORE'' (cluster_secret_store d),
     database_credentials_path = env_or env ''DATABASE_CREDENTIALS_PATH'' (database_credentials_path d),
     database_password_length = database_password_length d,
     db_provision_image = env_or env ''DB_PROVISION_IMAGE'' (db_provision_image d),
     argocd_namespace = env_or env ''ARGOCD_NAMESPACE'' (argocd_namespace d),
     argocd_project = env_or env ''ARGOCD_PROJECT'' (argocd_project d),
     odoo_image_repository = env_or env ''ODOO_IMAGE_REPOSITORY'' (odoo_image_repository d),
     odoo_image_tag = env_or env ''ODOO_IMAGE_TAG'' (odoo_image_tag d),
     base_domain = env_or env ''PLATFORM_BASE_DOMAIN'' (base_domain d),
     scoped_secrets_prefix = env_or env ''SCOPED_SECRETS_PREFIX'' (scoped_secrets_prefix d),
     argo_namespace = env_or env ''ARGO_NAMESPACE'' (argo_namespace d),
     build_workflow_template = env_or env ''BUILD_WORKFLOW_TEMPLATE'' (build_workflow_template d),
     build_service_account = env_or env ''BUILD_SERVICE_ACCOUNT'' (build_service_account d),
     harbor_host = env_or env ''HARBOR_HOST'' (harbor_host d),
     harbor_project = env_or env ''HARBOR_PROJECT'' (harbor_project d),
     harbor_username = env_or env ''HARBOR_USERNAME'' (harbor_username d),
     harbor_secret_path = env_or env ''HARBOR_SECRET_PATH'' (harbor_secret_path d),
     harbor_secret_key = env_or env ''HARBOR_SECRET_KEY'' (harbor_secret_key d),
     harbor_push_endpoint = env_or env ''HARBOR_PUSH_ENDPOINT'' (harbor_push_endpoint d),
     harbor_pull_secret_path = env_or env ''HARBOR_PULL_SECRET_PATH'' (harbor_pull_secret_path d),
     github_app_secret_path = env_or env ''GITHUB_APP_SECRET_PATH'' (github_app_secret_path d),
     github_app_id_key = env_or env ''GITHUB_APP_ID_KEY'' (github_app_id_key d),
     github_app_private_key_key = env_or env ''GITHUB_APP_PRIVATE_KEY_KEY'' (github_app_private_key_key d),
     webhook_host = env_or env ''WEBHOOK_HOST'' (webhook_host d),
     cluster_issuer = env_or env ''CLUSTER_ISSUER'' (cluster_issuer d),
     preview_ingress_class = env_or env ''PREVIEW_INGRESS_CLASS'' (preview_ingress_class d),
     preview_sensor_service_account = env_or env ''PREVIEW_SENSOR_SERVICE_ACCOUNT'' (preview_sensor_service_account d),
     github_api_url = env_or env ''GITHUB_API_URL'' (github_api_url d),
     s3_endpoint = env_or env ''S3_ENDPOINT'' (s3_endpoint d),
     s3_bucket = env_or env ''S3_BUCKET'' (s3_bucket d),
     s3_secret_path = env_or env ''S3_SECRET_PATH'' (s3_secret_path d),
     s3_access_key_key = env_or env ''S3_ACCESS_KEY_KEY'' (s3_access_key_key d),
     s3_secret_key_key = env_or env ''S3_SECRET_KEY_KEY'' (s3_secret_key_key d),
     snapshot_workflow_template = env_or env ''SNAPSHOT_WORKFLOW_TEMPLATE'' (snapshot_workflow_template d),
     restore_workflow_template = env_or env ''RESTORE_WORKFLOW_TEMPLATE'' (restore_workflow_template d),
     snapshot_postgres_image = env_or env ''SNAPSHOT_POSTGRES_IMAGE'' (snapshot_postgres_image d),
     snapshot_awscli_image = env_or env ''SNAPSHOT_AWSCLI_IMAGE'' (snapshot_awscli_image d),
     odoo_notify_url = env_or env ''ODOO_NOTIFY_URL'' (odoo_notify_url d),
     odoo_notify_secret_path = env_or env ''ODOO_NOTIFY_SECRET_PATH'' (odoo_notify_secret_path d),
     odoo_notify_token_key = env_or env ''ODOO_NOTIFY_TOKEN_KEY'' (odoo_notify_token_key d)\<rparr>)"

definition from_env :: "(string \<Rightarrow> string option) \<Rightarrow> config option" where
  "from_env env = map_option (overlay env)
     (auth_mode_of (env_or env ''OPENBAO_AUTH_MODE'' (auth_mode_value (auth_mode default_config))))"

section \<open>Resolved hosts\<close>

definition resolved_authentik_url :: "config \<Rightarrow> string" where
  "resolved_authentik_url cfg =
     (let host = sor (authentik_public_host cfg)
            (if base_domain cfg \<noteq> [] then ''auth.'' @ base_domain cfg else []) in
      if host = [] then []
      else if starts_with ''http://'' host \<or> starts_with ''https://'' host
      then rstrip_of ''/'' host
      else ''https://'' @ host)"

definition resolved_harbor_host :: "config \<Rightarrow> string" where
  "resolved_harbor_host cfg =
     (if harbor_host cfg \<noteq> [] then harbor_host cfg
      else if base_domain cfg \<noteq> [] then ''harbor.'' @ base_domain cfg
      else [])"

definition resolved_webhook_host :: "config \<Rightarrow> string" where
  "resolved_webhook_host cfg =
     (if webhook_host cfg \<noteq> [] then webhook_host cfg
      else if base_domain cfg \<noteq> [] then ''hooks.'' @ base_domain cfg
      else [])"

definition odoo_notify_enabled :: "config \<Rightarrow> bool" where
  "odoo_notify_enabled cfg \<longleftrightarrow> odoo_notify_url cfg \<noteq> []"

subsection \<open>Facts\<close>

lemma env_or_unset [simp]: "env name = None \<Longrightarrow> env_or env name d = d"
  by (simp add: env_or_def)

lemma env_or_nonempty: "d \<noteq> [] \<Longrightarrow> env_or env name d \<noteq> []"
  by (auto simp: env_or_def split: option.splits)

lemma auth_mode_default [simp]: "auth_mode default_config = TOKEN"
  by (simp add: default_config_def)

lemma overlay_unset: "overlay (\<lambda>_. None) TOKEN = default_config"
  by (simp add: overlay_def default_config_def env_or_def)

lemma from_env_defaults: "from_env (\<lambda>_. None) = Some default_config"
  by (simp add: from_env_def auth_mode_of_def overlay_unset)

lemma from_env_fails_iff:
  "from_env env = None \<longleftrightarrow>
     env_or env ''OPENBAO_AUTH_MODE'' ''token'' \<notin> {''token'', ''kubernetes''}"
  by (auto simp: from_env_def auth_mode_of_def)

text \<open>
  The settings the operator cannot run without are never empty, whatever the environment
  says: an empty variable counts as unset.
\<close>

lemma overlay_required:
  "openbao_addr (overlay env mode) \<noteq> []"
  "argo_namespace (overlay env mode) \<noteq> []"
  "argocd_namespace (overlay env mode) \<noteq> []"
  "cluster_secret_store (overlay env mode) \<noteq> []"
  "scoped_secrets_prefix (overlay env mode) \<noteq> []"
  by (simp_all add: overlay_def default_config_def env_or_nonempty)

lemma overlay_fixed:
  "database_password_length (overlay env mode) = 32"
  "auth_mode (overlay env mode) = mode"
  by (simp_all add: overlay_def default_config_def)

lemma from_env_required:
  assumes "from_env env = Some cfg"
  shows "openbao_addr cfg \<noteq> []" "argo_namespace cfg \<noteq> []" "argocd_namespace cfg \<noteq> []"
    "cluster_secret_store cfg \<noteq> []" "scoped_secrets_prefix cfg \<noteq> []"
    "database_password_length cfg = 32"
  using assms overlay_required overlay_fixed by (auto simp: from_env_def)

text \<open>
  A host that already carries a scheme keeps it, plain http included, and loses trailing
  slashes; a host without a scheme gets https but keeps a trailing slash.
\<close>

lemma authentik_url_cases:
  assumes "authentik_public_host cfg = h" and "h \<noteq> []"
  shows "resolved_authentik_url cfg =
     (if starts_with ''http://'' h \<or> starts_with ''https://'' h
      then rstrip_of ''/'' h else ''https://'' @ h)"
  using assms by (simp add: resolved_authentik_url_def Let_def sor_def)

text \<open>Reading the configuration from the environment fails exactly when
  \<open>OPENBAO_AUTH_MODE\<close> names no mode; otherwise the mode is the one named, and the settings
  the operator cannot run without are never empty: an empty variable counts as unset.\<close>

lemma from_env_checked:
  "case from_env env of
     None \<Rightarrow> env_or env ''OPENBAO_AUTH_MODE'' ''token'' \<notin> {''token'', ''kubernetes''}
   | Some cfg \<Rightarrow>
       auth_mode_value (auth_mode cfg) = env_or env ''OPENBAO_AUTH_MODE'' ''token'' \<and>
       openbao_addr cfg \<noteq> [] \<and> argo_namespace cfg \<noteq> [] \<and> argocd_namespace cfg \<noteq> [] \<and>
       cluster_secret_store cfg \<noteq> [] \<and> scoped_secrets_prefix cfg \<noteq> []"
proof (cases "from_env env")
  case None
  then have "env_or env ''OPENBAO_AUTH_MODE'' ''token'' \<notin> {''token'', ''kubernetes''}"
    by (rule from_env_fails_iff [THEN iffD1])
  with None show ?thesis unfolding None option.case by -
next
  case (Some cfg)
  then have "auth_mode_value (auth_mode cfg) = env_or env ''OPENBAO_AUTH_MODE'' ''token''"
    by (auto simp: from_env_def auth_mode_of_def overlay_fixed split: if_splits)
  with Some from_env_required [OF Some] show ?thesis by simp
qed

end
