(* ===== verification/Effects.thy ===== *)
theory Effects
  imports Prelude
begin

text \<open>
  How the reconcilers and clients act on the outside world.

  Everything the program talks to (the Kubernetes API server, OpenBao, Authentik,
  Harbor, GitHub, Forgejo, the clock, the random source) is code that is not part of the
  repository. A computation therefore runs against an \<^emph>\<open>environment\<close>: a function that
  answers each request from the requests and answers before it. The environment is a
  parameter of every definition; nothing is assumed about it unless a theorem says so.
  The model's state is the log of requests with their answers, the status patch that
  Kopf applies to the resource after the handler, and the process-wide caches.

  A Python exception is a value of \<open>exn\<close>; \<open>xerr\<close> are the errors an answer can carry, so
  an environment can never raise the controller's own exceptions.
\<close>

section \<open>Requests and answers\<close>

datatype verb = VGet | VList | VCreate | VPatch | VReplace | VDelete

text \<open>
  \<^item> \<open>Custom verb group/version plural namespace name body\<close>: \<open>CustomObjectsApi\<close> (an empty
    namespace is a cluster-scoped call);
  \<^item> \<open>Typed verb kind namespace name body\<close>: the typed clients (Secret, ConfigMap,
    Namespace, Ingress, Job);
  \<^item> \<open>Kv verb mount path token body\<close>: an OpenBao KV v2 request with the token in use;
  \<^item> \<open>KvLogin\<close>: the kubernetes auth method; \<open>Ak operation arguments\<close>: a method of the
    generated Authentik client; \<open>Http method url headers body\<close>: a REST call;
  \<^item> \<open>ReadFile\<close>, \<open>Now\<close>, \<open>Monotonic\<close>, \<open>RandBelow\<close>, \<open>SignJwt\<close>: the operating system's
    and libraries' own sources.
\<close>

datatype call =
    Custom verb string string string string json
  | Typed verb string string string json
  | Kv verb string string string json
  | KvLogin string string string string
  | Ak string json
  | Http string string "(string \<times> string) list" json
  | ReadFile string
  | Now
  | Monotonic
  | RandBelow nat
  | SignJwt json string

datatype xerr =
    ApiErr int string
  | HttpErr int string
  | InvalidPath
  | Denied
  | AkMissing
  | OtherErr string

type_synonym resp = "xerr + json"
type_synonym log = "(call \<times> resp) list"
type_synonym env = "log \<Rightarrow> call \<Rightarrow> resp"

section \<open>Exceptions\<close>

text \<open>\<open>PyError\<close> is an error of the interpreter itself, such as \<open>TypeError\<close>.\<close>

datatype exn =
    Ext xerr
  | NotFound string
  | Temporary string int
  | RuntimeError string
  | ValueError string
  | KeyMissing string
  | InvalidIdentifier string
  | OpenBaoError string
  | HarborError string
  | GitHubAppError string
  | SchemaError string
  | GitError string
  | NoManifest string
  | SecretsError string
  | IdentityError string
  | RegistryError string
  | ClusterError string
  | UserError string
  | ValidationError string
  | PlatformApiError string
  | GitHubError int string
  | PyError string
  | HttpException int string

text \<open>\<open>str(exc)\<close> for the exceptions the code formats into a message.\<close>

fun xerr_str :: "xerr \<Rightarrow> string" where
  "xerr_str (ApiErr n t) = ''('' @ int_str n @ '') Reason: '' @ t"
| "xerr_str (HttpErr n t) = ''HTTP Error '' @ int_str n @ '': '' @ t"
| "xerr_str InvalidPath = ''invalid path''"
| "xerr_str Denied = ''permission denied''"
| "xerr_str AkMissing = ''not found''"
| "xerr_str (OtherErr t) = t"

fun exn_str :: "exn \<Rightarrow> string" where
  "exn_str (Ext x) = xerr_str x"
| "exn_str (NotFound t) = t"
| "exn_str (Temporary t _) = t"
| "exn_str (RuntimeError t) = t"
| "exn_str (ValueError t) = t"
| "exn_str (KeyMissing t) = repr t"
| "exn_str (InvalidIdentifier t) = t"
| "exn_str (OpenBaoError t) = t"
| "exn_str (HarborError t) = t"
| "exn_str (GitHubAppError t) = t"
| "exn_str (SchemaError t) = t"
| "exn_str (GitError t) = t"
| "exn_str (NoManifest t) = t"
| "exn_str (SecretsError t) = t"
| "exn_str (IdentityError t) = t"
| "exn_str (RegistryError t) = t"
| "exn_str (ClusterError t) = t"
| "exn_str (UserError t) = t"
| "exn_str (ValidationError t) = t"
| "exn_str (PlatformApiError t) = t"
| "exn_str (GitHubError n t) = ''GitHub '' @ int_str n @ '': '' @ t"
| "exn_str (PyError t) = t"
| "exn_str (HttpException n t) = int_str n @ '': '' @ t"

fun is_temporary :: "exn \<Rightarrow> bool" where
  "is_temporary (Temporary _ _) = True"
| "is_temporary _ = False"

section \<open>The state of one handler run\<close>

text \<open>
  \<open>gh_auth\<close> is a cached \<open>GitHubAppAuth\<close> (its private key, and per repository the token
  with its monotonic deadline). \<open>status_patch\<close> is \<open>patch.status\<close>; the other fields are
  the module-level caches of the process: \<open>_ensured_projects\<close>, \<open>_app_auth_cache\<close>, the
  provider's token cache and the API's two credential caches. \<open>store_token\<close> is the token
  of the API's OpenBao client, which lives for one request.
\<close>

record gh_auth =
  gh_app_id :: string
  gh_key :: string
  gh_api :: string
  gh_tokens :: "((string \<times> string) \<times> (string \<times> int)) list"

record st =
  trace :: log
  status_patch :: dict
  ensured_projects :: "(string \<times> string) list"
  app_auths :: "((string \<times> string) \<times> gh_auth) list"
  cached_token :: string
  token_expiry :: int
  api_creds :: "(string \<times> (string \<times> int)) list"
  store_token :: string

definition init_st :: st where
  "init_st = \<lparr>trace = [], status_patch = [], ensured_projects = [], app_auths = [],
     cached_token = [], token_expiry = 0, api_creds = [], store_token = []\<rparr>"

section \<open>Computations\<close>

type_synonym 'a M = "env \<Rightarrow> st \<Rightarrow> (exn + 'a) \<times> st"

definition ret :: "'a \<Rightarrow> 'a M" where
  "ret x = (\<lambda>env s. (Inr x, s))"

definition raise :: "exn \<Rightarrow> 'a M" where
  "raise e = (\<lambda>env s. (Inl e, s))"

definition bindM :: "'a M \<Rightarrow> ('a \<Rightarrow> 'b M) \<Rightarrow> 'b M" where
  "bindM m f = (\<lambda>env s. case m env s of
     (Inl e, s') \<Rightarrow> (Inl e, s')
   | (Inr x, s') \<Rightarrow> f x env s')"

definition thenM :: "'a M \<Rightarrow> 'b M \<Rightarrow> 'b M" where
  "thenM m k = bindM m (\<lambda>_. k)"

definition tryM :: "'a M \<Rightarrow> (exn \<Rightarrow> 'a M) \<Rightarrow> 'a M" where
  "tryM m h = (\<lambda>env s. case m env s of
     (Inl e, s') \<Rightarrow> h e env s'
   | (Inr x, s') \<Rightarrow> (Inr x, s'))"

text \<open>\<open>except kopf.TemporaryError: raise\<close> followed by \<open>except Exception as exc\<close>.\<close>

definition try_keep :: "'a M \<Rightarrow> (exn \<Rightarrow> 'a M) \<Rightarrow> 'a M" where
  "try_keep m h = tryM m (\<lambda>e. if is_temporary e then raise e else h e)"

text \<open>\<open>except NotFound as exc\<close>: only that exception is handled.\<close>

definition on_not_found :: "'a M \<Rightarrow> (string \<Rightarrow> 'a M) \<Rightarrow> 'a M" where
  "on_not_found m h = tryM m (\<lambda>e. case e of NotFound t \<Rightarrow> h t | _ \<Rightarrow> raise e)"

text \<open>\<open>except ApiException as exc: if exc.status == ...\<close>: other errors pass.\<close>

definition on_status :: "int list \<Rightarrow> 'a M \<Rightarrow> 'a M \<Rightarrow> 'a M" where
  "on_status codes m h = tryM m (\<lambda>e. case e of
     Ext (ApiErr n _) \<Rightarrow> (if n \<in> set codes then h else raise e)
   | _ \<Rightarrow> raise e)"

text \<open>A best-effort step: any exception is logged and swallowed.\<close>

definition attempt :: "'a M \<Rightarrow> unit M" where
  "attempt m = tryM (thenM m (ret ())) (\<lambda>_. ret ())"

definition callM :: "call \<Rightarrow> json M" where
  "callM c = (\<lambda>env s.
     let r = env (trace s) c; s' = s\<lparr>trace := (c, r) # trace s\<rparr> in
     case r of Inl x \<Rightarrow> (Inl (Ext x), s') | Inr j \<Rightarrow> (Inr j, s'))"

definition getM :: "(st \<Rightarrow> 'a) \<Rightarrow> 'a M" where
  "getM f = (\<lambda>env s. (Inr (f s), s))"

definition modifyM :: "(st \<Rightarrow> st) \<Rightarrow> unit M" where
  "modifyM f = (\<lambda>env s. (Inr (), f s))"

text \<open>\<open>patch.status[k] = v\<close>\<close>

definition set_status :: "string \<Rightarrow> json \<Rightarrow> unit M" where
  "set_status k v = modifyM (\<lambda>s. s\<lparr>status_patch := dset k v (status_patch s)\<rparr>)"

text \<open>\<open>int(x)\<close> on a JSON value.\<close>

definition to_int :: "json \<Rightarrow> int M" where
  "to_int j = (case j of
     JInt i \<Rightarrow> ret i
   | JBool b \<Rightarrow> ret (if b then 1 else 0)
   | JStr s \<Rightarrow> (case py_int s of
        Some i \<Rightarrow> ret i
      | None \<Rightarrow> raise (ValueError (''invalid literal for int() with base 10: '' @ repr s)))
   | _ \<Rightarrow> raise (ValueError ''int() argument must be a string or a number''))"

text \<open>The result of a pure function that can raise.\<close>

definition of_result :: "exn + 'a \<Rightarrow> 'a M" where
  "of_result r = (case r of Inl e \<Rightarrow> raise e | Inr x \<Rightarrow> ret x)"

definition whenM :: "bool \<Rightarrow> unit M \<Rightarrow> unit M" where
  "whenM b m = (if b then m else ret ())"

fun forM :: "'a list \<Rightarrow> ('a \<Rightarrow> unit M) \<Rightarrow> unit M" where
  "forM [] f = ret ()"
| "forM (x # xs) f = thenM (f x) (forM xs f)"

fun mapM :: "('a \<Rightarrow> 'b M) \<Rightarrow> 'a list \<Rightarrow> 'b list M" where
  "mapM f [] = ret []"
| "mapM f (x # xs) = bindM (f x) (\<lambda>y. bindM (mapM f xs) (\<lambda>ys. ret (y # ys)))"

lemmas run_defs [run_simps] =
  ret_def raise_def bindM_def thenM_def tryM_def try_keep_def on_not_found_def
  on_status_def attempt_def callM_def getM_def modifyM_def set_status_def whenM_def
  Let_def

subsection \<open>Monad laws\<close>

lemma bindM_ret [simp]: "bindM (ret x) f = f x"
  by (simp add: bindM_def ret_def)

lemma bindM_ret_right [simp]: "bindM m ret = m"
  by (auto simp: bindM_def ret_def fun_eq_iff split: prod.splits sum.splits)

lemma bindM_assoc: "bindM (bindM m f) g = bindM m (\<lambda>x. bindM (f x) g)"
  by (auto simp: bindM_def fun_eq_iff split: prod.splits sum.splits)

lemma bindM_raise [simp]: "bindM (raise e) f = raise e"
  by (simp add: bindM_def raise_def)

lemma thenM_ret [simp]: "thenM (ret x) k = k"
  by (simp add: thenM_def)

lemma tryM_ret [simp]: "tryM (ret x) h = ret x"
  by (simp add: tryM_def ret_def)

lemma tryM_raise [simp]: "tryM (raise e) h = h e"
  by (simp add: tryM_def raise_def)

lemma bindM_Inr:
  "bindM m f env s = (Inr y, s'') \<longleftrightarrow>
     (\<exists>x s'. m env s = (Inr x, s') \<and> f x env s' = (Inr y, s''))"
  by (auto simp: bindM_def split: prod.splits sum.splits)

lemma thenM_Inr:
  "thenM m k env s = (Inr y, s'') \<longleftrightarrow>
     (\<exists>x s'. m env s = (Inr x, s') \<and> k env s' = (Inr y, s''))"
  by (auto simp: thenM_def bindM_Inr)

lemma tryM_Inr:
  "tryM m h env s = (Inr y, s'') \<longleftrightarrow>
     m env s = (Inr y, s'') \<or> (\<exists>e s'. m env s = (Inl e, s') \<and> h e env s' = (Inr y, s''))"
  by (auto simp: tryM_def split: prod.splits sum.splits)

lemma bindM_run: "m env s = (Inr x, s') \<Longrightarrow> bindM m f env s = f x env s'"
  by (simp add: bindM_def)

lemma bindM_err: "m env s = (Inl e, s') \<Longrightarrow> bindM m f env s = (Inl e, s')"
  by (simp add: bindM_def)

lemma thenM_run: "m env s = (Inr x, s') \<Longrightarrow> thenM m k env s = k env s'"
  by (simp add: thenM_def bindM_def)

lemma thenM_err: "m env s = (Inl e, s') \<Longrightarrow> thenM m k env s = (Inl e, s')"
  by (simp add: thenM_def bindM_def)

lemma attempt_returns: "\<exists>s'. attempt m env s = (Inr (), s')"
  by (auto simp: attempt_def tryM_def thenM_def bindM_def ret_def
      split: prod.splits sum.splits)

section \<open>What a computation requests\<close>

text \<open>
  \<open>only P m\<close>: whatever the environment answers, every request \<open>m\<close> makes satisfies \<open>P\<close>,
  and the log only grows. It is closed under all combinators, so a bound on a handler's
  requests follows from the bounds on its parts.
\<close>

definition only :: "(call \<Rightarrow> bool) \<Rightarrow> 'a M \<Rightarrow> bool" where
  "only P m \<longleftrightarrow> (\<forall>env s. \<exists>new. trace (snd (m env s)) = new @ trace s \<and>
     (\<forall>cr \<in> set new. P (fst cr)))"

named_theorems only_intros
  \<open>introduction rules: bounds on the requests of a computation\<close>

lemma onlyI:
  assumes "\<And>env s. \<exists>new. trace (snd (m env s)) = new @ trace s \<and> (\<forall>cr \<in> set new. P (fst cr))"
  shows "only P m"
  using assms by (simp add: only_def)

lemma onlyE:
  assumes "only P m"
  obtains new where "trace (snd (m env s)) = new @ trace s" and "\<forall>cr \<in> set new. P (fst cr)"
  using assms unfolding only_def by blast

lemma only_mono: "only P m \<Longrightarrow> (\<And>c. P c \<Longrightarrow> Q c) \<Longrightarrow> only Q m"
  unfolding only_def by meson

lemma only_ret [only_intros]: "only P (ret x)"
  by (simp add: only_def ret_def)

lemma only_raise [only_intros]: "only P (raise e)"
  by (simp add: only_def raise_def)

lemma only_getM [only_intros]: "only P (getM f)"
  by (simp add: only_def getM_def)

lemma only_modifyM: "(\<And>s. trace (f s) = trace s) \<Longrightarrow> only P (modifyM f)"
  by (simp add: only_def modifyM_def)

lemma only_set_status [only_intros]: "only P (set_status k v)"
  by (simp add: set_status_def only_modifyM)

lemma only_callM [only_intros]: "P c \<Longrightarrow> only P (callM c)"
proof (rule onlyI)
  fix env s
  assume "P c"
  then show "\<exists>new. trace (snd (callM c env s)) = new @ trace s \<and> (\<forall>cr \<in> set new. P (fst cr))"
    by (intro exI [of _ "[(c, env (trace s) c)]"])
       (auto simp: callM_def Let_def split: sum.splits)
qed

lemma only_bindM [only_intros]:
  assumes m: "only P m" and f: "\<And>x. only P (f x)"
  shows "only P (bindM m f)"
proof (rule onlyI)
  fix env s
  obtain new where n: "trace (snd (m env s)) = new @ trace s" "\<forall>cr \<in> set new. P (fst cr)"
    using m by (rule onlyE)
  show "\<exists>new. trace (snd (bindM m f env s)) = new @ trace s \<and> (\<forall>cr \<in> set new. P (fst cr))"
  proof (cases "m env s")
    case (Pair r s')
    show ?thesis
    proof (cases r)
      case (Inl e)
      with Pair n show ?thesis by (auto simp: bindM_def)
    next
      case (Inr x)
      obtain new' where "trace (snd (f x env s')) = new' @ trace s'"
        "\<forall>cr \<in> set new'. P (fst cr)"
        using f by (rule onlyE)
      with Pair Inr n show ?thesis
        by (intro exI [of _ "new' @ new"]) (auto simp: bindM_def)
    qed
  qed
qed

lemma only_thenM [only_intros]: "only P m \<Longrightarrow> only P k \<Longrightarrow> only P (thenM m k)"
  by (simp add: thenM_def only_bindM)

lemma only_tryM [only_intros]:
  assumes m: "only P m" and h: "\<And>e. only P (h e)"
  shows "only P (tryM m h)"
proof (rule onlyI)
  fix env s
  obtain new where n: "trace (snd (m env s)) = new @ trace s" "\<forall>cr \<in> set new. P (fst cr)"
    using m by (rule onlyE)
  show "\<exists>new. trace (snd (tryM m h env s)) = new @ trace s \<and> (\<forall>cr \<in> set new. P (fst cr))"
  proof (cases "m env s")
    case (Pair r s')
    show ?thesis
    proof (cases r)
      case (Inr x)
      with Pair n show ?thesis by (auto simp: tryM_def)
    next
      case (Inl e)
      obtain new' where "trace (snd (h e env s')) = new' @ trace s'"
        "\<forall>cr \<in> set new'. P (fst cr)"
        using h by (rule onlyE)
      with Pair Inl n show ?thesis
        by (intro exI [of _ "new' @ new"]) (auto simp: tryM_def)
    qed
  qed
qed

lemma only_if [only_intros]:
  "(b \<Longrightarrow> only P m) \<Longrightarrow> (\<not> b \<Longrightarrow> only P k) \<Longrightarrow> only P (if b then m else k)"
  by simp

lemma only_let [only_intros]: "only P (f x) \<Longrightarrow> only P (let y = x in f y)"
  by simp

lemma only_to_int [only_intros]: "only P (to_int j)"
  by (cases j) (auto simp: to_int_def intro!: only_ret only_raise split: option.split)

lemma only_of_result [only_intros]: "only P (of_result r)"
  by (simp add: of_result_def only_ret only_raise split: sum.split)

lemma only_case_option [only_intros]:
  "(x = None \<Longrightarrow> only P m) \<Longrightarrow> (\<And>y. x = Some y \<Longrightarrow> only P (f y)) \<Longrightarrow>
   only P (case x of None \<Rightarrow> m | Some y \<Rightarrow> f y)"
  by (cases x) simp_all

lemma only_case_prod [only_intros]:
  "(\<And>a b. x = (a, b) \<Longrightarrow> only P (f a b)) \<Longrightarrow> only P (case x of (a, b) \<Rightarrow> f a b)"
  by (cases x) simp

lemma only_case_list [only_intros]:
  "(x = [] \<Longrightarrow> only P m) \<Longrightarrow> (\<And>y ys. x = y # ys \<Longrightarrow> only P (f y ys)) \<Longrightarrow>
   only P (case x of [] \<Rightarrow> m | y # ys \<Rightarrow> f y ys)"
  by (cases x) simp_all

lemma only_case_sum [only_intros]:
  "(\<And>a. x = Inl a \<Longrightarrow> only P (f a)) \<Longrightarrow> (\<And>b. x = Inr b \<Longrightarrow> only P (g b)) \<Longrightarrow>
   only P (case x of Inl a \<Rightarrow> f a | Inr b \<Rightarrow> g b)"
  by (cases x) simp_all

lemma only_case_json [only_intros]:
  assumes "only P a" "\<And>b. only P (fb b)" "\<And>i. only P (fi i)" "\<And>s. only P (fs s)"
    "\<And>xs. only P (fx xs)" "\<And>d. only P (fd d)"
  shows "only P (case j of JNull \<Rightarrow> a | JBool b \<Rightarrow> fb b | JInt i \<Rightarrow> fi i | JStr s \<Rightarrow> fs s
    | JArr xs \<Rightarrow> fx xs | JObj d \<Rightarrow> fd d)"
  using assms by (cases j) simp_all

lemma only_case_exn:
  "(\<And>t. only P (f t)) \<Longrightarrow>
   only P (case e of NotFound t \<Rightarrow> f t | _ \<Rightarrow> (raise e :: 'a M))"
  by (cases e) (simp_all add: only_raise)

lemma only_try_keep [only_intros]:
  "only P m \<Longrightarrow> (\<And>e. only P (h e)) \<Longrightarrow> only P (try_keep m h)"
  unfolding try_keep_def by (intro only_intros)

lemma only_on_not_found [only_intros]:
  "only P m \<Longrightarrow> (\<And>t. only P (h t)) \<Longrightarrow> only P (on_not_found m h)"
  unfolding on_not_found_def by (intro only_intros only_case_exn)

lemma only_on_status [only_intros]:
  assumes "only P m" "only P h"
  shows "only P (on_status cs m h)"
  unfolding on_status_def
proof (rule only_tryM [OF assms(1)])
  fix e
  show "only P (case e of Ext (ApiErr n _) \<Rightarrow> if n \<in> set cs then h else raise e | _ \<Rightarrow> raise e)"
    using assms(2) by (auto simp: only_raise split: exn.split xerr.split)
qed

lemma only_attempt [only_intros]: "only P m \<Longrightarrow> only P (attempt m)"
  unfolding attempt_def by (intro only_intros)

lemma only_whenM [only_intros]: "(b \<Longrightarrow> only P m) \<Longrightarrow> only P (whenM b m)"
  by (simp add: whenM_def only_ret)

lemma only_forM [only_intros]:
  "(\<And>x. x \<in> set xs \<Longrightarrow> only P (f x)) \<Longrightarrow> only P (forM xs f)"
  by (induction xs) (auto intro: only_intros)

lemma only_mapM [only_intros]:
  "(\<And>x. x \<in> set xs \<Longrightarrow> only P (f x)) \<Longrightarrow> only P (mapM f xs)"
  by (induction xs) (auto intro!: only_intros)

section \<open>What a returning computation has seen\<close>

text \<open>
  \<open>logs Q m\<close>: whenever \<open>m\<close> returns, its log holds an exchange satisfying \<open>Q\<close>. A gate (a
  poll that must have succeeded) is proved at the poll and carried through the rest of the
  handler.
\<close>

definition logs :: "(call \<times> resp \<Rightarrow> bool) \<Rightarrow> 'a M \<Rightarrow> bool" where
  "logs Q m \<longleftrightarrow> (\<forall>env s x s'. m env s = (Inr x, s') \<longrightarrow> (\<exists>cr \<in> set (trace s'). Q cr))"

named_theorems logs_intros
  \<open>introduction rules: what a returning computation has seen\<close>

definition grows :: "'a M \<Rightarrow> bool" where
  "grows m \<longleftrightarrow> only (\<lambda>_. True) m"

lemma growsI [intro!]: "only (\<lambda>_. True) m \<Longrightarrow> grows m"
  by (simp add: grows_def)

lemma grows_set: "grows m \<Longrightarrow> m env s = (r, s') \<Longrightarrow> set (trace s) \<subseteq> set (trace s')"
  unfolding grows_def only_def by (metis snd_conv set_append sup_ge2)

lemma logs_bindM_right [logs_intros]: "(\<And>x. logs Q (f x)) \<Longrightarrow> logs Q (bindM m f)"
  unfolding logs_def bindM_Inr by blast

lemma logs_thenM_right [logs_intros]: "logs Q k \<Longrightarrow> logs Q (thenM m k)"
  unfolding thenM_def by (rule logs_bindM_right)

lemma logs_bindM_left: "logs Q m \<Longrightarrow> (\<And>x. grows (f x)) \<Longrightarrow> logs Q (bindM m f)"
  unfolding logs_def bindM_Inr by (meson grows_set subsetD)

lemma logs_thenM_left: "logs Q m \<Longrightarrow> grows k \<Longrightarrow> logs Q (thenM m k)"
  unfolding thenM_def by (rule logs_bindM_left)

lemma logs_case_prod [logs_intros]:
  "(\<And>a b. x = (a, b) \<Longrightarrow> logs Q (f a b)) \<Longrightarrow> logs Q (case x of (a, b) \<Rightarrow> f a b)"
  by (cases x) simp

lemma logs_if [logs_intros]:
  "(b \<Longrightarrow> logs Q m) \<Longrightarrow> (\<not> b \<Longrightarrow> logs Q k) \<Longrightarrow> logs Q (if b then m else k)"
  by simp

lemma logs_never: "(\<And>env s x s'. m env s \<noteq> (Inr x, s')) \<Longrightarrow> logs Q m"
  by (simp add: logs_def)

section \<open>Quiet computations\<close>

text \<open>
  A computation is quiet when it leaves the status patch alone and never raises a
  requeue: backend clients and resource wrappers are quiet, only handlers report.
\<close>

definition quiet :: "'a M \<Rightarrow> bool" where
  "quiet m \<longleftrightarrow> (\<forall>env s. status_patch (snd (m env s)) = status_patch s \<and>
     (\<forall>e. fst (m env s) = Inl e \<longrightarrow> \<not> is_temporary e))"

lemma quiet_ret [quiet_intros]: "quiet (ret x)"
  by (simp add: quiet_def ret_def)

lemma quiet_raise [quiet_intros]: "\<not> is_temporary e \<Longrightarrow> quiet (raise e)"
  by (simp add: quiet_def raise_def)

lemma quiet_callM [quiet_intros]: "quiet (callM c)"
  by (auto simp: quiet_def callM_def Let_def split: sum.splits)

lemma quiet_getM [quiet_intros]: "quiet (getM f)"
  by (simp add: quiet_def getM_def)

lemma quiet_modifyM: "(\<And>s. status_patch (f s) = status_patch s) \<Longrightarrow> quiet (modifyM f)"
  by (simp add: quiet_def modifyM_def)

lemma quiet_bindM [quiet_intros]: "quiet m \<Longrightarrow> (\<And>x. quiet (f x)) \<Longrightarrow> quiet (bindM m f)"
  by (auto simp: quiet_def bindM_def split: prod.splits sum.splits) (metis fst_conv snd_conv)+

lemma quiet_thenM [quiet_intros]: "quiet m \<Longrightarrow> quiet k \<Longrightarrow> quiet (thenM m k)"
  by (simp add: thenM_def quiet_bindM)

lemma quiet_tryM [quiet_intros]:
  assumes "quiet m" "\<And>e. \<not> is_temporary e \<Longrightarrow> quiet (h e)"
  shows "quiet (tryM m h)"
  unfolding quiet_def
proof (intro allI)
  fix env s
  obtain r s' where m: "m env s = (r, s')" by (cases "m env s")
  with assms(1) have p: "status_patch s' = status_patch s"
    and t: "\<And>e. r = Inl e \<Longrightarrow> \<not> is_temporary e"
    by (auto simp: quiet_def) (metis fst_conv snd_conv)+
  show "status_patch (snd (tryM m h env s)) = status_patch s \<and>
    (\<forall>e. fst (tryM m h env s) = Inl e \<longrightarrow> \<not> is_temporary e)"
  proof (cases r)
    case (Inl e)
    with t have "quiet (h e)" by (simp add: assms(2))
    with m Inl p show ?thesis by (simp add: tryM_def quiet_def)
  next
    case (Inr x)
    with m p show ?thesis by (simp add: tryM_def)
  qed
qed

lemma quiet_if [quiet_intros]:
  "(b \<Longrightarrow> quiet m) \<Longrightarrow> (\<not> b \<Longrightarrow> quiet k) \<Longrightarrow> quiet (if b then m else k)"
  by simp

lemma quiet_let [quiet_intros]: "quiet (f x) \<Longrightarrow> quiet (let y = x in f y)"
  by simp

lemma quiet_to_int [quiet_intros]: "quiet (to_int j)"
  by (cases j) (auto simp: to_int_def intro!: quiet_ret quiet_raise split: option.split)

lemma quiet_of_result [quiet_intros]:
  "(\<And>e. r = Inl e \<Longrightarrow> \<not> is_temporary e) \<Longrightarrow> quiet (of_result r)"
  by (auto simp: of_result_def intro: quiet_ret quiet_raise split: sum.split)

lemma quiet_case_option [quiet_intros]:
  "(x = None \<Longrightarrow> quiet m) \<Longrightarrow> (\<And>y. x = Some y \<Longrightarrow> quiet (f y)) \<Longrightarrow>
   quiet (case x of None \<Rightarrow> m | Some y \<Rightarrow> f y)"
  by (cases x) simp_all

lemma quiet_case_sum [quiet_intros]:
  "(\<And>a. x = Inl a \<Longrightarrow> quiet (f a)) \<Longrightarrow> (\<And>b. x = Inr b \<Longrightarrow> quiet (g b)) \<Longrightarrow>
   quiet (case x of Inl a \<Rightarrow> f a | Inr b \<Rightarrow> g b)"
  by (cases x) simp_all

lemma quiet_case_prod [quiet_intros]:
  "(\<And>a b. x = (a, b) \<Longrightarrow> quiet (f a b)) \<Longrightarrow> quiet (case x of (a, b) \<Rightarrow> f a b)"
  by (cases x) simp

lemma quiet_case_list [quiet_intros]:
  "(x = [] \<Longrightarrow> quiet m) \<Longrightarrow> (\<And>y ys. x = y # ys \<Longrightarrow> quiet (f y ys)) \<Longrightarrow>
   quiet (case x of [] \<Rightarrow> m | y # ys \<Rightarrow> f y ys)"
  by (cases x) simp_all

lemma quiet_on_not_found [quiet_intros]:
  assumes "quiet m" "\<And>t. quiet (h t)"
  shows "quiet (on_not_found m h)"
  unfolding on_not_found_def
proof (rule quiet_tryM [OF assms(1)])
  fix e
  assume "\<not> is_temporary e"
  then show "quiet (case e of NotFound t \<Rightarrow> h t | _ \<Rightarrow> raise e)"
    using assms(2) by (cases e) (auto intro: quiet_raise)
qed

lemma quiet_on_status [quiet_intros]:
  assumes "quiet m" "quiet h"
  shows "quiet (on_status cs m h)"
  unfolding on_status_def
proof (rule quiet_tryM [OF assms(1)])
  fix e
  assume "\<not> is_temporary e"
  then show "quiet (case e of Ext (ApiErr n _) \<Rightarrow> if n \<in> set cs then h else raise e
      | _ \<Rightarrow> raise e)"
    using assms(2) by (auto intro: quiet_raise split: exn.split xerr.split)
qed

lemma quiet_attempt [quiet_intros]: "quiet m \<Longrightarrow> quiet (attempt m)"
  unfolding attempt_def by (intro quiet_intros)

lemma quiet_whenM [quiet_intros]: "(b \<Longrightarrow> quiet m) \<Longrightarrow> quiet (whenM b m)"
  by (simp add: whenM_def quiet_ret)

lemma quiet_forM [quiet_intros]: "(\<And>x. x \<in> set xs \<Longrightarrow> quiet (f x)) \<Longrightarrow> quiet (forM xs f)"
  by (induction xs) (auto intro: quiet_intros)

lemma quiet_mapM [quiet_intros]: "(\<And>x. x \<in> set xs \<Longrightarrow> quiet (f x)) \<Longrightarrow> quiet (mapM f xs)"
  by (induction xs) (auto intro!: quiet_intros)

end
