(* ===== verification/Conditions.thy ===== *)
theory Conditions
  imports Effects
begin

text \<open>
  \<open>conditions.py\<close> and \<open>handlers/_common.py\<close>: the Ready condition every resource carries,
  the requeue helper \<open>fail\<close>, and the contract all reconcilers share. The contract is
  the locale \<open>reconciler\<close>; each handler theory interprets it on its own handler.
\<close>

section \<open>The Ready condition\<close>

abbreviation TYPE_READY :: string where "TYPE_READY \<equiv> ''Ready''"
abbreviation REASON_RECONCILED :: string where "REASON_RECONCILED \<equiv> ''Reconciled''"
abbreviation REASON_RECONCILING :: string where "REASON_RECONCILING \<equiv> ''Reconciling''"
abbreviation REASON_BACKEND_ERROR :: string where "REASON_BACKEND_ERROR \<equiv> ''BackendError''"
abbreviation REASON_DEPENDENCY_NOT_MET :: string where
  "REASON_DEPENDENCY_NOT_MET \<equiv> ''DependencyNotMet''"
abbreviation REASON_INVALID_SPEC :: string where "REASON_INVALID_SPEC \<equiv> ''InvalidSpec''"

text \<open>Reading the clock does not raise: \<open>_now()\<close> is whatever time the system reports.\<close>

definition now_utc :: "json M" where
  "now_utc = (\<lambda>env s. let r = env (trace s) Now in
     (Inr (case r of Inl _ \<Rightarrow> JNull | Inr t \<Rightarrow> t), s\<lparr>trace := (Now, r) # trace s\<rparr>))"

definition is_ready :: "json \<Rightarrow> bool" where
  "is_ready c \<longleftrightarrow> jget c ''type'' = JStr TYPE_READY"

fun upsert :: "json list \<Rightarrow> string \<Rightarrow> string \<Rightarrow> string \<Rightarrow> json \<Rightarrow> json list M" where
  "upsert [] st reason message generation =
     bindM now_utc (\<lambda>t. ret
       [JObj [(''type'', JStr TYPE_READY), (''status'', JStr st), (''reason'', JStr reason),
              (''message'', JStr message), (''observedGeneration'', generation),
              (''lastTransitionTime'', t)]])"
| "upsert (c # cs) st reason message generation =
     (if is_ready c
      then bindM (if jget c ''status'' \<noteq> JStr st
                  then bindM now_utc (\<lambda>t. ret (dset ''lastTransitionTime'' t (jdict c)))
                  else ret (jdict c))
             (\<lambda>d. ret (JObj (dset ''observedGeneration'' generation
                        (dset ''message'' (JStr message)
                        (dset ''reason'' (JStr reason)
                        (dset ''status'' (JStr st) d)))) # cs))
      else bindM (upsert cs st reason message generation) (\<lambda>cs'. ret (c # cs')))"

definition conditions_of :: "json \<Rightarrow> json list" where
  "conditions_of status = lget status ''conditions''"

definition mark_ready :: "json \<Rightarrow> string \<Rightarrow> json \<Rightarrow> unit M" where
  "mark_ready status message generation =
     bindM (upsert (conditions_of status) ''True'' REASON_RECONCILED
              (sor message ''Resource reconciled successfully'') generation)
       (\<lambda>cs. thenM (set_status ''conditions'' (JArr cs))
                  (set_status ''observedGeneration'' generation))"

definition mark_not_ready :: "json \<Rightarrow> string \<Rightarrow> string \<Rightarrow> json \<Rightarrow> unit M" where
  "mark_not_ready status reason message generation =
     bindM (upsert (conditions_of status) ''False'' reason message generation)
       (\<lambda>cs. thenM (set_status ''conditions'' (JArr cs))
                  (set_status ''observedGeneration'' generation))"

abbreviation DEPENDENCY_REQUEUE :: int where "DEPENDENCY_REQUEUE \<equiv> 30"

definition fail_after :: "int \<Rightarrow> json \<Rightarrow> string \<Rightarrow> string \<Rightarrow> json \<Rightarrow> 'a M" where
  "fail_after delay status reason message generation =
     thenM (mark_not_ready status reason message generation)
           (raise (Temporary message delay))"

abbreviation fail :: "json \<Rightarrow> string \<Rightarrow> string \<Rightarrow> json \<Rightarrow> 'a M" where
  "fail \<equiv> fail_after DEPENDENCY_REQUEUE"

text \<open>
  \<open>try: ... except Exception as exc: fail(..., f"<prefix>{exc}", ...)\<close> around a backend
  step, and the form that lets a requeue pass (\<open>except kopf.TemporaryError: raise\<close>).
\<close>

definition or_fail :: "json \<Rightarrow> json \<Rightarrow> string \<Rightarrow> 'a M \<Rightarrow> 'a M" where
  "or_fail status generation pre m =
     tryM m (\<lambda>e. fail status REASON_BACKEND_ERROR (pre @ exn_str e) generation)"

definition or_fail_keep :: "json \<Rightarrow> json \<Rightarrow> string \<Rightarrow> 'a M \<Rightarrow> 'a M" where
  "or_fail_keep status generation pre m =
     try_keep m (\<lambda>e. fail status REASON_BACKEND_ERROR (pre @ exn_str e) generation)"

text \<open>\<open>meta.get("generation", 0)\<close> and the class attributes of \<open>Reconciler\<close>.\<close>

definition generation_of :: "json \<Rightarrow> json" where
  "generation_of meta = (if jhas meta ''generation'' then jget meta ''generation'' else JInt 0)"

abbreviation PLATFORM_GROUP :: string where "PLATFORM_GROUP \<equiv> ''platform.adomi.io/v1alpha1''"
abbreviation MANAGED_BY :: string where "MANAGED_BY \<equiv> ''adomi-platform-controller''"

section \<open>What a condition list says\<close>

definition find_ready :: "json list \<Rightarrow> json option" where
  "find_ready cs = List.find is_ready cs"

text \<open>
  \<open>reported st reason message g p\<close>: the patch \<open>p\<close> carries a Ready condition with that
  status, reason, message and generation, and the same \<open>observedGeneration\<close> on the
  status.
\<close>

definition ready_says :: "string \<Rightarrow> string \<Rightarrow> string \<Rightarrow> json \<Rightarrow> json \<Rightarrow> bool" where
  "ready_says st reason message g c \<longleftrightarrow>
     is_ready c \<and> jget c ''status'' = JStr st \<and> jget c ''reason'' = JStr reason \<and>
     jget c ''message'' = JStr message \<and> jget c ''observedGeneration'' = g"

definition reported :: "string \<Rightarrow> string \<Rightarrow> string \<Rightarrow> json \<Rightarrow> dict \<Rightarrow> bool" where
  "reported st reason message g p \<longleftrightarrow>
     (case find_ready (jlist (jget (JObj p) ''conditions'')) of
        None \<Rightarrow> False
      | Some c \<Rightarrow> ready_says st reason message g c) \<and>
     dget p ''observedGeneration'' = Some g"

definition same_report :: "st \<Rightarrow> st \<Rightarrow> bool" where
  "same_report s s' \<longleftrightarrow>
     dget (status_patch s') ''conditions'' = dget (status_patch s) ''conditions'' \<and>
     dget (status_patch s') ''observedGeneration'' =
       dget (status_patch s) ''observedGeneration''"

lemma same_report_refl [simp]: "same_report s s"
  by (simp add: same_report_def)

lemma same_report_trans: "same_report s s' \<Longrightarrow> same_report s' s'' \<Longrightarrow> same_report s s''"
  by (simp add: same_report_def)

lemma now_utc_run [simp]:
  "now_utc env s = (Inr (case env (trace s) Now of Inl _ \<Rightarrow> JNull | Inr t \<Rightarrow> t),
     s\<lparr>trace := (Now, env (trace s) Now) # trace s\<rparr>)"
  by (simp add: now_utc_def Let_def)

text \<open>
  \<open>upsert\<close> always returns; only the log can have grown (by one reading of the clock),
  and the result has exactly one entry changed or added: the first Ready condition.
\<close>

lemma upsert_run:
  "\<exists>cs' s'. upsert cs st reason message g env s = (Inr cs', s') \<and>
     status_patch s' = status_patch s \<and>
     (\<exists>c. find_ready cs' = Some c \<and> ready_says st reason message g c)"
proof (induction cs arbitrary: s)
  case Nil
  show ?case
    by (simp add: bindM_def ret_def find_ready_def ready_says_def is_ready_def)
next
  case (Cons c cs)
  show ?case
  proof (cases "is_ready c")
    case True
    then show ?thesis
      by (cases c) (auto simp: bindM_def ret_def find_ready_def ready_says_def is_ready_def
          split: option.splits)
  next
    case False
    with Cons [of s] show ?thesis
      by (auto simp: bindM_def ret_def find_ready_def)
  qed
qed

lemma upsert_others:
  "upsert cs st reason message g env s = (Inr cs', s') \<Longrightarrow>
   filter (\<lambda>c. \<not> is_ready c) cs' = filter (\<lambda>c. \<not> is_ready c) cs"
proof (induction cs arbitrary: cs' s s')
  case Nil
  then show ?case by (auto simp: bindM_def ret_def is_ready_def)
next
  case (Cons c cs)
  show ?case
  proof (cases "is_ready c")
    case True
    with Cons.prems show ?thesis
      by (cases c) (auto simp: bindM_def ret_def is_ready_def split: if_splits option.splits)
  next
    case False
    with Cons.prems obtain ds where "upsert cs st reason message g env s = (Inr ds, s')"
      and "cs' = c # ds"
      by (auto simp: bindM_Inr ret_def)
    with Cons.IH False show ?thesis by simp
  qed
qed

text \<open>
  \<open>lastTransitionTime\<close> moves exactly when the status does, as the Kubernetes convention
  asks: an update that keeps the status keeps the time and does not read the clock.
\<close>

lemma upsert_same_status:
  assumes "find_ready cs = Some c" and "jget c ''status'' = JStr st"
  shows "\<exists>cs' c'. upsert cs st reason message g env s = (Inr cs', s) \<and>
     find_ready cs' = Some c' \<and>
     jget c' ''lastTransitionTime'' = jget c ''lastTransitionTime''"
  using assms
proof (induction cs)
  case Nil
  then show ?case by (simp add: find_ready_def)
next
  case (Cons d cs)
  show ?case
  proof (cases "is_ready d")
    case True
    with Cons.prems have "d = c" by (simp add: find_ready_def)
    with True Cons.prems show ?thesis
      by (cases c) (auto simp: bindM_def ret_def find_ready_def is_ready_def split: option.splits)
  next
    case False
    with Cons.prems have "find_ready cs = Some c" by (simp add: find_ready_def)
    with Cons.IH Cons.prems(2) obtain cs' c' where
      "upsert cs st reason message g env s = (Inr cs', s)" "find_ready cs' = Some c'"
      "jget c' ''lastTransitionTime'' = jget c ''lastTransitionTime''" by blast
    with False show ?thesis
      by (auto simp: bindM_def ret_def find_ready_def)
  qed
qed

lemma upsert_new_status:
  assumes "find_ready cs = Some c" and "jget c ''status'' \<noteq> JStr st"
    and "env (trace s) Now = Inr t"
  shows "\<exists>cs' s' c'. upsert cs st reason message g env s = (Inr cs', s') \<and>
     find_ready cs' = Some c' \<and> jget c' ''lastTransitionTime'' = t"
  using assms(1,2)
proof (induction cs)
  case Nil
  then show ?case by (simp add: find_ready_def)
next
  case (Cons d cs)
  show ?case
  proof (cases "is_ready d")
    case True
    with Cons.prems have "d = c" by (simp add: find_ready_def)
    with True Cons.prems assms(3) show ?thesis
      by (cases c) (auto simp: bindM_def ret_def find_ready_def is_ready_def split: option.splits)
  next
    case False
    with Cons.prems have "find_ready cs = Some c" by (simp add: find_ready_def)
    with Cons.IH Cons.prems(2) obtain cs' s' c' where
      "upsert cs st reason message g env s = (Inr cs', s')" "find_ready cs' = Some c'"
      "jget c' ''lastTransitionTime'' = t" by blast
    with False show ?thesis
      by (auto simp: bindM_def ret_def find_ready_def)
  qed
qed

lemma mark_ready_run:
  "\<exists>s'. mark_ready status message g env s = (Inr (), s') \<and>
     reported ''True'' REASON_RECONCILED (sor message ''Resource reconciled successfully'') g
       (status_patch s')"
proof -
  obtain cs' s1 c where "upsert (conditions_of status) ''True'' REASON_RECONCILED
      (sor message ''Resource reconciled successfully'') g env s = (Inr cs', s1)"
    and "find_ready cs' = Some c" and "ready_says ''True'' REASON_RECONCILED
      (sor message ''Resource reconciled successfully'') g c"
    using upsert_run by meson
  then show ?thesis
    by (simp add: mark_ready_def bindM_def thenM_def set_status_def modifyM_def reported_def)
qed

lemma fail_after_run:
  "\<exists>s'. fail_after d status reason message g env s = (Inl (Temporary message d), s') \<and>
     reported ''False'' reason message g (status_patch s')"
proof -
  obtain cs' s1 c where "upsert (conditions_of status) ''False'' reason message g env s
      = (Inr cs', s1)"
    and "find_ready cs' = Some c" and "ready_says ''False'' reason message g c"
    using upsert_run by meson
  then show ?thesis
    by (simp add: fail_after_def mark_not_ready_def bindM_def thenM_def set_status_def
        modifyM_def raise_def reported_def)
qed

text \<open>Reporting requests nothing but the clock.\<close>

lemma only_now_utc [only_intros]: "P Now \<Longrightarrow> only P now_utc"
  by (auto simp: only_def)

lemma only_upsert [only_intros]: "P Now \<Longrightarrow> only P (upsert cs st reason message g)"
  by (induction cs) (auto intro!: only_intros simp del: now_utc_run)

lemma only_mark_ready [only_intros]: "P Now \<Longrightarrow> only P (mark_ready status message g)"
  unfolding mark_ready_def by (intro only_intros)

lemma only_fail_after [only_intros]: "P Now \<Longrightarrow> only P (fail_after d status reason message g)"
  unfolding fail_after_def mark_not_ready_def by (intro only_intros)

lemma only_or_fail [only_intros]:
  "only P m \<Longrightarrow> P Now \<Longrightarrow> only P (or_fail status g pre m)"
  "only P m \<Longrightarrow> P Now \<Longrightarrow> only P (or_fail_keep status g pre m)"
  unfolding or_fail_def or_fail_keep_def by (intro only_intros; simp)+

section \<open>Guarded computations\<close>

text \<open>
  \<open>guarded g m\<close>: the part of a handler before it reports success. Every requeue it
  raises is preceded by a Ready=False report for generation \<open>g\<close> carrying the requeue's
  message; in every other outcome the report in the patch is what it was.
\<close>

fun guarded_ok :: "json \<Rightarrow> st \<Rightarrow> exn + 'a \<Rightarrow> st \<Rightarrow> bool" where
  "guarded_ok g s (Inr x) s' = same_report s s'"
| "guarded_ok g s (Inl e) s' =
     (if is_temporary e
      then \<exists>reason. reported ''False'' reason (exn_str e) g (status_patch s')
      else same_report s s')"

definition guarded :: "json \<Rightarrow> 'a M \<Rightarrow> bool" where
  "guarded g m \<longleftrightarrow> (\<forall>env s. guarded_ok g s (fst (m env s)) (snd (m env s)))"

lemma guardedI:
  "(\<And>env s r s'. m env s = (r, s') \<Longrightarrow> guarded_ok g s r s') \<Longrightarrow> guarded g m"
  unfolding guarded_def by (metis prod.collapse)

lemma guardedD: "guarded g m \<Longrightarrow> m env s = (r, s') \<Longrightarrow> guarded_ok g s r s'"
  unfolding guarded_def by (metis fst_conv snd_conv)

lemma guarded_ok_trans: "same_report s s1 \<Longrightarrow> guarded_ok g s1 r s' \<Longrightarrow> guarded_ok g s r s'"
  by (cases r) (auto intro: same_report_trans split: if_splits)

lemma guarded_quiet: "quiet m \<Longrightarrow> guarded g m"
proof (rule guardedI)
  fix env s r s'
  assume "quiet m" and m: "m env s = (r, s')"
  then have "status_patch s' = status_patch s" and "\<And>e. r = Inl e \<Longrightarrow> \<not> is_temporary e"
    unfolding quiet_def by (metis fst_conv snd_conv)+
  then show "guarded_ok g s r s'"
    by (cases r) (auto simp: same_report_def)
qed

lemma guarded_ret [guarded_intros]: "guarded g (ret x)"
  by (rule guarded_quiet [OF quiet_ret])

lemma guarded_raise [guarded_intros]: "\<not> is_temporary e \<Longrightarrow> guarded g (raise e)"
  by (rule guarded_quiet [OF quiet_raise])

lemma guarded_fail [guarded_intros]: "guarded g (fail_after d status reason message g)"
proof (rule guardedI)
  fix env s r s'
  assume "(fail_after d status reason message g :: 'a M) env s = (r, s')"
  moreover obtain s'' where "(fail_after d status reason message g :: 'a M) env s =
      (Inl (Temporary message d), s'')" "reported ''False'' reason message g (status_patch s'')"
    using fail_after_run by blast
  ultimately show "guarded_ok g s r s'" by auto
qed

lemma guarded_set_status [guarded_intros]:
  "k \<noteq> ''conditions'' \<Longrightarrow> k \<noteq> ''observedGeneration'' \<Longrightarrow> guarded g (set_status k v)"
  by (rule guardedI) (auto simp: set_status_def modifyM_def same_report_def)

lemma guarded_bindM [guarded_intros]:
  assumes m: "guarded g m" and f: "\<And>x. guarded g (f x)"
  shows "guarded g (bindM m f)"
proof (rule guardedI)
  fix env s r s'
  assume b: "bindM m f env s = (r, s')"
  obtain r1 s1 where 1: "m env s = (r1, s1)" by (cases "m env s")
  with m have ok: "guarded_ok g s r1 s1" by (rule guardedD)
  show "guarded_ok g s r s'"
  proof (cases r1)
    case (Inl e)
    with b 1 ok show ?thesis by (auto simp: bindM_def)
  next
    case (Inr x)
    with b 1 have "f x env s1 = (r, s')" by (simp add: bindM_def)
    with f have "guarded_ok g s1 r s'" by (rule guardedD)
    with ok Inr show ?thesis by (auto intro: guarded_ok_trans)
  qed
qed

lemma guarded_thenM [guarded_intros]: "guarded g m \<Longrightarrow> guarded g k \<Longrightarrow> guarded g (thenM m k)"
  by (simp add: thenM_def guarded_bindM)

lemma guarded_tryM_keep:
  assumes m: "guarded g m" and h: "\<And>e. \<not> is_temporary e \<Longrightarrow> guarded g (h e)"
    and t: "\<And>e. is_temporary e \<Longrightarrow> h e = raise e"
  shows "guarded g (tryM m h)"
proof (rule guardedI)
  fix env s r s'
  assume b: "tryM m h env s = (r, s')"
  obtain r1 s1 where 1: "m env s = (r1, s1)" by (cases "m env s")
  with m have ok: "guarded_ok g s r1 s1" by (rule guardedD)
  show "guarded_ok g s r s'"
  proof (cases "\<exists>e. r1 = Inl e \<and> \<not> is_temporary e")
    case True
    then obtain e where e: "r1 = Inl e" "\<not> is_temporary e" by blast
    with b 1 have "h e env s1 = (r, s')" by (simp add: tryM_def)
    with h [OF e(2)] have "guarded_ok g s1 r s'" by (rule guardedD)
    with ok e show ?thesis by (auto intro: guarded_ok_trans)
  next
    case False
    with b 1 t have "r = r1 \<and> s' = s1"
      by (cases r1) (auto simp: tryM_def raise_def)
    with ok show ?thesis by simp
  qed
qed

lemma guarded_try_keep [guarded_intros]:
  "guarded g m \<Longrightarrow> (\<And>e. guarded g (h e)) \<Longrightarrow> guarded g (try_keep m h)"
  unfolding try_keep_def by (rule guarded_tryM_keep) auto

text \<open>\<open>except Exception\<close> around a quiet body never swallows a requeue.\<close>

lemma guarded_tryM [guarded_intros]:
  assumes q: "quiet m" and h: "\<And>e. guarded g (h e)"
  shows "guarded g (tryM m h)"
proof -
  have "tryM m h env s = try_keep m h env s" for env s
  proof (cases "m env s")
    case (Pair r s')
    with q have "\<And>e. r = Inl e \<Longrightarrow> \<not> is_temporary e"
      unfolding quiet_def by (metis fst_conv)
    with Pair show ?thesis by (cases r) (auto simp: tryM_def try_keep_def)
  qed
  then have "tryM m h = try_keep m h" by (auto simp: fun_eq_iff)
  then show ?thesis
    using guarded_try_keep [OF guarded_quiet [OF q] h] by simp
qed

lemma guarded_on_not_found [guarded_intros]:
  assumes "quiet m" "\<And>t. guarded g (h t)"
  shows "guarded g (on_not_found m h)"
  unfolding on_not_found_def
proof (rule guarded_tryM_keep [OF guarded_quiet [OF assms(1)]])
  fix e
  show "guarded g (case e of NotFound t \<Rightarrow> h t | _ \<Rightarrow> raise e)" if "\<not> is_temporary e"
    using that assms(2) by (cases e) (auto intro: guarded_raise)
  show "(case e of NotFound t \<Rightarrow> h t | _ \<Rightarrow> raise e) = raise e" if "is_temporary e"
    using that by (cases e) auto
qed

lemma guarded_on_status [guarded_intros]:
  assumes "quiet m" "guarded g h"
  shows "guarded g (on_status cs m h)"
  unfolding on_status_def
proof (rule guarded_tryM_keep [OF guarded_quiet [OF assms(1)]])
  fix e
  let ?h = "case e of Ext (ApiErr n _) \<Rightarrow> if n \<in> set cs then h else raise e | _ \<Rightarrow> raise e"
  show "guarded g ?h" if "\<not> is_temporary e"
    using that assms(2) by (auto intro: guarded_raise split: exn.split xerr.split)
  show "?h = raise e" if "is_temporary e"
    using that by (cases e) auto
qed

lemma guarded_if [guarded_intros]:
  "(b \<Longrightarrow> guarded g m) \<Longrightarrow> (\<not> b \<Longrightarrow> guarded g k) \<Longrightarrow> guarded g (if b then m else k)"
  by simp

lemma guarded_let [guarded_intros]: "guarded g (f x) \<Longrightarrow> guarded g (let y = x in f y)"
  by simp

lemma guarded_case_option [guarded_intros]:
  "(x = None \<Longrightarrow> guarded g m) \<Longrightarrow> (\<And>y. x = Some y \<Longrightarrow> guarded g (f y)) \<Longrightarrow>
   guarded g (case x of None \<Rightarrow> m | Some y \<Rightarrow> f y)"
  by (cases x) simp_all

lemma guarded_case_sum [guarded_intros]:
  "(\<And>a. x = Inl a \<Longrightarrow> guarded g (f a)) \<Longrightarrow> (\<And>b. x = Inr b \<Longrightarrow> guarded g (h b)) \<Longrightarrow>
   guarded g (case x of Inl a \<Rightarrow> f a | Inr b \<Rightarrow> h b)"
  by (cases x) simp_all

lemma guarded_case_prod [guarded_intros]:
  "(\<And>a b. x = (a, b) \<Longrightarrow> guarded g (f a b)) \<Longrightarrow> guarded g (case x of (a, b) \<Rightarrow> f a b)"
  by (cases x) simp

lemma guarded_case_list [guarded_intros]:
  "(x = [] \<Longrightarrow> guarded g m) \<Longrightarrow> (\<And>y ys. x = y # ys \<Longrightarrow> guarded g (f y ys)) \<Longrightarrow>
   guarded g (case x of [] \<Rightarrow> m | y # ys \<Rightarrow> f y ys)"
  by (cases x) simp_all

lemma guarded_whenM [guarded_intros]: "(b \<Longrightarrow> guarded g m) \<Longrightarrow> guarded g (whenM b m)"
  by (simp add: whenM_def guarded_ret)

lemma guarded_or_fail [guarded_intros]: "quiet m \<Longrightarrow> guarded g (or_fail status g pre m)"
  unfolding or_fail_def by (intro guarded_intros)

lemma guarded_or_fail_keep [guarded_intros]:
  "guarded g m \<Longrightarrow> guarded g (or_fail_keep status g pre m)"
  unfolding or_fail_keep_def by (intro guarded_intros)

section \<open>The reconciler contract\<close>

text \<open>
  \<open>reports g m\<close>: a whole handler. When it returns, the patch says Ready=True with reason
  \<open>Reconciled\<close> for generation \<open>g\<close>; when it requeues, the patch says Ready=False for \<open>g\<close>
  with the requeue's message; when any other exception escapes, it has reported nothing.
\<close>

fun reports_ok :: "json \<Rightarrow> st \<Rightarrow> exn + unit \<Rightarrow> st \<Rightarrow> bool" where
  "reports_ok g s (Inr _) s' =
     (\<exists>msg. reported ''True'' REASON_RECONCILED msg g (status_patch s'))"
| "reports_ok g s (Inl e) s' =
     (if is_temporary e
      then \<exists>reason. reported ''False'' reason (exn_str e) g (status_patch s')
      else same_report s s')"

definition reports :: "json \<Rightarrow> unit M \<Rightarrow> bool" where
  "reports g m \<longleftrightarrow> (\<forall>env s. reports_ok g s (fst (m env s)) (snd (m env s)))"

named_theorems reports_intros
  \<open>introduction rules: a handler meets the reconciler contract\<close>

lemma reportsI:
  "(\<And>env s r s'. m env s = (r, s') \<Longrightarrow> reports_ok g s r s') \<Longrightarrow> reports g m"
  unfolding reports_def by (metis prod.collapse)

lemma reportsD: "reports g m \<Longrightarrow> m env s = (r, s') \<Longrightarrow> reports_ok g s r s'"
  unfolding reports_def by (metis fst_conv snd_conv)

lemma reports_ok_trans: "same_report s s1 \<Longrightarrow> reports_ok g s1 r s' \<Longrightarrow> reports_ok g s r s'"
  by (cases r) (auto intro: same_report_trans split: if_splits)

lemma reports_mark_ready [reports_intros]: "reports g (mark_ready status message g)"
proof (rule reportsI)
  fix env s r s'
  assume "mark_ready status message g env s = (r, s')"
  with mark_ready_run [of status message g env s] show "reports_ok g s r s'" by auto
qed

lemma reports_fail [reports_intros]: "reports g (fail_after d status reason message g)"
proof (rule reportsI)
  fix env s r s'
  assume "fail_after d status reason message g env s = (r :: exn + unit, s')"
  moreover obtain s'' where "(fail_after d status reason message g :: unit M) env s =
      (Inl (Temporary message d), s'')" "reported ''False'' reason message g (status_patch s'')"
    using fail_after_run by blast
  ultimately show "reports_ok g s r s'" by auto
qed

lemma reports_bindM [reports_intros]:
  assumes m: "guarded g m" and f: "\<And>x. reports g (f x)"
  shows "reports g (bindM m f)"
proof (rule reportsI)
  fix env s r s'
  assume b: "bindM m f env s = (r, s')"
  obtain r1 s1 where 1: "m env s = (r1, s1)" by (cases "m env s")
  with m have ok: "guarded_ok g s r1 s1" by (rule guardedD)
  show "reports_ok g s r s'"
  proof (cases r1)
    case (Inl e)
    with b 1 ok show ?thesis by (auto simp: bindM_def)
  next
    case (Inr x)
    with b 1 have "f x env s1 = (r, s')" by (simp add: bindM_def)
    with f have "reports_ok g s1 r s'" by (rule reportsD)
    with ok Inr show ?thesis by (auto intro: reports_ok_trans)
  qed
qed

lemma reports_thenM [reports_intros]: "guarded g m \<Longrightarrow> reports g k \<Longrightarrow> reports g (thenM m k)"
  by (simp add: thenM_def reports_bindM)

lemma reports_if [reports_intros]:
  "(b \<Longrightarrow> reports g m) \<Longrightarrow> (\<not> b \<Longrightarrow> reports g k) \<Longrightarrow> reports g (if b then m else k)"
  by simp

lemma reports_let [reports_intros]: "reports g (f x) \<Longrightarrow> reports g (let y = x in f y)"
  by simp

lemma reports_case_prod [reports_intros]:
  "(\<And>a b. x = (a, b) \<Longrightarrow> reports g (f a b)) \<Longrightarrow> reports g (case x of (a, b) \<Rightarrow> f a b)"
  by (cases x) simp

text \<open>
  Kopf merges the status patch into the object after the handler, whether it returned
  or requeued: every key of the patch replaces the key of the status.
\<close>

definition merge_status :: "json \<Rightarrow> dict \<Rightarrow> json" where
  "merge_status status p = JObj (dupdate (jdict status) p)"

text \<open>The interface: what the operator's runtime may rely on from any reconcile handler.\<close>

locale reconciler =
  fixes run :: "json \<Rightarrow> json \<Rightarrow> json \<Rightarrow> string \<Rightarrow> string \<Rightarrow> unit M"
  assumes contract: "reports (generation_of meta) (run spec meta status name ns)"
begin

lemma returns_ready:
  assumes "run spec meta status name ns env s = (Inr (), s')"
  shows "\<exists>msg. reported ''True'' REASON_RECONCILED msg (generation_of meta) (status_patch s')"
  using reportsD [OF contract assms] by simp

lemma requeue_not_ready:
  assumes "run spec meta status name ns env s = (Inl (Temporary msg d), s')"
  shows "\<exists>reason. reported ''False'' reason msg (generation_of meta) (status_patch s')"
  using reportsD [OF contract assms] by simp

lemma escape_reports_nothing:
  assumes "run spec meta status name ns env s = (Inl e, s')" and "\<not> is_temporary e"
  shows "same_report s s'"
  using reportsD [OF contract assms(1)] assms(2) by simp

text \<open>A Ready=True report for the current generation means the handler returned.\<close>

lemma ready_only_if_returned:
  assumes r: "run spec meta status name ns env init_st = (r, s')"
    and p: "reported ''True'' reason msg g (status_patch s')"
  shows "r = Inr ()"
proof (rule ccontr)
  assume "r \<noteq> Inr ()"
  then obtain e where e: "r = Inl e" by (cases r) auto
  show False
  proof (cases "is_temporary e")
    case True
    then obtain t d where "e = Temporary t d" by (cases e) auto
    with e r requeue_not_ready obtain why where
      "reported ''False'' why t (generation_of meta) (status_patch s')" by blast
    with p show False
      by (auto simp: reported_def ready_says_def split: option.splits)
  next
    case False
    with e r have "same_report init_st s'" using escape_reports_nothing by blast
    with p show False
      by (auto simp: same_report_def init_st_def reported_def)
  qed
qed

end

section \<open>Properties\<close>

text \<open>Updating the Ready condition follows the Kubernetes convention:
  \<open>lastTransitionTime\<close> is kept when the status is unchanged (the clock is not even read)
  and becomes the current time when it changes; status, reason, message and generation
  are the new ones; every other condition is untouched.\<close>

lemma ready_transition_time:
  assumes "find_ready cs = Some c" and "env (trace s) Now = Inr t"
  shows "\<exists>cs' s' c'. upsert cs st reason message g env s = (Inr cs', s') \<and>
     find_ready cs' = Some c' \<and> ready_says st reason message g c' \<and>
     filter (\<lambda>c. \<not> is_ready c) cs' = filter (\<lambda>c. \<not> is_ready c) cs \<and>
     (if jget c ''status'' = JStr st
      then jget c' ''lastTransitionTime'' = jget c ''lastTransitionTime'' \<and> s' = s
      else jget c' ''lastTransitionTime'' = t)"
proof -
  obtain cs' s' c' where r: "upsert cs st reason message g env s = (Inr cs', s')"
    and c: "find_ready cs' = Some c'" "ready_says st reason message g c'"
    using upsert_run by meson
  have "if jget c ''status'' = JStr st
      then jget c' ''lastTransitionTime'' = jget c ''lastTransitionTime'' \<and> s' = s
      else jget c' ''lastTransitionTime'' = t"
  proof (cases "jget c ''status'' = JStr st")
    case True
    with upsert_same_status [OF assms(1), of st reason message g env s] r c show ?thesis by auto
  next
    case False
    with upsert_new_status [where env = env and s = s and t = t and cs = cs and c = c
        and st = st and reason = reason and message = message and g = g] assms r c
    show ?thesis by auto
  qed
  with r c upsert_others [OF r] show ?thesis by blast
qed

lemma ready_transition_time_witness:
  "\<exists>cs' s' c'. upsert [JObj [(''type'', JStr ''Ready''), (''status'', JStr ''False'')]]
       ''True'' ''Reconciled'' ''ok'' (JInt 2) (\<lambda>l c. Inr (JStr ''now'')) init_st = (Inr cs', s') \<and>
     find_ready cs' = Some c' \<and> jget c' ''lastTransitionTime'' = JStr ''now''"
  using ready_transition_time [of "[JObj [(''type'', JStr ''Ready''), (''status'', JStr ''False'')]]"
      "JObj [(''type'', JStr ''Ready''), (''status'', JStr ''False'')]"
      "\<lambda>l c. Inr (JStr ''now'')" init_st "JStr ''now''" "''True''" "''Reconciled''" "''ok''"
      "JInt 2"]
  by (auto simp: find_ready_def is_ready_def)

end
