(* ===== verification/Kube.thy ===== *)
theory Kube
  imports Conditions
begin

text \<open>
  \<open>kube.py\<close>, \<open>namespaces.py\<close>: the base classes of the Kubernetes resources the controller
  manages, and the contract every \<open>apply()\<close> shares. \<open>CustomResource\<close> is the record
  \<open>custom_resource\<close> (its class attributes, its name and its manifest); \<open>TypedResource\<close> is
  the record of the four hooks a subclass implements.
\<close>

section \<open>Custom resources\<close>

record custom_resource =
  cr_api :: string
  cr_plural :: string
  cr_namespace :: string
  cr_name :: string
  cr_manifest :: json

definition read_custom :: "string \<Rightarrow> string \<Rightarrow> string \<Rightarrow> string \<Rightarrow> json option M" where
  "read_custom api plural name ns =
     on_status [404]
       (bindM (callM (Custom VGet api plural ns name JNull)) (\<lambda>j. ret (Some j)))
       (ret None)"

definition get_custom :: "custom_resource \<Rightarrow> json option M" where
  "get_custom r = read_custom (cr_api r) (cr_plural r) (cr_name r) (cr_namespace r)"

definition create_custom :: "custom_resource \<Rightarrow> json M" where
  "create_custom r =
     callM (Custom VCreate (cr_api r) (cr_plural r) (cr_namespace r) (cr_name r) (cr_manifest r))"

definition patch_custom :: "custom_resource \<Rightarrow> json M" where
  "patch_custom r =
     callM (Custom VPatch (cr_api r) (cr_plural r) (cr_namespace r) (cr_name r) (cr_manifest r))"

definition replace_custom :: "custom_resource \<Rightarrow> json \<Rightarrow> json M" where
  "replace_custom r body =
     callM (Custom VReplace (cr_api r) (cr_plural r) (cr_namespace r) (cr_name r) body)"

definition apply_custom :: "custom_resource \<Rightarrow> json M" where
  "apply_custom r =
     bindM (get_custom r) (\<lambda>found. case found of
       None \<Rightarrow> create_custom r
     | Some _ \<Rightarrow> patch_custom r)"

definition delete_custom :: "string \<Rightarrow> string \<Rightarrow> string \<Rightarrow> string \<Rightarrow> unit M" where
  "delete_custom api plural name ns =
     on_status [404]
       (thenM (callM (Custom VDelete api plural ns name JNull)) (ret ()))
       (ret ())"

section \<open>Typed resources\<close>

record typed_resource =
  tr_read :: "json M"
  tr_create :: "json M"
  tr_patch :: "json M"
  tr_delete :: "json M"
  tr_ignore :: "int list"

definition apply_typed :: "typed_resource \<Rightarrow> unit M" where
  "apply_typed r =
     bindM (on_status [404] (thenM (tr_read r) (ret True)) (thenM (tr_create r) (ret False)))
       (\<lambda>found. if found then thenM (tr_patch r) (ret ()) else ret ())"

definition delete_typed :: "typed_resource \<Rightarrow> unit M" where
  "delete_typed r = on_status (tr_ignore r) (thenM (tr_delete r) (ret ())) (ret ())"

text \<open>The class attribute \<open>DELETE_IGNORE_STATUSES\<close> of the base class.\<close>

definition delete_ignore_statuses :: "int list" where
  "delete_ignore_statuses = [404]"

section \<open>Namespaces\<close>

record k8s_namespace =
  nsp_name :: string
  nsp_labels :: "(string \<times> string) list"

definition namespace_body :: "k8s_namespace \<Rightarrow> json" where
  "namespace_body n = JObj [(''metadata'', JObj
     [(''name'', JStr (nsp_name n)), (''labels'', str_dict (nsp_labels n))])]"

definition namespace_resource :: "k8s_namespace \<Rightarrow> typed_resource" where
  "namespace_resource n =
     \<lparr> tr_read = callM (Typed VGet ''Namespace'' [] (nsp_name n) JNull),
       tr_create = callM (Typed VCreate ''Namespace'' [] (nsp_name n) (namespace_body n)),
       tr_patch = (if nsp_labels n \<noteq> []
         then callM (Typed VPatch ''Namespace'' [] (nsp_name n)
                (JObj [(''metadata'', JObj [(''labels'', str_dict (nsp_labels n))])]))
         else ret JNull),
       tr_delete = callM (Typed VDelete ''Namespace'' [] (nsp_name n) JNull),
       tr_ignore = [404, 409] \<rparr>"

definition apply_namespace :: "k8s_namespace \<Rightarrow> unit M" where
  "apply_namespace n = apply_typed (namespace_resource n)"

definition delete_namespace :: "k8s_namespace \<Rightarrow> unit M" where
  "delete_namespace n = delete_typed (namespace_resource n)"

section \<open>The objects of the cluster\<close>

text \<open>
  An object's key is its kind, namespace and name. \<open>live l k\<close> reads the log:
  some request on \<open>k\<close> succeeded and no delete of \<open>k\<close> has succeeded since. \<open>kube_faithful\<close> states what the API server
  documents, for a cluster where only this run deletes: an object that exists is not
  reported missing.
\<close>

type_synonym obj_key = "string \<times> string \<times> string \<times> string"

fun call_target :: "call \<Rightarrow> (verb \<times> obj_key) option" where
  "call_target (Custom v api plural ns name body) = Some (v, (api, plural, ns, name))"
| "call_target (Typed v kind ns name body) = Some (v, ([], kind, ns, name))"
| "call_target _ = None"

fun live :: "log \<Rightarrow> obj_key \<Rightarrow> bool" where
  "live [] k = False"
| "live ((c, r) # l) k =
     (case call_target c of
        None \<Rightarrow> live l k
      | Some (v, k') \<Rightarrow>
          if k' \<noteq> k \<or> v = VList then live l k
          else if v = VDelete then live l k \<and> isl r
          else live l k \<or> \<not> isl r)"

definition kube_faithful :: "env \<Rightarrow> bool" where
  "kube_faithful env \<longleftrightarrow> (\<forall>l c k t. call_target c = Some (VGet, k) \<longrightarrow> live l k \<longrightarrow>
     env l c \<noteq> Inl (ApiErr 404 t))"

text \<open>A request that reads or writes the object \<open>k\<close> without deleting it.\<close>

definition touches :: "obj_key \<Rightarrow> call \<Rightarrow> bool" where
  "touches k c \<longleftrightarrow> (\<exists>v. call_target c = Some (v, k) \<and> v \<noteq> VDelete \<and> v \<noteq> VList)"

definition creates :: "call \<Rightarrow> bool" where
  "creates c \<longleftrightarrow> (\<exists>k. call_target c = Some (VCreate, k))"

lemma live_keep:
  "\<forall>cr \<in> set new. \<forall>k'. call_target (fst cr) \<noteq> Some (VDelete, k') \<Longrightarrow> live l k \<Longrightarrow>
   live (new @ l) k"
  by (induction new) (auto split: option.splits)

definition no_create :: "'a M \<Rightarrow> env \<Rightarrow> st \<Rightarrow> bool" where
  "no_create m env s \<longleftrightarrow> (\<exists>new. trace (snd (m env s)) = new @ trace s \<and>
     (\<forall>cr \<in> set new. \<not> creates (fst cr)))"

section \<open>The contract of apply\<close>

locale applied =
  fixes ensure :: "'r \<Rightarrow> 'x M" and key :: "'r \<Rightarrow> obj_key"
  assumes apply_quiet: "quiet (ensure r)"
    and apply_own: "only (touches (key r)) (ensure r)"
    and apply_exists: "ensure r env s = (Inr x, s') \<Longrightarrow> live (trace s') (key r)"
    and apply_known: "kube_faithful env \<Longrightarrow> live (trace s) (key r) \<Longrightarrow>
      no_create (ensure r) env s"
begin

definition apply_all :: "'r list \<Rightarrow> unit M" where
  "apply_all rs = forM rs (\<lambda>r. thenM (ensure r) (ret ()))"

lemma apply_keeps_live:
  assumes "live (trace s) k" and "ensure r env s = (x, s')"
  shows "live (trace s') k"
proof -
  obtain new where n: "trace (snd (ensure r env s)) = new @ trace s"
    and t: "\<forall>cr \<in> set new. touches (key r) (fst cr)"
    using apply_own by (rule onlyE)
  from t have "\<forall>cr \<in> set new. \<forall>k'. call_target (fst cr) \<noteq> Some (VDelete, k')"
    by (auto simp: touches_def)
  with n assms show ?thesis using live_keep by simp
qed

lemma apply_all_exists:
  "apply_all rs env s = (Inr (), s') \<Longrightarrow>
   (\<forall>r \<in> set rs. live (trace s') (key r)) \<and>
   (\<forall>k. live (trace s) k \<longrightarrow> live (trace s') k)"
proof (induction rs arbitrary: s)
  case Nil
  then show ?case by (simp add: apply_all_def ret_def)
next
  case (Cons r rs)
  then obtain x s1 where 1: "ensure r env s = (Inr x, s1)"
    and 2: "apply_all rs env s1 = (Inr (), s')"
    by (auto simp: apply_all_def thenM_Inr ret_def)
  have "live (trace s1) (key r)" using 1 by (rule apply_exists)
  then have "live (trace s') (key r)" using Cons.IH [OF 2] by blast
  then have "\<forall>r \<in> set (r # rs). live (trace s') (key r)" using Cons.IH [OF 2] by simp
  moreover have "\<forall>k. live (trace s) k \<longrightarrow> live (trace s') k"
    using Cons.IH [OF 2] apply_keeps_live [OF _ 1] by blast
  ultimately show ?case ..
qed

lemma apply_all_known:
  assumes "kube_faithful env" and "\<forall>r \<in> set rs. live (trace s) (key r)"
  shows "no_create (apply_all rs) env s"
  using assms(2)
proof (induction rs arbitrary: s)
  case Nil
  then show ?case by (simp add: no_create_def apply_all_def ret_def)
next
  case (Cons r rs)
  obtain x s1 where 1: "ensure r env s = (x, s1)" by (cases "ensure r env s")
  have "live (trace s) (key r)" using Cons.prems by simp
  with assms(1) have "no_create (ensure r) env s" by (rule apply_known)
  with 1 obtain new where n: "trace s1 = new @ trace s"
    "\<forall>cr \<in> set new. \<not> creates (fst cr)"
    by (auto simp: no_create_def)
  show ?case
  proof (cases x)
    case (Inl e)
    with 1 n show ?thesis
      by (auto simp: no_create_def apply_all_def thenM_def bindM_def)
  next
    case (Inr y)
    have "\<forall>r \<in> set rs. live (trace s1) (key r)"
      using Cons.prems apply_keeps_live [OF _ 1] by simp
    then have "no_create (apply_all rs) env s1" by (rule Cons.IH)
    then obtain new' where "trace (snd (apply_all rs env s1)) = new' @ trace s1"
      "\<forall>cr \<in> set new'. \<not> creates (fst cr)"
      by (auto simp: no_create_def)
    with 1 Inr n show ?thesis
      by (auto simp: no_create_def apply_all_def thenM_def bindM_def ret_def
          intro!: exI [of _ "new' @ new"])
  qed
qed

text \<open>Reconciling twice creates nothing the second time.\<close>

lemma apply_all_idempotent:
  assumes "kube_faithful env" and "apply_all rs env s = (Inr (), s')"
  shows "no_create (apply_all rs) env s'"
  using apply_all_known [OF assms(1)] apply_all_exists [OF assms(2)] by blast

lemma apply_idempotent:
  assumes "kube_faithful env" and "ensure r env s = (Inr x, s')"
  shows "no_create (ensure r) env s'"
  using apply_known [OF assms(1) apply_exists [OF assms(2)]] .

lemma apply_deletes_nothing: "only (\<lambda>c. \<forall>k. call_target c \<noteq> Some (VDelete, k)) (ensure r)"
  using apply_own by (rule only_mono) (auto simp: touches_def)

end

section \<open>The providers\<close>

definition custom_key :: "custom_resource \<Rightarrow> obj_key" where
  "custom_key r = (cr_api r, cr_plural r, cr_namespace r, cr_name r)"

definition namespace_key :: "k8s_namespace \<Rightarrow> obj_key" where
  "namespace_key n = ([], ''Namespace'', [], nsp_name n)"

text \<open>
  The two base algorithms, over any key: a read that answers 404 leads to the create, any
  other read to the update. Both are proved once and serve every subclass.
\<close>

lemma quiet_read_custom [quiet_intros]: "quiet (read_custom api plural name ns)"
  unfolding read_custom_def by (intro quiet_intros)

lemma quiet_delete_custom [quiet_intros]: "quiet (delete_custom api plural name ns)"
  unfolding delete_custom_def by (intro quiet_intros)

lemma quiet_apply_custom [quiet_intros]: "quiet (apply_custom r)"
  unfolding apply_custom_def get_custom_def create_custom_def patch_custom_def
  by (intro quiet_intros)

lemma read_custom_run:
  "read_custom api plural name ns env s =
     (let c = Custom VGet api plural ns name JNull; a = env (trace s) c;
          s' = s\<lparr>trace := (c, a) # trace s\<rparr> in
      case a of
        Inr j \<Rightarrow> (Inr (Some j), s')
      | Inl (ApiErr n t) \<Rightarrow> if n = 404 then (Inr None, s') else (Inl (Ext (ApiErr n t)), s')
      | Inl x \<Rightarrow> (Inl (Ext x), s'))"
  by (auto simp: read_custom_def on_status_def tryM_def bindM_def callM_def ret_def raise_def
      Let_def split: sum.split xerr.split)

lemma callM_Inr: "callM c env s = (Inr j, s') \<longleftrightarrow>
    env (trace s) c = Inr j \<and> s' = s\<lparr>trace := (c, Inr j) # trace s\<rparr>"
  by (auto simp: callM_def Let_def split: sum.splits)

lemma trace_callM: "trace (snd (callM c env s)) = (c, env (trace s) c) # trace s"
  by (auto simp: callM_def Let_def split: sum.splits)

interpretation custom: applied apply_custom custom_key
proof
  fix r :: custom_resource
  show "quiet (apply_custom r)" by (rule quiet_apply_custom)
  show "only (touches (custom_key r)) (apply_custom r)"
    unfolding apply_custom_def get_custom_def read_custom_def create_custom_def
      patch_custom_def
    by (intro only_intros) (simp_all add: touches_def custom_key_def)
  show "live (trace s') (custom_key r)" if "apply_custom r env s = (Inr x, s')" for env s x s'
    using that
    by (auto simp: apply_custom_def get_custom_def bindM_Inr create_custom_def
        patch_custom_def callM_Inr custom_key_def split: option.splits)
  show "no_create (apply_custom r) env s"
    if "kube_faithful env" "live (trace s) (custom_key r)" for env s
  proof -
    let ?c = "Custom VGet (cr_api r) (cr_plural r) (cr_namespace r) (cr_name r) JNull"
    have "\<And>t. env (trace s) ?c \<noteq> Inl (ApiErr 404 t)"
      using that unfolding kube_faithful_def custom_key_def by auto
    then show ?thesis
      by (auto simp: no_create_def apply_custom_def get_custom_def bindM_def read_custom_run
          Let_def patch_custom_def trace_callM creates_def split: sum.split xerr.split)
  qed
qed

lemma quiet_apply_typed [quiet_intros]:
  "quiet (tr_read r) \<Longrightarrow> quiet (tr_create r) \<Longrightarrow> quiet (tr_patch r) \<Longrightarrow> quiet (apply_typed r)"
  unfolding apply_typed_def by (intro quiet_intros)

lemma quiet_delete_typed [quiet_intros]: "quiet (tr_delete r) \<Longrightarrow> quiet (delete_typed r)"
  unfolding delete_typed_def by (intro quiet_intros)

text \<open>A typed resource whose hooks are single calls on one key, the patch optional.\<close>

definition typed_on :: "string \<Rightarrow> string \<Rightarrow> string \<Rightarrow> typed_resource \<Rightarrow> bool" where
  "typed_on kind ns name r \<longleftrightarrow>
     tr_read r = callM (Typed VGet kind ns name JNull) \<and>
     (\<exists>body. tr_create r = callM (Typed VCreate kind ns name body)) \<and>
     (tr_patch r = ret JNull \<or> (\<exists>body. tr_patch r = callM (Typed VPatch kind ns name body)))"

lemma typed_on_quiet: "typed_on kind ns name r \<Longrightarrow> quiet (apply_typed r)"
  by (rule quiet_apply_typed) (auto simp: typed_on_def intro: quiet_intros)

lemma typed_on_own:
  "typed_on kind ns name r \<Longrightarrow> only (touches ([], kind, ns, name)) (apply_typed r)"
  unfolding apply_typed_def typed_on_def
  by (intro only_intros) (auto simp: touches_def intro!: only_intros)

lemma typed_run:
  assumes "tr_read r = callM c"
  shows "apply_typed r env s =
     (let a = env (trace s) c; s1 = s\<lparr>trace := (c, a) # trace s\<rparr> in
      case a of
        Inr j \<Rightarrow> thenM (tr_patch r) (ret ()) env s1
      | Inl x \<Rightarrow> (case x of
            ApiErr n t \<Rightarrow> if n = 404 then thenM (tr_create r) (ret ()) env s1
              else (Inl (Ext x), s1)
          | _ \<Rightarrow> (Inl (Ext x), s1)))"
proof (cases "env (trace s) c")
  case (Inl x)
  with assms show ?thesis
    by (cases x)
       (auto simp: apply_typed_def on_status_def tryM_def thenM_def bindM_def callM_def
          ret_def raise_def Let_def split: prod.splits sum.splits)
next
  case (Inr j)
  with assms show ?thesis
    by (simp add: apply_typed_def on_status_def tryM_def thenM_def bindM_def callM_def
          ret_def Let_def)
qed

lemma typed_on_exists:
  assumes t: "typed_on kind ns name r" and a: "apply_typed r env s = (Inr x, s')"
  shows "live (trace s') ([], kind, ns, name)"
proof -
  let ?c = "Typed VGet kind ns name JNull"
  from t obtain b where r: "tr_read r = callM ?c"
    and c: "tr_create r = callM (Typed VCreate kind ns name b)"
    and p: "tr_patch r = ret JNull \<or> (\<exists>b. tr_patch r = callM (Typed VPatch kind ns name b))"
    by (auto simp: typed_on_def)
  show ?thesis
  proof (cases "env (trace s) ?c")
    case (Inl e)
    with a show ?thesis
      unfolding typed_run [OF r] c
      by (cases e) (auto simp: Let_def thenM_Inr callM_Inr ret_def split: if_splits)
  next
    case (Inr j)
    with a p show ?thesis
      unfolding typed_run [OF r]
      by (auto simp: Let_def thenM_Inr callM_Inr ret_def)
  qed
qed

lemma typed_on_known:
  assumes t: "typed_on kind ns name r"
    and "kube_faithful env" "live (trace s) ([], kind, ns, name)"
  shows "no_create (apply_typed r) env s"
proof -
  let ?c = "Typed VGet kind ns name JNull"
  from t have r: "tr_read r = callM ?c"
    and p: "tr_patch r = ret JNull \<or> (\<exists>b. tr_patch r = callM (Typed VPatch kind ns name b))"
    by (auto simp: typed_on_def)
  have n: "\<And>t. env (trace s) ?c \<noteq> Inl (ApiErr 404 t)"
    using assms(2,3) unfolding kube_faithful_def by auto
  show ?thesis
  proof (cases "env (trace s) ?c")
    case (Inl e)
    with n show ?thesis
      unfolding no_create_def typed_run [OF r]
      by (cases e) (auto simp: Let_def creates_def)
  next
    case (Inr j)
    from p show ?thesis
    proof
      assume "tr_patch r = ret JNull"
      with Inr show ?thesis
        unfolding no_create_def typed_run [OF r]
        by (simp add: Let_def thenM_def bindM_def ret_def creates_def)
    next
      assume "\<exists>b. tr_patch r = callM (Typed VPatch kind ns name b)"
      with Inr show ?thesis
        unfolding no_create_def typed_run [OF r]
        by (auto simp: Let_def ret_def creates_def thenM_def bindM_def callM_def
            split: sum.split)
    qed
  qed
qed

lemma typed_applied:
  assumes "\<And>r. typed_on kind (ns r) (nm r) (res r)"
  shows "applied (\<lambda>r. apply_typed (res r)) (\<lambda>r. ([], kind, ns r, nm r))"
proof
  fix r
  note t = assms [of r]
  show "quiet (apply_typed (res r))" using t by (rule typed_on_quiet)
  show "only (touches ([], kind, ns r, nm r)) (apply_typed (res r))"
    using t by (rule typed_on_own)
  show "live (trace s') ([], kind, ns r, nm r)" if "apply_typed (res r) env s = (Inr x, s')"
    for env s x s'
    using t that by (rule typed_on_exists)
  show "no_create (apply_typed (res r)) env s"
    if "kube_faithful env" "live (trace s) ([], kind, ns r, nm r)" for env s
    using t that by (rule typed_on_known)
qed

lemma typed_on_namespace: "typed_on ''Namespace'' [] (nsp_name n) (namespace_resource n)"
  unfolding typed_on_def namespace_resource_def by (simp, blast)

interpretation nspace: applied apply_namespace namespace_key
  unfolding apply_namespace_def [abs_def] namespace_key_def [abs_def]
  by (rule typed_applied) (rule typed_on_namespace)

lemma quiet_apply_namespace [quiet_intros]: "quiet (apply_namespace n)"
  by (rule nspace.apply_quiet)

lemma quiet_delete_namespace [quiet_intros]: "quiet (delete_namespace n)"
  unfolding delete_namespace_def
  by (rule quiet_delete_typed) (simp add: namespace_resource_def quiet_callM)

lemma kube_faithful_ok [simp]: "kube_faithful (\<lambda>l c. Inr (f l c))"
  by (simp add: kube_faithful_def)

end
