(* ===== verification/Encoding.thy ===== *)
theory Encoding
  imports Prelude
begin

text \<open>
  The two encodings of Python's standard library the controller writes into Secrets and
  request bodies: \<open>base64.b64encode\<close> / \<open>b64decode\<close> and \<open>json.dumps\<close>. Characters are
  bytes, so \<open>encode()\<close> is the identity (the strings involved are ASCII).
\<close>

section \<open>Base64\<close>

definition b64_chars :: string where
  "b64_chars = upper_letters @ lower_letters @ digit_chars @ ''+/''"

definition byte :: "char \<Rightarrow> nat" where
  "byte c = of_char c"

definition enc6 :: "nat \<Rightarrow> char" where
  "enc6 n = b64_chars ! (n mod 64)"

definition dec6 :: "char \<Rightarrow> nat option" where
  "dec6 c = map_of (zip b64_chars [0..<64]) c"

fun b64encode :: "string \<Rightarrow> string" where
  "b64encode [] = []"
| "b64encode [a] =
     [enc6 (byte a div 4), enc6 (byte a mod 4 * 16), CHR ''='', CHR ''='']"
| "b64encode [a, b] =
     [enc6 (byte a div 4), enc6 (byte a mod 4 * 16 + byte b div 16),
      enc6 (byte b mod 16 * 4), CHR ''='']"
| "b64encode (a # b # c # r) =
     enc6 (byte a div 4) # enc6 (byte a mod 4 * 16 + byte b div 16) #
     enc6 (byte b mod 16 * 4 + byte c div 64) # enc6 (byte c mod 64) # b64encode r"

text \<open>\<open>None\<close> is the \<open>binascii.Error\<close> of input that is not base64.\<close>

fun b64decode :: "string \<Rightarrow> string option" where
  "b64decode [] = Some []"
| "b64decode (w # x # y # z # r) =
     (if y = CHR ''='' \<and> z = CHR ''='' \<and> r = []
      then (case (dec6 w, dec6 x) of
              (Some a, Some b) \<Rightarrow> Some [char_of (a * 4 + b div 16)]
            | _ \<Rightarrow> None)
      else if z = CHR ''='' \<and> r = []
      then (case (dec6 w, dec6 x, dec6 y) of
              (Some a, Some b, Some c) \<Rightarrow>
                Some [char_of (a * 4 + b div 16), char_of (b mod 16 * 16 + c div 4)]
            | _ \<Rightarrow> None)
      else (case (dec6 w, dec6 x, dec6 y, dec6 z, b64decode r) of
              (Some a, Some b, Some c, Some d, Some rest) \<Rightarrow>
                Some (char_of (a * 4 + b div 16) # char_of (b mod 16 * 16 + c div 4) #
                      char_of (c mod 4 * 64 + d) # rest)
            | _ \<Rightarrow> None))"
| "b64decode _ = None"

section \<open>JSON text\<close>

definition hex_char :: "nat \<Rightarrow> char" where
  "hex_char n = ''0123456789abcdef'' ! (n mod 16)"

definition json_escape :: "char \<Rightarrow> string" where
  "json_escape c =
     (if c = CHR 0x22 \<or> c = CHR 0x5C then [CHR 0x5C, c]
      else if c = CHR 0x0A then [CHR 0x5C, CHR ''n'']
      else if c = CHR 0x0D then [CHR 0x5C, CHR ''r'']
      else if c = CHR 0x09 then [CHR 0x5C, CHR ''t'']
      else if c = CHR 0x08 then [CHR 0x5C, CHR ''b'']
      else if c = CHR 0x0C then [CHR 0x5C, CHR ''f'']
      else if byte c < 32 \<or> 127 < byte c
      then [CHR 0x5C, CHR ''u'', CHR ''0'', CHR ''0'', hex_char (byte c div 16), hex_char (byte c)]
      else [c])"

definition json_quote :: "string \<Rightarrow> string" where
  "json_quote s = [CHR 0x22] @ concat (map json_escape s) @ [CHR 0x22]"

fun dumps :: "json \<Rightarrow> string" where
  "dumps JNull = ''null''"
| "dumps (JBool b) = (if b then ''true'' else ''false'')"
| "dumps (JInt i) = int_str i"
| "dumps (JStr s) = json_quote s"
| "dumps (JArr xs) = ''['' @ join '', '' (map dumps xs) @ '']''"
| "dumps (JObj kvs) =
     ''{'' @ join '', '' (map (\<lambda>(k, v). json_quote k @ '': '' @ dumps v) kvs) @ ''}''"

section \<open>Facts\<close>

lemma b64_chars_length: "length b64_chars = 64"
  by (simp add: b64_chars_def upper_letters_def lower_letters_def digit_chars_def)

lemma b64_chars_distinct: "distinct b64_chars"
  by (simp add: b64_chars_def upper_letters_def lower_letters_def digit_chars_def)

lemma enc6_not_pad: "enc6 n \<noteq> CHR ''=''"
proof -
  have "CHR ''='' \<notin> set b64_chars"
    by (simp add: b64_chars_def upper_letters_def lower_letters_def digit_chars_def)
  moreover have "enc6 n \<in> set b64_chars"
    unfolding enc6_def by (rule nth_mem) (simp add: b64_chars_length)
  ultimately show ?thesis by metis
qed

lemma dec6_enc6: "dec6 (enc6 n) = Some (n mod 64)"
proof -
  have "map_of (zip b64_chars [0..<64]) (b64_chars ! (n mod 64)) = Some ([0..<64] ! (n mod 64))"
    by (rule map_of_zip_nth) (simp_all add: b64_chars_length b64_chars_distinct)
  then show ?thesis by (simp add: dec6_def enc6_def)
qed

lemma byte_less: "byte c < 256"
  by (simp add: byte_def)

lemma char_of_byte [simp]: "char_of (byte c) = c"
  by (simp add: byte_def)

text \<open>The four sextets are below 64 and carry the three bytes back.\<close>

lemma sextet1: "byte a div 4 mod 64 = byte a div 4"
  using byte_less [of a] by (simp add: div_less_iff_less_mult)

lemma sextet2: "(byte a mod 4 * 16 + byte b div 16) mod 64 = byte a mod 4 * 16 + byte b div 16"
proof -
  have "byte b div 16 < 16" using byte_less [of b] by (simp add: div_less_iff_less_mult)
  moreover have "byte a mod 4 < 4" by simp
  ultimately have "byte a mod 4 * 16 + byte b div 16 < 64" by linarith
  then show ?thesis by simp
qed

lemma sextet3: "(byte b mod 16 * 4 + byte c div 64) mod 64 = byte b mod 16 * 4 + byte c div 64"
proof -
  have "byte c div 64 < 4" using byte_less [of c] by (simp add: div_less_iff_less_mult)
  moreover have "byte b mod 16 < 16" by simp
  ultimately have "byte b mod 16 * 4 + byte c div 64 < 64" by linarith
  then show ?thesis by simp
qed

lemma back1: "byte a div 4 * 4 + (byte a mod 4 * 16 + byte b div 16) div 16 = byte a"
proof -
  have "byte b div 16 < 16" using byte_less [of b] by (simp add: div_less_iff_less_mult)
  then show ?thesis by simp
qed

lemma back2:
  "(byte a mod 4 * 16 + byte b div 16) mod 16 * 16 + (byte b mod 16 * 4 + byte c div 64) div 4
   = byte b"
proof -
  have "byte b div 16 < 16" using byte_less [of b] by (simp add: div_less_iff_less_mult)
  moreover have "byte c div 64 < 4" using byte_less [of c] by (simp add: div_less_iff_less_mult)
  ultimately show ?thesis by simp
qed

lemma back3: "(byte b mod 16 * 4 + byte c div 64) mod 4 * 64 + byte c mod 64 = byte c"
proof -
  have "byte c div 64 < 4" using byte_less [of c] by (simp add: div_less_iff_less_mult)
  then show ?thesis by simp
qed

lemma back1': "byte a div 4 * 4 + byte a mod 4 * 16 mod 64 div 16 = byte a"
proof -
  have "byte a mod 4 < 4" by simp
  then have "byte a mod 4 * 16 < 64" by linarith
  then show ?thesis by simp
qed

lemma back2':
  "(byte a mod 4 * 16 + byte b div 16) mod 16 * 16 + byte b mod 16 * 4 mod 64 div 4 = byte b"
proof -
  have "byte b div 16 < 16" using byte_less [of b] by (simp add: div_less_iff_less_mult)
  moreover have "byte b mod 16 < 16" by simp
  then have "byte b mod 16 * 4 < 64" by linarith
  ultimately show ?thesis by simp
qed

text \<open>Decoding undoes encoding: the credential pair written into a docker config, and any
  Secret value read back, survive base64 unchanged, padding included.\<close>

lemma b64_roundtrip: "b64decode (b64encode s) = Some s"
proof (induction s rule: b64encode.induct)
  case 1
  then show ?case by simp
next
  case (2 a)
  have "char_of (byte a div 4 * 4 + byte a mod 4 * 16 mod 64 div 16) = a"
    unfolding back1' by simp
  then show ?case
    by (simp add: dec6_enc6 sextet1 del: mod_mult_self1 mod_mult_mult2 mult_mod_left)
next
  case (3 a b)
  have "char_of (byte a div 4 * 4 + (byte a mod 4 * 16 + byte b div 16) div 16) = a"
    unfolding back1 by simp
  moreover have "char_of ((byte a mod 4 * 16 + byte b div 16) mod 16 * 16 +
      byte b mod 16 * 4 mod 64 div 4) = b"
    unfolding back2' by simp
  ultimately show ?case
    unfolding b64encode.simps b64decode.simps dec6_enc6 sextet1 sextet2
    using enc6_not_pad by (simp only: prod.case option.case if_True if_False simp_thms)
next
  case (4 a b c r)
  have "char_of (byte a div 4 * 4 + (byte a mod 4 * 16 + byte b div 16) div 16) = a"
    unfolding back1 by simp
  moreover have "char_of ((byte a mod 4 * 16 + byte b div 16) mod 16 * 16 +
      (byte b mod 16 * 4 + byte c div 64) div 4) = b"
    unfolding back2 by simp
  moreover have "char_of ((byte b mod 16 * 4 + byte c div 64) mod 4 * 64 + byte c mod 64) = c"
    unfolding back3 by simp
  ultimately show ?case
    unfolding b64encode.simps b64decode.simps dec6_enc6 sextet1 sextet2 sextet3
      mod_mod_trivial 4
    using enc6_not_pad by (simp only: prod.case option.case if_True if_False simp_thms)
qed

end
