(* ===== verification/Resources.thy ===== *)
theory Resources
  imports Kube Encoding "HOL-Library.List_Lexorder" "HOL-Library.Char_ord"
begin

text \<open>
  The resources the controller writes: \<open>argocd.py\<close>, \<open>workflows.py\<close>, \<open>cnpg.py\<close>,
  \<open>externalsecrets.py\<close>, \<open>buildsecrets.py\<close> and \<open>ingress.py\<close>. Each dataclass is a record,
  its \<open>manifest()\<close> (or \<open>_body()\<close>) a function to JSON, its \<open>apply()\<close> a computation; the
  contract \<open>applied\<close> is discharged for every one of them. A Python \<open>dict[str, str]\<close> field is
  an association list in insertion order; strings are ordered lexicographically, as
  \<open>sorted\<close> orders them.
\<close>

text \<open>\<open>if x: d[k] = v\<close> on a dict literal under construction.\<close>

definition opt :: "bool \<Rightarrow> string \<Rightarrow> json \<Rightarrow> dict" where
  "opt b k v = (if b then [(k, v)] else [])"

section \<open>Argo CD Applications\<close>

definition IN_CLUSTER_SERVER :: string where
  "IN_CLUSTER_SERVER = ''https://kubernetes.default.svc''"

definition RESOURCES_FINALIZER :: string where
  "RESOURCES_FINALIZER = ''resources-finalizer.argocd.argoproj.io''"

record argo_application =
  aa_name :: string
  aa_namespace :: string
  aa_repo_url :: string
  aa_target_revision :: string
  aa_dest_namespace :: string
  aa_path :: string
  aa_chart :: string
  aa_values :: dict
  aa_project :: string
  aa_labels :: "(string \<times> string) list"

definition argo_metadata :: "argo_application \<Rightarrow> dict" where
  "argo_metadata a =
     [(''name'', JStr (aa_name a)), (''namespace'', JStr (aa_namespace a)),
      (''finalizers'', strs [RESOURCES_FINALIZER])] @
     opt (aa_labels a \<noteq> []) ''labels'' (str_dict (aa_labels a))"

definition argo_object :: "argo_application \<Rightarrow> dict \<Rightarrow> json" where
  "argo_object a metadata = JObj
     [(''apiVersion'', JStr ''argoproj.io/v1alpha1''),
      (''kind'', JStr ''Application''),
      (''metadata'', JObj metadata),
      (''spec'', JObj
        [(''project'', JStr (aa_project a)),
         (''source'', JObj
           ([(''repoURL'', JStr (aa_repo_url a)),
             (''targetRevision'', JStr (aa_target_revision a)),
             (''helm'', JObj [(''valuesObject'', JObj (aa_values a))])] @
            (if aa_chart a \<noteq> [] then [(''chart'', JStr (aa_chart a))]
             else [(''path'', JStr (aa_path a))]))),
         (''destination'', JObj
           [(''server'', JStr IN_CLUSTER_SERVER),
            (''namespace'', JStr (aa_dest_namespace a))]),
         (''syncPolicy'', JObj
           [(''automated'', JObj [(''prune'', JBool True), (''selfHeal'', JBool True)]),
            (''syncOptions'', strs [''CreateNamespace=true'', ''ServerSideApply=true''])])])]"

definition argo_manifest :: "argo_application \<Rightarrow> json" where
  "argo_manifest a = argo_object a (argo_metadata a)"

definition argo_resource :: "argo_application \<Rightarrow> custom_resource" where
  "argo_resource a = \<lparr> cr_api = ''argoproj.io/v1alpha1'', cr_plural = ''applications'',
     cr_namespace = aa_namespace a, cr_name = aa_name a, cr_manifest = argo_manifest a \<rparr>"

text \<open>
  \<open>apply\<close>: create, or replace with the finalizers of the live object (plus Argo CD's own)
  and its \<open>resourceVersion\<close>, whose absence is a \<open>KeyError\<close>.
\<close>

definition kept_finalizers :: "json \<Rightarrow> string list" where
  "kept_finalizers existing =
     sort (remdups (map jstr (lget (jget existing ''metadata'') ''finalizers'')
        @ [RESOURCES_FINALIZER]))"

definition apply_argo :: "argo_application \<Rightarrow> json M" where
  "apply_argo a =
     bindM (get_custom (argo_resource a)) (\<lambda>found. case found of
       None \<Rightarrow> create_custom (argo_resource a)
     | Some existing \<Rightarrow>
         (if \<not> jhas existing ''metadata'' then raise (KeyMissing ''metadata'')
          else if \<not> jhas (jget existing ''metadata'') ''resourceVersion''
          then raise (KeyMissing ''resourceVersion'')
          else replace_custom (argo_resource a)
                 (argo_object a
                   (dset ''resourceVersion'' (jget (jget existing ''metadata'') ''resourceVersion'')
                     (dset ''finalizers'' (strs (kept_finalizers existing))
                       (argo_metadata a))))))"

definition delete_argo :: "string \<Rightarrow> string \<Rightarrow> unit M" where
  "delete_argo name ns = delete_custom ''argoproj.io/v1alpha1'' ''applications'' name ns"

section \<open>Argo Workflows\<close>

abbreviation PHASE_SUCCEEDED :: string where "PHASE_SUCCEEDED \<equiv> ''Succeeded''"
abbreviation PHASE_FAILED :: string where "PHASE_FAILED \<equiv> ''Failed''"
abbreviation PHASE_ERROR :: string where "PHASE_ERROR \<equiv> ''Error''"

definition phase :: "json option \<Rightarrow> string" where
  "phase obj = (case obj of None \<Rightarrow> [] | Some j \<Rightarrow> sget (oget j ''status'') ''phase'')"

record workflow =
  wf_name :: string
  wf_namespace :: string
  wf_template :: string
  wf_parameters :: "(string \<times> string) list"
  wf_service_account :: string
  wf_labels :: "(string \<times> string) list"

definition workflow_manifest :: "workflow \<Rightarrow> json" where
  "workflow_manifest w = JObj
     [(''apiVersion'', JStr ''argoproj.io/v1alpha1''),
      (''kind'', JStr ''Workflow''),
      (''metadata'', JObj
        ([(''name'', JStr (wf_name w)), (''namespace'', JStr (wf_namespace w))] @
         opt (wf_labels w \<noteq> []) ''labels'' (str_dict (wf_labels w)))),
      (''spec'', JObj
        ([(''workflowTemplateRef'', JObj [(''name'', JStr (wf_template w))]),
          (''arguments'', JObj [(''parameters'', JArr
             (map (\<lambda>(k, v). JObj [(''name'', JStr k), (''value'', JStr v)])
                (sort_key fst (wf_parameters w))))])] @
         opt (wf_service_account w \<noteq> []) ''serviceAccountName''
           (JStr (wf_service_account w))))]"

definition workflow_resource :: "workflow \<Rightarrow> custom_resource" where
  "workflow_resource w = \<lparr> cr_api = ''argoproj.io/v1alpha1'', cr_plural = ''workflows'',
     cr_namespace = wf_namespace w, cr_name = wf_name w, cr_manifest = workflow_manifest w \<rparr>"

definition apply_workflow :: "workflow \<Rightarrow> json option M" where
  "apply_workflow w =
     bindM (get_custom (workflow_resource w)) (\<lambda>found. case found of
       Some _ \<Rightarrow> ret None
     | None \<Rightarrow> bindM (create_custom (workflow_resource w)) (\<lambda>j. ret (Some j)))"

definition read_workflow :: "string \<Rightarrow> string \<Rightarrow> json option M" where
  "read_workflow name ns = read_custom ''argoproj.io/v1alpha1'' ''workflows'' name ns"

definition delete_workflow :: "string \<Rightarrow> string \<Rightarrow> unit M" where
  "delete_workflow name ns = delete_custom ''argoproj.io/v1alpha1'' ''workflows'' name ns"

section \<open>CloudNativePG clusters\<close>

record cnpg_cluster =
  cnpg_name :: string
  cnpg_namespace :: string
  cnpg_database :: string
  cnpg_owner :: string
  cnpg_instances :: int
  cnpg_storage_size :: string
  cnpg_storage_class :: string
  cnpg_image_name :: string
  cnpg_superuser_access :: bool
  cnpg_labels :: "(string \<times> string) list"
  cnpg_owner_references :: "json list"

abbreviation CNPG_SUPERUSER :: string where "CNPG_SUPERUSER \<equiv> ''postgres''"

definition rw_host :: "string \<Rightarrow> string" where
  "rw_host cluster_name = cluster_name @ ''-rw''"

definition superuser_secret_name :: "string \<Rightarrow> string" where
  "superuser_secret_name cluster_name = cluster_name @ ''-superuser''"

definition cnpg_manifest :: "cnpg_cluster \<Rightarrow> json" where
  "cnpg_manifest c = JObj
     [(''apiVersion'', JStr ''postgresql.cnpg.io/v1''),
      (''kind'', JStr ''Cluster''),
      (''metadata'', JObj
        ([(''name'', JStr (cnpg_name c)), (''namespace'', JStr (cnpg_namespace c))] @
         opt (cnpg_labels c \<noteq> []) ''labels'' (str_dict (cnpg_labels c)) @
         opt (cnpg_owner_references c \<noteq> []) ''ownerReferences''
           (JArr (cnpg_owner_references c)))),
      (''spec'', JObj
        ([(''instances'', JInt (cnpg_instances c)),
          (''storage'', JObj ([(''size'', JStr (cnpg_storage_size c))] @
             opt (cnpg_storage_class c \<noteq> []) ''storageClass'' (JStr (cnpg_storage_class c)))),
          (''bootstrap'', JObj [(''initdb'', JObj
             [(''database'', JStr (cnpg_database c)), (''owner'', JStr (cnpg_owner c))])])] @
         opt (cnpg_superuser_access c) ''enableSuperuserAccess'' (JBool True) @
         opt (cnpg_image_name c \<noteq> []) ''imageName'' (JStr (cnpg_image_name c))))]"

definition cnpg_resource :: "cnpg_cluster \<Rightarrow> custom_resource" where
  "cnpg_resource c = \<lparr> cr_api = ''postgresql.cnpg.io/v1'', cr_plural = ''clusters'',
     cr_namespace = cnpg_namespace c, cr_name = cnpg_name c, cr_manifest = cnpg_manifest c \<rparr>"

definition apply_cnpg :: "cnpg_cluster \<Rightarrow> json M" where
  "apply_cnpg c = apply_custom (cnpg_resource c)"

section \<open>External Secrets\<close>

definition dquote :: string where "dquote = [CHR 0x22]"

definition dockerconfigjson_template :: "string \<Rightarrow> string" where
  "dockerconfigjson_template host =
     ''{'' @ dquote @ ''auths'' @ dquote @ '':{'' @ dquote @ host @ dquote @ '':{'' @ dquote @ ''username'' @ dquote @ '':'' @
     dquote @ ''{{ .username }}'' @ dquote @ '','' @ dquote @ ''password'' @ dquote @ '':'' @ dquote @ ''{{ .password }}'' @
     dquote @ '','' @ dquote @ ''auth'' @ dquote @ '':'' @ dquote @ ''{{ printf '' @ dquote @ ''%s:%s'' @ dquote @
     '' .username .password | b64enc }}'' @ dquote @ ''}}}''"

record external_secret =
  es_name :: string
  es_namespace :: string
  es_store_name :: string
  es_remote_path :: string
  es_secret_name :: string
  es_client_id_key :: string
  es_client_secret_key :: string
  es_data_map :: "(string \<times> string) list"
  es_template_data :: "(string \<times> string) list"
  es_template_type :: string
  es_data_from_paths :: "string list"
  es_refresh_interval :: string
  es_labels :: "(string \<times> string) list"
  es_owner_references :: "json list"

text \<open>The dataclass defaults; the first four fields have none.\<close>

definition external_secret0 :: "string \<Rightarrow> string \<Rightarrow> string \<Rightarrow> string \<Rightarrow> external_secret" where
  "external_secret0 name ns store path = \<lparr> es_name = name, es_namespace = ns,
     es_store_name = store, es_remote_path = path, es_secret_name = [],
     es_client_id_key = ''client-id'', es_client_secret_key = ''client-secret'',
     es_data_map = [], es_template_data = [], es_template_type = [],
     es_data_from_paths = [], es_refresh_interval = ''1h'', es_labels = [],
     es_owner_references = [] \<rparr>"

definition fetched_keys :: "external_secret \<Rightarrow> string list" where
  "fetched_keys e =
     (if es_data_map e \<noteq> [] then map fst (es_data_map e)
      else [es_client_id_key e, es_client_secret_key e])"

definition remote_entry :: "string \<Rightarrow> string \<times> string \<Rightarrow> json" where
  "remote_entry path kp = JObj
     [(''secretKey'', JStr (fst kp)),
      (''remoteRef'', JObj [(''key'', JStr path), (''property'', JStr (snd kp))])]"

definition es_data :: "external_secret \<Rightarrow> json list" where
  "es_data e =
     (if es_data_map e \<noteq> [] then map (remote_entry (es_remote_path e)) (es_data_map e)
      else [remote_entry (es_remote_path e) (es_client_id_key e, ''client-id''),
            remote_entry (es_remote_path e) (es_client_secret_key e, ''client-secret'')])"

definition setdefault :: "(string \<times> string) list \<Rightarrow> string \<Rightarrow> (string \<times> string) list" where
  "setdefault d k = (if dget d k = None
     then d @ [(k, ''{{ index . '' @ dquote @ k @ dquote @ '' }}'')] else d)"

definition es_template :: "external_secret \<Rightarrow> (string \<times> string) list" where
  "es_template e =
     (if es_template_type e = []
      then foldl setdefault (es_template_data e) (fetched_keys e)
      else es_template_data e)"

definition es_manifest :: "external_secret \<Rightarrow> json" where
  "es_manifest e = JObj
     [(''apiVersion'', JStr ''external-secrets.io/v1''),
      (''kind'', JStr ''ExternalSecret''),
      (''metadata'', JObj
        ([(''name'', JStr (es_name e)), (''namespace'', JStr (es_namespace e))] @
         opt (es_labels e \<noteq> []) ''labels'' (str_dict (es_labels e)) @
         opt (es_owner_references e \<noteq> []) ''ownerReferences''
           (JArr (es_owner_references e)))),
      (''spec'', JObj
        [(''refreshInterval'', JStr (es_refresh_interval e)),
         (''secretStoreRef'', JObj
           [(''kind'', JStr ''ClusterSecretStore''), (''name'', JStr (es_store_name e))]),
         (''target'', JObj
           ([(''name'', JStr (sor (es_secret_name e) (es_name e))),
             (''creationPolicy'', JStr ''Owner'')] @
            opt (es_template_data e \<noteq> []) ''template''
              (JObj ([(''engine'', JStr ''v2''), (''data'', str_dict (es_template e))] @
                 opt (es_template_type e \<noteq> []) ''type'' (JStr (es_template_type e)))))),
         (if es_data_from_paths e \<noteq> []
          then (''dataFrom'', JArr (map (\<lambda>p. JObj [(''extract'', JObj [(''key'', JStr p)])])
                 (es_data_from_paths e)))
          else (''data'', JArr (es_data e)))])]"

definition es_resource :: "external_secret \<Rightarrow> custom_resource" where
  "es_resource e = \<lparr> cr_api = ''external-secrets.io/v1'', cr_plural = ''externalsecrets'',
     cr_namespace = es_namespace e, cr_name = es_name e, cr_manifest = es_manifest e \<rparr>"

definition apply_es :: "external_secret \<Rightarrow> json M" where
  "apply_es e = apply_custom (es_resource e)"

definition delete_es :: "string \<Rightarrow> string \<Rightarrow> unit M" where
  "delete_es name ns = delete_custom ''external-secrets.io/v1'' ''externalsecrets'' name ns"

section \<open>Secrets and ConfigMaps\<close>

abbreviation GIT_TOKEN_KEY :: string where "GIT_TOKEN_KEY \<equiv> ''token''"

record managed_secret =
  ms_name :: string
  ms_namespace :: string
  ms_type :: string
  ms_string_data :: "(string \<times> string) list"
  ms_create_only :: bool

definition secret_body :: "managed_secret \<Rightarrow> json" where
  "secret_body m = JObj
     [(''metadata'', JObj
        [(''name'', JStr (ms_name m)), (''namespace'', JStr (ms_namespace m)),
         (''labels'', JObj [(''app.kubernetes.io/managed-by'', JStr MANAGED_BY)])]),
      (''type'', JStr (ms_type m)),
      (''stringData'', str_dict (ms_string_data m))]"

definition secret_resource :: "managed_secret \<Rightarrow> typed_resource" where
  "secret_resource m =
     \<lparr> tr_read = callM (Typed VGet ''Secret'' (ms_namespace m) (ms_name m) JNull),
       tr_create = callM (Typed VCreate ''Secret'' (ms_namespace m) (ms_name m) (secret_body m)),
       tr_patch = (if ms_create_only m then ret JNull
         else callM (Typed VPatch ''Secret'' (ms_namespace m) (ms_name m) (secret_body m))),
       tr_delete = callM (Typed VDelete ''Secret'' (ms_namespace m) (ms_name m) JNull),
       tr_ignore = delete_ignore_statuses \<rparr>"

definition apply_secret :: "managed_secret \<Rightarrow> unit M" where
  "apply_secret m = apply_typed (secret_resource m)"

definition delete_secret :: "string \<Rightarrow> string \<Rightarrow> unit M" where
  "delete_secret name ns =
     on_status [404] (thenM (callM (Typed VDelete ''Secret'' ns name JNull)) (ret ())) (ret ())"

definition dockerconfigjson :: "string \<Rightarrow> string \<Rightarrow> string \<Rightarrow> json" where
  "dockerconfigjson host username password = JObj [(''auths'', JObj [(host, JObj
     [(''username'', JStr username), (''password'', JStr password),
      (''auth'', JStr (b64encode (username @ '':'' @ password)))])])]"

definition dockerconfig ::
    "string \<Rightarrow> string \<Rightarrow> string \<Rightarrow> string \<Rightarrow> string \<Rightarrow> managed_secret" where
  "dockerconfig name ns host username password =
     \<lparr> ms_name = name, ms_namespace = ns, ms_type = ''kubernetes.io/dockerconfigjson'',
       ms_string_data = [(''.dockerconfigjson'',
         dumps (dockerconfigjson host username password))],
       ms_create_only = False \<rparr>"

definition token_secret :: "string \<Rightarrow> string \<Rightarrow> string \<Rightarrow> managed_secret" where
  "token_secret name ns token =
     \<lparr> ms_name = name, ms_namespace = ns, ms_type = ''Opaque'',
       ms_string_data = [(GIT_TOKEN_KEY, token)], ms_create_only = False \<rparr>"

definition opaque_secret ::
    "string \<Rightarrow> string \<Rightarrow> (string \<times> string) list \<Rightarrow> bool \<Rightarrow> managed_secret" where
  "opaque_secret name ns string_data create_only =
     \<lparr> ms_name = name, ms_namespace = ns, ms_type = ''Opaque'',
       ms_string_data = string_data, ms_create_only = create_only \<rparr>"

text \<open>\<open>read_key\<close>: an absent or empty key is a \<open>RuntimeError\<close>.\<close>

definition read_key :: "string \<Rightarrow> string \<Rightarrow> string \<Rightarrow> string M" where
  "read_key name ns key =
     bindM (callM (Typed VGet ''Secret'' ns name JNull)) (\<lambda>secret.
       let raw = sget (oget secret ''data'') key in
       if raw = []
       then raise (RuntimeError (''secret '' @ ns @ ''/'' @ repr name @ '' has no key '' @ repr key))
       else (case b64decode raw of
               Some text \<Rightarrow> ret (strip text)
             | None \<Rightarrow> raise (ValueError ''Incorrect padding'')))"

record config_map =
  cm_name :: string
  cm_namespace :: string
  cm_data :: "(string \<times> string) list"

definition config_map_body :: "config_map \<Rightarrow> json" where
  "config_map_body m = JObj
     [(''metadata'', JObj
        [(''name'', JStr (cm_name m)), (''namespace'', JStr (cm_namespace m)),
         (''labels'', JObj [(''app.kubernetes.io/managed-by'', JStr MANAGED_BY)])]),
      (''data'', str_dict (cm_data m))]"

definition config_map_resource :: "config_map \<Rightarrow> typed_resource" where
  "config_map_resource m =
     \<lparr> tr_read = callM (Typed VGet ''ConfigMap'' (cm_namespace m) (cm_name m) JNull),
       tr_create = callM (Typed VCreate ''ConfigMap'' (cm_namespace m) (cm_name m)
                            (config_map_body m)),
       tr_patch = callM (Typed VPatch ''ConfigMap'' (cm_namespace m) (cm_name m)
                           (config_map_body m)),
       tr_delete = callM (Typed VDelete ''ConfigMap'' (cm_namespace m) (cm_name m) JNull),
       tr_ignore = delete_ignore_statuses \<rparr>"

definition apply_config_map :: "config_map \<Rightarrow> unit M" where
  "apply_config_map m = apply_typed (config_map_resource m)"

definition delete_config_map :: "string \<Rightarrow> string \<Rightarrow> unit M" where
  "delete_config_map name ns =
     on_status [404] (thenM (callM (Typed VDelete ''ConfigMap'' ns name JNull)) (ret ()))
       (ret ())"

section \<open>Ingresses\<close>

record ingress_route =
  ing_name :: string
  ing_namespace :: string
  ing_host :: string
  ing_path :: string
  ing_service_name :: string
  ing_service_port :: int
  ing_class_name :: string
  ing_tls_secret :: string
  ing_cluster_issuer :: string
  ing_annotations :: "(string \<times> string) list"
  ing_labels :: "(string \<times> string) list"

definition ingress_annotations :: "ingress_route \<Rightarrow> (string \<times> string) list" where
  "ingress_annotations i =
     (if ing_cluster_issuer i \<noteq> []
      then dset ''cert-manager.io/cluster-issuer'' (ing_cluster_issuer i) (ing_annotations i)
      else ing_annotations i)"

definition ingress_manifest :: "ingress_route \<Rightarrow> json" where
  "ingress_manifest i = JObj
     [(''apiVersion'', JStr ''networking.k8s.io/v1''),
      (''kind'', JStr ''Ingress''),
      (''metadata'', JObj
        ([(''name'', JStr (ing_name i)), (''namespace'', JStr (ing_namespace i))] @
         opt (ingress_annotations i \<noteq> []) ''annotations'' (str_dict (ingress_annotations i)) @
         opt (ing_labels i \<noteq> []) ''labels'' (str_dict (ing_labels i)))),
      (''spec'', JObj
        ([(''ingressClassName'', JStr (ing_class_name i)),
          (''rules'', JArr [JObj
            [(''host'', JStr (ing_host i)),
             (''http'', JObj [(''paths'', JArr [JObj
                [(''path'', JStr (ing_path i)),
                 (''pathType'', JStr ''Prefix''),
                 (''backend'', JObj [(''service'', JObj
                    [(''name'', JStr (ing_service_name i)),
                     (''port'', JObj [(''number'', JInt (ing_service_port i))])])])]])])]])] @
         opt (ing_tls_secret i \<noteq> []) ''tls''
           (JArr [JObj [(''hosts'', strs [ing_host i]),
                        (''secretName'', JStr (ing_tls_secret i))]])))]"

definition ingress_resource :: "ingress_route \<Rightarrow> typed_resource" where
  "ingress_resource i =
     \<lparr> tr_read = callM (Typed VGet ''Ingress'' (ing_namespace i) (ing_name i) JNull),
       tr_create = callM (Typed VCreate ''Ingress'' (ing_namespace i) (ing_name i)
                            (ingress_manifest i)),
       tr_patch = callM (Typed VPatch ''Ingress'' (ing_namespace i) (ing_name i)
                           (ingress_manifest i)),
       tr_delete = callM (Typed VDelete ''Ingress'' (ing_namespace i) (ing_name i) JNull),
       tr_ignore = delete_ignore_statuses \<rparr>"

definition apply_ingress :: "ingress_route \<Rightarrow> unit M" where
  "apply_ingress i = apply_typed (ingress_resource i)"

definition delete_ingress :: "string \<Rightarrow> string \<Rightarrow> unit M" where
  "delete_ingress name ns =
     on_status [404] (thenM (callM (Typed VDelete ''Ingress'' ns name JNull)) (ret ())) (ret ())"

section \<open>Every resource meets the contract of apply\<close>

definition secret_key :: "managed_secret \<Rightarrow> obj_key" where
  "secret_key m = ([], ''Secret'', ms_namespace m, ms_name m)"

definition config_map_key :: "config_map \<Rightarrow> obj_key" where
  "config_map_key m = ([], ''ConfigMap'', cm_namespace m, cm_name m)"

definition ingress_key :: "ingress_route \<Rightarrow> obj_key" where
  "ingress_key i = ([], ''Ingress'', ing_namespace i, ing_name i)"

definition argo_key :: "argo_application \<Rightarrow> obj_key" where
  "argo_key a = custom_key (argo_resource a)"

definition workflow_key :: "workflow \<Rightarrow> obj_key" where
  "workflow_key w = custom_key (workflow_resource w)"

lemma typed_on_secret: "typed_on ''Secret'' (ms_namespace m) (ms_name m) (secret_resource m)"
  unfolding typed_on_def secret_resource_def by (simp, blast)

lemma typed_on_config_map:
  "typed_on ''ConfigMap'' (cm_namespace m) (cm_name m) (config_map_resource m)"
  unfolding typed_on_def config_map_resource_def by (simp, blast)

lemma typed_on_ingress:
  "typed_on ''Ingress'' (ing_namespace i) (ing_name i) (ingress_resource i)"
  unfolding typed_on_def ingress_resource_def by (simp, blast)

interpretation secret: applied apply_secret secret_key
  unfolding apply_secret_def [abs_def] secret_key_def [abs_def]
  by (rule typed_applied) (rule typed_on_secret)

interpretation config_map: applied apply_config_map config_map_key
  unfolding apply_config_map_def [abs_def] config_map_key_def [abs_def]
  by (rule typed_applied) (rule typed_on_config_map)

interpretation ingress: applied apply_ingress ingress_key
  unfolding apply_ingress_def [abs_def] ingress_key_def [abs_def]
  by (rule typed_applied) (rule typed_on_ingress)

interpretation cnpg: applied apply_cnpg "\<lambda>c. custom_key (cnpg_resource c)"
  unfolding apply_cnpg_def [abs_def]
  by unfold_locales
     (rule custom.apply_quiet custom.apply_own custom.apply_exists custom.apply_known;
      assumption)+

interpretation es: applied apply_es "\<lambda>e. custom_key (es_resource e)"
  unfolding apply_es_def [abs_def]
  by unfold_locales
     (rule custom.apply_quiet custom.apply_own custom.apply_exists custom.apply_known;
      assumption)+

text \<open>
  Argo CD Applications are replaced and Workflows only created, so their \<open>apply\<close> is not the
  base class's; a lookup that is known to find the object decides both.
\<close>

lemma get_custom_known:
  assumes "kube_faithful env" "live (trace s) (custom_key r)"
  shows "\<exists>a. snd (get_custom r env s) = s\<lparr>trace := a # trace s\<rparr> \<and> \<not> creates (fst a) \<and>
    fst (get_custom r env s) \<noteq> Inr None"
proof -
  let ?c = "Custom VGet (cr_api r) (cr_plural r) (cr_namespace r) (cr_name r) JNull"
  have "\<And>t. env (trace s) ?c \<noteq> Inl (ApiErr 404 t)"
    using assms unfolding kube_faithful_def custom_key_def by auto
  then show ?thesis
    by (intro exI [of _ "(?c, env (trace s) ?c)"])
       (auto simp: get_custom_def read_custom_run Let_def creates_def split: sum.split xerr.split)
qed

lemma no_create_get:
  assumes "kube_faithful env" "live (trace s) (custom_key r)"
    and rest: "\<And>x s'. only (\<lambda>c. \<not> creates c) (f (Some x))"
  shows "no_create (bindM (get_custom r) f) env s"
proof -
  obtain y s1 where g: "get_custom r env s = (y, s1)" by (cases "get_custom r env s")
  with get_custom_known [OF assms(1,2)] obtain a where
    a: "s1 = s\<lparr>trace := a # trace s\<rparr>" "\<not> creates (fst a)" "y \<noteq> Inr None" by auto
  show ?thesis
  proof (cases y)
    case (Inl e)
    with g a show ?thesis by (simp add: no_create_def bindM_def)
  next
    case (Inr z)
    with a obtain x where z: "z = Some x" by (cases z) auto
    obtain new where "trace (snd (f (Some x) env s1)) = new @ trace s1"
      "\<forall>cr \<in> set new. \<not> creates (fst cr)"
      using rest by (rule onlyE)
    with g a Inr z show ?thesis
      by (auto simp: no_create_def bindM_def intro!: exI [of _ "new @ [a]"])
  qed
qed

lemma only_get_custom [only_intros]:
  "P (Custom VGet (cr_api r) (cr_plural r) (cr_namespace r) (cr_name r) JNull) \<Longrightarrow>
   only P (get_custom r)"
  unfolding get_custom_def read_custom_def by (intro only_intros)

lemma live_get_custom:
  "get_custom r env s = (Inr (Some j), s') \<Longrightarrow> live (trace s') (custom_key r)"
  by (auto simp: get_custom_def read_custom_run Let_def custom_key_def
      split: sum.splits xerr.splits if_splits)

lemma live_create_custom:
  "create_custom r env s = (Inr j, s') \<Longrightarrow> live (trace s') (custom_key r)"
  by (auto simp: create_custom_def callM_Inr custom_key_def)

lemma live_replace_custom:
  "replace_custom r b env s = (Inr j, s') \<Longrightarrow> live (trace s') (custom_key r)"
  by (auto simp: replace_custom_def callM_Inr custom_key_def)

lemma quiet_get_custom [quiet_intros]: "quiet (get_custom r)"
  unfolding get_custom_def by (intro quiet_intros)

interpretation argo: applied apply_argo argo_key
proof
  fix a :: argo_application
  show "quiet (apply_argo a)"
    unfolding apply_argo_def create_custom_def replace_custom_def
    by (intro quiet_intros) simp_all
  show "only (touches (argo_key a)) (apply_argo a)"
    unfolding apply_argo_def create_custom_def replace_custom_def argo_key_def
    by (intro only_intros) (simp_all add: touches_def custom_key_def)
  show "live (trace s') (argo_key a)" if r: "apply_argo a env s = (Inr x, s')" for env s x s'
  proof -
    from r obtain f s1 where g: "get_custom (argo_resource a) env s = (Inr f, s1)"
      by (auto simp: apply_argo_def bindM_Inr)
    show ?thesis
    proof (cases f)
      case None
      with r g show ?thesis unfolding argo_key_def
        by (auto simp: apply_argo_def bindM_def intro: live_create_custom)
    next
      case (Some j)
      with r g show ?thesis unfolding argo_key_def
        by (auto simp: apply_argo_def bindM_def raise_def intro: live_replace_custom
            split: if_splits)
    qed
  qed
  show "no_create (apply_argo a) env s"
    if "kube_faithful env" "live (trace s) (argo_key a)" for env s
    unfolding apply_argo_def using that unfolding argo_key_def
    by (rule no_create_get)
       (auto simp: replace_custom_def creates_def intro!: only_intros)
qed

interpretation workflow: applied apply_workflow workflow_key
proof
  fix w :: workflow
  show "quiet (apply_workflow w)"
    unfolding apply_workflow_def create_custom_def by (intro quiet_intros)
  show "only (touches (workflow_key w)) (apply_workflow w)"
    unfolding apply_workflow_def create_custom_def workflow_key_def
    by (intro only_intros) (simp_all add: touches_def custom_key_def)
  show "live (trace s') (workflow_key w)" if r: "apply_workflow w env s = (Inr x, s')"
    for env s x s'
  proof -
    from r obtain f s1 where g: "get_custom (workflow_resource w) env s = (Inr f, s1)"
      by (auto simp: apply_workflow_def bindM_Inr)
    show ?thesis
    proof (cases f)
      case None
      with r g show ?thesis unfolding workflow_key_def
        by (auto simp: apply_workflow_def bindM_def ret_def intro: live_create_custom
            split: prod.splits sum.splits)
    next
      case (Some j)
      with r g show ?thesis unfolding workflow_key_def
        by (auto simp: apply_workflow_def bindM_def ret_def intro: live_get_custom)
    qed
  qed
  show "no_create (apply_workflow w) env s"
    if "kube_faithful env" "live (trace s) (workflow_key w)" for env s
    unfolding apply_workflow_def using that unfolding workflow_key_def
    by (rule no_create_get) (auto intro!: only_intros)
qed

lemma quiet_read_key [quiet_intros]: "quiet (read_key name ns key)"
  unfolding read_key_def Let_def by (intro quiet_intros) simp_all

lemmas quiet_applies [quiet_intros] =
  secret.apply_quiet config_map.apply_quiet ingress.apply_quiet cnpg.apply_quiet
  es.apply_quiet argo.apply_quiet workflow.apply_quiet

lemma quiet_deletes [quiet_intros]:
  "quiet (delete_argo n ns)" "quiet (delete_workflow n ns)" "quiet (delete_es n ns)"
  "quiet (delete_secret n ns)" "quiet (delete_config_map n ns)" "quiet (delete_ingress n ns)"
  "quiet (read_workflow n ns)"
  unfolding delete_argo_def delete_workflow_def delete_es_def delete_secret_def
    delete_config_map_def delete_ingress_def read_workflow_def
  by (intro quiet_intros)+

section \<open>Properties\<close>

lemma str_of_strs [simp]: "map jstr (jlist (strs xs)) = xs"
  by (simp add: strs_def comp_def)

lemma argo_body_metadata:
  "jget (argo_object a md) ''metadata'' = JObj md"
  by (simp add: argo_object_def)

lemma lget_strs: "jget j k = strs xs \<Longrightarrow> map jstr (lget j k) = xs"
  by (cases xs) (simp_all add: lget_def strs_def comp_def)

text \<open>Updating an Argo CD Application is one read and one replace: the body sent keeps
  every finalizer of the live object, adds Argo CD's own, lists them sorted without
  repetition, and carries the live \<open>resourceVersion\<close>, so a concurrent change is rejected by
  the API server instead of overwritten.\<close>

lemma argo_replace_preserves:
  assumes "env (trace s) (Custom VGet ''argoproj.io/v1alpha1'' ''applications''
             (aa_namespace a) (aa_name a) JNull) = Inr existing"
    and "jhas existing ''metadata''"
    and "jhas (jget existing ''metadata'') ''resourceVersion''"
  shows "\<exists>body r fs. trace (snd (apply_argo a env s)) =
       (Custom VReplace ''argoproj.io/v1alpha1'' ''applications'' (aa_namespace a) (aa_name a)
          body, r) #
       (Custom VGet ''argoproj.io/v1alpha1'' ''applications'' (aa_namespace a) (aa_name a) JNull,
          Inr existing) # trace s \<and>
     jget (jget body ''metadata'') ''resourceVersion'' =
       jget (jget existing ''metadata'') ''resourceVersion'' \<and>
     jget (jget body ''metadata'') ''finalizers'' = strs fs \<and> sorted fs \<and> distinct fs \<and>
     set fs = insert RESOURCES_FINALIZER
       (set (map jstr (lget (jget existing ''metadata'') ''finalizers'')))"
proof -
  let ?md = "dset ''resourceVersion'' (jget (jget existing ''metadata'') ''resourceVersion'')
     (dset ''finalizers'' (strs (kept_finalizers existing)) (argo_metadata a))"
  have t: "\<exists>r. trace (snd (apply_argo a env s)) =
      (Custom VReplace ''argoproj.io/v1alpha1'' ''applications'' (aa_namespace a) (aa_name a)
          (argo_object a ?md), r) #
      (Custom VGet ''argoproj.io/v1alpha1'' ''applications'' (aa_namespace a) (aa_name a) JNull,
          Inr existing) # trace s"
    using assms
    by (simp add: apply_argo_def argo_resource_def get_custom_def read_custom_run Let_def
        bindM_def replace_custom_def trace_callM)
  have k: "sorted (kept_finalizers existing)" "distinct (kept_finalizers existing)"
    "set (kept_finalizers existing) = insert RESOURCES_FINALIZER
       (set (map jstr (lget (jget existing ''metadata'') ''finalizers'')))"
    by (simp_all add: kept_finalizers_def)
  have m: "jget (jget (argo_object a ?md) ''metadata'') ''resourceVersion'' =
       jget (jget existing ''metadata'') ''resourceVersion''"
    "jget (jget (argo_object a ?md) ''metadata'') ''finalizers'' =
       strs (kept_finalizers existing)"
    unfolding argo_body_metadata jget_JObj_dset by simp_all
  from t m k show ?thesis by metis
qed

definition live_argo :: json where
  "live_argo = JObj [(''metadata'', JObj
     [(''resourceVersion'', JStr ''7''), (''finalizers'', strs [''z'', ''a''])])]"

lemma argo_replace_preserves_witness:
  "\<exists>body r fs. trace (snd (apply_argo
       \<lparr>aa_name = ''a'', aa_namespace = ''argocd'', aa_repo_url = ''u'', aa_target_revision = ''r'',
        aa_dest_namespace = ''d'', aa_path = ''p'', aa_chart = [], aa_values = [],
        aa_project = ''default'', aa_labels = []\<rparr> (\<lambda>l c. Inr live_argo) init_st)) =
       (Custom VReplace ''argoproj.io/v1alpha1'' ''applications'' ''argocd'' ''a'' body, r) #
       (Custom VGet ''argoproj.io/v1alpha1'' ''applications'' ''argocd'' ''a'' JNull,
          Inr live_argo) # [] \<and>
     jget (jget body ''metadata'') ''resourceVersion'' = JStr ''7'' \<and>
     jget (jget body ''metadata'') ''finalizers'' = strs fs \<and> sorted fs \<and> distinct fs \<and>
     set fs = {RESOURCES_FINALIZER, ''z'', ''a''}"
  using argo_replace_preserves [of "\<lambda>l c. Inr live_argo" init_st
      "\<lparr>aa_name = ''a'', aa_namespace = ''argocd'', aa_repo_url = ''u'',
        aa_target_revision = ''r'', aa_dest_namespace = ''d'', aa_path = ''p'', aa_chart = [],
        aa_values = [], aa_project = ''default'', aa_labels = []\<rparr>" live_argo]
  by (simp add: live_argo_def init_st_def lget_strs lget_def strs_def)

definition reads_or_creates :: "obj_key \<Rightarrow> call \<Rightarrow> bool" where
  "reads_or_creates k c \<longleftrightarrow> (call_target c = Some (VGet, k) \<or> call_target c = Some (VCreate, k))"

text \<open>Submitting a build or restore Workflow reads or creates that one Workflow and
  issues no other request: a submitted Workflow is never patched, replaced or deleted by
  \<open>apply\<close>, whatever the API server answers.\<close>

lemma workflow_never_modified: "only (reads_or_creates (workflow_key w)) (apply_workflow w)"
  unfolding apply_workflow_def create_custom_def workflow_key_def
  by (intro only_intros) (simp_all add: reads_or_creates_def custom_key_def)

text \<open>A create-only Secret (a generate-once value) is read or created and never
  updated, so a value that exists is never overwritten.\<close>

lemma create_only_secret_not_overwritten:
  assumes "ms_create_only m"
  shows "only (reads_or_creates (secret_key m)) (apply_secret m)"
  using assms unfolding apply_secret_def apply_typed_def secret_resource_def secret_key_def
  by (intro only_intros) (auto simp: reads_or_creates_def intro!: only_intros)

lemma create_only_secret_not_overwritten_witness:
  "only (reads_or_creates ([], ''Secret'', ''argo'', ''hook''))
     (apply_secret (opaque_secret ''hook'' ''argo'' [(''secret'', ''x'')] True))"
  using create_only_secret_not_overwritten
    [of "opaque_secret ''hook'' ''argo'' [(''secret'', ''x'')] True"]
  by (simp add: opaque_secret_def secret_key_def)

lemma dget_setdefaults:
  "dget (foldl setdefault d ks) k =
     (case dget d k of Some v \<Rightarrow> Some v
      | None \<Rightarrow> if k \<in> set ks then Some (''{{ index . '' @ dquote @ k @ dquote @ '' }}'') else None)"
  by (induction ks arbitrary: d)
     (auto simp: setdefault_def map_add_def split: option.splits)

text \<open>The Secret an ExternalSecret renders: every literal key keeps its literal; an
  untyped template also carries through each fetched key that no literal names; a typed
  one (a docker config) holds the literals and nothing else.\<close>

lemma es_template_contents:
  "dget (es_template e) k =
     (case dget (es_template_data e) k of
        Some v \<Rightarrow> Some v
      | None \<Rightarrow> if es_template_type e = [] \<and> k \<in> set (fetched_keys e)
                then Some (''{{ index . '' @ dquote @ k @ dquote @ '' }}'') else None)"
  by (simp add: es_template_def dget_setdefaults split: option.split)

end
