(* ===== verification/OpenBao.thy ===== *)
theory OpenBao
  imports Config Conditions Resources
begin

text \<open>
  \<open>openbao.py\<close>, \<open>secretgen.py\<close> and the token source of \<open>backend.py\<close>: reading and writing
  the KV store with one retry under a fresh token, generating credentials once, and the
  cached kubernetes-auth token. The store is the interface \<open>kv_client\<close>: the generate-once
  helper is proved against its laws and then used with the OpenBao client. The lock
  around the token cache makes \<open>_kubernetes_token\<close> one atomic step.
\<close>

section \<open>Random strings\<close>

definition ALPHABET :: string where
  "ALPHABET = upper_letters @ lower_letters @ digit_chars"

abbreviation CLIENT_ID_LENGTH :: nat where "CLIENT_ID_LENGTH \<equiv> 40"
abbreviation CLIENT_SECRET_LENGTH :: nat where "CLIENT_SECRET_LENGTH \<equiv> 128"

text \<open>\<open>secrets.choice\<close> indexes the alphabet with \<open>randbelow(62)\<close>, which is below 62.\<close>

definition choice :: "char M" where
  "choice = (\<lambda>env s. let r = env (trace s) (RandBelow 62) in
     (Inr (ALPHABET ! ((case r of Inr (JInt i) \<Rightarrow> nat i | _ \<Rightarrow> 0) mod 62)),
      s\<lparr>trace := (RandBelow 62, r) # trace s\<rparr>))"

fun random_string :: "nat \<Rightarrow> string M" where
  "random_string 0 = ret []"
| "random_string (Suc n) =
     bindM choice (\<lambda>c. bindM (random_string n) (\<lambda>cs. ret (c # cs)))"

section \<open>The token source\<close>

abbreviation TOKEN_RENEW_SKEW :: int where "TOKEN_RENEW_SKEW \<equiv> 60"

text \<open>\<open>time.monotonic()\<close>, in seconds; reading it does not raise.\<close>

definition monotonic :: "int M" where
  "monotonic = (\<lambda>env s. let r = env (trace s) Monotonic in
     (Inr (case r of Inr (JInt i) \<Rightarrow> i | _ \<Rightarrow> 0), s\<lparr>trace := (Monotonic, r) # trace s\<rparr>))"

definition kubernetes_login ::
    "string \<Rightarrow> string \<Rightarrow> string \<Rightarrow> string \<Rightarrow> (string \<times> int) M" where
  "kubernetes_login addr auth_mount role jwt =
     bindM (tryM (callM (KvLogin (rstrip_of ''/'' addr) (strip_of ''/'' auth_mount) role jwt))
              (\<lambda>e. raise (OpenBaoError (''openbao kubernetes login: '' @ exn_str e))))
       (\<lambda>resp.
         let auth = oget resp ''auth''; token = sget auth ''client_token'' in
         if token = []
         then raise (OpenBaoError ''openbao kubernetes login returned no client token'')
         else bindM (to_int (jor (jget auth ''lease_duration'') (JInt 0)))
                (\<lambda>lease. ret (token, lease)))"

definition token_from_secret :: "config \<Rightarrow> string M" where
  "token_from_secret cfg =
     bindM (tryM (callM (Typed VGet ''Secret'' (token_secret_namespace cfg)
                           (token_secret_name cfg) JNull))
              (\<lambda>e. case e of
                 Ext (ApiErr n reason) \<Rightarrow>
                   raise (RuntimeError (''read OpenBao token secret '' @
                     token_secret_namespace cfg @ ''/'' @ token_secret_name cfg @ '': '' @ reason))
               | _ \<Rightarrow> raise e))
       (\<lambda>secret.
         let raw = sget (oget secret ''data'') (token_secret_key cfg) in
         bindM (if raw = [] then ret []
                else (case b64decode raw of
                        Some text \<Rightarrow> ret (strip text)
                      | None \<Rightarrow> raise (ValueError ''Incorrect padding'')))
           (\<lambda>token.
             if token = []
             then raise (RuntimeError (''OpenBao token secret '' @ token_secret_namespace cfg @
                    ''/'' @ token_secret_name cfg @ '' has no '' @ repr (token_secret_key cfg)))
             else ret token))"

definition set_token :: "string \<Rightarrow> unit M" where
  "set_token t = modifyM (\<lambda>s. s\<lparr>cached_token := t\<rparr>)"

definition set_expiry :: "int \<Rightarrow> unit M" where
  "set_expiry x = modifyM (\<lambda>s. s\<lparr>token_expiry := x\<rparr>)"

text \<open>The second half of \<open>_kubernetes_token\<close>: read the JWT, log in, cache.\<close>

definition renew_token :: "config \<Rightarrow> string M" where
  "renew_token cfg =
     bindM (callM (ReadFile (jwt_path cfg))) (\<lambda>contents.
     bindM (kubernetes_login (openbao_addr cfg) (k8s_auth_mount cfg) (k8s_auth_role cfg)
              (strip (jstr contents)))
       (\<lambda>(token, lease).
     thenM (set_token token)
    (thenM (if lease > 0 then bindM monotonic (\<lambda>now. set_expiry (now + lease))
            else set_expiry 0)
    (ret token))))"

definition kubernetes_token :: "config \<Rightarrow> bool \<Rightarrow> string M" where
  "kubernetes_token cfg force_refresh =
     bindM (getM token_expiry) (\<lambda>expiry.
     bindM (if expiry = 0 then ret True
            else bindM monotonic (\<lambda>now. ret (now < expiry - TOKEN_RENEW_SKEW)))
       (\<lambda>fresh_enough.
     bindM (getM cached_token) (\<lambda>cached.
     if \<not> force_refresh \<and> cached \<noteq> [] \<and> fresh_enough then ret cached
     else renew_token cfg)))"

definition openbao_token :: "config \<Rightarrow> bool \<Rightarrow> string M" where
  "openbao_token cfg force_refresh =
     (case auth_mode cfg of
        KUBERNETES \<Rightarrow> kubernetes_token cfg force_refresh
      | TOKEN \<Rightarrow> token_from_secret cfg)"

section \<open>The KV client\<close>

text \<open>
  One attempt: the token (outside the \<open>try\<close>), then the request. \<open>None\<close> is a refusal
  (\<open>Forbidden\<close> or \<open>Unauthorized\<close>).
\<close>

definition item :: "json \<Rightarrow> string \<Rightarrow> json M" where
  "item j k = (if jhas j k then ret (jget j k) else raise (KeyMissing k))"

definition kv_mount_of :: "config \<Rightarrow> string" where
  "kv_mount_of cfg = strip_of ''/'' (kv_mount cfg)"

definition read_attempt :: "config \<Rightarrow> string \<Rightarrow> bool \<Rightarrow> json option option M" where
  "read_attempt cfg path force =
     bindM (openbao_token cfg force) (\<lambda>token.
     tryM (bindM (callM (Kv VGet (kv_mount_of cfg) (strip_of ''/'' path) token JNull)) (\<lambda>resp.
           bindM (item resp ''data'') (\<lambda>outer.
           bindM (item outer ''data'') (\<lambda>inner.
           ret (Some (Some (jor inner (JObj []))))))))
       (\<lambda>e. case e of
          Ext InvalidPath \<Rightarrow> ret (Some None)
        | Ext Denied \<Rightarrow> ret None
        | _ \<Rightarrow> raise e))"

definition write_attempt :: "config \<Rightarrow> string \<Rightarrow> dict \<Rightarrow> bool \<Rightarrow> unit option M" where
  "write_attempt cfg path data force =
     bindM (openbao_token cfg force) (\<lambda>token.
     tryM (thenM (callM (Kv VCreate (kv_mount_of cfg) (strip_of ''/'' path) token (JObj data)))
                 (ret (Some ())))
       (\<lambda>e. case e of Ext Denied \<Rightarrow> ret None | _ \<Rightarrow> raise e))"

definition twice :: "(bool \<Rightarrow> 'a option M) \<Rightarrow> string \<Rightarrow> 'a M" where
  "twice attempt_with denied =
     bindM (attempt_with False) (\<lambda>r. case r of
       Some x \<Rightarrow> ret x
     | None \<Rightarrow> bindM (attempt_with True) (\<lambda>r'. case r' of
         Some x \<Rightarrow> ret x
       | None \<Rightarrow> raise (OpenBaoError denied)))"

definition bao_read :: "config \<Rightarrow> string \<Rightarrow> json option M" where
  "bao_read cfg path =
     twice (read_attempt cfg path) (''openbao read '' @ path @ '': access denied'')"

definition bao_write :: "config \<Rightarrow> string \<Rightarrow> dict \<Rightarrow> unit M" where
  "bao_write cfg path data =
     twice (write_attempt cfg path data) (''openbao write '' @ path @ '': access denied'')"

text \<open>\<open>read(path) or {}\<close>\<close>

definition or_empty :: "json option \<Rightarrow> json" where
  "or_empty found = (case found of None \<Rightarrow> JObj [] | Some j \<Rightarrow> jor j (JObj []))"

text \<open>
  \<open>ensure_keys\<close>, over the client's two operations: the loop that fills the missing keys,
  then at most one write of the full map.
\<close>

fun fill_keys :: "(string \<Rightarrow> string M) \<Rightarrow> string list \<Rightarrow> dict \<Rightarrow> bool \<Rightarrow> (dict \<times> bool) M" where
  "fill_keys gen [] current changed = ret (current, changed)"
| "fill_keys gen (key # keys) current changed =
     (if truthy (jget (JObj current) key) then fill_keys gen keys current changed
      else bindM (gen key) (\<lambda>v. fill_keys gen keys (dset key (JStr v) current) True))"

definition ensure_keys_with ::
    "(string \<Rightarrow> json option M) \<Rightarrow> (string \<Rightarrow> dict \<Rightarrow> unit M) \<Rightarrow>
     string \<Rightarrow> string list \<Rightarrow> (string \<Rightarrow> string M) \<Rightarrow> (dict \<times> bool) M" where
  "ensure_keys_with rd wr path want gen =
     bindM (rd path) (\<lambda>found.
     bindM (fill_keys gen want (jdict (or_empty found)) False) (\<lambda>(current, changed).
     thenM (whenM changed (wr path current)) (ret (current, changed))))"

definition ensure_keys ::
    "config \<Rightarrow> string \<Rightarrow> string list \<Rightarrow> (string \<Rightarrow> string M) \<Rightarrow> (dict \<times> bool) M" where
  "ensure_keys cfg = ensure_keys_with (bao_read cfg) (bao_write cfg)"

section \<open>Facts: what the pieces may do\<close>

lemma choice_run: "\<exists>c r. choice env s = (Inr c, s\<lparr>trace := (RandBelow 62, r) # trace s\<rparr>) \<and>
    c \<in> set ALPHABET"
proof -
  have "length ALPHABET = 62"
    by (simp add: ALPHABET_def upper_letters_def lower_letters_def digit_chars_def)
  then have "ALPHABET ! (n mod 62) \<in> set ALPHABET" for n
    by (intro nth_mem) simp
  then show ?thesis by (auto simp: choice_def Let_def)
qed

lemma random_string_run:
  "\<exists>cs s'. random_string n env s = (Inr cs, s') \<and> length cs = n \<and> set cs \<subseteq> set ALPHABET \<and>
     status_patch s' = status_patch s"
proof (induction n arbitrary: s)
  case 0
  then show ?case by (simp add: ret_def)
next
  case (Suc n)
  obtain c r where c: "choice env s = (Inr c, s\<lparr>trace := (RandBelow 62, r) # trace s\<rparr>)"
    "c \<in> set ALPHABET" using choice_run by blast
  obtain cs s' where "random_string n env (s\<lparr>trace := (RandBelow 62, r) # trace s\<rparr>) = (Inr cs, s')"
    "length cs = n" "set cs \<subseteq> set ALPHABET" "status_patch s' = status_patch s"
    using Suc.IH [of "s\<lparr>trace := (RandBelow 62, r) # trace s\<rparr>"] by auto
  with c show ?case by (simp add: bindM_def ret_def)
qed

lemma quiet_random_string [quiet_intros]: "quiet (random_string n)"
  using random_string_run unfolding quiet_def by (metis Inl_Inr_False fst_conv snd_conv)

lemma quiet_monotonic [quiet_intros]: "quiet monotonic"
  by (simp add: quiet_def monotonic_def Let_def)

lemma quiet_set_token [quiet_intros]: "quiet (set_token t)" "quiet (set_expiry x)"
  by (simp_all add: set_token_def set_expiry_def quiet_modifyM)

lemma quiet_item [quiet_intros]: "quiet (item j k)"
  by (simp add: item_def quiet_ret quiet_raise)

lemma quiet_kubernetes_login [quiet_intros]: "quiet (kubernetes_login a m r j)"
  unfolding kubernetes_login_def Let_def by (intro quiet_intros) simp_all

lemma quiet_token_from_secret [quiet_intros]: "quiet (token_from_secret cfg)"
  unfolding token_from_secret_def Let_def
proof (intro quiet_intros quiet_tryM)
  fix e
  assume "\<not> is_temporary e"
  then show "quiet (case e of Ext (ApiErr n reason) \<Rightarrow> raise (RuntimeError
      (''read OpenBao token secret '' @ token_secret_namespace cfg @ ''/'' @
       token_secret_name cfg @ '': '' @ reason)) | _ \<Rightarrow> raise e)"
    by (auto intro: quiet_raise split: exn.split xerr.split)
qed simp_all

lemma quiet_openbao_token [quiet_intros]: "quiet (openbao_token cfg force)"
  unfolding openbao_token_def kubernetes_token_def renew_token_def
  by (auto intro!: quiet_intros split: auth_mode.split)

lemma quiet_read_attempt [quiet_intros]: "quiet (read_attempt cfg path force)"
  unfolding read_attempt_def
proof (intro quiet_intros quiet_tryM)
  fix e
  assume "\<not> is_temporary e"
  then show "quiet (case e of Ext InvalidPath \<Rightarrow> ret (Some None) | Ext Denied \<Rightarrow> ret None
      | _ \<Rightarrow> raise e)"
    by (auto intro: quiet_raise quiet_ret split: exn.split xerr.split)
qed

lemma quiet_write_attempt [quiet_intros]: "quiet (write_attempt cfg path data force)"
  unfolding write_attempt_def
proof (intro quiet_intros quiet_tryM)
  fix e
  assume "\<not> is_temporary e"
  then show "quiet (case e of Ext Denied \<Rightarrow> ret None | _ \<Rightarrow> raise e)"
    by (auto intro: quiet_raise quiet_ret split: exn.split xerr.split)
qed

lemma quiet_twice [quiet_intros]: "(\<And>f. quiet (m f)) \<Longrightarrow> quiet (twice m d)"
  unfolding twice_def by (intro quiet_intros) simp_all

lemma quiet_bao [quiet_intros]: "quiet (bao_read cfg path)" "quiet (bao_write cfg path data)"
  unfolding bao_read_def bao_write_def by (intro quiet_intros)+

section \<open>The KV store as an interface\<close>

fun kv_write :: "call \<Rightarrow> bool" where
  "kv_write (Kv VCreate _ _ _ _) = True"
| "kv_write _ = False"

text \<open>A request that, if it writes, writes \<open>d\<close> at \<open>path\<close>.\<close>

definition writes_only :: "string \<Rightarrow> dict \<Rightarrow> call \<Rightarrow> bool" where
  "writes_only path d c \<longleftrightarrow>
     (kv_write c \<longrightarrow> (\<exists>m t. c = Kv VCreate m (strip_of ''/'' path) t (JObj d)))"

lemma fill_keys_run:
  "fill_keys gen ks d ch env s = (Inr (d', ch'), s') \<Longrightarrow>
     (\<forall>k. truthy (jget (JObj d) k) \<longrightarrow> jget (JObj d') k = jget (JObj d) k) \<and>
     (ch' \<longleftrightarrow> ch \<or> (\<exists>k \<in> set ks. \<not> truthy (jget (JObj d) k))) \<and>
     (\<forall>k \<in> set ks. jhas (JObj d') k) \<and> (\<forall>k. jhas (JObj d) k \<longrightarrow> jhas (JObj d') k)"
proof (induction ks arbitrary: d ch s)
  case Nil
  then show ?case by (auto simp: ret_def)
next
  case (Cons key ks)
  show ?case
  proof (cases "truthy (jget (JObj d) key)")
    case True
    then have "jhas (JObj d) key" by (auto split: option.splits)
    with True Cons.IH [of d ch s] Cons.prems show ?thesis by auto
  next
    case False
    with Cons.prems obtain v s1 where
      f: "fill_keys gen ks (dset key (JStr v) d) True env s1 = (Inr (d', ch'), s')"
      by (auto simp: bindM_Inr simp del: jget.simps)
    note ih = Cons.IH [OF f]
    have "jget (JObj d') k = jget (JObj d) k" if "truthy (jget (JObj d) k)" for k
    proof -
      from that False have "k \<noteq> key" by auto
      with that have "truthy (jget (JObj (dset key (JStr v) d)) k)"
        unfolding jget_JObj_dset by simp
      with ih have "jget (JObj d') k = jget (JObj (dset key (JStr v) d)) k" by blast
      with \<open>k \<noteq> key\<close> show ?thesis unfolding jget_JObj_dset by simp
    qed
    moreover have "jhas (JObj d') key" using ih by simp
    moreover have "\<forall>k. jhas (JObj d) k \<longrightarrow> jhas (JObj d') k" using ih by simp
    ultimately show ?thesis using False ih by auto
  qed
qed

lemma quiet_fill_keys [quiet_intros]: "(\<And>k. quiet (gen k)) \<Longrightarrow> quiet (fill_keys gen ks d ch)"
  by (induction ks arbitrary: d ch) (auto intro!: quiet_intros)

lemma only_fill_keys [only_intros]:
  "(\<And>k. only P (gen k)) \<Longrightarrow> only P (fill_keys gen ks d ch)"
  by (induction ks arbitrary: d ch) (auto intro!: only_intros)

locale kv_client =
  fixes rd :: "string \<Rightarrow> json option M" and wr :: "string \<Rightarrow> dict \<Rightarrow> unit M"
  assumes read_quiet: "quiet (rd path)"
    and write_quiet: "quiet (wr path d)"
    and read_only: "only (\<lambda>c. \<not> kv_write c) (rd path)"
    and write_own: "only (writes_only path d) (wr path d)"
begin

lemma ensure_quiet: "(\<And>k. quiet (gen k)) \<Longrightarrow> quiet (ensure_keys_with rd wr path want gen)"
  unfolding ensure_keys_with_def by (intro quiet_intros read_quiet write_quiet)

text \<open>Nothing missing: the helper is a read.\<close>

lemma ensure_present:
  assumes "rd path env s = (Inr found, s1)"
    and "\<forall>k \<in> set want. truthy (jget (JObj (jdict (or_empty found))) k)"
  shows "ensure_keys_with rd wr path want gen env s = (Inr (jdict (or_empty found), False), s1)"
proof -
  have "fill_keys gen want d ch env s1 = (Inr (d, ch), s1)"
    if "\<forall>k \<in> set want. truthy (jget (JObj d) k)" for d ch
    using that by (induction want) (simp_all add: ret_def)
  with assms show ?thesis
    by (simp add: ensure_keys_with_def bindM_def thenM_def whenM_def ret_def)
qed

text \<open>What any write of the helper carries, whatever happens afterwards.\<close>

lemma ensure_writes:
  assumes r: "rd path env s = (Inr found, s1)"
    and g: "\<And>k. only (\<lambda>c. \<not> kv_write c) (gen k)"
  shows "\<exists>new. trace (snd (ensure_keys_with rd wr path want gen env s)) = new @ trace s \<and>
     (\<forall>c \<in> fst ` set new. kv_write c \<longrightarrow> (\<exists>m t d. c = Kv VCreate m (strip_of ''/'' path) t (JObj d) \<and>
        (\<forall>k. truthy (jget (or_empty found) k) \<longrightarrow> jget (JObj d) k = jget (or_empty found) k) \<and>
        (\<forall>k \<in> set want. jhas (JObj d) k) \<and>
        (\<exists>k \<in> set want. \<not> truthy (jget (or_empty found) k))))"
proof -
  let ?old = "jdict (or_empty found)"
  have old: "jget (or_empty found) k = jget (JObj ?old) k" for k
    by (cases "or_empty found") auto
  obtain n1 where n1: "trace s1 = n1 @ trace s" "\<forall>cr \<in> set n1. \<not> kv_write (fst cr)"
    using onlyE [OF read_only [of path], where env = env and s = s] r by auto
  obtain x s2 where f: "fill_keys gen want ?old False env s1 = (x, s2)"
    by (cases "fill_keys gen want ?old False env s1")
  obtain n2 where n2: "trace s2 = n2 @ trace s1" "\<forall>cr \<in> set n2. \<not> kv_write (fst cr)"
    using onlyE [OF only_fill_keys [where gen = gen and ks = want and d = ?old and ch = False, OF g],
        where env = env and s = s1] f by auto
  show ?thesis
  proof (cases x)
    case (Inl e)
    with r f n1 n2 show ?thesis
      by (intro exI [of _ "n2 @ n1"]) (auto simp: ensure_keys_with_def bindM_def)
  next
    case (Inr dc)
    obtain d ch where dc: "dc = (d, ch)" by (cases dc)
    note run = fill_keys_run [OF f [unfolded Inr dc]]
    show ?thesis
    proof (cases ch)
      case False
      with r f n1 n2 Inr dc show ?thesis
        by (intro exI [of _ "n2 @ n1"])
           (auto simp: ensure_keys_with_def bindM_def thenM_def whenM_def ret_def)
    next
      case True
      obtain n3 where n3: "trace (snd (wr path d env s2)) = n3 @ trace s2"
        "\<forall>cr \<in> set n3. writes_only path d (fst cr)"
        using onlyE [OF write_own [of path d], where env = env and s = s2] by auto
      have t: "trace (snd (ensure_keys_with rd wr path want gen env s)) = (n3 @ n2 @ n1) @ trace s"
        using r f n1 n2 n3 Inr dc True
        by (auto simp: ensure_keys_with_def bindM_def thenM_def whenM_def ret_def
            split: prod.splits sum.splits)
      have "\<exists>m t. c = Kv VCreate m (strip_of ''/'' path) t (JObj d)"
        if "c \<in> fst ` set (n3 @ n2 @ n1)" "kv_write c" for c
        using that n1(2) n2(2) n3(2) by (auto simp: writes_only_def)
      moreover have "\<forall>k. truthy (jget (or_empty found) k) \<longrightarrow>
          jget (JObj d) k = jget (or_empty found) k"
        using run unfolding old by blast
      moreover have "\<forall>k \<in> set want. jhas (JObj d) k" using run by blast
      moreover have "\<exists>k \<in> set want. \<not> truthy (jget (or_empty found) k)"
        using run True unfolding old by blast
      ultimately show ?thesis by (intro exI [of _ "n3 @ n2 @ n1"] conjI t) blast
    qed
  qed
qed

end

lemma only_monotonic [only_intros]: "P Monotonic \<Longrightarrow> only P monotonic"
  by (auto simp: only_def monotonic_def Let_def)

lemma only_choice: "P (RandBelow 62) \<Longrightarrow> only P choice"
  by (auto simp: only_def choice_def Let_def)

lemma only_random_string [only_intros]: "P (RandBelow 62) \<Longrightarrow> only P (random_string n)"
  by (induction n) (auto intro!: only_intros only_choice)

lemma only_set_token [only_intros]: "only P (set_token t)" "only P (set_expiry x)"
  by (simp_all add: set_token_def set_expiry_def only_modifyM)

lemma only_item [only_intros]: "only P (item j k)"
  by (simp add: item_def only_ret only_raise)

text \<open>The token source makes no KV request at all.\<close>

fun is_kv :: "call \<Rightarrow> bool" where
  "is_kv (Kv _ _ _ _ _) = True"
| "is_kv _ = False"

fun token_call :: "call \<Rightarrow> bool" where
  "token_call (Typed v kind _ _ _) = (v = VGet \<and> kind = ''Secret'')"
| "token_call (KvLogin _ _ _ _) = True"
| "token_call (ReadFile _) = True"
| "token_call Monotonic = True"
| "token_call _ = False"

lemma only_token_call: "only token_call (openbao_token cfg force)"
proof -
  have "only token_call (token_from_secret cfg)"
    unfolding token_from_secret_def Let_def
    by (intro only_intros) (auto intro!: only_intros split: exn.split xerr.split)
  moreover have "only token_call (kubernetes_token cfg force)"
    unfolding kubernetes_token_def renew_token_def kubernetes_login_def Let_def
    by (intro only_intros) simp_all
  ultimately show ?thesis by (simp add: openbao_token_def split: auth_mode.split)
qed

lemma token_call_not_kv: "token_call c \<Longrightarrow> \<not> is_kv c"
  by (cases c) auto

lemma only_openbao_token: "only (\<lambda>c. \<not> is_kv c) (openbao_token cfg force)"
  using only_token_call token_call_not_kv by (rule only_mono)

lemma only_token_any [only_intros]:
  "(\<And>c. token_call c \<Longrightarrow> P c) \<Longrightarrow> only P (openbao_token cfg force)"
  by (rule only_mono [OF only_token_call])

lemma only_read_attempt [only_intros]:
  assumes "\<And>c. token_call c \<Longrightarrow> P c" "\<And>t. P (Kv VGet (kv_mount_of cfg) (strip_of ''/'' path) t JNull)"
  shows "only P (read_attempt cfg path force)"
  unfolding read_attempt_def
  by (intro only_intros assms) (auto intro!: only_intros split: exn.split xerr.split)

lemma only_write_attempt [only_intros]:
  assumes "\<And>c. token_call c \<Longrightarrow> P c"
    "\<And>t. P (Kv VCreate (kv_mount_of cfg) (strip_of ''/'' path) t (JObj d))"
  shows "only P (write_attempt cfg path d force)"
  unfolding write_attempt_def
  by (intro only_intros assms) (auto intro!: only_intros split: exn.split xerr.split)

lemma only_twice [only_intros]: "(\<And>f. only P (m f)) \<Longrightarrow> only P (twice m d)"
  unfolding twice_def by (intro only_intros)

interpretation bao: kv_client "bao_read cfg" "bao_write cfg" for cfg
proof
  fix path d
  show "quiet (bao_read cfg path)" "quiet (bao_write cfg path d)" by (rule quiet_bao)+
  show "only (\<lambda>c. \<not> kv_write c) (bao_read cfg path)"
    unfolding bao_read_def
    by (intro only_intros) (auto elim: kv_write.elims token_call.elims)
  show "only (writes_only path d) (bao_write cfg path d)"
    unfolding bao_write_def
    by (intro only_intros) (auto simp: writes_only_def elim: kv_write.elims token_call.elims)
qed

lemma quiet_ensure_keys [quiet_intros]:
  "(\<And>k. quiet (gen k)) \<Longrightarrow> quiet (ensure_keys cfg path want gen)"
  unfolding ensure_keys_def by (rule bao.ensure_quiet)

section \<open>Properties\<close>

text \<open>Credentials are generated once. Whatever the store answers after the read, every
  write the helper sends goes to the credential path, carries each existing non-empty
  value unchanged, has all wanted keys, and is sent only when one was missing.\<close>

lemma ensure_keys_never_overwrites:
  assumes "bao_read cfg path env s = (Inr found, s1)"
    and "\<And>k. only (\<lambda>c. \<not> kv_write c) (gen k)"
  shows "\<exists>new. trace (snd (ensure_keys cfg path want gen env s)) = new @ trace s \<and>
     (\<forall>c \<in> fst ` set new. kv_write c \<longrightarrow> (\<exists>m t d. c = Kv VCreate m (strip_of ''/'' path) t (JObj d) \<and>
        (\<forall>k. truthy (jget (or_empty found) k) \<longrightarrow> jget (JObj d) k = jget (or_empty found) k) \<and>
        (\<forall>k \<in> set want. jhas (JObj d) k) \<and>
        (\<exists>k \<in> set want. \<not> truthy (jget (or_empty found) k))))"
  unfolding ensure_keys_def by (rule bao.ensure_writes [OF assms])

text \<open>An environment with a token Secret (the base64 of \<open>tok\<close>) and an OpenBao that holds
  \<open>client-id\<close> only.\<close>

fun half_env :: env where
  "half_env l (Typed _ _ _ _ _) = Inr (JObj [(''data'', JObj [(''root-token'', JStr ''dG9r'')])])"
| "half_env l (Kv _ _ _ _ _) =
     Inr (JObj [(''data'', JObj [(''data'', JObj [(''client-id'', JStr ''abc'')])])])"
| "half_env l _ = Inr JNull"

lemma half_env_read:
  "\<exists>s1. bao_read default_config ''app'' half_env init_st =
     (Inr (Some (JObj [(''client-id'', JStr ''abc'')])), s1)"
proof -
  have "b64decode ''dG9r'' = Some ''tok''"
    by code_simp
  then show ?thesis
    by (simp add: bao_read_def twice_def read_attempt_def openbao_token_def default_config_def
        token_from_secret_def tryM_def callM_def bindM_def ret_def sget_def oget_def Let_def
        item_def strip_def py_ws_def strip_of_def lstrip_of_def rstrip_of_def)
qed

lemma ensure_keys_never_overwrites_witness:
  "\<exists>new. trace (snd (ensure_keys default_config ''app'' [''client-id'', ''client-secret'']
        (\<lambda>_. random_string 3) half_env init_st)) = new \<and>
     (\<forall>c \<in> fst ` set new. kv_write c \<longrightarrow>
        (\<exists>m t d. c = Kv VCreate m ''app'' t (JObj d) \<and> jget (JObj d) ''client-id'' = JStr ''abc''))"
proof -
  obtain s1 where r: "bao_read default_config ''app'' half_env init_st =
     (Inr (Some (JObj [(''client-id'', JStr ''abc'')])), s1)"
    using half_env_read by blast
  have g: "only (\<lambda>c. \<not> kv_write c) (random_string 3)" by (intro only_intros) simp
  have p: "strip_of ''/'' ''app'' = ''app''"
    by (simp add: strip_of_def lstrip_of_def rstrip_of_def)
  have i: "jget (or_empty (Some (JObj [(''client-id'', JStr ''abc'')]))) ''client-id'' = JStr ''abc''"
    "truthy (JStr ''abc'')"
    by (simp_all add: or_empty_def)
  have t: "new @ trace init_st = new" for new by (simp add: init_st_def)
  let ?run = "ensure_keys default_config ''app'' [''client-id'', ''client-secret'']
        (\<lambda>_. random_string 3) half_env init_st"
  obtain new where n: "trace (snd ?run) = new @ trace init_st"
    and w: "\<forall>c \<in> fst ` set new. kv_write c \<longrightarrow> (\<exists>m t d. c = Kv VCreate m ''app'' t (JObj d) \<and>
       jget (JObj d) ''client-id'' = JStr ''abc'')"
    using ensure_keys_never_overwrites [OF r g, where want = "[''client-id'', ''client-secret'']"]
    unfolding p by (metis i)
  have "trace (snd ?run) = new" using n unfolding t .
  with w show ?thesis by blast
qed

text \<open>When every wanted key is there, the helper is exactly the read: it returns what is
  stored, reports no change, and makes no further request. Reconciling again therefore
  never rotates a credential.\<close>

lemma ensure_keys_settled:
  assumes "bao_read cfg path env s = (Inr found, s1)"
    and "\<forall>k \<in> set want. truthy (jget (JObj (jdict (or_empty found))) k)"
  shows "ensure_keys cfg path want gen env s = (Inr (jdict (or_empty found), False), s1)"
  unfolding ensure_keys_def by (rule bao.ensure_present [OF assms])

lemma ensure_keys_settled_witness:
  "fst (ensure_keys default_config ''app'' [''client-id''] (\<lambda>_. random_string 3)
       half_env init_st) =
     Inr ([(''client-id'', JStr ''abc'')], False)"
proof -
  obtain s1 where r: "bao_read default_config ''app'' half_env init_st =
     (Inr (Some (JObj [(''client-id'', JStr ''abc'')])), s1)"
    using half_env_read by blast
  show ?thesis
    using ensure_keys_settled [OF r, of "[''client-id'']" "\<lambda>_. random_string 3"] by (simp add: or_empty_def)
qed

subsection \<open>The retry\<close>

definition kv_count :: "log \<Rightarrow> nat" where
  "kv_count l = length (filter (\<lambda>cr. is_kv (fst cr)) l)"

definition kv_at_most :: "nat \<Rightarrow> 'a M \<Rightarrow> bool" where
  "kv_at_most n m \<longleftrightarrow>
     (\<forall>env s. \<exists>new. trace (snd (m env s)) = new @ trace s \<and> kv_count new \<le> n)"

lemma kv_at_most_only: "only (\<lambda>c. \<not> is_kv c) m \<Longrightarrow> kv_at_most n m"
  unfolding kv_at_most_def only_def kv_count_def by (metis filter_False le0 list.size(3))

lemma kv_at_most_call: "kv_at_most 1 (callM c)"
  unfolding kv_at_most_def
  by (auto simp: trace_callM kv_count_def intro!: exI [of _ "[_]"])

lemma kv_at_most_bindM:
  assumes m: "kv_at_most a m" and f: "\<And>x. kv_at_most b (f x)"
  shows "kv_at_most (a + b) (bindM m f)"
  unfolding kv_at_most_def
proof (intro allI)
  fix env s
  obtain r s1 where 1: "m env s = (r, s1)" by (cases "m env s")
  obtain n1 where n1: "trace (snd (m env s)) = n1 @ trace s" "kv_count n1 \<le> a"
    using m unfolding kv_at_most_def by blast
  show "\<exists>new. trace (snd (bindM m f env s)) = new @ trace s \<and> kv_count new \<le> a + b"
  proof (cases r)
    case (Inl e)
    with 1 n1 show ?thesis by (auto simp: bindM_def)
  next
    case (Inr x)
    obtain n2 where "trace (snd (f x env s1)) = n2 @ trace s1" "kv_count n2 \<le> b"
      using f unfolding kv_at_most_def by blast
    with 1 n1 Inr show ?thesis
      by (intro exI [of _ "n2 @ n1"]) (auto simp: bindM_def kv_count_def)
  qed
qed

lemma kv_at_most_tryM:
  assumes m: "kv_at_most a m" and h: "\<And>e. only (\<lambda>c. \<not> is_kv c) (h e)"
  shows "kv_at_most a (tryM m h)"
  unfolding kv_at_most_def
proof (intro allI)
  fix env s
  obtain r s1 where 1: "m env s = (r, s1)" by (cases "m env s")
  obtain n1 where n1: "trace (snd (m env s)) = n1 @ trace s" "kv_count n1 \<le> a"
    using m unfolding kv_at_most_def by blast
  show "\<exists>new. trace (snd (tryM m h env s)) = new @ trace s \<and> kv_count new \<le> a"
  proof (cases r)
    case (Inl e)
    obtain n2 where "trace (snd (h e env s1)) = n2 @ trace s1" "kv_count n2 \<le> 0"
      using kv_at_most_only [OF h] unfolding kv_at_most_def by blast
    with 1 n1 Inl show ?thesis
      by (intro exI [of _ "n2 @ n1"]) (auto simp: tryM_def kv_count_def)
  next
    case (Inr x)
    with 1 n1 show ?thesis by (auto simp: tryM_def)
  qed
qed

lemma kv_read_attempt: "kv_at_most 1 (read_attempt cfg path force)"
proof -
  have "kv_at_most (0 + 1) (read_attempt cfg path force)"
    unfolding read_attempt_def
  proof (rule kv_at_most_bindM [OF kv_at_most_only [OF only_openbao_token]],
      rule kv_at_most_tryM)
    fix token
    have "kv_at_most (1 + 0) (bindM (callM (Kv VGet (kv_mount_of cfg) (strip_of ''/'' path) token JNull))
        (\<lambda>resp. bindM (item resp ''data'') (\<lambda>outer. bindM (item outer ''data'') (\<lambda>inner.
           ret (Some (Some (jor inner (JObj []))))))))"
      by (intro kv_at_most_bindM kv_at_most_call kv_at_most_only only_intros)
    then show "kv_at_most 1 (bindM (callM (Kv VGet (kv_mount_of cfg) (strip_of ''/'' path) token JNull))
        (\<lambda>resp. bindM (item resp ''data'') (\<lambda>outer. bindM (item outer ''data'') (\<lambda>inner.
           ret (Some (Some (jor inner (JObj []))))))))" by simp
  qed (auto intro!: only_intros split: exn.split xerr.split)
  then show ?thesis by simp
qed

text \<open>A read makes at most two KV requests, whatever OpenBao answers: the second only
  after a refusal, and a second refusal is an error, never a loop.\<close>

lemma bao_read_bounded:
  "\<exists>new. trace (snd (bao_read cfg path env s)) = new @ trace s \<and> kv_count new \<le> 2"
proof -
  have "kv_at_most (1 + (1 + 0)) (bao_read cfg path)"
    unfolding bao_read_def twice_def
  proof (intro kv_at_most_bindM kv_read_attempt)
    fix r :: "json option option"
    have "kv_at_most (1 + 0) (bindM (read_attempt cfg path True) (\<lambda>r'. case r' of
        Some x \<Rightarrow> ret x
      | None \<Rightarrow> raise (OpenBaoError (''openbao read '' @ path @ '': access denied''))))"
      by (intro kv_at_most_bindM kv_read_attempt kv_at_most_only)
         (auto intro!: only_intros split: option.split)
    then show "kv_at_most (1 + 0) (case r of
        Some x \<Rightarrow> ret x
      | None \<Rightarrow> bindM (read_attempt cfg path True) (\<lambda>r'. case r' of
          Some x \<Rightarrow> ret x
        | None \<Rightarrow> raise (OpenBaoError (''openbao read '' @ path @ '': access denied''))))"
      by (auto intro: kv_at_most_only only_ret split: option.split)
  qed
  then show ?thesis unfolding kv_at_most_def by (simp add: numeral_2_eq_2)
qed

text \<open>A cached token that has not reached its renewal margin is used without a login;
  the only request is the clock reading a leased token needs.\<close>

lemma token_cached_reused:
  assumes "cached_token s \<noteq> []"
    and "token_expiry s \<noteq> 0 \<Longrightarrow>
      \<exists>now. env (trace s) Monotonic = Inr (JInt now) \<and> now < token_expiry s - TOKEN_RENEW_SKEW"
  shows "\<exists>s'. kubernetes_token cfg False env s = (Inr (cached_token s), s') \<and>
     map fst (trace s') = (if token_expiry s = 0 then [] else [Monotonic]) @ map fst (trace s)"
proof (cases "token_expiry s = 0")
  case True
  with assms(1) show ?thesis
    by (simp add: kubernetes_token_def bindM_def getM_def ret_def)
next
  case False
  with assms obtain now where "env (trace s) Monotonic = Inr (JInt now)"
    "now < token_expiry s - TOKEN_RENEW_SKEW" by blast
  with assms(1) False show ?thesis
    by (simp add: kubernetes_token_def bindM_def getM_def ret_def monotonic_def)
qed

lemma token_cached_reused_witness:
  "\<exists>s'. kubernetes_token default_config False (\<lambda>l c. Inr (JInt 100))
       (init_st\<lparr>cached_token := ''t'', token_expiry := 500\<rparr>) = (Inr ''t'', s') \<and>
     map fst (trace s') = [Monotonic]"
  using token_cached_reused [of "init_st\<lparr>cached_token := ''t'', token_expiry := 500\<rparr>"
      "\<lambda>l c. Inr (JInt 100)" default_config]
  by (simp add: init_st_def)

definition is_login :: "call \<Rightarrow> bool" where
  "is_login c \<longleftrightarrow> (\<exists>a m r j. c = KvLogin a m r j)"

lemma kubernetes_login_logs:
  assumes "kubernetes_login a m r j env s = (Inr x, s')"
  shows "(\<exists>resp. trace s' = (KvLogin (rstrip_of ''/'' a) (strip_of ''/'' m) r j, resp) # trace s) \<and>
    fst x \<noteq> []"
  using assms
  by (auto simp: kubernetes_login_def tryM_Inr bindM_Inr callM_Inr raise_def ret_def Let_def
      to_int_def split: if_splits json.splits option.splits)

lemma renew_token_run:
  assumes "renew_token cfg env s = (Inr t, s')"
  shows "cached_token s' = t \<and> t \<noteq> [] \<and>
    (\<exists>new. trace s' = new @ trace s \<and> (\<exists>cr \<in> set new. is_login (fst cr)))"
proof -
  obtain jwt s1 lease s2 where j: "callM (ReadFile (jwt_path cfg)) env s = (Inr jwt, s1)"
    and l: "kubernetes_login (openbao_addr cfg) (k8s_auth_mount cfg) (k8s_auth_role cfg)
        (strip (jstr jwt)) env s1 = (Inr (t, lease), s2)"
    and e: "thenM (set_token t) (thenM (if lease > 0
        then bindM monotonic (\<lambda>now. set_expiry (now + lease)) else set_expiry 0) (ret t)) env s2
        = (Inr t, s')"
    using assms by (auto simp: renew_token_def bindM_Inr thenM_Inr ret_def)
  from kubernetes_login_logs [OF l] obtain c r where
    c: "trace s2 = (c, r) # trace s1" "is_login c" "t \<noteq> []"
    by (auto simp: is_login_def)
  have "trace s1 = [(ReadFile (jwt_path cfg), Inr jwt)] @ trace s"
    using j by (auto simp: callM_Inr)
  moreover have "cached_token s' = t \<and> (\<exists>n. trace s' = n @ trace s2)"
    using e by (auto simp: thenM_Inr bindM_Inr set_token_def set_expiry_def modifyM_def
        monotonic_def Let_def ret_def split: if_splits)
  ultimately obtain n where "cached_token s' = t" "trace s' = n @ (c, r) # [(ReadFile (jwt_path cfg), Inr jwt)] @ trace s"
    using c by auto
  with c show ?thesis
    by (intro conjI exI [of _ "n @ [(c, r), (ReadFile (jwt_path cfg), Inr jwt)]"]) auto
qed

text \<open>After a refusal the token is really renewed: a forced refresh that returns has
  logged in, and the token it returns is the one now cached, whatever was cached
  before.\<close>

lemma token_forced_relogin:
  assumes "kubernetes_token cfg True env s = (Inr t, s')"
  shows "cached_token s' = t \<and> t \<noteq> [] \<and>
     (\<exists>new. trace s' = new @ trace s \<and> (\<exists>cr \<in> set new. is_login (fst cr)))"
proof -
  obtain s0 n0 where 0: "renew_token cfg env s0 = (Inr t, s')" "trace s0 = n0 @ trace s"
    using assms
    by (auto simp: kubernetes_token_def bindM_Inr getM_def ret_def monotonic_def Let_def
        split: if_splits)
  with renew_token_run obtain n1 cr where "cached_token s' = t" "t \<noteq> []"
    "trace s' = n1 @ trace s0" "cr \<in> set n1" "is_login (fst cr)" by blast
  with 0 show ?thesis by (intro conjI exI [of _ "n1 @ n0"]) auto
qed

lemma token_forced_relogin_witness:
  "cached_token (snd (kubernetes_token default_config True
     (\<lambda>l c. Inr (JObj [(''auth'', JObj [(''client_token'', JStr ''new'')])]))
     (init_st\<lparr>cached_token := ''old''\<rparr>))) = ''new''"
proof -
  let ?env = "\<lambda>l c. Inr (JObj [(''auth'', JObj [(''client_token'', JStr ''new'')])])"
  let ?s = "init_st\<lparr>cached_token := ''old''\<rparr>"
  have "fst (kubernetes_token default_config True ?env ?s) = Inr ''new''"
    by (simp add: kubernetes_token_def renew_token_def bindM_def getM_def ret_def init_st_def
        kubernetes_login_def tryM_def callM_def Let_def oget_def sget_def to_int_def
        set_token_def set_expiry_def thenM_def modifyM_def)
  then obtain s' where r: "kubernetes_token default_config True ?env ?s = (Inr ''new'', s')"
    by (metis prod.collapse)
  show ?thesis using token_forced_relogin [OF r] unfolding r snd_conv by blast
qed

text \<open>A generated credential has exactly the requested length and only letters and
  digits, whatever the random source returns.\<close>

lemma random_string_shape:
  "\<exists>cs s'. random_string n env s = (Inr cs, s') \<and> length cs = n \<and>
     set cs \<subseteq> set upper_letters \<union> set lower_letters \<union> set digit_chars"
  using random_string_run [of n env s] unfolding ALPHABET_def by (metis set_append sup_assoc)

end
