(* ===== verification/Resolve.thy ===== *)
theory Resolve
  imports Config Conditions
begin

text \<open>
  \<open>resolve.py\<close>: the effective configuration of an Application. The pure helpers (names,
  image references, the merges along organization, client, environment and
  application) come first, then \<open>compute\<close>, then the fetches from the cluster.
\<close>

section \<open>Data\<close>

abbreviation PLURAL_ORGANIZATIONS :: string where "PLURAL_ORGANIZATIONS \<equiv> ''organizations''"
abbreviation PLURAL_CLIENTS :: string where "PLURAL_CLIENTS \<equiv> ''clients''"
abbreviation PLURAL_ENVIRONMENTS :: string where "PLURAL_ENVIRONMENTS \<equiv> ''environments''"
abbreviation PLURAL_APPLICATIONS :: string where "PLURAL_APPLICATIONS \<equiv> ''applications''"
abbreviation PLURAL_APPLICATIONTYPES :: string where
  "PLURAL_APPLICATIONTYPES \<equiv> ''applicationtypes''"
abbreviation PLURAL_GITREPOSITORIES :: string where
  "PLURAL_GITREPOSITORIES \<equiv> ''gitrepositories''"
abbreviation PLURAL_SNAPSHOTS :: string where "PLURAL_SNAPSHOTS \<equiv> ''snapshots''"
abbreviation PLURAL_DATABASESERVERS :: string where
  "PLURAL_DATABASESERVERS \<equiv> ''databaseservers''"
abbreviation PLURAL_DATABASES :: string where "PLURAL_DATABASES \<equiv> ''databases''"
abbreviation PLURAL_DOMAINS :: string where "PLURAL_DOMAINS \<equiv> ''domains''"
abbreviation IDENTITY_GROUP :: string where "IDENTITY_GROUP \<equiv> ''identity.adomi.io/v1alpha1''"
abbreviation PLURAL_SSOAPPLICATIONS :: string where
  "PLURAL_SSOAPPLICATIONS \<equiv> ''ssoapplications''"
abbreviation CLASS_PRODUCTION :: string where "CLASS_PRODUCTION \<equiv> ''production''"
abbreviation CLASS_DEVELOPMENT :: string where "CLASS_DEVELOPMENT \<equiv> ''development''"
abbreviation DEFAULT_INGRESS_CLASS :: string where "DEFAULT_INGRESS_CLASS \<equiv> ''traefik''"
abbreviation DB_PORT :: int where "DB_PORT \<equiv> 5432"
abbreviation CNPG_DB_NAME :: string where "CNPG_DB_NAME \<equiv> ''app''"
abbreviation CNPG_DB_USER :: string where "CNPG_DB_USER \<equiv> ''app''"

record db_connection =
  db_host :: string
  db_port :: int
  db_name :: string
  db_user :: string
  password_secret_namespace :: string
  password_secret_name :: string
  password_secret_key :: string

record effective =
  eff_client_slug :: string
  eff_environment_name :: string
  eff_environment_class :: string
  eff_app_name :: string
  eff_namespace :: string
  eff_hostname :: string
  eff_url :: string
  eff_chart_repo_url :: string
  eff_chart_name :: string
  eff_chart_path :: string
  eff_chart_target_revision :: string
  eff_ingress_class_name :: string
  eff_type_defaults :: json
  eff_image_repository :: string
  eff_image_tag :: string
  eff_env :: "json list"
  eff_scoped_secret_paths :: "string list"

section \<open>Pure helpers\<close>

definition slug_of :: "json \<Rightarrow> string \<Rightarrow> string" where
  "slug_of spec name = strip (sor (sget spec ''slug'') name)"

definition truncate_label :: "string \<Rightarrow> string" where
  "truncate_label v = rstrip_of ''-'' (take 63 v)"

definition namespace_name :: "string \<Rightarrow> string \<Rightarrow> string" where
  "namespace_name client_slug environment_name =
     truncate_label (client_slug @ ''-'' @ environment_name)"

definition sanitize_default :: "string \<Rightarrow> bool" where
  "sanitize_default environment_class \<longleftrightarrow> environment_class \<noteq> CLASS_PRODUCTION"

text \<open>
  The three substitutions of \<open>parse_owner_repo\<close>: \<open>^git@([^:]+):\<close> becomes an https URL,
  then a leading \<open>scheme://\<close> is dropped, then a trailing \<open>.git\<close> (the string was stripped,
  so the pattern's end is the end of the string).
\<close>

definition ssh_to_https :: "string \<Rightarrow> string" where
  "ssh_to_https s =
     (if starts_with ''git@'' s
      then let r = drop 4 s; h = before (CHR '':'') r in
           (case after (CHR '':'') r of
              Some rest \<Rightarrow> if h \<noteq> [] then ''https://'' @ h @ ''/'' @ rest else s
            | None \<Rightarrow> s)
      else s)"

definition drop_scheme :: "char list \<Rightarrow> string \<Rightarrow> string" where
  "drop_scheme letters s =
     (let a = takeWhile (\<lambda>c. c \<in> set letters) s; r = dropWhile (\<lambda>c. c \<in> set letters) s in
      if a \<noteq> [] \<and> starts_with ''://'' r then drop 3 r else s)"

definition parse_owner_repo :: "string \<Rightarrow> string \<times> string" where
  "parse_owner_repo url =
     (let s = drop_suffix ''.git'' (drop_scheme lower_letters (ssh_to_https (strip url)));
          parts = filter (\<lambda>p. p \<noteq> []) (split_on (CHR ''/'') s) in
      if 3 \<le> length parts
      then (parts ! (length parts - 2), parts ! (length parts - 1))
      else ([], []))"

text \<open>\<open>image_ref.split("/", 1)\<close> raises when the reference has no slash.\<close>

definition push_image_ref :: "string \<Rightarrow> string \<Rightarrow> exn + string \<times> bool" where
  "push_image_ref image_ref push_endpoint =
     (let endpoint = rstrip_of ''/'' (strip push_endpoint) in
      if endpoint = [] then Inr (image_ref, False)
      else let insecure = starts_with ''http://'' endpoint;
               host = drop_scheme lower_letters endpoint in
           (case after (CHR ''/'') image_ref of
              Some rest \<Rightarrow> Inr (host @ ''/'' @ rest, insecure)
            | None \<Rightarrow> Inl (ValueError ''not enough values to unpack (expected 2, got 1)'')))"

definition tag_chars :: string where
  "tag_chars = alnum_chars @ ''_.-''"

definition sanitize_tag :: "string \<Rightarrow> string" where
  "sanitize_tag ref =
     (let t = map (\<lambda>c. if c \<in> set tag_chars then c else CHR ''-'') (strip ref) in
      take 128 (sor (strip_of ''.-'' t) ''latest''))"

definition built_image_ref ::
    "string \<Rightarrow> string \<Rightarrow> string \<Rightarrow> string \<Rightarrow> string \<Rightarrow> string" where
  "built_image_ref harbor project client_slug app_name ref =
     harbor @ ''/'' @ project @ ''/'' @ client_slug @ ''-'' @ app_name @ '':'' @ sanitize_tag ref"

definition snapshot_object_key :: "string \<Rightarrow> string \<Rightarrow> string" where
  "snapshot_object_key ns name = ''snapshots/'' @ ns @ ''/'' @ name @ ''.pgdump''"

text \<open>One plain variable, then one explicit \<open>env\<close> entry, folded into the ordered dict.\<close>

definition add_variable :: "dict \<Rightarrow> json \<Rightarrow> dict" where
  "add_variable merged var =
     (let name = strip (sget var ''name'') in
      if name = [] then merged
      else dset name (JObj [(''name'', JStr name),
                            (''value'', jor (jget var ''value'') (JStr []))]) merged)"

definition add_env_entry :: "dict \<Rightarrow> json \<Rightarrow> dict" where
  "add_env_entry merged entry =
     (let name = strip (sget entry ''name'') in
      if name = [] then merged else dset name entry merged)"

definition add_scope :: "dict \<Rightarrow> json \<Rightarrow> dict" where
  "add_scope merged spec = foldl add_variable merged (lget spec ''variables'')"

definition merged_dict :: "json \<Rightarrow> json \<Rightarrow> json \<Rightarrow> json \<Rightarrow> dict" where
  "merged_dict org_spec client_spec environment_spec app_spec =
     foldl add_env_entry
       (foldl add_scope [] [org_spec, client_spec, environment_spec, app_spec])
       (lget app_spec ''env'')"

definition merged_env :: "json \<Rightarrow> json \<Rightarrow> json \<Rightarrow> json \<Rightarrow> json list" where
  "merged_env org_spec client_spec environment_spec app_spec =
     map snd (merged_dict org_spec client_spec environment_spec app_spec)"

definition scoped_secret_paths ::
    "string \<Rightarrow> string \<Rightarrow> string \<Rightarrow> string \<Rightarrow> string \<Rightarrow> string list" where
  "scoped_secret_paths pre org_name client_slug environment_name app_name =
     (let p = strip_of ''/'' pre in
      (if org_name \<noteq> [] then [p @ ''/org/'' @ org_name] else []) @
      [p @ ''/clients/'' @ client_slug,
       p @ ''/clients/'' @ client_slug @ ''/environments/'' @ environment_name,
       p @ ''/clients/'' @ client_slug @ ''/environments/'' @ environment_name @
         ''/applications/'' @ app_name])"

definition database_url :: "string \<Rightarrow> string \<Rightarrow> string \<Rightarrow> int \<Rightarrow> string \<Rightarrow> string" where
  "database_url user password_key host port dbname =
     ''postgresql://'' @ user @ '':{{ index . '' @ [CHR 0x22] @ password_key @ [CHR 0x22] @
     '' }}@'' @ host @ '':'' @ int_str port @ ''/'' @ dbname"

definition db_credentials_path :: "string \<Rightarrow> string \<Rightarrow> string \<Rightarrow> string" where
  "db_credentials_path pre server user = strip_of ''/'' pre @ ''/'' @ server @ ''/'' @ user"

text \<open>
  \<open>deep_merge\<close>: one layer is folded into the output key by key; where both sides hold a
  dict the recursive call merges them, otherwise the later value replaces. The recursive
  call of the source starts from an empty dict and folds the old value first, which for a
  Python dict (distinct keys) is the old value itself (\<open>merge_layer_empty\<close>).
\<close>

fun merge_layer :: "dict \<Rightarrow> dict \<Rightarrow> dict" where
  "merge_layer out [] = out"
| "merge_layer out ((k, v) # kvs) =
     (case v of
        JObj w \<Rightarrow>
          (case dget out k of
             Some (JObj old) \<Rightarrow> merge_layer (dset k (JObj (merge_layer old w)) out) kvs
           | _ \<Rightarrow> merge_layer (dset k v out) kvs)
      | _ \<Rightarrow> merge_layer (dset k v out) kvs)"

definition deep_merge :: "json list \<Rightarrow> dict" where
  "deep_merge layers = foldl (\<lambda>out l. merge_layer out (jdict l)) [] layers"

section \<open>The effective configuration\<close>

definition app_host_label :: "string \<Rightarrow> string \<Rightarrow> string \<Rightarrow> string" where
  "app_host_label app_name environment_name client_slug =
     strip_of ''-'' (take 63 (app_name @ ''-'' @ environment_name @ ''-'' @ client_slug))"

definition compute ::
    "config \<Rightarrow> json \<Rightarrow> string \<Rightarrow> json \<Rightarrow> string \<Rightarrow> json \<Rightarrow> string \<Rightarrow> json \<Rightarrow> json \<Rightarrow>
     string \<Rightarrow> string \<Rightarrow> effective" where
  "compute cfg org client_name client_spec environment_name environment_spec
           app_name app_spec type_spec domain_fqdn org_name =
     (let org_domain = oget org ''domain'';
          org_images = oget org ''images'';
          org_ingress = oget org ''ingress'';
          app_ingress = oget app_spec ''ingress'';
          type_chart = oget type_spec ''chart'';
          client_slug = slug_of client_spec client_name;
          environment_class = sor (sget environment_spec ''class'') CLASS_DEVELOPMENT;
          ns = namespace_name client_slug environment_name;
          base = strip (sor domain_fqdn (sor (sget org_domain ''base'') (base_domain cfg)));
          explicit = strip (sget app_ingress ''host'');
          host = (if explicit = [] \<and> base \<noteq> []
                  then app_host_label app_name environment_name client_slug @ ''.'' @ base
                  else explicit)
      in \<lparr> eff_client_slug = client_slug,
           eff_environment_name = environment_name,
           eff_environment_class = environment_class,
           eff_app_name = app_name,
           eff_namespace = ns,
           eff_hostname = host,
           eff_url = (if host \<noteq> [] then ''https://'' @ host else []),
           eff_chart_repo_url = sget type_chart ''repoURL'',
           eff_chart_name = sget type_chart ''chart'',
           eff_chart_path = sget type_chart ''path'',
           eff_chart_target_revision = sget type_chart ''targetRevision'',
           eff_ingress_class_name =
             sor (sget app_ingress ''className'')
               (sor (sget org_ingress ''className'') DEFAULT_INGRESS_CLASS),
           eff_type_defaults = oget type_spec ''defaultValues'',
           eff_image_repository = sor (sget org_images ''odooRepository'')
             (odoo_image_repository cfg),
           eff_image_tag = sor (sget org_images ''odooTag'') (odoo_image_tag cfg),
           eff_env = merged_env org client_spec environment_spec app_spec,
           eff_scoped_secret_paths =
             scoped_secret_paths (scoped_secrets_prefix cfg) org_name client_slug
               environment_name app_name \<rparr>)"

section \<open>Fetching from the cluster\<close>

definition get_namespaced :: "string \<Rightarrow> string \<Rightarrow> string \<Rightarrow> json M" where
  "get_namespaced plural name ns =
     on_status [404] (callM (Custom VGet PLATFORM_GROUP plural ns name JNull))
       (raise (NotFound (''referenced '' @ plural @ ''/'' @ name @
          '' not found in namespace '' @ ns)))"

definition get_client :: "string \<Rightarrow> string \<Rightarrow> json M" where
  "get_client = get_namespaced PLURAL_CLIENTS"

definition get_environment :: "string \<Rightarrow> string \<Rightarrow> json M" where
  "get_environment = get_namespaced PLURAL_ENVIRONMENTS"

definition get_application :: "string \<Rightarrow> string \<Rightarrow> json M" where
  "get_application = get_namespaced PLURAL_APPLICATIONS"

definition get_gitrepository :: "string \<Rightarrow> string \<Rightarrow> json M" where
  "get_gitrepository = get_namespaced PLURAL_GITREPOSITORIES"

definition get_snapshot :: "string \<Rightarrow> string \<Rightarrow> json M" where
  "get_snapshot = get_namespaced PLURAL_SNAPSHOTS"

definition get_database :: "string \<Rightarrow> string \<Rightarrow> json M" where
  "get_database = get_namespaced PLURAL_DATABASES"

definition get_database_server :: "string \<Rightarrow> string \<Rightarrow> json M" where
  "get_database_server = get_namespaced PLURAL_DATABASESERVERS"

definition get_domain :: "string \<Rightarrow> string \<Rightarrow> json M" where
  "get_domain = get_namespaced PLURAL_DOMAINS"

definition client_matches :: "string \<Rightarrow> json \<Rightarrow> bool" where
  "client_matches slug item \<longleftrightarrow>
     jget (oget item ''metadata'') ''name'' = JStr slug \<or>
     jget (oget item ''spec'') ''slug'' = JStr slug"

definition find_client_namespace :: "string \<Rightarrow> string M" where
  "find_client_namespace slug =
     bindM (callM (Custom VList PLATFORM_GROUP PLURAL_CLIENTS [] [] JNull)) (\<lambda>listing.
     ret (case List.find (client_matches slug) (lget listing ''items'') of
            None \<Rightarrow> []
          | Some item \<Rightarrow> sget (oget item ''metadata'') ''namespace''))"

definition get_sso_application :: "string \<Rightarrow> string \<Rightarrow> json M" where
  "get_sso_application name ns =
     on_status [404] (callM (Custom VGet IDENTITY_GROUP PLURAL_SSOAPPLICATIONS ns name JNull))
       (raise (NotFound (''SSOApplication '' @ ns @ ''/'' @ repr name @ '' not found'')))"

definition get_application_type :: "string \<Rightarrow> json M" where
  "get_application_type name =
     on_status [404] (callM (Custom VGet PLATFORM_GROUP PLURAL_APPLICATIONTYPES [] name JNull))
       (raise (NotFound (''ApplicationType '' @ repr name @ '' not found'')))"

text \<open>The named Organization, else the only one, else none (\<open>JNull\<close>).\<close>

definition get_organization :: "string \<Rightarrow> json M" where
  "get_organization name =
     (if name \<noteq> []
      then on_status [404]
             (callM (Custom VGet PLATFORM_GROUP PLURAL_ORGANIZATIONS [] name JNull))
             (raise (NotFound (''Organization '' @ repr name @ '' not found'')))
      else bindM (callM (Custom VList PLATFORM_GROUP PLURAL_ORGANIZATIONS [] [] JNull))
             (\<lambda>listing. ret (case lget listing ''items'' of [x] \<Rightarrow> x | _ \<Rightarrow> JNull)))"

text \<open>
  \<open>app_db_connection\<close>: the connection of the first explicit database, or \<open>NotFound\<close> while
  the server has published no host.
\<close>

definition app_db_connection :: "json \<Rightarrow> db_connection M" where
  "app_db_connection app_obj =
     (let spec = oget app_obj ''spec''; meta = oget app_obj ''metadata'';
          status = oget app_obj ''status'';
          server_ns = sget meta ''namespace'';
          app_ns = sor (sget status ''namespace'') server_ns in
      case lget spec ''databases'' of
        [] \<Rightarrow> raise (NotFound ''application has no spec.databases'')
      | db # _ \<Rightarrow>
          let server_ref = sget db ''server'' in
          if server_ref = [] then raise (NotFound ''databases[0].server is required'')
          else bindM (get_database_server server_ref server_ns) (\<lambda>server.
            let srv = oget server ''status''; host = sget srv ''host'';
                creds = oget db ''credentials'' in
            if host = []
            then raise (NotFound (''DatabaseServer '' @ repr server_ref @
                   '' not ready (no status.host)''))
            else bindM (to_int (jor (jget srv ''port'') (JInt DB_PORT))) (\<lambda>port.
              ret \<lparr> db_host = host,
                    db_port = port,
                    db_name = sor (sget db ''databaseName'') (sget db ''name''),
                    db_user = sor (sget db ''user'') (sget db ''name''),
                    password_secret_namespace = app_ns,
                    password_secret_name = sget creds ''secret'',
                    password_secret_key = sor (sget creds ''passwordKey'') ''password'' \<rparr>)))"

section \<open>Facts: names and references\<close>

lemma ends_with_snoc: "ends_with [c] (xs @ [d]) \<longleftrightarrow> c = d"
  by (auto simp: ends_with_def starts_with_def)

lemma ends_with_last: "ends_with [c] s \<longleftrightarrow> s \<noteq> [] \<and> last s = c"
  by (cases s rule: rev_cases) (auto simp: ends_with_def starts_with_def)

lemma truncate_label_length: "length (truncate_label v) \<le> 63"
  using length_rstrip_of [of "''-''" "take 63 v"] by (simp add: truncate_label_def)

lemma truncate_label_end: "\<not> ends_with ''-'' (truncate_label v)"
  using last_rstrip_of [of "''-''" "take 63 v"] by (auto simp: truncate_label_def ends_with_last)

lemma truncate_label_id: "length v \<le> 63 \<Longrightarrow> \<not> ends_with ''-'' v \<Longrightarrow> truncate_label v = v"
  by (simp add: truncate_label_def ends_with_last rstrip_of_id)

lemma tag_chars_fallback: "set ''latest'' \<subseteq> set tag_chars"
  by (simp add: tag_chars_def alnum_chars_def lower_letters_def)

lemma sanitize_tag_unfold:
  "\<exists>t. set t \<subseteq> set tag_chars \<and> t \<noteq> [] \<and> hd t \<noteq> CHR ''.'' \<and> hd t \<noteq> CHR ''-'' \<and>
     sanitize_tag ref = take 128 t"
proof -
  let ?m = "map (\<lambda>c. if c \<in> set tag_chars then c else CHR ''-'') (strip ref)"
  let ?t = "sor (strip_of ''.-'' ?m) ''latest''"
  have dash: "CHR ''-'' \<in> set tag_chars" by (simp add: tag_chars_def)
  then have "set (strip_of ''.-'' ?m) \<subseteq> set tag_chars"
    using set_strip_of [of "''.-''" ?m] by auto
  then have "set ?t \<subseteq> set tag_chars" using tag_chars_fallback by (auto simp: sor_def)
  moreover have "?t \<noteq> []" by (simp add: sor_def)
  moreover have "hd ?t \<noteq> CHR ''.'' \<and> hd ?t \<noteq> CHR ''-''"
    using hd_strip_of [of "''.-''" ?m] by (auto simp: sor_def)
  moreover have "sanitize_tag ref = take 128 ?t" by (simp add: sanitize_tag_def Let_def)
  ultimately show ?thesis by blast
qed

lemma after_first_sep: "c \<notin> set h \<Longrightarrow> after c (h @ c # r) = Some r"
  by (induction h) (auto simp: after_def)

lemma filter_split_no_sep:
  "c \<notin> set p \<Longrightarrow> split_on c (p @ c # s) = p # split_on c s"
  by (induction p) auto

lemma split_on_single: "c \<notin> set p \<Longrightarrow> split_on c p = [p]"
  by (induction p) auto

lemma drop_suffix_append [simp]: "drop_suffix p (s @ p) = s"
  by (simp add: drop_suffix_def ends_with_def)

section \<open>Facts: the merge of variables\<close>

text \<open>
  The reference: what a scope declares for a name is the last entry with that name; the
  value an Application sees is the declaration of the nearest scope.
\<close>

definition named :: "string \<Rightarrow> json \<Rightarrow> bool" where
  "named n v \<longleftrightarrow> n \<noteq> [] \<and> strip (sget v ''name'') = n"

definition last_named :: "string \<Rightarrow> json list \<Rightarrow> json option" where
  "last_named n vs = List.find (named n) (rev vs)"

definition render_variable :: "string \<Rightarrow> json \<Rightarrow> json" where
  "render_variable n v =
     JObj [(''name'', JStr n), (''value'', jor (jget v ''value'') (JStr []))]"

fun nearest :: "string \<Rightarrow> json list \<Rightarrow> json option" where
  "nearest n [] = None"
| "nearest n (spec # specs) =
     (case last_named n (lget spec ''variables'') of
        Some v \<Rightarrow> Some (render_variable n v)
      | None \<Rightarrow> nearest n specs)"

lemma find_snoc: "List.find P (xs @ [x]) = (case List.find P xs of
    Some y \<Rightarrow> Some y | None \<Rightarrow> if P x then Some x else None)"
  by (induction xs) auto

lemma last_named_Nil: "last_named n [] = None"
  by (simp add: last_named_def)

lemma last_named_Cons:
  "last_named n (v # vs) = (case last_named n vs of
     Some w \<Rightarrow> Some w | None \<Rightarrow> if named n v then Some v else None)"
  by (simp add: last_named_def find_snoc)

lemma dget_add_variable:
  "dget (add_variable d v) n = (if named n v then Some (render_variable n v) else dget d n)"
  by (auto simp: add_variable_def named_def render_variable_def Let_def)

lemma dget_add_env_entry:
  "dget (add_env_entry d v) n = (if named n v then Some v else dget d n)"
  by (auto simp: add_env_entry_def named_def Let_def)

lemma dget_fold_variables:
  "dget (foldl add_variable d vs) n = (case last_named n vs of
     Some v \<Rightarrow> Some (render_variable n v) | None \<Rightarrow> dget d n)"
  by (induction vs arbitrary: d)
     (auto simp: last_named_Nil last_named_Cons dget_add_variable split: option.splits)

lemma dget_fold_env:
  "dget (foldl add_env_entry d vs) n = (case last_named n vs of
     Some v \<Rightarrow> Some v | None \<Rightarrow> dget d n)"
  by (induction vs arbitrary: d)
     (auto simp: last_named_Nil last_named_Cons dget_add_env_entry split: option.splits)

lemma dget_fold_scopes:
  "dget (foldl add_scope d specs) n = (case nearest n (rev specs) of
     Some v \<Rightarrow> Some v | None \<Rightarrow> dget d n)"
proof (induction specs rule: rev_induct)
  case Nil
  then show ?case by simp
next
  case (snoc x xs)
  then show ?case
    by (auto simp: add_scope_def dget_fold_variables split: option.splits)
qed

lemma wf_fold_variables: "wf_dict d \<Longrightarrow> wf_dict (foldl add_variable d vs)"
  by (induction vs arbitrary: d) (auto simp: add_variable_def Let_def)

lemma wf_fold_env: "wf_dict d \<Longrightarrow> wf_dict (foldl add_env_entry d vs)"
  by (induction vs arbitrary: d) (auto simp: add_env_entry_def Let_def)

lemma wf_fold_scopes: "wf_dict d \<Longrightarrow> wf_dict (foldl add_scope d specs)"
  by (induction specs arbitrary: d) (auto simp: add_scope_def wf_fold_variables)

text \<open>C4. The workload's environment is the reference: for every name, the explicit
  \<open>env\<close> entry of the application if there is one, else the variable of the nearest
  declaring scope (application, environment, client, organization, in this order), else
  nothing; and no name occurs twice.\<close>

theorem merged_env_nearest_wins:
  "dget (merged_dict org_spec client_spec environment_spec app_spec) n =
     (case last_named n (lget app_spec ''env'') of
        Some e \<Rightarrow> Some e
      | None \<Rightarrow> nearest n [app_spec, environment_spec, client_spec, org_spec]) \<and>
   wf_dict (merged_dict org_spec client_spec environment_spec app_spec)"
proof
  show "dget (merged_dict org_spec client_spec environment_spec app_spec) n =
     (case last_named n (lget app_spec ''env'') of
        Some e \<Rightarrow> Some e
      | None \<Rightarrow> nearest n [app_spec, environment_spec, client_spec, org_spec])"
    unfolding merged_dict_def dget_fold_env dget_fold_scopes
    by (simp split: option.splits)
  show "wf_dict (merged_dict org_spec client_spec environment_spec app_spec)"
    unfolding merged_dict_def by (intro wf_fold_env wf_fold_scopes) simp
qed

section \<open>Facts: the deep merge\<close>

fun wf_json :: "json \<Rightarrow> bool" where
  "wf_json (JObj kvs) = (wf_dict kvs \<and> (\<forall>kv \<in> set kvs. wf_json (snd kv)))"
| "wf_json (JArr xs) = (\<forall>x \<in> set xs. wf_json x)"
| "wf_json _ = True"

text \<open>The value at a path of keys.\<close>

fun jpath :: "json \<Rightarrow> string list \<Rightarrow> json option" where
  "jpath j [] = Some j"
| "jpath j (k # ks) = (case j of
     JObj kvs \<Rightarrow> (case dget kvs k of Some v \<Rightarrow> jpath v ks | None \<Rightarrow> None)
   | _ \<Rightarrow> None)"

text \<open>A layer is silent on a path when its own objects do not reach the end of the path.\<close>

fun silent :: "dict \<Rightarrow> string list \<Rightarrow> bool" where
  "silent d [] = False"
| "silent d (k # ks) = (case dget d k of
     None \<Rightarrow> True
   | Some (JObj w) \<Rightarrow> silent w ks
   | Some _ \<Rightarrow> False)"

definition merge_value :: "json option \<Rightarrow> json \<Rightarrow> json" where
  "merge_value old v = (case (old, v) of
     (Some (JObj o1), JObj w) \<Rightarrow> JObj (merge_layer o1 w)
   | _ \<Rightarrow> v)"

lemma merge_layer_Cons:
  "merge_layer out ((k, v) # kvs) = merge_layer (dset k (merge_value (dget out k) v) out) kvs"
  by (auto simp: merge_value_def split: json.splits option.splits)

lemma dget_merge_layer:
  "wf_dict l \<Longrightarrow> dget (merge_layer out l) k =
     (case dget l k of None \<Rightarrow> dget out k | Some v \<Rightarrow> Some (merge_value (dget out k) v))"
proof (induction l arbitrary: out)
  case Nil
  then show ?case by simp
next
  case (Cons kv l)
  obtain k' v where kv: "kv = (k', v)" by (cases kv)
  with Cons.prems have "wf_dict l" and "dget l k' = None"
    by (auto simp: wf_dict_def map_of_eq_None_iff)
  with Cons.IH kv show ?case
    by (auto simp del: merge_layer.simps simp: merge_layer_Cons split: option.splits)
qed

lemma merge_layer_empty_append:
  "wf_dict (d @ l) \<Longrightarrow> merge_layer d l = d @ l"
proof (induction l arbitrary: d)
  case Nil
  then show ?case by simp
next
  case (Cons kv l)
  obtain k v where kv: "kv = (k, v)" by (cases kv)
  have new: "dget d k = None"
    using Cons.prems kv by (auto simp: wf_dict_def map_of_eq_None_iff)
  then have "dset k v d = d @ [(k, v)]"
    by (induction d) (auto split: if_splits)
  with Cons kv new show ?case
    by (simp add: merge_layer_Cons merge_value_def del: merge_layer.simps)
qed

lemma merge_layer_empty: "wf_dict l \<Longrightarrow> merge_layer [] l = l"
  using merge_layer_empty_append [of "[]" l] by simp

lemma wf_merge_layer: "wf_dict out \<Longrightarrow> wf_dict (merge_layer out l)"
  by (induction l arbitrary: out)
     (auto simp: merge_layer_Cons simp del: merge_layer.simps(2))

lemma wf_json_dget: "wf_json (JObj d) \<Longrightarrow> dget d k = Some v \<Longrightarrow> wf_json v"
  by (auto dest!: map_of_SomeD)

lemma jpath_merge_hit:
  assumes "wf_json (JObj l)" and "jpath (JObj l) ks = Some v" and "\<not> is_obj v"
  shows "jpath (JObj (merge_layer out l)) ks = Some v"
  using assms
proof (induction ks arbitrary: l out)
  case Nil
  then show ?case by auto
next
  case (Cons k ks)
  from Cons.prems(2) obtain w where w: "dget l k = Some w" "jpath w ks = Some v"
    by (auto split: option.splits)
  from Cons.prems(1) w(1) have wf: "wf_json w" by (rule wf_json_dget)
  have m: "dget (merge_layer out l) k = Some (merge_value (dget out k) w)"
    using Cons.prems(1) w(1) by (simp add: dget_merge_layer)
  have "jpath (merge_value (dget out k) w) ks = Some v"
  proof (cases "\<exists>o1 w1. dget out k = Some (JObj o1) \<and> w = JObj w1")
    case True
    then obtain o1 w1 where ow: "dget out k = Some (JObj o1)" "w = JObj w1" by blast
    with Cons.IH [of w1 o1] wf w(2) Cons.prems(3) show ?thesis
      by (simp add: merge_value_def)
  next
    case False
    with w(2) show ?thesis
      by (auto simp: merge_value_def split: option.splits json.splits)
  qed
  with m show ?case by simp
qed

lemma silent_jpath: "silent l ks \<Longrightarrow> jpath (JObj l) ks = None"
  by (induction l ks rule: silent.induct) (auto split: option.splits json.splits)

lemma jpath_merge_silent:
  assumes "wf_json (JObj l)" and "silent l ks"
  shows "jpath (JObj (merge_layer out l)) ks = jpath (JObj out) ks"
  using assms
proof (induction ks arbitrary: l out)
  case Nil
  then show ?case by simp
next
  case (Cons k ks)
  show ?case
  proof (cases "dget l k")
    case None
    with Cons.prems(1) show ?thesis by (simp add: dget_merge_layer)
  next
    case (Some w)
    with Cons.prems(2) obtain w1 where w: "w = JObj w1" "silent w1 ks"
      by (cases w) auto
    from Cons.prems(1) Some have wf: "wf_json w" by (rule wf_json_dget)
    have m: "dget (merge_layer out l) k = Some (merge_value (dget out k) w)"
      using Cons.prems(1) Some by (simp add: dget_merge_layer)
    have ne: "ks \<noteq> []" using w(2) by auto
    show ?thesis
    proof (cases "\<exists>o1. dget out k = Some (JObj o1)")
      case True
      then obtain o1 where o1: "dget out k = Some (JObj o1)" by blast
      with Cons.IH [of w1 o1] wf w m show ?thesis by (simp add: merge_value_def)
    next
      case False
      with m w have "jpath (JObj (merge_layer out l)) (k # ks) = jpath (JObj w1) ks"
        by (auto simp: merge_value_def split: option.splits json.splits)
      moreover have "jpath (JObj w1) ks = None" by (rule silent_jpath [OF w(2)])
      moreover have "jpath (JObj out) (k # ks) = None"
        using False ne by (cases ks) (auto split: option.splits json.splits)
      ultimately show ?thesis by simp
    qed
  qed
qed

lemma deep_merge_snoc:
  "deep_merge (layers @ [l]) = merge_layer (deep_merge layers) (jdict l)"
  by (simp add: deep_merge_def)

lemma deep_merge_silent_suffix:
  assumes "\<forall>l \<in> set later. wf_json (JObj (jdict l)) \<and> silent (jdict l) ks"
  shows "jpath (JObj (deep_merge (layers @ later))) ks = jpath (JObj (deep_merge layers)) ks"
  using assms
proof (induction later rule: rev_induct)
  case Nil
  then show ?case by simp
next
  case (snoc l later)
  have "deep_merge (layers @ later @ [l]) = merge_layer (deep_merge (layers @ later)) (jdict l)"
    using deep_merge_snoc [of "layers @ later"] by simp
  with snoc show ?case by (simp add: jpath_merge_silent del: wf_json.simps)
qed

text \<open>C5. The values merge: at any path of keys, a scalar or list that a layer sets is what
  the merged values hold, provided no later layer reaches that path; so type defaults are
  overridden by the computed values and those by the application's own, leaf by leaf.\<close>

theorem deep_merge_last_setter_wins:
  assumes "jpath (JObj l) ks = Some v" and "\<not> is_obj v" and "wf_json (JObj l)"
    and "\<forall>l' \<in> set later. wf_json (JObj (jdict l')) \<and> silent (jdict l') ks"
  shows "jpath (JObj (deep_merge (earlier @ [JObj l] @ later))) ks = Some v"
proof -
  have "jpath (JObj (deep_merge (earlier @ [JObj l]))) ks = Some v"
    unfolding deep_merge_snoc jdict.simps by (rule jpath_merge_hit [OF assms(3,1,2)])
  with deep_merge_silent_suffix [OF assms(4), of "earlier @ [JObj l]"] show ?thesis by simp
qed

lemma deep_merge_last_setter_wins_witness:
  "jpath (JObj (deep_merge
     ([JObj [(''image'', JObj [(''tag'', JStr ''1'')])]] @
      [JObj [(''image'', JObj [(''tag'', JStr ''2'')])]] @
      [JObj [(''image'', JObj [(''repository'', JStr ''r'')])]])))
     [''image'', ''tag''] = Some (JStr ''2'')"
  using deep_merge_last_setter_wins [of "[(''image'', JObj [(''tag'', JStr ''2'')])]"
      "[''image'', ''tag'']" "JStr ''2''"
      "[JObj [(''image'', JObj [(''repository'', JStr ''r'')])]]"
      "[JObj [(''image'', JObj [(''tag'', JStr ''1'')])]]"]
  by (simp add: wf_dict_def)

section \<open>Properties of names and references\<close>

text \<open>The environment's namespace is a DNS label as far as its length and its end go:
  at most 63 characters, never ending in a dash; and when the full name fits and does not
  end in a dash it is used unchanged.\<close>

lemma namespace_name_label:
  "length (namespace_name c e) \<le> 63 \<and> \<not> ends_with ''-'' (namespace_name c e) \<and>
   (length (c @ ''-'' @ e) \<le> 63 \<and> \<not> ends_with ''-'' (c @ ''-'' @ e) \<longrightarrow>
    namespace_name c e = c @ ''-'' @ e)"
  unfolding namespace_name_def
  using truncate_label_length truncate_label_end truncate_label_id by blast

lemma namespace_name_label_witness: "namespace_name ''acme'' ''prod'' = ''acme-prod''"
proof -
  have "length (''acme'' @ ''-'' @ ''prod'') \<le> 63 \<and> \<not> ends_with ''-'' (''acme'' @ ''-'' @ ''prod'')"
    by (simp add: ends_with_def starts_with_def)
  then have "namespace_name ''acme'' ''prod'' = ''acme'' @ ''-'' @ ''prod''"
    using namespace_name_label [of "''acme''" "''prod''"] by blast
  then show ?thesis by simp
qed

text \<open>Different customers can share a namespace: the name joins the client's slug and the
  environment's name with the separator both may contain, so client \<open>a\<close> with environment
  \<open>b-c\<close> and client \<open>a-b\<close> with environment \<open>c\<close> get the same namespace.\<close>

lemma namespace_name_collides:
  "namespace_name (a @ ''-'' @ b) c = namespace_name a (b @ ''-'' @ c)"
  by (simp add: namespace_name_def)

text \<open>A sanitized git ref is always a valid container tag: 1 to 128 characters of the
  tag alphabet, the first neither a dot nor a dash.\<close>

lemma sanitize_tag_valid:
  "set (sanitize_tag ref) \<subseteq> set tag_chars \<and> sanitize_tag ref \<noteq> [] \<and>
   length (sanitize_tag ref) \<le> 128 \<and> hd (sanitize_tag ref) \<noteq> CHR ''.'' \<and>
   hd (sanitize_tag ref) \<noteq> CHR ''-''"
proof -
  obtain t where t: "set t \<subseteq> set tag_chars" "t \<noteq> []" "hd t \<noteq> CHR ''.''" "hd t \<noteq> CHR ''-''"
    "sanitize_tag ref = take 128 t" using sanitize_tag_unfold by blast
  moreover have "set (take 128 t) \<subseteq> set t" by (rule set_take_subset)
  moreover have "hd (take 128 t) = hd t" using t(2) by (simp add: hd_take)
  ultimately show ?thesis by auto
qed

text \<open>The reference an image is pushed under names the same repository path and tag as
  the one it is deployed under; only the registry host may differ, and only when a push
  endpoint is configured. It never fails on a built reference.\<close>

lemma push_image_ref_same_image:
  assumes "CHR ''/'' \<notin> set harbor"
  shows "\<exists>host insecure.
     push_image_ref (built_image_ref harbor project client app ref) endpoint =
       Inr (host @ ''/'' @ project @ ''/'' @ client @ ''-'' @ app @ '':'' @ sanitize_tag ref,
            insecure) \<and>
     (rstrip_of ''/'' (strip endpoint) = [] \<longrightarrow> host = harbor \<and> \<not> insecure)"
proof -
  have "after (CHR ''/'') (built_image_ref harbor project client app ref) =
      Some (project @ ''/'' @ client @ ''-'' @ app @ '':'' @ sanitize_tag ref)"
    unfolding built_image_ref_def using after_first_sep [OF assms] by simp
  then show ?thesis
    unfolding push_image_ref_def Let_def
    by (auto simp: built_image_ref_def intro: exI [of _ False])
qed

lemma push_image_ref_same_image_witness:
  "\<exists>host insecure.
     push_image_ref (built_image_ref ''harbor.example.org'' ''apps'' ''acme'' ''web'' ''v1'')
       ''http://core:80/'' =
       Inr (host @ ''/'' @ ''apps'' @ ''/'' @ ''acme'' @ ''-'' @ ''web'' @ '':'' @
         sanitize_tag ''v1'', insecure)"
  using push_image_ref_same_image
    [of "''harbor.example.org''" "''apps''" "''acme''" "''web''" "''v1''" "''http://core:80/''"]
  by auto

end
