(* ===== verification/Requeue.thy ===== *)
theory Requeue
  imports Resolve
begin

text \<open>
  \<open>requeue.py\<close>: the fan-out that makes dependent Applications re-render when a scope they
  inherit from changes, by stamping them with a revision annotation.
\<close>

abbreviation ANNOTATION :: string where "ANNOTATION \<equiv> ''platform.adomi.io/config-revision''"

text \<open>\<open>str(x)\<close> of a JSON scalar inside an f-string.\<close>

fun py_str :: "json \<Rightarrow> string" where
  "py_str (JInt i) = int_str i"
| "py_str (JStr s) = s"
| "py_str (JBool b) = (if b then ''True'' else ''False'')"
| "py_str JNull = ''None''"
| "py_str (JArr _) = ''[...]''"
| "py_str (JObj _) = ''{...}''"

definition revision :: "string \<Rightarrow> string \<Rightarrow> json \<Rightarrow> string" where
  "revision kind name generation =
     kind @ ''/'' @ name @ ''@'' @ py_str (jor generation (JInt 0))"

definition app_meta :: "json \<Rightarrow> json" where
  "app_meta item = oget item ''metadata''"

definition has_revision :: "string \<Rightarrow> json \<Rightarrow> bool" where
  "has_revision rv item \<longleftrightarrow> jget (oget (app_meta item) ''annotations'') ANNOTATION = JStr rv"

definition list_applications :: "string \<Rightarrow> call" where
  "list_applications ns = Custom VList PLATFORM_GROUP PLURAL_APPLICATIONS ns [] JNull"

definition stamp :: "string \<Rightarrow> json \<Rightarrow> call" where
  "stamp rv item =
     Custom VPatch PLATFORM_GROUP PLURAL_APPLICATIONS (jstr (jget (app_meta item) ''namespace''))
       (jstr (jget (app_meta item) ''name''))
       (JObj [(''metadata'', JObj [(''annotations'', JObj [(ANNOTATION, JStr rv)])])])"

definition requeue_item :: "string \<Rightarrow> (json \<Rightarrow> bool) \<Rightarrow> json \<Rightarrow> nat M" where
  "requeue_item rv pred item =
     (if has_revision rv item then ret 0
      else if \<not> pred item then ret 0
      else tryM (thenM (callM (stamp rv item)) (ret 1)) (\<lambda>_. ret 0))"

fun requeue_items :: "string \<Rightarrow> (json \<Rightarrow> bool) \<Rightarrow> json list \<Rightarrow> nat M" where
  "requeue_items rv pred [] = ret 0"
| "requeue_items rv pred (item # items) =
     bindM (requeue_item rv pred item) (\<lambda>n.
     bindM (requeue_items rv pred items) (\<lambda>m. ret (n + m)))"

text \<open>An absent namespace lists cluster-wide; an absent predicate is \<open>\<lambda>_. True\<close>.\<close>

definition requeue_applications :: "string \<Rightarrow> string \<Rightarrow> (json \<Rightarrow> bool) \<Rightarrow> nat M" where
  "requeue_applications rv ns pred =
     bindM (tryM (bindM (callM (list_applications ns)) (\<lambda>l. ret (Some l))) (\<lambda>_. ret None))
       (\<lambda>listing. case listing of
          None \<Rightarrow> ret 0
        | Some l \<Rightarrow> requeue_items rv pred (lget l ''items''))"

definition app_references_environment :: "string \<Rightarrow> json \<Rightarrow> bool" where
  "app_references_environment environment_name item \<longleftrightarrow>
     sget (oget (oget item ''spec'') ''environmentRef'') ''name'' = environment_name"

definition app_references_type :: "string \<Rightarrow> json \<Rightarrow> bool" where
  "app_references_type type_name item \<longleftrightarrow> sget (oget item ''spec'') ''type'' = type_name"

definition app_references_domain :: "string \<Rightarrow> json \<Rightarrow> bool" where
  "app_references_domain domain_name item \<longleftrightarrow>
     sget (oget (oget item ''spec'') ''domainRef'') ''name'' = domain_name"

section \<open>Facts\<close>

definition due :: "string \<Rightarrow> (json \<Rightarrow> bool) \<Rightarrow> json \<Rightarrow> bool" where
  "due rv pred item \<longleftrightarrow> \<not> has_revision rv item \<and> pred item"

lemma requeue_item_run:
  "\<exists>n s'. requeue_item rv pred item env s = (Inr n, s') \<and>
     n \<le> (if due rv pred item then 1 else 0) \<and>
     map fst (trace s') = (if due rv pred item then [stamp rv item] else []) @ map fst (trace s)"
  by (auto simp: requeue_item_def due_def ret_def tryM_def thenM_def bindM_def callM_def Let_def
      split: sum.split)

lemma requeue_items_run:
  "\<exists>n s'. requeue_items rv pred items env s = (Inr n, s') \<and>
     n \<le> length (filter (due rv pred) items) \<and>
     map fst (trace s') = rev (map (stamp rv) (filter (due rv pred) items)) @ map fst (trace s)"
proof (induction items arbitrary: s)
  case Nil
  then show ?case by (simp add: ret_def)
next
  case (Cons item items)
  obtain n s1 where 1: "requeue_item rv pred item env s = (Inr n, s1)"
    "n \<le> (if due rv pred item then 1 else 0)"
    "map fst (trace s1) = (if due rv pred item then [stamp rv item] else []) @ map fst (trace s)"
    using requeue_item_run by blast
  obtain m s2 where "requeue_items rv pred items env s1 = (Inr m, s2)"
    "m \<le> length (filter (due rv pred) items)"
    "map fst (trace s2) = rev (map (stamp rv) (filter (due rv pred) items)) @ map fst (trace s1)"
    using Cons.IH by blast
  with 1 show ?case
    by (cases "due rv pred item") (auto simp: bindM_def ret_def)
qed

lemma quiet_requeue_items [quiet_intros]: "quiet (requeue_items rv pred items)"
  by (induction items) (auto simp: requeue_item_def intro!: quiet_intros)

lemma quiet_requeue_applications [quiet_intros]: "quiet (requeue_applications rv ns pred)"
  unfolding requeue_applications_def by (intro quiet_intros)

lemma requeue_returns: "\<exists>n s'. requeue_applications rv ns pred env s = (Inr n, s')"
proof -
  have "\<exists>n s'. requeue_items rv pred items env s1 = (Inr n, s')" for items s1
    using requeue_items_run by blast
  then show ?thesis
    by (auto simp: requeue_applications_def bindM_def tryM_def callM_def ret_def Let_def
        split: sum.split)
qed

text \<open>The object after its stamp: the merge patch of \<open>stamp\<close> on the stored item.\<close>

definition stamped :: "string \<Rightarrow> json \<Rightarrow> json" where
  "stamped rv item = JObj (dset ''metadata''
     (JObj (dset ''annotations''
        (JObj (dset ANNOTATION (JStr rv) (jdict (oget (app_meta item) ''annotations''))))
        (jdict (app_meta item)))) (jdict item))"

lemma dset_Cons: "\<exists>kv kvs. dset k v d = kv # kvs"
  by (induction k v d rule: dset.induct) auto

lemma truthy_dset: "truthy (JObj (dset k v d))"
  using dset_Cons [of k v d] by auto

lemma has_revision_stamped: "has_revision rv (stamped rv item)"
  by (simp add: has_revision_def stamped_def app_meta_def oget_def jor_def truthy_dset
      del: truthy.simps)

section \<open>Properties\<close>

text \<open>C36. The fan-out returns, whatever fails. When the Applications cannot be listed it counts none
  and sends nothing more; otherwise it sends one stamp to each Application of the listing that
  matches the predicate and does not carry the revision, in listing order, and nothing else: one
  Application's failure does not keep the others from being stamped.\<close>

theorem requeue_stamps_exactly:
  "\<exists>n s'. requeue_applications rv ns pred env s = (Inr n, s') \<and>
     (case env (trace s) (list_applications ns) of
        Inl _ \<Rightarrow> n = 0 \<and> map fst (trace s') = list_applications ns # map fst (trace s)
      | Inr listing \<Rightarrow>
          n \<le> length (filter (due rv pred) (lget listing ''items'')) \<and>
          map fst (trace s') =
            rev (map (stamp rv) (filter (due rv pred) (lget listing ''items''))) @
            list_applications ns # map fst (trace s))"
proof (cases "env (trace s) (list_applications ns)")
  case (Inl e)
  then show ?thesis by (simp add: requeue_applications_def bindM_def tryM_def callM_def ret_def)
next
  case (Inr listing)
  let ?s1 = "s\<lparr>trace := (list_applications ns, Inr listing) # trace s\<rparr>"
  have "requeue_applications rv ns pred env s =
      requeue_items rv pred (lget listing ''items'') env ?s1"
    using Inr by (simp add: requeue_applications_def bindM_def tryM_def callM_def ret_def)
  then show ?thesis
    using Inr requeue_items_run [of rv pred "lget listing ''items''" env ?s1] by simp
qed

definition two_apps :: json where
  "two_apps = JObj [(''items'', JArr
     [JObj [(''metadata'', JObj [(''name'', JStr ''a''), (''namespace'', JStr ''n'')])],
      JObj [(''metadata'', JObj [(''name'', JStr ''b''), (''namespace'', JStr ''n''),
        (''annotations'', JObj [(ANNOTATION, JStr ''client/c@2'')])])]])]"

lemma requeue_stamps_exactly_witness:
  "\<exists>n s'. requeue_applications ''client/c@2'' ''n'' (\<lambda>_. True) (\<lambda>l c. Inr two_apps) init_st =
       (Inr n, s') \<and>
     map fst (trace s') =
       [Custom VPatch PLATFORM_GROUP PLURAL_APPLICATIONS ''n'' ''a''
          (JObj [(''metadata'', JObj [(''annotations'',
             JObj [(ANNOTATION, JStr ''client/c@2'')])])]),
        Custom VList PLATFORM_GROUP PLURAL_APPLICATIONS ''n'' [] JNull]"
  using requeue_stamps_exactly [of "''client/c@2''" "''n''" "\<lambda>_. True" "\<lambda>l c. Inr two_apps" init_st]
  by (auto simp: two_apps_def lget_def due_def has_revision_def app_meta_def oget_def
      stamp_def list_applications_def init_st_def)

text \<open>The fan-out is idempotent: once the due Applications of a listing carry the stamp,
  running it again for the same revision (a controller restart, a status-only update)
  finds nothing due, whatever the predicate.\<close>

lemma requeue_idempotent:
  "filter (due rv pred) (map (\<lambda>i. if due rv pred i then stamped rv i else i) items) = []"
  by (induction items) (auto simp: due_def has_revision_stamped)

end
