(* ===== verification/Authentik.thy ===== *)
theory Authentik
  imports OpenBao Requeue
begin

text \<open>
  \<open>authentik.py\<close>, \<open>oidc.py\<close> and \<open>Provider.authentik\<close>: the identity backend. The generated
  Authentik client is not part of the repository: a call of one of its methods is the
  request \<open>Ak\<close> with the client's host and token and the arguments, its answer a JSON
  object with the attributes the code reads (\<open>results\<close>, \<open>pk\<close>, \<open>name\<close>, \<open>providers\<close>,
  \<open>config\<close>); \<open>AkMissing\<close> is its \<open>NotFoundException\<close>. Provider keys are integers, other keys
  strings, as the generated models declare them.
\<close>

section \<open>The OIDC descriptor\<close>

definition DEFAULT_SCOPES :: "string list" where
  "DEFAULT_SCOPES = [''openid'', ''profile'', ''email'', ''groups'']"

definition scopes_or_default :: "string list \<Rightarrow> string list" where
  "scopes_or_default scopes = (if scopes \<noteq> [] then scopes else DEFAULT_SCOPES)"

definition descriptor :: "string \<Rightarrow> string \<Rightarrow> string list \<Rightarrow> (string \<times> string) list" where
  "descriptor authority slug scopes =
     (let authority = rstrip_of ''/'' authority;
          app = authority @ ''/application/o/'' @ slug in
      [(''issuer'', app @ ''/''),
       (''discovery-url'', app @ ''/.well-known/openid-configuration''),
       (''authorization-endpoint'', authority @ ''/application/o/authorize/''),
       (''token-endpoint'', authority @ ''/application/o/token/''),
       (''userinfo-endpoint'', authority @ ''/application/o/userinfo/''),
       (''jwks-uri'', app @ ''/jwks/''),
       (''end-session-endpoint'', app @ ''/end-session/''),
       (''scopes'', join '' '' (scopes_or_default scopes))])"

definition entry :: "(string \<times> string) list \<Rightarrow> string \<Rightarrow> string" where
  "entry d k = (case dget d k of Some v \<Rightarrow> v | None \<Rightarrow> [])"

definition descriptor_values ::
    "string \<Rightarrow> string \<Rightarrow> json \<Rightarrow> json \<Rightarrow> string list \<Rightarrow> json \<Rightarrow> dict" where
  "descriptor_values authority slug client_id secret scopes client_secret_key =
     (let d = descriptor authority slug scopes in
      [(''issuer'', JStr (entry d ''issuer'')),
       (''discoveryUrl'', JStr (entry d ''discovery-url'')),
       (''authorizationEndpoint'', JStr (entry d ''authorization-endpoint'')),
       (''tokenEndpoint'', JStr (entry d ''token-endpoint'')),
       (''userinfoEndpoint'', JStr (entry d ''userinfo-endpoint'')),
       (''jwksUri'', JStr (entry d ''jwks-uri'')),
       (''endSessionEndpoint'', JStr (entry d ''end-session-endpoint'')),
       (''scopes'', JStr (entry d ''scopes'')),
       (''clientId'', client_id),
       (''secret'', secret),
       (''clientSecretKey'', client_secret_key)])"

section \<open>The Authentik client\<close>

record ak_client =
  ak_host :: string
  ak_token :: string

definition authentik_client :: "string \<Rightarrow> string \<Rightarrow> ak_client" where
  "authentik_client addr token =
     \<lparr> ak_host = rstrip_of ''/'' addr @ ''/api/v3'', ak_token = token \<rparr>"

definition ak_call :: "ak_client \<Rightarrow> string \<Rightarrow> dict \<Rightarrow> json M" where
  "ak_call ak operation args =
     callM (Ak operation (JObj [(''host'', JStr (ak_host ak)), (''token'', JStr (ak_token ak)),
       (''args'', JObj args)]))"

record oauth2_spec =
  o2_name :: string
  o2_authorization_flow :: string
  o2_invalidation_flow :: string
  o2_client_id :: string
  o2_client_secret :: string
  o2_redirect_uris :: "string list"
  o2_property_mappings :: "string list"
  o2_signing_key :: string

record proxy_spec =
  px_name :: string
  px_authorization_flow :: string
  px_invalidation_flow :: string
  px_external_host :: string
  px_mode :: string
  px_authentication_flow :: string
  px_cookie_domain :: string
  px_internal_host :: string
  px_skip_path_regex :: string
  px_property_mappings :: "string list"

record application_spec =
  as_slug :: string
  as_name :: string
  as_provider_pk :: "int option"
  as_group :: string
  as_icon :: string
  as_description :: string
  as_publisher :: string
  as_launch_url :: string
  as_backchannel_pks :: "int list"

definition results :: "json \<Rightarrow> json list" where
  "results page = lget page ''results''"

definition first_pk :: "json list \<Rightarrow> string" where
  "first_pk rs = (case rs of [] \<Rightarrow> [] | r # _ \<Rightarrow> py_str (jor (jget r ''pk'') (JStr [])))"

definition name_is :: "string \<Rightarrow> json \<Rightarrow> bool" where
  "name_is name obj \<longleftrightarrow> jget obj ''name'' = JStr name"

definition verify :: "ak_client \<Rightarrow> unit M" where
  "verify ak = thenM (ak_call ak ''core_users_me_retrieve'' []) (ret ())"

definition flow_pk :: "ak_client \<Rightarrow> string \<Rightarrow> string M" where
  "flow_pk ak slug =
     bindM (ak_call ak ''flows_instances_list'' [(''slug'', JStr slug)])
       (\<lambda>page. ret (first_pk (results page)))"

definition signing_key_pk :: "ak_client \<Rightarrow> string \<Rightarrow> string M" where
  "signing_key_pk ak name =
     bindM (ak_call ak ''crypto_certificatekeypairs_list'' [(''name'', JStr name)])
       (\<lambda>page. ret (first_pk (results page)))"

definition ensure_scope_mapping :: "ak_client \<Rightarrow> string \<Rightarrow> string option M" where
  "ensure_scope_mapping ak scope_name =
     bindM (ak_call ak ''propertymappings_provider_scope_list''
              [(''scope_name'', JStr scope_name)])
       (\<lambda>page. let pk = first_pk (results page) in
         if pk \<noteq> [] then ret (Some pk)
         else if scope_name \<noteq> ''groups'' then ret None
         else bindM (ak_call ak ''propertymappings_provider_scope_create''
                [(''name'', JStr ''Groups (adomi-platform-controller)''),
                 (''scope_name'', JStr ''groups''),
                 (''expression'', JStr (''return {'' @ dquote @ ''groups'' @ dquote @
                    '': [group.name for group in user.ak_groups.all()]}''))])
           (\<lambda>created. let s = py_str (jget created ''pk'') in
              ret (if s \<noteq> [] then Some s else None)))"

definition ensure_group :: "ak_client \<Rightarrow> string \<Rightarrow> string M" where
  "ensure_group ak name =
     bindM (ak_call ak ''core_groups_list''
              [(''name'', JStr name), (''include_users'', JBool False)])
       (\<lambda>page. case List.find (name_is name) (results page) of
          Some g \<Rightarrow> ret (py_str (jget g ''pk''))
        | None \<Rightarrow> bindM (ak_call ak ''core_groups_create'' [(''name'', JStr name)])
                   (\<lambda>created. ret (py_str (jget created ''pk''))))"

text \<open>
  The loop both provider kinds share: list by name, patch the first exact match, create
  when there is none.
\<close>

definition ensure_provider ::
    "ak_client \<Rightarrow> string \<Rightarrow> string \<Rightarrow> string \<Rightarrow> string \<Rightarrow> dict \<Rightarrow> int M" where
  "ensure_provider ak list_op update_op create_op name attrs =
     bindM (ak_call ak list_op [(''search'', JStr name)])
       (\<lambda>page. case List.find (name_is name) (results page) of
          Some p \<Rightarrow> thenM (ak_call ak update_op ((''id'', jget p ''pk'') # attrs))
                         (ret (jint (jget p ''pk'')))
        | None \<Rightarrow> bindM (ak_call ak create_op attrs)
                    (\<lambda>created. ret (jint (jget created ''pk''))))"

definition oauth2_fields :: "oauth2_spec \<Rightarrow> dict" where
  "oauth2_fields p =
     [(''name'', JStr (o2_name p)),
      (''authorization_flow'', JStr (o2_authorization_flow p)),
      (''invalidation_flow'', JStr (o2_invalidation_flow p)),
      (''client_type'', JStr ''confidential''),
      (''grant_types'', strs [''authorization_code'', ''refresh_token'']),
      (''client_id'', JStr (o2_client_id p)),
      (''client_secret'', JStr (o2_client_secret p)),
      (''property_mappings'', strs (o2_property_mappings p)),
      (''redirect_uris'', JArr (map (\<lambda>u. JObj
         [(''matching_mode'', JStr ''strict''), (''url'', JStr u)]) (o2_redirect_uris p)))] @
     opt (o2_signing_key p \<noteq> []) ''signing_key'' (JStr (o2_signing_key p))"

definition ensure_oauth2_provider :: "ak_client \<Rightarrow> oauth2_spec \<Rightarrow> int M" where
  "ensure_oauth2_provider ak p =
     ensure_provider ak ''providers_oauth2_list'' ''providers_oauth2_partial_update''
       ''providers_oauth2_create'' (o2_name p) (oauth2_fields p)"

definition proxy_fields :: "proxy_spec \<Rightarrow> dict" where
  "proxy_fields p =
     [(''name'', JStr (px_name p)),
      (''authorization_flow'', JStr (px_authorization_flow p)),
      (''invalidation_flow'', JStr (px_invalidation_flow p)),
      (''external_host'', JStr (px_external_host p)),
      (''mode'', JStr (px_mode p)),
      (''property_mappings'', strs (px_property_mappings p))] @
     opt (px_authentication_flow p \<noteq> []) ''authentication_flow''
       (JStr (px_authentication_flow p)) @
     opt (px_cookie_domain p \<noteq> []) ''cookie_domain'' (JStr (px_cookie_domain p)) @
     opt (px_internal_host p \<noteq> []) ''internal_host'' (JStr (px_internal_host p)) @
     opt (px_skip_path_regex p \<noteq> []) ''skip_path_regex'' (JStr (px_skip_path_regex p))"

definition ensure_proxy_provider :: "ak_client \<Rightarrow> proxy_spec \<Rightarrow> int M" where
  "ensure_proxy_provider ak p =
     ensure_provider ak ''providers_proxy_list'' ''providers_proxy_partial_update''
       ''providers_proxy_create'' (px_name p) (proxy_fields p)"

subsection \<open>Outposts\<close>

definition find_outpost :: "ak_client \<Rightarrow> string \<Rightarrow> json option M" where
  "find_outpost ak name =
     bindM (ak_call ak ''outposts_instances_list'' [(''search'', JStr name)])
       (\<lambda>page. ret (List.find (name_is name) (results page)))"

definition outpost_providers :: "json \<Rightarrow> int list" where
  "outpost_providers outpost = map jint (lget outpost ''providers'')"

definition ints :: "int list \<Rightarrow> json" where
  "ints xs = JArr (map JInt xs)"

text \<open>The second half of \<open>ensure_outpost_provider\<close>, once the outpost is found.\<close>

definition merge_outpost :: "ak_client \<Rightarrow> json \<Rightarrow> int \<Rightarrow> string \<Rightarrow> unit M" where
  "merge_outpost ak outpost provider_pk browser_host =
     (let old = outpost_providers outpost;
          providers = sort (remdups (provider_pk # old));
          cfg0 = jdict (oget outpost ''config'');
          config_changed = (browser_host \<noteq> [] \<and>
            (jget (JObj cfg0) ''authentik_host'' \<noteq> JStr browser_host \<or>
             jget (JObj cfg0) ''authentik_host_browser'' \<noteq> JStr browser_host));
          cfg1 = (if browser_host \<noteq> []
            then dset ''authentik_host_browser'' (JStr browser_host)
                   (dset ''authentik_host'' (JStr browser_host) cfg0)
            else cfg0) in
      if providers = sort old \<and> \<not> config_changed then ret ()
      else thenM (ak_call ak ''outposts_instances_partial_update''
             ([(''uuid'', jget outpost ''pk''), (''providers'', ints providers)] @
              opt config_changed ''config'' (JObj cfg1)))
           (ret ()))"

definition ensure_outpost_provider :: "ak_client \<Rightarrow> string \<Rightarrow> int \<Rightarrow> string \<Rightarrow> unit M" where
  "ensure_outpost_provider ak outpost_name provider_pk browser_host =
     bindM (find_outpost ak outpost_name) (\<lambda>found. case found of
       None \<Rightarrow> raise (RuntimeError (''outpost '' @ repr outpost_name @ '' not found in Authentik''))
     | Some outpost \<Rightarrow> merge_outpost ak outpost provider_pk browser_host)"

definition remove_outpost_provider :: "ak_client \<Rightarrow> string \<Rightarrow> int \<Rightarrow> unit M" where
  "remove_outpost_provider ak outpost_name provider_pk =
     bindM (find_outpost ak outpost_name) (\<lambda>found. case found of
       None \<Rightarrow> ret ()
     | Some outpost \<Rightarrow>
         if provider_pk \<notin> set (outpost_providers outpost) then ret ()
         else thenM (ak_call ak ''outposts_instances_partial_update''
                [(''uuid'', jget outpost ''pk''),
                 (''providers'', ints (filter (\<lambda>p. p \<noteq> provider_pk) (outpost_providers outpost)))])
              (ret ()))"

definition find_provider_pk :: "ak_client \<Rightarrow> string \<Rightarrow> int option M" where
  "find_provider_pk ak name =
     bindM (ak_call ak ''providers_oauth2_list'' [(''search'', JStr name)]) (\<lambda>page.
     case List.find (name_is name) (results page) of
       Some p \<Rightarrow> ret (Some (jint (jget p ''pk'')))
     | None \<Rightarrow>
         bindM (ak_call ak ''providers_proxy_list'' [(''search'', JStr name)]) (\<lambda>page.
         ret (map_option (\<lambda>p. jint (jget p ''pk'')) (List.find (name_is name) (results page)))))"

subsection \<open>Applications\<close>

definition application_fields :: "application_spec \<Rightarrow> dict" where
  "application_fields a =
     [(''name'', JStr (as_name a))] @
     (case as_provider_pk a of Some pk \<Rightarrow> [(''provider'', JInt pk)] | None \<Rightarrow> []) @
     opt (as_group a \<noteq> []) ''group'' (JStr (as_group a)) @
     opt (as_icon a \<noteq> []) ''meta_icon'' (JStr (as_icon a)) @
     opt (as_description a \<noteq> []) ''meta_description'' (JStr (as_description a)) @
     opt (as_publisher a \<noteq> []) ''meta_publisher'' (JStr (as_publisher a)) @
     opt (as_launch_url a \<noteq> []) ''meta_launch_url'' (JStr (as_launch_url a)) @
     opt (as_backchannel_pks a \<noteq> []) ''backchannel_providers'' (ints (as_backchannel_pks a))"

text \<open>\<open>except NotFoundException\<close>\<close>

definition on_missing :: "'a M \<Rightarrow> 'a M \<Rightarrow> 'a M" where
  "on_missing m h = tryM m (\<lambda>e. if e = Ext AkMissing then h else raise e)"

definition ensure_application :: "ak_client \<Rightarrow> application_spec \<Rightarrow> string M" where
  "ensure_application ak a =
     bindM (on_missing
              (bindM (ak_call ak ''core_applications_retrieve'' [(''slug'', JStr (as_slug a))])
                 (\<lambda>existing. ret (Inl existing)))
              (bindM (ak_call ak ''core_applications_create''
                        ((''slug'', JStr (as_slug a)) # application_fields a))
                 (\<lambda>created. ret (Inr (py_str (jget created ''pk''))))))
       (\<lambda>r. case r of
          Inr pk \<Rightarrow> ret pk
        | Inl existing \<Rightarrow>
            thenM (ak_call ak ''core_applications_partial_update''
                     ((''slug'', JStr (as_slug a)) # application_fields a))
                  (ret (py_str (jget existing ''pk''))))"

definition delete_application :: "ak_client \<Rightarrow> string \<Rightarrow> unit M" where
  "delete_application ak slug =
     on_missing (thenM (ak_call ak ''core_applications_destroy'' [(''slug'', JStr slug)]) (ret ()))
       (ret ())"

definition delete_provider :: "ak_client \<Rightarrow> int \<Rightarrow> unit M" where
  "delete_provider ak pk =
     on_missing (thenM (ak_call ak ''providers_oauth2_destroy'' [(''id'', JInt pk)]) (ret ()))
       (ret ())"

definition delete_proxy_provider :: "ak_client \<Rightarrow> int \<Rightarrow> unit M" where
  "delete_proxy_provider ak pk =
     on_missing (thenM (ak_call ak ''providers_proxy_destroy'' [(''id'', JInt pk)]) (ret ()))
       (ret ())"

section \<open>The provider's Authentik client\<close>

definition provider_authentik :: "config \<Rightarrow> ak_client M" where
  "provider_authentik cfg =
     bindM (bao_read cfg (authentik_secret_path cfg)) (\<lambda>found. case found of
       None \<Rightarrow> raise (RuntimeError (''authentik secret '' @ repr (authentik_secret_path cfg) @
                 '' not present in OpenBao yet''))
     | Some data \<Rightarrow>
         let token = strip (sget data (authentik_token_key cfg)) in
         if token = []
         then raise (RuntimeError (''authentik token key '' @ repr (authentik_token_key cfg) @
                '' missing at OpenBao path '' @ repr (authentik_secret_path cfg)))
         else let ak = authentik_client (authentik_addr cfg) token in
              thenM (tryM (verify ak)
                       (\<lambda>e. raise (RuntimeError (''authentik API not ready: '' @ exn_str e))))
                    (ret ak))"

section \<open>Facts\<close>

lemma quiet_ak_call [quiet_intros]: "quiet (ak_call ak oper args)"
  by (simp add: ak_call_def quiet_callM)

lemma quiet_on_missing [quiet_intros]: "quiet m \<Longrightarrow> quiet h \<Longrightarrow> quiet (on_missing m h)"
  unfolding on_missing_def by (intro quiet_intros)

lemma quiet_authentik [quiet_intros]:
  "quiet (verify ak)" "quiet (flow_pk ak s)" "quiet (signing_key_pk ak s)"
  "quiet (ensure_scope_mapping ak s)" "quiet (ensure_group ak s)"
  "quiet (ensure_oauth2_provider ak o2)" "quiet (ensure_proxy_provider ak px)"
  "quiet (ensure_outpost_provider ak s i h)" "quiet (remove_outpost_provider ak s i)"
  "quiet (find_provider_pk ak s)" "quiet (ensure_application ak ap)"
  "quiet (delete_application ak s)" "quiet (delete_provider ak i)"
  "quiet (delete_proxy_provider ak i)"
  unfolding verify_def flow_pk_def signing_key_pk_def ensure_scope_mapping_def ensure_group_def
    ensure_oauth2_provider_def ensure_proxy_provider_def ensure_provider_def
    ensure_outpost_provider_def merge_outpost_def remove_outpost_provider_def find_outpost_def
    find_provider_pk_def ensure_application_def delete_application_def delete_provider_def
    delete_proxy_provider_def Let_def
  by (intro quiet_intros; simp)+

lemma quiet_provider_authentik [quiet_intros]: "quiet (provider_authentik cfg)"
  unfolding provider_authentik_def Let_def by (intro quiet_intros; simp)

lemma only_on_missing [only_intros]: "only P m \<Longrightarrow> only P h \<Longrightarrow> only P (on_missing m h)"
  unfolding on_missing_def by (intro only_intros)

lemma only_authentik [only_intros]:
  assumes "\<And>oper a. P (Ak oper a)"
  shows "only P (verify ak)" "only P (flow_pk ak s)" "only P (signing_key_pk ak s)"
    "only P (ensure_scope_mapping ak s)" "only P (ensure_group ak s)"
    "only P (ensure_oauth2_provider ak o2)" "only P (ensure_proxy_provider ak px)"
    "only P (ensure_outpost_provider ak s i h)" "only P (remove_outpost_provider ak s i)"
    "only P (find_provider_pk ak s)" "only P (ensure_application ak ap)"
    "only P (delete_application ak s)" "only P (delete_provider ak i)"
    "only P (delete_proxy_provider ak i)"
  unfolding verify_def flow_pk_def signing_key_pk_def ensure_scope_mapping_def ensure_group_def
    ensure_oauth2_provider_def ensure_proxy_provider_def ensure_provider_def
    ensure_outpost_provider_def merge_outpost_def remove_outpost_provider_def find_outpost_def
    find_provider_pk_def ensure_application_def delete_application_def delete_provider_def
    delete_proxy_provider_def Let_def ak_call_def
  by (intro only_intros assms)+

lemma only_bao_read [only_intros]:
  assumes "\<And>c. token_call c \<Longrightarrow> P c" "\<And>m p t. P (Kv VGet m p t JNull)"
  shows "only P (bao_read cfg path)"
  unfolding bao_read_def by (intro only_intros assms)

lemma only_provider_authentik:
  assumes "\<And>c. token_call c \<Longrightarrow> P c" "\<And>m p t. P (Kv VGet m p t JNull)"
    and "\<And>oper a. P (Ak oper a)"
  shows "only P (provider_authentik cfg)"
  unfolding provider_authentik_def Let_def by (intro only_intros assms) simp_all

section \<open>Properties\<close>

definition ak_request :: "ak_client \<Rightarrow> string \<Rightarrow> dict \<Rightarrow> call" where
  "ak_request ak operation args =
     Ak operation (JObj [(''host'', JStr (ak_host ak)), (''token'', JStr (ak_token ak)),
       (''args'', JObj args)])"

lemma ak_call_request: "ak_call ak oper args = callM (ak_request ak oper args)"
  by (simp add: ak_call_def ak_request_def)

lemma callM_answer:
  "env (trace s) c = Inr j \<Longrightarrow> callM c env s = (Inr j, s\<lparr>trace := (c, Inr j) # trace s\<rparr>)"
  by (simp add: callM_def)

lemma trace_then_ret: "trace (snd (thenM (callM c) (ret ()) env s)) = (c, env (trace s) c) # trace s"
  by (simp add: thenM_def bindM_def callM_def ret_def Let_def split: sum.split)

lemma merge_outpost_run:
  fixes ak outpost pk host env s
  defines "ps \<equiv> sort (remdups (pk # outpost_providers outpost))"
  shows "trace (snd (merge_outpost ak outpost pk host env s)) = trace s \<and>
       ps = sort (outpost_providers outpost) \<or>
     (\<exists>more r. trace (snd (merge_outpost ak outpost pk host env s)) =
       (ak_request ak ''outposts_instances_partial_update''
         ([(''uuid'', jget outpost ''pk''), (''providers'', ints ps)] @ more), r) # trace s)"
proof -
  let ?m = "merge_outpost ak outpost pk host"
  have "?m = ret () \<and> ps = sort (outpost_providers outpost) \<or>
     (\<exists>more. ?m = thenM (callM (ak_request ak ''outposts_instances_partial_update''
         ([(''uuid'', jget outpost ''pk''), (''providers'', ints ps)] @ more))) (ret ()))"
    unfolding merge_outpost_def Let_def ak_call_request ps_def [symmetric]
    by (cases "ps = sort (outpost_providers outpost)"; simp only: simp_thms if_True if_False split: if_split) blast+
  then show ?thesis
  proof
    assume "?m = ret () \<and> ps = sort (outpost_providers outpost)"
    then show ?thesis by (simp add: ret_def)
  next
    assume "\<exists>more. ?m = thenM (callM (ak_request ak ''outposts_instances_partial_update''
         ([(''uuid'', jget outpost ''pk''), (''providers'', ints ps)] @ more))) (ret ())"
    then obtain more where "?m = thenM (callM (ak_request ak ''outposts_instances_partial_update''
         ([(''uuid'', jget outpost ''pk''), (''providers'', ints ps)] @ more))) (ret ())" ..
    then show ?thesis unfolding trace_then_ret by (intro disjI2 exI) (simp only: trace_then_ret)
  qed
qed

text \<open>Attaching a provider to an outpost merges: either nothing is sent, and the provider
  was already attached, or one update is sent whose provider list is exactly the old one
  with the new provider added, sorted and without repetition; no attached provider of
  another application is ever dropped.\<close>

lemma outpost_merge_keeps_others:
  assumes "env (trace s) (ak_request ak ''outposts_instances_list'' [(''search'', JStr name)]) =
      Inr page"
    and "List.find (name_is name) (results page) = Some outpost"
  shows "\<exists>upd. map fst (trace (snd (ensure_outpost_provider ak name pk host env s))) =
      upd @ ak_request ak ''outposts_instances_list'' [(''search'', JStr name)] #
      map fst (trace s) \<and>
     (upd = [] \<and> pk \<in> set (outpost_providers outpost) \<or>
      (\<exists>args ps. upd = [ak_request ak ''outposts_instances_partial_update'' args] \<and>
         dget args ''uuid'' = Some (jget outpost ''pk'') \<and>
         dget args ''providers'' = Some (ints ps) \<and> sorted ps \<and> distinct ps \<and>
         set ps = insert pk (set (outpost_providers outpost))))"
proof -
  let ?old = "outpost_providers outpost"
  let ?ps = "sort (remdups (pk # ?old))"
  let ?l = "ak_request ak ''outposts_instances_list'' [(''search'', JStr name)]"
  let ?s1 = "s\<lparr>trace := (?l, Inr page) # trace s\<rparr>"
  let ?t = "trace (snd (ensure_outpost_provider ak name pk host env s))"
  have f: "find_outpost ak name env s = (Inr (Some outpost), ?s1)"
    using assms by (simp add: find_outpost_def ak_call_request callM_answer bindM_def ret_def)
  have e: "ensure_outpost_provider ak name pk host env s = merge_outpost ak outpost pk host env ?s1"
    using f by (simp add: ensure_outpost_provider_def bindM_def)
  have run: "?t = trace ?s1 \<and> ?ps = sort ?old \<or>
      (\<exists>more r. ?t = (ak_request ak ''outposts_instances_partial_update''
         ([(''uuid'', jget outpost ''pk''), (''providers'', ints ?ps)] @ more), r) # trace ?s1)"
    unfolding e by (rule merge_outpost_run)
  have "set ?ps = insert pk (set ?old)" "sorted ?ps" "distinct ?ps" by auto
  moreover have "pk \<in> set ?old" if "?ps = sort ?old"
  proof -
    have "pk \<in> set ?ps" by simp
    with that show ?thesis by (metis set_sort)
  qed
  ultimately show ?thesis using run
  proof (elim disjE exE conjE)
    assume t: "?t = trace ?s1" and e: "?ps = sort ?old" "?ps = sort ?old \<Longrightarrow> pk \<in> set ?old"
    have "map fst ?t = [] @ ?l # map fst (trace s)"
      unfolding t by simp
    with e(2) [OF e(1)] show ?thesis by blast
  next
    fix more r
    assume t: "?t = (ak_request ak ''outposts_instances_partial_update''
         ([(''uuid'', jget outpost ''pk''), (''providers'', ints ?ps)] @ more), r) # trace ?s1"
      and ps: "set ?ps = insert pk (set ?old)" "sorted ?ps" "distinct ?ps"
    let ?args = "[(''uuid'', jget outpost ''pk''), (''providers'', ints ?ps)] @ more"
    have a: "dget ?args ''uuid'' = Some (jget outpost ''pk'')"
      "dget ?args ''providers'' = Some (ints ?ps)" by simp_all
    have "map fst ?t = [ak_request ak ''outposts_instances_partial_update'' ?args] @ ?l #
        map fst (trace s)"
      unfolding t by simp
    with a ps show ?thesis by blast
  qed
qed

definition outpost_page :: json where
  "outpost_page = JObj [(''results'', JArr [JObj [(''pk'', JStr ''u''), (''name'', JStr ''out''),
     (''providers'', ints [9, 4])]])]"

lemma outpost_merge_keeps_others_witness:
  "\<exists>upd. map fst (trace (snd (ensure_outpost_provider (authentik_client ''h'' ''t'') ''out'' 7 []
        (\<lambda>l c. Inr outpost_page) init_st))) =
      upd @ [ak_request (authentik_client ''h'' ''t'') ''outposts_instances_list''
        [(''search'', JStr ''out'')]] \<and>
     (\<exists>args ps. upd = [ak_request (authentik_client ''h'' ''t'')
         ''outposts_instances_partial_update'' args] \<and>
       dget args ''providers'' = Some (ints ps) \<and> set ps = {4, 7, 9})"
proof -
  let ?o = "JObj [(''pk'', JStr ''u''), (''name'', JStr ''out''), (''providers'', ints [9, 4])]"
  have f: "List.find (name_is ''out'') (results outpost_page) = Some ?o"
    by (simp add: outpost_page_def results_def lget_def name_is_def)
  have "set (outpost_providers ?o) = {9, 4}"
    by (simp add: outpost_providers_def lget_def ints_def)
  then show ?thesis
    using outpost_merge_keeps_others [where env = "\<lambda>l c. Inr outpost_page" and s = init_st
        and ak = "authentik_client ''h'' ''t''" and pk = 7 and host = "[]", OF refl f]
    unfolding init_st_def st.simps list.map by (elim exE conjE disjE) (simp, blast)
qed

text \<open>Registering an OAuth2 client is one list and one write: when a provider with
  exactly that name is listed, that provider (by its key) is patched and its key returned,
  otherwise one provider is created; in both cases the request carries the given client
  id, secret and redirect URIs.\<close>

lemma oauth2_provider_by_name:
  assumes "env (trace s) (ak_request ak ''providers_oauth2_list''
      [(''search'', JStr (o2_name p))]) = Inr page"
  shows "\<exists>oper args r. trace (snd (ensure_oauth2_provider ak p env s)) =
      (ak_request ak oper args, r) #
      (ak_request ak ''providers_oauth2_list'' [(''search'', JStr (o2_name p))], Inr page) #
      trace s \<and>
     (case List.find (name_is (o2_name p)) (results page) of
        Some old \<Rightarrow> oper = ''providers_oauth2_partial_update'' \<and>
          dget args ''id'' = Some (jget old ''pk'') \<and>
          fst (ensure_oauth2_provider ak p env s) \<in> {Inr (jint (jget old ''pk''))} \<union> range Inl
      | None \<Rightarrow> oper = ''providers_oauth2_create'') \<and>
     dget args ''client_id'' = Some (JStr (o2_client_id p)) \<and>
     dget args ''client_secret'' = Some (JStr (o2_client_secret p)) \<and>
     dget args ''redirect_uris'' = Some (JArr (map (\<lambda>u. JObj
         [(''matching_mode'', JStr ''strict''), (''url'', JStr u)]) (o2_redirect_uris p)))"
proof -
  have c: "dget ((''id'', x) # oauth2_fields p) k = dget (oauth2_fields p) k" if "k \<noteq> ''id''" for x k
    using that by simp
  have d: "dget (oauth2_fields p) ''client_id'' = Some (JStr (o2_client_id p))"
    "dget (oauth2_fields p) ''client_secret'' = Some (JStr (o2_client_secret p))"
    "dget (oauth2_fields p) ''redirect_uris'' = Some (JArr (map (\<lambda>u. JObj
         [(''matching_mode'', JStr ''strict''), (''url'', JStr u)]) (o2_redirect_uris p)))"
    by (simp_all add: oauth2_fields_def)
  show ?thesis
  proof (cases "List.find (name_is (o2_name p)) (results page)")
    case None
    with assms d show ?thesis
      by (intro exI [of _ "''providers_oauth2_create''"] exI [of _ "oauth2_fields p"])
         (auto simp: ensure_oauth2_provider_def ensure_provider_def ak_call_request callM_answer
           bindM_def ret_def callM_def Let_def split: sum.split)
  next
    case (Some old)
    with assms d show ?thesis
      by (intro exI [of _ "''providers_oauth2_partial_update''"]
            exI [of _ "(''id'', jget old ''pk'') # oauth2_fields p"])
         (auto simp: ensure_oauth2_provider_def ensure_provider_def ak_call_request callM_answer
           thenM_def bindM_def ret_def callM_def Let_def split: sum.split)
  qed
qed

lemma oauth2_provider_by_name_witness:
  "\<exists>oper args r. trace (snd (ensure_oauth2_provider (authentik_client ''h'' ''t'')
      \<lparr>o2_name = ''app'', o2_authorization_flow = ''a'', o2_invalidation_flow = ''i'',
       o2_client_id = ''id'', o2_client_secret = ''sec'', o2_redirect_uris = [''u''],
       o2_property_mappings = [], o2_signing_key = []\<rparr> (\<lambda>l c. Inr JNull) init_st)) =
      [(ak_request (authentik_client ''h'' ''t'') oper args, r),
       (ak_request (authentik_client ''h'' ''t'') ''providers_oauth2_list''
          [(''search'', JStr ''app'')], Inr JNull)] \<and>
     oper = ''providers_oauth2_create'' \<and> dget args ''client_secret'' = Some (JStr ''sec'')"
  using oauth2_provider_by_name [where env = "\<lambda>l c. Inr JNull" and s = init_st
      and ak = "authentik_client ''h'' ''t''" and page = JNull and p =
      "\<lparr>o2_name = ''app'', o2_authorization_flow = ''a'', o2_invalidation_flow = ''i'',
       o2_client_id = ''id'', o2_client_secret = ''sec'', o2_redirect_uris = [''u''],
       o2_property_mappings = [], o2_signing_key = []\<rparr>", OF refl]
  by (auto simp: init_st_def results_def)

text \<open>The two forms of the OIDC descriptor agree: each endpoint injected into the chart's
  values is the one delivered in the Secret, and the issuer is a prefix of the discovery,
  JWKS and end-session URLs, with no doubled slash from a trailing slash of the
  authority.\<close>

lemma descriptor_consistent:
  "dget (descriptor_values authority slug cid sec scopes key) ''issuer'' =
     map_option JStr (dget (descriptor authority slug scopes) ''issuer'') \<and>
   dget (descriptor_values authority slug cid sec scopes key) ''discoveryUrl'' =
     map_option JStr (dget (descriptor authority slug scopes) ''discovery-url'') \<and>
   dget (descriptor_values authority slug cid sec scopes key) ''jwksUri'' =
     map_option JStr (dget (descriptor authority slug scopes) ''jwks-uri'') \<and>
   dget (descriptor_values authority slug cid sec scopes key) ''scopes'' =
     map_option JStr (dget (descriptor authority slug scopes) ''scopes'') \<and>
   (\<exists>iss. dget (descriptor authority slug scopes) ''issuer'' = Some iss \<and>
     iss = rstrip_of ''/'' authority @ ''/application/o/'' @ slug @ ''/'' \<and>
     dget (descriptor authority slug scopes) ''discovery-url'' =
       Some (iss @ ''.well-known/openid-configuration'') \<and>
     dget (descriptor authority slug scopes) ''jwks-uri'' = Some (iss @ ''jwks/'') \<and>
     dget (descriptor authority slug scopes) ''end-session-endpoint'' =
       Some (iss @ ''end-session/''))"
  by (simp add: descriptor_values_def descriptor_def entry_def Let_def)

end
