(* ===== verification/Sso.thy ===== *)
theory Sso
  imports Authentik
begin

text \<open>
  \<open>handlers/ssoapplication.py\<close>: one SSOApplication provisions credentials in OpenBao, the
  provider and application in Authentik, and the Secret delivery. The reconcile handler is
  composed of the two protocol branches and the shared steps, in the source's order.
\<close>

abbreviation PROTOCOL_OAUTH2 :: string where "PROTOCOL_OAUTH2 \<equiv> ''oauth2''"
abbreviation PROTOCOL_PROXY :: string where "PROTOCOL_PROXY \<equiv> ''proxy''"

definition DEFAULT_OUTPOST :: string where
  "DEFAULT_OUTPOST = ''authentik Embedded Outpost''"

definition PROXY_MODES :: "(string \<times> string) list" where
  "PROXY_MODES = [(''forwardSingle'', ''forward_single''), (''forwardDomain'', ''forward_domain''),
     (''proxy'', ''proxy'')]"

definition spec_scopes :: "json \<Rightarrow> string list" where
  "spec_scopes spec = map jstr (lget spec ''scopes'')"

text \<open>The loops that resolve names to keys and skip what is not found.\<close>

fun resolve_each :: "('a \<Rightarrow> 'b option M) \<Rightarrow> 'a list \<Rightarrow> 'b list M" where
  "resolve_each f [] = ret []"
| "resolve_each f (x # xs) =
     bindM (f x) (\<lambda>r. bindM (resolve_each f xs)
       (\<lambda>ys. ret (case r of Some y \<Rightarrow> y # ys | None \<Rightarrow> ys)))"

definition found_pk :: "int option \<Rightarrow> int option" where
  "found_pk r = (case r of Some pk \<Rightarrow> if pk \<noteq> 0 then Some pk else None | None \<Rightarrow> None)"

definition gen_credential :: "string \<Rightarrow> string M" where
  "gen_credential key =
     random_string (if key = ''client-id'' then CLIENT_ID_LENGTH else CLIENT_SECRET_LENGTH)"

definition reconcile_oauth2 ::
    "config \<Rightarrow> ak_client \<Rightarrow> json \<Rightarrow> string \<Rightarrow> string \<Rightarrow> string \<Rightarrow> string list \<Rightarrow> json \<Rightarrow> json \<Rightarrow>
     (int \<times> string \<times> string) M" where
  "reconcile_oauth2 cfg ak spec slug authz_pk inval_pk mapping_pks status generation =
     thenM (whenM (lget spec ''redirectUris'' = [])
        (fail status REASON_INVALID_SPEC ''redirectUris is required for protocol oauth2''
           generation))
     (let openbao_path = sor (sget (oget spec ''credentials'') ''openbaoPath'') slug in
      bindM (or_fail status generation ''storing credentials: ''
               (ensure_keys cfg openbao_path [''client-id'', ''client-secret''] gen_credential))
        (\<lambda>(creds, _).
          let client_id = jstr (jget (JObj creds) ''client-id'') in
          bindM (or_fail status generation []
             (bindM (signing_key_pk ak (signing_key_name cfg)) (\<lambda>signing_pk.
              ensure_oauth2_provider ak
                \<lparr> o2_name = slug, o2_authorization_flow = authz_pk,
                  o2_invalidation_flow = inval_pk, o2_client_id = client_id,
                  o2_client_secret = jstr (jget (JObj creds) ''client-secret''),
                  o2_redirect_uris = map jstr (lget spec ''redirectUris''),
                  o2_property_mappings = mapping_pks, o2_signing_key = signing_pk \<rparr>)))
            (\<lambda>provider_pk. ret (provider_pk, client_id, openbao_path))))"

definition reconcile_proxy ::
    "config \<Rightarrow> ak_client \<Rightarrow> json \<Rightarrow> string \<Rightarrow> string \<Rightarrow> string \<Rightarrow> string list \<Rightarrow> json \<Rightarrow> json \<Rightarrow>
     int M" where
  "reconcile_proxy cfg ak spec slug authz_pk inval_pk mapping_pks status generation =
     (let proxy = oget spec ''proxy'';
          external_host = sget proxy ''externalHost'' in
      thenM (whenM (external_host = [])
        (fail status REASON_INVALID_SPEC ''proxy.externalHost is required for protocol proxy''
           generation))
      (let mode_key = sor (sget proxy ''mode'') ''forwardSingle'' in
       case dget PROXY_MODES mode_key of
         None \<Rightarrow> fail status REASON_INVALID_SPEC (''unknown proxy.mode '' @ repr mode_key)
                   generation
       | Some mode \<Rightarrow>
           or_fail status generation []
             (bindM (flow_pk ak (authentication_flow_slug cfg)) (\<lambda>authn_pk.
              bindM (ensure_proxy_provider ak
                \<lparr> px_name = slug, px_authorization_flow = authz_pk,
                  px_invalidation_flow = inval_pk, px_external_host = external_host,
                  px_mode = mode, px_authentication_flow = authn_pk,
                  px_cookie_domain = sget proxy ''cookieDomain'',
                  px_internal_host = sget proxy ''internalHost'',
                  px_skip_path_regex = sget proxy ''skipPathRegex'',
                  px_property_mappings = mapping_pks \<rparr>) (\<lambda>provider_pk.
              thenM (ensure_outpost_provider ak (sor (sget proxy ''outpost'') DEFAULT_OUTPOST)
                       provider_pk (if mode = ''forward_domain'' then external_host else []))
                (ret provider_pk))))))"

definition oidc_descriptor :: "config \<Rightarrow> string \<Rightarrow> json \<Rightarrow> (string \<times> string) list" where
  "oidc_descriptor cfg slug spec =
     (let authority = resolved_authentik_url cfg in
      if authority = [] then [] else descriptor authority slug (spec_scopes spec))"

definition sso_owner_reference :: "json \<Rightarrow> json \<Rightarrow> json" where
  "sso_owner_reference name uid = JObj
     [(''apiVersion'', JStr IDENTITY_GROUP), (''kind'', JStr ''SSOApplication''),
      (''name'', name), (''uid'', uid), (''controller'', JBool True),
      (''blockOwnerDeletion'', JBool True)]"

definition publish_credentials ::
    "json \<Rightarrow> json \<Rightarrow> string \<Rightarrow> string \<Rightarrow> string \<Rightarrow> (string \<times> string) list \<Rightarrow> unit M" where
  "publish_credentials target meta ns openbao_path store descr =
     (let target_ns = sor (sget target ''namespace'') ns in
      bindM (if target_ns = ns
             then bindM (item meta ''name'') (\<lambda>n. bindM (item meta ''uid'') (\<lambda>u.
                  ret [sso_owner_reference n u]))
             else ret [])
        (\<lambda>owner_refs.
      bindM (item target ''name'') (\<lambda>tname.
      thenM (apply_es
        \<lparr> es_name = jstr tname, es_namespace = target_ns, es_store_name = store,
          es_remote_path = openbao_path, es_secret_name = jstr tname,
          es_client_id_key = sor (sget target ''clientIDKey'') ''client-id'',
          es_client_secret_key = sor (sget target ''clientSecretKey'') ''client-secret'',
          es_data_map = [], es_template_data = descr, es_template_type = [],
          es_data_from_paths = [], es_refresh_interval = ''1h'',
          es_labels = [(''app.kubernetes.io/managed-by'', ''adomi-platform-controller'')],
          es_owner_references = owner_refs \<rparr>)
       (ret ()))))"

definition sso_application_spec :: "json \<Rightarrow> string \<Rightarrow> string \<Rightarrow> int \<Rightarrow> int list \<Rightarrow> application_spec"
  where
  "sso_application_spec spec slug display_name provider_pk backchannel_pks =
     \<lparr> as_slug = slug, as_name = display_name, as_provider_pk = Some provider_pk,
       as_group = sget spec ''group'', as_icon = sget spec ''icon'',
       as_description = sget spec ''description'', as_publisher = sget spec ''publisher'',
       as_launch_url = sget spec ''launchUrl'', as_backchannel_pks = backchannel_pks \<rparr>"

text \<open>The shared Authentik references: the two flows and the scope mappings.\<close>

definition sso_references ::
    "config \<Rightarrow> ak_client \<Rightarrow> json \<Rightarrow> json \<Rightarrow> json \<Rightarrow> (string \<times> string \<times> string list) M" where
  "sso_references cfg ak spec status generation =
     bindM (or_fail status generation []
              (bindM (flow_pk ak (authorization_flow_slug cfg)) (\<lambda>a.
               bindM (flow_pk ak (invalidation_flow_slug cfg)) (\<lambda>i. ret (a, i)))))
       (\<lambda>(authz_pk, inval_pk).
     thenM (whenM (authz_pk = [] \<or> inval_pk = [])
              (fail status REASON_DEPENDENCY_NOT_MET
                 ''authorization/invalidation flows not found in Authentik'' generation))
    (bindM (or_fail status generation []
              (resolve_each (ensure_scope_mapping ak) (scopes_or_default (spec_scopes spec))))
       (\<lambda>mapping_pks. ret (authz_pk, inval_pk, mapping_pks))))"

definition sso_register ::
    "ak_client \<Rightarrow> json \<Rightarrow> string \<Rightarrow> string \<Rightarrow> int \<Rightarrow> json \<Rightarrow> json \<Rightarrow> unit M" where
  "sso_register ak spec slug display_name provider_pk status generation =
     or_fail status generation []
       (bindM (resolve_each (\<lambda>bp. bindM (find_provider_pk ak (jstr bp)) (\<lambda>r. ret (found_pk r)))
                 (lget spec ''backchannelProviders''))
          (\<lambda>backchannel_pks.
        thenM (ensure_application ak
                 (sso_application_spec spec slug display_name provider_pk backchannel_pks))
          (forM (lget spec ''groups'') (\<lambda>g. thenM (ensure_group ak (jstr g)) (ret ())))))"

definition sso_reconcile :: "config \<Rightarrow> json \<Rightarrow> json \<Rightarrow> json \<Rightarrow> string \<Rightarrow> string \<Rightarrow> unit M" where
  "sso_reconcile cfg spec meta status name ns =
     (let generation = generation_of meta;
          slug = sor (sget spec ''slug'') name;
          display_name = sor (sget spec ''displayName'') name;
          protocol = sor (sget spec ''protocol'') PROTOCOL_OAUTH2 in
      bindM (or_fail status generation [] (provider_authentik cfg)) (\<lambda>ak.
      bindM (sso_references cfg ak spec status generation) (\<lambda>(authz_pk, inval_pk, mapping_pks).
      bindM (if protocol = PROTOCOL_PROXY
             then bindM (reconcile_proxy cfg ak spec slug authz_pk inval_pk mapping_pks status
                           generation)
                    (\<lambda>provider_pk. ret (provider_pk, [], []))
             else reconcile_oauth2 cfg ak spec slug authz_pk inval_pk mapping_pks status
                    generation)
        (\<lambda>(provider_pk, client_id, openbao_path).
      thenM (sso_register ak spec slug display_name provider_pk status generation)
     (thenM
        (let target = jget (oget spec ''credentials'') ''targetSecret'' in
         whenM (protocol \<noteq> PROTOCOL_PROXY \<and> truthy target)
           (or_fail status generation ''publishing credentials: ''
              (publish_credentials target meta ns openbao_path (cluster_secret_store cfg)
                 (oidc_descriptor cfg slug spec))))
     (thenM (set_status ''slug'' (JStr slug))
     (thenM (set_status ''protocol'' (JStr protocol))
     (thenM (set_status ''providerID'' (JStr (int_str provider_pk)))
     (thenM (whenM (openbao_path \<noteq> []) (set_status ''openbaoPath'' (JStr openbao_path)))
     (thenM (whenM (client_id \<noteq> []) (set_status ''clientID'' (JStr client_id)))
     (mark_ready status (''SSO application '' @ repr slug @ '' reconciled'') generation)))))))))))"

text \<open>\<open>finalize\<close>: the conversion of \<open>providerID\<close> stands outside the \<open>try\<close> blocks.\<close>

definition sso_finalize :: "config \<Rightarrow> json \<Rightarrow> json \<Rightarrow> string \<Rightarrow> unit M" where
  "sso_finalize cfg spec status name =
     (let slug = sor (sget status ''slug'') (sor (sget spec ''slug'') name);
          provider_id = jget status ''providerID'';
          protocol = sor (sget status ''protocol'') (sor (sget spec ''protocol'') PROTOCOL_OAUTH2)
      in
      bindM (tryM (bindM (provider_authentik cfg) (\<lambda>ak. ret (Some ak))) (\<lambda>_. ret None))
        (\<lambda>backend. case backend of
           None \<Rightarrow> ret ()
         | Some ak \<Rightarrow>
             thenM (attempt (delete_application ak slug))
               (whenM (truthy provider_id)
                 (bindM (to_int (JStr (strip (py_str provider_id)))) (\<lambda>pk.
                  if protocol = PROTOCOL_PROXY
                  then thenM (attempt (remove_outpost_provider ak
                                 (sor (sget (oget spec ''proxy'') ''outpost'') DEFAULT_OUTPOST) pk))
                         (attempt (delete_proxy_provider ak pk))
                  else attempt (delete_provider ak pk))))))"

section \<open>The contract\<close>

lemma quiet_resolve_each [quiet_intros]: "(\<And>x. quiet (f x)) \<Longrightarrow> quiet (resolve_each f xs)"
  by (induction xs) (auto intro!: quiet_intros)

lemma only_resolve_each [only_intros]: "(\<And>x. only P (f x)) \<Longrightarrow> only P (resolve_each f xs)"
  by (induction xs) (auto intro!: only_intros)

lemma quiet_gen_credential [quiet_intros]: "quiet (gen_credential key)"
  unfolding gen_credential_def by (intro quiet_intros)

lemma quiet_publish_credentials [quiet_intros]:
  "quiet (publish_credentials target meta ns path store descr)"
  unfolding publish_credentials_def Let_def by (intro quiet_intros)

lemma guarded_reconcile_oauth2 [guarded_intros]:
  "guarded g (reconcile_oauth2 cfg ak spec slug a i ms status g)"
  unfolding reconcile_oauth2_def Let_def by (intro guarded_intros quiet_intros)

lemma guarded_reconcile_proxy [guarded_intros]:
  "guarded g (reconcile_proxy cfg ak spec slug a i ms status g)"
  unfolding reconcile_proxy_def Let_def by (intro guarded_intros quiet_intros)

lemma guarded_sso_references [guarded_intros]:
  "guarded g (sso_references cfg ak spec status g)"
  unfolding sso_references_def by (intro guarded_intros quiet_intros)

lemma guarded_sso_register [guarded_intros]:
  "guarded g (sso_register ak spec slug dn pk status g)"
  unfolding sso_register_def by (intro guarded_intros quiet_intros)

interpretation sso: reconciler "sso_reconcile cfg" for cfg
  unfolding sso_reconcile_def [abs_def] Let_def
  by unfold_locales (intro reports_intros guarded_intros quiet_intros; simp)

section \<open>Properties\<close>

definition identity_only :: "call \<Rightarrow> bool" where
  "identity_only c \<longleftrightarrow> \<not> kv_write c \<and> (\<forall>v k. call_target c = Some (v, k) \<longrightarrow> v = VGet)"

lemma identity_only_token: "token_call c \<Longrightarrow> identity_only c"
  by (cases c) (auto simp: identity_only_def)

lemma identity_only_simps [simp]:
  "identity_only Now" "identity_only (Ak oper a)" "identity_only (Kv VGet m p t b)"
  by (simp_all add: identity_only_def)

text \<open>Deleting an SSOApplication leaves its credentials in OpenBao, whatever fails: the
  finalizer never writes to the store, and it changes no Kubernetes object.\<close>

lemma sso_finalize_keeps_credentials: "only identity_only (sso_finalize cfg spec status name)"
  unfolding sso_finalize_def Let_def
  by (intro only_intros only_provider_authentik; simp add: identity_only_token)

text \<open>A proxy-protocol SSOApplication never generates or stores credentials and
  delivers no Secret: Authentik owns them. Its whole reconcile only reads OpenBao and the
  cluster and talks to Authentik.\<close>

lemma sso_proxy_stores_nothing:
  assumes "sget spec ''protocol'' = PROTOCOL_PROXY"
  shows "only identity_only (sso_reconcile cfg spec meta status name ns)"
proof -
  have "only identity_only (reconcile_proxy cfg ak spec slug a i ms status g)" for ak slug a i ms g
    unfolding reconcile_proxy_def Let_def by (intro only_intros; simp)
  moreover have "only identity_only (sso_references cfg ak spec status g)" for ak g
    unfolding sso_references_def by (intro only_intros; simp)
  moreover have "only identity_only (sso_register ak spec slug dn pk status g)" for ak slug dn pk g
    unfolding sso_register_def by (intro only_intros; simp)
  moreover have "sor (sget spec ''protocol'') PROTOCOL_OAUTH2 = PROTOCOL_PROXY"
    using assms by simp
  ultimately show ?thesis
    unfolding sso_reconcile_def Let_def
    by (simp only: simp_thms if_True)
       (intro only_intros only_provider_authentik; simp add: identity_only_token)
qed

lemma sso_proxy_stores_nothing_witness:
  "only identity_only (sso_reconcile default_config
     (JObj [(''protocol'', JStr ''proxy''), (''proxy'', JObj [(''externalHost'', JStr ''https://a'')])])
     JNull JNull ''app'' ''ns'')"
  using sso_proxy_stores_nothing [of "JObj [(''protocol'', JStr ''proxy''),
      (''proxy'', JObj [(''externalHost'', JStr ''https://a'')])]"]
  by (simp add: sget_def)

lemma tryM_ret_returns: "\<exists>r s'. tryM m (\<lambda>_. ret x) env s = (Inr r, s')"
  by (auto simp: tryM_def ret_def split: prod.split sum.split)

text \<open>Cleaning up an SSOApplication completes whatever the backends answer, unless the
  published provider id is not a number: then the conversion, which stands outside the
  guarded blocks, raises a ValueError when Authentik is reachable, and the resource cannot
  be deleted.\<close>

lemma sso_finalize_outcome:
  "case sso_finalize cfg spec status name env s of
     (Inr _, s') \<Rightarrow> True
   | (Inl e, s') \<Rightarrow> (\<exists>t. e = ValueError t) \<and> truthy (jget status ''providerID'') \<and>
       py_int (strip (py_str (jget status ''providerID''))) = None"
proof -
  obtain r s1 where 1: "tryM (bindM (provider_authentik cfg) (\<lambda>ak. ret (Some ak))) (\<lambda>_. ret None)
      env s = (Inr r, s1)"
    using tryM_ret_returns [of "bindM (provider_authentik cfg) (\<lambda>ak. ret (Some ak))" None env s]
    by blast
  show ?thesis
  proof (cases r)
    case None
    with 1 have "sso_finalize cfg spec status name env s = (Inr (), s1)"
      by (simp add: sso_finalize_def Let_def bindM_run [where m = "tryM m h" for m h])
         (simp add: ret_def)
    then show ?thesis by simp
  next
    case (Some ak)
    obtain s2 where 2: "attempt (delete_application ak (sor (sget status ''slug'')
        (sor (sget spec ''slug'') name))) env s1 = (Inr (), s2)"
      using attempt_returns by blast
    have e: "sso_finalize cfg spec status name env s =
        whenM (truthy (jget status ''providerID''))
          (bindM (to_int (JStr (strip (py_str (jget status ''providerID''))))) (\<lambda>pk.
             if sor (sget status ''protocol'') (sor (sget spec ''protocol'') PROTOCOL_OAUTH2)
                = PROTOCOL_PROXY
             then thenM (attempt (remove_outpost_provider ak
                            (sor (sget (oget spec ''proxy'') ''outpost'') DEFAULT_OUTPOST) pk))
                    (attempt (delete_proxy_provider ak pk))
             else attempt (delete_provider ak pk))) env s2"
      using 1 2 Some
      by (simp add: sso_finalize_def Let_def bindM_run [where m = "tryM m h" for m h]
          thenM_run [where m = "attempt m" for m])
    have f: "\<exists>s3. (if b then thenM (attempt m1) (attempt m2) else attempt m3) env s2 = (Inr (), s3)"
      for b and m1 m2 m3 :: "unit M"
    proof -
      obtain s4 where "attempt m1 env s2 = (Inr (), s4)" using attempt_returns by blast
      moreover obtain s5 where "attempt m2 env s4 = (Inr (), s5)" using attempt_returns by blast
      moreover obtain s6 where "attempt m3 env s2 = (Inr (), s6)" using attempt_returns by blast
      ultimately show ?thesis by (simp add: thenM_def bindM_def)
    qed
    show ?thesis
    proof (cases "truthy (jget status ''providerID'')")
      case False
      then show ?thesis unfolding e by (simp add: whenM_def ret_def)
    next
      case t: True
      show ?thesis
      proof (cases "py_int (strip (py_str (jget status ''providerID'')))")
        case None
        with t show ?thesis unfolding e by (simp add: whenM_def to_int_def) (simp add: raise_def)
      next
        case (Some pk)
        then have i: "to_int (JStr (strip (py_str (jget status ''providerID'')))) = ret pk"
          by (simp add: to_int_def)
        show ?thesis
          unfolding e i whenM_def bindM_ret if_P [OF t]
          using f [of "sor (sget status ''protocol'') (sor (sget spec ''protocol'') PROTOCOL_OAUTH2)
                = PROTOCOL_PROXY" "remove_outpost_provider ak
                (sor (sget (oget spec ''proxy'') ''outpost'') DEFAULT_OUTPOST) pk"
              "delete_proxy_provider ak pk" "delete_provider ak pk"]
          by (elim exE) (simp only: prod.case sum.case)
      qed
    qed
  qed
qed

fun ak_env :: env where
  "ak_env l (Typed _ _ _ _ _) = Inr (JObj [(''data'', JObj [(''root-token'', JStr ''dG9r'')])])"
| "ak_env l (Kv _ _ _ _ _) =
     Inr (JObj [(''data'', JObj [(''data'', JObj [(''bootstrap-token'', JStr ''abc'')])])])"
| "ak_env l _ = Inr JNull"

lemma ak_env_authentik: "\<exists>s1. provider_authentik default_config ak_env init_st =
    (Inr (authentik_client (authentik_addr default_config) ''abc''), s1)"
proof -
  have "b64decode ''dG9r'' = Some ''tok''" by code_simp
  then show ?thesis
    by (simp add: provider_authentik_def bao_read_def twice_def read_attempt_def
        openbao_token_def default_config_def token_from_secret_def tryM_def callM_def bindM_def
        thenM_def ret_def sget_def oget_def Let_def item_def strip_def py_ws_def strip_of_def
        lstrip_of_def rstrip_of_def verify_def ak_call_def)
qed

text \<open>The finalizer can raise, although it is documented never to: with OpenBao and
  Authentik reachable and a provider id that is not a number, deletion fails with a
  ValueError.\<close>

lemma sso_finalize_can_raise:
  "\<exists>s'. sso_finalize default_config JNull (JObj [(''providerID'', JStr ''x'')]) ''app'' ak_env init_st
     = (Inl (ValueError (''invalid literal for int() with base 10: '' @ repr ''x'')), s')"
proof -
  obtain s1 where "provider_authentik default_config ak_env init_st =
    (Inr (authentik_client (authentik_addr default_config) ''abc''), s1)"
    using ak_env_authentik by blast
  moreover have "strip ''x'' = ''x''" "py_int ''x'' = None"
    by (simp_all add: strip_def py_ws_def strip_of_def lstrip_of_def rstrip_of_def py_int_def
        digit_val_def digit_chars_def)
  ultimately show ?thesis
    by (simp add: sso_finalize_def Let_def tryM_def bindM_def thenM_def ret_def whenM_def
        to_int_def raise_def delete_application_def on_missing_def attempt_def ak_call_def
        callM_def)
qed

end
