(* ===== verification/Scopes.thy ===== *)
theory Scopes
  imports Requeue Kube
begin

text \<open>
  The reconcilers of the configuration scopes: \<open>handlers/client.py\<close>, \<open>environment.py\<close>,
  \<open>domain.py\<close>, \<open>organization.py\<close> and \<open>applicationtype.py\<close>. Each handler validates its spec,
  publishes its status, nudges the Applications below it and marks itself ready; the
  \<open>reconciler\<close> contract is discharged for each.
\<close>

section \<open>Clients\<close>

definition client_reconcile :: "json \<Rightarrow> json \<Rightarrow> json \<Rightarrow> string \<Rightarrow> string \<Rightarrow> unit M" where
  "client_reconcile spec meta status name ns =
     (let generation = generation_of meta;
          slug = strip (sor (sget spec ''slug'') name);
          org_ref = ref_name spec ''organizationRef'' in
      thenM
        (whenM (org_ref \<noteq> [])
          (on_not_found (thenM (get_organization org_ref) (ret ()))
             (\<lambda>t. fail status REASON_DEPENDENCY_NOT_MET t generation)))
      (thenM (set_status ''slug'' (JStr slug))
      (bindM (requeue_applications (revision ''client'' name generation) ns (\<lambda>_. True))
        (\<lambda>_. mark_ready status (''Client '' @ repr slug @ '' reconciled'') generation))))"

section \<open>Environments\<close>

definition environment_reconcile :: "json \<Rightarrow> json \<Rightarrow> json \<Rightarrow> string \<Rightarrow> string \<Rightarrow> unit M" where
  "environment_reconcile spec meta status name ns =
     (let generation = generation_of meta;
          client_ref = ref_name spec ''clientRef'' in
      if client_ref = []
      then fail status REASON_INVALID_SPEC ''clientRef.name is required'' generation
      else bindM (on_not_found (get_client client_ref ns)
                    (\<lambda>t. fail status REASON_DEPENDENCY_NOT_MET t generation))
        (\<lambda>client_obj.
          let client_slug = sor (sget (oget client_obj ''spec'') ''slug'') client_ref;
              environment_class = sor (sget spec ''class'') CLASS_DEVELOPMENT;
              env_namespace = namespace_name client_slug name;
              labels = [(''app.kubernetes.io/managed-by'', MANAGED_BY),
                        (''platform.adomi.io/client'', client_slug),
                        (''platform.adomi.io/environment'', name),
                        (''platform.adomi.io/class'', environment_class)] in
          thenM (tryM (apply_namespace \<lparr>nsp_name = env_namespace, nsp_labels = labels\<rparr>)
                  (\<lambda>e. fail status REASON_BACKEND_ERROR
                         (''ensuring namespace: '' @ exn_str e) generation))
         (thenM (set_status ''namespace'' (JStr env_namespace))
         (bindM (requeue_applications (revision ''environment'' name generation) ns
                   (app_references_environment name))
           (\<lambda>_. mark_ready status
              (''Environment '' @ repr name @ '' ready ('' @ env_namespace @ '')'')
              generation)))))"

definition environment_finalize :: "json \<Rightarrow> unit M" where
  "environment_finalize status =
     (let env_namespace = sget status ''namespace'' in
      whenM (env_namespace \<noteq> [])
        (attempt (delete_namespace \<lparr>nsp_name = env_namespace, nsp_labels = []\<rparr>)))"

section \<open>Domains, Organizations and ApplicationTypes\<close>

definition domain_reconcile :: "json \<Rightarrow> json \<Rightarrow> json \<Rightarrow> string \<Rightarrow> string \<Rightarrow> unit M" where
  "domain_reconcile spec meta status name ns =
     (let generation = generation_of meta;
          fqdn = lower (strip (sget spec ''fqdn'')) in
      thenM
        (whenM (fqdn = []) (fail status REASON_INVALID_SPEC ''fqdn is required'' generation))
      (thenM (set_status ''host'' (JStr fqdn))
      (bindM (requeue_applications (revision ''domain'' name generation) ns
                (app_references_domain name))
        (\<lambda>_. mark_ready status (''Domain '' @ repr fqdn @ '' ready'') generation))))"

definition organization_reconcile ::
    "config \<Rightarrow> json \<Rightarrow> json \<Rightarrow> json \<Rightarrow> string \<Rightarrow> string \<Rightarrow> unit M" where
  "organization_reconcile cfg spec meta status name ns =
     (let generation = generation_of meta;
          base = sor (sget (oget spec ''domain'') ''base'') (base_domain cfg);
          image_repo = sor (sget (oget spec ''images'') ''odooRepository'')
            (odoo_image_repository cfg);
          msg = ''Organization '' @ repr name @ '' reconciled'' in
      thenM (set_status ''baseDomain'' (JStr base))
     (thenM (set_status ''odooImageRepository'' (JStr image_repo))
     (bindM (requeue_applications (revision ''organization'' name generation) [] (\<lambda>_. True))
       (\<lambda>_. mark_ready status
          (if base = []
           then msg @ '' (no base domain set; applications must declare spec.ingress.host)''
           else msg) generation))))"

definition applicationtype_reconcile ::
    "json \<Rightarrow> json \<Rightarrow> json \<Rightarrow> string \<Rightarrow> string \<Rightarrow> unit M" where
  "applicationtype_reconcile spec meta status name ns =
     (let generation = generation_of meta; chart = oget spec ''chart'' in
      thenM
        (whenM (\<not> truthy (jget chart ''repoURL''))
          (fail status REASON_INVALID_SPEC ''chart.repoURL is required'' generation))
      (bindM (requeue_applications (revision ''applicationtype'' name generation) []
                (app_references_type name))
        (\<lambda>_. mark_ready status (''ApplicationType '' @ repr name @ '' ready'') generation)))"

section \<open>The contract\<close>

lemma quiet_get_namespaced [quiet_intros]: "quiet (get_namespaced plural name ns)"
  unfolding get_namespaced_def by (intro quiet_intros) simp

lemma quiet_getters [quiet_intros]:
  "quiet (get_client n ns)" "quiet (get_environment n ns)" "quiet (get_application n ns)"
  "quiet (get_gitrepository n ns)" "quiet (get_snapshot n ns)" "quiet (get_database n ns)"
  "quiet (get_database_server n ns)" "quiet (get_domain n ns)"
  unfolding get_client_def get_environment_def get_application_def get_gitrepository_def
    get_snapshot_def get_database_def get_database_server_def get_domain_def
  by (intro quiet_intros)+

lemma quiet_cluster_getters [quiet_intros]:
  "quiet (get_organization n)" "quiet (get_application_type n)" "quiet (get_sso_application n ns)"
  unfolding get_organization_def get_application_type_def get_sso_application_def
  by (intro quiet_intros; simp)+

lemma guarded_requeue [guarded_intros]: "guarded g (requeue_applications rv ns pred)"
  by (rule guarded_quiet [OF quiet_requeue_applications])

interpretation client: reconciler client_reconcile
  unfolding client_reconcile_def [abs_def] Let_def
  by unfold_locales
     (intro reports_intros guarded_intros guarded_quiet quiet_intros; simp)

interpretation environment: reconciler environment_reconcile
  unfolding environment_reconcile_def [abs_def] Let_def
  by unfold_locales
     (intro reports_intros guarded_intros quiet_intros; simp)

interpretation domain: reconciler domain_reconcile
  unfolding domain_reconcile_def [abs_def] Let_def
  by unfold_locales
     (intro reports_intros guarded_intros quiet_intros; simp)

interpretation organization: reconciler "organization_reconcile cfg" for cfg
  unfolding organization_reconcile_def [abs_def] Let_def
  by unfold_locales
     (intro reports_intros guarded_intros quiet_intros; simp)

interpretation applicationtype: reconciler applicationtype_reconcile
  unfolding applicationtype_reconcile_def [abs_def] Let_def
  by unfold_locales
     (intro reports_intros guarded_intros quiet_intros; simp)

section \<open>Properties\<close>

lemma mark_ready_keeps:
  assumes "mark_ready status message g env s = (r, s')"
    and "k \<noteq> ''conditions''" and "k \<noteq> ''observedGeneration''"
  shows "dget (status_patch s') k = dget (status_patch s) k"
proof -
  obtain cs' s1 where "upsert (conditions_of status) ''True'' REASON_RECONCILED
      (sor message ''Resource reconciled successfully'') g env s = (Inr cs', s1)"
    and "status_patch s1 = status_patch s"
    using upsert_run by meson
  with assms show ?thesis
    by (auto simp: mark_ready_def bindM_def thenM_def set_status_def modifyM_def)
qed

lemma quiet_patch: "quiet m \<Longrightarrow> m env s = (r, s') \<Longrightarrow> status_patch s' = status_patch s"
  unfolding quiet_def by (metis snd_conv)

text \<open>A run of the environment handler that returns went through its last three steps.\<close>

lemma fail_never_returns:
  fixes x :: 'a
  shows "fail_after d status reason message g env s \<noteq> (Inr x, s')"
proof -
  obtain s'' where "(fail_after d status reason message g :: 'a M) env s =
      (Inl (Temporary message d), s'')"
    using fail_after_run by blast
  then show ?thesis by simp
qed

lemma environment_returns:
  assumes "environment_reconcile spec meta status name ns env s = (Inr (), s')"
    and "env (trace s) (Custom VGet PLATFORM_GROUP PLURAL_CLIENTS ns
           (ref_name spec ''clientRef'') JNull) = Inr client_obj"
  shows "dget (status_patch s') ''namespace'' = Some (JStr (namespace_name
           (sor (sget (oget client_obj ''spec'') ''slug'') (ref_name spec ''clientRef'')) name))"
proof -
  let ?ref = "ref_name spec ''clientRef''"
  let ?slug = "sor (sget (oget client_obj ''spec'') ''slug'') ?ref"
  let ?s1 = "s\<lparr>trace := (Custom VGet PLATFORM_GROUP PLURAL_CLIENTS ns ?ref JNull, Inr client_obj)
     # trace s\<rparr>"
  have ref: "?ref \<noteq> []"
    using assms(1)
    by (auto simp: environment_reconcile_def Let_def fail_never_returns split: if_splits)
  have g: "on_not_found (get_client ?ref ns) h env s = (Inr client_obj, ?s1)" for h
    using assms(2)
    by (simp add: get_client_def get_namespaced_def on_not_found_def on_status_def tryM_def
        callM_def Let_def)
  from assms(1) ref g obtain s2 u s3 v s4 where
    "set_status ''namespace'' (JStr (namespace_name ?slug name)) env s2 = (Inr u, s3)"
    and q: "requeue_applications (revision ''environment'' name (generation_of meta)) ns
       (app_references_environment name) env s3 = (Inr v, s4)"
    and m: "mark_ready status (''Environment '' @ repr name @ '' ready ('' @
       namespace_name ?slug name @ '')'') (generation_of meta) env s4 = (Inr (), s')"
    by (auto simp: environment_reconcile_def Let_def bindM_def [of "on_not_found _ _"]
        thenM_Inr bindM_Inr)
  then have "dget (status_patch s3) ''namespace'' = Some (JStr (namespace_name ?slug name))"
    by (auto simp: set_status_def modifyM_def)
  with quiet_patch [OF quiet_requeue_applications q] mark_ready_keeps [OF m]
  show ?thesis by simp
qed

text \<open>The namespace an Environment publishes is the namespace its Applications deploy
  into: when the environment handler returns, \<open>status.namespace\<close> equals what \<open>compute\<close>
  derives for any Application of that environment (the client's slug has no surrounding
  blanks, as its schema requires).\<close>

lemma environment_namespace_agrees:
  assumes "environment_reconcile spec meta status name ns env s = (Inr (), s')"
    and "env (trace s) (Custom VGet PLATFORM_GROUP PLURAL_CLIENTS ns
           (ref_name spec ''clientRef'') JNull) = Inr client_obj"
    and "strip (sor (sget (oget client_obj ''spec'') ''slug'') (ref_name spec ''clientRef'')) =
           sor (sget (oget client_obj ''spec'') ''slug'') (ref_name spec ''clientRef'')"
  shows "dget (status_patch s') ''namespace'' = Some (JStr (eff_namespace
           (compute cfg org (ref_name spec ''clientRef'') (oget client_obj ''spec'') name
              environment_spec app_name app_spec type_spec domain_fqdn org_name)))"
  using environment_returns [OF assms(1,2)] assms(3)
  by (simp add: compute_def slug_of_def Let_def)

definition acme :: json where
  "acme = JObj [(''spec'', JObj [(''slug'', JStr ''acme'')])]"

lemma environment_namespace_agrees_witness:
  "dget (status_patch (snd (environment_reconcile
       (JObj [(''clientRef'', JObj [(''name'', JStr ''acme'')])]) JNull JNull ''prod'' ''p''
       (\<lambda>l c. Inr acme) init_st))) ''namespace'' =
   Some (JStr (eff_namespace (compute default_config JNull ''acme'' (oget acme ''spec'') ''prod''
      JNull ''web'' JNull JNull [] [])))"
proof -
  let ?spec = "JObj [(''clientRef'', JObj [(''name'', JStr ''acme'')])]"
  have "fst (environment_reconcile ?spec JNull JNull ''prod'' ''p'' (\<lambda>l c. Inr acme) init_st)
      = Inr ()"
    by (simp add: environment_reconcile_def ref_name_def oget_def sget_def acme_def Let_def
        on_not_found_def get_client_def get_namespaced_def on_status_def tryM_def callM_def
        bindM_def thenM_def apply_namespace_def apply_typed_def namespace_resource_def
        set_status_def modifyM_def requeue_applications_def lget_def ret_def mark_ready_def
        conditions_of_def)
  then obtain s' where r: "environment_reconcile ?spec JNull JNull ''prod'' ''p''
      (\<lambda>l c. Inr acme) init_st = (Inr (), s')"
    by (metis prod.collapse)
  have n: "ref_name ?spec ''clientRef'' = ''acme''"
    by (simp add: ref_name_def oget_def sget_def)
  have "strip ''acme'' = ''acme''"
    by (simp add: strip_def py_ws_def strip_of_def lstrip_of_def rstrip_of_def)
  then show ?thesis
    using environment_namespace_agrees [OF r, of acme default_config JNull JNull
        "''web''" JNull JNull "[]" "[]"]
    unfolding n r snd_conv by (simp add: acme_def oget_def sget_def)
qed

text \<open>Deleting an Environment asks for the deletion of the namespace its status
  publishes, of no other object, and never raises: the finalizer cannot block the
  deletion of the resource, and an Environment that never got a namespace deletes
  nothing.\<close>

lemma environment_finalize_safe:
  "\<exists>s'. environment_finalize status env s = (Inr (), s') \<and>
     map fst (trace s') =
       (if sget status ''namespace'' \<noteq> []
        then [Typed VDelete ''Namespace'' [] (sget status ''namespace'') JNull] else []) @
       map fst (trace s)"
  by (auto simp: environment_finalize_def whenM_def attempt_def delete_namespace_def
      delete_typed_def namespace_resource_def on_status_def tryM_def thenM_def bindM_def
      callM_def ret_def raise_def Let_def split: sum.split xerr.split)

end
