(* ===== verification/Runs.thy ===== *)
theory Runs
  imports OpenBao Scopes
begin

text \<open>
  Runs that come through. \<open>returns env m\<close>: against \<open>env\<close> the computation ends with a value
  from every state; \<open>answers env m v\<close>: that value is \<open>v\<close>. They show for one concrete
  environment that a handler reaches its end, so the gates proved for returning runs are
  not empty promises. \<open>logs\<close> facts of the clients and writers are collected here too.
\<close>

section \<open>Returning\<close>

definition answers :: "env \<Rightarrow> 'a M \<Rightarrow> 'a \<Rightarrow> bool" where
  "answers env m v \<longleftrightarrow> (\<forall>s. \<exists>s'. m env s = (Inr v, s'))"

definition returns :: "env \<Rightarrow> 'a M \<Rightarrow> bool" where
  "returns env m \<longleftrightarrow> (\<forall>s. \<exists>x s'. m env s = (Inr x, s'))"

named_theorems returns_intros
  \<open>introduction rules: computations that return against an environment\<close>

lemma answers_ret: "answers env (ret x) x"
  by (simp add: answers_def ret_def)

lemma answers_callM: "(\<And>l. env l c = Inr v) \<Longrightarrow> answers env (callM c) v"
  by (simp add: answers_def callM_def)

lemma answers_bindM: "answers env m v \<Longrightarrow> answers env (f v) w \<Longrightarrow> answers env (bindM m f) w"
  unfolding answers_def bindM_Inr by metis

lemma answers_tryM: "answers env m v \<Longrightarrow> answers env (tryM m h) v"
  unfolding answers_def tryM_def by (metis (mono_tags, lifting) old.prod.case sum.case(2))

lemma answers_on_status: "answers env m v \<Longrightarrow> answers env (on_status cs m h) v"
  unfolding on_status_def by (rule answers_tryM)

lemma answers_on_not_found: "answers env m v \<Longrightarrow> answers env (on_not_found m h) v"
  unfolding on_not_found_def by (rule answers_tryM)

lemma answers_or_fail:
  "answers env m v \<Longrightarrow> answers env (or_fail status g t m) v"
  "answers env m v \<Longrightarrow> answers env (or_fail_keep status g t m) v"
  unfolding or_fail_def or_fail_keep_def try_keep_def by (rule answers_tryM, assumption)+

lemma answers_returns: "answers env m v \<Longrightarrow> returns env m"
  unfolding answers_def returns_def by blast

lemma returnsE:
  assumes "returns env m"
  obtains x s' where "m env s = (Inr x, s')"
  using assms unfolding returns_def by blast

lemma returns_unit: "returns env m \<Longrightarrow> \<exists>s'. m env s = (Inr (), s')"
  unfolding returns_def by simp

lemma returns_ret [returns_intros]: "returns env (ret x)"
  by (simp add: returns_def ret_def)

lemma returns_bindM [returns_intros]:
  "returns env m \<Longrightarrow> (\<And>x. returns env (f x)) \<Longrightarrow> returns env (bindM m f)"
  unfolding returns_def bindM_Inr by metis

lemma returns_bind_answer:
  "answers env m v \<Longrightarrow> returns env (f v) \<Longrightarrow> returns env (bindM m f)"
  unfolding returns_def answers_def bindM_Inr by metis

lemma returns_thenM [returns_intros]: "returns env m \<Longrightarrow> returns env k \<Longrightarrow> returns env (thenM m k)"
  unfolding thenM_def by (rule returns_bindM)

lemma returns_tryM [returns_intros]: "returns env m \<Longrightarrow> returns env (tryM m h)"
  unfolding returns_def tryM_def by (metis (mono_tags, lifting) old.prod.case sum.case(2))

lemma returns_or_fail [returns_intros]:
  "returns env m \<Longrightarrow> returns env (or_fail status g t m)"
  "returns env m \<Longrightarrow> returns env (or_fail_keep status g t m)"
  unfolding or_fail_def or_fail_keep_def try_keep_def by (intro returns_intros, assumption)+

lemma returns_on_status [returns_intros]: "returns env m \<Longrightarrow> returns env (on_status cs m h)"
  unfolding on_status_def by (rule returns_tryM)

lemma returns_on_not_found [returns_intros]: "returns env m \<Longrightarrow> returns env (on_not_found m h)"
  unfolding on_not_found_def by (rule returns_tryM)

lemma returns_modifyM [returns_intros]: "returns env (modifyM f)" "returns env (getM g)"
  by (simp_all add: returns_def modifyM_def getM_def)

lemma returns_set_status [returns_intros]: "returns env (set_status k v)"
  unfolding set_status_def by (rule returns_modifyM)

lemma returns_whenM [returns_intros]: "(b \<Longrightarrow> returns env m) \<Longrightarrow> returns env (whenM b m)"
  by (simp add: whenM_def returns_ret)

lemma returns_if [returns_intros]:
  "(b \<Longrightarrow> returns env m) \<Longrightarrow> (\<not> b \<Longrightarrow> returns env k) \<Longrightarrow> returns env (if b then m else k)"
  by simp

lemma returns_case_option [returns_intros]:
  "(x = None \<Longrightarrow> returns env m) \<Longrightarrow> (\<And>y. x = Some y \<Longrightarrow> returns env (f y)) \<Longrightarrow>
   returns env (case x of None \<Rightarrow> m | Some y \<Rightarrow> f y)"
  by (cases x) simp_all

lemma returns_case_prod [returns_intros]:
  "(\<And>a b. x = (a, b) \<Longrightarrow> returns env (f a b)) \<Longrightarrow> returns env (case x of (a, b) \<Rightarrow> f a b)"
  by (cases x) simp

lemma returns_callM: "(\<And>l. \<exists>v. env l c = Inr v) \<Longrightarrow> returns env (callM c)"
  unfolding returns_def callM_def Let_def by (auto, metis sum.case(2))

lemma returns_of_result: "r = Inr v \<Longrightarrow> returns env (of_result r)"
  by (simp add: of_result_def returns_ret)

lemma returns_forM [returns_intros]:
  "(\<And>x. x \<in> set xs \<Longrightarrow> returns env (f x)) \<Longrightarrow> returns env (forM xs f)"
  by (induction xs) (auto intro: returns_intros)

section \<open>Bounds for the writers\<close>

lemma only_applies:
  "(\<And>c. touches (secret_key m) c \<Longrightarrow> P c) \<Longrightarrow> only P (apply_secret m)"
  "(\<And>c. touches (config_map_key cm) c \<Longrightarrow> P c) \<Longrightarrow> only P (apply_config_map cm)"
  "(\<And>c. touches (custom_key (es_resource e)) c \<Longrightarrow> P c) \<Longrightarrow> only P (apply_es e)"
  "(\<And>c. touches (workflow_key w) c \<Longrightarrow> P c) \<Longrightarrow> only P (apply_workflow w)"
  "(\<And>c. touches (argo_key a) c \<Longrightarrow> P c) \<Longrightarrow> only P (apply_argo a)"
  "(\<And>c. touches (namespace_key n) c \<Longrightarrow> P c) \<Longrightarrow> only P (apply_namespace n)"
  "(\<And>c. touches (custom_key (cnpg_resource cn)) c \<Longrightarrow> P c) \<Longrightarrow> only P (apply_cnpg cn)"
  using only_mono secret.apply_own config_map.apply_own es.apply_own workflow.apply_own
    argo.apply_own nspace.apply_own cnpg.apply_own by metis+

section \<open>Environments in which every request succeeds\<close>

definition all_ok :: "env \<Rightarrow> bool" where
  "all_ok env \<longleftrightarrow> (\<forall>l c. \<exists>v. env l c = Inr v)"

lemma returns_call_ok: "all_ok env \<Longrightarrow> returns env (callM c)"
  unfolding all_ok_def by (rule returns_callM) blast

lemma returns_now [returns_intros]: "returns env now_utc"
  by (simp add: returns_def now_utc_def Let_def)

lemma returns_upsert [returns_intros]: "returns env (upsert cs st r m g)"
  by (induction cs) (auto intro!: returns_intros)

lemma returns_mark_ready [returns_intros]: "returns env (mark_ready status m g)"
  unfolding mark_ready_def by (intro returns_intros)

lemma returns_apply_custom: "all_ok env \<Longrightarrow> returns env (apply_custom r)"
  unfolding apply_custom_def get_custom_def read_custom_def create_custom_def patch_custom_def
  by (intro returns_intros returns_call_ok)

lemma returns_apply_typed:
  "returns env (tr_read r) \<Longrightarrow> returns env (tr_create r) \<Longrightarrow> returns env (tr_patch r) \<Longrightarrow>
   returns env (apply_typed r)"
  unfolding apply_typed_def by (intro returns_intros)

lemma returns_writers:
  assumes "all_ok env"
  shows "returns env (apply_secret m)" "returns env (apply_config_map cm)"
    "returns env (apply_es e)" "returns env (apply_cnpg c)" "returns env (apply_namespace n)"
    "returns env (apply_workflow w)"
  unfolding apply_secret_def apply_config_map_def apply_namespace_def apply_es_def
    apply_cnpg_def apply_workflow_def get_custom_def read_custom_def create_custom_def
  by (rule returns_apply_typed returns_apply_custom assms
      | simp add: secret_resource_def config_map_resource_def namespace_resource_def
          returns_call_ok assms returns_ret
      | intro returns_intros returns_call_ok assms)+

lemma answers_token:
  assumes "auth_mode cfg = TOKEN"
    and "\<And>l. env l (Typed VGet ''Secret'' (token_secret_namespace cfg) (token_secret_name cfg)
      JNull) = Inr tok"
    and "b64decode (sget (oget tok ''data'') (token_secret_key cfg)) = Some t" "strip t \<noteq> []"
    and "sget (oget tok ''data'') (token_secret_key cfg) \<noteq> []"
  shows "answers env (openbao_token cfg force) (strip t)"
  using assms(1,3-5)
  unfolding openbao_token_def token_from_secret_def Let_def
  by (auto intro!: answers_bindM answers_tryM answers_callM assms(2) answers_ret)

lemma answers_bao_read:
  assumes "\<And>force. answers env (openbao_token cfg force) t"
    and "\<And>l. env l (Kv VGet (kv_mount_of cfg) (strip_of ''/'' path) t JNull) = Inr kv"
    and "jhas kv ''data''" "jhas (jget kv ''data'') ''data''"
  shows "answers env (bao_read cfg path) (Some (jor (jget (jget kv ''data'') ''data'') (JObj [])))"
proof -
  let ?v = "Some (Some (jor (jget (jget kv ''data'') ''data'') (JObj [])))"
  have c: "answers env (callM (Kv VGet (kv_mount_of cfg) (strip_of ''/'' path) t JNull)) kv"
    by (rule answers_callM) (rule assms(2))
  have "answers env (read_attempt cfg path force) ?v" for force
    unfolding read_attempt_def
    by (rule answers_bindM [OF assms(1)], rule answers_tryM, rule answers_bindM [OF c])
       (simp add: item_def assms(3,4) answers_ret del: jhas.simps jget.simps)
  then show ?thesis
    unfolding bao_read_def twice_def by (rule answers_bindM) (simp add: answers_ret)
qed

lemma returns_ensure_keys:
  assumes "answers env (bao_read cfg path) r"
    and "\<forall>k \<in> set want. truthy (jget (JObj (jdict (or_empty r))) k)"
  shows "returns env (ensure_keys cfg path want gen)"
proof -
  have "fill_keys gen want d False = ret (d, False)"
    if "\<forall>k \<in> set want. truthy (jget (JObj d) k)" for d
    using that by (induction want) (simp_all del: jget.simps)
  with assms show ?thesis
    unfolding ensure_keys_def ensure_keys_with_def
    by (intro returns_bind_answer [OF assms(1)]) (auto simp: whenM_def returns_ret)
qed

end
