(* ===== verification/Sha256.thy ===== *)
theory Sha256
  imports Encoding "HOL-Library.Word"
begin

text \<open>
  \<open>hashlib.sha256(s).hexdigest()\<close>, as FIPS 180-4 defines it, over 32-bit words with
  wrapping addition: the digest that stamps a provisioning Job.
\<close>

unbundle bit_operations_syntax

type_synonym w32 = "32 word"

text \<open>
  The constants are the first 32 fractional bits of roots of the first 64 primes: of the
  cube roots for the rounds, of the square roots of the first eight for the initial state.
  \<open>root_bits k n b 0\<close> is the integer \<open>k\<close>-th root of \<open>n\<close>, found bit by bit from bit \<open>b\<close>.
\<close>

fun root_bits :: "nat \<Rightarrow> nat \<Rightarrow> nat \<Rightarrow> nat \<Rightarrow> nat" where
  "root_bits k n 0 r = r"
| "root_bits k n (Suc b) r =
     (let c = r + 2 ^ b in root_bits k n b (if c ^ k \<le> n then c else r))"

definition sha_primes :: "nat list" where
  "sha_primes = filter (\<lambda>p. list_all (\<lambda>d. p mod d \<noteq> 0) [2..<p]) [2..<312]"

definition sha_k :: "w32 list" where
  "sha_k = map (\<lambda>p. of_nat (root_bits 3 (p * 2 ^ 96) 36 0)) sha_primes"

definition sha_init :: "w32 list" where
  "sha_init = map (\<lambda>p. of_nat (root_bits 2 (p * 2 ^ 64) 38 0)) (take 8 sha_primes)"

definition small_sigma0 :: "w32 \<Rightarrow> w32" where
  "small_sigma0 x = word_rotr 7 x XOR word_rotr 18 x XOR drop_bit 3 x"

definition small_sigma1 :: "w32 \<Rightarrow> w32" where
  "small_sigma1 x = word_rotr 17 x XOR word_rotr 19 x XOR drop_bit 10 x"

definition big_sigma0 :: "w32 \<Rightarrow> w32" where
  "big_sigma0 x = word_rotr 2 x XOR word_rotr 13 x XOR word_rotr 22 x"

definition big_sigma1 :: "w32 \<Rightarrow> w32" where
  "big_sigma1 x = word_rotr 6 x XOR word_rotr 11 x XOR word_rotr 25 x"

definition sha_ch :: "w32 \<Rightarrow> w32 \<Rightarrow> w32 \<Rightarrow> w32" where
  "sha_ch x y z = (x AND y) XOR (NOT x AND z)"

definition sha_maj :: "w32 \<Rightarrow> w32 \<Rightarrow> w32 \<Rightarrow> w32" where
  "sha_maj x y z = (x AND y) XOR (x AND z) XOR (y AND z)"

text \<open>Padding: a one bit, zeros, the bit length as 64 bits.\<close>

definition be_bytes :: "nat \<Rightarrow> nat \<Rightarrow> nat list" where
  "be_bytes n x = map (\<lambda>i. x div 256 ^ (n - 1 - i) mod 256) [0..<n]"

definition sha_pad :: "nat list \<Rightarrow> nat list" where
  "sha_pad bs = bs @ [128] @ replicate ((119 - length bs mod 64) mod 64) 0 @
     be_bytes 8 (8 * length bs)"

fun words_of :: "nat list \<Rightarrow> w32 list" where
  "words_of (a # b # c # d # r) =
     (push_bit 24 (of_nat a) OR push_bit 16 (of_nat b) OR push_bit 8 (of_nat c) OR of_nat d) #
     words_of r"
| "words_of _ = []"

text \<open>The message schedule, extended one word at a time.\<close>

fun extend_schedule :: "nat \<Rightarrow> w32 list \<Rightarrow> w32 list" where
  "extend_schedule 0 w = w"
| "extend_schedule (Suc n) w =
     (let t = length w in
      extend_schedule n (w @ [small_sigma1 (w ! (t - 2)) + w ! (t - 7) +
        small_sigma0 (w ! (t - 15)) + w ! (t - 16)]))"

fun sha_round :: "w32 list \<Rightarrow> w32 \<times> w32 \<Rightarrow> w32 list" where
  "sha_round [a, b, c, d, e, f, g, h] (k, w) =
     (let t1 = h + big_sigma1 e + sha_ch e f g + k + w;
          t2 = big_sigma0 a + sha_maj a b c
      in [t1 + t2, a, b, c, d + t1, e, f, g])"
| "sha_round s _ = s"

definition sha_block :: "w32 list \<Rightarrow> w32 list \<Rightarrow> w32 list" where
  "sha_block s w = map2 (+) s (foldl sha_round s (zip sha_k (extend_schedule 48 w)))"

function sha_blocks :: "w32 list \<Rightarrow> w32 list \<Rightarrow> w32 list" where
  "sha_blocks s w = (if w = [] then s else sha_blocks (sha_block s (take 16 w)) (drop 16 w))"
  by pat_completeness auto
termination by (relation "measure (\<lambda>(s, w). length w)") auto

declare sha_blocks.simps [simp del]

definition hex_byte :: "nat \<Rightarrow> string" where
  "hex_byte b = [hex_char (b div 16), hex_char b]"

definition sha256_hex :: "string \<Rightarrow> string" where
  "sha256_hex s = concat (map (\<lambda>w. concat (map hex_byte (be_bytes 4 (unat w))))
     (sha_blocks sha_init (words_of (sha_pad (map byte s)))))"

lemma length_sha_round: "length s = 8 \<Longrightarrow> length (sha_round s kw) = 8"
  by (cases "(s, kw)" rule: sha_round.cases) (auto simp: Let_def)

lemma length_rounds: "length s = 8 \<Longrightarrow> length (foldl sha_round s kws) = 8"
  by (induction kws arbitrary: s) (simp_all add: length_sha_round)

lemma length_sha_block: "length s = 8 \<Longrightarrow> length (sha_block s w) = 8"
  by (simp add: sha_block_def length_rounds)

lemma length_sha_blocks: "length s = 8 \<Longrightarrow> length (sha_blocks s w) = 8"
proof (induction s w rule: sha_blocks.induct)
  case (1 s w)
  then show ?case
    unfolding sha_blocks.simps [of s w] by (simp add: length_sha_block)
qed

lemma sha_primes_prefix: "length (take 8 sha_primes) = 8"
proof -
  let ?P = "\<lambda>p. list_all (\<lambda>d. p mod d \<noteq> 0) [2..<p]"
  have aux: "length (take 8 (xs @ ys)) = 8" if "length xs = 8" for xs ys :: "nat list"
    using that by simp
  have "(2::nat) \<le> 20" by simp
  then have s: "[2..<20 + 292] = [2..<20] @ [20..<20 + 292]" by (rule upt_add_eq_append)
  have n: "(20::nat) + 292 = 312" by simp
  have e: "sha_primes = filter ?P [2..<20] @ filter ?P [20..<312]"
    unfolding sha_primes_def s [unfolded n] by (rule filter_append)
  have "length (filter ?P [2..<20]) = 8" by code_simp
  then show ?thesis unfolding e by (rule aux)
qed

text \<open>The digest is 64 characters long for every input.\<close>

lemma length_sha256_hex: "length (sha256_hex s) = 64"
proof -
  have h: "length (concat (map hex_byte bs)) = 2 * length bs" for bs
    by (induction bs) (simp_all add: hex_byte_def)
  have b: "length (concat (map hex_byte (be_bytes 4 x))) = 8" for x
    unfolding h by (simp add: be_bytes_def)
  have "length (sha_blocks sha_init ws) = 8" for ws
    by (rule length_sha_blocks) (simp only: sha_init_def length_map sha_primes_prefix)
  moreover have "length (concat (map (\<lambda>w. concat (map hex_byte (be_bytes 4 (unat w)))) ws)) =
      8 * length ws" for ws :: "w32 list"
    by (induction ws) (simp_all add: b)
  ultimately show ?thesis by (simp add: sha256_hex_def)
qed

end
