(* ===== verification/Database.thy ===== *)
theory Database
  imports Runs Requeue Sha256
begin

text \<open>
  \<open>dbprovision.py\<close>, \<open>dbjobs.py\<close> and the handlers \<open>database.py\<close>, \<open>databaseserver.py\<close> and
  \<open>snapshot.py\<close>: servers, the logical databases inside them, and their dumps. The SQL text
  is built character by character as the code builds it; the provisioning Job is the
  record \<open>provision_job\<close> with its own \<open>apply\<close> (create, or delete when the stamped hash no
  longer matches).
\<close>

section \<open>Provisioning SQL\<close>

definition ident_start :: string where
  "ident_start = lower_letters @ ''_''"

definition ident_chars :: string where
  "ident_chars = lower_letters @ digit_chars @ ''_''"

definition ident_body :: "string \<Rightarrow> bool" where
  "ident_body s \<longleftrightarrow> s \<noteq> [] \<and> hd s \<in> set ident_start \<and> set (tl s) \<subseteq> set ident_chars"

text \<open>
  \<open>_IDENTIFIER.match\<close>: the pattern ends in \<open>$\<close>, which in Python also matches before a
  newline at the end of the string.
\<close>

definition ident_match :: "string \<Rightarrow> bool" where
  "ident_match s \<longleftrightarrow> ident_body s \<or> (s \<noteq> [] \<and> last s = newline \<and> ident_body (butlast s))"

definition validate_identifier :: "string \<Rightarrow> string \<Rightarrow> exn + string" where
  "validate_identifier v what =
     (if v = [] \<or> 63 < length v \<or> \<not> ident_match v
      then Inl (InvalidIdentifier (''invalid '' @ what @ '' '' @ repr v @
             '' (lowercase letters, digits, underscore; <=63 chars)''))
      else Inr v)"

definition bslash :: char where "bslash = CHR 0x5C"

definition dq :: "string \<Rightarrow> string" where "dq s = dquote @ s @ dquote"

definition sq :: "string \<Rightarrow> string" where "sq s = [CHR 0x27] @ s @ [CHR 0x27]"

definition sql_lines :: "string \<Rightarrow> string \<Rightarrow> string list \<Rightarrow> string list" where
  "sql_lines database user init_sql =
     [[bslash] @ ''getenv pw NEW_USER_PASSWORD'',
      ''SELECT '' @ sq (''CREATE DATABASE '' @ dq database),
      ''WHERE NOT EXISTS (SELECT 1 FROM pg_database WHERE datname = '' @ sq database @ '')'' @
        [bslash] @ ''gexec'',
      ''DO $do$'',
      ''BEGIN'',
      ''  IF NOT EXISTS (SELECT 1 FROM pg_roles WHERE rolname = '' @ sq user @ '') THEN'',
      ''    CREATE ROLE '' @ dq user @ '' LOGIN;'',
      ''  END IF;'',
      ''END'',
      ''$do$;'',
      ''ALTER ROLE '' @ dq user @ '' WITH LOGIN PASSWORD :'' @ sq ''pw'' @ '';'',
      ''GRANT ALL PRIVILEGES ON DATABASE '' @ dq database @ '' TO '' @ dq user @ '';'',
      ''ALTER DATABASE '' @ dq database @ '' OWNER TO '' @ dq user @ '';''] @
     (if init_sql \<noteq> [] then [[bslash] @ ''c '' @ dq database] @ init_sql else [])"

definition build_sql :: "string \<Rightarrow> string \<Rightarrow> string list \<Rightarrow> exn + string" where
  "build_sql database user init_sql =
     (case validate_identifier database ''databaseName'' of
        Inl e \<Rightarrow> Inl e
      | Inr _ \<Rightarrow> (case validate_identifier user ''user'' of
          Inl e \<Rightarrow> Inl e
        | Inr _ \<Rightarrow> Inr (join [newline] (sql_lines database user init_sql))))"

section \<open>The provisioning Job\<close>

abbreviation HASH_ANNOTATION :: string where
  "HASH_ANNOTATION \<equiv> ''platform.adomi.io/provision-hash''"

record provision_job =
  pj_name :: string
  pj_namespace :: string
  pj_image :: string
  pj_host :: string
  pj_port :: int
  pj_admin_secret :: string
  pj_database :: string
  pj_user :: string
  pj_user_secret :: string
  pj_sql_configmap :: string
  pj_init_sql :: "string list"
  pj_ssl_mode :: string
  pj_labels :: "(string \<times> string) list"

definition provision_args :: "string list" where
  "provision_args = [''-v'', ''ON_ERROR_STOP=1'', ''-d'', ''postgres'', ''-f'', ''/sql/provision.sql'']"

definition job_sql :: "provision_job \<Rightarrow> exn + string" where
  "job_sql j = build_sql (pj_database j) (pj_user j) (pj_init_sql j)"

definition job_hash :: "provision_job \<Rightarrow> exn + string" where
  "job_hash j = (case job_sql j of Inl e \<Rightarrow> Inl e | Inr sql \<Rightarrow> Inr (take 16 (sha256_hex sql)))"

definition plain_env :: "string \<Rightarrow> string \<Rightarrow> json" where
  "plain_env name v = JObj [(''name'', JStr name), (''value'', JStr v)]"

definition secret_env :: "string \<Rightarrow> string \<Rightarrow> string \<Rightarrow> json" where
  "secret_env name secret key = JObj [(''name'', JStr name), (''valueFrom'', JObj
     [(''secretKeyRef'', JObj [(''name'', JStr secret), (''key'', JStr key)])])]"

definition job_env :: "provision_job \<Rightarrow> json list" where
  "job_env j =
     [plain_env ''PGHOST'' (pj_host j), plain_env ''PGPORT'' (int_str (pj_port j)),
      secret_env ''PGUSER'' (pj_admin_secret j) ''username'',
      secret_env ''PGPASSWORD'' (pj_admin_secret j) ''password'',
      secret_env ''NEW_USER_PASSWORD'' (pj_user_secret j) ''password''] @
     (if pj_ssl_mode j \<noteq> [] then [plain_env ''PGSSLMODE'' (pj_ssl_mode j)] else [])"

definition job_body :: "provision_job \<Rightarrow> string \<Rightarrow> json" where
  "job_body j hash =
     (let labels = str_dict (dupdate [(''app.kubernetes.io/managed-by'', MANAGED_BY)]
            (pj_labels j)) in
      JObj
       [(''metadata'', JObj
          [(''name'', JStr (pj_name j)), (''namespace'', JStr (pj_namespace j)),
           (''labels'', labels), (''annotations'', JObj [(HASH_ANNOTATION, JStr hash)])]),
        (''spec'', JObj
          [(''backoffLimit'', JInt 4),
           (''template'', JObj
             [(''metadata'', JObj [(''labels'', labels)]),
              (''spec'', JObj
                [(''restartPolicy'', JStr ''Never''),
                 (''containers'', JArr [JObj
                    [(''name'', JStr ''provision''), (''image'', JStr (pj_image j)),
                     (''command'', strs [''psql'']), (''args'', strs provision_args),
                     (''env'', JArr (job_env j)),
                     (''volumeMounts'', JArr [JObj
                        [(''name'', JStr ''provision-sql''), (''mountPath'', JStr ''/sql''),
                         (''readOnly'', JBool True)]])]]),
                 (''volumes'', JArr [JObj
                    [(''name'', JStr ''provision-sql''),
                     (''configMap'', JObj [(''name'', JStr (pj_sql_configmap j))])]])])])])])"

definition delete_job :: "string \<Rightarrow> string \<Rightarrow> unit M" where
  "delete_job name ns =
     on_status [404]
       (thenM (callM (Typed VDelete ''Job'' ns name
                 (JObj [(''propagationPolicy'', JStr ''Background'')]))) (ret ()))
       (ret ())"

definition read_job :: "string \<Rightarrow> string \<Rightarrow> json option M" where
  "read_job name ns =
     on_status [404]
       (bindM (callM (Typed VGet ''Job'' ns name JNull)) (\<lambda>j. ret (Some j)))
       (ret None)"

definition create_job :: "provision_job \<Rightarrow> unit M" where
  "create_job j =
     bindM (of_result (job_hash j)) (\<lambda>hash.
     thenM (callM (Typed VCreate ''Job'' (pj_namespace j) (pj_name j) (job_body j hash)))
           (ret ()))"

definition apply_job :: "provision_job \<Rightarrow> unit M" where
  "apply_job j =
     bindM (read_job (pj_name j) (pj_namespace j)) (\<lambda>found. case found of
       None \<Rightarrow> create_job j
     | Some existing \<Rightarrow>
         bindM (of_result (job_hash j)) (\<lambda>hash.
         whenM (jget (oget (oget existing ''metadata'') ''annotations'') HASH_ANNOTATION
                  \<noteq> JStr hash)
           (delete_job (pj_name j) (pj_namespace j))))"

definition job_condition :: "json option \<Rightarrow> string \<Rightarrow> bool" where
  "job_condition job kind =
     list_ex (\<lambda>c. jget c ''type'' = JStr kind \<and> jget c ''status'' = JStr ''True'')
       (lget (oget (or_empty job) ''status'') ''conditions'')"

definition job_succeeded :: "json option \<Rightarrow> bool" where
  "job_succeeded job \<longleftrightarrow> job_condition job ''Complete'' \<or>
     truthy (jget (oget (or_empty job) ''status'') ''succeeded'')"

definition job_failed :: "json option \<Rightarrow> bool" where
  "job_failed job \<longleftrightarrow> job_condition job ''Failed''"

section \<open>Databases\<close>

definition client_label :: "json \<Rightarrow> string" where
  "client_label meta = sget (oget meta ''labels'') ''platform.adomi.io/client''"

definition db_job_name :: "string \<Rightarrow> string" where
  "db_job_name name = rstrip_of ''-'' (take 63 (''dbprov-'' @ name))"

definition owner_secret_name :: "string \<Rightarrow> string" where
  "owner_secret_name name = take 253 (name @ ''-owner'')"

definition sql_configmap_name :: "string \<Rightarrow> string" where
  "sql_configmap_name name = take 253 (''dbprov-'' @ name @ ''-sql'')"

text \<open>The server: beside the Database, else in the client's namespace.\<close>

definition database_server_of ::
    "string \<Rightarrow> string \<Rightarrow> string \<Rightarrow> json \<Rightarrow> json \<Rightarrow> json M" where
  "database_server_of server_ref client_slug ns status generation =
     on_not_found (get_database_server server_ref ns) (\<lambda>t.
       bindM (find_client_namespace client_slug) (\<lambda>client_ns.
       if client_ns = [] \<or> client_ns = ns
       then fail status REASON_DEPENDENCY_NOT_MET t generation
       else on_not_found (get_database_server server_ref client_ns)
              (\<lambda>t2. fail status REASON_DEPENDENCY_NOT_MET t2 generation)))"

definition database_external_secret ::
    "config \<Rightarrow> string \<Rightarrow> string \<Rightarrow> string \<Rightarrow> string \<Rightarrow> string \<Rightarrow> int \<Rightarrow> string \<Rightarrow> string \<Rightarrow>
     (string \<times> string) list \<Rightarrow> external_secret" where
  "database_external_secret cfg secret ns path password_key host port dbname user labels =
     (external_secret0 secret ns (cluster_secret_store cfg) path)
       \<lparr> es_secret_name := secret,
         es_data_map := [(password_key, ''password'')],
         es_template_data :=
           [(''host'', host), (''port'', int_str port), (''dbname'', dbname), (''user'', user),
            (''url'', database_url user password_key host port dbname)],
         es_labels := labels \<rparr>"

text \<open>The \<open>try\<close> block that submits the Job.\<close>

definition submit_provisioning ::
    "string \<Rightarrow> string \<Rightarrow> string \<Rightarrow> string \<Rightarrow> provision_job \<Rightarrow> unit M" where
  "submit_provisioning owner_secret server_ns sql_configmap password job =
     thenM (apply_secret (opaque_secret owner_secret server_ns [(''password'', password)] True))
    (bindM (of_result (job_sql job)) (\<lambda>sql.
     thenM (apply_config_map \<lparr> cm_name = sql_configmap, cm_namespace = server_ns,
               cm_data = [(''provision.sql'', sql)] \<rparr>)
           (apply_job job)))"

text \<open>The poll of the Job between submission and delivery.\<close>

definition await_job :: "string \<Rightarrow> string \<Rightarrow> json \<Rightarrow> json \<Rightarrow> unit M" where
  "await_job job_name server_ns status generation =
     bindM (read_job job_name server_ns) (\<lambda>job.
     thenM (whenM (job_failed job)
        (fail_after 120 status REASON_BACKEND_ERROR
           (''provisioning Job '' @ repr job_name @ '' failed'') generation))
     (whenM (\<not> job_succeeded job)
        (fail_after 15 status REASON_RECONCILING
           (''provisioning database (Job '' @ repr job_name @ '')'') generation)))"

definition database_reconcile ::
    "config \<Rightarrow> json \<Rightarrow> json \<Rightarrow> json \<Rightarrow> string \<Rightarrow> string \<Rightarrow> unit M" where
  "database_reconcile cfg spec meta status name ns =
     (let generation = generation_of meta;
          client_slug = client_label meta;
          server_ref = ref_name spec ''serverRef'';
          database_name = sget spec ''databaseName'';
          user = sget spec ''user'';
          creds_spec = oget spec ''credentials'';
          labels = [(''app.kubernetes.io/managed-by'', MANAGED_BY),
                    (''platform.adomi.io/client'', client_slug),
                    (''platform.adomi.io/database'', name)];
          owner_secret = owner_secret_name name;
          job_name = db_job_name name;
          sql_configmap = sql_configmap_name name in
      thenM (whenM (client_slug = [])
         (fail status REASON_INVALID_SPEC ''missing platform.adomi.io/client label'' generation))
     (thenM (whenM (server_ref = [])
         (fail status REASON_INVALID_SPEC ''serverRef.name is required'' generation))
     (thenM (case validate_identifier database_name ''databaseName'' of
               Inl e \<Rightarrow> fail status REASON_INVALID_SPEC (exn_str e) generation
             | Inr _ \<Rightarrow> (case validate_identifier user ''user'' of
                 Inl e \<Rightarrow> fail status REASON_INVALID_SPEC (exn_str e) generation
               | Inr _ \<Rightarrow> ret ()))
     (bindM (database_server_of server_ref client_slug ns status generation) (\<lambda>server.
      let srv_status = oget server ''status'';
          server_ns = sget srv_status ''namespace'';
          server_host = sget srv_status ''host'';
          admin_secret = sget srv_status ''adminSecretName'' in
      thenM (whenM (server_ns = [] \<or> server_host = [] \<or> admin_secret = [])
         (fail status REASON_DEPENDENCY_NOT_MET (''DatabaseServer '' @ repr server_ref @
            '' not ready (no published host/admin secret yet)'') generation))
     (bindM (to_int (jor (jget srv_status ''port'') (JInt DB_PORT))) (\<lambda>server_port.
      let ssl_mode = strip (sget (oget (oget server ''spec'') ''external'') ''sslMode'');
          path = sor (sget creds_spec ''openbaoPath'')
            (db_credentials_path (database_credentials_path cfg) server_ref user) in
      bindM (or_fail status generation ''generating role password: ''
               (ensure_keys cfg path [''password'']
                  (\<lambda>_. random_string (nat (database_password_length cfg)))))
        (\<lambda>(creds, _).
      thenM (or_fail status generation ''submitting provisioning Job: ''
         (submit_provisioning owner_secret server_ns sql_configmap
            (jstr (jget (JObj creds) ''password''))
            \<lparr> pj_name = job_name, pj_namespace = server_ns, pj_image = db_provision_image cfg,
              pj_host = server_host, pj_port = server_port, pj_admin_secret = admin_secret,
              pj_database = database_name, pj_user = user, pj_user_secret = owner_secret,
              pj_sql_configmap = sql_configmap, pj_init_sql = map jstr (lget spec ''initSql''),
              pj_ssl_mode = ssl_mode, pj_labels = labels \<rparr>))
     (thenM (set_status ''serverNamespace'' (JStr server_ns))
     (thenM (await_job job_name server_ns status generation)
      (let deliver_secret = sget creds_spec ''secret'';
           password_key = sor (sget creds_spec ''passwordKey'') ''password'' in
       thenM (whenM (deliver_secret \<noteq> [])
         (or_fail status generation ''delivering database credentials: ''
            (thenM (apply_es (database_external_secret cfg deliver_secret ns path password_key
                      server_host server_port database_name user labels)) (ret ()))))
      (thenM (set_status ''connection'' (JObj
         ([(''host'', JStr server_host), (''port'', JInt server_port),
           (''name'', JStr database_name), (''user'', JStr user),
           (''openbaoPath'', JStr path), (''passwordKey'', JStr password_key)] @
          opt (deliver_secret \<noteq> []) ''secret'' (JStr deliver_secret))))
      (mark_ready status (''Database '' @ repr database_name @ '' ready on '' @ repr server_ref)
         generation)))))))))))))"

definition database_finalize :: "json \<Rightarrow> string \<Rightarrow> unit M" where
  "database_finalize status name =
     (let ns = sget status ''serverNamespace'' in
      whenM (ns \<noteq> [])
        (thenM (attempt (delete_job (db_job_name name) ns))
        (thenM (attempt (delete_secret (owner_secret_name name) ns))
               (attempt (delete_config_map (sql_configmap_name name) ns)))))"

section \<open>Database servers\<close>

abbreviation MODE_CNPG :: string where "MODE_CNPG \<equiv> ''cnpg''"
abbreviation MODE_EXTERNAL :: string where "MODE_EXTERNAL \<equiv> ''external''"

definition server_namespace :: "json \<Rightarrow> json \<Rightarrow> string" where
  "server_namespace meta spec =
     (let client_slug = client_label meta; e = ref_name spec ''environmentRef'' in
      if e \<noteq> [] then namespace_name client_slug e else truncate_label (client_slug @ ''-data''))"

definition admin_secret_name :: "string \<Rightarrow> string" where
  "admin_secret_name name = name @ ''-admin''"

text \<open>Both branches return host, port, admin Secret and admin user.\<close>

definition reconcile_cnpg ::
    "json \<Rightarrow> string \<Rightarrow> string \<Rightarrow> (string \<times> string) list \<Rightarrow> json \<Rightarrow> json \<Rightarrow>
     (string \<times> int \<times> string \<times> string) M" where
  "reconcile_cnpg spec name server_ns labels status generation =
     (let cnpg_cfg = oget spec ''cnpg'' in
      bindM (or_fail status generation ''provisioning cnpg cluster: ''
        (bindM (to_int (jor (jget cnpg_cfg ''instances'') (JInt 1))) (\<lambda>instances.
         apply_cnpg
          \<lparr> cnpg_name = name, cnpg_namespace = server_ns, cnpg_database = CNPG_DB_NAME,
            cnpg_owner = CNPG_DB_USER, cnpg_instances = instances,
            cnpg_storage_size = sor (sget cnpg_cfg ''storage'') ''10Gi'',
            cnpg_storage_class = sget cnpg_cfg ''storageClass'', cnpg_image_name = [],
            cnpg_superuser_access = True, cnpg_labels = labels, cnpg_owner_references = [] \<rparr>)))
        (\<lambda>_. ret (rw_host name @ ''.'' @ server_ns @ ''.svc.cluster.local'', DB_PORT,
                   superuser_secret_name name, CNPG_SUPERUSER)))"

definition reconcile_external ::
    "config \<Rightarrow> json \<Rightarrow> string \<Rightarrow> string \<Rightarrow> (string \<times> string) list \<Rightarrow> json \<Rightarrow> json \<Rightarrow>
     (string \<times> int \<times> string \<times> string) M" where
  "reconcile_external cfg spec name server_ns labels status generation =
     (let external = oget spec ''external''; admin = oget spec ''admin'';
          host = strip (sget external ''host'');
          openbao_path = strip (sget admin ''openbaoPath'');
          admin_secret = admin_secret_name name in
      thenM (whenM (host = []) (fail status REASON_INVALID_SPEC
         (''external.host is required for mode '' @ sq ''external'') generation))
     (thenM (whenM (openbao_path = []) (fail status REASON_INVALID_SPEC
         (''admin.openbaoPath is required for mode '' @ sq ''external'') generation))
     (thenM (or_fail status generation ''materialising admin credentials: ''
        (thenM (apply_es ((external_secret0 admin_secret server_ns (cluster_secret_store cfg)
             openbao_path)
           \<lparr> es_secret_name := admin_secret,
             es_data_map := [(''username'', ''username''), (''password'', ''password'')],
             es_labels := labels \<rparr>)) (ret ())))
     (bindM (to_int (jor (jget external ''port'') (JInt DB_PORT)))
        (\<lambda>port. ret (host, port, admin_secret, sor (sget admin ''user'') CNPG_SUPERUSER))))))"

definition databaseserver_reconcile ::
    "config \<Rightarrow> json \<Rightarrow> json \<Rightarrow> json \<Rightarrow> string \<Rightarrow> string \<Rightarrow> unit M" where
  "databaseserver_reconcile cfg spec meta status name ns =
     (let generation = generation_of meta;
          client_slug = client_label meta;
          mode = sor (sget spec ''mode'') MODE_CNPG;
          server_ns = server_namespace meta spec;
          labels = [(''app.kubernetes.io/managed-by'', MANAGED_BY),
                    (''platform.adomi.io/client'', client_slug),
                    (''platform.adomi.io/database-server'', name)] in
      thenM (whenM (client_slug = [])
         (fail status REASON_INVALID_SPEC ''missing platform.adomi.io/client label'' generation))
     (thenM (or_fail status generation ''ensuring namespace: ''
         (apply_namespace \<lparr> nsp_name = server_ns, nsp_labels = labels \<rparr>))
     (bindM (if mode = MODE_CNPG
             then reconcile_cnpg spec name server_ns labels status generation
             else if mode = MODE_EXTERNAL
             then reconcile_external cfg spec name server_ns labels status generation
             else fail status REASON_INVALID_SPEC (''unknown mode '' @ repr mode @
                    '' (expected '' @ sq ''cnpg'' @ '' or '' @ sq ''external'' @ '')'') generation)
        (\<lambda>(host, port, admin_secret, admin_user).
      thenM (set_status ''namespace'' (JStr server_ns))
     (thenM (set_status ''mode'' (JStr mode))
     (thenM (set_status ''host'' (JStr host))
     (thenM (set_status ''port'' (JInt port))
     (thenM (set_status ''adminSecretName'' (JStr admin_secret))
     (thenM (set_status ''adminUser'' (JStr admin_user))
     (mark_ready status (''DatabaseServer '' @ repr name @ '' ready in '' @ server_ns)
        generation))))))))))"

definition databaseserver_finalize :: "json \<Rightarrow> json \<Rightarrow> json \<Rightarrow> string \<Rightarrow> unit M" where
  "databaseserver_finalize spec status meta name =
     (let ns = sor (sget status ''namespace'') (server_namespace meta spec);
          mode = sor (sget status ''mode'') (sor (sget spec ''mode'') MODE_CNPG) in
      if mode = MODE_CNPG
      then attempt (delete_custom ''postgresql.cnpg.io/v1'' ''clusters'' name ns)
      else attempt (delete_es (admin_secret_name name) ns))"

section \<open>Dump and restore jobs\<close>

abbreviation ARGO_S3_SECRET :: string where "ARGO_S3_SECRET \<equiv> ''platform-s3''"

definition db_secret_name :: "string \<Rightarrow> string" where
  "db_secret_name ns = take 253 (''dbpass-'' @ ns)"

definition ensure_secrets :: "config \<Rightarrow> db_connection \<Rightarrow> (string \<times> string) M" where
  "ensure_secrets cfg conn =
     bindM (bao_read cfg (s3_secret_path cfg)) (\<lambda>found.
      let s3 = or_empty found;
          access_key = strip (sget s3 (s3_access_key_key cfg));
          secret_key = strip (sget s3 (s3_secret_key_key cfg)) in
      if access_key = [] \<or> secret_key = []
      then raise (RuntimeError (''S3 credentials missing at OpenBao '' @ repr (s3_secret_path cfg)))
      else thenM (apply_secret (opaque_secret ARGO_S3_SECRET (argo_namespace cfg)
                    [(''access-key'', access_key), (''secret-key'', secret_key)] False))
          (bindM (read_key (password_secret_name conn) (password_secret_namespace conn)
                    (password_secret_key conn)) (\<lambda>password.
           let db_secret = db_secret_name (password_secret_namespace conn) in
           thenM (apply_secret (opaque_secret db_secret (argo_namespace cfg)
                    [(''password'', password)] False))
                 (ret (db_secret, ARGO_S3_SECRET)))))"

definition db_params :: "db_connection \<Rightarrow> string \<Rightarrow> (string \<times> string) list" where
  "db_params conn db_secret =
     [(''dbHost'', db_host conn), (''dbPort'', int_str (db_port conn)), (''dbName'', db_name conn),
      (''dbUser'', db_user conn), (''dbSecret'', db_secret)]"

definition s3_params :: "config \<Rightarrow> string \<Rightarrow> string \<Rightarrow> (string \<times> string) list" where
  "s3_params cfg s3_key s3_secret =
     [(''s3Endpoint'', s3_endpoint cfg), (''s3Bucket'', s3_bucket cfg), (''s3Key'', s3_key),
      (''s3Secret'', s3_secret)]"

definition snapshot_params ::
    "config \<Rightarrow> db_connection \<Rightarrow> string \<Rightarrow> string \<Rightarrow> string \<Rightarrow> (string \<times> string) list" where
  "snapshot_params cfg conn s3_key db_secret s3_secret =
     db_params conn db_secret @ s3_params cfg s3_key s3_secret @
     [(''pgImage'', snapshot_postgres_image cfg), (''awscliImage'', snapshot_awscli_image cfg)]"

definition restore_params ::
    "config \<Rightarrow> db_connection \<Rightarrow> string \<Rightarrow> string \<Rightarrow> string \<Rightarrow> string \<Rightarrow> bool \<Rightarrow>
     (string \<times> string) list" where
  "restore_params cfg conn s3_key db_secret s3_secret odoo_image sanitize =
     db_params conn db_secret @ s3_params cfg s3_key s3_secret @
     [(''pgImage'', snapshot_postgres_image cfg), (''awscliImage'', snapshot_awscli_image cfg),
      (''odooImage'', odoo_image), (''sanitize'', if sanitize then ''true'' else ''false'')]"

section \<open>Snapshots\<close>

definition snapshot_workflow_name :: "string \<Rightarrow> string \<Rightarrow> string" where
  "snapshot_workflow_name ns name = take 253 (''snapshot-'' @ ns @ ''-'' @ name)"

definition submit_snapshot ::
    "config \<Rightarrow> db_connection \<Rightarrow> string \<Rightarrow> string \<Rightarrow> unit M" where
  "submit_snapshot cfg conn s3_key workflow_name =
     bindM (ensure_secrets cfg conn) (\<lambda>(db_secret, s3_secret).
     thenM (apply_workflow
        \<lparr> wf_name = workflow_name, wf_namespace = argo_namespace cfg,
          wf_template = snapshot_workflow_template cfg,
          wf_parameters = snapshot_params cfg conn s3_key db_secret s3_secret,
          wf_service_account = build_service_account cfg,
          wf_labels = [(''app.kubernetes.io/managed-by'', MANAGED_BY)] \<rparr>)
      (ret ()))"

definition snapshot_poll ::
    "config \<Rightarrow> json \<Rightarrow> json \<Rightarrow> string \<Rightarrow> string \<Rightarrow> unit M" where
  "snapshot_poll cfg status generation location workflow_name =
     bindM (read_workflow workflow_name (argo_namespace cfg)) (\<lambda>found.
      let ph = phase found in
      if ph = PHASE_SUCCEEDED
      then thenM (set_status ''phase'' (JStr ''Completed''))
             (mark_ready status (''Snapshot stored at '' @ location) generation)
      else if ph = PHASE_FAILED \<or> ph = PHASE_ERROR
      then thenM (set_status ''phase'' (JStr ''Failed''))
             (fail_after 120 status REASON_BACKEND_ERROR
                (''snapshot Workflow '' @ repr workflow_name @ '' '' @ lower ph) generation)
      else thenM (set_status ''phase'' (JStr ''Running''))
             (fail_after 15 status REASON_RECONCILING
                (''dumping database (Workflow '' @ repr workflow_name @ '')'') generation))"

definition snapshot_reconcile ::
    "config \<Rightarrow> json \<Rightarrow> json \<Rightarrow> json \<Rightarrow> string \<Rightarrow> string \<Rightarrow> unit M" where
  "snapshot_reconcile cfg spec meta status name ns =
     (let generation = generation_of meta;
          app_ref = ref_name spec ''applicationRef'';
          s3_key = snapshot_object_key ns name;
          location = ''s3://'' @ s3_bucket cfg @ ''/'' @ s3_key;
          workflow_name = snapshot_workflow_name ns name in
      thenM (whenM (app_ref = [])
         (fail status REASON_INVALID_SPEC ''applicationRef.name is required'' generation))
     (bindM (on_not_found (bindM (get_application app_ref ns) app_db_connection)
               (\<lambda>t. fail status REASON_DEPENDENCY_NOT_MET t generation)) (\<lambda>conn.
      thenM (or_fail_keep status generation ''submitting snapshot Workflow: ''
               (submit_snapshot cfg conn s3_key workflow_name))
     (thenM (set_status ''sourceApplication'' (JStr app_ref))
     (thenM (set_status ''workflow'' (JStr workflow_name))
     (thenM (set_status ''location'' (JStr location))
            (snapshot_poll cfg status generation location workflow_name)))))))"

definition snapshot_finalize :: "config \<Rightarrow> json \<Rightarrow> string \<Rightarrow> string \<Rightarrow> unit M" where
  "snapshot_finalize cfg status name ns =
     attempt (delete_workflow (sor (sget status ''workflow'') (snapshot_workflow_name ns name))
       (argo_namespace cfg))"

section \<open>The contract\<close>

lemma build_sql_error: "build_sql d u i = Inl e \<Longrightarrow> \<not> is_temporary e"
  by (auto simp: build_sql_def validate_identifier_def split: sum.splits if_splits)

lemma quiet_job_sql [quiet_intros]: "quiet (of_result (job_sql j))" "quiet (of_result (job_hash j))"
  using build_sql_error
  by (auto intro!: quiet_of_result simp: job_sql_def job_hash_def split: sum.splits)

lemma quiet_jobs [quiet_intros]:
  "quiet (read_job n ns)" "quiet (delete_job n ns)" "quiet (apply_job j)"
  unfolding read_job_def delete_job_def apply_job_def create_job_def
  by (intro quiet_intros)+

lemma quiet_submit_provisioning [quiet_intros]: "quiet (submit_provisioning ow n c p j)"
  unfolding submit_provisioning_def by (intro quiet_intros)

lemma quiet_find_client_namespace [quiet_intros]: "quiet (find_client_namespace slug)"
  unfolding find_client_namespace_def by (intro quiet_intros)

lemma guarded_database_server_of [guarded_intros]:
  "guarded g (database_server_of r c ns status g)"
  unfolding database_server_of_def by (intro guarded_intros quiet_intros guarded_quiet)

lemma guarded_read_job [guarded_intros]: "guarded g (read_job n ns)"
  by (rule guarded_quiet [OF quiet_jobs(1)])

lemma guarded_to_int [guarded_intros]: "guarded g (to_int j)"
  by (rule guarded_quiet [OF quiet_to_int])

lemma guarded_await_job [guarded_intros]: "guarded g (await_job n ns status g)"
  unfolding await_job_def by (intro guarded_intros)

interpretation database: reconciler "database_reconcile cfg" for cfg
  unfolding database_reconcile_def [abs_def] Let_def
  by unfold_locales (intro reports_intros guarded_intros quiet_intros; simp)

lemma guarded_reconcile_cnpg [guarded_intros]:
  "guarded g (reconcile_cnpg spec name ns labels status g)"
  unfolding reconcile_cnpg_def Let_def by (intro guarded_intros quiet_intros)

lemma guarded_reconcile_external [guarded_intros]:
  "guarded g (reconcile_external cfg spec name ns labels status g)"
  unfolding reconcile_external_def Let_def by (intro guarded_intros quiet_intros)

interpretation databaseserver: reconciler "databaseserver_reconcile cfg" for cfg
  unfolding databaseserver_reconcile_def [abs_def] Let_def
  by unfold_locales (intro reports_intros guarded_intros quiet_intros; simp)

lemma quiet_app_db_connection [quiet_intros]: "quiet (app_db_connection app)"
  unfolding app_db_connection_def Let_def by (intro quiet_intros; simp)

lemma quiet_ensure_secrets [quiet_intros]: "quiet (ensure_secrets cfg conn)"
  unfolding ensure_secrets_def Let_def by (intro quiet_intros; simp)

lemma quiet_submit_snapshot [quiet_intros]: "quiet (submit_snapshot cfg conn k w)"
  unfolding submit_snapshot_def by (intro quiet_intros)

lemma guarded_read_workflow [guarded_intros]: "guarded g (read_workflow n ns)"
  by (rule guarded_quiet [OF quiet_deletes(7)])

interpretation snapshot: reconciler "snapshot_reconcile cfg" for cfg
  unfolding snapshot_reconcile_def [abs_def] snapshot_poll_def Let_def
  by unfold_locales
     (intro reports_intros guarded_intros quiet_intros guarded_quiet [OF quiet_submit_snapshot];
      simp)

section \<open>Properties\<close>

definition sql_safe :: "char \<Rightarrow> bool" where
  "sql_safe c \<longleftrightarrow> c \<noteq> CHR 0x22 \<and> c \<noteq> CHR 0x27 \<and> c \<noteq> bslash \<and> c \<noteq> CHR '';''"

lemma sql_safe_ident: "c \<in> set ident_chars \<Longrightarrow> sql_safe c" "c \<in> set ident_start \<Longrightarrow> sql_safe c"
  by (auto simp: ident_chars_def ident_start_def lower_letters_def digit_chars_def bslash_def
      sql_safe_def)

lemma sql_safe_newline: "sql_safe newline"
  by (simp add: sql_safe_def newline_def bslash_def)

lemma ident_body_safe: "ident_body s \<Longrightarrow> c \<in> set s \<Longrightarrow> sql_safe c"
  by (cases s) (auto simp: ident_body_def intro: sql_safe_ident)

lemma ident_match_safe:
  assumes "ident_match v" and "c \<in> set v"
  shows "sql_safe c"
proof (cases "ident_body v")
  case True
  then show ?thesis using assms(2) by (rule ident_body_safe)
next
  case False
  with assms(1) have "v \<noteq> []" "last v = newline" "ident_body (butlast v)"
    unfolding ident_match_def by blast+
  moreover have "c \<in> set (butlast v) \<or> c = last v"
    using assms(2) by (cases v rule: rev_cases) auto
  ultimately show ?thesis using ident_body_safe sql_safe_newline by metis
qed

text \<open>A name that passes validation is returned unchanged, has 1 to 63 characters and
  holds no quote, no backslash and no semicolon, so inlined between quotes it stays one
  SQL identifier and cannot end the statement.\<close>

lemma valid_identifier_inlines_safely:
  assumes "validate_identifier v what = Inr w"
  shows "w = v \<and> v \<noteq> [] \<and> length v \<le> 63 \<and> (\<forall>c. c \<in> set v \<longrightarrow> sql_safe c)"
proof -
  from assms have "w = v" "v \<noteq> []" "length v \<le> 63" "ident_match v"
    by (auto simp: validate_identifier_def split: if_splits)
  then show ?thesis using ident_match_safe by blast
qed

lemma valid_identifier_inlines_safely_witness:
  "validate_identifier ''app_1'' ''user'' = Inr ''app_1'' \<and> sql_safe (last ''app_1'')"
proof -
  have v: "validate_identifier ''app_1'' ''user'' = Inr ''app_1''"
    by (simp add: validate_identifier_def ident_match_def ident_body_def ident_start_def
        ident_chars_def lower_letters_def digit_chars_def)
  with valid_identifier_inlines_safely [OF v] show ?thesis by simp
qed

text \<open>The validation lets a trailing newline through: the pattern ends in \<open>$\<close>, which also
  matches before a final newline, so such a name is returned as safe and the newline is
  inlined into the SQL.\<close>

lemma validate_identifier_accepts_newline:
  "validate_identifier (''app'' @ [newline]) what = Inr (''app'' @ [newline])"
  by (simp add: validate_identifier_def ident_match_def ident_body_def ident_start_def
      ident_chars_def lower_letters_def digit_chars_def newline_def)

lemma read_job_seen:
  assumes "read_job n ns env s = (Inr x, s')"
  shows "trace s' = (Typed VGet ''Job'' ns n JNull, env (trace s) (Typed VGet ''Job'' ns n JNull)) # trace s \<and>
     (case env (trace s) (Typed VGet ''Job'' ns n JNull) of Inr j \<Rightarrow> x = Some j | Inl _ \<Rightarrow> x = None)"
  using assms
  by (auto simp: read_job_def on_status_def tryM_def bindM_def callM_def ret_def raise_def Let_def
      split: sum.splits xerr.splits if_splits)

definition job_done :: "string \<Rightarrow> call \<times> resp \<Rightarrow> bool" where
  "job_done name cr \<longleftrightarrow> (\<exists>ns j. cr = (Typed VGet ''Job'' ns (db_job_name name) JNull, Inr j) \<and>
     job_succeeded (Some j) \<and> \<not> job_failed (Some j))"

lemma logs_await_job: "logs (job_done name) (await_job (db_job_name name) ns status g)"
  unfolding logs_def
proof (intro allI impI)
  fix env s x s'
  assume "await_job (db_job_name name) ns status g env s = (Inr x, s')"
  then obtain job s1 where r: "read_job (db_job_name name) ns env s = (Inr job, s1)"
    and j: "job_succeeded job" "\<not> job_failed job" and "s' = s1"
    by (auto simp: await_job_def bindM_Inr thenM_Inr whenM_def ret_def fail_never_returns
        split: if_splits)
  from j(1) have "job \<noteq> None"
    by (cases job) (auto simp: job_succeeded_def job_condition_def or_empty_def oget_def lget_def)
  with read_job_seen [OF r] j \<open>s' = s1\<close> show "\<exists>cr \<in> set (trace s'). job_done name cr"
    by (auto simp: job_done_def split: sum.splits)
qed

text \<open>C40. A Database is reported ready, and its connection published, only after its
  provisioning Job completed: a handler run that returns has read a Job that succeeded and
  did not fail.\<close>

theorem database_ready_after_job:
  assumes "database_reconcile cfg spec meta status name ns env s = (Inr (), s')"
  shows "\<exists>cr \<in> set (trace s'). job_done name cr"
proof -
  have "logs (job_done name) (database_reconcile cfg spec meta status name ns)"
    unfolding database_reconcile_def Let_def
    by (rule logs_thenM_left [OF logs_await_job] logs_thenM_right logs_case_prod
        logs_bindM_right growsI | intro only_intros only_applies TrueI | simp)+
  with assms show ?thesis unfolding logs_def by blast
qed

text \<open>A run in which every backend answers and the Job is complete.\<close>

definition db_spec :: json where
  "db_spec = JObj [(''serverRef'', JObj [(''name'', JStr ''pg'')]), (''databaseName'', JStr ''app''),
     (''user'', JStr ''app'')]"

definition db_meta :: json where
  "db_meta = JObj [(''labels'', JObj [(''platform.adomi.io/client'', JStr ''acme'')])]"

fun db_env :: env where
  "db_env l (Typed _ kind _ _ _) = Inr (if kind = ''Job''
     then JObj [(''status'', JObj [(''succeeded'', JInt 1)])]
     else JObj [(''data'', JObj [(''root-token'', JStr ''dG9r'')])])"
| "db_env l (Kv _ _ _ _ _) =
     Inr (JObj [(''data'', JObj [(''data'', JObj [(''password'', JStr ''abc'')])])])"
| "db_env l (Custom _ _ _ _ _ _) = Inr (JObj [(''status'', JObj [(''namespace'', JStr ''s''),
     (''host'', JStr ''h''), (''adminSecretName'', JStr ''adm'')])])"
| "db_env l _ = Inr JNull"

lemma db_env_ok: "all_ok db_env"
  unfolding all_ok_def
proof (intro allI)
  fix l c
  show "\<exists>v. db_env l c = Inr v" by (cases c) simp_all
qed

lemma job_sql_ok:
  "ident_body (pj_database j) \<Longrightarrow> ident_body (pj_user j) \<Longrightarrow> length (pj_database j) \<le> 63 \<Longrightarrow>
   length (pj_user j) \<le> 63 \<Longrightarrow> (\<exists>sql. job_sql j = Inr sql) \<and> (\<exists>h. job_hash j = Inr h)"
  by (auto simp: job_hash_def job_sql_def build_sql_def validate_identifier_def ident_match_def
      ident_body_def)

lemma returns_submit:
  assumes "all_ok env" and "job_sql j = Inr sql" and "job_hash j = Inr h"
  shows "returns env (submit_provisioning n ns cm pw j)"
proof -
  have "returns env (apply_job j)"
    unfolding apply_job_def read_job_def create_job_def delete_job_def assms(3) of_result_def
      sum.case
    by (intro returns_intros returns_call_ok assms)
  then show ?thesis
    unfolding submit_provisioning_def assms(2) of_result_def sum.case
    by (intro returns_intros returns_writers assms)
qed

lemma returns_to_int: "returns env (to_int (JInt i))"
  by (simp add: to_int_def returns_ret)

lemma db_env_keys: "returns db_env (ensure_keys default_config p [''password''] gen)"
proof -
  have s: "strip ''tok'' = ''tok''" and d: "b64decode ''dG9r'' = Some ''tok''"
    by code_simp+
  have t: "answers db_env (openbao_token default_config force) (strip ''tok'')" for force
    by (rule answers_token [of _ _ "JObj [(''data'', JObj [(''root-token'', JStr ''dG9r'')])]"])
       (simp_all add: default_config_def oget_def sget_def s d del: b64decode.simps)
  show ?thesis
    by (rule returns_ensure_keys, rule answers_bao_read [OF t], simp)
       (simp_all add: or_empty_def)
qed

lemma db_env_returns: "\<exists>s'. database_reconcile default_config db_spec db_meta JNull ''main'' ''n''
    db_env init_st = (Inr (), s')"
proof -
  let ?srv = "JObj [(''status'', JObj [(''namespace'', JStr ''s''), (''host'', JStr ''h''),
     (''adminSecretName'', JStr ''adm'')])]"
  have v: "validate_identifier ''app'' w = Inr ''app''" for w
    by (simp add: validate_identifier_def ident_match_def ident_body_def ident_start_def
        ident_chars_def lower_letters_def digit_chars_def)
  have r: "ref_name db_spec ''serverRef'' = ''pg''" "sget db_spec ''databaseName'' = ''app''"
    "sget db_spec ''user'' = ''app''" "client_label db_meta = ''acme''"
    by (simp_all add: ref_name_def oget_def sget_def db_spec_def db_meta_def client_label_def
        strip_def py_ws_def strip_of_def lstrip_of_def rstrip_of_def)
  have srv: "answers db_env (database_server_of ''pg'' ''acme'' ''n'' JNull g) ?srv" for g
    unfolding database_server_of_def get_database_server_def get_namespaced_def
    by (rule answers_on_not_found, rule answers_on_status, rule answers_callM) simp
  have "returns db_env (await_job j sns JNull g)" for j sns g
  proof -
    have "answers db_env (read_job j sns)
       (Some (JObj [(''status'', JObj [(''succeeded'', JInt 1)])]))"
      unfolding read_job_def
      by (rule answers_on_status, rule answers_bindM [OF answers_callM], simp) (rule answers_ret)
    then show ?thesis
      unfolding await_job_def
      by (rule returns_bind_answer)
         (simp add: whenM_def job_failed_def job_succeeded_def job_condition_def or_empty_def
           oget_def lget_def returns_ret)
  qed
  note await = this
  have "returns db_env (submit_provisioning n sns cm pw j)"
    if "pj_database j = ''app''" "pj_user j = ''app''" for n sns cm pw j
  proof -
    have "ident_body ''app''"
      by (simp add: ident_body_def ident_start_def ident_chars_def lower_letters_def
          digit_chars_def)
    with job_sql_ok [of j] that show ?thesis using returns_submit [OF db_env_ok] by force
  qed
  note submit = this
  have "returns db_env (database_reconcile default_config db_spec db_meta JNull ''main'' ''n'')"
    unfolding database_reconcile_def Let_def r v sum.case
    by (rule returns_bind_answer [OF srv] returns_ret returns_writers [OF db_env_ok] await
          submit db_env_keys returns_to_int
        | rule returns_intros | simp add: oget_def sget_def)+
  then show ?thesis by (rule returns_unit)
qed

lemma database_ready_after_job_witness:
  "\<exists>cr. job_done ''main'' cr"
proof -
  obtain s' where r: "database_reconcile default_config db_spec db_meta JNull ''main'' ''n'' db_env
      init_st = (Inr (), s')"
    using db_env_returns by blast
  show ?thesis using database_ready_after_job [OF r] by blast
qed

subsection \<open>The owner Secret\<close>

definition owner_untouched :: "string \<Rightarrow> call \<Rightarrow> bool" where
  "owner_untouched name c \<longleftrightarrow> (\<forall>v sns. call_target c =
     Some (v, ([], ''Secret'', sns, owner_secret_name name)) \<longrightarrow> v = VGet \<or> v = VCreate)"

lemma owner_untouched_simps [simp]:
  "owner_untouched name Now" "owner_untouched name (RandBelow i)"
  "owner_untouched name (Kv v m p t b)"
  "owner_untouched name (Custom v' PLATFORM_GROUP pl n nm b)"
  "owner_untouched name (Custom v' ''external-secrets.io/v1'' pl n nm b)"
  by (simp_all add: owner_untouched_def)

lemma owner_untouched_kind: "kind \<noteq> ''Secret'' \<Longrightarrow> owner_untouched name (Typed v kind ns n b)"
  by (simp add: owner_untouched_def)

lemma owner_untouched_token: "token_call c \<Longrightarrow> owner_untouched name c"
  by (cases c) (auto simp: owner_untouched_def)

lemma owner_untouched_touches:
  "touches (api, kind, ns, n) c \<Longrightarrow> kind \<noteq> ''Secret'' \<Longrightarrow> owner_untouched name c"
  by (auto simp: owner_untouched_def touches_def)

lemma only_custom_applies [only_intros]:
  "(\<And>v ns n b. P (Custom v ''external-secrets.io/v1'' ''externalsecrets'' ns n b)) \<Longrightarrow>
     only P (apply_es e)"
  unfolding apply_es_def apply_custom_def get_custom_def read_custom_def create_custom_def
    patch_custom_def es_resource_def custom_resource.simps
  by (intro only_intros)

lemma only_kv_ops:
  assumes "\<And>c. token_call c \<Longrightarrow> P c" "\<And>v m p t b. P (Kv v m p t b)" "\<And>i. P (RandBelow i)"
  shows "only P (ensure_keys cfg path want (\<lambda>_. random_string n))"
  unfolding ensure_keys_def ensure_keys_with_def bao_read_def bao_write_def
  by (intro only_intros assms)

lemma owner_untouched_submit:
  "only (owner_untouched name) (submit_provisioning (owner_secret_name name) sns cm pw j)"
proof -
  have "only (owner_untouched name)
      (apply_secret (opaque_secret (owner_secret_name name) sns [(''password'', pw)] True))"
    unfolding apply_secret_def apply_typed_def secret_resource_def opaque_secret_def
    by (intro only_intros) (auto simp: owner_untouched_def intro!: only_intros)
  moreover have "only (owner_untouched name) (apply_config_map c)" for c
    by (intro only_applies) (auto simp: config_map_key_def intro: owner_untouched_touches)
  moreover have "only (owner_untouched name) (apply_job j)"
    unfolding apply_job_def read_job_def create_job_def delete_job_def
    by (intro only_intros) (simp_all add: owner_untouched_kind)
  ultimately show ?thesis
    unfolding submit_provisioning_def by (intro only_intros)
qed

text \<open>The Secret the provisioning Job takes the role's password from is only ever read or
  created by the handler, never updated. When the Database's user (or server) changes, the
  credentials move to another OpenBao path with a newly generated password, but the Job
  still applies the old one, while the workload is delivered the new one.\<close>

lemma owner_secret_never_updated:
  "only (owner_untouched name) (database_reconcile cfg spec meta status name ns)"
proof -
  have "only (owner_untouched name) (database_server_of r c n st g)" for r c n st g
    unfolding database_server_of_def get_database_server_def get_namespaced_def
      find_client_namespace_def
    by (intro only_intros) simp_all
  moreover have "only (owner_untouched name) (await_job jn sns st g)" for jn sns st g
    unfolding await_job_def read_job_def by (intro only_intros) (simp_all add: owner_untouched_kind)
  moreover have "only (owner_untouched name)
      (ensure_keys cfg path want (\<lambda>_. random_string n))" for path want n
    by (rule only_kv_ops) (simp_all add: owner_untouched_token)
  ultimately show ?thesis
    unfolding database_reconcile_def Let_def
    by (intro only_intros owner_untouched_submit) simp_all
qed

text \<open>Deleting a Database never raises and asks only for the deletion of its Job, its
  owner Secret and its SQL ConfigMap; no request can drop the database, the role or the
  credentials in OpenBao.\<close>

lemma database_finalize_keeps_data:
  "\<exists>s'. database_finalize status name env s = (Inr (), s') \<and>
     map fst (trace s') =
       (if sget status ''serverNamespace'' = [] then []
        else [Typed VDelete ''ConfigMap'' (sget status ''serverNamespace'') (sql_configmap_name name) JNull,
              Typed VDelete ''Secret'' (sget status ''serverNamespace'') (owner_secret_name name) JNull,
              Typed VDelete ''Job'' (sget status ''serverNamespace'') (db_job_name name)
                (JObj [(''propagationPolicy'', JStr ''Background'')])]) @ map fst (trace s)"
proof -
  have a: "\<exists>s'. attempt (on_status [404] (thenM (callM c) (ret ())) (ret ())) env s1 = (Inr (), s') \<and>
      map fst (trace s') = c # map fst (trace s1)" for c s1
    by (auto simp: attempt_def on_status_def tryM_def thenM_def bindM_def callM_def ret_def
        raise_def Let_def split: sum.split xerr.split)
  show ?thesis
  proof (cases "sget status ''serverNamespace'' = []")
    case True
    then show ?thesis by (simp add: database_finalize_def whenM_def ret_def)
  next
    case False
    let ?ns = "sget status ''serverNamespace''"
    obtain s1 where 1: "attempt (delete_job (db_job_name name) ?ns) env s = (Inr (), s1)"
      "map fst (trace s1) = Typed VDelete ''Job'' ?ns (db_job_name name)
         (JObj [(''propagationPolicy'', JStr ''Background'')]) # map fst (trace s)"
      using a [of "Typed VDelete ''Job'' ?ns (db_job_name name)
         (JObj [(''propagationPolicy'', JStr ''Background'')])" s, folded delete_job_def]
      by (elim exE conjE) (rule that)
    obtain s2 where 2: "attempt (delete_secret (owner_secret_name name) ?ns) env s1 = (Inr (), s2)"
      "map fst (trace s2) = Typed VDelete ''Secret'' ?ns (owner_secret_name name) JNull #
         map fst (trace s1)"
      using a [of "Typed VDelete ''Secret'' ?ns (owner_secret_name name) JNull" s1,
          folded delete_secret_def]
      by (elim exE conjE) (rule that)
    obtain s3 where 3: "attempt (delete_config_map (sql_configmap_name name) ?ns) env s2 = (Inr (), s3)"
      "map fst (trace s3) = Typed VDelete ''ConfigMap'' ?ns (sql_configmap_name name) JNull #
         map fst (trace s2)"
      using a [of "Typed VDelete ''ConfigMap'' ?ns (sql_configmap_name name) JNull" s2,
          folded delete_config_map_def]
      by (elim exE conjE) (rule that)
    show ?thesis
      using 1 2 3 False
      by (simp add: database_finalize_def whenM_def Let_def thenM_def bindM_def)
  qed
qed

text \<open>Two Applications of one environment share the Secret their dump and restore jobs
  read the database password from: its name depends on the namespace only, so connections
  that differ in server, database, user and password Secret get the same \<open>dbSecret\<close>.\<close>

lemma db_secret_shared_by_apps:
  "dget (snapshot_params cfg c k (db_secret_name (password_secret_namespace c)) s3) ''dbSecret'' =
   dget (snapshot_params cfg
     (c\<lparr>db_host := h, db_name := d, db_user := u, password_secret_name := p\<rparr>) k'
     (db_secret_name (password_secret_namespace
       (c\<lparr>db_host := h, db_name := d, db_user := u, password_secret_name := p\<rparr>))) s3) ''dbSecret''"
  by (simp add: snapshot_params_def db_params_def)

subsection \<open>Snapshots\<close>

definition workflow_succeeded :: "string \<Rightarrow> call \<times> resp \<Rightarrow> bool" where
  "workflow_succeeded name cr \<longleftrightarrow> (\<exists>ns j. cr =
     (Custom VGet ''argoproj.io/v1alpha1'' ''workflows'' ns name JNull, Inr j) \<and>
     phase (Some j) = PHASE_SUCCEEDED)"

lemma read_workflow_seen:
  assumes "read_workflow n ns env s = (Inr x, s')" and "phase x = PHASE_SUCCEEDED"
  shows "\<exists>cr \<in> set (trace s'). workflow_succeeded n cr"
proof (cases x)
  case None
  with assms(2) show ?thesis by (simp add: phase_def)
next
  case (Some j)
  with assms show ?thesis
    by (auto simp: read_workflow_def read_custom_run workflow_succeeded_def Let_def
        split: sum.splits xerr.splits if_splits)
qed

text \<open>A Snapshot is reported ready only when its dump finished: a handler run that returns
  has read its Workflow in phase \<open>Succeeded\<close>, and leaves the status phase \<open>Completed\<close>.\<close>

lemma snapshot_ready_after_workflow:
  assumes "snapshot_reconcile cfg spec meta status name ns env s = (Inr (), s')"
  shows "(\<exists>cr \<in> set (trace s'). workflow_succeeded (snapshot_workflow_name ns name) cr) \<and>
    dget (status_patch s') ''phase'' = Some (JStr ''Completed'')"
proof -
  let ?w = "snapshot_workflow_name ns name"
  obtain s1 x s2 s3 loc where r: "read_workflow ?w (argo_namespace cfg) env s1 = (Inr x, s2)"
    and p: "phase x = PHASE_SUCCEEDED"
    and c: "set_status ''phase'' (JStr ''Completed'') env s2 = (Inr (), s3)"
    and m: "mark_ready status (''Snapshot stored at '' @ loc) (generation_of meta) env s3 = (Inr (), s')"
    using assms
    by (auto simp: snapshot_reconcile_def snapshot_poll_def Let_def thenM_Inr bindM_Inr fail_never_returns
        split: if_splits)
  obtain cr where cr: "cr \<in> set (trace s2)" "workflow_succeeded ?w cr"
    using read_workflow_seen [OF r p] by blast
  have "set (trace s2) \<subseteq> set (trace s3)"
    using c by (auto simp: set_status_def modifyM_def)
  moreover have "set (trace s3) \<subseteq> set (trace s')"
    by (rule grows_set [where m = "mark_ready _ _ _"]) (rule growsI, intro only_intros TrueI, rule m)
  moreover have "dget (status_patch s3) ''phase'' = Some (JStr ''Completed'')"
    using c by (auto simp: set_status_def modifyM_def)
  ultimately show ?thesis using cr mark_ready_keeps [OF m] by auto
qed

text \<open>A run whose Workflow has succeeded.\<close>

definition snap_spec :: json where
  "snap_spec = JObj [(''applicationRef'', JObj [(''name'', JStr ''web'')])]"

definition snap_obj :: json where
  "snap_obj = JObj [(''spec'', JObj [(''databases'', JArr [JObj [(''server'', JStr ''pg'')]])]),
     (''status'', JObj [(''host'', JStr ''h''), (''phase'', JStr ''Succeeded'')])]"

fun snap_env :: env where
  "snap_env l (Custom _ _ _ _ _ _) = Inr snap_obj"
| "snap_env l (Typed _ _ _ _ _) = Inr (JObj [(''data'', JObj [(''root-token'', JStr ''dG9r''),
     (''password'', JStr ''dG9r'')])])"
| "snap_env l (Kv _ _ _ _ _) = Inr (JObj [(''data'', JObj [(''data'', JObj
     [(s3_access_key_key default_config, JStr ''ak''),
      (s3_secret_key_key default_config, JStr ''sk'')])])])"
| "snap_env l _ = Inr JNull"

lemma snap_env_ok: "all_ok snap_env"
  unfolding all_ok_def
proof (intro allI)
  fix l c
  show "\<exists>v. snap_env l c = Inr v" by (cases c) simp_all
qed

lemma snap_secrets:
  assumes ok: "all_ok env"
    and ty: "\<And>l v k ns n b. env l (Typed v k ns n b) = snap_env l (Typed v k ns n b)"
    and kv: "\<And>l v m p t b. env l (Kv v m p t b) = snap_env l (Kv v m p t b)"
    and pw: "password_secret_key conn = ''password''"
  shows "returns env (ensure_secrets default_config conn)"
proof -
  have s: "strip ''tok'' = ''tok''" "strip ''ak'' = ''ak''" "strip ''sk'' = ''sk''"
    and d: "b64decode ''dG9r'' = Some ''tok''"
    by code_simp+
  let ?tok = "JObj [(''data'', JObj [(''root-token'', JStr ''dG9r''), (''password'', JStr ''dG9r'')])]"
  let ?kv = "JObj [(s3_access_key_key default_config, JStr ''ak''),
      (s3_secret_key_key default_config, JStr ''sk'')]"
  have t: "answers env (openbao_token default_config force) (strip ''tok'')" for force
    by (rule answers_token [of _ _ ?tok])
       (simp_all add: default_config_def oget_def sget_def s d ty del: b64decode.simps)
  have stored: "env l (Kv VGet m q u JNull) = Inr (JObj [(''data'', JObj [(''data'', ?kv)])])"
    for l m q u by (subst kv) simp
  have r: "answers env (bao_read default_config p) (Some ?kv)" for p
    using answers_bao_read [OF t stored, of p] by simp
  have k: "answers env (read_key n m ''password'') ''tok''" for n m
    unfolding read_key_def
    by (rule answers_bindM [of _ _ ?tok], rule answers_callM)
       (simp_all add: oget_def sget_def s d ty answers_ret del: b64decode.simps)
  from pw show ?thesis
    unfolding ensure_secrets_def Let_def
    by (intro returns_bind_answer [OF r])
       (simp add: or_empty_def sget_def s default_config_def returns_intros
         returns_writers [OF ok] returns_bind_answer [OF k])
qed

lemma snapshot_ready_after_workflow_witness:
  "\<exists>cr. workflow_succeeded (snapshot_workflow_name ''n'' ''nightly'') cr"
proof -
  have n: "ref_name snap_spec ''applicationRef'' = ''web''"
    by (simp add: ref_name_def oget_def sget_def snap_spec_def strip_def py_ws_def strip_of_def
        lstrip_of_def rstrip_of_def)
  have g: "answers snap_env (get_namespaced pl nm ns) snap_obj" for pl nm ns
    unfolding get_namespaced_def by (rule answers_on_status, rule answers_callM) simp
  obtain conn where c: "answers snap_env (app_db_connection snap_obj) conn"
    and p: "password_secret_key conn = ''password''"
  proof
    show "answers snap_env (app_db_connection snap_obj) \<lparr> db_host = ''h'', db_port = DB_PORT,
      db_name = [], db_user = [], password_secret_namespace = [], password_secret_name = [],
      password_secret_key = ''password'' \<rparr>"
      unfolding app_db_connection_def Let_def get_database_server_def
      by (simp add: snap_obj_def oget_def sget_def lget_def)
         (rule answers_bindM [OF g], simp add: snap_obj_def oget_def sget_def lget_def to_int_def
            answers_ret)
  qed simp
  have w: "answers snap_env (read_workflow wn ns) (Some snap_obj)" for wn ns
    unfolding read_workflow_def read_custom_def
    by (rule answers_on_status, rule answers_bindM [OF answers_callM], simp) (rule answers_ret)
  have ph: "phase (Some snap_obj) = PHASE_SUCCEEDED"
    by (simp add: phase_def snap_obj_def oget_def sget_def)
  have a: "answers snap_env (on_not_found (bindM (get_application ''web'' ''n'') app_db_connection)
      h) conn" for h
    unfolding get_application_def by (rule answers_on_not_found, rule answers_bindM [OF g]) (rule c)
  have sub: "returns snap_env (submit_snapshot default_config conn k wn)" for k wn
    unfolding submit_snapshot_def
    by (rule returns_bindM [OF snap_secrets [OF snap_env_ok refl refl p]])
       (intro returns_intros returns_writers snap_env_ok)
  have "returns snap_env (snapshot_reconcile default_config snap_spec JNull JNull ''nightly'' ''n'')"
    unfolding snapshot_reconcile_def snapshot_poll_def Let_def n
    by (rule returns_thenM, simp add: whenM_def returns_ret)
       (rule returns_bind_answer [OF a],
        intro returns_thenM returns_or_fail sub returns_set_status,
        rule returns_bind_answer [OF w], simp add: ph returns_intros)
  from returns_unit [OF this] obtain s' where
    "snapshot_reconcile default_config snap_spec JNull JNull ''nightly'' ''n'' snap_env init_st =
       (Inr (), s')" by blast
  from snapshot_ready_after_workflow [OF this] show ?thesis by blast
qed

end
