(* ===== verification/Github.thy ===== *)
theory Github
  imports Runs Requeue
begin

text \<open>
  \<open>github.py\<close>: the REST client that reports previews on pull requests, and the GitHub App
  credentials that mint one installation token per repository. A Python string is the list
  of its UTF-8 bytes. \<open>_app_auth_cache\<close> is the field \<open>app_auths\<close> of the state, keyed by the
  fingerprint; a \<open>GitHubAppAuth\<close> object is that entry, so the token cache it mutates is part
  of the state. \<open>jwt.encode\<close> is the request \<open>SignJwt\<close>, the wall clock the request \<open>Now\<close>.
\<close>

section \<open>Hosts and payloads\<close>

definition PREVIEW_COMMENT_MARKER :: string where
  "PREVIEW_COMMENT_MARKER = ''<!-- adomi-preview -->''"

abbreviation STATUS_CONTEXT :: string where "STATUS_CONTEXT \<equiv> ''adomi/preview''"

definition GITHUB_HOSTS :: "string list" where
  "GITHUB_HOSTS = [''github.com'', ''www.github.com'']"

definition github_host :: "string \<Rightarrow> string" where
  "github_host url =
     (let s = drop_scheme (CHR ''+'' # lower_letters) (ssh_to_https (strip url)) in
      lower (before (CHR '':'') (last (split_on (CHR ''@'') (before (CHR ''/'') s)))))"

definition is_github_url :: "string \<Rightarrow> bool" where
  "is_github_url url \<longleftrightarrow> github_host url \<in> set GITHUB_HOSTS"

definition rocket :: string where
  "rocket = [CHR 0xF0, CHR 0x9F, CHR 0x9A, CHR 0x80]"

definition preview_comment_body :: "string \<Rightarrow> string" where
  "preview_comment_body url =
     PREVIEW_COMMENT_MARKER @ [newline] @ rocket @ '' **Preview environment** is ready: '' @ url"

definition status_payload :: "string \<Rightarrow> string \<Rightarrow> string \<Rightarrow> json" where
  "status_payload state target_url description = JObj
     [(''state'', JStr state), (''target_url'', JStr target_url),
      (''description'', JStr (take 140 description)), (''context'', JStr STATUS_CONTEXT)]"

section \<open>Requests\<close>

definition github_headers :: "string \<Rightarrow> json \<Rightarrow> (string \<times> string) list" where
  "github_headers token body =
     [(''Authorization'', ''Bearer '' @ token),
      (''Accept'', ''application/vnd.github+json''),
      (''X-GitHub-Api-Version'', ''2022-11-28'')] @
     (if body \<noteq> JNull then [(''Content-Type'', ''application/json'')] else [])"

definition github_request :: "string \<Rightarrow> string \<Rightarrow> string \<Rightarrow> string \<Rightarrow> json \<Rightarrow> json M" where
  "github_request api token method path body =
     callM (Http method (api @ path) (github_headers token body) body)"

record github_client =
  ghc_token :: string
  ghc_api :: string

definition new_github_client :: "string \<Rightarrow> string \<Rightarrow> github_client" where
  "new_github_client token api_url =
     \<lparr> ghc_token = token, ghc_api = rstrip_of ''/'' api_url \<rparr>"

definition gh_call :: "github_client \<Rightarrow> string \<Rightarrow> string \<Rightarrow> json \<Rightarrow> json M" where
  "gh_call gh = github_request (ghc_api gh) (ghc_token gh)"

definition repo_path :: "string \<Rightarrow> string \<Rightarrow> string" where
  "repo_path owner repo = ''/repos/'' @ owner @ ''/'' @ repo"

definition set_commit_status ::
    "github_client \<Rightarrow> string \<Rightarrow> string \<Rightarrow> string \<Rightarrow> string \<Rightarrow> string \<Rightarrow> string \<Rightarrow> unit M" where
  "set_commit_status gh owner repo sha state target_url description =
     thenM (gh_call gh ''POST'' (repo_path owner repo @ ''/statuses/'' @ sha)
              (status_payload state target_url description))
           (ret ())"

definition has_marker :: "json \<Rightarrow> bool" where
  "has_marker c \<longleftrightarrow> is_infix PREVIEW_COMMENT_MARKER (sget c ''body'')"

text \<open>The loop returns at the first comment that carries the marker.\<close>

fun update_marked :: "github_client \<Rightarrow> string \<Rightarrow> string \<Rightarrow> json list \<Rightarrow> string \<Rightarrow> bool M" where
  "update_marked gh owner repo [] body = ret False"
| "update_marked gh owner repo (c # cs) body =
     (if has_marker c
      then bindM (item c ''id'') (\<lambda>i.
           thenM (gh_call gh ''PATCH'' (repo_path owner repo @ ''/issues/comments/'' @ py_str i)
                    (JObj [(''body'', JStr body)]))
                 (ret True))
      else update_marked gh owner repo cs body)"

definition upsert_pr_comment ::
    "github_client \<Rightarrow> string \<Rightarrow> string \<Rightarrow> int \<Rightarrow> string \<Rightarrow> unit M" where
  "upsert_pr_comment gh owner repo number body =
     (let comments = repo_path owner repo @ ''/issues/'' @ int_str number @ ''/comments'' in
      bindM (gh_call gh ''GET'' comments JNull) (\<lambda>existing.
      bindM (update_marked gh owner repo (jlist (jor existing (JArr []))) body) (\<lambda>updated.
      whenM (\<not> updated)
        (thenM (gh_call gh ''POST'' comments (JObj [(''body'', JStr body)])) (ret ())))))"

section \<open>App credentials\<close>

abbreviation TOKEN_TTL_SECONDS :: int where "TOKEN_TTL_SECONDS \<equiv> 45 * 60"

text \<open>\<open>time.time()\<close>; reading the clock does not raise.\<close>

definition unix_time :: "int M" where
  "unix_time = (\<lambda>env s. let r = env (trace s) Now in
     (Inr (case r of Inr (JInt i) \<Rightarrow> i | _ \<Rightarrow> 0), s\<lparr>trace := (Now, r) # trace s\<rparr>))"

definition new_gh_auth :: "string \<Rightarrow> string \<Rightarrow> string \<Rightarrow> gh_auth" where
  "new_gh_auth app_id private_key api_url =
     \<lparr> gh_app_id = strip app_id, gh_key = private_key, gh_api = rstrip_of ''/'' api_url,
       gh_tokens = [] \<rparr>"

definition fingerprint :: "gh_auth \<Rightarrow> string \<times> string" where
  "fingerprint a = (gh_api a, gh_app_id a)"

definition app_jwt :: "gh_auth \<Rightarrow> string M" where
  "app_jwt a =
     bindM unix_time (\<lambda>now.
     bindM (callM (SignJwt (JObj [(''iat'', JInt (now - 60)), (''exp'', JInt (now + 9 * 60)),
                                  (''iss'', JStr (gh_app_id a))]) (gh_key a)))
       (\<lambda>t. ret (jstr t)))"

definition store_auth :: "string \<times> string \<Rightarrow> gh_auth \<Rightarrow> unit M" where
  "store_auth fp a = modifyM (\<lambda>s. s\<lparr>app_auths := dset fp a (app_auths s)\<rparr>)"

text \<open>\<open>self._tokens.get(key)\<close>, good while its deadline is in the future.\<close>

definition valid_token :: "gh_auth \<Rightarrow> string \<times> string \<Rightarrow> string option M" where
  "valid_token a key =
     (case dget (gh_tokens a) key of
        None \<Rightarrow> ret None
      | Some (token, deadline) \<Rightarrow>
          bindM monotonic (\<lambda>now. ret (if deadline > now then Some token else None)))"

definition find_installation :: "gh_auth \<Rightarrow> string \<Rightarrow> string \<Rightarrow> string \<Rightarrow> json M" where
  "find_installation a jwt owner repo =
     tryM (github_request (gh_api a) jwt ''GET'' (repo_path owner repo @ ''/installation'') JNull)
       (\<lambda>e. case e of
          Ext (HttpErr code t) \<Rightarrow>
            if code = 404
            then raise (GitHubAppError (''the GitHub App is not installed on '' @ owner @ ''/'' @ repo))
            else raise e
        | _ \<Rightarrow> raise e)"

definition token_request :: "string \<Rightarrow> json" where
  "token_request repo = JObj
     [(''repositories'', strs [repo]), (''permissions'', JObj [(''contents'', JStr ''read'')])]"

definition mint_token :: "gh_auth \<Rightarrow> string \<Rightarrow> string \<Rightarrow> string M" where
  "mint_token a owner repo =
     bindM (app_jwt a) (\<lambda>jwt.
     bindM (find_installation a jwt owner repo) (\<lambda>installation.
     bindM (item installation ''id'') (\<lambda>i.
     bindM (github_request (gh_api a) jwt ''POST''
              (''/app/installations/'' @ py_str i @ ''/access_tokens'') (token_request repo))
       (\<lambda>minted. bindM (item minted ''token'') (\<lambda>t. ret (jstr t))))))"

text \<open>The deadline is read after the token was minted.\<close>

definition installation_token_for :: "gh_auth \<Rightarrow> string \<Rightarrow> string \<Rightarrow> string M" where
  "installation_token_for a owner repo =
     bindM (valid_token a (owner, repo)) (\<lambda>cached. case cached of
       Some token \<Rightarrow> ret token
     | None \<Rightarrow>
         bindM (mint_token a owner repo) (\<lambda>token.
         bindM monotonic (\<lambda>now.
         thenM (store_auth (fingerprint a) (a\<lparr>gh_tokens :=
                  dset (owner, repo) (token, now + TOKEN_TTL_SECONDS) (gh_tokens a)\<rparr>))
               (ret token))))"

text \<open>A rotated private key replaces the cached instance and its tokens.\<close>

definition app_auth :: "string \<Rightarrow> string \<Rightarrow> string \<Rightarrow> gh_auth M" where
  "app_auth app_id private_key api_url =
     (let candidate = new_gh_auth app_id private_key api_url in
      bindM (getM app_auths) (\<lambda>auths. case dget auths (fingerprint candidate) of
        Some cached \<Rightarrow>
          if gh_key cached = private_key then ret cached
          else thenM (store_auth (fingerprint candidate) candidate) (ret candidate)
      | None \<Rightarrow> thenM (store_auth (fingerprint candidate) candidate) (ret candidate)))"

section \<open>Facts\<close>

lemma quiet_unix_time [quiet_intros]: "quiet unix_time"
  by (simp add: quiet_def unix_time_def Let_def)

lemma quiet_store_auth [quiet_intros]: "quiet (store_auth fp a)"
  by (simp add: store_auth_def quiet_modifyM)

lemma quiet_gh_call [quiet_intros]: "quiet (gh_call gh m p b)" "quiet (github_request a t m p b)"
  by (simp_all add: gh_call_def github_request_def quiet_callM)

lemma quiet_find_installation [quiet_intros]: "quiet (find_installation a jwt owner repo)"
  unfolding find_installation_def
proof (rule quiet_tryM)
  fix e
  assume "\<not> is_temporary e"
  then show "quiet (case e of Ext (HttpErr code t) \<Rightarrow>
      if code = 404
      then raise (GitHubAppError (''the GitHub App is not installed on '' @ owner @ ''/'' @ repo))
      else raise e | _ \<Rightarrow> raise e)"
    by (auto intro: quiet_raise split: exn.split xerr.split)
qed (rule quiet_gh_call)

lemma quiet_valid_token [quiet_intros]: "quiet (valid_token a k)"
  unfolding valid_token_def by (intro quiet_intros)

lemma quiet_app_jwt [quiet_intros]: "quiet (app_jwt a)"
  unfolding app_jwt_def by (intro quiet_intros)

lemma quiet_installation_token [quiet_intros]: "quiet (installation_token_for a owner repo)"
  unfolding installation_token_for_def mint_token_def by (intro quiet_intros)

lemma quiet_app_auth [quiet_intros]: "quiet (app_auth i k a)"
  unfolding app_auth_def Let_def by (intro quiet_intros)

lemma quiet_set_commit_status [quiet_intros]: "quiet (set_commit_status gh ow r s st u d)"
  unfolding set_commit_status_def by (intro quiet_intros)

lemma quiet_update_marked [quiet_intros]: "quiet (update_marked gh ow r cs b)"
  by (induction cs) (auto intro!: quiet_intros)

lemma quiet_upsert_pr_comment [quiet_intros]: "quiet (upsert_pr_comment gh ow r n b)"
  unfolding upsert_pr_comment_def Let_def by (intro quiet_intros)

text \<open>What the client may ask for: the clock, one signature, its own endpoint.\<close>

definition github_call :: "string \<Rightarrow> call \<Rightarrow> bool" where
  "github_call api c \<longleftrightarrow> (\<exists>m p hs b. c = Http m (api @ p) hs b)"

lemma only_github_request [only_intros]:
  "(\<And>c. github_call api c \<Longrightarrow> P c) \<Longrightarrow> only P (github_request api t m p b)"
  "(\<And>c. github_call (ghc_api gh) c \<Longrightarrow> P c) \<Longrightarrow> only P (gh_call gh m p b)"
  unfolding gh_call_def github_request_def github_call_def by (intro only_callM; blast)+

lemma only_unix_time [only_intros]: "P Now \<Longrightarrow> only P unix_time"
  unfolding only_def unix_time_def Let_def
  by (auto intro!: exI [of _ "[(Now, _)]"])

lemma only_store_auth [only_intros]: "only P (store_auth fp a)"
  by (simp add: store_auth_def only_modifyM)

lemma only_find_installation [only_intros]:
  "(\<And>c. github_call (gh_api a) c \<Longrightarrow> P c) \<Longrightarrow> only P (find_installation a jwt owner repo)"
  unfolding find_installation_def
  by (intro only_tryM only_github_request)
     (auto intro: only_raise split: exn.split xerr.split)

lemma only_installation_token [only_intros]:
  assumes "\<And>c. github_call (gh_api a) c \<Longrightarrow> P c" "P Now" "P Monotonic" "\<And>j k. P (SignJwt j k)"
  shows "only P (installation_token_for a owner repo)"
  unfolding installation_token_for_def mint_token_def valid_token_def app_jwt_def
  by (intro only_intros assms)

lemma only_app_auth [only_intros]: "only P (app_auth i k a)"
  unfolding app_auth_def Let_def by (intro only_intros)

lemma only_upsert_pr_comment [only_intros]:
  assumes "\<And>c. github_call (ghc_api gh) c \<Longrightarrow> P c"
  shows "only P (upsert_pr_comment gh ow r n b)" "only P (set_commit_status gh ow r s st u d)"
proof -
  have "only P (update_marked gh ow r cs b)" for cs
    by (induction cs) (auto intro!: only_intros assms)
  then show "only P (upsert_pr_comment gh ow r n b)"
    unfolding upsert_pr_comment_def Let_def by (intro only_intros assms)
qed (unfold set_commit_status_def, intro only_intros assms)

section \<open>Least privilege\<close>

definition token_step :: "gh_auth \<Rightarrow> string \<Rightarrow> string \<Rightarrow> call \<Rightarrow> bool" where
  "token_step a owner repo c \<longleftrightarrow> c = Now \<or> c = Monotonic \<or> (\<exists>j. c = SignJwt j (gh_key a)) \<or>
     (\<exists>hs. c = Http ''GET'' (gh_api a @ repo_path owner repo @ ''/installation'') hs JNull) \<or>
     (\<exists>i hs. c = Http ''POST'' (gh_api a @ ''/app/installations/'' @ i @ ''/access_tokens'') hs
        (token_request repo))"

lemma token_step_intros:
  "token_step a owner repo Now" "token_step a owner repo Monotonic"
  "token_step a owner repo (SignJwt j (gh_key a))"
  "token_step a owner repo (Http ''GET'' (gh_api a @ repo_path owner repo @ ''/installation'') hs JNull)"
  "token_step a owner repo (Http ''POST'' (gh_api a @ ''/app/installations/'' @ i @ ''/access_tokens'')
     hs (token_request repo))"
  unfolding token_step_def by blast+

lemma only_case_http_error:
  "only P (case e of Ext (HttpErr code t) \<Rightarrow> if code = n then raise x else raise e | _ \<Rightarrow> raise e)"
  by (auto intro: only_raise split: exn.split xerr.split)

text \<open>Minting an installation token asks GitHub for nothing but this repository's
  installation and one token restricted to reading the contents of this repository, signed
  with this App's key; no other endpoint is ever called, whatever GitHub answers.\<close>

lemma installation_token_least_privilege:
  "only (token_step a owner repo) (installation_token_for a owner repo)"
  unfolding installation_token_for_def mint_token_def valid_token_def app_jwt_def
    find_installation_def github_request_def
  by (intro only_bindM only_case_option only_case_prod only_ret only_tryM only_case_http_error
      only_callM only_item only_monotonic only_unix_time only_thenM only_store_auth
      token_step_intros)

section \<open>The token cache\<close>

text \<open>\<open>minted l a k tok\<close>: the token was answered to a request restricted to repository \<open>k\<close>.\<close>

definition minted :: "log \<Rightarrow> string \<Rightarrow> string \<times> string \<Rightarrow> string \<Rightarrow> bool" where
  "minted l api k tok \<longleftrightarrow> (\<exists>i hs j. (Http ''POST'' (api @ ''/app/installations/'' @ i @ ''/access_tokens'')
      hs (token_request (snd k)), Inr j) \<in> set l \<and> jstr (jget j ''token'') = tok)"

definition auth_ok :: "log \<Rightarrow> gh_auth \<Rightarrow> bool" where
  "auth_ok l a \<longleftrightarrow>
     (\<forall>k tok d. dget (gh_tokens a) k = Some (tok, d) \<longrightarrow> minted l (gh_api a) k tok)"

definition auths_ok :: "st \<Rightarrow> bool" where
  "auths_ok s \<longleftrightarrow> (\<forall>fp a. dget (app_auths s) fp = Some a \<longrightarrow> fingerprint a = fp \<and> auth_ok (trace s) a)"

lemma minted_mono: "minted l api k tok \<Longrightarrow> set l \<subseteq> set l' \<Longrightarrow> minted l' api k tok"
  unfolding minted_def by blast

lemma auth_ok_mono: "auth_ok l a \<Longrightarrow> set l \<subseteq> set l' \<Longrightarrow> auth_ok l' a"
  unfolding auth_ok_def using minted_mono by blast

lemma auths_ok_mono:
  "auths_ok s \<Longrightarrow> app_auths s' = app_auths s \<Longrightarrow> set (trace s) \<subseteq> set (trace s') \<Longrightarrow> auths_ok s'"
  unfolding auths_ok_def using auth_ok_mono by metis

lemma auths_ok_store:
  "auths_ok s \<Longrightarrow> auth_ok (trace s) a \<Longrightarrow> auths_ok (s\<lparr>app_auths := dset (fingerprint a) a (app_auths s)\<rparr>)"
  by (auto simp: auths_ok_def)

text \<open>Computations that leave the credential cache alone.\<close>

definition keeps_auths :: "'a M \<Rightarrow> bool" where
  "keeps_auths m \<longleftrightarrow> (\<forall>env s. app_auths (snd (m env s)) = app_auths s)"

lemma keeps_bindM: "keeps_auths m \<Longrightarrow> (\<And>x. keeps_auths (f x)) \<Longrightarrow> keeps_auths (bindM m f)"
  by (auto simp: keeps_auths_def bindM_def split: prod.splits sum.splits) (metis snd_conv)+

lemma keeps_basic:
  "keeps_auths (ret x)" "keeps_auths (raise e)" "keeps_auths (callM c)" "keeps_auths unix_time"
  "keeps_auths monotonic" "keeps_auths (item j k)"
  by (auto simp: keeps_auths_def ret_def raise_def callM_def unix_time_def monotonic_def
      item_def Let_def split: sum.split)

lemma keeps_tryM: "keeps_auths m \<Longrightarrow> (\<And>e. keeps_auths (h e)) \<Longrightarrow> keeps_auths (tryM m h)"
  by (auto simp: keeps_auths_def tryM_def split: prod.splits sum.splits) (metis snd_conv)+

lemma keeps_case_http_error:
  "keeps_auths (case e of Ext (HttpErr code t) \<Rightarrow> if code = n then raise x else raise e | _ \<Rightarrow> raise e)"
  by (auto intro: keeps_basic split: exn.split xerr.split)

lemma keeps_mint_token: "keeps_auths (mint_token a owner repo)"
  unfolding mint_token_def app_jwt_def find_installation_def github_request_def
  by (intro keeps_bindM keeps_basic keeps_tryM keeps_case_http_error)

lemma keeps_valid_token: "keeps_auths (valid_token a k)"
  unfolding valid_token_def
  by (auto intro!: keeps_bindM keeps_basic split: option.split)

lemma grows_token_parts: "grows (mint_token a owner repo)" "grows (valid_token a k)" "grows monotonic"
  unfolding mint_token_def app_jwt_def find_installation_def github_request_def valid_token_def
  by (intro growsI only_bindM only_case_option only_ret only_tryM only_case_http_error only_callM
      only_item only_monotonic only_unix_time only_case_prod TrueI)+

lemma mint_token_minted:
  assumes "mint_token a owner repo env s = (Inr t, s')"
  shows "minted (trace s') (gh_api a) (owner, repo) t"
  using assms
  by (auto simp: mint_token_def github_request_def bindM_Inr callM_Inr item_def ret_def raise_def
      minted_def split: if_splits) blast+

lemma app_auth_run:
  assumes "auths_ok s"
  shows "\<exists>a s'. app_auth app_id key api env s = (Inr a, s') \<and> gh_key a = key \<and>
    fingerprint a = (rstrip_of ''/'' api, strip app_id) \<and> auths_ok s' \<and> auth_ok (trace s') a \<and>
    trace s' = trace s"
proof -
  let ?c = "new_gh_auth app_id key api"
  have c: "gh_key ?c = key" "fingerprint ?c = (rstrip_of ''/'' api, strip app_id)" "auth_ok l ?c" for l
    by (simp_all add: new_gh_auth_def fingerprint_def auth_ok_def)
  note n = auths_ok_store [OF assms c(3)]
  show ?thesis
  proof (cases "dget (app_auths s) (fingerprint ?c)")
    case None
    with c n show ?thesis
      by (simp add: app_auth_def Let_def bindM_def getM_def thenM_def store_auth_def modifyM_def ret_def)
  next
    case (Some a)
    with assms have "fingerprint a = fingerprint ?c" "auth_ok (trace s) a"
      unfolding auths_ok_def by blast+
    with Some c n assms show ?thesis
      by (simp add: app_auth_def Let_def bindM_def getM_def thenM_def store_auth_def modifyM_def ret_def)
  qed
qed

lemma valid_token_returns: "\<exists>c s1. valid_token a k env s = (Inr c, s1)"
  by (cases "dget (gh_tokens a) k")
     (auto simp: valid_token_def bindM_def monotonic_def ret_def Let_def)

lemma installation_token_run:
  assumes ok: "auths_ok s" and a: "auth_ok (trace s) a"
    and r: "installation_token_for a owner repo env s = (r, s')"
  shows "auths_ok s' \<and> (\<forall>t. r = Inr t \<longrightarrow> minted (trace s') (gh_api a) (owner, repo) t)"
proof -
  obtain c s1 where 1: "valid_token a (owner, repo) env s = (Inr c, s1)"
    using valid_token_returns by blast
  have g1: "set (trace s) \<subseteq> set (trace s1)" by (rule grows_set [OF grows_token_parts(2) 1])
  have ok1: "auths_ok s1"
    using ok keeps_valid_token 1 g1 unfolding keeps_auths_def by (metis auths_ok_mono snd_conv)
  have a1: "auth_ok (trace s1) a" using a g1 by (rule auth_ok_mono)
  show ?thesis
  proof (cases c)
    case (Some t)
    with 1 obtain d where "dget (gh_tokens a) (owner, repo) = Some (t, d)"
      by (auto simp: valid_token_def bindM_def monotonic_def ret_def Let_def
          split: option.splits if_splits)
    with a1 have "minted (trace s1) (gh_api a) (owner, repo) t" by (auto simp: auth_ok_def)
    with r 1 Some ok1 show ?thesis by (auto simp: installation_token_for_def bindM_def ret_def)
  next
    case None
    obtain m s2 where 2: "mint_token a owner repo env s1 = (m, s2)"
      by (cases "mint_token a owner repo env s1")
    have g2: "set (trace s1) \<subseteq> set (trace s2)" by (rule grows_set [OF grows_token_parts(1) 2])
    have ok2: "auths_ok s2"
      using ok1 keeps_mint_token 2 g2 unfolding keeps_auths_def by (metis auths_ok_mono snd_conv)
    show ?thesis
    proof (cases m)
      case (Inl e)
      with r 1 2 None ok2 show ?thesis by (auto simp: installation_token_for_def bindM_def)
    next
      case (Inr t)
      with 2 have m: "minted (trace s2) (gh_api a) (owner, repo) t"
        by (auto intro: mint_token_minted)
      obtain n x where 3: "monotonic env s2 = (Inr n, s2\<lparr>trace := x # trace s2\<rparr>)"
        by (auto simp: monotonic_def Let_def)
      let ?s3 = "s2\<lparr>trace := x # trace s2\<rparr>"
      let ?a = "a\<lparr>gh_tokens := dset (owner, repo) (t, n + TOKEN_TTL_SECONDS) (gh_tokens a)\<rparr>"
      have ok3: "auths_ok ?s3" by (rule auths_ok_mono [OF ok2]) auto
      have m3: "minted (trace ?s3) (gh_api a) (owner, repo) t"
        by (rule minted_mono [OF m]) auto
      have "auth_ok (trace ?s3) a" by (rule auth_ok_mono [OF a1]) (use g2 in auto)
      with m3 have "auth_ok (trace ?s3) ?a" by (auto simp: auth_ok_def)
      with ok3 have "auths_ok (?s3\<lparr>app_auths := dset (fingerprint ?a) ?a (app_auths ?s3)\<rparr>)"
        by (rule auths_ok_store)
      moreover have "fingerprint ?a = fingerprint a" by (simp add: fingerprint_def)
      ultimately show ?thesis
        using r 1 2 3 None Inr m3
        by (auto simp: installation_token_for_def bindM_def thenM_def store_auth_def modifyM_def ret_def)
    qed
  qed
qed

text \<open>The cache of installation tokens never mixes repositories. If every cached token was
  answered to a request restricted to the repository it is filed under, then after asking
  for a token, whatever GitHub answers, this still holds, and the token handed out was
  answered to a request restricted to the repository asked for.\<close>

lemma token_cache_scoped:
  assumes "auths_ok s"
    and "bindM (app_auth app_id key api) (\<lambda>a. installation_token_for a owner repo) env s = (r, s')"
  shows "auths_ok s' \<and>
    (\<forall>t. r = Inr t \<longrightarrow> minted (trace s') (rstrip_of ''/'' api) (owner, repo) t)"
proof -
  obtain a s1 where 1: "app_auth app_id key api env s = (Inr a, s1)" "auths_ok s1"
    "auth_ok (trace s1) a" "fingerprint a = (rstrip_of ''/'' api, strip app_id)"
    using app_auth_run [OF assms(1)] by blast
  with assms(2) have "installation_token_for a owner repo env s1 = (r, s')"
    by (simp add: bindM_def)
  from installation_token_run [OF 1(2,3) this] 1(4) show ?thesis
    by (auto simp: fingerprint_def)
qed

text \<open>A first token, minted and cached.\<close>

lemma token_cache_scoped_witness:
  "\<exists>s'. auths_ok s' \<and> minted (trace s') ''https://gh'' (''acme'', ''shop'') ''tok''"
proof -
  let ?env = "\<lambda>l c. Inr (JObj [(''id'', JInt 7), (''token'', JStr ''tok'')])"
  let ?m = "bindM (app_auth ''12'' ''pem'' ''https://gh'')
    (\<lambda>a. installation_token_for a ''acme'' ''shop'')"
  have a: "auths_ok init_st" by (simp add: auths_ok_def init_st_def)
  have "fst (?m ?env init_st) = Inr ''tok''"
    by (simp add: app_auth_def new_gh_auth_def Let_def bindM_def getM_def init_st_def thenM_def
        store_auth_def modifyM_def ret_def installation_token_for_def valid_token_def mint_token_def
        app_jwt_def unix_time_def callM_def find_installation_def tryM_def github_request_def
        item_def monotonic_def)
  then obtain s' where r: "?m ?env init_st = (Inr ''tok'', s')" by (metis prod.collapse)
  have "rstrip_of ''/'' ''https://gh'' = ''https://gh''" by (simp add: rstrip_of_def)
  with token_cache_scoped [OF a r] show ?thesis by auto
qed

end
