(* ===== verification/Harbor.thy ===== *)
theory Harbor
  imports Runs Requeue
begin

text \<open>
  \<open>harbor.py\<close>: the admin client that ensures the registry project and its pull-only robot.
  An \<open>HTTPError\<close> is an answer \<open>HttpErr\<close>, any other transport failure (\<open>URLError\<close>) the
  answer \<open>OtherErr\<close> with its reason; both become a \<open>HarborError\<close>.
\<close>

record harbor_client =
  hb_base :: string
  hb_auth :: string

definition basic_auth :: "string \<Rightarrow> string \<Rightarrow> string" where
  "basic_auth username password = b64encode (username @ '':'' @ password)"

definition new_harbor_client :: "string \<Rightarrow> string \<Rightarrow> string \<Rightarrow> harbor_client" where
  "new_harbor_client base_url username password =
     \<lparr> hb_base = rstrip_of ''/'' base_url, hb_auth = basic_auth username password \<rparr>"

definition harbor_headers ::
    "string \<Rightarrow> (string \<times> string) list \<Rightarrow> json \<Rightarrow> (string \<times> string) list" where
  "harbor_headers auth headers body =
     [(''Authorization'', ''Basic '' @ auth), (''Accept'', ''application/json'')] @ headers @
     (if body \<noteq> JNull then [(''Content-Type'', ''application/json'')] else [])"

definition harbor_request ::
    "harbor_client \<Rightarrow> string \<Rightarrow> string \<Rightarrow> json \<Rightarrow> (string \<times> string) list \<Rightarrow> json M" where
  "harbor_request h method path body headers =
     tryM (callM (Http method (hb_base h @ ''/api/v2.0'' @ path)
             (harbor_headers (hb_auth h) headers body) body))
       (\<lambda>e. case e of
          Ext (HttpErr code t) \<Rightarrow>
            raise (HarborError (''harbor '' @ method @ '' '' @ path @ '': HTTP '' @ int_str code))
        | Ext (OtherErr reason) \<Rightarrow>
            raise (HarborError (''harbor '' @ method @ '' '' @ path @ '': '' @ reason))
        | _ \<Rightarrow> raise e)"

definition ensure_project :: "harbor_client \<Rightarrow> string \<Rightarrow> unit M" where
  "ensure_project h project =
     tryM (thenM (harbor_request h ''POST'' ''/projects''
              (JObj [(''project_name'', JStr project),
                     (''metadata'', JObj [(''public'', JStr ''false'')])]) [])
            (ret ()))
       (\<lambda>e. case e of
          HarborError t \<Rightarrow> if is_infix ''HTTP 409'' t then ret () else raise e
        | _ \<Rightarrow> raise e)"

definition is_robot :: "string \<Rightarrow> json \<Rightarrow> bool" where
  "is_robot name robot \<longleftrightarrow> ends_with (''+'' @ name) (sget robot ''name'')"

definition robot_request :: "string \<Rightarrow> string \<Rightarrow> json" where
  "robot_request project name = JObj
     [(''name'', JStr name),
      (''description'', JStr ''platform-controller: image pulls for app namespaces''),
      (''duration'', JInt (- 1)),
      (''level'', JStr ''project''),
      (''permissions'', JArr [JObj
         [(''kind'', JStr ''project''), (''namespace'', JStr project),
          (''access'', JArr [JObj
             [(''resource'', JStr ''repository''), (''action'', JStr ''pull'')]])]])]"

definition ensure_pull_robot :: "harbor_client \<Rightarrow> string \<Rightarrow> string \<Rightarrow> (string \<times> string) M" where
  "ensure_pull_robot h project name =
     bindM (harbor_request h ''GET'' (''/projects/'' @ project @ ''/robots?page_size=100'') JNull
              [(''X-Is-Resource-Name'', ''true'')]) (\<lambda>existing.
     thenM (forM (jlist (jor existing (JArr []))) (\<lambda>robot.
        whenM (is_robot name robot)
          (bindM (item robot ''id'') (\<lambda>i.
           thenM (harbor_request h ''DELETE'' (''/robots/'' @ py_str i) JNull []) (ret ())))))
    (bindM (harbor_request h ''POST'' ''/robots'' (robot_request project name) []) (\<lambda>created.
     let username = sget created ''name''; secret = sget created ''secret'' in
     if username = [] \<or> secret = []
     then raise (HarborError ''harbor robot creation returned no credentials'')
     else ret (username, secret))))"

section \<open>Facts\<close>

lemma quiet_harbor_request [quiet_intros]: "quiet (harbor_request h m p b hs)"
  unfolding harbor_request_def
proof (rule quiet_tryM [OF quiet_callM])
  fix e
  assume "\<not> is_temporary e"
  then show "quiet (case e of
      Ext (HttpErr code t) \<Rightarrow>
        raise (HarborError (''harbor '' @ m @ '' '' @ p @ '': HTTP '' @ int_str code))
    | Ext (OtherErr reason) \<Rightarrow> raise (HarborError (''harbor '' @ m @ '' '' @ p @ '': '' @ reason))
    | _ \<Rightarrow> raise e)"
    by (auto intro: quiet_raise split: exn.split xerr.split)
qed

lemma quiet_ensure_project [quiet_intros]: "quiet (ensure_project h p)"
  unfolding ensure_project_def
proof (rule quiet_tryM)
  fix e
  assume "\<not> is_temporary e"
  then show "quiet (case e of HarborError t \<Rightarrow> if is_infix ''HTTP 409'' t then ret () else raise e
    | _ \<Rightarrow> raise e)"
    by (auto intro: quiet_raise quiet_ret split: exn.split)
qed (intro quiet_intros)

lemma quiet_ensure_pull_robot [quiet_intros]: "quiet (ensure_pull_robot h p n)"
  unfolding ensure_pull_robot_def Let_def by (intro quiet_intros; simp)

text \<open>Every request of the client, whatever its method.\<close>

definition harbor_call :: "harbor_client \<Rightarrow> call \<Rightarrow> bool" where
  "harbor_call h c \<longleftrightarrow> (\<exists>m p hs b. c = Http m (hb_base h @ ''/api/v2.0'' @ p) hs b)"

lemma only_harbor_request [only_intros]:
  "(\<And>c. harbor_call h c \<Longrightarrow> P c) \<Longrightarrow> only P (harbor_request h m p b hs)"
  unfolding harbor_request_def
  by (intro only_tryM only_callM)
     (auto simp: harbor_call_def intro: only_raise split: exn.split xerr.split)

lemma only_ensure_project [only_intros]:
  "(\<And>c. harbor_call h c \<Longrightarrow> P c) \<Longrightarrow> only P (ensure_project h p)"
  unfolding ensure_project_def
  by (intro only_tryM only_thenM only_harbor_request only_ret)
     (auto intro: only_raise only_ret split: exn.split)

lemma only_ensure_pull_robot [only_intros]:
  "(\<And>c. harbor_call h c \<Longrightarrow> P c) \<Longrightarrow> only P (ensure_pull_robot h p n)"
  unfolding ensure_pull_robot_def Let_def by (intro only_intros; simp)

end
