(* ===== verification/Application.thy ===== *)
theory Application
  imports Database Authentik Github Harbor
begin

text \<open>
  \<open>chartvalues.py\<close> and \<open>handlers/application.py\<close>: the application engine. The reconcile
  handler is composed of its steps in the source's order: resolve the effective
  configuration, ensure the namespace, gate on the image build, gate on the database
  restore, build the chart values, apply the Argo CD Application, report, wait for SSO.
  \<open>_ensured_projects\<close> is the field \<open>ensured_projects\<close> of the state; logging is left out.
\<close>

section \<open>Chart values\<close>

text \<open>\<open>image.partition(":")\<close>: split at the first colon.\<close>

definition image_values :: "string \<Rightarrow> json" where
  "image_values img =
     (let repo = before (CHR '':'') img;
          tag = (case after (CHR '':'') img of Some t \<Rightarrow> t | None \<Rightarrow> []) in
      JObj ([(''repository'', JStr repo)] @ opt (tag \<noteq> []) ''tag'' (JStr tag)))"

definition ingress_values :: "string \<Rightarrow> string \<Rightarrow> json list \<Rightarrow> json \<Rightarrow> json" where
  "ingress_values ingress_host ingress_class_name ingress_tls annotations = JObj
     ([(''enabled'', JBool True),
       (''className'', JStr ingress_class_name),
       (''hosts'', JArr [JObj
          [(''host'', JStr ingress_host),
           (''paths'', JArr [JObj [(''path'', JStr ''/''), (''pathType'', JStr ''Prefix'')]])]])] @
      opt (ingress_tls \<noteq> []) ''tls'' (JArr ingress_tls) @
      opt (truthy annotations) ''annotations'' annotations)"

definition build_chart_values ::
    "string \<Rightarrow> int \<Rightarrow> string \<Rightarrow> string \<Rightarrow> string \<Rightarrow> json list \<Rightarrow> json \<Rightarrow> json list \<Rightarrow> json list \<Rightarrow>
     json list \<Rightarrow> dict \<Rightarrow> string \<Rightarrow> string \<Rightarrow> dict" where
  "build_chart_values client_slug replicas img ingress_host ingress_class_name ingress_tls
       annotations databases sso env oidc env_from_secret image_pull_secret =
     [(''platform'', JObj [(''client'', JStr client_slug)]),
      (''replicaCount'', JInt replicas),
      (''databases'', JArr databases),
      (''sso'', JArr sso),
      (''env'', JArr env)] @
     opt (env_from_secret \<noteq> []) ''extraEnvFrom''
       (JArr [JObj [(''secretRef'', JObj [(''name'', JStr env_from_secret)])]]) @
     opt (oidc \<noteq> []) ''oidc'' (JObj oidc) @
     opt (img \<noteq> []) ''image'' (image_values img) @
     opt (image_pull_secret \<noteq> []) ''imagePullSecrets''
       (JArr [JObj [(''name'', JStr image_pull_secret)]]) @
     opt (ingress_host \<noteq> []) ''ingress''
       (ingress_values ingress_host ingress_class_name ingress_tls annotations)"

section \<open>Names\<close>

abbreviation PUSH_SECRET_NAME :: string where "PUSH_SECRET_NAME \<equiv> ''harbor-push''"
abbreviation PULL_SECRET_NAME :: string where "PULL_SECRET_NAME \<equiv> ''harbor-pull''"
abbreviation BUILD_POLL_DELAY :: int where "BUILD_POLL_DELAY \<equiv> 15"
abbreviation BUILD_FAIL_DELAY :: int where "BUILD_FAIL_DELAY \<equiv> 120"
abbreviation RESTORE_POLL_DELAY :: int where "RESTORE_POLL_DELAY \<equiv> 15"
abbreviation RESTORE_FAIL_DELAY :: int where "RESTORE_FAIL_DELAY \<equiv> 120"
abbreviation INTEGRATION_DELAY :: int where "INTEGRATION_DELAY \<equiv> 20"
abbreviation SSO_POLL_DELAY :: int where "SSO_POLL_DELAY \<equiv> 15"
abbreviation ANN_REPO :: string where "ANN_REPO \<equiv> ''platform.adomi.io/repo''"
abbreviation ANN_PR_NUMBER :: string where "ANN_PR_NUMBER \<equiv> ''platform.adomi.io/pr-number''"
abbreviation ANN_COMMIT_SHA :: string where "ANN_COMMIT_SHA \<equiv> ''platform.adomi.io/commit-sha''"

definition argo_app_name :: "effective \<Rightarrow> string" where
  "argo_app_name eff =
     rstrip_of ''-'' (take 63 (eff_namespace eff @ ''-'' @ eff_app_name eff))"

definition git_secret_name :: "string \<Rightarrow> string \<Rightarrow> string" where
  "git_secret_name ns app = take 253 (''git-'' @ ns @ ''-'' @ app)"

definition build_workflow_name :: "string \<Rightarrow> string \<Rightarrow> string \<Rightarrow> string" where
  "build_workflow_name ns app ref =
     take 253 (''build-'' @ ns @ ''-'' @ app @ ''-'' @ sanitize_tag ref)"

definition restore_workflow_name :: "string \<Rightarrow> string \<Rightarrow> string \<Rightarrow> string" where
  "restore_workflow_name ns app snapshot =
     take 253 (''restore-'' @ ns @ ''-'' @ app @ ''-'' @ snapshot)"

definition scoped_secret_name :: "string \<Rightarrow> string" where
  "scoped_secret_name app_name = take 253 (app_name @ ''-scoped-secrets'')"

section \<open>SSO values and scoped secrets\<close>

definition resolve_oidc :: "config \<Rightarrow> json \<Rightarrow> string \<Rightarrow> (dict \<times> bool) M" where
  "resolve_oidc cfg spec ns =
     (case lget spec ''sso'' of
        [] \<Rightarrow> ret ([], True)
      | primary # _ \<Rightarrow>
          if \<not> truthy primary \<or> sor (sget primary ''protocol'') ''oauth2'' \<noteq> ''oauth2''
          then ret ([], True)
          else
            let creds = oget primary ''credentials''; secret = sget creds ''secret'';
                authority = resolved_authentik_url cfg in
            if secret = [] \<or> authority = [] then ret ([], True)
            else bindM (item primary ''name'') (\<lambda>name.
              bindM (on_not_found (bindM (get_sso_application (jstr name) ns) (\<lambda>j. ret (Some j)))
                      (\<lambda>_. ret None)) (\<lambda>found. case found of
                None \<Rightarrow> ret ([], False)
              | Some sso \<Rightarrow>
                  let client_id = sget (oget sso ''status'') ''clientID'' in
                  if client_id = [] then ret ([], False)
                  else ret (descriptor_values authority
                         (sor (sget (oget sso ''status'') ''slug'')
                            (sor (sget primary ''slug'') (jstr name)))
                         (JStr client_id) (JStr secret) (map jstr (lget primary ''scopes''))
                         (JStr (sor (sget creds ''clientSecretKey'') ''client-secret'')), True))))"

text \<open>The comprehension \<open>[p for p in paths if bao.read(p)]\<close>.\<close>

fun held_paths :: "config \<Rightarrow> string list \<Rightarrow> string list M" where
  "held_paths cfg [] = ret []"
| "held_paths cfg (p # ps) =
     bindM (bao_read cfg p) (\<lambda>found.
     bindM (held_paths cfg ps) (\<lambda>qs.
     ret (case found of Some j \<Rightarrow> if truthy j then p # qs else qs | None \<Rightarrow> qs)))"

definition scoped_external_secret ::
    "config \<Rightarrow> effective \<Rightarrow> (string \<times> string) list \<Rightarrow> string list \<Rightarrow> external_secret" where
  "scoped_external_secret cfg eff labels paths =
     (external_secret0 (scoped_secret_name (eff_app_name eff)) (eff_namespace eff)
        (cluster_secret_store cfg) [])
       \<lparr> es_data_from_paths := paths, es_refresh_interval := ''1m'', es_labels := labels \<rparr>"

definition reconcile_scoped_secrets ::
    "config \<Rightarrow> effective \<Rightarrow> (string \<times> string) list \<Rightarrow> string M" where
  "reconcile_scoped_secrets cfg eff labels =
     (let name = scoped_secret_name (eff_app_name eff) in
      tryM (bindM (held_paths cfg (eff_scoped_secret_paths eff)) (\<lambda>paths.
              if paths = [] then thenM (delete_es name (eff_namespace eff)) (ret [])
              else thenM (apply_es (scoped_external_secret cfg eff labels paths)) (ret name)))
        (\<lambda>_. ret []))"

section \<open>The image build\<close>

definition github_app_token :: "config \<Rightarrow> string \<Rightarrow> string M" where
  "github_app_token cfg repo_url =
     (if github_app_secret_path cfg = [] \<or> \<not> is_github_url repo_url then ret []
      else bindM (bao_read cfg (github_app_secret_path cfg)) (\<lambda>found.
        let creds = or_empty found;
            app_id = strip (py_str (jor (jget creds (github_app_id_key cfg)) (JStr [])));
            private_key = sget creds (github_app_private_key_key cfg);
            (owner, repo) = parse_owner_repo repo_url in
        if app_id = [] \<or> private_key = [] \<or> owner = [] \<or> repo = [] then ret []
        else tryM (bindM (app_auth app_id private_key (github_api_url cfg))
                     (\<lambda>auth. installation_token_for auth owner repo))
               (\<lambda>e. case e of GitHubAppError t \<Rightarrow> ret [] | _ \<Rightarrow> raise e)))"

definition ensure_project_once :: "harbor_client \<Rightarrow> string \<Rightarrow> string \<Rightarrow> unit M" where
  "ensure_project_once registry api_base project =
     bindM (getM ensured_projects) (\<lambda>ensured.
     whenM ((api_base, project) \<notin> set ensured)
       (thenM (ensure_project registry project)
              (modifyM (\<lambda>s. s\<lparr>ensured_projects := (api_base, project) # ensured_projects s\<rparr>))))"

definition pull_external_secret ::
    "config \<Rightarrow> effective \<Rightarrow> string \<Rightarrow> (string \<times> string) list \<Rightarrow> external_secret" where
  "pull_external_secret cfg eff host labels =
     (external_secret0 PULL_SECRET_NAME (eff_namespace eff) (cluster_secret_store cfg)
        (harbor_pull_secret_path cfg))
       \<lparr> es_data_map := [(''username'', ''username''), (''password'', ''password'')],
         es_template_type := ''kubernetes.io/dockerconfigjson'',
         es_template_data := [(''.dockerconfigjson'', dockerconfigjson_template host)],
         es_labels := labels \<rparr>"

definition ensure_pull_secret ::
    "config \<Rightarrow> effective \<Rightarrow> string \<Rightarrow> string \<Rightarrow> (string \<times> string) list \<Rightarrow> unit M" where
  "ensure_pull_secret cfg eff host admin_password labels =
     whenM (harbor_pull_secret_path cfg \<noteq> [])
      (let api_base = sor (harbor_push_endpoint cfg) (''https://'' @ host);
           registry = new_harbor_client api_base (harbor_username cfg) admin_password in
       thenM (ensure_project_once registry api_base (harbor_project cfg))
      (bindM (bao_read cfg (harbor_pull_secret_path cfg)) (\<lambda>found.
       let creds = or_empty found in
       thenM (whenM (\<not> (truthy (jget creds ''username'') \<and> truthy (jget creds ''password'')))
          (bindM (ensure_pull_robot registry (harbor_project cfg) ''pull'') (\<lambda>(username, secret).
           bao_write cfg (harbor_pull_secret_path cfg)
             [(''username'', JStr username), (''password'', JStr secret)])))
       (thenM (apply_es (pull_external_secret cfg eff host labels)) (ret ())))))"

section \<open>Feedback on pull requests\<close>

definition pr_info :: "json \<Rightarrow> (string \<times> string \<times> int \<times> string) option" where
  "pr_info meta =
     (let ann = oget meta ''annotations'';
          repo = sget ann ANN_REPO; number = sget ann ANN_PR_NUMBER;
          sha = sget ann ANN_COMMIT_SHA in
      case after (CHR ''/'') repo of
        None \<Rightarrow> None
      | Some name \<Rightarrow>
          if number = [] \<or> sha = [] then None
          else (case py_int number of
                  Some n \<Rightarrow> Some (before (CHR ''/'') repo, name, n, sha)
                | None \<Rightarrow> None))"

definition pr_github_client :: "config \<Rightarrow> json \<Rightarrow> string \<Rightarrow> github_client option M" where
  "pr_github_client cfg source ns =
     (let repo_ref = ref_name source ''repositoryRef'' in
      if repo_ref = [] then ret None
      else bindM (on_not_found (bindM (get_gitrepository repo_ref ns) (\<lambda>j. ret (Some j)))
                    (\<lambda>_. ret None)) (\<lambda>found. case found of
             None \<Rightarrow> ret None
           | Some gitrepo \<Rightarrow>
               let cred = oget (oget gitrepo ''spec'') ''credentialsSecretRef'';
                   cred_name = sget cred ''name'' in
               if cred_name = [] then ret None
               else bindM (read_key cred_name ns (sor (sget cred ''key'') ''token''))
                      (\<lambda>token. ret (Some (new_github_client token (github_api_url cfg))))))"

definition report_pr ::
    "config \<Rightarrow> json \<Rightarrow> json \<Rightarrow> string \<Rightarrow> string \<Rightarrow> string \<Rightarrow> string \<Rightarrow> bool \<Rightarrow> unit M" where
  "report_pr cfg source meta ns state target_url description comment =
     (case pr_info meta of
        None \<Rightarrow> ret ()
      | Some (owner, repo, number, sha) \<Rightarrow> attempt
          (bindM (pr_github_client cfg source ns) (\<lambda>client. case client of
             None \<Rightarrow> ret ()
           | Some gh \<Rightarrow>
               thenM (set_commit_status gh owner repo sha state target_url description)
                     (whenM (comment \<and> target_url \<noteq> [])
                        (upsert_pr_comment gh owner repo number
                           (preview_comment_body target_url))))))"

section \<open>The build gate\<close>

definition app_labels :: "effective \<Rightarrow> (string \<times> string) list" where
  "app_labels eff =
     [(''app.kubernetes.io/managed-by'', MANAGED_BY),
      (''platform.adomi.io/client'', eff_client_slug eff),
      (''platform.adomi.io/environment'', eff_environment_name eff),
      (''platform.adomi.io/application'', eff_app_name eff)]"

text \<open>The \<open>try\<close> block that prepares the push, pull and git credentials.\<close>

definition prepare_build_secrets ::
    "config \<Rightarrow> effective \<Rightarrow> json \<Rightarrow> string \<Rightarrow> string \<Rightarrow> string \<Rightarrow> string \<Rightarrow> json \<Rightarrow> json \<Rightarrow>
     unit M" where
  "prepare_build_secrets cfg eff repo_spec ns host push_image git_secret status generation =
     bindM (bao_read cfg (harbor_secret_path cfg)) (\<lambda>found.
     let password = strip (sget (or_empty found) (harbor_secret_key cfg)) in
     thenM (whenM (password = [])
        (fail status REASON_DEPENDENCY_NOT_MET ''Harbor push password missing'' generation))
    (thenM (apply_secret (dockerconfig PUSH_SECRET_NAME (argo_namespace cfg)
              (before (CHR ''/'') push_image) (harbor_username cfg) password))
    (thenM (ensure_pull_secret cfg eff host password (app_labels eff))
     (let cred_ref = oget repo_spec ''credentialsSecretRef''; cred_name = sget cred_ref ''name'' in
      bindM (if cred_name \<noteq> [] then read_key cred_name ns (sor (sget cred_ref ''key'') ''token'')
             else github_app_token cfg (sget repo_spec ''url'')) (\<lambda>token.
      apply_secret (token_secret git_secret (argo_namespace cfg) token))))))"

definition build_workflow ::
    "config \<Rightarrow> effective \<Rightarrow> json \<Rightarrow> string \<Rightarrow> string \<Rightarrow> string \<Rightarrow> bool \<Rightarrow> string \<Rightarrow> workflow" where
  "build_workflow cfg eff source repo_url ref push_image push_insecure git_secret =
     \<lparr> wf_name = build_workflow_name (eff_namespace eff) (eff_app_name eff) ref,
       wf_namespace = argo_namespace cfg,
       wf_template = build_workflow_template cfg,
       wf_parameters =
         [(''repoURL'', repo_url), (''ref'', ref),
          (''contextPath'', sor (sget source ''contextPath'') ''.''),
          (''dockerfile'', sor (sget source ''dockerfile'') ''Dockerfile''),
          (''baseImage'', sor (sget source ''baseImage'')
             (eff_image_repository eff @ '':'' @ eff_image_tag eff)),
          (''outputImage'', push_image),
          (''insecurePush'', if push_insecure then ''true'' else ''false''),
          (''pushSecret'', PUSH_SECRET_NAME),
          (''gitSecret'', git_secret)],
       wf_service_account = build_service_account cfg,
       wf_labels = app_labels eff \<rparr>"

text \<open>The poll of the build Workflow, from the read of its phase on.\<close>

definition await_build ::
    "config \<Rightarrow> effective \<Rightarrow> json \<Rightarrow> string \<Rightarrow> json \<Rightarrow> json \<Rightarrow> json \<Rightarrow> string \<Rightarrow> string \<Rightarrow> string M" where
  "await_build cfg eff source ns meta status generation built_image wname =
     bindM (read_workflow wname (argo_namespace cfg)) (\<lambda>found.
     let ph = phase found in
     if ph = PHASE_SUCCEEDED then ret built_image
     else if ph = PHASE_FAILED \<or> ph = PHASE_ERROR
     then thenM (set_status ''phase'' (JStr ''BuildFailed''))
         (thenM (report_pr cfg source meta ns ''failure'' (eff_url eff) ''Build failed'' False)
                (fail_after BUILD_FAIL_DELAY status REASON_BACKEND_ERROR
                   (''build Workflow '' @ repr wname @ '' '' @ lower ph) generation))
     else thenM (set_status ''phase'' (JStr ''Building''))
         (thenM (report_pr cfg source meta ns ''pending'' (eff_url eff) ''Building image'' False)
                (fail_after BUILD_POLL_DELAY status REASON_RECONCILING
                   (''building image (Workflow '' @ repr wname @ '')'') generation)))"

definition reconcile_build ::
    "config \<Rightarrow> effective \<Rightarrow> json \<Rightarrow> string \<Rightarrow> json \<Rightarrow> json \<Rightarrow> json \<Rightarrow> string M" where
  "reconcile_build cfg eff source ns meta status generation =
     (let repo_ref = ref_name source ''repositoryRef'' in
      thenM (whenM (repo_ref = [])
         (fail status REASON_INVALID_SPEC ''source.repositoryRef.name is required'' generation))
     (bindM (on_not_found (get_gitrepository repo_ref ns)
               (\<lambda>t. fail status REASON_DEPENDENCY_NOT_MET t generation)) (\<lambda>gitrepo.
      let repo_spec = oget gitrepo ''spec''; repo_url = sget repo_spec ''url'' in
      thenM (whenM (repo_url = []) (fail status REASON_DEPENDENCY_NOT_MET
         (''GitRepository '' @ repr repo_ref @ '' has no url'') generation))
      (let ref = sor (sget source ''ref'') (sor (sget repo_spec ''defaultBranch'') ''main'');
           host = resolved_harbor_host cfg in
       thenM (whenM (host = [])
          (fail status REASON_INVALID_SPEC ''no Harbor host configured'' generation))
       (let built_image = built_image_ref host (harbor_project cfg) (eff_client_slug eff)
              (eff_app_name eff) ref in
        bindM (of_result (push_image_ref built_image (harbor_push_endpoint cfg)))
          (\<lambda>(push_image, push_insecure).
        let git_secret = git_secret_name (eff_namespace eff) (eff_app_name eff);
            wname = build_workflow_name (eff_namespace eff) (eff_app_name eff) ref in
        thenM (or_fail_keep status generation ''preparing build secrets: ''
           (prepare_build_secrets cfg eff repo_spec ns host push_image git_secret status
              generation))
       (thenM (or_fail status generation ''submitting build Workflow: ''
           (thenM (apply_workflow (build_workflow cfg eff source repo_url ref push_image
                     push_insecure git_secret)) (ret ())))
       (thenM (set_status ''buildWorkflow'' (JStr wname))
              (await_build cfg eff source ns meta status generation built_image wname)))))))))"

section \<open>The restore gate\<close>

text \<open>The \<open>try\<close> block that submits the restore Workflow.\<close>

definition submit_restore ::
    "config \<Rightarrow> db_connection \<Rightarrow> string \<Rightarrow> string \<Rightarrow> bool \<Rightarrow> string \<Rightarrow> unit M" where
  "submit_restore cfg conn s3_key odoo_image sanitize wname =
     bindM (ensure_secrets cfg conn) (\<lambda>(db_secret, s3_secret).
     thenM (apply_workflow
        \<lparr> wf_name = wname, wf_namespace = argo_namespace cfg,
          wf_template = restore_workflow_template cfg,
          wf_parameters =
            restore_params cfg conn s3_key db_secret s3_secret odoo_image sanitize,
          wf_service_account = build_service_account cfg,
          wf_labels = [(''app.kubernetes.io/managed-by'', MANAGED_BY)] \<rparr>)
      (ret ()))"

definition await_restore :: "config \<Rightarrow> json \<Rightarrow> json \<Rightarrow> string \<Rightarrow> string \<Rightarrow> unit M" where
  "await_restore cfg status generation snap_ref wname =
     bindM (read_workflow wname (argo_namespace cfg)) (\<lambda>found.
     let ph = phase found in
     if ph = PHASE_SUCCEEDED then set_status ''restoredFrom'' (JStr snap_ref)
     else if ph = PHASE_FAILED \<or> ph = PHASE_ERROR
     then thenM (set_status ''phase'' (JStr ''RestoreFailed''))
            (fail_after RESTORE_FAIL_DELAY status REASON_BACKEND_ERROR
               (''restore Workflow '' @ repr wname @ '' '' @ lower ph) generation)
     else thenM (set_status ''phase'' (JStr ''Restoring''))
            (fail_after RESTORE_POLL_DELAY status REASON_RECONCILING
               (''restoring database (Workflow '' @ repr wname @ '')'') generation))"

definition restore_target :: "json \<Rightarrow> string \<Rightarrow> effective \<Rightarrow> json" where
  "restore_target spec ns eff = JObj
     [(''spec'', spec), (''metadata'', JObj [(''namespace'', JStr ns)]),
      (''status'', JObj [(''namespace'', JStr (eff_namespace eff))])]"

definition reconcile_restore ::
    "config \<Rightarrow> effective \<Rightarrow> json \<Rightarrow> string \<Rightarrow> string \<Rightarrow> json \<Rightarrow> json \<Rightarrow> unit M" where
  "reconcile_restore cfg eff spec ns built_image status generation =
     bindM (on_not_found (app_db_connection (restore_target spec ns eff))
              (\<lambda>t. fail_after INTEGRATION_DELAY status REASON_DEPENDENCY_NOT_MET
                     (''restoreFrom: '' @ t) generation)) (\<lambda>conn.
     let restore_from = jget spec ''restoreFrom'';
         snap_ref = ref_name restore_from ''snapshotRef'' in
     thenM (whenM (snap_ref = [])
        (fail status REASON_INVALID_SPEC ''restoreFrom.snapshotRef.name is required'' generation))
     (if jget status ''restoredFrom'' = JStr snap_ref then ret ()
      else
        bindM (on_not_found (get_snapshot snap_ref ns)
                 (\<lambda>t. fail status REASON_DEPENDENCY_NOT_MET t generation)) (\<lambda>snap.
        let snap_status = oget snap ''status'' in
        thenM (whenM (jget snap_status ''phase'' \<noteq> JStr ''Completed'' \<or>
                      sget snap_status ''location'' = [])
           (fail status REASON_DEPENDENCY_NOT_MET
              (''snapshot '' @ repr snap_ref @ '' not completed'') generation))
        (let s3_key = snapshot_object_key ns snap_ref;
             sanitize = (if jhas restore_from ''sanitize''
               then truthy (jget restore_from ''sanitize'')
               else sanitize_default (eff_environment_class eff));
             odoo_image = sor built_image (eff_image_repository eff @ '':'' @ eff_image_tag eff);
             wname = restore_workflow_name (eff_namespace eff) (eff_app_name eff) snap_ref in
         thenM (or_fail_keep status generation ''submitting restore Workflow: ''
                  (submit_restore cfg conn s3_key odoo_image sanitize wname))
        (thenM (set_status ''restoreWorkflow'' (JStr wname))
               (await_restore cfg status generation snap_ref wname))))))"

section \<open>The handler\<close>

text \<open>The \<open>try\<close> block of \<open>_resolve\<close>: the chain of references, any missing link ends it.\<close>

definition resolve_chain :: "string \<Rightarrow> string \<Rightarrow> string \<Rightarrow> string \<Rightarrow>
     (json \<times> string \<times> json \<times> json \<times> json \<times> string) M" where
  "resolve_chain environment_ref type_name domain_ref ns =
     bindM (get_environment environment_ref ns) (\<lambda>environment.
     let ws_spec = oget environment ''spec''; client_ref = ref_name ws_spec ''clientRef'' in
     bindM (get_client client_ref ns) (\<lambda>client_obj.
     bindM (get_organization (ref_name (oget client_obj ''spec'') ''organizationRef'')) (\<lambda>org.
     bindM (get_application_type type_name) (\<lambda>app_type.
     bindM (if domain_ref = [] then ret []
            else bindM (get_domain domain_ref ns) (\<lambda>d.
              ret (sor (sget (oget d ''status'') ''host'') (sget (oget d ''spec'') ''fqdn''))))
       (\<lambda>domain_fqdn. ret (ws_spec, client_ref, client_obj, org, app_type, domain_fqdn))))))"

definition resolve_effective ::
    "config \<Rightarrow> json \<Rightarrow> string \<Rightarrow> string \<Rightarrow> json \<Rightarrow> json \<Rightarrow> effective M" where
  "resolve_effective cfg spec name ns status generation =
     (let environment_ref = ref_name spec ''environmentRef''; type_name = sget spec ''type'' in
      thenM (whenM (environment_ref = [])
         (fail status REASON_INVALID_SPEC ''environmentRef.name is required'' generation))
     (thenM (whenM (type_name = [])
         (fail status REASON_INVALID_SPEC ''type is required'' generation))
     (bindM (on_not_found (resolve_chain environment_ref type_name (ref_name spec ''domainRef'') ns)
               (\<lambda>t. fail status REASON_DEPENDENCY_NOT_MET t generation))
        (\<lambda>(ws_spec, client_ref, client_obj, org, app_type, domain_fqdn).
      ret (compute cfg (oget org ''spec'') client_ref (oget client_obj ''spec'')
             environment_ref ws_spec name spec (oget app_type ''spec'') domain_fqdn
             (sget (oget org ''metadata'') ''name''))))))"

definition application_values ::
    "config \<Rightarrow> effective \<Rightarrow> json \<Rightarrow> int \<Rightarrow> string \<Rightarrow> dict \<Rightarrow> string \<Rightarrow> dict" where
  "application_values cfg eff spec replicas built_image oidc_values env_from_secret =
     deep_merge
       [eff_type_defaults eff,
        JObj (build_chart_values (eff_client_slug eff) replicas built_image (eff_hostname eff)
          (eff_ingress_class_name eff) (lget (oget spec ''ingress'') ''tls'')
          (jget (oget spec ''ingress'') ''annotations'')
          (lget spec ''databases'') (lget spec ''sso'') (eff_env eff) oidc_values env_from_secret
          (if built_image \<noteq> [] \<and> harbor_pull_secret_path cfg \<noteq> [] then PULL_SECRET_NAME else [])),
        oget spec ''values'']"

definition argo_application_of :: "config \<Rightarrow> effective \<Rightarrow> dict \<Rightarrow> argo_application" where
  "argo_application_of cfg eff vals =
     \<lparr> aa_name = argo_app_name eff, aa_namespace = argocd_namespace cfg,
       aa_repo_url = eff_chart_repo_url eff, aa_target_revision = eff_chart_target_revision eff,
       aa_dest_namespace = eff_namespace eff, aa_path = eff_chart_path eff,
       aa_chart = eff_chart_name eff, aa_values = vals, aa_project = argocd_project cfg,
       aa_labels = [(''app.kubernetes.io/managed-by'', MANAGED_BY)] \<rparr>"

text \<open>From the chart values on: apply the Argo CD Application, report, wait for SSO.\<close>

definition deploy_application ::
    "config \<Rightarrow> effective \<Rightarrow> json \<Rightarrow> string \<Rightarrow> string \<Rightarrow> json \<Rightarrow> json \<Rightarrow> json \<Rightarrow> unit M" where
  "deploy_application cfg eff spec built_image ns meta status generation =
     bindM (resolve_oidc cfg spec (eff_namespace eff)) (\<lambda>(oidc_values, sso_ready).
     bindM (reconcile_scoped_secrets cfg eff (app_labels eff)) (\<lambda>env_from_secret.
     bindM (to_int (jor (jget spec ''replicas'') (JInt 1))) (\<lambda>replicas.
     thenM (or_fail status generation ''applying Argo CD Application: ''
        (thenM (apply_argo (argo_application_of cfg eff
           (application_values cfg eff spec replicas built_image oidc_values env_from_secret)))
         (ret ())))
    (thenM (set_status ''url'' (JStr (eff_url eff)))
    (thenM (set_status ''argoApplication'' (JStr (argo_app_name eff)))
    (thenM (set_status ''phase'' (JStr ''Deployed''))
    (thenM (whenM (built_image \<noteq> []) (set_status ''builtImage'' (JStr built_image)))
    (thenM (report_pr cfg (jget spec ''source'') meta ns ''success'' (eff_url eff)
              ''Preview deployed'' True)
    (thenM (whenM (\<not> sso_ready) (fail_after SSO_POLL_DELAY status REASON_RECONCILING
              ''waiting for SSO client credentials to wire the application'' generation))
           (mark_ready status (''Application '' @ repr (eff_app_name eff) @ '' reconciled'')
              generation))))))))))"

definition application_reconcile ::
    "config \<Rightarrow> json \<Rightarrow> json \<Rightarrow> json \<Rightarrow> string \<Rightarrow> string \<Rightarrow> unit M" where
  "application_reconcile cfg spec meta status name ns =
     (let generation = generation_of meta in
      bindM (resolve_effective cfg spec name ns status generation) (\<lambda>eff.
      thenM (whenM (eff_hostname eff = []) (fail status REASON_INVALID_SPEC
         ''no hostname: set spec.ingress.host or provide an Organization base domain''
         generation))
     (thenM (set_status ''namespace'' (JStr (eff_namespace eff)))
     (thenM (or_fail status generation ''ensuring namespace: ''
         (apply_namespace \<lparr> nsp_name = eff_namespace eff, nsp_labels = app_labels eff \<rparr>))
     (bindM (if truthy (jget spec ''source'')
             then reconcile_build cfg eff (jget spec ''source'') ns meta status generation
             else ret []) (\<lambda>built_image.
      thenM (whenM (truthy (jget spec ''restoreFrom''))
         (reconcile_restore cfg eff spec ns built_image status generation))
      (deploy_application cfg eff spec built_image ns meta status generation)))))))"

definition application_finalize :: "config \<Rightarrow> json \<Rightarrow> unit M" where
  "application_finalize cfg status =
     (let app_ref = sget status ''argoApplication'' in
      thenM (whenM (app_ref \<noteq> []) (attempt (delete_argo app_ref (argocd_namespace cfg))))
      (forM [sget status ''buildWorkflow'', sget status ''restoreWorkflow''] (\<lambda>wname.
         whenM (wname \<noteq> []) (attempt (delete_workflow wname (argo_namespace cfg))))))"

section \<open>The contract\<close>

lemma quiet_resolve_oidc [quiet_intros]: "quiet (resolve_oidc cfg spec ns)"
  unfolding resolve_oidc_def Let_def by (intro quiet_intros; simp)

lemma quiet_held_paths [quiet_intros]: "quiet (held_paths cfg ps)"
  by (induction ps) (auto intro!: quiet_intros)

lemma quiet_scoped_secrets [quiet_intros]: "quiet (reconcile_scoped_secrets cfg eff labels)"
  unfolding reconcile_scoped_secrets_def Let_def by (intro quiet_intros)

lemma quiet_github_app_token [quiet_intros]: "quiet (github_app_token cfg url)"
  unfolding github_app_token_def Let_def
proof (intro quiet_intros quiet_tryM)
  fix e
  assume "\<not> is_temporary e"
  then show "quiet (case e of GitHubAppError t \<Rightarrow> ret [] | _ \<Rightarrow> raise e)"
    by (auto intro: quiet_raise quiet_ret split: exn.split)
qed

lemma quiet_ensure_project_once [quiet_intros]: "quiet (ensure_project_once h b p)"
  unfolding ensure_project_once_def by (intro quiet_intros quiet_modifyM; simp)

lemma quiet_ensure_pull_secret [quiet_intros]: "quiet (ensure_pull_secret cfg eff h p labels)"
  unfolding ensure_pull_secret_def Let_def by (intro quiet_intros)

lemma quiet_report_pr [quiet_intros]: "quiet (report_pr cfg source meta ns st url d c)"
  unfolding report_pr_def pr_github_client_def Let_def by (intro quiet_intros)

lemma guarded_prepare [guarded_intros]:
  "guarded g (prepare_build_secrets cfg eff rs ns h pi gs status g)"
  unfolding prepare_build_secrets_def Let_def
  by (intro guarded_intros guarded_quiet [OF quiet_bao(1)] guarded_quiet quiet_intros)

lemma push_image_error: "push_image_ref i e = Inl x \<Longrightarrow> \<not> is_temporary x"
  by (auto simp: push_image_ref_def Let_def split: if_splits option.splits)

lemma guarded_push_image: "guarded g (of_result (push_image_ref i e))"
  by (rule guarded_quiet [OF quiet_of_result]) (rule push_image_error)

lemma guarded_await_build [guarded_intros]:
  "guarded g (await_build cfg eff source ns meta status g img wn)"
  unfolding await_build_def Let_def
  by (intro guarded_intros guarded_quiet [OF quiet_report_pr]; simp)

lemma guarded_reconcile_build [guarded_intros]:
  "guarded g (reconcile_build cfg eff source ns meta status g)"
  unfolding reconcile_build_def Let_def
  by (intro guarded_intros guarded_push_image quiet_intros; simp)

lemma quiet_submit_restore [quiet_intros]: "quiet (submit_restore cfg conn k i san wn)"
  unfolding submit_restore_def by (intro quiet_intros)

lemma guarded_await_restore [guarded_intros]: "guarded g (await_restore cfg status g snap wn)"
  unfolding await_restore_def Let_def by (intro guarded_intros; simp)

lemma guarded_reconcile_restore [guarded_intros]:
  "guarded g (reconcile_restore cfg eff spec ns img status g)"
  unfolding reconcile_restore_def Let_def
  by (intro guarded_intros quiet_intros guarded_quiet [OF quiet_submit_restore]; simp)

lemma quiet_resolve_chain [quiet_intros]: "quiet (resolve_chain er tn dr ns)"
  unfolding resolve_chain_def Let_def by (intro quiet_intros)

lemma guarded_resolve_effective [guarded_intros]:
  "guarded g (resolve_effective cfg spec name ns status g)"
  unfolding resolve_effective_def Let_def by (intro guarded_intros quiet_intros)

lemma reports_deploy_application [reports_intros]:
  "reports g (deploy_application cfg eff spec img ns meta status g)"
  unfolding deploy_application_def Let_def
  by (intro reports_intros guarded_intros quiet_intros guarded_quiet [OF quiet_resolve_oidc]
      guarded_quiet [OF quiet_scoped_secrets] guarded_quiet [OF quiet_report_pr]; simp)

interpretation application: reconciler "application_reconcile cfg" for cfg
  unfolding application_reconcile_def [abs_def] Let_def
  by unfold_locales (intro reports_intros guarded_intros quiet_intros; simp)

end
