(* ===== verification/Gates.thy ===== *)
theory Gates
  imports Effects
begin

text \<open>
  Ordering on logs. \<open>preceded Q P l\<close>: every request of \<open>l\<close> that satisfies \<open>P\<close> was made after
  an exchange that satisfies \<open>Q\<close> (a log is newest first). It is an invariant of logs;
  \<open>gated Q P m\<close> says that \<open>m\<close> keeps it, whatever the environment answers. A poll that only
  returns after \<open>Q\<close> was seen opens the gate for everything that follows it.
\<close>

fun preceded :: "(call \<times> resp \<Rightarrow> bool) \<Rightarrow> (call \<Rightarrow> bool) \<Rightarrow> log \<Rightarrow> bool" where
  "preceded Q P [] = True"
| "preceded Q P (cr # l) \<longleftrightarrow> (P (fst cr) \<longrightarrow> (\<exists>q \<in> set l. Q q)) \<and> preceded Q P l"

definition gated :: "(call \<times> resp \<Rightarrow> bool) \<Rightarrow> (call \<Rightarrow> bool) \<Rightarrow> 'a M \<Rightarrow> bool" where
  "gated Q P m \<longleftrightarrow> (\<forall>env s. preceded Q P (trace s) \<longrightarrow> preceded Q P (trace (snd (m env s))))"

lemma preceded_free:
  "preceded Q P l \<Longrightarrow> \<forall>cr \<in> set new. \<not> P (fst cr) \<Longrightarrow> preceded Q P (new @ l)"
  by (induction new) auto

lemma preceded_open: "preceded Q P l \<Longrightarrow> q \<in> set l \<Longrightarrow> Q q \<Longrightarrow> preceded Q P (new @ l)"
  by (induction new) auto

lemma preceded_split:
  "preceded Q P (post @ cr # pre) \<Longrightarrow> P (fst cr) \<Longrightarrow> \<exists>q \<in> set pre. Q q"
  by (induction post) auto

lemma gated_free: "only (\<lambda>c. \<not> P c) m \<Longrightarrow> gated Q P m"
  unfolding gated_def only_def using preceded_free by metis

lemma gated_bindM:
  assumes "gated Q P m" and "\<And>env s x s'. m env s = (Inr x, s') \<Longrightarrow> gated Q P (f x)"
  shows "gated Q P (bindM m f)"
  unfolding gated_def
proof (intro allI impI)
  fix env :: env and s :: st
  assume p: "preceded Q P (trace s)"
  obtain r s1 where r: "m env s = (r, s1)" by (cases "m env s")
  with p assms(1) have "preceded Q P (trace s1)" unfolding gated_def by (metis snd_conv)
  with r assms(2) show "preceded Q P (trace (snd (bindM m f env s)))"
    unfolding gated_def by (cases r) (auto simp: bindM_def)
qed

lemma gated_thenM: "gated Q P m \<Longrightarrow> gated Q P k \<Longrightarrow> gated Q P (thenM m k)"
  unfolding thenM_def by (rule gated_bindM)

text \<open>The gate may depend on the result: closed results lead to computations of their own.\<close>

lemma gated_when:
  assumes m: "only (\<lambda>c. \<not> P c) m"
    and gate: "\<And>env s x s'. m env s = (Inr x, s') \<Longrightarrow> opens x \<Longrightarrow> \<exists>q \<in> set (trace s'). Q q"
    and after: "\<And>x. opens x \<Longrightarrow> grows (f x)" and shut: "\<And>x. \<not> opens x \<Longrightarrow> gated Q P (f x)"
  shows "gated Q P (bindM m f)"
  unfolding gated_def
proof (intro allI impI)
  fix env :: env and s :: st
  assume l: "preceded Q P (trace s)"
  obtain r s1 where 1: "m env s = (r, s1)" by (cases "m env s")
  with m obtain new where "trace s1 = new @ trace s" and "\<forall>cr \<in> set new. \<not> P (fst cr)"
    unfolding only_def by (metis snd_conv)
  with l have l1: "preceded Q P (trace s1)" by (simp add: preceded_free)
  show "preceded Q P (trace (snd (bindM m f env s)))"
  proof (cases r)
    case (Inl e)
    with 1 l1 show ?thesis by (simp add: bindM_def)
  next
    case (Inr x)
    show ?thesis
    proof (cases "opens x")
      case True
      obtain q where q: "q \<in> set (trace s1)" "Q q" using gate [OF 1 [unfolded Inr] True] by blast
      obtain post where "trace (snd (f x env s1)) = post @ trace s1"
        using after [OF True] unfolding grows_def only_def by blast
      with preceded_open [OF l1 q] 1 Inr show ?thesis by (simp add: bindM_def)
    next
      case False
      with shut l1 1 Inr show ?thesis by (simp add: bindM_def gated_def)
    qed
  qed
qed

text \<open>Once \<open>m\<close> has returned, the gate is open for the rest.\<close>

lemma gated_after:
  assumes "only (\<lambda>c. \<not> P c) m" and "logs Q m" and "\<And>x. grows (f x)"
  shows "gated Q P (bindM m f)"
  using assms by (intro gated_when [where opens = "\<lambda>_. True"]) (auto simp: logs_def)

lemma gated_after_then:
  "only (\<lambda>c. \<not> P c) m \<Longrightarrow> logs Q m \<Longrightarrow> grows k \<Longrightarrow> gated Q P (thenM m k)"
  unfolding thenM_def by (rule gated_after)

lemma gated_tryM:
  assumes "gated Q P m" and "\<And>e. gated Q P (h e)"
  shows "gated Q P (tryM m h)"
  unfolding gated_def
proof (intro allI impI)
  fix env :: env and s :: st
  assume "preceded Q P (trace s)"
  moreover obtain r s1 where 1: "m env s = (r, s1)" by (cases "m env s")
  ultimately have "preceded Q P (trace s1)" using assms(1) unfolding gated_def by (metis snd_conv)
  with 1 assms(2) show "preceded Q P (trace (snd (tryM m h env s)))"
    by (cases r) (simp_all add: tryM_def gated_def)
qed

lemma gated_run:
  "gated Q P m \<Longrightarrow> trace s = [] \<Longrightarrow> preceded Q P (trace (snd (m env s)))"
  unfolding gated_def by simp

end
