(* ===== verification/Deploy.thy ===== *)
theory Deploy
  imports Application Gates
begin

text \<open>
  What the application engine guarantees: the gates in front of the Argo CD Application, its
  clean-up, the credentials it mints and the chart values it writes.
\<close>

section \<open>Requests about Argo CD Applications\<close>

definition argo_call :: "call \<Rightarrow> bool" where
  "argo_call c \<longleftrightarrow> (\<exists>v ns n b. c = Custom v ''argoproj.io/v1alpha1'' ''applications'' ns n b)"

lemma no_argo [simp]:
  "\<not> argo_call (Typed v k ns n b)" "\<not> argo_call (Kv v m p t b)" "\<not> argo_call (Http me u hs b)"
  "\<not> argo_call Now" "\<not> argo_call Monotonic" "\<not> argo_call (RandBelow i)"
  "\<not> argo_call (SignJwt j k)"
  by (simp_all add: argo_call_def)

lemma no_argo_custom:
  "api \<noteq> ''argoproj.io/v1alpha1'' \<Longrightarrow> \<not> argo_call (Custom v api pl ns n b)"
  "pl \<noteq> ''applications'' \<Longrightarrow> \<not> argo_call (Custom v api pl ns n b)"
  by (auto simp: argo_call_def)

lemma no_argo_token: "token_call c \<Longrightarrow> \<not> argo_call c"
  by (cases c) (auto simp: argo_call_def)

lemma no_argo_clients: "github_call a c \<Longrightarrow> \<not> argo_call c" "harbor_call h c \<Longrightarrow> \<not> argo_call c"
  by (auto simp: github_call_def harbor_call_def)

abbreviation argo_free :: "'a M \<Rightarrow> bool" where
  "argo_free m \<equiv> only (\<lambda>c. \<not> argo_call c) m"

named_theorems free_intros \<open>computations that leave Argo CD alone\<close>

lemma free_bao [free_intros]: "argo_free (bao_read cfg p)" "argo_free (bao_write cfg p d)"
  unfolding bao_read_def bao_write_def
  by (intro only_intros; simp add: no_argo_token)+

lemma free_typed [free_intros]:
  "argo_free (apply_secret m)" "argo_free (apply_namespace n)" "argo_free (read_key n' ns k)"
  unfolding apply_secret_def apply_namespace_def apply_typed_def secret_resource_def
    namespace_resource_def read_key_def Let_def typed_resource.simps
  by (intro only_intros only_case_option; simp)+

lemma free_workflow [free_intros]:
  "argo_free (apply_workflow w)" "argo_free (read_workflow n ns)"
  unfolding apply_workflow_def get_custom_def read_workflow_def read_custom_def
    create_custom_def workflow_resource_def custom_resource.simps
  by (intro only_intros; simp add: no_argo_custom)+

lemma free_es [free_intros]: "argo_free (apply_es e)" "argo_free (delete_es n ns)"
  unfolding delete_es_def delete_custom_def
  by (intro only_intros only_custom_applies; simp add: no_argo_custom)+

lemma free_getters [free_intros]:
  "argo_free (get_namespaced pl n ns)" "argo_free (get_sso_application n ns)"
  "argo_free (get_application_type n)" "argo_free (get_organization n)"
  unfolding get_namespaced_def get_sso_application_def get_application_type_def
    get_organization_def
  by (intro only_intros; simp add: no_argo_custom)+

lemmas getter_defs = get_environment_def get_client_def get_domain_def get_gitrepository_def
  get_snapshot_def get_database_server_def

lemma free_feedback [free_intros]: "argo_free (report_pr cfg source meta ns st url d c)"
  unfolding report_pr_def pr_github_client_def Let_def getter_defs
  by (intro only_intros free_intros; simp add: no_argo_clients)

lemma free_harbor [free_intros]: "argo_free (ensure_pull_secret cfg eff h p labels)"
  unfolding ensure_pull_secret_def ensure_project_once_def Let_def
  by (intro only_intros free_intros only_modifyM; simp add: no_argo_clients)

lemma free_app_token [free_intros]: "argo_free (github_app_token cfg url)"
proof -
  have "argo_free (case e of GitHubAppError t \<Rightarrow> ret [] | _ \<Rightarrow> raise e)" for e
    by (auto intro: only_ret only_raise split: exn.split)
  then show ?thesis
    unfolding github_app_token_def Let_def
    by (intro only_intros free_intros; simp add: no_argo_clients)
qed

lemma free_build [free_intros]: "argo_free (reconcile_build cfg eff source ns meta status g)"
  unfolding reconcile_build_def prepare_build_secrets_def await_build_def Let_def getter_defs
  by (intro only_intros free_intros; simp)

lemma free_restore [free_intros]: "argo_free (reconcile_restore cfg eff spec ns i status g)"
  unfolding reconcile_restore_def app_db_connection_def submit_restore_def ensure_secrets_def
    await_restore_def Let_def getter_defs
  by (intro only_intros free_intros; simp)

lemma free_resolve [free_intros]: "argo_free (resolve_effective cfg spec name ns status g)"
  unfolding resolve_effective_def resolve_chain_def Let_def getter_defs
  by (intro only_intros free_intros; simp)

section \<open>The build gate\<close>

definition build_succeeded :: "string \<Rightarrow> call \<times> resp \<Rightarrow> bool" where
  "build_succeeded app cr \<longleftrightarrow> (\<exists>ns ref. workflow_succeeded (build_workflow_name ns app ref) cr)"

lemma resolve_effective_name:
  assumes "resolve_effective cfg spec name ns status g env s = (Inr eff, s')"
  shows "eff_app_name eff = name"
  using assms
  by (auto simp: resolve_effective_def Let_def thenM_Inr bindM_Inr ret_def compute_def
      split: prod.splits)

lemma logs_await_build:
  "logs (build_succeeded app)
     (await_build cfg eff source ns meta status g img (build_workflow_name e app ref))"
  unfolding logs_def
proof (intro allI impI)
  fix env s x s'
  let ?w = "build_workflow_name e app ref"
  assume "await_build cfg eff source ns meta status g img ?w env s = (Inr x, s')"
  then obtain f where r: "read_workflow ?w (argo_namespace cfg) env s = (Inr f, s')"
    and p: "phase f = PHASE_SUCCEEDED"
    by (auto simp: await_build_def Let_def bindM_Inr thenM_Inr ret_def fail_never_returns
        split: if_splits)
  from read_workflow_seen [OF r p] show "\<exists>cr \<in> set (trace s'). build_succeeded app cr"
    by (auto simp: build_succeeded_def)
qed

lemma logs_reconcile_build:
  "eff_app_name eff = app \<Longrightarrow>
   logs (build_succeeded app) (reconcile_build cfg eff source ns meta status g)"
  unfolding reconcile_build_def Let_def
  by (simp only:) (intro logs_intros logs_await_build)

lemma only_weaken: "only P m \<Longrightarrow> only (\<lambda>_. True) m"
  by (rule only_mono) simp_all

lemma free_oidc [free_intros]: "argo_free (resolve_oidc cfg spec ns)"
  unfolding resolve_oidc_def Let_def by (intro only_intros free_intros)

lemma free_scoped_secrets [free_intros]: "argo_free (reconcile_scoped_secrets cfg eff labels)"
proof -
  have "argo_free (held_paths cfg ps)" for ps
    by (induction ps) (auto intro!: only_intros free_intros)
  then show ?thesis
    unfolding reconcile_scoped_secrets_def Let_def by (intro only_intros free_intros)
qed

lemma grows_deploy: "grows (deploy_application cfg eff spec img ns meta status g)"
  unfolding deploy_application_def Let_def
  by (rule growsI)
     (intro only_intros only_applies only_weaken [OF free_oidc] only_weaken [OF free_feedback]
       only_weaken [OF free_scoped_secrets] TrueI)

lemma grows_restore_deploy: "grows (thenM (whenM b (reconcile_restore cfg eff spec ns img status g))
   (deploy_application cfg eff spec img ns meta status g))"
  using grows_deploy only_weaken [OF free_restore]
  unfolding grows_def by (intro only_thenM only_whenM)

text \<open>The steps in front of the gates.\<close>

lemma free_steps:
  "argo_free (whenM b (fail_after d status r m g))" "argo_free (set_status k v)"
  "argo_free (or_fail status g p (apply_namespace n))"
  by (intro only_intros free_intros; simp)+

lemma gated_prefix:
  assumes "\<And>eff env s s'. resolve_effective cfg spec name ns status (generation_of meta) env s =
      (Inr eff, s') \<Longrightarrow> gated Q argo_call
      (bindM (if truthy (jget spec ''source'')
              then reconcile_build cfg eff (jget spec ''source'') ns meta status (generation_of meta)
              else ret [])
        (\<lambda>img. thenM (whenM (truthy (jget spec ''restoreFrom''))
           (reconcile_restore cfg eff spec ns img status (generation_of meta)))
         (deploy_application cfg eff spec img ns meta status (generation_of meta))))"
  shows "gated Q argo_call (application_reconcile cfg spec meta status name ns)"
  unfolding application_reconcile_def Let_def
  by (rule gated_bindM [OF gated_free [OF free_resolve]],
      rule gated_thenM [OF gated_free [OF free_steps(1)]],
      rule gated_thenM [OF gated_free [OF free_steps(2)]],
      rule gated_thenM [OF gated_free [OF free_steps(3)]])
     (rule assms)

text \<open>C2. An Application with a source is deployed only from a finished build: in the log of a
  handler run, whatever the backends answer, every request about an Argo CD Application
  comes after a read of a build Workflow of this Application in phase \<open>Succeeded\<close>.\<close>

theorem deploy_after_build:
  assumes "truthy (jget spec ''source'')" and "trace s = []"
  shows "preceded (build_succeeded name) argo_call
    (trace (snd (application_reconcile cfg spec meta status name ns env s)))"
proof (rule gated_run [OF _ assms(2)], rule gated_prefix, unfold if_P [OF assms(1)])
  fix eff env s s'
  assume "resolve_effective cfg spec name ns status (generation_of meta) env s = (Inr eff, s')"
  then have n: "eff_app_name eff = name" by (rule resolve_effective_name)
  show "gated (build_succeeded name) argo_call
      (bindM (reconcile_build cfg eff (jget spec ''source'') ns meta status (generation_of meta))
        (\<lambda>img. thenM (whenM (truthy (jget spec ''restoreFrom''))
           (reconcile_restore cfg eff spec ns img status (generation_of meta)))
         (deploy_application cfg eff spec img ns meta status (generation_of meta))))"
    by (rule gated_after [OF free_build logs_reconcile_build [OF n] grows_restore_deploy])
qed

section \<open>The restore gate\<close>

definition restore_succeeded :: "string \<Rightarrow> string \<Rightarrow> call \<times> resp \<Rightarrow> bool" where
  "restore_succeeded app snap cr \<longleftrightarrow>
     (\<exists>ns. workflow_succeeded (restore_workflow_name ns app snap) cr)"

lemma logs_await_restore:
  "logs (restore_succeeded app snap)
     (await_restore cfg status g sr (restore_workflow_name e app snap))"
  unfolding logs_def
proof (intro allI impI)
  fix env s x s'
  let ?w = "restore_workflow_name e app snap"
  assume "await_restore cfg status g sr ?w env s = (Inr x, s')"
  then obtain f s1 where r: "read_workflow ?w (argo_namespace cfg) env s = (Inr f, s1)"
    and p: "phase f = PHASE_SUCCEEDED" and t: "trace s' = trace s1"
    by (auto simp: await_restore_def Let_def bindM_Inr thenM_Inr ret_def fail_never_returns
        set_status_def modifyM_def split: if_splits)
  from read_workflow_seen [OF r p] show "\<exists>cr \<in> set (trace s'). restore_succeeded app snap cr"
    unfolding t by (auto simp: restore_succeeded_def)
qed

definition restore_snapshot :: "json \<Rightarrow> string" where
  "restore_snapshot spec = ref_name (jget spec ''restoreFrom'') ''snapshotRef''"

lemma logs_reconcile_restore:
  assumes "eff_app_name eff = app" and "jget status ''restoredFrom'' \<noteq> JStr (restore_snapshot spec)"
  shows "logs (restore_succeeded app (restore_snapshot spec))
    (reconcile_restore cfg eff spec ns img status g)"
  using assms(2)
  unfolding reconcile_restore_def Let_def assms(1) restore_snapshot_def [symmetric]
  by (simp only: if_False) (intro logs_intros logs_await_restore)

text \<open>C3. An Application with a snapshot to restore is deployed only over the restored
  database: unless the status already records this snapshot as restored, every request about
  an Argo CD Application comes after a read of its restore Workflow in phase \<open>Succeeded\<close>.\<close>

theorem deploy_after_restore:
  assumes "truthy (jget spec ''restoreFrom'')"
    and "jget status ''restoredFrom'' \<noteq> JStr (restore_snapshot spec)" and "trace s = []"
  shows "preceded (restore_succeeded name (restore_snapshot spec)) argo_call
    (trace (snd (application_reconcile cfg spec meta status name ns env s)))"
proof (rule gated_run [OF _ assms(3)], rule gated_prefix)
  fix eff env s s'
  assume "resolve_effective cfg spec name ns status (generation_of meta) env s = (Inr eff, s')"
  then have n: "eff_app_name eff = name" by (rule resolve_effective_name)
  let ?Q = "restore_succeeded name (restore_snapshot spec)"
  have "gated ?Q argo_call (thenM (whenM (truthy (jget spec ''restoreFrom''))
           (reconcile_restore cfg eff spec ns img status (generation_of meta)))
         (deploy_application cfg eff spec img ns meta status (generation_of meta)))" for img
    unfolding whenM_def if_P [OF assms(1)]
    by (rule gated_after_then [OF free_restore logs_reconcile_restore [OF n assms(2)] grows_deploy])
  moreover have "gated ?Q argo_call (if truthy (jget spec ''source'')
      then reconcile_build cfg eff (jget spec ''source'') ns meta status (generation_of meta)
      else ret [])"
    by (intro gated_free only_if only_ret free_build)
  ultimately show "gated ?Q argo_call
      (bindM (if truthy (jget spec ''source'')
              then reconcile_build cfg eff (jget spec ''source'') ns meta status (generation_of meta)
              else ret [])
        (\<lambda>img. thenM (whenM (truthy (jget spec ''restoreFrom''))
           (reconcile_restore cfg eff spec ns img status (generation_of meta)))
         (deploy_application cfg eff spec img ns meta status (generation_of meta))))"
    by (intro gated_bindM)
qed

text \<open>The Secret that holds the password of the restored database, as the spec names it.\<close>

definition restore_password_secret :: "json \<Rightarrow> string" where
  "restore_password_secret spec =
     sget (oget (hd (lget spec ''databases'')) ''credentials'') ''secret''"

definition secret_was_read :: "string \<Rightarrow> call \<times> resp \<Rightarrow> bool" where
  "secret_was_read n cr \<longleftrightarrow> (\<exists>ns j. cr = (Typed VGet ''Secret'' ns n JNull, Inr j))"

lemma logs_read_key: "logs (secret_was_read n) (read_key n ns k)"
  unfolding logs_def
  by (auto simp: read_key_def bindM_Inr callM_Inr secret_was_read_def Let_def ret_def raise_def
      split: if_splits option.splits)

lemma logs_ensure_secrets:
  "logs (secret_was_read (password_secret_name conn)) (ensure_secrets cfg conn)"
  unfolding ensure_secrets_def Let_def
  by (intro logs_bindM_right logs_if logs_thenM_right logs_never logs_bindM_left [OF logs_read_key])
     (auto simp: raise_def intro!: growsI only_intros only_applies)

lemma lget_jor: "lget (jor j (JObj [])) k = lget j k"
  by (cases j) (auto simp: jor_def lget_def)

lemma on_not_found_fails:
  assumes "on_not_found m (\<lambda>t. fail_after d status r (p @ t) g) env s = (Inr x, s')"
  shows "m env s = (Inr x, s')"
proof -
  have "(case e of NotFound t \<Rightarrow> fail_after d status r (p @ t) g | _ \<Rightarrow> raise e) env s1 \<noteq>
      (Inr x, s')" for e s1
    by (cases e) (simp_all add: raise_def fail_never_returns)
  with assms show ?thesis unfolding on_not_found_def tryM_Inr by blast
qed

lemma app_db_connection_secret:
  assumes "app_db_connection (restore_target spec ns eff) env s = (Inr conn, s')"
  shows "password_secret_name conn = restore_password_secret spec"
  using assms
  by (auto simp: app_db_connection_def restore_target_def restore_password_secret_def Let_def
      oget_def [of "JObj _"] lget_jor bindM_Inr ret_def raise_def split: list.splits if_splits)

lemma logs_or_fail_keep: "logs Q m \<Longrightarrow> logs Q (or_fail_keep status g t m)"
  unfolding logs_def or_fail_keep_def try_keep_def
  by (auto simp: tryM_Inr raise_def fail_never_returns split: if_splits)

lemma logs_bindM_val:
  "(\<And>env s x s'. m env s = (Inr x, s') \<Longrightarrow> logs Q (f x)) \<Longrightarrow> logs Q (bindM m f)"
  unfolding logs_def bindM_Inr by blast

lemma grows_await_restore: "grows (thenM (set_status k v) (await_restore cfg status g sr wn))"
  unfolding await_restore_def Let_def
  by (rule growsI) (intro only_intros only_weaken [OF free_workflow(2)] TrueI)

lemma logs_restore_password:
  assumes "jget status ''restoredFrom'' \<noteq> JStr (restore_snapshot spec)"
  shows "logs (secret_was_read (restore_password_secret spec))
    (reconcile_restore cfg eff spec ns img status g)"
  unfolding reconcile_restore_def Let_def
proof (rule logs_bindM_val, goal_cases)
  case (1 env s conn s')
  then have "app_db_connection (restore_target spec ns eff) env s = (Inr conn, s')"
    by (rule on_not_found_fails)
  then have p: "password_secret_name conn = restore_password_secret spec"
    by (rule app_db_connection_secret)
  have "logs (secret_was_read (restore_password_secret spec))
      (submit_restore cfg conn k i san wn)" for k i san wn
    unfolding submit_restore_def p [symmetric]
    by (rule logs_bindM_left [OF logs_ensure_secrets])
       (auto intro!: growsI only_intros only_applies)
  note gate = logs_thenM_left [OF logs_or_fail_keep [OF this] grows_await_restore]
  show ?case
    using assms unfolding restore_snapshot_def
    by (simp only: if_False)
       (rule logs_thenM_right, rule logs_bindM_right, rule logs_thenM_right, rule gate)
qed

text \<open>C38. The restore gate reads the password Secret of the application's first database before
  anything is deployed. That Secret is delivered by the Database resource the application's
  own chart emits, and the chart is only applied after the gate: an Application created with
  \<open>restoreFrom\<close> never gets its Argo CD Application as long as that Secret is missing.\<close>

theorem restore_needs_delivered_password:
  assumes "truthy (jget spec ''restoreFrom'')"
    and "jget status ''restoredFrom'' \<noteq> JStr (restore_snapshot spec)" and "trace s = []"
  shows "preceded (secret_was_read (restore_password_secret spec)) argo_call
    (trace (snd (application_reconcile cfg spec meta status name ns env s)))"
proof (rule gated_run [OF _ assms(3)], rule gated_prefix, rule gated_bindM)
  let ?Q = "secret_was_read (restore_password_secret spec)"
  fix eff img
  show "gated ?Q argo_call (if truthy (jget spec ''source'')
      then reconcile_build cfg eff (jget spec ''source'') ns meta status (generation_of meta)
      else ret [])"
    by (intro gated_free only_if only_ret free_build)
  show "gated ?Q argo_call (thenM (whenM (truthy (jget spec ''restoreFrom''))
           (reconcile_restore cfg eff spec ns img status (generation_of meta)))
         (deploy_application cfg eff spec img ns meta status (generation_of meta)))"
    unfolding whenM_def if_P [OF assms(1)]
    by (rule gated_after_then [OF free_restore logs_restore_password [OF assms(2)] grows_deploy])
qed

section \<open>Clean-up\<close>

text \<open>The best-effort deletion of the objects that have a name.\<close>

definition deletions :: "string \<Rightarrow> string \<Rightarrow> string \<Rightarrow> string list \<Rightarrow> call list" where
  "deletions api plural ns names =
     map (\<lambda>n. Custom VDelete api plural ns n JNull) (filter (\<lambda>n. n \<noteq> []) names)"

lemma attempt_delete_run:
  "\<exists>s'. whenM (n \<noteq> []) (attempt (delete_custom api pl n ns)) env s = (Inr (), s') \<and>
     map fst (trace s') = deletions api pl ns [n] @ map fst (trace s)"
  by (auto simp: deletions_def whenM_def delete_custom_def attempt_def on_status_def tryM_def
      thenM_def bindM_def callM_def ret_def raise_def Let_def split: sum.split xerr.split)

lemma forM_deletes_run:
  "\<exists>s'. forM names (\<lambda>n. whenM (n \<noteq> []) (attempt (delete_custom api pl n ns))) env s = (Inr (), s') \<and>
     map fst (trace s') = rev (deletions api pl ns names) @ map fst (trace s)"
proof (induction names arbitrary: s)
  case Nil
  then show ?case by (simp add: ret_def deletions_def)
next
  case (Cons n names)
  obtain s1 where 1: "whenM (n \<noteq> []) (attempt (delete_custom api pl n ns)) env s = (Inr (), s1)"
    "map fst (trace s1) = deletions api pl ns [n] @ map fst (trace s)"
    using attempt_delete_run by blast
  obtain s2 where 2: "forM names (\<lambda>n. whenM (n \<noteq> []) (attempt (delete_custom api pl n ns))) env s1 =
      (Inr (), s2)" "map fst (trace s2) = rev (deletions api pl ns names) @ map fst (trace s1)"
    using Cons.IH by blast
  show ?case
    by (rule exI [of _ s2]) (simp add: thenM_def bindM_def 1 2, simp add: deletions_def)
qed

text \<open>Deleting an Application never raises and asks for nothing but the deletion of the Argo
  CD Application and then of the build and restore Workflows that its status names: the
  environment's namespace and the database are left alone.\<close>

lemma application_finalize_exact:
  "\<exists>s'. application_finalize cfg status env s = (Inr (), s') \<and>
     map fst (trace s') =
       rev (deletions ''argoproj.io/v1alpha1'' ''workflows'' (argo_namespace cfg)
              [sget status ''buildWorkflow'', sget status ''restoreWorkflow'']) @
       deletions ''argoproj.io/v1alpha1'' ''applications'' (argocd_namespace cfg)
         [sget status ''argoApplication''] @ map fst (trace s)"
proof -
  obtain s1 where 1: "whenM (sget status ''argoApplication'' \<noteq> [])
      (attempt (delete_argo (sget status ''argoApplication'') (argocd_namespace cfg))) env s = (Inr (), s1)"
    "map fst (trace s1) = deletions ''argoproj.io/v1alpha1'' ''applications'' (argocd_namespace cfg)
       [sget status ''argoApplication''] @ map fst (trace s)"
    unfolding delete_argo_def using attempt_delete_run by blast
  obtain s2 where 2: "forM [sget status ''buildWorkflow'', sget status ''restoreWorkflow'']
      (\<lambda>n. whenM (n \<noteq> []) (attempt (delete_workflow n (argo_namespace cfg)))) env s1 = (Inr (), s2)"
    "map fst (trace s2) = rev (deletions ''argoproj.io/v1alpha1'' ''workflows'' (argo_namespace cfg)
       [sget status ''buildWorkflow'', sget status ''restoreWorkflow'']) @ map fst (trace s1)"
    unfolding delete_workflow_def using forM_deletes_run by blast
  have "application_finalize cfg status env s = (Inr (), s2)"
    unfolding application_finalize_def Let_def thenM_def bindM_def 1(1) prod.case sum.case
    by (rule 2(1))
  then show ?thesis unfolding 2(2) 1(2) [symmetric] using 2(2) by blast
qed

section \<open>Chart values\<close>

text \<open>The image reference survives its split into the chart's \<open>repository\<close> and \<open>tag\<close>: when a
  tag is given, repository, colon and tag put together are the reference again; otherwise the
  repository is the reference up to a trailing colon.\<close>

lemma image_values_reassemble:
  "case jget (image_values img) ''tag'' of
     JStr tag \<Rightarrow> tag \<noteq> [] \<and> jget (image_values img) ''repository'' = JStr (before (CHR '':'') img) \<and>
       before (CHR '':'') img @ '':'' @ tag = img
   | j \<Rightarrow> j = JNull \<and> (\<exists>repo. jget (image_values img) ''repository'' = JStr repo \<and>
       (img = repo \<or> img = repo @ '':''))"
proof (cases "after (CHR '':'') img")
  case None
  then have "before (CHR '':'') img = img"
    unfolding after_None before_def by (auto simp: takeWhile_eq_all_conv)
  with None show ?thesis by (simp add: image_values_def opt_def)
next
  case (Some tag)
  with before_after [OF Some] show ?thesis
    by (cases "tag = []") (simp_all add: image_values_def opt_def)
qed

section \<open>The registry project\<close>

lemma harbor_request_keeps:
  "ensured_projects (snd (harbor_request h m q b hs env s)) = ensured_projects s"
  by (auto simp: harbor_request_def tryM_def callM_def raise_def Let_def
      split: sum.split exn.split xerr.split)

lemma ensure_project_keeps: "ensured_projects (snd (ensure_project h p env s)) = ensured_projects s"
proof -
  have h: "ensured_projects (snd (thenM (harbor_request h m q b hs) (ret ()) env s)) = ensured_projects s"
    for m q b hs
    using harbor_request_keeps [of h m q b hs env s]
    by (cases "harbor_request h m q b hs env s") (auto simp: thenM_def bindM_def ret_def split: sum.split)
  then show ?thesis
    unfolding ensure_project_def tryM_def
    by (auto simp: raise_def ret_def split: sum.split exn.split prod.split)
       (metis snd_conv)+
qed

text \<open>The registry project is ensured at most once per process: a call that returned is
  remembered, so a later call for the same endpoint and project makes no request and changes
  nothing; a call that failed is not remembered, so it is tried again.\<close>

lemma project_ensured_once:
  "case ensure_project_once h base p env s of
     (Inr _, s') \<Rightarrow> ensure_project_once h' base p env' s' = (Inr (), s')
   | (Inl _, s') \<Rightarrow> ensured_projects s' = ensured_projects s"
proof (cases "(base, p) \<in> set (ensured_projects s)")
  case True
  then show ?thesis by (simp add: ensure_project_once_def bindM_def getM_def whenM_def ret_def)
next
  case False
  obtain r s1 where e: "ensure_project h p env s = (r, s1)" by (cases "ensure_project h p env s")
  with ensure_project_keeps [of h p env s] have "ensured_projects s1 = ensured_projects s" by simp
  with False e show ?thesis
    by (cases r) (simp_all add: ensure_project_once_def bindM_def getM_def whenM_def ret_def
        thenM_def modifyM_def)
qed

text \<open>A namespace of full length leaves no room for the application's name: all Applications of
  such an environment share one Argo CD Application.\<close>

lemma argo_app_name_truncated:
  "63 \<le> length (eff_namespace eff) \<Longrightarrow>
   argo_app_name eff = rstrip_of ''-'' (take 63 (eff_namespace eff))"
  by (simp add: argo_app_name_def)

end
