(* ===== verification/Previews.thy ===== *)
theory Previews
  imports Runs Resources
begin

text \<open>
  The preview pipeline of a repository: \<open>argoevents.py\<close> (the Argo Events EventSource and
  Sensor), \<open>handlers/gitrepository.py\<close> (the handler that provisions and removes them), and
  the push of status changes to the portal, \<open>odoonotify.py\<close> with \<open>handlers/odoo_sync.py\<close>.
\<close>

section \<open>Names\<close>

definition ARGO_EVENTS_GROUP :: string where
  "ARGO_EVENTS_GROUP = ''argoproj.io/v1alpha1''"

abbreviation PLURAL_EVENTSOURCES :: string where "PLURAL_EVENTSOURCES \<equiv> ''eventsources''"
abbreviation PLURAL_SENSORS :: string where "PLURAL_SENSORS \<equiv> ''sensors''"
abbreviation EVENT_KEY :: string where "EVENT_KEY \<equiv> ''pr''"
abbreviation WEBHOOK_PORT :: int where "WEBHOOK_PORT \<equiv> 12000"

definition EV_ANN_REPO :: string where "EV_ANN_REPO = ''platform.adomi.io/repo''"
definition EV_ANN_PR_NUMBER :: string where "EV_ANN_PR_NUMBER = ''platform.adomi.io/pr-number''"
definition EV_ANN_COMMIT_SHA :: string where "EV_ANN_COMMIT_SHA = ''platform.adomi.io/commit-sha''"

definition slug_chars :: string where
  "slug_chars = lower_letters @ digit_chars @ ''-''"

definition repo_slug :: "string \<Rightarrow> string \<Rightarrow> string" where
  "repo_slug owner repo = strip_of ''-''
     (map (\<lambda>c. if c \<in> set slug_chars then c else CHR ''-'') (lower (owner @ ''-'' @ repo)))"

definition eventsource_name :: "string \<Rightarrow> string \<Rightarrow> string" where
  "eventsource_name owner repo = take 253 (''gh-'' @ repo_slug owner repo)"

definition sensor_name :: "string \<Rightarrow> string \<Rightarrow> string" where
  "sensor_name owner repo = take 253 (''gh-'' @ repo_slug owner repo)"

definition webhook_path :: "string \<Rightarrow> string \<Rightarrow> string" where
  "webhook_path owner repo = ''/'' @ repo_slug owner repo"

definition event_service_name :: "string \<Rightarrow> string" where
  "event_service_name source = source @ ''-eventsource-svc''"

section \<open>The EventSource\<close>

record event_source_spec =
  ess_name :: string
  ess_namespace :: string
  ess_owner :: string
  ess_repo :: string
  ess_webhook_url :: string
  ess_webhook_path :: string
  ess_token_secret :: string
  ess_webhook_secret :: string
  ess_labels :: "(string \<times> string) list"

definition event_metadata :: "string \<Rightarrow> string \<Rightarrow> (string \<times> string) list \<Rightarrow> json" where
  "event_metadata name ns labels = JObj
     ([(''name'', JStr name), (''namespace'', JStr ns)] @
      opt (labels \<noteq> []) ''labels'' (str_dict labels))"

definition build_eventsource :: "event_source_spec \<Rightarrow> json" where
  "build_eventsource s = JObj
     [(''apiVersion'', JStr ARGO_EVENTS_GROUP),
      (''kind'', JStr ''EventSource''),
      (''metadata'', event_metadata (ess_name s) (ess_namespace s) (ess_labels s)),
      (''spec'', JObj
        [(''service'', JObj [(''ports'', JArr [JObj
            [(''port'', JInt WEBHOOK_PORT), (''targetPort'', JInt WEBHOOK_PORT)]])]),
         (''github'', JObj [(EVENT_KEY, JObj
            [(''repositories'', JArr [JObj
                [(''owner'', JStr (ess_owner s)), (''names'', strs [ess_repo s])]]),
             (''webhook'', JObj
                [(''endpoint'', JStr (ess_webhook_path s)),
                 (''port'', JStr (int_str WEBHOOK_PORT)),
                 (''method'', JStr ''POST''),
                 (''url'', JStr (ess_webhook_url s))]),
             (''events'', strs [''pull_request'']),
             (''apiToken'', JObj
                [(''name'', JStr (ess_token_secret s)), (''key'', JStr ''token'')]),
             (''webhookSecret'', JObj
                [(''name'', JStr (ess_webhook_secret s)), (''key'', JStr ''secret'')]),
             (''active'', JBool True),
             (''insecure'', JBool False)])])])]"

section \<open>The Sensor\<close>

record sensor_spec =
  ses_name :: string
  ses_namespace :: string
  ses_eventsource :: string
  ses_service_account :: string
  ses_owner :: string
  ses_repo :: string
  ses_mgmt_namespace :: string
  ses_client_ref :: string
  ses_application_type :: string
  ses_repository_ref :: string
  ses_base_image :: string
  ses_labels :: "(string \<times> string) list"

definition esc :: "string \<Rightarrow> string" where
  "esc key = replace_char (CHR ''.'') [CHR 0x5C, CHR ''.''] key"

definition environment_template :: "sensor_spec \<Rightarrow> json" where
  "environment_template s = JObj
     [(''apiVersion'', JStr PLATFORM_GROUP),
      (''kind'', JStr ''Environment''),
      (''metadata'', JObj
        [(''name'', JStr ''pr-0''),
         (''namespace'', JStr (ses_mgmt_namespace s)),
         (''labels'', JObj
           [(''app.kubernetes.io/managed-by'', JStr ''adomi-platform-controller'')])]),
      (''spec'', JObj
        [(''clientRef'', JObj [(''name'', JStr (ses_client_ref s))]),
         (''class'', JStr ''preview'')])]"

definition app_template :: "sensor_spec \<Rightarrow> json" where
  "app_template s = JObj
     [(''apiVersion'', JStr PLATFORM_GROUP),
      (''kind'', JStr ''Application''),
      (''metadata'', JObj
        [(''name'', JStr ''pr-0-app''),
         (''namespace'', JStr (ses_mgmt_namespace s)),
         (''labels'', JObj
           [(''app.kubernetes.io/managed-by'', JStr ''adomi-platform-controller''),
            (''platform.adomi.io/preview'', JStr ''true'')]),
         (''annotations'', JObj
           [(EV_ANN_REPO, JStr (ses_owner s @ ''/'' @ ses_repo s)),
            (EV_ANN_PR_NUMBER, JStr ''0''),
            (EV_ANN_COMMIT_SHA, JStr [])])]),
      (''spec'', JObj
        [(''environmentRef'', JObj [(''name'', JStr ''pr-0'')]),
         (''type'', JStr (ses_application_type s)),
         (''source'', JObj
           ([(''repositoryRef'', JObj [(''name'', JStr (ses_repository_ref s))]),
             (''ref'', JStr [])] @
            opt (ses_base_image s \<noteq> []) ''baseImage'' (JStr (ses_base_image s))))])]"

definition dependency :: "string \<Rightarrow> string \<Rightarrow> string list \<Rightarrow> json" where
  "dependency name source actions = JObj
     [(''name'', JStr name),
      (''eventSourceName'', JStr source),
      (''eventName'', JStr EVENT_KEY),
      (''filters'', JObj [(''data'', JArr [JObj
         [(''path'', JStr ''body.action''),
          (''type'', JStr ''string''),
          (''comparator'', JStr ''=''),
          (''value'', strs actions)]])])]"

text \<open>A parameter of a trigger: where its value comes from in the event, and where it goes.\<close>

definition from_template :: "string \<Rightarrow> string \<Rightarrow> string \<Rightarrow> json" where
  "from_template dep template dest = JObj
     [(''src'', JObj [(''dependencyName'', JStr dep), (''dataTemplate'', JStr template)]),
      (''dest'', JStr dest)]"

definition from_key :: "string \<Rightarrow> string \<Rightarrow> string \<Rightarrow> json" where
  "from_key dep key dest = JObj
     [(''src'', JObj [(''dependencyName'', JStr dep), (''dataKey'', JStr key)]),
      (''dest'', JStr dest)]"

definition PR_NUMBER_TEMPLATE :: string where
  "PR_NUMBER_TEMPLATE = ''{{ .Input.body.pull_request.number }}''"

definition tpl_ws_name :: "string \<Rightarrow> json" where
  "tpl_ws_name dep = from_template dep (''pr-'' @ PR_NUMBER_TEMPLATE) ''metadata.name''"

definition tpl_app_name :: "string \<Rightarrow> string \<Rightarrow> json" where
  "tpl_app_name dep app_type =
     from_template dep (''pr-'' @ PR_NUMBER_TEMPLATE @ ''-'' @ app_type) ''metadata.name''"

definition app_create_params :: "sensor_spec \<Rightarrow> json list" where
  "app_create_params s =
     [tpl_app_name ''pr-open'' (ses_application_type s),
      from_template ''pr-open'' (''pr-'' @ PR_NUMBER_TEMPLATE) ''spec.environmentRef.name'',
      from_key ''pr-open'' ''body.pull_request.head.sha'' ''spec.source.ref'',
      from_template ''pr-open'' PR_NUMBER_TEMPLATE
        (''metadata.annotations.'' @ esc EV_ANN_PR_NUMBER),
      from_key ''pr-open'' ''body.pull_request.head.sha''
        (''metadata.annotations.'' @ esc EV_ANN_COMMIT_SHA)]"

definition app_sync_params :: "sensor_spec \<Rightarrow> json list" where
  "app_sync_params s =
     [tpl_app_name ''pr-sync'' (ses_application_type s),
      from_key ''pr-sync'' ''body.pull_request.head.sha'' ''spec.source.ref'',
      from_key ''pr-sync'' ''body.pull_request.head.sha''
        (''metadata.annotations.'' @ esc EV_ANN_COMMIT_SHA)]"

definition k8s_block :: "string \<Rightarrow> json \<Rightarrow> json list \<Rightarrow> bool \<Rightarrow> json" where
  "k8s_block operation resource parameters is_patch = JObj
     ([(''operation'', JStr operation),
       (''source'', JObj [(''resource'', resource)]),
       (''parameters'', JArr parameters)] @
      opt is_patch ''patchStrategy'' (JStr ''application/merge-patch+json''))"

definition trigger :: "string \<Rightarrow> string \<Rightarrow> json \<Rightarrow> json" where
  "trigger name condition block = JObj [(''template'', JObj
     [(''name'', JStr name), (''conditions'', JStr condition), (''k8s'', block)])]"

definition sensor_triggers :: "sensor_spec \<Rightarrow> json list" where
  "sensor_triggers s =
     [trigger ''create-environment'' ''pr-open''
        (k8s_block ''create'' (environment_template s) [tpl_ws_name ''pr-open''] False),
      trigger ''create-app'' ''pr-open''
        (k8s_block ''create'' (app_template s) (app_create_params s) False),
      trigger ''sync-app'' ''pr-sync''
        (k8s_block ''patch'' (app_template s) (app_sync_params s) True),
      trigger ''delete-app'' ''pr-close''
        (k8s_block ''delete'' (app_template s)
           [tpl_app_name ''pr-close'' (ses_application_type s)] False),
      trigger ''delete-environment'' ''pr-close''
        (k8s_block ''delete'' (environment_template s) [tpl_ws_name ''pr-close''] False)]"

definition build_sensor :: "sensor_spec \<Rightarrow> json" where
  "build_sensor s = JObj
     [(''apiVersion'', JStr ARGO_EVENTS_GROUP),
      (''kind'', JStr ''Sensor''),
      (''metadata'', event_metadata (ses_name s) (ses_namespace s) (ses_labels s)),
      (''spec'', JObj
        [(''template'', JObj [(''serviceAccountName'', JStr (ses_service_account s))]),
         (''dependencies'', JArr
           [dependency ''pr-open'' (ses_eventsource s) [''opened'', ''reopened''],
            dependency ''pr-sync'' (ses_eventsource s) [''synchronize''],
            dependency ''pr-close'' (ses_eventsource s) [''closed'']]),
         (''triggers'', JArr (sensor_triggers s))])]"

section \<open>Apply and delete\<close>

text \<open>\<open>_apply\<close> and \<open>_delete\<close> are the create-or-patch and the tolerant delete of \<open>kube.py\<close>
  written out again; only the object read is not inspected.\<close>

definition events_apply :: "string \<Rightarrow> string \<Rightarrow> string \<Rightarrow> json \<Rightarrow> unit M" where
  "events_apply plural ns name desired =
     bindM (on_status [404]
        (thenM (callM (Custom VGet ARGO_EVENTS_GROUP plural ns name JNull)) (ret True))
        (thenM (callM (Custom VCreate ARGO_EVENTS_GROUP plural ns name desired)) (ret False)))
       (\<lambda>found. whenM found
          (thenM (callM (Custom VPatch ARGO_EVENTS_GROUP plural ns name desired)) (ret ())))"

definition events_delete :: "string \<Rightarrow> string \<Rightarrow> string \<Rightarrow> unit M" where
  "events_delete plural ns name =
     on_status [404]
       (thenM (callM (Custom VDelete ARGO_EVENTS_GROUP plural ns name JNull)) (ret ()))
       (ret ())"

definition apply_eventsource :: "event_source_spec \<Rightarrow> unit M" where
  "apply_eventsource s =
     events_apply PLURAL_EVENTSOURCES (ess_namespace s) (ess_name s) (build_eventsource s)"

definition apply_sensor :: "sensor_spec \<Rightarrow> unit M" where
  "apply_sensor s = events_apply PLURAL_SENSORS (ses_namespace s) (ses_name s) (build_sensor s)"

definition delete_eventsource :: "string \<Rightarrow> string \<Rightarrow> unit M" where
  "delete_eventsource name ns = events_delete PLURAL_EVENTSOURCES ns name"

definition delete_sensor :: "string \<Rightarrow> string \<Rightarrow> unit M" where
  "delete_sensor name ns = events_delete PLURAL_SENSORS ns name"

section \<open>The repository handler\<close>

abbreviation WEBHOOK_SECRET_LENGTH :: nat where "WEBHOOK_SECRET_LENGTH \<equiv> 40"

definition repo_labels :: "string \<Rightarrow> string \<Rightarrow> (string \<times> string) list" where
  "repo_labels owner repo =
     [(''app.kubernetes.io/managed-by'', MANAGED_BY),
      (''platform.adomi.io/repo'', lower (owner @ ''-'' @ repo))]"

definition preview_event_source :: "config \<Rightarrow> string \<Rightarrow> string \<Rightarrow> string \<Rightarrow> event_source_spec" where
  "preview_event_source cfg owner repo host =
     (let source = eventsource_name owner repo in
      \<lparr> ess_name = source, ess_namespace = argo_namespace cfg, ess_owner = owner, ess_repo = repo,
        ess_webhook_url = ''https://'' @ host, ess_webhook_path = webhook_path owner repo,
        ess_token_secret = source @ ''-token'', ess_webhook_secret = source @ ''-webhook'',
        ess_labels = repo_labels owner repo \<rparr>)"

definition preview_sensor ::
    "config \<Rightarrow> json \<Rightarrow> string \<Rightarrow> string \<Rightarrow> string \<Rightarrow> string \<Rightarrow> string \<Rightarrow> string \<Rightarrow> sensor_spec" where
  "preview_sensor cfg preview owner repo name ns client_ref application_type =
     \<lparr> ses_name = sensor_name owner repo, ses_namespace = argo_namespace cfg,
       ses_eventsource = eventsource_name owner repo,
       ses_service_account = preview_sensor_service_account cfg,
       ses_owner = owner, ses_repo = repo, ses_mgmt_namespace = ns, ses_client_ref = client_ref,
       ses_application_type = application_type, ses_repository_ref = name,
       ses_base_image = sget preview ''baseImage'', ses_labels = repo_labels owner repo \<rparr>"

definition preview_ingress :: "config \<Rightarrow> string \<Rightarrow> string \<Rightarrow> string \<Rightarrow> ingress_route" where
  "preview_ingress cfg owner repo host =
     (let source = eventsource_name owner repo in
      \<lparr> ing_name = source, ing_namespace = argo_namespace cfg, ing_host = host,
        ing_path = webhook_path owner repo, ing_service_name = event_service_name source,
        ing_service_port = WEBHOOK_PORT, ing_class_name = preview_ingress_class cfg,
        ing_tls_secret = source @ ''-tls'', ing_cluster_issuer = cluster_issuer cfg,
        ing_annotations = [], ing_labels = repo_labels owner repo \<rparr>)"

text \<open>The body of the \<open>try\<close> of \<open>_reconcile_preview\<close>.\<close>

definition provision_preview ::
    "config \<Rightarrow> json \<Rightarrow> json \<Rightarrow> string \<Rightarrow> string \<Rightarrow> string \<Rightarrow> string \<Rightarrow> string \<Rightarrow> string \<Rightarrow> string \<Rightarrow>
     unit M" where
  "provision_preview cfg cred_ref preview owner repo name ns client_ref application_type host =
     (let source = eventsource_name owner repo in
      bindM (read_key (sget cred_ref ''name'') ns (sor (sget cred_ref ''key'') ''token''))
        (\<lambda>token.
      thenM (apply_secret (token_secret (source @ ''-token'') (argo_namespace cfg) token))
     (bindM (random_string WEBHOOK_SECRET_LENGTH) (\<lambda>hmac.
      thenM (apply_secret (opaque_secret (source @ ''-webhook'') (argo_namespace cfg)
               [(''secret'', hmac)] True))
     (thenM (apply_eventsource (preview_event_source cfg owner repo host))
     (thenM (apply_sensor (preview_sensor cfg preview owner repo name ns client_ref
               application_type))
            (apply_ingress (preview_ingress cfg owner repo host))))))))"

definition reconcile_preview ::
    "config \<Rightarrow> json \<Rightarrow> json \<Rightarrow> string \<Rightarrow> string \<Rightarrow> string \<Rightarrow> string \<Rightarrow> json \<Rightarrow> json \<Rightarrow> string M" where
  "reconcile_preview cfg spec preview owner repo name ns status generation =
     (let client_ref = ref_name preview ''clientRef'';
          application_type = sor (sget preview ''applicationType'') ''odoo'';
          cred_ref = oget spec ''credentialsSecretRef'';
          host = resolved_webhook_host cfg in
      thenM (whenM (client_ref = []) (fail status REASON_INVALID_SPEC
         ''spec.preview.clientRef.name is required when previews are enabled'' generation))
     (thenM (whenM (sget cred_ref ''name'' = []) (fail status REASON_INVALID_SPEC
         (''spec.credentialsSecretRef is required when previews are enabled '' @
          ''(token needs admin:repo_hook)'') generation))
     (thenM (whenM (host = []) (fail status REASON_INVALID_SPEC
         (''no webhook host: set platform.preview webhookHost or an '' @
          ''Organization base domain'') generation))
     (thenM (or_fail_keep status generation ''provisioning preview pipeline: ''
         (provision_preview cfg cred_ref preview owner repo name ns client_ref
            application_type host))
      (ret (''https://'' @ host @ webhook_path owner repo))))))"

definition delete_preview :: "config \<Rightarrow> string \<Rightarrow> string \<Rightarrow> unit M" where
  "delete_preview cfg owner repo =
     (let source = eventsource_name owner repo; ns = argo_namespace cfg in
      thenM (delete_sensor (sensor_name owner repo) ns)
     (thenM (delete_eventsource source ns)
     (thenM (delete_ingress source ns)
     (thenM (delete_secret (source @ ''-token'') ns)
            (delete_secret (source @ ''-webhook'') ns)))))"

definition preview_status :: "string \<Rightarrow> string \<Rightarrow> string \<Rightarrow> unit M" where
  "preview_status source sensor url =
     thenM (set_status ''previewEventSource'' (JStr source))
    (thenM (set_status ''previewSensor'' (JStr sensor))
           (set_status ''webhookURL'' (JStr url)))"

definition gitrepository_reconcile ::
    "config \<Rightarrow> json \<Rightarrow> json \<Rightarrow> json \<Rightarrow> string \<Rightarrow> string \<Rightarrow> unit M" where
  "gitrepository_reconcile cfg spec meta status name ns =
     (let generation = generation_of meta; url = strip (sget spec ''url'');
          (owner, repo) = parse_owner_repo url; cred_name = ref_name spec ''credentialsSecretRef'';
          preview = oget spec ''preview'' in
      thenM (whenM (url = []) (fail status REASON_INVALID_SPEC ''spec.url is required'' generation))
     (thenM (whenM (owner = [] \<or> repo = []) (fail status REASON_INVALID_SPEC
         (''could not parse owner/repo from url '' @ repr url) generation))
     (thenM (whenM (cred_name \<noteq> [])
         (on_status [404]
            (thenM (callM (Typed VGet ''Secret'' ns cred_name JNull)) (ret ()))
            (fail status REASON_DEPENDENCY_NOT_MET
               (''credentials secret '' @ ns @ ''/'' @ repr cred_name @ '' not found'') generation)))
     (thenM (set_status ''owner'' (JStr owner))
     (thenM (set_status ''repo'' (JStr repo))
     (thenM (set_status ''url'' (JStr url))
     (if truthy (jget preview ''enabled'')
      then bindM (reconcile_preview cfg spec preview owner repo name ns status generation)
        (\<lambda>webhook_url.
        thenM (preview_status (eventsource_name owner repo) (sensor_name owner repo) webhook_url)
          (mark_ready status
             (''GitRepository '' @ owner @ ''/'' @ repo @ '' reconciled; previews enabled'')
             generation))
      else thenM (delete_preview cfg owner repo)
          (thenM (preview_status [] [] [])
          (mark_ready status (''GitRepository '' @ owner @ ''/'' @ repo @ '' reconciled'')
             generation)))))))))"

text \<open>\<open>finalize\<close>: the names of the status, or those of the URL when the status has none.\<close>

definition finalize_target :: "json \<Rightarrow> json \<Rightarrow> string \<times> string" where
  "finalize_target spec status =
     (if sget status ''owner'' = [] \<or> sget status ''repo'' = []
      then parse_owner_repo (sget spec ''url'')
      else (sget status ''owner'', sget status ''repo''))"

definition gitrepository_finalize :: "config \<Rightarrow> json \<Rightarrow> json \<Rightarrow> unit M" where
  "gitrepository_finalize cfg spec status =
     (let (owner, repo) = finalize_target spec status in
      whenM (owner \<noteq> [] \<and> repo \<noteq> []) (attempt (delete_preview cfg owner repo)))"

section \<open>Status pushes to the portal\<close>

abbreviation INGEST_PATH :: string where "INGEST_PATH \<equiv> ''/adomi_platform/ingest''"

definition MODEL_BY_PLURAL :: "(string \<times> string) list" where
  "MODEL_BY_PLURAL =
     [(''organizations'', ''adomi.organization''),
      (''clients'', ''adomi.client''),
      (''domains'', ''adomi.domain''),
      (''environments'', ''adomi.environment''),
      (''databaseservers'', ''adomi.database.server''),
      (''applications'', ''adomi.application''),
      (''applicationtypes'', ''adomi.application.type''),
      (''gitrepositories'', ''adomi.git.repository''),
      (''snapshots'', ''adomi.snapshot'')]"

definition odoo_token :: "config \<Rightarrow> string M" where
  "odoo_token cfg = bindM (bao_read cfg (odoo_notify_secret_path cfg)) (\<lambda>d.
     ret (strip (sget (or_empty d) (odoo_notify_token_key cfg))))"

text \<open>
  \<open>except (urllib.error.URLError, OSError, ValueError)\<close>. \<open>HttpErr\<close> and \<open>OtherErr\<close> answers are
  \<open>OSError\<close>s (\<open>HTTPError\<close>, \<open>URLError\<close>, a refused connection); the client's own
  \<open>OpenBaoError\<close> is a \<open>RuntimeError\<close>, and a Kubernetes \<open>ApiException\<close> a plain \<open>Exception\<close>.
\<close>

fun push_caught :: "exn \<Rightarrow> bool" where
  "push_caught (Ext (HttpErr _ _)) = True"
| "push_caught (Ext (OtherErr _)) = True"
| "push_caught (ValueError _) = True"
| "push_caught _ = False"

definition push_request :: "config \<Rightarrow> string \<Rightarrow> string \<Rightarrow> string \<Rightarrow> json \<Rightarrow> call" where
  "push_request cfg token model name obj =
     Http ''POST'' (rstrip_of ''/'' (odoo_notify_url cfg) @ INGEST_PATH)
       [(''Content-Type'', ''application/json''), (''Authorization'', ''Bearer '' @ token)]
       (JObj [(''model'', JStr model), (''name'', JStr name), (''object'', obj)])"

definition push_status :: "config \<Rightarrow> string \<Rightarrow> string \<Rightarrow> json \<Rightarrow> unit M" where
  "push_status cfg model name obj =
     whenM (odoo_notify_enabled cfg)
       (tryM (bindM (odoo_token cfg) (\<lambda>token.
                if token = [] then ret ()
                else thenM (callM (push_request cfg token model name obj)) (ret ())))
          (\<lambda>e. if push_caught e then ret () else raise e))"

text \<open>The status watcher of one resource kind (\<open>_make_handler\<close>); a kind without a model has
  none.\<close>

definition odoo_sync :: "config \<Rightarrow> string \<Rightarrow> string \<Rightarrow> json \<Rightarrow> unit M" where
  "odoo_sync cfg plural name body =
     (case dget MODEL_BY_PLURAL plural of
        Some model \<Rightarrow> push_status cfg model name body
      | None \<Rightarrow> ret ())"

section \<open>The contract\<close>

definition events_resource :: "string \<Rightarrow> string \<Rightarrow> string \<Rightarrow> json \<Rightarrow> custom_resource" where
  "events_resource plural ns name desired =
     \<lparr> cr_api = ARGO_EVENTS_GROUP, cr_plural = plural, cr_namespace = ns, cr_name = name,
       cr_manifest = desired \<rparr>"

text \<open>The module's own \<open>_apply\<close> is the base class's.\<close>

lemma events_apply_custom:
  "events_apply plural ns name desired =
     thenM (apply_custom (events_resource plural ns name desired)) (ret ())"
  by (auto simp: fun_eq_iff events_apply_def apply_custom_def get_custom_def read_custom_def
      create_custom_def patch_custom_def events_resource_def on_status_def tryM_def thenM_def
      bindM_def callM_def ret_def raise_def whenM_def Let_def split: sum.split xerr.split)

interpretation events: applied
  "\<lambda>(plural, ns, name, desired). events_apply plural ns name desired"
  "\<lambda>(plural, ns, name, desired). custom_key (events_resource plural ns name desired)"
proof (unfold_locales, goal_cases)
  case (1 r)
  show ?case by (cases r) (auto simp: events_apply_custom intro!: quiet_intros)
next
  case (2 r)
  show ?case
    by (cases r) (simp add: events_apply_custom only_thenM [OF custom.apply_own only_ret])
next
  case (3 r env s x s')
  then show ?case
    by (cases r) (auto simp: events_apply_custom thenM_Inr ret_def dest: custom.apply_exists)
next
  case (4 env s r)
  have "trace (snd (thenM m (ret ()) env s)) = trace (snd (m env s))" for m :: "json M"
    by (auto simp: thenM_def bindM_def ret_def split: prod.split sum.split)
  with 4 custom.apply_known [OF 4(1)] show ?case
    by (cases r) (auto simp: events_apply_custom no_create_def)
qed

lemma quiet_events [quiet_intros]:
  "quiet (apply_eventsource es)" "quiet (apply_sensor ss)"
  "quiet (delete_eventsource n ns)" "quiet (delete_sensor n ns)"
  unfolding apply_eventsource_def apply_sensor_def delete_eventsource_def delete_sensor_def
    events_apply_custom events_delete_def
  by (intro quiet_intros)+

lemma quiet_provision_preview [quiet_intros]:
  "quiet (provision_preview cfg cr pv ow rp n ns cl ty h)"
  unfolding provision_preview_def Let_def
  by (intro quiet_intros secret.apply_quiet ingress.apply_quiet)

lemma quiet_delete_preview [quiet_intros]: "quiet (delete_preview cfg ow rp)"
  unfolding delete_preview_def Let_def by (intro quiet_intros)

lemma guarded_preview_status [guarded_intros]: "guarded g (preview_status a b c)"
  unfolding preview_status_def by (intro guarded_intros; simp)

lemma guarded_reconcile_preview [guarded_intros]:
  "guarded g (reconcile_preview cfg spec pv ow rp n ns status g)"
  unfolding reconcile_preview_def Let_def
  by (intro guarded_intros guarded_quiet [OF quiet_provision_preview])

interpretation gitrepository: reconciler "gitrepository_reconcile cfg" for cfg
  unfolding gitrepository_reconcile_def [abs_def] Let_def
  by unfold_locales
     (intro reports_intros guarded_intros guarded_quiet [OF quiet_delete_preview]
        guarded_quiet [OF quiet_thenM [OF quiet_callM quiet_ret]];
      (intro quiet_intros)?; simp?)

section \<open>Properties\<close>

text \<open>The five objects of a repository's pipeline, in the order of their removal.\<close>

definition preview_keys :: "config \<Rightarrow> string \<Rightarrow> string \<Rightarrow> obj_key list" where
  "preview_keys cfg owner repo =
     (let source = eventsource_name owner repo; ns = argo_namespace cfg in
      [(ARGO_EVENTS_GROUP, PLURAL_SENSORS, ns, sensor_name owner repo),
       (ARGO_EVENTS_GROUP, PLURAL_EVENTSOURCES, ns, source),
       ([], ''Ingress'', ns, source),
       ([], ''Secret'', ns, source @ ''-token''),
       ([], ''Secret'', ns, source @ ''-webhook'')])"

definition webhook_secret_key :: "config \<Rightarrow> string \<Rightarrow> string \<Rightarrow> obj_key" where
  "webhook_secret_key cfg owner repo =
     ([], ''Secret'', argo_namespace cfg, eventsource_name owner repo @ ''-webhook'')"

text \<open>\<open>writes_within ks w\<close>: a request on the cluster reads, or writes one of the objects \<open>ks\<close>,
  and never updates \<open>w\<close>.\<close>

definition writes_within :: "obj_key list \<Rightarrow> obj_key \<Rightarrow> call \<Rightarrow> bool" where
  "writes_within ks w c = (case call_target c of
     Some (v, k) \<Rightarrow> v = VGet \<or> (k \<in> set ks \<and> (k \<noteq> w \<or> v = VCreate \<or> v = VDelete))
   | None \<Rightarrow> True)"

lemma only_read_key: "P (Typed VGet ''Secret'' ns name JNull) \<Longrightarrow> only P (read_key name ns key)"
  unfolding read_key_def Let_def by (intro only_intros)

lemma only_events:
  "(\<And>c. touches (ARGO_EVENTS_GROUP, PLURAL_EVENTSOURCES, ess_namespace es, ess_name es) c \<Longrightarrow> P c) \<Longrightarrow>
   only P (apply_eventsource es)"
  "(\<And>c. touches (ARGO_EVENTS_GROUP, PLURAL_SENSORS, ses_namespace ss, ses_name ss) c \<Longrightarrow> P c) \<Longrightarrow>
   only P (apply_sensor ss)"
  unfolding apply_eventsource_def apply_sensor_def
  using only_mono [OF events.apply_own [of "(pl, n, m, d)" for pl n m d]]
  by (simp_all add: custom_key_def events_resource_def)

lemma only_ingress: "(\<And>c. touches (ingress_key i) c \<Longrightarrow> P c) \<Longrightarrow> only P (apply_ingress i)"
  using only_mono [OF ingress.apply_own] by metis

lemma only_create_only:
  assumes "ms_create_only m"
    and "P (Typed VGet ''Secret'' (ms_namespace m) (ms_name m) JNull)"
    and "P (Typed VCreate ''Secret'' (ms_namespace m) (ms_name m) (secret_body m))"
  shows "only P (apply_secret m)"
  using assms unfolding apply_secret_def apply_typed_def secret_resource_def
  by (auto intro!: only_intros)

lemma only_provision:
  "only (writes_within (preview_keys cfg ow rp) (webhook_secret_key cfg ow rp))
     (provision_preview cfg cr pv ow rp n ns cl ty h)"
  unfolding provision_preview_def Let_def
  by (intro only_intros only_applies(1) [of "token_secret a b c" for a b c] only_events
        only_ingress only_read_key only_create_only [of "opaque_secret a b c True" for a b c])
     (auto simp: writes_within_def preview_keys_def webhook_secret_key_def Let_def secret_key_def
        token_secret_def opaque_secret_def preview_event_source_def preview_sensor_def
        preview_ingress_def ingress_key_def touches_def)

lemma only_delete_preview:
  "only (writes_within (preview_keys cfg ow rp) (webhook_secret_key cfg ow rp))
     (delete_preview cfg ow rp)"
  unfolding delete_preview_def Let_def delete_sensor_def delete_eventsource_def events_delete_def
    delete_ingress_def delete_secret_def
  by (intro only_intros) (simp_all add: preview_keys_def Let_def writes_within_def)

lemma only_gitrepository:
  assumes t: "parse_owner_repo (strip (sget spec ''url'')) = (ow, rp)"
  shows "only (writes_within (preview_keys cfg ow rp) (webhook_secret_key cfg ow rp))
     (gitrepository_reconcile cfg spec meta status name ns)"
proof -
  have free: "writes_within ks w Now" for ks w
    by (simp add: writes_within_def)
  have "only (writes_within (preview_keys cfg ow rp) (webhook_secret_key cfg ow rp))
      (reconcile_preview cfg spec pv ow rp n ns status g)" for pv n ns g
    unfolding reconcile_preview_def Let_def by (intro only_intros only_provision free)
  with only_delete_preview show ?thesis
    unfolding gitrepository_reconcile_def Let_def preview_status_def t case_prod_conv
    by (intro only_intros free; simp add: writes_within_def)
qed

text \<open>C37. Everything a repository's handler writes is one of the five objects of its preview
  pipeline, whatever the spec and however the requests are answered, and the webhook's HMAC
  secret is never updated once created. The teardown, when it returns, has asked for the
  deletion of exactly these five objects, the Sensor first and the secrets last: nothing
  provisioned outlives the repository.\<close>

theorem preview_teardown_complete:
  "(case parse_owner_repo (strip (sget spec ''url'')) of (owner, repo) \<Rightarrow>
      only (writes_within (preview_keys cfg owner repo) (webhook_secret_key cfg owner repo))
        (gitrepository_reconcile cfg spec meta status name ns)) \<and>
   (case delete_preview cfg owner repo env s of
      (Inr _, s') \<Rightarrow> map (call_target \<circ> fst) (trace s') =
        rev (map (\<lambda>k. Some (VDelete, k)) (preview_keys cfg owner repo)) @
        map (call_target \<circ> fst) (trace s)
    | (Inl _, s') \<Rightarrow> True)" (is "?w \<and> ?d")
proof
  show ?w
    by (simp add: only_gitrepository split: prod.split)
  have one: "on_status [404] (thenM (callM c) (ret ())) (ret ()) env s = (Inr x, s') \<Longrightarrow>
      map (call_target \<circ> fst) (trace s') = call_target c # map (call_target \<circ> fst) (trace s)"
    for c env s x s'
    by (auto simp: on_status_def tryM_def thenM_def bindM_def callM_def ret_def raise_def Let_def
        split: sum.splits xerr.splits if_splits)
  show ?d
    by (auto simp: delete_preview_def Let_def delete_sensor_def delete_eventsource_def
        events_delete_def delete_ingress_def delete_secret_def thenM_Inr preview_keys_def
        dest!: one split: prod.split sum.split)
qed

text \<open>The Environment a pull request gets and the name of its Application do not depend on
  the repository: two repositories with previews in one namespace, for the same client and
  type, share \<open>pr-<number>\<close>, and the pull request closed first deletes the other's preview.
  And two repositories whose owner and name join to the same text share one pipeline, so
  turning previews off for one removes the other's.\<close>

lemma previews_collide:
  "(let s' = s\<lparr>ses_owner := owner', ses_repo := repo', ses_repository_ref := ref',
        ses_name := name', ses_eventsource := source'\<rparr> in
      sensor_triggers s' ! 0 = sensor_triggers s ! 0 \<and>
      sensor_triggers s' ! 4 = sensor_triggers s ! 4 \<and>
      hd (app_create_params s') = hd (app_create_params s)) \<and>
   preview_keys cfg (a @ ''-'' @ b) c = preview_keys cfg a (b @ ''-'' @ c)"
  by (simp add: Let_def sensor_triggers_def environment_template_def app_create_params_def
      preview_keys_def eventsource_name_def sensor_name_def repo_slug_def)

section \<open>Pushes\<close>

lemma quiet_push_status [quiet_intros]: "quiet (push_status cfg model name obj)"
proof -
  have h: "quiet (if push_caught e then ret () else raise e)" if "\<not> is_temporary e" for e
    using that by (simp add: quiet_ret quiet_raise)
  show ?thesis
    unfolding push_status_def odoo_token_def by (intro quiet_intros quiet_tryM h; assumption)
qed

text \<open>\<open>fails env m e\<close>: against \<open>env\<close> the computation raises \<open>e\<close> from every state.\<close>

definition fails :: "env \<Rightarrow> 'a M \<Rightarrow> exn \<Rightarrow> bool" where
  "fails env m e \<longleftrightarrow> (\<forall>s. \<exists>s'. m env s = (Inl e, s'))"

lemma fails_raise: "fails env (raise e) e"
  by (simp add: fails_def raise_def)

lemma fails_callM: "(\<And>l. env l c = Inl x) \<Longrightarrow> fails env (callM c) (Ext x)"
  by (simp add: fails_def callM_def)

lemma fails_bindM: "fails env m e \<Longrightarrow> fails env (bindM m f) e"
  unfolding fails_def bindM_def by (metis (mono_tags, lifting) old.prod.case sum.case(1))

lemma fails_bind_answer: "answers env m v \<Longrightarrow> fails env (f v) e \<Longrightarrow> fails env (bindM m f) e"
  unfolding fails_def answers_def bindM_def
  by (metis (mono_tags, lifting) old.prod.case sum.case(2))

lemma fails_tryM: "fails env m e \<Longrightarrow> fails env (h e) e' \<Longrightarrow> fails env (tryM m h) e'"
  unfolding fails_def tryM_def by (metis (mono_tags, lifting) old.prod.case sum.case(1))

lemma answers_recover: "fails env m e \<Longrightarrow> answers env (h e) v \<Longrightarrow> answers env (tryM m h) v"
  unfolding fails_def answers_def tryM_def
  by (metis (mono_tags, lifting) old.prod.case sum.case(1))

lemma denied_read:
  assumes t: "\<And>force. answers env (openbao_token cfg force) tok"
    and d: "\<And>l. env l (Kv VGet (kv_mount_of cfg) (strip_of ''/'' path) tok JNull) = Inl Denied"
  shows "fails env (bao_read cfg path) (OpenBaoError (''openbao read '' @ path @ '': access denied''))"
proof -
  have "answers env (read_attempt cfg path force) None" for force
    unfolding read_attempt_def
    by (rule answers_bindM, rule t, rule answers_recover, rule fails_bindM, rule fails_callM,
        rule d) (simp add: answers_ret)
  then show ?thesis
    unfolding bao_read_def twice_def
    by (intro fails_bind_answer [where v = None] | simp add: fails_raise)+
qed

text \<open>A status push is not the promised best effort: when OpenBao denies the token's path
  (also after the token was renewed), the client's error is none of those the push catches,
  so the status handler raises, for every resource and every status change.\<close>

lemma push_raises_when_denied:
  assumes "odoo_notify_enabled cfg"
    and "\<And>force. answers env (openbao_token cfg force) tok"
    and "\<And>l. env l (Kv VGet (kv_mount_of cfg) (strip_of ''/'' (odoo_notify_secret_path cfg)) tok
           JNull) = Inl Denied"
  shows "\<exists>s'. push_status cfg model name obj env s =
    (Inl (OpenBaoError (''openbao read '' @ odoo_notify_secret_path cfg @ '': access denied'')), s')"
proof -
  have "fails env (push_status cfg model name obj)
      (OpenBaoError (''openbao read '' @ odoo_notify_secret_path cfg @ '': access denied''))"
    unfolding push_status_def odoo_token_def whenM_def if_P [OF assms(1)]
    by (rule fails_tryM, rule fails_bindM, rule fails_bindM, rule denied_read [OF assms(2,3)])
       (simp add: fails_raise)
  then show ?thesis by (simp add: fails_def)
qed

definition notify_cfg :: config where
  "notify_cfg = default_config\<lparr>odoo_notify_url := ''http://odoo''\<rparr>"

definition denied_env :: env where
  "denied_env l c = (case c of
     Typed VGet kind ns name body \<Rightarrow> Inr (JObj [(''data'', JObj [(''root-token'', JStr ''dG9r'')])])
   | Kv VGet mount path token body \<Rightarrow> Inl Denied
   | _ \<Rightarrow> Inr JNull)"

lemma notify_token: "answers denied_env (openbao_token notify_cfg force) (strip ''tok'')"
proof (rule answers_token)
  show "auth_mode notify_cfg = TOKEN"
    by (simp add: notify_cfg_def)
  show "denied_env l (Typed VGet ''Secret'' (token_secret_namespace notify_cfg)
      (token_secret_name notify_cfg) JNull) =
      Inr (JObj [(''data'', JObj [(''root-token'', JStr ''dG9r'')])])" for l
    by (simp add: denied_env_def)
  show "b64decode (sget (oget (JObj [(''data'', JObj [(''root-token'', JStr ''dG9r'')])]) ''data'')
      (token_secret_key notify_cfg)) = Some ''tok''"
    by code_simp
  show "strip ''tok'' \<noteq> []"
    by code_simp
  show "sget (oget (JObj [(''data'', JObj [(''root-token'', JStr ''dG9r'')])]) ''data'')
      (token_secret_key notify_cfg) \<noteq> []"
    by code_simp
qed

lemma push_raises_when_denied_witness:
  "\<exists>s'. push_status notify_cfg ''adomi.client'' ''c'' (JObj []) denied_env init_st =
     (Inl (OpenBaoError ''openbao read adomi-ingest: access denied''), s')"
  using push_raises_when_denied [OF _ notify_token, of "''adomi.client''" "''c''" "JObj []" init_st]
  by (simp add: notify_cfg_def default_config_def denied_env_def odoo_notify_enabled_def)

end
