(* ===== verification/Operator.thy ===== *)
theory Operator
  imports Sso Deploy Previews
begin

text \<open>
  The operator as a whole: the handlers that importing the \<open>handlers\<close> package registers, by
  the plural of their resource (\<open>@kopf.on.create\<close>, \<open>update\<close> and \<open>resume\<close> call \<open>reconcile\<close>,
  \<open>@kopf.on.delete\<close> calls \<open>finalize\<close>), and the contracts all of them share.
\<close>

definition handlers ::
    "config \<Rightarrow> (string \<times> (json \<Rightarrow> json \<Rightarrow> json \<Rightarrow> string \<Rightarrow> string \<Rightarrow> unit M)) list" where
  "handlers cfg =
     [(PLURAL_APPLICATIONS, application_reconcile cfg),
      (PLURAL_APPLICATIONTYPES, applicationtype_reconcile),
      (PLURAL_CLIENTS, client_reconcile),
      (PLURAL_DATABASES, database_reconcile cfg),
      (PLURAL_DATABASESERVERS, databaseserver_reconcile cfg),
      (PLURAL_DOMAINS, domain_reconcile),
      (PLURAL_GITREPOSITORIES, gitrepository_reconcile cfg),
      (PLURAL_ORGANIZATIONS, organization_reconcile cfg),
      (PLURAL_SNAPSHOTS, snapshot_reconcile cfg),
      (PLURAL_SSOAPPLICATIONS, sso_reconcile cfg),
      (PLURAL_ENVIRONMENTS, environment_reconcile)]"

definition finalizers ::
    "config \<Rightarrow> (string \<times> (json \<Rightarrow> json \<Rightarrow> json \<Rightarrow> string \<Rightarrow> string \<Rightarrow> unit M)) list" where
  "finalizers cfg =
     [(PLURAL_APPLICATIONS, \<lambda>spec meta status name ns. application_finalize cfg status),
      (PLURAL_DATABASES, \<lambda>spec meta status name ns. database_finalize status name),
      (PLURAL_DATABASESERVERS,
        \<lambda>spec meta status name ns. databaseserver_finalize spec status meta name),
      (PLURAL_GITREPOSITORIES,
        \<lambda>spec meta status name ns. gitrepository_finalize cfg spec status),
      (PLURAL_SNAPSHOTS, \<lambda>spec meta status name ns. snapshot_finalize cfg status name ns),
      (PLURAL_SSOAPPLICATIONS, \<lambda>spec meta status name ns. sso_finalize cfg spec status name),
      (PLURAL_ENVIRONMENTS, \<lambda>spec meta status name ns. environment_finalize status)]"

section \<open>Every handler reports\<close>

lemmas handler_contracts =
  application.contract applicationtype.contract client.contract database.contract
  databaseserver.contract domain.contract gitrepository.contract organization.contract
  snapshot.contract sso.contract environment.contract

lemma handlers_reconcile:
  "\<forall>(plural, run) \<in> set (handlers cfg).
     reports (generation_of meta) (run spec meta status name ns)"
  unfolding handlers_def by (auto intro: handler_contracts)

text \<open>C1. Whatever the resource, its spec and the answers of the outside world, a reconcile
  handler says in the Ready condition how it ended: True for the object's generation when it
  returned, False with the requeue's message when it asks to be called again, and nothing
  new when any other exception escapes. No resource is left Ready by a call that failed.\<close>

theorem handlers_report:
  "case dget (handlers cfg) plural of
     None \<Rightarrow> True
   | Some run \<Rightarrow> (case run spec meta status name ns env s of
       (Inr _, s') \<Rightarrow>
         \<exists>msg. reported ''True'' REASON_RECONCILED msg (generation_of meta) (status_patch s')
     | (Inl e, s') \<Rightarrow>
         if is_temporary e
         then \<exists>reason. reported ''False'' reason (exn_str e) (generation_of meta) (status_patch s')
         else same_report s s')"
proof (cases "dget (handlers cfg) plural")
  case (Some run)
  then have "(plural, run) \<in> set (handlers cfg)" by (rule map_of_SomeD)
  with handlers_reconcile have c: "reports (generation_of meta) (run spec meta status name ns)"
    by blast
  show ?thesis
    using reportsD [OF c, of env s] Some
    by (cases "run spec meta status name ns env s") (auto split: sum.split)
qed simp

section \<open>Finalizers\<close>

definition always_returns :: "'a M \<Rightarrow> bool" where
  "always_returns m \<longleftrightarrow> (\<forall>env. returns env m)"

lemma always_attempt: "always_returns (attempt m)"
  unfolding always_returns_def returns_def using attempt_returns by blast

lemma always_ret: "always_returns (ret x)"
  by (simp add: always_returns_def returns_ret)

lemma always_then: "always_returns m \<Longrightarrow> always_returns k \<Longrightarrow> always_returns (thenM m k)"
  by (simp add: always_returns_def returns_thenM)

lemma always_when: "always_returns m \<Longrightarrow> always_returns (whenM b m)"
  by (simp add: always_returns_def returns_whenM)

lemma always_for: "(\<And>x. always_returns (f x)) \<Longrightarrow> always_returns (forM xs f)"
  by (simp add: always_returns_def returns_forM)

lemma always_finalizers:
  "\<forall>(plural, run) \<in> set (finalizers cfg). plural \<noteq> PLURAL_SSOAPPLICATIONS \<longrightarrow>
     always_returns (run spec meta status name ns)"
  unfolding finalizers_def application_finalize_def database_finalize_def
    databaseserver_finalize_def gitrepository_finalize_def snapshot_finalize_def
    environment_finalize_def Let_def
  by (auto intro!: always_ret always_then always_when always_for always_attempt split: prod.split)

text \<open>C39. Deleting a platform resource never hangs on its cleanup: every finalizer but that of
  SSO applications returns, whatever the status holds and whatever requests fail.\<close>

theorem finalizers_return:
  "case dget (finalizers cfg) plural of
     None \<Rightarrow> True
   | Some run \<Rightarrow> plural = PLURAL_SSOAPPLICATIONS \<or>
       (\<exists>s'. run spec meta status name ns env s = (Inr (), s'))"
proof (cases "dget (finalizers cfg) plural")
  case (Some run)
  then have "(plural, run) \<in> set (finalizers cfg)" by (rule map_of_SomeD)
  with always_finalizers [of cfg spec meta status name ns]
  have "plural = PLURAL_SSOAPPLICATIONS \<or> always_returns (run spec meta status name ns)" by blast
  with Some show ?thesis
    using returns_unit by (auto simp: always_returns_def)
qed simp

end
