(* ===== verification/DeployRun.thy ===== *)
theory DeployRun
  imports Deploy
begin

text \<open>
  A complete run of the application engine: a build from source and a restore from a
  snapshot, both finished, then the deployment. It shows that the gates of \<open>Deploy\<close> can be
  passed: the run returns, and it does reach Argo CD.
\<close>

definition app_cfg :: config where
  "app_cfg = default_config\<lparr>base_domain := ''x.io''\<rparr>"

definition app_spec :: json where
  "app_spec = JObj
     [(''environmentRef'', JObj [(''name'', JStr ''dev'')]), (''type'', JStr ''odoo''),
      (''source'', JObj [(''repositoryRef'', JObj [(''name'', JStr ''shop'')])]),
      (''restoreFrom'', JObj [(''snapshotRef'', JObj [(''name'', JStr ''nightly'')])]),
      (''databases'', JArr [JObj [(''server'', JStr ''pg''),
         (''credentials'', JObj [(''secret'', JStr ''db'')])]])]"

definition app_obj :: json where
  "app_obj = JObj
     [(''metadata'', JObj [(''resourceVersion'', JStr ''1'')]),
      (''spec'', JObj [(''url'', JStr ''https://git.x/a/b'')]),
      (''status'', JObj [(''phase'', JStr ''Completed''), (''location'', JStr ''s3://b/k''),
         (''host'', JStr ''h'')])]"

definition app_workflow :: json where
  "app_workflow = JObj [(''status'', JObj [(''phase'', JStr ''Succeeded'')])]"

definition app_kv :: json where
  "app_kv = JObj [(''admin-password'', JStr ''pw''), (''username'', JStr ''robot''),
     (''password'', JStr ''pw''), (''access-key'', JStr ''ak''), (''secret-key'', JStr ''sk'')]"

definition app_token :: json where
  "app_token = JObj [(''data'', JObj [(''root-token'', JStr ''dG9r''), (''password'', JStr ''dG9r'')])]"

fun deploy_world :: env where
  "deploy_world l (Custom _ _ plural _ _ _) =
     Inr (if plural = ''workflows'' then app_workflow else app_obj)"
| "deploy_world l (Typed _ _ _ _ _) = Inr app_token"
| "deploy_world l (Kv _ _ _ _ _) = Inr (JObj [(''data'', JObj [(''data'', app_kv)])])"
| "deploy_world l _ = Inr JNull"

lemma app_env_ok: "all_ok deploy_world"
  unfolding all_ok_def
proof (intro allI)
  fix l c
  show "\<exists>v. deploy_world l c = Inr v" by (cases c) simp_all
qed

lemma app_strip: "strip ''tok'' = ''tok''" "strip ''ak'' = ''ak''" "strip ''sk'' = ''sk''"
  "strip ''pw'' = ''pw''" "b64decode ''dG9r'' = Some ''tok''"
  by code_simp+

lemma app_reads:
  "answers deploy_world (bao_read app_cfg p) (Some app_kv)"
  "answers deploy_world (read_key n ns ''password'') ''tok''"
  "answers deploy_world (read_workflow n ns) (Some app_workflow)"
  "answers deploy_world (get_namespaced pl n ns) (if pl = ''workflows'' then app_workflow else app_obj)"
proof -
  have t: "answers deploy_world (openbao_token app_cfg force) (strip ''tok'')" for force
    by (rule answers_token [of _ _ app_token])
       (simp_all add: app_cfg_def default_config_def app_token_def oget_def sget_def app_strip
         del: b64decode.simps)
  show "answers deploy_world (bao_read app_cfg p) (Some app_kv)"
    using answers_bao_read [OF t, of p "JObj [(''data'', JObj [(''data'', app_kv)])]"]
    by (simp add: app_kv_def)
  show "answers deploy_world (read_key n ns ''password'') ''tok''"
    unfolding read_key_def
    by (rule answers_bindM [of _ _ app_token], rule answers_callM)
       (simp_all add: app_token_def oget_def sget_def app_strip answers_ret del: b64decode.simps)
  show "answers deploy_world (read_workflow n ns) (Some app_workflow)"
    unfolding read_workflow_def read_custom_def
    by (rule answers_on_status, rule answers_bindM [OF answers_callM], simp) (rule answers_ret)
  show "answers deploy_world (get_namespaced pl n ns) (if pl = ''workflows'' then app_workflow else app_obj)"
    unfolding get_namespaced_def by (rule answers_on_status, rule answers_callM) simp
qed

lemma app_getters:
  "answers deploy_world (get_environment n ns) app_obj" "answers deploy_world (get_client n ns) app_obj"
  "answers deploy_world (get_gitrepository n ns) app_obj" "answers deploy_world (get_snapshot n ns) app_obj"
  "answers deploy_world (get_database_server n ns) app_obj"
  using app_reads(4) [of "PLURAL_ENVIRONMENTS"] app_reads(4) [of "PLURAL_CLIENTS"]
    app_reads(4) [of "PLURAL_GITREPOSITORIES"] app_reads(4) [of "PLURAL_SNAPSHOTS"]
    app_reads(4) [of "PLURAL_DATABASESERVERS"]
  by (simp_all add: getter_defs)

lemma app_phase: "phase (Some app_workflow) = PHASE_SUCCEEDED"
  by (simp add: phase_def app_workflow_def oget_def sget_def)

lemma jstr_jor: "jstr (jor (JStr x) (JStr [])) = x"
  by (cases x) simp_all

section \<open>The steps return\<close>

lemma returns_harbor: "all_ok env \<Longrightarrow> returns env (ensure_project_once h b p)"
  unfolding ensure_project_once_def ensure_project_def harbor_request_def
  by (intro returns_intros returns_call_ok)

lemma app_pull_secret: "returns deploy_world (ensure_pull_secret app_cfg eff h p labels)"
  unfolding ensure_pull_secret_def Let_def
  by (rule returns_whenM, rule returns_thenM [OF returns_harbor [OF app_env_ok]],
      rule returns_bind_answer [OF app_reads(1)])
     (simp add: app_kv_def or_empty_def returns_intros returns_writers [OF app_env_ok])

lemma app_build:
  "returns deploy_world (reconcile_build app_cfg eff (jget app_spec ''source'') ns JNull JNull g)"
proof -
  have n: "ref_name (jget app_spec ''source'') ''repositoryRef'' = ''shop''"
    by (simp add: app_spec_def ref_name_def oget_def sget_def)
  have u: "sget (oget app_obj ''spec'') ''url'' = ''https://git.x/a/b''"
    "sget (oget (oget app_obj ''spec'') ''credentialsSecretRef'') ''name'' = []"
    by (simp_all add: app_obj_def oget_def sget_def)
  have g: "\<not> is_github_url ''https://git.x/a/b''" by code_simp
  have h: "resolved_harbor_host app_cfg = ''harbor.x.io''"
    by (simp add: resolved_harbor_host_def app_cfg_def default_config_def)
  have e: "harbor_push_endpoint app_cfg = []" by (simp add: app_cfg_def default_config_def)
  have k: "sget (or_empty (Some app_kv)) (harbor_secret_key app_cfg) = ''pw''"
    by (simp add: app_kv_def app_cfg_def default_config_def or_empty_def sget_def)
  have prep: "returns deploy_world (prepare_build_secrets app_cfg eff (oget app_obj ''spec'') ns h' pi gs JNull g)"
    for h' pi gs
    unfolding prepare_build_secrets_def Let_def
    by (rule returns_bind_answer [OF app_reads(1)])
       (simp add: k u app_strip whenM_def github_app_token_def g returns_intros
         returns_writers [OF app_env_ok] app_pull_secret)
  have p: "push_image_ref i [] = Inr (i, False)" for i
    by (simp add: push_image_ref_def strip_def strip_of_def lstrip_of_def rstrip_of_def)
  have aw: "returns deploy_world (await_build app_cfg eff s' ns JNull JNull g i w)" for s' i w
    unfolding await_build_def Let_def
    by (rule returns_bind_answer [OF app_reads(3)]) (simp add: app_phase returns_ret)
  show ?thesis
    unfolding reconcile_build_def Let_def n u h e p of_result_def sum.case
    by (rule returns_thenM, simp add: whenM_def returns_ret,
        rule returns_bind_answer [OF answers_on_not_found [OF app_getters(3)]])
       (simp add: u whenM_def prep aw returns_intros returns_writers [OF app_env_ok])
qed

lemma app_restore:
  "returns deploy_world (reconcile_restore app_cfg eff app_spec ns img JNull g)"
proof -
  have n: "ref_name (jget app_spec ''restoreFrom'') ''snapshotRef'' = ''nightly''"
    by (simp add: app_spec_def ref_name_def oget_def sget_def)
  obtain conn where c: "answers deploy_world (app_db_connection (restore_target app_spec ns eff)) conn"
    and p: "password_secret_key conn = ''password''"
  proof
    show "answers deploy_world (app_db_connection (restore_target app_spec ns eff))
      \<lparr> db_host = ''h'', db_port = DB_PORT, db_name = [], db_user = [],
        password_secret_namespace = sor (eff_namespace eff) ns, password_secret_name = ''db'',
        password_secret_key = ''password'' \<rparr>"
      unfolding app_db_connection_def Let_def
      by (simp add: restore_target_def app_spec_def oget_def sget_def lget_def)
         (rule answers_bindM [OF app_getters(5)],
          simp add: app_obj_def oget_def sget_def lget_def to_int_def answers_ret restore_target_def
            jstr_jor)
  qed simp
  have k: "strip (sget (or_empty (Some app_kv)) (s3_access_key_key app_cfg)) = ''ak''"
    "strip (sget (or_empty (Some app_kv)) (s3_secret_key_key app_cfg)) = ''sk''"
    by (simp_all add: app_kv_def app_cfg_def default_config_def or_empty_def sget_def app_strip)
  have "returns deploy_world (ensure_secrets app_cfg conn)"
    unfolding ensure_secrets_def Let_def
    by (rule returns_bind_answer [OF app_reads(1)])
       (simp add: k p returns_intros returns_writers [OF app_env_ok]
         returns_bind_answer [OF app_reads(2)])
  then have sub: "returns deploy_world (submit_restore app_cfg conn k' i san w)" for k' i san w
    unfolding submit_restore_def by (intro returns_intros returns_writers app_env_ok)
  have aw: "returns deploy_world (await_restore app_cfg JNull g sr w)" for sr w
    unfolding await_restore_def Let_def
    by (rule returns_bind_answer [OF app_reads(3)]) (simp add: app_phase returns_intros)
  show ?thesis
    unfolding reconcile_restore_def Let_def n
    by (rule returns_bind_answer [OF answers_on_not_found [OF c]],
        rule returns_thenM, simp add: whenM_def returns_ret,
        simp only: jget.simps json.simps if_False,
        rule returns_bind_answer [OF answers_on_not_found [OF app_getters(4)]])
       (simp add: app_obj_def oget_def sget_def whenM_def sub aw returns_intros)
qed

lemma app_deploy:
  "returns deploy_world (deploy_application app_cfg eff app_spec img ns JNull JNull g)"
proof -
  have "returns deploy_world (held_paths app_cfg ps)" for ps
    by (induction ps) (auto intro!: returns_intros answers_returns [OF app_reads(1)])
  then have s: "returns deploy_world (reconcile_scoped_secrets app_cfg eff ls)" for ls
    unfolding reconcile_scoped_secrets_def delete_es_def delete_custom_def Let_def
    by (intro returns_intros returns_writers returns_call_ok app_env_ok)
  have a: "returns deploy_world (apply_argo x)" for x
  proof -
    have "answers deploy_world (get_custom (argo_resource x)) (Some app_obj)"
      unfolding get_custom_def read_custom_def argo_resource_def custom_resource.simps
      by (rule answers_on_status, rule answers_bindM [OF answers_callM], simp) (rule answers_ret)
    then show ?thesis
      unfolding apply_argo_def
      by (rule returns_bind_answer)
         (simp add: app_obj_def replace_custom_def returns_call_ok [OF app_env_ok])
  qed
  have o: "resolve_oidc app_cfg app_spec e = ret ([], True)" for e
    by (simp add: resolve_oidc_def app_spec_def lget_def)
  have r: "to_int (jor (jget app_spec ''replicas'') (JInt 1)) = ret 1"
    by (simp add: app_spec_def to_int_def)
  have f: "report_pr app_cfg src JNull ns st u d c = ret ()" for src st u d c
    by (simp add: report_pr_def pr_info_def Let_def after_def sget_def)
  show ?thesis
    unfolding deploy_application_def Let_def o r f
    by (simp only: bindM_ret prod.case) (intro returns_intros s a, simp_all)
qed

lemma app_resolve:
  "\<exists>eff. answers deploy_world (resolve_effective app_cfg app_spec ''web'' ns JNull g) eff \<and>
     eff_hostname eff \<noteq> []"
proof -
  have n: "ref_name app_spec ''environmentRef'' = ''dev''" "sget app_spec ''type'' = ''odoo''"
    "ref_name app_spec ''domainRef'' = []"
    by (simp_all add: app_spec_def ref_name_def oget_def sget_def)
  let ?ws = "oget app_obj ''spec''"
  have o: "answers deploy_world (get_organization []) JNull"
    unfolding get_organization_def
    by (simp, rule answers_bindM [OF answers_callM], simp)
       (simp add: app_obj_def lget_def answers_ret)
  have t: "answers deploy_world (get_application_type x) app_obj" for x
    unfolding get_application_type_def
    by (rule answers_on_status, rule answers_callM) simp
  have r: "ref_name ?ws ''clientRef'' = []" "ref_name ?ws ''organizationRef'' = []"
    by (simp_all add: app_obj_def ref_name_def oget_def sget_def)
  have "answers deploy_world (resolve_chain ''dev'' ''odoo'' [] ns) (?ws, [], app_obj, JNull, app_obj, [])"
    unfolding resolve_chain_def Let_def
    by (rule answers_bindM [OF app_getters(1)], rule answers_bindM [OF app_getters(2)],
        unfold r, rule answers_bindM [OF o], rule answers_bindM [OF t])
       (simp add: answers_ret)
  note c = answers_on_not_found [OF this]
  let ?eff = "compute app_cfg (oget JNull ''spec'') [] ?ws ''dev'' ?ws ''web'' app_spec ?ws []
     (sget (oget JNull ''metadata'') ''name'')"
  have "answers deploy_world (resolve_effective app_cfg app_spec ''web'' ns JNull g) ?eff"
    unfolding resolve_effective_def Let_def n
    by (simp add: whenM_def) (rule answers_bindM [OF c], simp add: answers_ret)
  moreover have "eff_hostname ?eff \<noteq> []"
  proof -
    have b: "strip (sor [] (sor (sget (oget (oget JNull ''spec'') ''domain'') ''base'')
        (base_domain app_cfg))) = ''x.io''"
      by (simp add: app_cfg_def oget_def sget_def) code_simp
    have e: "strip (sget (oget app_spec ''ingress'') ''host'') = []"
      by (simp add: app_spec_def oget_def sget_def)
    show ?thesis by (simp only: compute_def Let_def effective.simps b e) simp
  qed
  ultimately show ?thesis by blast
qed

lemma app_run:
  "\<exists>s'. application_reconcile app_cfg app_spec JNull JNull ''web'' ''n'' deploy_world init_st = (Inr (), s')"
proof -
  obtain eff where e: "answers deploy_world (resolve_effective app_cfg app_spec ''web'' ''n'' JNull
      (generation_of JNull)) eff" and h: "eff_hostname eff \<noteq> []"
    using app_resolve by blast
  have "returns deploy_world (application_reconcile app_cfg app_spec JNull JNull ''web'' ''n'')"
    unfolding application_reconcile_def Let_def
    by (rule returns_bind_answer [OF e])
       (simp add: h whenM_def returns_intros returns_writers [OF app_env_ok] app_build app_restore
         app_deploy)
  then show ?thesis by (rule returns_unit)
qed

section \<open>The gates at this run\<close>

lemma logs_apply_argo: "logs (\<lambda>cr. argo_call (fst cr)) (apply_argo a)"
proof -
  have "logs (\<lambda>cr. argo_call (fst cr)) (get_custom (argo_resource a))"
    unfolding logs_def get_custom_def read_custom_run argo_resource_def
    by (auto simp: Let_def argo_call_def split: sum.splits xerr.splits if_splits)
  then show ?thesis
    unfolding apply_argo_def replace_custom_def create_custom_def
    by (rule logs_bindM_left) (auto intro!: growsI only_intros split: option.split)
qed

lemma logs_deploy: "logs (\<lambda>cr. argo_call (fst cr)) (deploy_application cfg eff spec img ns meta status g)"
proof -
  have "grows (ret ())" by (rule growsI) (rule only_ret)
  then have "logs (\<lambda>cr. argo_call (fst cr)) (thenM (apply_argo a) (ret ()))" for a
    by (rule logs_thenM_left [OF logs_apply_argo])
  then have "logs (\<lambda>cr. argo_call (fst cr)) (or_fail status g t (thenM (apply_argo a) (ret ())))" for t a
    unfolding logs_def or_fail_def by (auto simp: tryM_Inr fail_never_returns)
  then show ?thesis
    unfolding deploy_application_def Let_def
    by (intro logs_bindM_right logs_case_prod logs_thenM_left growsI)
       (auto intro!: only_intros only_weaken [OF free_feedback])
qed

lemma app_run_reaches_argo:
  assumes "application_reconcile cfg spec meta status name ns env s = (Inr (), s')"
  shows "\<exists>cr \<in> set (trace s'). argo_call (fst cr)"
proof -
  have "logs (\<lambda>cr. argo_call (fst cr)) (application_reconcile cfg spec meta status name ns)"
    unfolding application_reconcile_def Let_def
    by (intro logs_bindM_right logs_thenM_right logs_deploy)
  with assms show ?thesis unfolding logs_def by blast
qed

lemma app_spec_gates: "truthy (jget app_spec ''source'')" "truthy (jget app_spec ''restoreFrom'')"
  "restore_snapshot app_spec = ''nightly''" "restore_password_secret app_spec = ''db''"
  by (simp_all add: app_spec_def restore_snapshot_def restore_password_secret_def ref_name_def
      oget_def sget_def lget_def)

definition app_log :: log where
  "app_log = trace (snd (application_reconcile app_cfg app_spec JNull JNull ''web'' ''n'' deploy_world init_st))"

lemma app_log_argo: "\<exists>cr \<in> set app_log. argo_call (fst cr)"
  using app_run app_run_reaches_argo unfolding app_log_def by fastforce

lemma deploy_after_build_witness:
  "preceded (build_succeeded ''web'') argo_call app_log \<and> (\<exists>cr \<in> set app_log. argo_call (fst cr))"
  using deploy_after_build [OF app_spec_gates(1), of init_st "''web''" app_cfg JNull JNull "''n''" deploy_world]
    app_log_argo by (simp add: app_log_def init_st_def)

lemma deploy_after_restore_witness:
  "preceded (restore_succeeded ''web'' ''nightly'') argo_call app_log \<and>
   (\<exists>cr \<in> set app_log. argo_call (fst cr))"
  using deploy_after_restore [OF app_spec_gates(2), of JNull init_st "''web''" app_cfg JNull "''n''"
      deploy_world] app_log_argo
  by (simp add: app_log_def init_st_def app_spec_gates)

lemma restore_needs_delivered_password_witness:
  "preceded (secret_was_read ''db'') argo_call app_log \<and> (\<exists>cr \<in> set app_log. argo_call (fst cr))"
  using restore_needs_delivered_password [OF app_spec_gates(2), of JNull init_st app_cfg JNull
      "''web''" "''n''" deploy_world] app_log_argo
  by (simp add: app_log_def init_st_def app_spec_gates)

end
