(* ===== verification/Retry.thy ===== *)
theory Retry
  imports Database
begin

text \<open>
  Polling handlers under Kopf's retry loop. A handler that is not done requeues itself with a
  \<open>TemporaryError\<close>; the runtime merges its status patch into the object and calls it again
  with the new status. \<open>kopf_retry n\<close> is that loop for at most \<open>n\<close> further calls. A handler
  that makes a poll on each unsuccessful call, and succeeds once enough polls were made,
  becomes ready: the loop's fuel bounds how many calls that takes.
\<close>

definition kopf_call ::
    "(json \<Rightarrow> unit M) \<Rightarrow> env \<Rightarrow> json \<Rightarrow> st \<Rightarrow> (exn + unit) \<times> json \<times> st" where
  "kopf_call run env status s =
     (case run status env (s\<lparr>status_patch := []\<rparr>) of
        (r, s') \<Rightarrow> (r, merge_status status (status_patch s'), s'))"

fun kopf_retry ::
    "nat \<Rightarrow> (json \<Rightarrow> unit M) \<Rightarrow> env \<Rightarrow> json \<Rightarrow> st \<Rightarrow> (exn + unit) \<times> json \<times> st" where
  "kopf_retry 0 run env status s = kopf_call run env status s"
| "kopf_retry (Suc n) run env status s =
     (case kopf_call run env status s of
        (Inr u, status', s') \<Rightarrow> (Inr u, status', s')
      | (Inl e, status', s') \<Rightarrow> kopf_retry n run env status' s')"

definition polls :: "call \<Rightarrow> log \<Rightarrow> nat" where
  "polls c l = length (filter (\<lambda>cr. fst cr = c) l)"

lemma polls_append [simp]: "polls c (a @ b) = polls c a + polls c b"
  by (simp add: polls_def)

lemma polls_Cons [simp]: "polls c ((c', r) # l) = (if c' = c then Suc (polls c l) else polls c l)"
  by (simp add: polls_def)

lemma polls_Nil [simp]: "polls c [] = 0"
  by (simp add: polls_def)

lemma polls_grows: "grows m \<Longrightarrow> m env s = (r, s') \<Longrightarrow> polls c (trace s) \<le> polls c (trace s')"
  unfolding grows_def only_def by (metis le_add2 polls_append snd_conv)

text \<open>Each failing call polls once more, so at most \<open>n\<close> calls fail.\<close>

lemma retry_returns:
  assumes poll: "\<And>status s e s'. run status env s = (Inl e, s') \<Longrightarrow>
      polls c (trace s) < polls c (trace s')"
    and fin: "\<And>status s. n \<le> polls c (trace s) \<Longrightarrow> \<exists>s'. run status env s = (Inr (), s')"
  shows "n \<le> polls c (trace s) + k \<Longrightarrow> \<exists>status' s'. kopf_retry k run env status s = (Inr (), status', s')"
proof (induction k arbitrary: status s)
  case 0
  with fin [of "s\<lparr>status_patch := []\<rparr>" status] show ?case
    by (auto simp: kopf_call_def)
next
  case (Suc k)
  obtain r s1 where 1: "run status env (s\<lparr>status_patch := []\<rparr>) = (r, s1)"
    by (cases "run status env (s\<lparr>status_patch := []\<rparr>)")
  show ?case
  proof (cases r)
    case (Inl e)
    with 1 poll have "polls c (trace s) < polls c (trace s1)" by fastforce
    with Suc.prems have "n \<le> polls c (trace s1) + k" by simp
    from Suc.IH [OF this] 1 Inl show ?thesis by (simp add: kopf_call_def)
  next
    case (Inr u)
    with 1 show ?thesis by (simp add: kopf_call_def)
  qed
qed

text \<open>The result of the loop is that of its last call.\<close>

lemma retry_last:
  "kopf_retry k run env status s = (r, status', s') \<Longrightarrow>
   \<exists>st0 s0. run st0 env s0 = (r, s') \<and> status_patch s0 = [] \<and>
     status' = merge_status st0 (status_patch s')"
proof (induction k arbitrary: status s)
  case 0
  then show ?case
    by (auto simp: kopf_call_def split: prod.splits intro!: exI [of _ "s\<lparr>status_patch := []\<rparr>"])
next
  case (Suc k)
  obtain r1 s1 where 1: "run status env (s\<lparr>status_patch := []\<rparr>) = (r1, s1)"
    by (cases "run status env (s\<lparr>status_patch := []\<rparr>)")
  show ?case
  proof (cases r1)
    case (Inl e)
    with 1 Suc show ?thesis by (simp add: kopf_call_def)
  next
    case (Inr u)
    with 1 Suc.prems show ?thesis
      by (auto simp: kopf_call_def intro!: exI [of _ "s\<lparr>status_patch := []\<rparr>"])
  qed
qed

section \<open>Snapshots become ready\<close>

abbreviation workflow_read :: "config \<Rightarrow> string \<Rightarrow> call" where
  "workflow_read cfg workflow_name \<equiv>
     Custom VGet ''argoproj.io/v1alpha1'' ''workflows'' (argo_namespace cfg) workflow_name JNull"

text \<open>
  \<open>reaches env m k s\<close>: from \<open>s\<close> the computation \<open>m\<close> runs through to \<open>k\<close>; the log only
  grows on the way.
\<close>

definition reaches :: "env \<Rightarrow> 'a M \<Rightarrow> 'a M \<Rightarrow> st \<Rightarrow> bool" where
  "reaches env m k s \<longleftrightarrow>
     (\<exists>s1. m env s = k env s1 \<and> (\<forall>c. polls c (trace s) \<le> polls c (trace s1)))"

lemma reaches_refl: "reaches env m m s"
  unfolding reaches_def by blast

lemma reachesE:
  assumes "reaches env m k s"
  obtains s1 where "m env s = k env s1" and "\<forall>c. polls c (trace s) \<le> polls c (trace s1)"
  using assms unfolding reaches_def by blast

lemma reaches_bind:
  assumes "answers env m v" and "grows m" and "\<And>s. reaches env (f v) k s"
  shows "reaches env (bindM m f) k s"
proof -
  obtain s1 where 1: "m env s = (Inr v, s1)" using assms(1) by (auto simp: answers_def)
  have "\<forall>c. polls c (trace s) \<le> polls c (trace s1)" using polls_grows [OF assms(2) 1] by blast
  moreover obtain s2 where "f v env s1 = k env s2" "\<forall>c. polls c (trace s1) \<le> polls c (trace s2)"
    using assms(3) by (auto simp: reaches_def)
  ultimately show ?thesis
    using 1 unfolding reaches_def bindM_def by (auto intro: le_trans)
qed

lemma reaches_then:
  fixes m :: "unit M"
  assumes "returns env m" and "grows m" and "\<And>s. reaches env n k s"
  shows "reaches env (thenM m n) k s"
  unfolding thenM_def
proof (rule reaches_bind [OF _ assms(2)])
  show "answers env m ()" using returns_unit [OF assms(1)] by (simp add: answers_def)
qed (rule assms(3))

lemma grows_app_db: "grows (bindM (get_application a ns) app_db_connection)"
  unfolding get_application_def get_namespaced_def app_db_connection_def get_database_server_def
    Let_def
  by (intro growsI only_intros; simp)

lemma grows_submit_snapshot: "grows (submit_snapshot cfg c k w)"
  unfolding submit_snapshot_def ensure_secrets_def bao_read_def read_key_def Let_def
  by (intro growsI only_intros only_applies TrueI; simp)

lemma grows_snapshot_poll: "grows (snapshot_poll cfg status g loc w)"
  unfolding snapshot_poll_def read_workflow_def read_custom_def Let_def
  by (intro growsI only_intros TrueI)

lemma snapshot_reaches_poll:
  assumes app: "ref_name spec ''applicationRef'' \<noteq> []"
    and conn: "answers env (bindM (get_application (ref_name spec ''applicationRef'') ns)
      app_db_connection) c"
    and sub: "returns env (submit_snapshot cfg c (snapshot_object_key ns name)
      (snapshot_workflow_name ns name))"
  shows "reaches env (snapshot_reconcile cfg spec meta status name ns)
    (snapshot_poll cfg status (generation_of meta)
      (''s3://'' @ s3_bucket cfg @ ''/'' @ snapshot_object_key ns name)
      (snapshot_workflow_name ns name)) s"
proof -
  have set: "grows (set_status k v)" for k v
    by (intro growsI only_intros)
  have nf: "grows (on_not_found (bindM (get_application a ns) app_db_connection)
      (\<lambda>t. fail status REASON_DEPENDENCY_NOT_MET t g))" for a g
    unfolding grows_def
    by (intro only_on_not_found grows_app_db [unfolded grows_def] only_fail_after TrueI)
  have or: "grows (or_fail_keep status g t (submit_snapshot cfg c k w))" for g t k w
    unfolding grows_def or_fail_keep_def
    by (intro only_try_keep grows_submit_snapshot [unfolded grows_def] only_fail_after TrueI)
  have gate: "whenM (ref_name spec ''applicationRef'' = []) m = ret ()" for m
    using app by (simp add: whenM_def)
  have start: "grows (ret ())"
    by (intro growsI only_intros)
  show ?thesis
    unfolding snapshot_reconcile_def Let_def gate
    by (rule reaches_then [OF returns_ret start],
        rule reaches_bind [OF answers_on_not_found [OF conn] nf],
        rule reaches_then [OF returns_or_fail(2) [OF sub] or],
        (rule reaches_then [OF returns_set_status set])+, rule reaches_refl)
qed

lemma snapshot_poll_run:
  fixes found :: "log \<Rightarrow> json"
  assumes "\<And>l. env l (workflow_read cfg w) = Inr (found l)"
  shows "\<exists>r s'. snapshot_poll cfg status g loc w env s = (r, s') \<and>
    polls (workflow_read cfg w) (trace s) < polls (workflow_read cfg w) (trace s') \<and>
    (phase (Some (found (trace s))) = PHASE_SUCCEEDED \<longrightarrow> r = Inr ())"
proof -
  let ?c = "workflow_read cfg w" and ?f = "Some (found (trace s))"
  define s1 where "s1 = s\<lparr>trace := (?c, Inr (found (trace s))) # trace s\<rparr>"
  define tail where "tail = (\<lambda>found. let ph = phase found in
      if ph = PHASE_SUCCEEDED
      then thenM (set_status ''phase'' (JStr ''Completed''))
             (mark_ready status (''Snapshot stored at '' @ loc) g)
      else if ph = PHASE_FAILED \<or> ph = PHASE_ERROR
      then thenM (set_status ''phase'' (JStr ''Failed''))
             (fail_after 120 status REASON_BACKEND_ERROR
                (''snapshot Workflow '' @ repr w @ '' '' @ lower ph) g)
      else thenM (set_status ''phase'' (JStr ''Running''))
             (fail_after 15 status REASON_RECONCILING
                (''dumping database (Workflow '' @ repr w @ '')'') g))"
  have "read_workflow w (argo_namespace cfg) env s = (Inr ?f, s1)"
    by (simp add: read_workflow_def read_custom_run assms s1_def)
  then have run: "snapshot_poll cfg status g loc w env s = tail ?f env s1"
    unfolding snapshot_poll_def tail_def by (simp add: bindM_def)
  have "grows (tail ?f)"
    unfolding tail_def Let_def by (intro growsI only_intros TrueI)
  with polls_grows have "polls ?c (trace s1) \<le> polls ?c (trace (snd (tail ?f env s1)))"
    by (metis prod.collapse)
  moreover have "polls ?c (trace s) < polls ?c (trace s1)"
    by (simp add: s1_def)
  moreover have "fst (tail ?f env s1) = Inr ()" if "phase ?f = PHASE_SUCCEEDED"
  proof -
    obtain s' where "mark_ready status (''Snapshot stored at '' @ loc) g env
        (s1\<lparr>status_patch := dset ''phase'' (JStr ''Completed'') (status_patch s1)\<rparr>) = (Inr (), s')"
      using mark_ready_run by blast
    with that show ?thesis
      unfolding tail_def by (simp add: thenM_def bindM_def set_status_def modifyM_def)
  qed
  ultimately show ?thesis
    unfolding run by (intro exI [of _ "fst (tail ?f env s1)"] exI [of _ "snd (tail ?f env s1)"]) simp
qed

text \<open>C7. A Snapshot becomes ready. When its Application resolves and the dump can be
  submitted, and the Workflow shows \<open>Succeeded\<close> after at most \<open>n\<close> reads of it (whatever
  phases it showed before, failed attempts included), then at most \<open>n\<close> requeues later a call
  of the handler returns, with Ready=True reported for the object's generation.\<close>

theorem snapshot_eventually_ready:
  fixes found :: "log \<Rightarrow> json"
  assumes app: "ref_name spec ''applicationRef'' \<noteq> []"
    and conn: "answers env (bindM (get_application (ref_name spec ''applicationRef'') ns)
      app_db_connection) c"
    and sub: "returns env (submit_snapshot cfg c (snapshot_object_key ns name)
      (snapshot_workflow_name ns name))"
    and workflow: "\<And>l. env l (workflow_read cfg (snapshot_workflow_name ns name)) = Inr (found l)"
    and succeeds: "\<And>l. n \<le> polls (workflow_read cfg (snapshot_workflow_name ns name)) l \<Longrightarrow>
      phase (Some (found l)) = PHASE_SUCCEEDED"
  shows "\<exists>status' s' msg. kopf_retry n (\<lambda>status. snapshot_reconcile cfg spec meta status name ns)
      env status init_st = (Inr (), status', s') \<and>
    reported ''True'' REASON_RECONCILED msg (generation_of meta) (status_patch s')"
proof -
  let ?c = "workflow_read cfg (snapshot_workflow_name ns name)"
  let ?run = "\<lambda>status. snapshot_reconcile cfg spec meta status name ns"
  have step: "\<exists>r s'. ?run status env s = (r, s') \<and> polls ?c (trace s) < polls ?c (trace s') \<and>
      (n \<le> polls ?c (trace s) \<longrightarrow> r = Inr ())" for status s
  proof -
    from snapshot_reaches_poll [OF app conn sub]
    obtain s1 where 1: "?run status env s = snapshot_poll cfg status (generation_of meta)
        (''s3://'' @ s3_bucket cfg @ ''/'' @ snapshot_object_key ns name)
        (snapshot_workflow_name ns name) env s1" and le: "polls ?c (trace s) \<le> polls ?c (trace s1)"
      by (rule reachesE [where s = s]) blast
    have "\<exists>r s'. ?run status env s = (r, s') \<and> polls ?c (trace s1) < polls ?c (trace s') \<and>
        (phase (Some (found (trace s1))) = PHASE_SUCCEEDED \<longrightarrow> r = Inr ())"
      unfolding 1 by (rule snapshot_poll_run [where found = found]) (rule workflow)
    then obtain r s' where "?run status env s = (r, s')"
      and "polls ?c (trace s1) < polls ?c (trace s')"
      and "phase (Some (found (trace s1))) = PHASE_SUCCEEDED \<longrightarrow> r = Inr ()" by blast
    with le succeeds [of "trace s1"] show ?thesis by auto
  qed
  have poll: "polls ?c (trace s) < polls ?c (trace s')" if "?run status env s = (Inl e, s')"
    for status s e s'
    using step [of status s] that by auto
  have fin: "\<exists>s'. ?run status env s = (Inr (), s')" if "n \<le> polls ?c (trace s)" for status s
    using step [of status s] that by auto
  have "\<exists>status' s'. kopf_retry n ?run env status init_st = (Inr (), status', s')"
    by (rule retry_returns [where c = ?c and n = n]) (erule poll, erule fin, simp)
  then obtain status' s' where k: "kopf_retry n ?run env status init_st = (Inr (), status', s')"
    by blast
  from retry_last [OF this] obtain st0 s0 where "?run st0 env s0 = (Inr (), s')" by blast
  from snapshot.returns_ready [OF this] k show ?thesis by blast
qed

text \<open>The dump of \<open>snap_spec\<close> in a cluster whose Workflow is seen running twice.\<close>

definition late_found :: "log \<Rightarrow> json" where
  "late_found l =
     (if polls (workflow_read default_config (snapshot_workflow_name ''n'' ''nightly'')) l < 2
      then JObj [(''status'', JObj [(''phase'', JStr ''Running'')])] else snap_obj)"

definition late_env :: env where
  "late_env l c =
     (if c = workflow_read default_config (snapshot_workflow_name ''n'' ''nightly'')
      then Inr (late_found l) else snap_env l c)"

lemma late_env_ok: "all_ok late_env"
  using snap_env_ok by (auto simp: all_ok_def late_env_def)

lemma snapshot_eventually_ready_witness:
  "\<exists>status' s' msg. kopf_retry 2
      (\<lambda>status. snapshot_reconcile default_config snap_spec JNull status ''nightly'' ''n'')
      late_env JNull init_st = (Inr (), status', s') \<and>
    reported ''True'' REASON_RECONCILED msg (JInt 0) (status_patch s')"
proof -
  have n: "ref_name snap_spec ''applicationRef'' = ''web''"
    by (simp add: ref_name_def oget_def sget_def snap_spec_def)
  let ?c = "\<lparr> db_host = ''h'', db_port = DB_PORT, db_name = [], db_user = [],
      password_secret_namespace = [], password_secret_name = [],
      password_secret_key = ''password'' \<rparr>"
  have g: "answers late_env (get_namespaced pl nm ns) snap_obj" for pl nm ns
    unfolding get_namespaced_def
    by (rule answers_on_status, rule answers_callM) (simp add: late_env_def)
  have conn: "answers late_env (bindM (get_application (ref_name snap_spec ''applicationRef'') ''n'')
      app_db_connection) ?c"
    unfolding get_application_def
    by (rule answers_bindM [OF g])
       (simp add: app_db_connection_def Let_def get_database_server_def snap_obj_def oget_def
         sget_def lget_def answers_bindM [OF g [unfolded snap_obj_def]] to_int_def answers_ret)
  have sec: "returns late_env (ensure_secrets default_config ?c)"
    by (rule snap_secrets [OF late_env_ok]) (simp_all add: late_env_def)
  have sub: "returns late_env (submit_snapshot default_config ?c k wn)" for k wn
    unfolding submit_snapshot_def
    by (rule returns_bindM [OF sec]) (intro returns_intros returns_writers late_env_ok)
  have late: "phase (Some (late_found l)) = PHASE_SUCCEEDED"
    if "2 \<le> polls (workflow_read default_config (snapshot_workflow_name ''n'' ''nightly'')) l" for l
    using that by (simp add: late_found_def phase_def snap_obj_def oget_def sget_def)
  have "generation_of JNull = JInt 0"
    by (simp add: generation_of_def)
  moreover have "late_env l (workflow_read default_config (snapshot_workflow_name ''n'' ''nightly'')) =
      Inr (late_found l)" for l
    by (simp add: late_env_def)
  ultimately show ?thesis
    using snapshot_eventually_ready [where found = late_found and n = 2 and env = late_env
        and name = "''nightly''" and ns = "''n''" and cfg = default_config and status = JNull
        and spec = snap_spec and meta = JNull, OF _ conn sub _ late] n by simp
qed

end
