(* ===== verification/Store.thy ===== *)
theory Store
  imports OpenBao
begin

text \<open>
  The credential store behind the OpenBao client. Its abstract state maps each path to the
  secret kept there; \<open>kv_state\<close> reads that state off the log (the successful writes of one
  mount over an initial content). The abstract operation of \<open>ensure_keys\<close> is
  \<open>generate_once\<close>; the client's read-fill-write loop, with its retries and failures, is
  shown to implement it as one atomic step.
\<close>

type_synonym kv_map = "string \<Rightarrow> dict option"

fun kv_written :: "call \<Rightarrow> (string \<times> string \<times> dict) option" where
  "kv_written (Kv VCreate m path token (JObj d)) = Some (m, path, d)"
| "kv_written _ = None"

fun kv_state :: "kv_map \<Rightarrow> string \<Rightarrow> log \<Rightarrow> kv_map" where
  "kv_state init mnt [] = init"
| "kv_state init mnt ((c, r) # l) =
     (case kv_written c of
        Some (m, path, d) \<Rightarrow>
          if m = mnt \<and> \<not> isl r then (kv_state init mnt l)(path := Some d)
          else kv_state init mnt l
      | None \<Rightarrow> kv_state init mnt l)"

text \<open>
  What OpenBao documents for a KV mount: a read that is answered carries the last version
  written, and \<open>InvalidPath\<close> means there is none. Every other answer (a denied token, a
  failed connection) may come at any time, to reads and to writes.
\<close>

definition kv_answer :: "dict \<Rightarrow> json" where
  "kv_answer d = JObj [(''data'', JObj [(''data'', JObj d)])]"

definition kv_server :: "kv_map \<Rightarrow> string \<Rightarrow> env \<Rightarrow> bool" where
  "kv_server init mnt env \<longleftrightarrow>
     (\<forall>l path token. case env l (Kv VGet mnt path token JNull) of
        Inr a \<Rightarrow> (case kv_state init mnt l path of Some d \<Rightarrow> a = kv_answer d | None \<Rightarrow> False)
      | Inl InvalidPath \<Rightarrow> kv_state init mnt l path = None
      | Inl _ \<Rightarrow> True)"

text \<open>The abstract operation: wanted keys without a value get one, all else is kept.\<close>

definition generate_once :: "string list \<Rightarrow> dict \<Rightarrow> dict \<Rightarrow> bool" where
  "generate_once want old new \<longleftrightarrow>
     (\<forall>k. truthy (jget (JObj old) k) \<or> k \<notin> set want \<longrightarrow> dget new k = dget old k) \<and>
     (\<forall>k \<in> set want. jhas (JObj new) k)"

section \<open>Steps that keep the store\<close>

lemma kv_written_None: "\<not> kv_write c \<Longrightarrow> kv_written c = None"
  by (cases c rule: kv_written.cases) auto

lemma kv_state_keep:
  "\<forall>cr \<in> set new. \<not> kv_write (fst cr) \<Longrightarrow> kv_state init mnt (new @ l) = kv_state init mnt l"
  by (induction new) (auto simp: kv_written_None)

lemma keeps_store:
  assumes "only (\<lambda>c. \<not> kv_write c) m" and "m env s = (r, s')"
  shows "kv_state init mnt (trace s') = kv_state init mnt (trace s)"
  using onlyE [OF assms(1), where env = env and s = s] assms(2) kv_state_keep by (metis snd_conv)

lemma only_token_nowrite: "only (\<lambda>c. \<not> kv_write c) (openbao_token cfg force)"
  by (rule only_mono [OF only_openbao_token]) (auto elim: kv_write.elims)

lemma read_attempt_store:
  assumes srv: "kv_server init (kv_mount_of cfg) env"
    and run: "read_attempt cfg path force env s = (r, s')"
  shows "kv_state init (kv_mount_of cfg) (trace s') = kv_state init (kv_mount_of cfg) (trace s) \<and>
    (\<forall>found. r = Inr (Some found) \<longrightarrow>
       found = map_option JObj (kv_state init (kv_mount_of cfg) (trace s) (strip_of ''/'' path)))"
proof
  have o: "only (\<lambda>c. \<not> kv_write c) (read_attempt cfg path force)"
    by (intro only_intros) (auto elim: kv_write.elims token_call.elims)
  from keeps_store [OF o run]
  show "kv_state init (kv_mount_of cfg) (trace s') = kv_state init (kv_mount_of cfg) (trace s)" .
  show "\<forall>found. r = Inr (Some found) \<longrightarrow>
       found = map_option JObj (kv_state init (kv_mount_of cfg) (trace s) (strip_of ''/'' path))"
  proof (intro allI impI)
    fix found
    assume f: "r = Inr (Some found)"
    obtain x s1 where t: "openbao_token cfg force env s = (x, s1)"
      by (cases "openbao_token cfg force env s")
    have k: "kv_state init (kv_mount_of cfg) (trace s1) = kv_state init (kv_mount_of cfg) (trace s)"
      using keeps_store [OF only_token_nowrite t] .
    show "found = map_option JObj (kv_state init (kv_mount_of cfg) (trace s) (strip_of ''/'' path))"
    proof (cases x)
      case (Inl e)
      with run t f show ?thesis by (simp add: read_attempt_def bindM_def)
    next
      case (Inr tok)
      let ?c = "Kv VGet (kv_mount_of cfg) (strip_of ''/'' path) tok JNull"
      note srv [unfolded kv_server_def, rule_format, of "trace s1" "strip_of ''/'' path" tok]
      with run t f Inr k show ?thesis
        by (auto simp: read_attempt_def bindM_def tryM_def callM_def Let_def item_def kv_answer_def
            ret_def raise_def jor_def split: sum.splits xerr.splits option.splits if_splits)
    qed
  qed
qed

lemma bao_read_store:
  assumes "kv_server init (kv_mount_of cfg) env"
    and "bao_read cfg path env s = (Inr found, s')"
  shows "found = map_option JObj (kv_state init (kv_mount_of cfg) (trace s) (strip_of ''/'' path))"
    and "kv_state init (kv_mount_of cfg) (trace s') = kv_state init (kv_mount_of cfg) (trace s)"
  using assms(2) read_attempt_store [OF assms(1)]
  unfolding bao_read_def twice_def
  by (auto simp: bindM_Inr ret_def raise_def split: option.splits) metis+

lemma write_attempt_store:
  assumes "write_attempt cfg path d force env s = (r, s')"
  shows "kv_state init (kv_mount_of cfg) (trace s') =
    (case r of Inr (Some _) \<Rightarrow> (kv_state init (kv_mount_of cfg) (trace s))(strip_of ''/'' path := Some d)
     | _ \<Rightarrow> kv_state init (kv_mount_of cfg) (trace s))"
proof -
  obtain x s1 where t: "openbao_token cfg force env s = (x, s1)"
    by (cases "openbao_token cfg force env s")
  have k: "kv_state init (kv_mount_of cfg) (trace s1) = kv_state init (kv_mount_of cfg) (trace s)"
    using keeps_store [OF only_token_nowrite t] .
  show ?thesis
    using assms t k
    by (cases x) (auto simp: write_attempt_def bindM_def thenM_def tryM_def callM_def Let_def ret_def
        raise_def split: sum.splits xerr.splits)
qed

lemma bao_write_store:
  assumes "bao_write cfg path d env s = (r, s')"
  shows "kv_state init (kv_mount_of cfg) (trace s') =
    (if isl r then kv_state init (kv_mount_of cfg) (trace s)
     else (kv_state init (kv_mount_of cfg) (trace s))(strip_of ''/'' path := Some d))"
proof -
  obtain x1 s1 where 1: "write_attempt cfg path d False env s = (x1, s1)"
    by (cases "write_attempt cfg path d False env s")
  obtain x2 s2 where 2: "write_attempt cfg path d True env s1 = (x2, s2)"
    by (cases "write_attempt cfg path d True env s1")
  show ?thesis
    using assms 1 2 write_attempt_store [OF 1, of init] write_attempt_store [OF 2, of init]
    by (auto simp: bao_write_def twice_def bindM_def ret_def raise_def
        split: sum.splits option.splits)
qed

lemma fill_keys_others:
  "fill_keys gen ks d ch env s = (Inr (d', ch'), s') \<Longrightarrow>
   truthy (jget (JObj d) k) \<or> k \<notin> set ks \<Longrightarrow> dget d' k = dget d k"
proof (induction ks arbitrary: d ch s)
  case (Cons key ks)
  show ?case
  proof (cases "truthy (jget (JObj d) key)")
    case True
    with Cons.prems(1) have f: "fill_keys gen ks d ch env s = (Inr (d', ch'), s')" by simp
    show ?thesis by (rule Cons.IH [OF f]) (use Cons.prems(2) in auto)
  next
    case False
    with Cons.prems obtain v s1 where
      f: "fill_keys gen ks (dset key (JStr v) d) True env s1 = (Inr (d', ch'), s')"
      by (auto simp: bindM_Inr simp del: jget.simps)
    from False Cons.prems(2) have "k \<noteq> key" by auto
    with Cons.prems(2) have "truthy (jget (JObj (dset key (JStr v) d)) k) \<or> k \<notin> set ks"
      unfolding jget_JObj_dset by auto
    from Cons.IH [OF f this] \<open>k \<noteq> key\<close> show ?thesis by simp
  qed
qed (simp add: ret_def)

lemma fill_keys_same:
  "fill_keys gen ks d False env s = (Inr (d', False), s') \<Longrightarrow> d' = d"
proof -
  assume f: "fill_keys gen ks d False env s = (Inr (d', False), s')"
  then have "\<forall>k \<in> set ks. truthy (jget (JObj d) k)"
    using fill_keys_run [OF f] by blast
  then have "fill_keys gen ks d False = ret (d, False)"
    by (induction ks) (simp_all del: jget.simps)
  with f show ?thesis by (simp add: ret_def)
qed

section \<open>The refinement\<close>

text \<open>C6. The client's \<open>ensure_keys\<close> refines the abstract generate-once step. Against any
  server that answers reads with what was written, a call that returns has moved the store
  by exactly that step: the secret at the path is the returned map, every other path is as
  before, and nothing moved when it reports no change. A call that fails, wherever it
  fails, has moved nothing.\<close>

theorem ensure_keys_refines:
  fixes gen :: "string \<Rightarrow> string M" and init :: kv_map and cfg :: config and path :: string
  assumes srv: "kv_server init (kv_mount_of cfg) env"
    and g: "\<And>k. only (\<lambda>c. \<not> kv_write c) (gen k)"
  shows "case ensure_keys cfg path want gen env s of
     (Inr (d, changed), s') \<Rightarrow>
       (case kv_state init (kv_mount_of cfg) (trace s) (strip_of ''/'' path) of
          Some old \<Rightarrow> generate_once want old d \<and> (changed \<or> d = old)
        | None \<Rightarrow> generate_once want [] d \<and> (changed \<or> d = [])) \<and>
       kv_state init (kv_mount_of cfg) (trace s') =
         (if changed
          then (kv_state init (kv_mount_of cfg) (trace s))(strip_of ''/'' path := Some d)
          else kv_state init (kv_mount_of cfg) (trace s))
   | (Inl e, s') \<Rightarrow>
       kv_state init (kv_mount_of cfg) (trace s') = kv_state init (kv_mount_of cfg) (trace s)"
proof -
  let ?K = "kv_state init (kv_mount_of cfg)" and ?p = "strip_of ''/'' path"
  obtain x1 s1 where 1: "bao_read cfg path env s = (x1, s1)" by (cases "bao_read cfg path env s")
  have k1: "?K (trace s1) = ?K (trace s)"
    using keeps_store [OF bao.read_only 1] .
  show ?thesis
  proof (cases x1)
    case (Inl e)
    with 1 k1 show ?thesis by (simp add: ensure_keys_def ensure_keys_with_def bindM_def)
  next
    case (Inr found)
    define old where "old = jdict (or_empty found)"
    have old: "old = (case ?K (trace s) ?p of Some d \<Rightarrow> d | None \<Rightarrow> [])"
      using bao_read_store(1) [OF srv 1 [unfolded Inr]]
      by (auto simp: old_def or_empty_def jor_def split: option.split)
    obtain x2 s2 where 2: "fill_keys gen want old False env s1 = (x2, s2)"
      by (cases "fill_keys gen want old False env s1")
    have k2: "?K (trace s2) = ?K (trace s)"
      using keeps_store [OF only_fill_keys [where gen = gen, OF g] 2] k1 by simp
    show ?thesis
    proof (cases x2)
      case (Inl e)
      with 1 2 Inr k2 show ?thesis
        by (simp add: ensure_keys_def ensure_keys_with_def bindM_def old_def)
    next
      case dc: (Inr dc)
      obtain d ch where "dc = (d, ch)" by (cases dc)
      note f = 2 [unfolded dc this]
      have once: "generate_once want old d"
        unfolding generate_once_def using fill_keys_others [OF f] fill_keys_run [OF f] by blast
      have same: "d = old" if "\<not> ch"
        using that f fill_keys_same by simp
      show ?thesis
      proof (cases ch)
        case False
        with 1 f Inr k2 once same show ?thesis
          by (simp add: ensure_keys_def ensure_keys_with_def bindM_def thenM_def whenM_def ret_def
              old_def [symmetric] old split: option.splits)
      next
        case True
        obtain x3 s3 where 3: "bao_write cfg path d env s2 = (x3, s3)"
          by (cases "bao_write cfg path d env s2")
        from bao_write_store [OF 3, of init] True 1 f 3 Inr k2 once show ?thesis
          by (cases x3)
             (simp_all add: ensure_keys_def ensure_keys_with_def bindM_def thenM_def whenM_def
               ret_def old_def [symmetric] old split: option.splits)
      qed
    qed
  qed
qed

text \<open>A store that holds \<open>client-id\<close> at \<open>app\<close>, behind a token Secret.\<close>

definition app_store :: kv_map where
  "app_store = (\<lambda>path. if path = ''app'' then Some [(''client-id'', JStr ''abc'')] else None)"

definition store_env :: env where
  "store_env l c = (case c of
     Typed v kind ns name body \<Rightarrow> Inr (JObj [(''data'', JObj [(''root-token'', JStr ''dG9r'')])])
   | Kv VGet m path token body \<Rightarrow>
       (case kv_state app_store (kv_mount_of default_config) l path of
          Some d \<Rightarrow> Inr (kv_answer d) | None \<Rightarrow> Inl InvalidPath)
   | _ \<Rightarrow> Inr JNull)"

lemma ensure_keys_refines_witness:
  "case ensure_keys default_config ''app'' [''client-id'', ''client-secret''] (\<lambda>_. random_string 3)
      store_env init_st of
     (Inr (d, changed), s') \<Rightarrow> dget d ''client-id'' = Some (JStr ''abc'') \<and> jhas (JObj d) ''client-secret''
   | (Inl e, s') \<Rightarrow> kv_state app_store (kv_mount_of default_config) (trace s') = app_store"
proof -
  have srv: "kv_server app_store (kv_mount_of default_config) store_env"
    by (simp add: kv_server_def store_env_def split: option.split)
  have g: "only (\<lambda>c. \<not> kv_write c) (random_string 3)" by (intro only_intros) simp
  have p: "strip_of ''/'' ''app'' = ''app''"
    by (simp add: strip_of_def lstrip_of_def rstrip_of_def)
  have i: "kv_state app_store (kv_mount_of default_config) (trace init_st) = app_store"
    "app_store ''app'' = Some [(''client-id'', JStr ''abc'')]"
    by (simp_all add: init_st_def app_store_def)
  let ?want = "[''client-id'', ''client-secret'']"
  have once: "dget d ''client-id'' = Some (JStr ''abc'') \<and> jhas (JObj d) ''client-secret''"
    if "generate_once ?want [(''client-id'', JStr ''abc'')] d" for d
  proof -
    have "truthy (jget (JObj [(''client-id'', JStr ''abc'')]) ''client-id'')" by simp
    with that have "dget d ''client-id'' = dget [(''client-id'', JStr ''abc'')] ''client-id''"
      unfolding generate_once_def by blast
    moreover have "jhas (JObj d) ''client-secret''"
      using that unfolding generate_once_def by (simp del: jhas.simps)
    ultimately show ?thesis by simp
  qed
  obtain r s' where e: "ensure_keys default_config ''app'' ?want (\<lambda>_. random_string 3)
      store_env init_st = (r, s')"
    by (cases "ensure_keys default_config ''app'' ?want (\<lambda>_. random_string 3) store_env init_st")
  note run = ensure_keys_refines [OF srv g, where path = "''app''" and s = init_st and want = ?want,
      unfolded e p i option.case prod.case]
  show ?thesis
  proof (cases r)
    case (Inl x)
    with run show ?thesis unfolding e by simp
  next
    case (Inr dc)
    obtain d ch where "dc = (d, ch)" by (cases dc)
    with run Inr have "generate_once ?want [(''client-id'', JStr ''abc'')] d" by simp
    from once [OF this] show ?thesis
      unfolding e Inr \<open>dc = (d, ch)\<close> by simp
  qed
qed

end
