(* ===== verification/Schema.thy ===== *)
theory Schema
  imports Resolve
begin

text \<open>
  \<open>adomi_platform_schema\<close>, \<open>specs.py\<close> and \<open>models.py\<close> of the API: names, manifests, the specs
  built from request bodies, and the status read back. A request body is a record of the
  fields \<open>pydantic\<close> has validated; an optional field is an \<open>option\<close>.
\<close>

section \<open>Names\<close>

abbreviation DEFAULT_CLIENT_NAMESPACE_PREFIX :: string where
  "DEFAULT_CLIENT_NAMESPACE_PREFIX \<equiv> ''adomi-client-''"

abbreviation API_MANAGED_BY :: string where "API_MANAGED_BY \<equiv> ''adomi-platform-api''"

record resource_type =
  rt_plural :: string
  rt_kind :: string
  rt_parent :: "string option"

definition RESOURCE_TYPES :: "resource_type list" where
  "RESOURCE_TYPES =
     [\<lparr> rt_plural = ''clients'', rt_kind = ''Client'', rt_parent = None \<rparr>,
      \<lparr> rt_plural = ''domains'', rt_kind = ''Domain'', rt_parent = None \<rparr>,
      \<lparr> rt_plural = ''databaseservers'', rt_kind = ''DatabaseServer'', rt_parent = None \<rparr>,
      \<lparr> rt_plural = ''databases'', rt_kind = ''Database'', rt_parent = None \<rparr>,
      \<lparr> rt_plural = ''environments'', rt_kind = ''Environment'', rt_parent = None \<rparr>,
      \<lparr> rt_plural = ''applications'', rt_kind = ''Application'', rt_parent = Some ''environments'' \<rparr>,
      \<lparr> rt_plural = ''gitrepositories'', rt_kind = ''GitRepository'', rt_parent = None \<rparr>,
      \<lparr> rt_plural = ''snapshots'', rt_kind = ''Snapshot'', rt_parent = None \<rparr>]"

definition BY_PLURAL :: "(string \<times> resource_type) list" where
  "BY_PLURAL = map (\<lambda>r. (rt_plural r, r)) RESOURCE_TYPES"

text \<open>\<open>^[a-z0-9]([-a-z0-9]*[a-z0-9])?$\<close>: the pattern's end also matches before a final newline.\<close>

definition label_ends :: "char list" where
  "label_ends = lower_letters @ digit_chars"

definition dns_label :: "string \<Rightarrow> bool" where
  "dns_label s \<longleftrightarrow> s \<noteq> [] \<and> hd s \<in> set label_ends \<and> last s \<in> set label_ends \<and>
     set s \<subseteq> set (CHR ''-'' # label_ends)"

definition dns1123_match :: "string \<Rightarrow> bool" where
  "dns1123_match s \<longleftrightarrow> dns_label s \<or> (s \<noteq> [] \<and> last s = newline \<and> dns_label (butlast s))"

definition validate_name :: "string \<Rightarrow> string \<Rightarrow> exn + string" where
  "validate_name v what =
     (if v = [] \<or> 63 < length v \<or> \<not> dns1123_match v
      then Inl (SchemaError (''invalid '' @ what @ '' '' @ repr v @
        '' (must be a DNS-1123 label, <=63 chars)''))
      else Inr v)"

definition resource_for_plural :: "string \<Rightarrow> exn + resource_type" where
  "resource_for_plural plural =
     (case dget BY_PLURAL plural of
        None \<Rightarrow> Inl (SchemaError (''unknown resource plural '' @ repr plural))
      | Some r \<Rightarrow> Inr r)"

definition client_namespace :: "string \<Rightarrow> string \<Rightarrow> string" where
  "client_namespace client pre = pre @ client"

definition manifest_path :: "string \<Rightarrow> string \<Rightarrow> string" where
  "manifest_path plural name = plural @ ''/'' @ name @ ''.yaml''"

definition build_manifest ::
    "resource_type \<Rightarrow> string \<Rightarrow> json \<Rightarrow> string \<Rightarrow> string \<Rightarrow> string \<Rightarrow> (string \<times> string) list \<Rightarrow> dict" where
  "build_manifest rt name spec client namespace_prefix managed_by labels =
     [(''apiVersion'', JStr ''platform.adomi.io/v1alpha1''),
      (''kind'', JStr (rt_kind rt)),
      (''metadata'', JObj
        [(''name'', JStr name),
         (''namespace'', JStr (client_namespace client namespace_prefix)),
         (''labels'', str_dict (dupdate
            [(''app.kubernetes.io/managed-by'', managed_by),
             (''platform.adomi.io/client'', client)] labels))]),
      (''spec'', jor spec (JObj []))]"

section \<open>Request bodies\<close>

record client_body =
  cb_display_name :: string
  cb_slug :: "string option"
  cb_organization :: "string option"

record domain_body =
  mb_fqdn :: string
  mb_wildcard :: bool
  mb_issuer :: "string option"

record database_server_body =
  sb_engine :: string
  sb_mode :: string
  sb_storage :: string
  sb_storage_class :: "string option"
  sb_instances :: int
  sb_environment :: "string option"
  sb_host :: "string option"
  sb_port :: int
  sb_ssl_mode :: "string option"
  sb_admin_user :: "string option"
  sb_admin_openbao_path :: "string option"

record database_body =
  qb_server :: string
  qb_database_name :: string
  qb_user :: string
  qb_environment :: "string option"

record environment_body =
  eb_display_name :: "string option"
  eb_class :: string

record application_source =
  as_repository :: string
  as_ref :: "string option"

record application_body =
  ab_type :: string
  ab_display_name :: "string option"
  ab_databases :: "json list option"
  ab_sso :: "json list option"
  ab_env :: "json list option"
  ab_replicas :: "int option"
  ab_host :: "string option"
  ab_domain :: "string option"
  ab_values :: "dict option"
  ab_source :: "application_source option"

record repository_preview =
  rp_enabled :: bool
  rp_client :: "string option"
  rp_application_type :: "string option"

record repository_body =
  rb_url :: string
  rb_default_branch :: string
  rb_credentials_secret :: "string option"
  rb_preview :: "repository_preview option"

section \<open>Specs\<close>

definition ref_to :: "string \<Rightarrow> json" where
  "ref_to name = JObj [(''name'', JStr name)]"

text \<open>\<open>if x: spec[k] = ...\<close> and the entry \<open>_drop_none\<close> keeps.\<close>

definition given :: "string \<Rightarrow> (string \<Rightarrow> json) \<Rightarrow> string option \<Rightarrow> dict" where
  "given k f x = (case x of Some v \<Rightarrow> if v = [] then [] else [(k, f v)] | None \<Rightarrow> [])"

definition present :: "string \<Rightarrow> string option \<Rightarrow> dict" where
  "present k x = (case x of Some v \<Rightarrow> [(k, JStr v)] | None \<Rightarrow> [])"

definition some_list :: "string \<Rightarrow> json list option \<Rightarrow> dict" where
  "some_list k x = (case x of Some v \<Rightarrow> if v = [] then [] else [(k, JArr v)] | None \<Rightarrow> [])"

definition client_spec :: "client_body \<Rightarrow> dict" where
  "client_spec b =
     [(''displayName'', JStr (cb_display_name b))] @
     given ''slug'' JStr (cb_slug b) @
     given ''organizationRef'' ref_to (cb_organization b)"

definition domain_spec :: "domain_body \<Rightarrow> dict" where
  "domain_spec b =
     [(''fqdn'', JStr (mb_fqdn b)), (''wildcard'', JBool (mb_wildcard b))] @
     given ''issuer'' JStr (mb_issuer b)"

definition databaseserver_spec :: "database_server_body \<Rightarrow> dict" where
  "databaseserver_spec b =
     [(''engine'', JStr (sb_engine b)), (''mode'', JStr (sb_mode b))] @
     (if sb_mode b = ''external''
      then [(''external'', JObj
         (present ''host'' (sb_host b) @ [(''port'', JInt (sb_port b))] @
          present ''sslMode'' (sb_ssl_mode b)))]
      else [(''cnpg'', JObj
         ([(''storage'', JStr (sb_storage b)), (''instances'', JInt (sb_instances b))] @
          given ''storageClass'' JStr (sb_storage_class b)))]) @
     (let admin = present ''user'' (sb_admin_user b) @
            present ''openbaoPath'' (sb_admin_openbao_path b) in
      if admin = [] then [] else [(''admin'', JObj admin)]) @
     given ''environmentRef'' ref_to (sb_environment b)"

definition database_spec :: "database_body \<Rightarrow> dict" where
  "database_spec b =
     [(''serverRef'', ref_to (qb_server b)), (''databaseName'', JStr (qb_database_name b)),
      (''user'', JStr (qb_user b))] @
     given ''environmentRef'' ref_to (qb_environment b)"

definition environment_spec :: "string \<Rightarrow> environment_body \<Rightarrow> dict" where
  "environment_spec client b =
     [(''clientRef'', ref_to client), (''class'', JStr (eb_class b))] @
     present ''displayName'' (eb_display_name b)"

definition api_application_spec :: "string \<Rightarrow> application_body \<Rightarrow> dict" where
  "api_application_spec environment b =
     [(''environmentRef'', ref_to environment), (''type'', JStr (ab_type b))] @
     given ''displayName'' JStr (ab_display_name b) @
     some_list ''databases'' (ab_databases b) @
     some_list ''sso'' (ab_sso b) @
     some_list ''env'' (ab_env b) @
     (case ab_replicas b of Some n \<Rightarrow> if n = 0 then [] else [(''replicas'', JInt n)] | None \<Rightarrow> []) @
     given ''ingress'' (\<lambda>h. JObj [(''host'', JStr h)]) (ab_host b) @
     given ''domainRef'' ref_to (ab_domain b) @
     (case ab_values b of Some v \<Rightarrow> if v = [] then [] else [(''values'', JObj v)] | None \<Rightarrow> []) @
     (case ab_source b of
        Some src \<Rightarrow>
          if as_repository src = [] then []
          else [(''source'', JObj ([(''repositoryRef'', ref_to (as_repository src))] @
                  given ''ref'' JStr (as_ref src)))]
      | None \<Rightarrow> [])"

definition gitrepository_spec :: "repository_body \<Rightarrow> dict" where
  "gitrepository_spec b =
     [(''url'', JStr (rb_url b)), (''defaultBranch'', JStr (rb_default_branch b))] @
     given ''credentialsSecretRef'' ref_to (rb_credentials_secret b) @
     (case rb_preview b of
        Some p \<Rightarrow>
          if rp_enabled p
          then [(''preview'', JObj ([(''enabled'', JBool True)] @
                  given ''clientRef'' ref_to (rp_client p) @
                  given ''applicationType'' JStr (rp_application_type p)))]
          else []
      | None \<Rightarrow> [])"

definition snapshot_spec :: "string \<Rightarrow> dict" where
  "snapshot_spec application = [(''applicationRef'', ref_to application)]"

section \<open>The status read back\<close>

record resource_status =
  rs_kind :: json
  rs_name :: json
  rs_namespace :: json
  rs_ready :: json
  rs_message :: json
  rs_phase :: json
  rs_url :: json
  rs_conditions :: "json list"
  rs_spec :: json

definition get_or :: "json \<Rightarrow> string \<Rightarrow> json \<Rightarrow> json" where
  "get_or j k d = (if jhas j k then jget j k else d)"

text \<open>The loop over the conditions: a later \<open>Ready\<close> replaces an earlier one.\<close>

definition ready_and_message :: "json list \<Rightarrow> json \<times> json" where
  "ready_and_message cs = foldl (\<lambda>rm c.
     if jget c ''type'' = JStr ''Ready'' then (jget c ''status'', jget c ''message'') else rm)
     (JNull, JNull) cs"

definition status_of_cr :: "json \<Rightarrow> resource_status" where
  "status_of_cr obj =
     (let meta = oget obj ''metadata''; status = oget obj ''status'';
          (ready, message) = ready_and_message (lget status ''conditions'') in
      \<lparr> rs_kind = get_or obj ''kind'' (JStr []), rs_name = get_or meta ''name'' (JStr []),
        rs_namespace = get_or meta ''namespace'' (JStr []), rs_ready = ready,
        rs_message = message, rs_phase = jget status ''phase'', rs_url = jget status ''url'',
        rs_conditions = lget status ''conditions'', rs_spec = oget obj ''spec'' \<rparr>)"

end
