(* ===== verification/Forgejo.thy ===== *)
theory Forgejo
  imports Encoding Runs Schema
begin

text \<open>
  The API's git backend: the contract \<open>GitWriter\<close> of \<open>git/base.py\<close> and its Forgejo
  implementation \<open>git/forgejo.py\<close>. The backend talks through \<open>httpx\<close>: a response of any
  status is an answer, an object with \<open>status_code\<close>, \<open>text\<close> and, when the body is JSON,
  \<open>json\<close>; only a failed exchange is an error. A \<open>None\<close> payload is \<open>JNull\<close>.
\<close>

section \<open>httpx responses\<close>

definition status_code :: "json \<Rightarrow> int" where
  "status_code resp = jint (jget resp ''status_code'')"

definition resp_text :: "json \<Rightarrow> string" where
  "resp_text resp = sget resp ''text''"

text \<open>\<open>_json\<close>: a body that is no JSON reads as an empty object.\<close>

definition resp_json :: "json \<Rightarrow> json" where
  "resp_json resp = get_or resp ''json'' (JObj [])"

definition query :: "(string \<times> string) list \<Rightarrow> string" where
  "query params =
     (if params = [] then [] else ''?'' @ join ''&'' (map (\<lambda>(k, v). k @ ''='' @ v) params))"

section \<open>The Forgejo client\<close>

abbreviation MODE_COMMIT :: string where "MODE_COMMIT \<equiv> ''commit''"
abbreviation MODE_PR :: string where "MODE_PR \<equiv> ''pr''"

record forgejo =
  fj_base :: string
  fj_token :: string
  fj_owner :: string
  fj_branch :: string

definition new_forgejo :: "string \<Rightarrow> string \<Rightarrow> string \<Rightarrow> string \<Rightarrow> exn + forgejo" where
  "new_forgejo base_url token owner default_branch =
     (if base_url = [] then Inl (GitError ''Forgejo base URL is not configured.'')
      else if token = [] then Inl (GitError ''Forgejo token is not configured.'')
      else Inr \<lparr> fj_base = rstrip_of ''/'' base_url, fj_token = token,
                 fj_owner = sor owner ''clients'', fj_branch = sor default_branch ''main'' \<rparr>)"

definition forgejo_url :: "forgejo \<Rightarrow> string \<Rightarrow> string" where
  "forgejo_url w path = fj_base w @ ''/api/v1/'' @ lstrip_of ''/'' path"

definition forgejo_headers :: "forgejo \<Rightarrow> (string \<times> string) list" where
  "forgejo_headers w =
     [(''Authorization'', ''token '' @ fj_token w),
      (''Content-Type'', ''application/json''),
      (''Accept'', ''application/json'')]"

definition forgejo_call :: "forgejo \<Rightarrow> string \<Rightarrow> string \<Rightarrow> json \<Rightarrow> (string \<times> string) list \<Rightarrow> call" where
  "forgejo_call w method path payload params =
     Http method (forgejo_url w path @ query params) (forgejo_headers w) payload"

definition forgejo_request ::
    "forgejo \<Rightarrow> string \<Rightarrow> string \<Rightarrow> json \<Rightarrow> (string \<times> string) list \<Rightarrow> json M" where
  "forgejo_request w method path payload params =
     tryM (callM (forgejo_call w method path payload params))
       (\<lambda>e. raise (GitError (''Forgejo request failed: '' @ exn_str e)))"

definition git_failed :: "string \<Rightarrow> json \<Rightarrow> 'a M" where
  "git_failed what resp =
     raise (GitError (what @ '' failed: '' @ int_str (status_code resp) @ '' '' @ resp_text resp))"

definition repo_url :: "forgejo \<Rightarrow> string \<Rightarrow> string" where
  "repo_url w repo = ''repos/'' @ fj_owner w @ ''/'' @ repo"

definition contents_url :: "forgejo \<Rightarrow> string \<Rightarrow> string \<Rightarrow> string" where
  "contents_url w repo path = repo_url w repo @ ''/contents/'' @ path"

definition ensure_repo :: "forgejo \<Rightarrow> string \<Rightarrow> bool M" where
  "ensure_repo w repo =
     bindM (forgejo_request w ''GET'' (repo_url w repo) JNull []) (\<lambda>resp.
     if status_code resp = 200 then ret False
     else if status_code resp \<noteq> 404
     then git_failed (''Checking repo '' @ fj_owner w @ ''/'' @ repo) resp
     else
       bindM (forgejo_request w ''POST'' (''orgs/'' @ fj_owner w @ ''/repos'')
         (JObj [(''name'', JStr repo), (''auto_init'', JBool True), (''private'', JBool True),
                (''default_branch'', JStr (fj_branch w))]) []) (\<lambda>created.
       if status_code created \<in> {200, 201} then ret True
       else if status_code created = 409 then ret False
       else git_failed (''Creating repo '' @ fj_owner w @ ''/'' @ repo) created))"

text \<open>\<open>None\<close> and an empty sha are both falsy to the callers.\<close>

definition file_sha :: "forgejo \<Rightarrow> string \<Rightarrow> string \<Rightarrow> string \<Rightarrow> string M" where
  "file_sha w repo path ref =
     bindM (forgejo_request w ''GET'' (contents_url w repo path) JNull [(''ref'', ref)]) (\<lambda>resp.
     if status_code resp = 404 then ret []
     else if status_code resp \<noteq> 200 then git_failed (''Reading '' @ path) resp
     else ret (sget (resp_json resp) ''sha''))"

definition put_file ::
    "forgejo \<Rightarrow> string \<Rightarrow> string \<Rightarrow> string \<Rightarrow> string \<Rightarrow> string \<Rightarrow> string \<Rightarrow> string \<Rightarrow> json M" where
  "put_file w repo path content message branch sha new_branch =
     bindM (forgejo_request w (if sha \<noteq> [] then ''PUT'' else ''POST'') (contents_url w repo path)
       (JObj ([(''message'', JStr message), (''content'', JStr (b64encode content)),
               (''branch'', JStr branch)] @
              opt (sha \<noteq> []) ''sha'' (JStr sha) @
              opt (new_branch \<noteq> []) ''new_branch'' (JStr new_branch))) []) (\<lambda>resp.
     if status_code resp \<in> {200, 201} then ret (resp_json resp)
     else git_failed (''Writing '' @ path) resp)"

definition delete_file ::
    "forgejo \<Rightarrow> string \<Rightarrow> string \<Rightarrow> string \<Rightarrow> string \<Rightarrow> string \<Rightarrow> string \<Rightarrow> json M" where
  "delete_file w repo path message branch sha new_branch =
     bindM (forgejo_request w ''DELETE'' (contents_url w repo path)
       (JObj ([(''message'', JStr message), (''sha'', JStr sha), (''branch'', JStr branch)] @
              opt (new_branch \<noteq> []) ''new_branch'' (JStr new_branch))) []) (\<lambda>resp.
     if status_code resp \<in> {200, 201} then ret (resp_json resp)
     else git_failed (''Deleting '' @ path) resp)"

definition open_pr ::
    "forgejo \<Rightarrow> string \<Rightarrow> string \<Rightarrow> string \<Rightarrow> string \<Rightarrow> json M" where
  "open_pr w repo head base title =
     bindM (forgejo_request w ''POST'' (repo_url w repo @ ''/pulls'')
       (JObj [(''head'', JStr head), (''base'', JStr base), (''title'', JStr title),
              (''body'', JStr [])]) []) (\<lambda>resp.
     if status_code resp \<in> {200, 201} then ret (resp_json resp)
     else if status_code resp \<in> {409, 422} then ret (JObj [])
     else git_failed (''Opening PR for '' @ repo) resp)"

section \<open>The GitWriter contract\<close>

text \<open>\<open>path.replace("/", "-").rsplit(".", 1)[0]\<close>\<close>

definition drop_extension :: "string \<Rightarrow> string" where
  "drop_extension s =
     (if CHR ''.'' \<in> set s then rev (tl (dropWhile (\<lambda>c. c \<noteq> CHR ''.'') (rev s))) else s)"

definition branch_slug :: "string \<Rightarrow> string" where
  "branch_slug path = drop_extension (replace_char (CHR ''/'') ''-'' path)"

definition apply_file ::
    "forgejo \<Rightarrow> string \<Rightarrow> string \<Rightarrow> string \<Rightarrow> string \<Rightarrow> string \<Rightarrow> dict M" where
  "apply_file w repo path content message mode =
     thenM (thenM (ensure_repo w repo) (ret ()))
     (let base = fj_branch w in
      if mode = MODE_PR
      then (let work = ''adomi/'' @ branch_slug path in
        bindM (file_sha w repo path base) (\<lambda>sha.
        thenM (put_file w repo path content message base sha work)
       (bindM (open_pr w repo work base message) (\<lambda>pr.
        ret [(''committed'', JBool True), (''branch'', JStr work), (''pr'', pr)]))))
      else
        bindM (file_sha w repo path base) (\<lambda>sha.
        thenM (put_file w repo path content message base sha [])
        (ret [(''committed'', JBool True), (''branch'', JStr base)])))"

definition read_file :: "forgejo \<Rightarrow> string \<Rightarrow> string \<Rightarrow> string option M" where
  "read_file w repo path =
     bindM (forgejo_request w ''GET'' (contents_url w repo path) JNull [(''ref'', fj_branch w)])
       (\<lambda>resp.
     if status_code resp = 404 then ret None
     else if status_code resp \<noteq> 200 then git_failed (''Reading '' @ path) resp
     else (case b64decode (sget (resp_json resp) ''content'') of
        Some text \<Rightarrow> ret (Some text)
      | None \<Rightarrow> raise (GitError (''Decoding '' @ path @ '' failed: Incorrect padding''))))"

definition remove_file :: "forgejo \<Rightarrow> string \<Rightarrow> string \<Rightarrow> string \<Rightarrow> string \<Rightarrow> dict M" where
  "remove_file w repo path message mode =
     (let base = fj_branch w in
      bindM (file_sha w repo path base) (\<lambda>sha.
      if sha = [] then ret [(''deleted'', JBool False), (''reason'', JStr ''absent'')]
      else if mode = MODE_PR
      then (let work = ''adomi/delete-'' @ branch_slug path in
        thenM (delete_file w repo path message base sha work)
       (bindM (open_pr w repo work base message) (\<lambda>pr.
        ret [(''deleted'', JBool True), (''branch'', JStr work), (''pr'', pr)])))
      else
        thenM (delete_file w repo path message base sha [])
        (ret [(''deleted'', JBool True), (''branch'', JStr base)])))"

section \<open>Read-only views\<close>

definition tree_entry :: "json \<Rightarrow> json" where
  "tree_entry e = JObj
     [(''path'', jor (jget e ''path'') (JStr [])),
      (''type'', JStr (if jget e ''type'' = JStr ''tree'' then ''dir'' else ''file'')),
      (''size'', jor (jget e ''size'') (JInt 0))]"

definition list_tree :: "forgejo \<Rightarrow> string \<Rightarrow> string option \<Rightarrow> json list M" where
  "list_tree w repo ref =
     (let at = sor (case ref of Some r \<Rightarrow> r | None \<Rightarrow> []) (fj_branch w) in
      bindM (forgejo_request w ''GET'' (repo_url w repo @ ''/git/trees/'' @ at) JNull
               [(''recursive'', ''true'')]) (\<lambda>resp.
      if status_code resp \<in> {404, 409} then ret []
      else if status_code resp \<noteq> 200 then git_failed (''Listing tree of '' @ repo) resp
      else ret (map tree_entry
             (filter (\<lambda>e. truthy (jget e ''path'')) (lget (resp_json resp) ''tree'')))))"

text \<open>\<open>message.splitlines()[0]\<close>; a line ends at any of Python's ASCII line breaks.\<close>

definition line_breaks :: "char list" where
  "line_breaks = [CHR 0x0A, CHR 0x0B, CHR 0x0C, CHR 0x0D, CHR 0x1C, CHR 0x1D, CHR 0x1E]"

definition first_line :: "string \<Rightarrow> string" where
  "first_line s = takeWhile (\<lambda>c. c \<notin> set line_breaks) s"

definition commit_entry :: "json \<Rightarrow> json" where
  "commit_entry c =
     (let commit = oget c ''commit''; author = oget commit ''author'' in JObj
     [(''sha'', JStr (take 10 (sget c ''sha''))),
      (''message'', JStr (first_line (sget commit ''message''))),
      (''author'', jor (jget author ''name'') (JStr [])),
      (''date'', jor (jget author ''date'') (JStr [])),
      (''url'', jor (jget c ''html_url'') (JStr []))])"

definition list_commits :: "forgejo \<Rightarrow> string \<Rightarrow> int \<Rightarrow> string option \<Rightarrow> json list M" where
  "list_commits w repo limit ref =
     bindM (forgejo_request w ''GET'' (repo_url w repo @ ''/commits'') JNull
       ([(''limit'', int_str limit), (''stat'', ''false''), (''verification'', ''false''),
         (''files'', ''false'')] @
        (case ref of Some r \<Rightarrow> if r = [] then [] else [(''sha'', r)] | None \<Rightarrow> []))) (\<lambda>resp.
     if status_code resp \<in> {404, 409} then ret []
     else if status_code resp \<noteq> 200 then git_failed (''Listing commits of '' @ repo) resp
     else ret (map commit_entry (jlist (jor (resp_json resp) (JArr [])))))"

definition check_ready :: "forgejo \<Rightarrow> (bool \<times> string) M" where
  "check_ready w =
     tryM (bindM (forgejo_request w ''GET'' (''orgs/'' @ fj_owner w) JNull []) (\<lambda>resp.
       if status_code resp = 200 then ret (True, [])
       else ret (False, ''forgejo org '' @ repr (fj_owner w) @ '': '' @ int_str (status_code resp))))
     (\<lambda>e. case e of GitError t \<Rightarrow> ret (False, t) | _ \<Rightarrow> raise e)"

end
