(* ===== verification/GitStore.thy ===== *)
theory GitStore
  imports Forgejo Gates
begin

text \<open>
  The contract of \<open>GitWriter\<close> as an interface. The abstract state of a client repository is
  the files on its default branch; \<open>git_files\<close> reads it off the log of accepted requests.
  The laws say what a read returns and what an apply or a delete does to the files, in
  commit mode and in pull-request mode; the Forgejo client provides them.
\<close>

record git_writer =
  gw_apply :: "string \<Rightarrow> string \<Rightarrow> string \<Rightarrow> string \<Rightarrow> string \<Rightarrow> dict M"
  gw_read :: "string \<Rightarrow> string \<Rightarrow> string option M"
  gw_delete :: "string \<Rightarrow> string \<Rightarrow> string \<Rightarrow> string \<Rightarrow> dict M"

definition forgejo_writer :: "forgejo \<Rightarrow> git_writer" where
  "forgejo_writer w =
     \<lparr> gw_apply = apply_file w, gw_read = read_file w, gw_delete = remove_file w \<rparr>"

type_synonym files = "string \<Rightarrow> string option"

locale git_backend =
  fixes w :: git_writer
    and place :: "string \<Rightarrow> string \<Rightarrow> string"
    and files :: "log \<Rightarrow> files"
    and serves :: "env \<Rightarrow> bool"
  assumes read_keeps: "gw_read w repo path env s = (x, s') \<Longrightarrow> files (trace s') = files (trace s)"
    and read_answer: "serves env \<Longrightarrow> gw_read w repo path env s = (Inr found, s') \<Longrightarrow>
      found = files (trace s) (place repo path)"
    and apply_writes: "mode \<noteq> MODE_PR \<Longrightarrow>
      gw_apply w repo path content message mode env s = (r, s') \<Longrightarrow>
      files (trace s') = (if isl r then files (trace s)
        else (files (trace s))(place repo path := Some content))"
    and apply_proposes: "gw_apply w repo path content message MODE_PR env s = (r, s') \<Longrightarrow>
      files (trace s') = files (trace s)"
    and delete_proposes: "gw_delete w repo path message MODE_PR env s = (r, s') \<Longrightarrow>
      files (trace s') = files (trace s)"
    and delete_writes: "mode \<noteq> MODE_PR \<Longrightarrow> serves env \<Longrightarrow>
      gw_delete w repo path message mode env s = (r, s') \<Longrightarrow>
      files (trace s') = (if isl r then files (trace s)
        else (files (trace s))(place repo path := None))"
begin

text \<open>What is applied is what is read next.\<close>

lemma apply_then_read:
  assumes "serves env" and "mode \<noteq> MODE_PR"
    and "gw_apply w repo path content message mode env s = (Inr r, s1)"
    and "gw_read w repo path env s1 = (Inr found, s')"
  shows "found = Some content"
  using read_answer [OF assms(1,4)] apply_writes [OF assms(2,3)] by simp

end

section \<open>The files behind Forgejo\<close>

text \<open>The file change a request asks for on the branch \<open>br\<close>: its URL and the new content.\<close>

fun git_change :: "string \<Rightarrow> call \<Rightarrow> (string \<times> string option) option" where
  "git_change br (Http method url headers body) =
     (if jget body ''branch'' \<noteq> JStr br \<or> jhas body ''new_branch'' then None
      else if method = ''DELETE'' then Some (url, None)
      else if method \<noteq> ''GET'' \<and> jhas body ''content''
      then map_option (\<lambda>c. (url, Some c)) (b64decode (sget body ''content''))
      else None)"
| "git_change br _ = None"

definition accepted :: "resp \<Rightarrow> bool" where
  "accepted r = (case r of Inr resp \<Rightarrow> status_code resp \<in> {200, 201} | Inl _ \<Rightarrow> False)"

fun git_files :: "files \<Rightarrow> string \<Rightarrow> log \<Rightarrow> files" where
  "git_files init br [] = init"
| "git_files init br ((c, r) # l) =
     (case git_change br c of
        Some (url, content) \<Rightarrow>
          if accepted r then (git_files init br l)(url := content) else git_files init br l
      | None \<Rightarrow> git_files init br l)"

text \<open>
  What Forgejo documents for the contents endpoint: a file that is read with status 200
  exists, with its base64 content and a sha; status 404 means there is none.
\<close>

definition git_server :: "files \<Rightarrow> string \<Rightarrow> env \<Rightarrow> bool" where
  "git_server init br env \<longleftrightarrow>
     (\<forall>l url headers. case env l (Http ''GET'' (url @ query [(''ref'', br)]) headers JNull) of
        Inr resp \<Rightarrow>
          (if status_code resp = 200
           then (case git_files init br l url of
                   Some c \<Rightarrow> b64decode (sget (resp_json resp) ''content'') = Some c \<and>
                     sget (resp_json resp) ''sha'' \<noteq> []
                 | None \<Rightarrow> False)
           else status_code resp = 404 \<longrightarrow> git_files init br l url = None)
      | Inl _ \<Rightarrow> True)"

definition file_url :: "forgejo \<Rightarrow> string \<Rightarrow> string \<Rightarrow> string" where
  "file_url w repo path = forgejo_url w (contents_url w repo path)"

lemma no_change_keeps:
  "\<forall>cr \<in> set new. git_change br (fst cr) = None \<Longrightarrow> git_files init br (new @ l) = git_files init br l"
  by (induction new) auto

lemma only_keeps_files:
  assumes "only (\<lambda>c. git_change br c = None) m" and "m env s = (r, s')"
  shows "git_files init br (trace s') = git_files init br (trace s)"
  using onlyE [OF assms(1), where env = env and s = s] assms(2) no_change_keeps by (metis snd_conv)

lemma only_forgejo_request [only_intros]:
  "P (forgejo_call w m p b q) \<Longrightarrow> only P (forgejo_request w m p b q)"
  unfolding forgejo_request_def by (intro only_intros)

lemma only_git_failed [only_intros]: "only P (git_failed t r)"
  by (simp add: git_failed_def only_raise)

lemma get_no_change: "git_change br (forgejo_call w ''GET'' p JNull q) = None"
  by (simp add: forgejo_call_def)

lemma forgejo_request_run:
  "forgejo_request w m p b q env s = (Inr resp, s') \<longleftrightarrow>
     env (trace s) (forgejo_call w m p b q) = Inr resp \<and>
     s' = s\<lparr>trace := (forgejo_call w m p b q, Inr resp) # trace s\<rparr>"
  by (auto simp: forgejo_request_def tryM_Inr callM_Inr raise_def)

lemma keeps_ensure_repo: "only (\<lambda>c. git_change br c = None) (ensure_repo w repo)"
  unfolding ensure_repo_def by (intro only_intros) (simp_all add: forgejo_call_def)

lemma keeps_file_sha: "only (\<lambda>c. git_change br c = None) (file_sha w repo path ref)"
  unfolding file_sha_def by (intro only_intros) (simp_all add: get_no_change)

lemma keeps_open_pr: "only (\<lambda>c. git_change br c = None) (open_pr w repo h b t)"
  unfolding open_pr_def by (intro only_intros) (simp_all add: forgejo_call_def)

lemma keeps_read_file: "only (\<lambda>c. git_change br c = None) (read_file w repo path)"
  unfolding read_file_def by (intro only_intros) (simp_all add: get_no_change)

text \<open>A write to another branch changes nothing on this one.\<close>

lemma keeps_put_new:
  "new \<noteq> [] \<Longrightarrow> only (\<lambda>c. git_change br c = None) (put_file w repo path ct msg b sha new)"
  unfolding put_file_def by (intro only_intros) (simp_all add: forgejo_call_def opt_def)

lemma keeps_delete_new:
  "new \<noteq> [] \<Longrightarrow> only (\<lambda>c. git_change br c = None) (delete_file w repo path msg b sha new)"
  unfolding delete_file_def by (intro only_intros) (simp_all add: forgejo_call_def opt_def)

lemma b64encode_empty: "b64encode s = [] \<Longrightarrow> s = []"
  using b64_roundtrip [of s] by simp

text \<open>The commit itself: accepted exactly when the call returns.\<close>

lemma put_file_writes:
  assumes "put_file w repo path content msg (fj_branch w) sha [] env s = (r, s')"
  shows "git_files init (fj_branch w) (trace s') =
    (if isl r then git_files init (fj_branch w) (trace s)
     else (git_files init (fj_branch w) (trace s))(file_url w repo path := Some content))"
proof -
  let ?m = "if sha \<noteq> [] then ''PUT'' else ''POST''"
  let ?b = "JObj ([(''message'', JStr msg), (''content'', JStr (b64encode content)),
      (''branch'', JStr (fj_branch w))] @ opt (sha \<noteq> []) ''sha'' (JStr sha))"
  let ?c = "forgejo_call w ?m (contents_url w repo path) ?b []"
  have change: "git_change (fj_branch w) ?c = Some (file_url w repo path, Some content)"
    by (auto simp: forgejo_call_def file_url_def query_def opt_def sget_def jor_def b64_roundtrip
        dest: b64encode_empty)
  have run: "put_file w repo path content msg (fj_branch w) sha [] =
      bindM (forgejo_request w ?m (contents_url w repo path) ?b []) (\<lambda>resp.
        if status_code resp \<in> {200, 201} then ret (resp_json resp)
        else git_failed (''Writing '' @ path) resp)"
    by (simp add: put_file_def opt_def)
  show ?thesis
    using assms change
    by (auto simp: run forgejo_request_def tryM_def bindM_def callM_def raise_def ret_def Let_def
        git_failed_def accepted_def split: sum.splits if_splits)
qed

lemma delete_file_writes:
  assumes "delete_file w repo path msg (fj_branch w) sha [] env s = (r, s')"
  shows "git_files init (fj_branch w) (trace s') =
    (if isl r then git_files init (fj_branch w) (trace s)
     else (git_files init (fj_branch w) (trace s))(file_url w repo path := None))"
proof -
  let ?b = "JObj [(''message'', JStr msg), (''sha'', JStr sha), (''branch'', JStr (fj_branch w))]"
  let ?c = "forgejo_call w ''DELETE'' (contents_url w repo path) ?b []"
  have change: "git_change (fj_branch w) ?c = Some (file_url w repo path, None)"
    by (simp add: forgejo_call_def file_url_def query_def)
  have run: "delete_file w repo path msg (fj_branch w) sha [] =
      bindM (forgejo_request w ''DELETE'' (contents_url w repo path) ?b []) (\<lambda>resp.
        if status_code resp \<in> {200, 201} then ret (resp_json resp)
        else git_failed (''Deleting '' @ path) resp)"
    by (simp add: delete_file_def opt_def)
  show ?thesis
    using assms change
    by (auto simp: run forgejo_request_def tryM_def bindM_def callM_def raise_def ret_def Let_def
        git_failed_def accepted_def split: sum.splits if_splits)
qed

text \<open>Reading a sha: empty exactly when the file is absent.\<close>

lemma file_sha_answer:
  assumes srv: "git_server init (fj_branch w) env"
    and run: "file_sha w repo path (fj_branch w) env s = (Inr sha, s')"
  shows "sha = [] \<longleftrightarrow> git_files init (fj_branch w) (trace s) (file_url w repo path) = None"
proof -
  let ?c = "forgejo_call w ''GET'' (contents_url w repo path) JNull [(''ref'', fj_branch w)]"
  have c: "?c = Http ''GET'' (file_url w repo path @ query [(''ref'', fj_branch w)])
      (forgejo_headers w) JNull"
    by (simp add: forgejo_call_def file_url_def)
  obtain resp where "env (trace s) ?c = Inr resp"
    and "(if status_code resp = 404 then sha = []
      else status_code resp = 200 \<and> sha = sget (resp_json resp) ''sha'')"
    using run by (auto simp: file_sha_def bindM_Inr forgejo_request_run ret_def git_failed_def
        raise_def split: if_splits)
  with srv [unfolded git_server_def, rule_format, of "trace s" "file_url w repo path" "forgejo_headers w"]
  show ?thesis
    unfolding c by (auto split: option.splits if_splits)
qed

lemma read_file_answer:
  assumes srv: "git_server init (fj_branch w) env"
    and run: "read_file w repo path env s = (Inr found, s')"
  shows "found = git_files init (fj_branch w) (trace s) (file_url w repo path)"
proof -
  let ?c = "forgejo_call w ''GET'' (contents_url w repo path) JNull [(''ref'', fj_branch w)]"
  have c: "?c = Http ''GET'' (file_url w repo path @ query [(''ref'', fj_branch w)])
      (forgejo_headers w) JNull"
    by (simp add: forgejo_call_def file_url_def)
  obtain resp where "env (trace s) ?c = Inr resp"
    and "(if status_code resp = 404 then found = None
      else status_code resp = 200 \<and> b64decode (sget (resp_json resp) ''content'') = found)"
    using run by (auto simp: read_file_def bindM_Inr forgejo_request_run ret_def git_failed_def
        raise_def split: if_splits option.splits)
  with srv [unfolded git_server_def, rule_format, of "trace s" "file_url w repo path" "forgejo_headers w"]
  show ?thesis
    unfolding c by (auto split: option.splits if_splits)
qed

text \<open>\<open>changes m u c\<close>: \<open>m\<close> sets the file at \<open>u\<close> to \<open>c\<close> when it returns, and nothing else.\<close>

definition changes :: "files \<Rightarrow> string \<Rightarrow> 'a M \<Rightarrow> string \<Rightarrow> string option \<Rightarrow> bool" where
  "changes init br m u c \<longleftrightarrow> (\<forall>env s r s'. m env s = (r, s') \<longrightarrow>
     git_files init br (trace s') =
       (if isl r then git_files init br (trace s) else (git_files init br (trace s))(u := c)))"

lemma changes_after:
  assumes m: "only (\<lambda>c. git_change br c = None) m" and f: "\<And>x. changes init br (f x) u c"
  shows "changes init br (bindM m f) u c"
  unfolding changes_def
proof (intro allI impI)
  fix env s r s'
  assume b: "bindM m f env s = (r, s')"
  obtain x s1 where 1: "m env s = (x, s1)" by (cases "m env s")
  note k = only_keeps_files [OF m 1, of init]
  show "git_files init br (trace s') =
      (if isl r then git_files init br (trace s) else (git_files init br (trace s))(u := c))"
  proof (cases x)
    case (Inl e)
    with b 1 k show ?thesis by (auto simp: bindM_def)
  next
    case (Inr y)
    with b 1 have "f y env s1 = (r, s')" by (simp add: bindM_def)
    with f [of y] k show ?thesis by (simp add: changes_def)
  qed
qed

lemma changes_then:
  "only (\<lambda>c. git_change br c = None) m \<Longrightarrow> changes init br k u c \<Longrightarrow> changes init br (thenM m k) u c"
  unfolding thenM_def by (rule changes_after)

lemma changes_ret: "changes init br m u c \<Longrightarrow> changes init br (thenM m (ret x)) u c"
  unfolding changes_def thenM_def bindM_def ret_def
  by (auto split: prod.splits sum.splits)

lemma changes_put: "changes init (fj_branch w)
    (put_file w repo path content msg (fj_branch w) sha []) (file_url w repo path) (Some content)"
  unfolding changes_def using put_file_writes by blast

lemma changes_delete: "changes init (fj_branch w)
    (delete_file w repo path msg (fj_branch w) sha []) (file_url w repo path) None"
  unfolding changes_def using delete_file_writes by blast

lemma changesD:
  "changes init br m u c \<Longrightarrow> m env s = (r, s') \<Longrightarrow> git_files init br (trace s') =
     (if isl r then git_files init br (trace s) else (git_files init br (trace s))(u := c))"
  unfolding changes_def by blast

interpretation forgejo: git_backend "forgejo_writer w" "file_url w"
  "git_files init (fj_branch w)" "git_server init (fj_branch w)" for w init
proof (unfold_locales, goal_cases)
  case (1 repo path env s x s')
  then show ?case using only_keeps_files [OF keeps_read_file] by (simp add: forgejo_writer_def)
next
  case (2 env repo path s found s')
  then show ?case using read_file_answer by (simp add: forgejo_writer_def)
next
  case (3 mode repo path content message env s r s')
  have "changes init (fj_branch w) (apply_file w repo path content message mode)
      (file_url w repo path) (Some content)"
    unfolding apply_file_def Let_def if_not_P [OF 3(1)]
    by (rule changes_then [OF only_thenM [OF keeps_ensure_repo only_ret]],
        rule changes_after [OF keeps_file_sha], rule changes_ret [OF changes_put])
  from changesD [OF this] 3(2) show ?case by (simp add: forgejo_writer_def)
next
  case (4 repo path content message env s r s')
  have "only (\<lambda>c. git_change (fj_branch w) c = None) (apply_file w repo path content message MODE_PR)"
    unfolding apply_file_def Let_def
    by (simp, intro only_intros keeps_ensure_repo keeps_file_sha keeps_open_pr keeps_put_new) simp
  from only_keeps_files [OF this] 4 show ?case by (simp add: forgejo_writer_def)
next
  case (5 repo path message env s r s')
  have "only (\<lambda>c. git_change (fj_branch w) c = None) (remove_file w repo path message MODE_PR)"
    unfolding remove_file_def Let_def
    by (intro only_intros keeps_file_sha keeps_open_pr keeps_delete_new) simp_all
  from only_keeps_files [OF this] 5 show ?case by (simp add: forgejo_writer_def)
next
  case (6 mode env repo path message s r s')
  let ?F = "git_files init (fj_branch w)" and ?u = "file_url w repo path"
  obtain x s1 where 1: "file_sha w repo path (fj_branch w) env s = (x, s1)"
    by (cases "file_sha w repo path (fj_branch w) env s")
  have k: "?F (trace s1) = ?F (trace s)" by (rule only_keeps_files [OF keeps_file_sha 1])
  show ?case
  proof (cases x)
    case (Inl e)
    with 1 6 k show ?thesis by (auto simp: forgejo_writer_def remove_file_def bindM_def Let_def)
  next
    case (Inr sha)
    show ?thesis
    proof (cases "sha = []")
      case True
      with file_sha_answer [OF 6(2) 1 [unfolded Inr]] have "?F (trace s) ?u = None" by simp
      then have "(?F (trace s))(?u := None) = ?F (trace s)" by auto
      with True 1 6 Inr k show ?thesis
        by (auto simp: forgejo_writer_def remove_file_def bindM_def ret_def Let_def)
    next
      case False
      have c: "changes init (fj_branch w) (thenM (delete_file w repo path message (fj_branch w) sha [])
          (ret [(''deleted'', JBool True), (''branch'', JStr (fj_branch w))])) ?u None"
        by (rule changes_ret [OF changes_delete])
      from False 1 6 Inr have "thenM (delete_file w repo path message (fj_branch w) sha [])
          (ret [(''deleted'', JBool True), (''branch'', JStr (fj_branch w))]) env s1 = (r, s')"
        by (simp add: forgejo_writer_def remove_file_def bindM_def Let_def)
      from changesD [OF c this] k show ?thesis by simp
    qed
  qed
qed

end
