(* ===== verification/Service.thy ===== *)
theory Service
  imports GitStore "HOL-Library.Countable"
begin

text \<open>
  \<open>service.py\<close>: \<open>ClientService\<close>, which turns a spec into a manifest and commits it to the
  client's repository, over any \<open>git_writer\<close>. YAML is a library the code calls, so its
  \<open>safe_dump\<close> and \<open>safe_load\<close> are the parameters \<open>y\<close>; \<open>safe_load\<close> may fail.
  The laws of \<open>git_backend\<close> give what each operation does to the committed files.
\<close>

record yaml =
  safe_dump :: "json \<Rightarrow> string"
  safe_load :: "string \<Rightarrow> json option"

record service =
  sv_writer :: git_writer
  sv_prefix :: string
  sv_managed_by :: string
  sv_mode :: string

definition attribute_error :: exn where
  "attribute_error = PyError ''AttributeError''"

text \<open>\<open>yaml.safe_load(text) or {}\<close>\<close>

definition load_or_empty :: "yaml \<Rightarrow> string \<Rightarrow> exn + json" where
  "load_or_empty y text =
     (case safe_load y text of
        None \<Rightarrow> Inl (PyError ''YAMLError'')
      | Some j \<Rightarrow> Inr (jor j (JObj [])))"

text \<open>\<open>j.get(k)\<close>, which only a dict has.\<close>

definition attr_get :: "json \<Rightarrow> string \<Rightarrow> exn + json" where
  "attr_get j k = (if is_obj j then Inr (jget j k) else Inl attribute_error)"

definition bind_result :: "exn + 'a \<Rightarrow> ('a \<Rightarrow> exn + 'b) \<Rightarrow> exn + 'b" where
  "bind_result r f = (case r of Inl e \<Rightarrow> Inl e | Inr x \<Rightarrow> f x)"

fun each_result :: "('a \<Rightarrow> exn + 'b) \<Rightarrow> 'a list \<Rightarrow> exn + 'b list" where
  "each_result f [] = Inr []"
| "each_result f (x # xs) = bind_result (f x) (\<lambda>y. bind_result (each_result f xs) (\<lambda>ys. Inr (y # ys)))"

text \<open>\<open>(committed.get("spec") or {}).get("variables")\<close>\<close>

definition committed_variables :: "json \<Rightarrow> exn + json" where
  "committed_variables committed =
     bind_result (attr_get committed ''spec'') (\<lambda>spec. attr_get (jor spec (JObj [])) ''variables'')"

definition with_spec_variables :: "dict \<Rightarrow> json \<Rightarrow> dict" where
  "with_spec_variables manifest variables =
     dset ''spec'' (JObj (dset ''variables'' variables (jdict (jget (JObj manifest) ''spec'')))) manifest"

definition names_checked :: "string \<Rightarrow> string \<Rightarrow> string \<Rightarrow> resource_type M" where
  "names_checked client plural name =
     bindM (of_result (resource_for_plural plural)) (\<lambda>rt.
     thenM (of_result (validate_name client ''customer''))
    (thenM (of_result (validate_name name ''name''))
    (ret rt)))"

definition carried_over :: "yaml \<Rightarrow> service \<Rightarrow> string \<Rightarrow> string \<Rightarrow> dict \<Rightarrow> dict M" where
  "carried_over y sv client path manifest =
     (if jhas (jget (JObj manifest) ''spec'') ''variables'' then ret manifest
      else bindM (gw_read (sv_writer sv) client path) (\<lambda>current.
        case current of
          None \<Rightarrow> ret manifest
        | Some text \<Rightarrow>
            if text = [] then ret manifest
            else bindM (of_result (load_or_empty y text)) (\<lambda>committed.
                 bindM (of_result (committed_variables committed)) (\<lambda>variables.
                 ret (if truthy variables then with_spec_variables manifest variables
                      else manifest)))))"

definition service_commit ::
    "yaml \<Rightarrow> service \<Rightarrow> string \<Rightarrow> string \<Rightarrow> string \<Rightarrow> dict \<Rightarrow> (string \<times> string) list \<Rightarrow> dict M" where
  "service_commit y sv client plural name spec labels =
     bindM (names_checked client plural name) (\<lambda>rt.
     let path = manifest_path plural name in
     bindM (carried_over y sv client path
       (build_manifest rt name (JObj spec) client (sv_prefix sv) (sv_managed_by sv) labels))
       (\<lambda>manifest.
     bindM (gw_apply (sv_writer sv) client path (safe_dump y (JObj manifest))
       (''Upsert '' @ sget (JObj manifest) ''kind'' @ '' '' @ name) (sv_mode sv)) (\<lambda>result.
     ret (dupdate
       [(''repo'', JStr client), (''path'', JStr path),
        (''namespace'', jget (jget (JObj manifest) ''metadata'') ''namespace'')] result))))"

text \<open>
  The list comprehension over \<open>spec.get("variables") or []\<close>: iterating something that is no
  list, or an entry that is no dict, raises.
\<close>

definition variable_entries :: "json \<Rightarrow> exn + json list" where
  "variable_entries v =
     (case jor v (JArr []) of
        JArr vs \<Rightarrow> if \<forall>x \<in> set vs. is_obj x then Inr vs else Inl attribute_error
      | JObj _ \<Rightarrow> Inl attribute_error
      | JStr _ \<Rightarrow> Inl attribute_error
      | _ \<Rightarrow> Inl (PyError ''TypeError''))"

definition variable_value :: "string \<Rightarrow> string \<Rightarrow> json" where
  "variable_value var value = JObj [(''name'', JStr var), (''value'', JStr value)]"

definition mutated_entries :: "json list \<Rightarrow> string \<Rightarrow> string \<Rightarrow> bool \<Rightarrow> json list" where
  "mutated_entries vs var value rem =
     filter (\<lambda>v. jget v ''name'' \<noteq> JStr var) vs @ (if rem then [] else [variable_value var value])"

definition mutated_spec :: "dict \<Rightarrow> json list \<Rightarrow> dict" where
  "mutated_spec spec entries =
     (if entries \<noteq> [] then dset ''variables'' (JArr entries) spec
      else dremove ''variables'' spec)"

definition mutated :: "json \<Rightarrow> string \<Rightarrow> string \<Rightarrow> bool \<Rightarrow> exn + dict" where
  "mutated manifest var value rem =
     (case manifest of
        JObj m \<Rightarrow>
          (case (if jhas manifest ''spec'' then jget manifest ''spec'' else JObj []) of
             JObj spec \<Rightarrow>
               bind_result (variable_entries (jget (JObj spec) ''variables'')) (\<lambda>vs.
                 Inr (dset ''spec'' (JObj (mutated_spec spec (mutated_entries vs var value rem))) m))
           | _ \<Rightarrow> Inl attribute_error)
      | _ \<Rightarrow> Inl attribute_error)"

definition mutate_variables ::
    "yaml \<Rightarrow> service \<Rightarrow> string \<Rightarrow> string \<Rightarrow> string \<Rightarrow> string \<Rightarrow> string \<Rightarrow> bool \<Rightarrow> dict M" where
  "mutate_variables y sv client plural name var0 value rem =
     bindM (names_checked client plural name) (\<lambda>rt.
     if strip var0 = [] then raise (SchemaError ''variable name is required'')
     else
       let var = strip var0; path = manifest_path plural name in
       bindM (gw_read (sv_writer sv) client path) (\<lambda>current.
       case current of
         None \<Rightarrow> raise (NoManifest (rt_kind rt @ '' '' @ repr name @ '' has no committed manifest''))
       | Some text \<Rightarrow>
           bindM (of_result (load_or_empty y text)) (\<lambda>manifest.
           bindM (of_result (mutated manifest var value rem)) (\<lambda>manifest'.
           let action = (if rem then ''Remove variable '' @ var @ '' from '' @ rt_kind rt @ '' '' @ name
                         else ''Set variable '' @ var @ '' on '' @ rt_kind rt @ '' '' @ name) in
           bindM (gw_apply (sv_writer sv) client path (safe_dump y (JObj manifest')) action
             (sv_mode sv)) (\<lambda>result.
           ret (dupdate [(''repo'', JStr client), (''path'', JStr path)] result))))))"

definition set_variable ::
    "yaml \<Rightarrow> service \<Rightarrow> string \<Rightarrow> string \<Rightarrow> string \<Rightarrow> string \<Rightarrow> string \<Rightarrow> dict M" where
  "set_variable y sv client plural name var value =
     mutate_variables y sv client plural name var value False"

definition remove_variable ::
    "yaml \<Rightarrow> service \<Rightarrow> string \<Rightarrow> string \<Rightarrow> string \<Rightarrow> string \<Rightarrow> dict M" where
  "remove_variable y sv client plural name var =
     mutate_variables y sv client plural name var [] True"

text \<open>\<open>list(x or [])\<close>: a dict gives its keys, a string its characters.\<close>

definition py_list :: "json \<Rightarrow> exn + json list" where
  "py_list v =
     (case jor v (JArr []) of
        JArr vs \<Rightarrow> Inr vs
      | JObj d \<Rightarrow> Inr (map (JStr \<circ> fst) d)
      | JStr s \<Rightarrow> Inr (map (\<lambda>c. JStr [c]) s)
      | _ \<Rightarrow> Inl (PyError ''TypeError''))"

definition service_variables ::
    "yaml \<Rightarrow> service \<Rightarrow> string \<Rightarrow> string \<Rightarrow> string \<Rightarrow> json list M" where
  "service_variables y sv client plural name =
     thenM (names_checked client plural name)
    (bindM (gw_read (sv_writer sv) client (manifest_path plural name)) (\<lambda>current.
     case current of
       None \<Rightarrow> raise (NoManifest (plural @ ''/'' @ name @ '' has no committed manifest''))
     | Some text \<Rightarrow>
         bindM (of_result (load_or_empty y text)) (\<lambda>manifest.
         bindM (of_result (committed_variables manifest)) (\<lambda>variables.
         of_result (py_list variables)))))"

definition service_remove :: "service \<Rightarrow> string \<Rightarrow> string \<Rightarrow> string \<Rightarrow> dict M" where
  "service_remove sv client plural name =
     bindM (names_checked client plural name) (\<lambda>rt.
     let path = manifest_path plural name in
     bindM (gw_delete (sv_writer sv) client path (''Delete '' @ rt_kind rt @ '' '' @ name) (sv_mode sv))
       (\<lambda>result.
     ret (dupdate [(''repo'', JStr client), (''path'', JStr path)] result)))"

section \<open>Computations that leave the files alone\<close>

definition steady :: "(log \<Rightarrow> 'f) \<Rightarrow> 'a M \<Rightarrow> bool" where
  "steady F m \<longleftrightarrow> (\<forall>env s. F (trace (snd (m env s))) = F (trace s))"

named_theorems steady_intros
  \<open>introduction rules: a view of the log that a computation leaves unchanged\<close>

lemma steady_run: "steady F m \<Longrightarrow> m env s = (r, s') \<Longrightarrow> F (trace s') = F (trace s)"
  unfolding steady_def by (metis snd_conv)

lemma steady_ret [steady_intros]: "steady F (ret x)" "steady F (raise e)" "steady F (of_result r)"
  by (auto simp: steady_def ret_def raise_def of_result_def split: sum.splits)

lemma steady_bindM [steady_intros]:
  "steady F m \<Longrightarrow> (\<And>x. steady F (f x)) \<Longrightarrow> steady F (bindM m f)"
  by (auto simp: steady_def bindM_def split: prod.splits sum.splits) (metis snd_conv)+

lemma steady_thenM [steady_intros]: "steady F m \<Longrightarrow> steady F k \<Longrightarrow> steady F (thenM m k)"
  unfolding thenM_def by (rule steady_bindM)

lemma steady_cases [steady_intros]:
  "(b \<Longrightarrow> steady F m) \<Longrightarrow> (\<not> b \<Longrightarrow> steady F k) \<Longrightarrow> steady F (if b then m else k)"
  "steady F m \<Longrightarrow> (\<And>z. steady F (g z)) \<Longrightarrow> steady F (case x of None \<Rightarrow> m | Some z \<Rightarrow> g z)"
  by (cases b, simp_all) (cases x, simp_all)

lemma steady_names_checked [steady_intros]: "steady F (names_checked c p n)"
  unfolding names_checked_def by (intro steady_intros)

lemma names_checked_run:
  "names_checked c p n env s = (Inr rt, s') \<longleftrightarrow> s' = s \<and> resource_for_plural p = Inr rt \<and>
     validate_name c ''customer'' = Inr c \<and> validate_name n ''name'' = Inr n"
  by (auto simp: names_checked_def bindM_Inr thenM_Inr of_result_def ret_def raise_def
      validate_name_def split: sum.splits if_splits)

lemma of_result_run: "of_result r env s = (Inr x, s') \<longleftrightarrow> r = Inr x \<and> s' = s"
  by (auto simp: of_result_def ret_def raise_def split: sum.splits)

section \<open>What is written\<close>

text \<open>The manifest an upsert writes over the file it finds, and what a reader lists in a file.\<close>

definition carry :: "yaml \<Rightarrow> string option \<Rightarrow> dict \<Rightarrow> dict" where
  "carry y found manifest =
     (if jhas (jget (JObj manifest) ''spec'') ''variables'' then manifest
      else case found of
        None \<Rightarrow> manifest
      | Some text \<Rightarrow>
          (if text = [] then manifest
           else case bind_result (load_or_empty y text) committed_variables of
             Inl e \<Rightarrow> manifest
           | Inr v \<Rightarrow> if truthy v then with_spec_variables manifest v else manifest))"

definition listed :: "yaml \<Rightarrow> string \<Rightarrow> exn + json list" where
  "listed y text =
     bind_result (load_or_empty y text) (\<lambda>m. bind_result (committed_variables m) py_list)"

text \<open>
  What PyYAML documents for plain data: an empty stream is \<open>None\<close>, a loaded mapping has
  distinct keys, and \<open>safe_load\<close> gives back what \<open>safe_dump\<close> wrote.
\<close>

definition yaml_ok :: "yaml \<Rightarrow> bool" where
  "yaml_ok y \<longleftrightarrow> safe_load y [] = Some JNull \<and>
     (\<forall>t j. safe_load y t = Some j \<longrightarrow> wf_json j) \<and>
     (\<forall>j. wf_json j \<longrightarrow> safe_load y (safe_dump y j) = Some j)"

lemma bind_result_Inr: "bind_result r f = Inr z \<longleftrightarrow> (\<exists>x. r = Inr x \<and> f x = Inr z)"
  by (cases r) (simp_all add: bind_result_def)

context git_backend
begin

lemma read_steady [steady_intros]: "steady files (gw_read w repo path)"
  unfolding steady_def using read_keeps by (metis prod.collapse)

lemma propose_steady [steady_intros]:
  "steady files (gw_apply w repo path content message MODE_PR)"
  "steady files (gw_delete w repo path message MODE_PR)"
  unfolding steady_def using apply_proposes delete_proposes by (metis prod.collapse)+

lemma carried_over_steady:
  assumes "sv_writer sv = w"
  shows "steady files (carried_over y sv client path manifest)"
  unfolding carried_over_def assms by (intro steady_intros)

lemma variables_steady:
  assumes "sv_writer sv = w"
  shows "steady files (service_variables y sv client plural name)"
  unfolding service_variables_def assms by (intro steady_intros)

lemma carried_over_answer:
  assumes "serves env" and "sv_writer sv = w"
    and "carried_over y sv client path m env s = (Inr m', s')"
  shows "m' = carry y (files (trace s) (place client path)) m"
proof (cases "jhas (jget (JObj m) ''spec'') ''variables''")
  case True
  with assms(3) show ?thesis by (simp add: carried_over_def carry_def ret_def)
next
  case False
  with assms(2,3) obtain found s1 where r: "gw_read w client path env s = (Inr found, s1)"
    and k: "(case found of None \<Rightarrow> ret m | Some text \<Rightarrow>
      if text = [] then ret m
      else bindM (of_result (load_or_empty y text)) (\<lambda>committed.
           bindM (of_result (committed_variables committed)) (\<lambda>variables.
           ret (if truthy variables then with_spec_variables m variables else m))))
      env s1 = (Inr m', s')"
    by (auto simp: carried_over_def bindM_Inr)
  from read_answer [OF assms(1) r] have "found = files (trace s) (place client path)" .
  with k False show ?thesis
    by (auto simp: carry_def bindM_Inr of_result_run ret_def bind_result_def
        split: option.splits if_splits sum.splits)
qed

lemma variables_answer:
  assumes "serves env" and "sv_writer sv = w"
    and "service_variables y sv client plural name env s = (Inr vs, s')"
  obtains tx where "files (trace s) (place client (manifest_path plural name)) = Some tx"
    and "listed y tx = Inr vs"
proof -
  from assms(2,3) obtain found s1
    where r: "gw_read w client (manifest_path plural name) env s = (Inr found, s1)"
    and k: "(case found of None \<Rightarrow> raise (NoManifest (plural @ ''/'' @ name @ '' has no committed manifest''))
      | Some text \<Rightarrow>
         bindM (of_result (load_or_empty y text)) (\<lambda>manifest.
         bindM (of_result (committed_variables manifest)) (\<lambda>variables.
         of_result (py_list variables)))) env s1 = (Inr vs, s')"
    by (auto simp: service_variables_def bindM_Inr thenM_Inr names_checked_run)
  then obtain tx where "found = Some tx" and "listed y tx = Inr vs"
    by (auto simp: listed_def bindM_Inr of_result_run bind_result_def raise_def
        split: option.splits sum.splits)
  with read_answer [OF assms(1) r] show thesis by (intro that) simp_all
qed

lemma commit_effect:
  assumes "serves env" and "sv_writer sv = w" and "sv_mode sv \<noteq> MODE_PR"
    and "service_commit y sv client plural name spec labels env s = (Inr res, s')"
  obtains rt where "resource_for_plural plural = Inr rt"
    and "files (trace s') = (files (trace s))(place client (manifest_path plural name) :=
      Some (safe_dump y (JObj (carry y (files (trace s) (place client (manifest_path plural name)))
        (build_manifest rt name (JObj spec) client (sv_prefix sv) (sv_managed_by sv) labels)))))"
proof -
  let ?m = "\<lambda>rt. build_manifest rt name (JObj spec) client (sv_prefix sv) (sv_managed_by sv) labels"
  let ?p = "manifest_path plural name"
  from assms(2,4) obtain rt m' s1 r msg
    where rt: "resource_for_plural plural = Inr rt"
    and c: "carried_over y sv client ?p (?m rt) env s = (Inr m', s1)"
    and a: "gw_apply w client ?p (safe_dump y (JObj m')) msg (sv_mode sv) env s1 = (Inr r, s')"
    by (auto simp: service_commit_def bindM_Inr names_checked_run Let_def ret_def)
  from apply_writes [OF assms(3) a] steady_run [OF carried_over_steady [OF assms(2)] c]
    carried_over_answer [OF assms(1,2) c]
  show thesis by (intro that [OF rt]) simp
qed

lemma mutate_effect:
  assumes "serves env" and "sv_writer sv = w" and "sv_mode sv \<noteq> MODE_PR"
    and "mutate_variables y sv client plural name var value rem env s = (Inr res, s')"
  obtains tx m m' where "files (trace s) (place client (manifest_path plural name)) = Some tx"
    and "load_or_empty y tx = Inr m" and "mutated m (strip var) value rem = Inr m'"
    and "files (trace s') = (files (trace s))(place client (manifest_path plural name) :=
      Some (safe_dump y (JObj m')))"
proof -
  let ?p = "manifest_path plural name"
  from assms(2,4) obtain found s1 where r: "gw_read w client ?p env s = (Inr found, s1)"
    by (auto simp: mutate_variables_def bindM_Inr names_checked_run Let_def raise_def split: if_splits)
  from assms(2,4) r obtain tx m m' res' msg where f: "found = Some tx"
    and l: "load_or_empty y tx = Inr m" and t: "mutated m (strip var) value rem = Inr m'"
    and a: "gw_apply w client ?p (safe_dump y (JObj m')) msg (sv_mode sv) env s1 = (Inr res', s')"
    by (auto simp: mutate_variables_def bindM_Inr names_checked_run of_result_run Let_def raise_def
        ret_def split: if_splits option.splits)
  from apply_writes [OF assms(3) a] read_answer [OF assms(1) r] read_keeps [OF r] f
  show thesis by (intro that [OF _ l t]) simp_all
qed

lemma proposals_steady:
  assumes "sv_writer sv = w" and "sv_mode sv = MODE_PR"
  shows "steady files (service_commit y sv client plural name spec labels)"
    and "steady files (mutate_variables y sv client plural name var value rem)"
    and "steady files (service_remove sv client plural name)"
  unfolding service_commit_def mutate_variables_def service_remove_def Let_def assms
  by (intro steady_intros carried_over_steady assms)+

end

section \<open>Reading back what was written\<close>

lemma jor_JObj [simp]: "jor (JObj d) (JObj []) = JObj d"
  by (cases d) simp_all

lemma wf_json_jget: "wf_json j \<Longrightarrow> wf_json (jget j k)"
  by (cases j) (auto simp: wf_json_dget split: option.split)

lemma wf_json_jor: "wf_json j \<Longrightarrow> wf_json (jor j (JObj []))"
  by (simp add: jor_def)

lemma wf_dset_json:
  assumes "wf_json (JObj d)" and "wf_json v"
  shows "wf_json (JObj (dset k v d))"
proof -
  have "set (dset k v d) \<subseteq> insert (k, v) (set d)"
    by (induction k v d rule: dset.induct) auto
  with assms show ?thesis by auto
qed

lemma wf_dremove_json: "wf_json (JObj d) \<Longrightarrow> wf_json (JObj (dremove k d))"
  by (auto simp: dremove_def wf_dict_def distinct_map_filter)

lemma wf_str_dict: "wf_dict d \<Longrightarrow> wf_json (str_dict d)"
  by (auto simp: str_dict_def wf_dict_def comp_def case_prod_beta)

lemma wf_build_manifest:
  assumes "wf_json (JObj spec)"
  shows "wf_json (JObj (build_manifest rt n (JObj spec) c pre mb labels))"
proof -
  have "wf_json (str_dict (dupdate [(''app.kubernetes.io/managed-by'', mb),
      (''platform.adomi.io/client'', c)] labels))"
    by (intro wf_str_dict wf_dict_dupdate) (simp add: wf_dict_def)
  with assms show ?thesis by (simp add: build_manifest_def wf_dict_def)
qed

lemma listed_dump:
  assumes "yaml_ok y" and "wf_json (JObj m)"
  shows "listed y (safe_dump y (JObj m)) = bind_result (committed_variables (JObj m)) py_list"
  using assms by (simp add: listed_def load_or_empty_def yaml_ok_def bind_result_def)

lemma spec_of_manifest: "jget (JObj (build_manifest rt n (JObj spec) c pre mb labels)) ''spec'' = JObj spec"
  by (simp add: build_manifest_def)

lemma load_wf: "yaml_ok y \<Longrightarrow> load_or_empty y tx = Inr j \<Longrightarrow> wf_json j"
  by (auto simp: load_or_empty_def yaml_ok_def wf_json_jor split: option.splits)

lemma dset_not_Nil [simp]: "dset k v d \<noteq> []"
  by (cases "(k, v, d)" rule: dset.cases) auto

lemma wf_entry: "wf_json (variable_value var x)"
  by (simp add: variable_value_def wf_dict_def)

lemma listed_carry:
  assumes y: "yaml_ok y" and before: "listed y tx = Inr vs"
    and spec: "\<not> jhas (JObj spec) ''variables''" "wf_json (JObj spec)"
  shows "listed y (safe_dump y (JObj (carry y (Some tx)
    (build_manifest rt n (JObj spec) c pre mb labels)))) = Inr vs"
proof -
  let ?m = "build_manifest rt n (JObj spec) c pre mb labels"
  from before obtain j v where j: "load_or_empty y tx = Inr j"
    and v: "committed_variables j = Inr v" and vs: "py_list v = Inr vs"
    by (auto simp: listed_def bind_result_Inr)
  from v load_wf [OF y j] have wf: "wf_json v"
    by (auto simp: committed_variables_def bind_result_Inr attr_get_def wf_json_jget wf_json_jor
        split: if_splits)
  have none: "jget (JObj spec) ''variables'' = JNull" using spec(1) by simp
  have e: "vs = []" if "\<not> truthy v" using that vs by (simp add: py_list_def jor_def)
  have "committed_variables j = Inr JNull" if "tx = []"
    using that j y
    by (auto simp: load_or_empty_def yaml_ok_def committed_variables_def attr_get_def bind_result_def)
  with v have "\<not> truthy v" if "tx = []" using that by auto
  with j v spec(1) have "carry y (Some tx) ?m =
      (if truthy v then with_spec_variables ?m v else ?m)"
    by (auto simp: carry_def spec_of_manifest bind_result_def simp del: jget.simps jhas.simps)
  moreover have "listed y (safe_dump y (JObj (with_spec_variables ?m v))) = Inr vs"
  proof -
    have "wf_json (JObj (with_spec_variables ?m v))"
      unfolding with_spec_variables_def spec_of_manifest jdict.simps
      by (intro wf_dset_json wf_build_manifest spec(2) wf)
    from listed_dump [OF y this] vs show ?thesis
      by (simp add: committed_variables_def with_spec_variables_def attr_get_def bind_result_def
          del: jget.simps) 
  qed
  moreover have "listed y (safe_dump y (JObj ?m)) = Inr vs" if "\<not> truthy v"
    using listed_dump [OF y wf_build_manifest [OF spec(2)]] e [OF that] none
    by (simp add: committed_variables_def attr_get_def bind_result_def spec_of_manifest py_list_def
        del: jget.simps)
  ultimately show ?thesis by simp
qed

lemma listed_mutated:
  assumes y: "yaml_ok y" and before: "listed y tx = Inr vs" and j: "load_or_empty y tx = Inr j"
    and m': "mutated j var value rem = Inr m'"
  shows "listed y (safe_dump y (JObj m')) = Inr (mutated_entries vs var value rem)"
proof -
  from m' obtain m where m: "j = JObj m" by (auto simp: mutated_def split: json.splits)
  let ?s = "if jhas j ''spec'' then jget j ''spec'' else JObj []"
  from m' m obtain spec where spec: "?s = JObj spec"
    by (auto simp: mutated_def split: json.splits if_splits)
  from m' m spec obtain vs0 where vs0: "variable_entries (jget (JObj spec) ''variables'') = Inr vs0"
    and eq: "m' = dset ''spec'' (JObj (mutated_spec spec (mutated_entries vs0 var value rem))) m"
    unfolding mutated_def by (simp add: bind_result_Inr del: jget.simps jhas.simps) blast
  have "py_list (jget (JObj spec) ''variables'') = Inr vs0"
    using vs0 by (auto simp: variable_entries_def py_list_def split: json.splits if_splits)
  moreover have "jor (jget j ''spec'') (JObj []) = JObj spec"
    using spec m by (auto split: if_splits option.splits)
  ultimately have "listed y tx = Inr vs0"
    using j m by (simp add: listed_def committed_variables_def attr_get_def bind_result_def del: jget.simps)
  with before have [simp]: "vs0 = vs" by simp
  have wf_spec: "wf_json (JObj spec)"
    using load_wf [OF y j] spec wf_json_jget [of j "''spec''"] by (simp split: if_splits)
  have "\<forall>v \<in> set vs. wf_json v"
    using vs0 wf_json_jget [OF wf_spec, of "''variables''"]
    by (auto simp: variable_entries_def jor_def split: json.splits if_splits)
  then have "wf_json (JObj (mutated_spec spec (mutated_entries vs var value rem)))"
    unfolding mutated_spec_def
    by (auto intro!: wf_dset_json wf_dremove_json wf_spec simp: mutated_entries_def wf_entry
        simp del: wf_json.simps(1))
  with load_wf [OF y j] m have "wf_json (JObj m')"
    unfolding eq by (intro wf_dset_json) simp_all
  from listed_dump [OF y this] show ?thesis
    unfolding eq
    by (auto simp: committed_variables_def attr_get_def bind_result_def mutated_spec_def py_list_def
        jor_def)
qed

section \<open>Properties\<close>

text \<open>C8. An upsert keeps the variables. In commit mode, over a Forgejo repository, the variables
  a resource lists after a returned upsert whose spec has none are the ones it listed before.
\<close>

theorem upsert_keeps_variables:
  assumes "git_server init (fj_branch w) env" and "yaml_ok y"
    and "sv_writer sv = forgejo_writer w" and "sv_mode sv \<noteq> MODE_PR"
    and "\<not> jhas (JObj spec) ''variables''" and "wf_json (JObj spec)"
    and "service_variables y sv client plural name env s = (Inr vs, s1)"
    and "service_commit y sv client plural name spec labels env s1 = (Inr res, s2)"
    and "service_variables y sv client plural name env s2 = (Inr vs', s3)"
  shows "vs' = vs"
proof -
  let ?F = "git_files init (fj_branch w)" and ?u = "file_url w client (manifest_path plural name)"
  obtain t0 where t0: "?F (trace s) ?u = Some t0" "listed y t0 = Inr vs"
    by (rule forgejo.variables_answer [OF assms(1,3,7)])
  have s1: "?F (trace s1) = ?F (trace s)"
    by (rule steady_run [OF forgejo.variables_steady [OF assms(3)] assms(7)])
  obtain rt where "?F (trace s2) ?u = Some (safe_dump y (JObj (carry y (?F (trace s1) ?u)
      (build_manifest rt name (JObj spec) client (sv_prefix sv) (sv_managed_by sv) labels))))"
    by (rule forgejo.commit_effect [OF assms(1,3,4,8)]) simp
  moreover obtain t2 where "?F (trace s2) ?u = Some t2" "listed y t2 = Inr vs'"
    by (rule forgejo.variables_answer [OF assms(1,3,9)])
  ultimately show ?thesis
    using listed_carry [OF assms(2) t0(2) assms(5,6)] t0(1) s1 by simp
qed

text \<open>C9. A variable that is set reads back. In commit mode, after a returned \<open>set_variable\<close> the
  resource lists its other variables as before and then the new value, once; after a
  returned \<open>remove_variable\<close>, the others only.
\<close>

theorem variable_reads_back:
  assumes "git_server init (fj_branch w) env" and "yaml_ok y"
    and "sv_writer sv = forgejo_writer w" and "sv_mode sv \<noteq> MODE_PR"
    and "service_variables y sv client plural name env s = (Inr vs, s1)"
    and "mutate_variables y sv client plural name var new rem env s1 = (Inr res, s2)"
    and "service_variables y sv client plural name env s2 = (Inr vs', s3)"
  shows "vs' = filter (\<lambda>v. jget v ''name'' \<noteq> JStr (strip var)) vs @
    (if rem then [] else [JObj [(''name'', JStr (strip var)), (''value'', JStr new)]])"
proof -
  let ?F = "git_files init (fj_branch w)" and ?u = "file_url w client (manifest_path plural name)"
  obtain t0 where t0: "?F (trace s) ?u = Some t0" "listed y t0 = Inr vs"
    by (rule forgejo.variables_answer [OF assms(1,3,5)])
  have s1: "?F (trace s1) = ?F (trace s)"
    by (rule steady_run [OF forgejo.variables_steady [OF assms(3)] assms(5)])
  obtain t1 m m' where t1: "?F (trace s1) ?u = Some t1" "load_or_empty y t1 = Inr m"
      "mutated m (strip var) new rem = Inr m'"
    and t2: "?F (trace s2) ?u = Some (safe_dump y (JObj m'))"
    by (rule forgejo.mutate_effect [OF assms(1,3,4,6)]) simp
  obtain t3 where "?F (trace s2) ?u = Some t3" "listed y t3 = Inr vs'"
    by (rule forgejo.variables_answer [OF assms(1,3,7)])
  with t0 s1 t1 t2 listed_mutated [OF assms(2) t0(2)] have "vs' = mutated_entries vs (strip var) new rem"
    by auto
  then show ?thesis by (simp add: mutated_entries_def variable_value_def)
qed

text \<open>C35. In pull-request mode nothing lands: whatever an upsert, a variable change or a removal
  does, the files on the default branch stay as they were.
\<close>

theorem pull_requests_propose:
  "let sv = sv0\<lparr>sv_writer := forgejo_writer w, sv_mode := MODE_PR\<rparr>;
       files = git_files init (fj_branch w) in
     files (trace (snd (service_commit y sv client plural name spec labels env s))) = files (trace s) \<and>
     files (trace (snd (mutate_variables y sv client plural name var new rem env s))) = files (trace s) \<and>
     files (trace (snd (service_remove sv client plural name env s))) = files (trace s)"
  using forgejo.proposals_steady [where sv = "sv0\<lparr>sv_writer := forgejo_writer w, sv_mode := MODE_PR\<rparr>"]
  by (simp add: Let_def steady_def)

section \<open>A repository for the witnesses\<close>

text \<open>
  A Forgejo that keeps every accepted file, and a YAML that numbers the values: the text of
  the \<open>n\<close>th value is \<open>n + 1\<close> characters long.
\<close>

definition forgejo_sim :: "files \<Rightarrow> string \<Rightarrow> env" where
  "forgejo_sim init br l c =
     (case c of
        Http m url h b \<Rightarrow>
          (if m = ''GET'' \<and> ends_with (query [(''ref'', br)]) url
           then (case git_files init br l (drop_suffix (query [(''ref'', br)]) url) of
                   Some t \<Rightarrow> Inr (JObj [(''status_code'', JInt 200), (''json'',
                     JObj [(''content'', JStr (b64encode t)), (''sha'', JStr ''s'')])])
                 | None \<Rightarrow> Inr (JObj [(''status_code'', JInt 404)]))
           else Inr (JObj [(''status_code'', JInt (if m = ''GET'' then 200 else 201))]))
      | _ \<Rightarrow> Inl (OtherErr []))"

instance json :: countable
  by countable_datatype

definition numbered_yaml :: yaml where
  "numbered_yaml = \<lparr>
     safe_dump = (\<lambda>j. replicate (Suc (to_nat j)) CHR ''x''),
     safe_load = (\<lambda>t. if t = [] then Some JNull
       else if wf_json (from_nat (length t - 1)) then Some (from_nat (length t - 1)) else None) \<rparr>"

lemma numbered_yaml_ok: "yaml_ok numbered_yaml"
  by (auto simp: yaml_ok_def numbered_yaml_def split: if_splits)

lemma suffix_split: "drop_suffix q (u @ q) = u" "ends_with q (u @ q)"
  by (auto simp: drop_suffix_def ends_with_def)

lemma sim_get:
  "forgejo_sim init br l (Http ''GET'' (u @ query [(''ref'', br)]) h b) =
     (case git_files init br l u of
        Some t \<Rightarrow> Inr (JObj [(''status_code'', JInt 200), (''json'',
          JObj [(''content'', JStr (b64encode t)), (''sha'', JStr ''s'')])])
      | None \<Rightarrow> Inr (JObj [(''status_code'', JInt 404)]))"
  by (simp add: forgejo_sim_def suffix_split)

lemma sim_asks:
  "\<exists>resp. forgejo_sim init br l (Http ''GET'' u h b) = Inr resp \<and>
     (status_code resp = 200 \<or> status_code resp = 404)"
  by (auto simp: forgejo_sim_def status_code_def split: option.split)

lemma sim_writes:
  "m \<noteq> ''GET'' \<Longrightarrow> forgejo_sim init br l (Http m u h b) = Inr (JObj [(''status_code'', JInt 201)])"
  by (simp add: forgejo_sim_def)

lemma content_of: "b64decode (jstr (jor (JStr (b64encode t)) (JStr []))) = Some t"
  using b64_roundtrip [of t] by (cases "b64encode t") simp_all

lemma forgejo_sim_serves: "git_server init br (forgejo_sim init br)"
  by (auto simp: git_server_def sim_get status_code_def resp_json_def get_or_def sget_def content_of
      split: option.splits)

lemma sim_read:
  "\<exists>s'. gw_read (forgejo_writer w) repo path (forgejo_sim init (fj_branch w)) s =
    (Inr (git_files init (fj_branch w) (trace s) (file_url w repo path)), s')"
  by (simp add: forgejo_writer_def read_file_def forgejo_request_def forgejo_call_def
      file_url_def [symmetric] bindM_def tryM_def callM_def Let_def sim_get status_code_def
      resp_json_def get_or_def sget_def content_of ret_def split: option.split)

lemma sim_request:
  assumes "m = ''GET'' \<or> m = ''POST'' \<or> m = ''PUT'' \<or> m = ''DELETE''"
  shows "\<exists>resp s'. forgejo_request w m p b q (forgejo_sim init br) s = (Inr resp, s') \<and>
    (if m = ''GET'' then status_code resp = 200 \<or> status_code resp = 404
     else status_code resp = 201)"
proof (cases "m = ''GET''")
  case True
  with sim_asks [of init br "trace s" "forgejo_url w p @ query q" "forgejo_headers w" b]
  show ?thesis
    by (auto simp: forgejo_request_def forgejo_call_def tryM_def callM_def)
next
  case False
  then show ?thesis
    by (simp add: forgejo_request_def forgejo_call_def tryM_def callM_def sim_writes
        status_code_def)
qed

lemma sim_ensure_repo: "\<exists>x s'. ensure_repo w repo (forgejo_sim init br) s = (Inr x, s')"
proof -
  obtain resp s1 where 1: "forgejo_request w ''GET'' (repo_url w repo) JNull [] (forgejo_sim init br) s =
      (Inr resp, s1)" and c: "status_code resp = 200 \<or> status_code resp = 404"
    using sim_request [of "''GET''" w "repo_url w repo" JNull "[]" init br s] by auto
  obtain made s2 where "forgejo_request w ''POST'' (''orgs/'' @ fj_owner w @ ''/repos'')
      (JObj [(''name'', JStr repo), (''auto_init'', JBool True), (''private'', JBool True),
             (''default_branch'', JStr (fj_branch w))]) [] (forgejo_sim init br) s1 = (Inr made, s2)"
    and "status_code made = 201"
    using sim_request [of "''POST''" w "''orgs/'' @ fj_owner w @ ''/repos''"
      "JObj [(''name'', JStr repo), (''auto_init'', JBool True), (''private'', JBool True),
             (''default_branch'', JStr (fj_branch w))]" "[]" init br s1] by auto
  with 1 c show ?thesis by (auto simp: ensure_repo_def bindM_def ret_def)
qed

lemma sim_file_sha: "\<exists>x s'. file_sha w repo path ref (forgejo_sim init br) s = (Inr x, s')"
  using sim_request [of "''GET''" w "contents_url w repo path" JNull "[(''ref'', ref)]" init br s]
  by (auto simp: file_sha_def bindM_def ret_def)

lemma sim_put_file:
  "\<exists>x s'. put_file w repo path content msg b sha nb (forgejo_sim init br) s = (Inr x, s')"
proof -
  let ?m = "if sha \<noteq> [] then ''PUT'' else ''POST''"
  let ?b = "JObj ([(''message'', JStr msg), (''content'', JStr (b64encode content)),
      (''branch'', JStr b)] @ opt (sha \<noteq> []) ''sha'' (JStr sha) @
      opt (nb \<noteq> []) ''new_branch'' (JStr nb))"
  obtain resp s1 where "forgejo_request w ?m (contents_url w repo path) ?b [] (forgejo_sim init br) s =
      (Inr resp, s1)" and "status_code resp = 201"
    using sim_request [of ?m w "contents_url w repo path" ?b "[]" init br s]
    by (cases "sha = []") auto
  then show ?thesis by (simp only: put_file_def bindM_run) (simp add: ret_def)
qed

lemma sim_apply:
  assumes "mode \<noteq> MODE_PR"
  shows "\<exists>r s'. gw_apply (forgejo_writer w) repo path content msg mode
     (forgejo_sim init br) s = (Inr r, s')"
proof -
  obtain x s1 where 1: "ensure_repo w repo (forgejo_sim init br) s = (Inr x, s1)"
    using sim_ensure_repo by blast
  obtain sha s2 where 2: "file_sha w repo path (fj_branch w) (forgejo_sim init br) s1 = (Inr sha, s2)"
    using sim_file_sha by blast
  obtain z s3 where "put_file w repo path content msg (fj_branch w) sha [] (forgejo_sim init br) s2 = (Inr z, s3)"
    using sim_put_file by blast
  with assms 1 2 show ?thesis
    by (simp add: forgejo_writer_def apply_file_def Let_def thenM_def bindM_def ret_def)
qed

text \<open>The client \<open>acme\<close> with one committed variable.\<close>

definition demo_writer :: forgejo where
  "demo_writer = \<lparr> fj_base = ''http://git'', fj_token = ''t'', fj_owner = ''clients'',
     fj_branch = ''main'' \<rparr>"

definition demo_service :: service where
  "demo_service = \<lparr> sv_writer = forgejo_writer demo_writer, sv_prefix = ''adomi-client-'',
     sv_managed_by = ''api'', sv_mode = MODE_COMMIT \<rparr>"

definition demo_doc :: json where
  "demo_doc = JObj [(''spec'', JObj [(''variables'', JArr [variable_value ''A'' ''1''])])]"

definition demo_files :: files where
  "demo_files = (\<lambda>_. None)(file_url demo_writer ''acme'' (manifest_path ''clients'' ''acme'') :=
     Some (safe_dump numbered_yaml demo_doc))"

abbreviation demo_env :: env where "demo_env \<equiv> forgejo_sim demo_files ''main''"

lemma demo_names: "names_checked ''acme'' ''clients'' ''acme'' env s =
    (Inr \<lparr> rt_plural = ''clients'', rt_kind = ''Client'', rt_parent = None \<rparr>, s)"
proof -
  have "resource_for_plural ''clients'' =
      Inr \<lparr> rt_plural = ''clients'', rt_kind = ''Client'', rt_parent = None \<rparr>"
    and "validate_name ''acme'' ''customer'' = Inr ''acme''"
    and "validate_name ''acme'' ''name'' = Inr ''acme''" by code_simp+
  then show ?thesis by (simp add: names_checked_run)
qed

lemma demo_load: "safe_load numbered_yaml (safe_dump numbered_yaml demo_doc) = Some demo_doc"
  and demo_text: "safe_dump numbered_yaml demo_doc \<noteq> []"
  using numbered_yaml_ok
  by (simp_all add: yaml_ok_def demo_doc_def wf_dict_def wf_entry numbered_yaml_def)

lemma demo_variables:
  assumes "git_files demo_files ''main'' (trace s) (file_url demo_writer ''acme'' (manifest_path ''clients'' ''acme'')) =
    Some tx" and "listed numbered_yaml tx = Inr vs"
  shows "\<exists>s'. service_variables numbered_yaml demo_service ''acme'' ''clients'' ''acme'' demo_env s = (Inr vs, s')"
proof -
  obtain s1 where "gw_read (forgejo_writer demo_writer) ''acme'' (manifest_path ''clients'' ''acme'') demo_env s = (Inr (Some tx), s1)"
    using sim_read [of demo_writer "''acme''" "manifest_path ''clients'' ''acme''" demo_files s] assms(1)
    by (auto simp: demo_writer_def)
  with assms(2) show ?thesis
    by (auto simp: service_variables_def thenM_def bindM_def demo_names demo_service_def
        listed_def bind_result_def of_result_def ret_def split: sum.splits)
qed

lemma demo_listed: "listed numbered_yaml (safe_dump numbered_yaml demo_doc) = Inr [variable_value ''A'' ''1'']"
  by (simp add: listed_def load_or_empty_def demo_load)
     (simp add: demo_doc_def committed_variables_def attr_get_def bind_result_def py_list_def)

lemma demo_read:
  assumes "git_files demo_files ''main'' (trace s)
    (file_url demo_writer ''acme'' (manifest_path ''clients'' ''acme'')) = Some tx"
  obtains s1 where "gw_read (forgejo_writer demo_writer) ''acme'' (manifest_path ''clients'' ''acme'')
    demo_env s = (Inr (Some tx), s1)"
  using sim_read [of demo_writer "''acme''" "manifest_path ''clients'' ''acme''" demo_files s] assms
  by (auto simp: demo_writer_def)

lemma demo_commit:
  assumes "git_files demo_files ''main'' (trace s)
    (file_url demo_writer ''acme'' (manifest_path ''clients'' ''acme'')) =
      Some (safe_dump numbered_yaml demo_doc)"
  shows "\<exists>res s'. service_commit numbered_yaml demo_service ''acme'' ''clients'' ''acme'' spec []
    demo_env s = (Inr res, s')"
proof -
  let ?m = "build_manifest \<lparr> rt_plural = ''clients'', rt_kind = ''Client'', rt_parent = None \<rparr> ''acme''
    (JObj spec) ''acme'' (sv_prefix demo_service) (sv_managed_by demo_service) []"
  obtain s1 where "gw_read (forgejo_writer demo_writer) ''acme'' (manifest_path ''clients'' ''acme'')
      demo_env s = (Inr (Some (safe_dump numbered_yaml demo_doc)), s1)"
    by (rule demo_read [OF assms])
  moreover have "load_or_empty numbered_yaml (safe_dump numbered_yaml demo_doc) = Inr demo_doc"
    by (simp add: load_or_empty_def demo_load) (simp add: demo_doc_def)
  moreover have "committed_variables demo_doc = Inr (JArr [variable_value ''A'' ''1''])"
    by (simp add: demo_doc_def committed_variables_def attr_get_def bind_result_def)
  ultimately obtain m' s2 where c: "carried_over numbered_yaml demo_service ''acme''
      (manifest_path ''clients'' ''acme'') ?m demo_env s = (Inr m', s2)"
    using demo_text
    by (cases "jhas (jget (JObj ?m) ''spec'') ''variables''")
       (auto simp: carried_over_def demo_service_def bindM_def of_result_def ret_def)
  obtain r s3 where "gw_apply (forgejo_writer demo_writer) ''acme'' (manifest_path ''clients'' ''acme'')
      (safe_dump numbered_yaml (JObj m')) (''Upsert '' @ sget (JObj m') ''kind'' @ '' '' @ ''acme'')
      MODE_COMMIT demo_env s2 = (Inr r, s3)"
    using sim_apply [of MODE_COMMIT demo_writer] by blast
  with c show ?thesis
    by (simp add: service_commit_def bindM_def demo_names Let_def ret_def)
       (simp add: demo_service_def)
qed

lemma demo_mutate:
  assumes "git_files demo_files ''main'' (trace s)
    (file_url demo_writer ''acme'' (manifest_path ''clients'' ''acme'')) =
      Some (safe_dump numbered_yaml demo_doc)"
  shows "\<exists>res s'. mutate_variables numbered_yaml demo_service ''acme'' ''clients'' ''acme'' ''B'' ''2'' False
    demo_env s = (Inr res, s')"
proof -
  obtain s1 where 1: "gw_read (forgejo_writer demo_writer) ''acme'' (manifest_path ''clients'' ''acme'')
      demo_env s = (Inr (Some (safe_dump numbered_yaml demo_doc)), s1)"
    by (rule demo_read [OF assms])
  have 2: "load_or_empty numbered_yaml (safe_dump numbered_yaml demo_doc) = Inr demo_doc"
    by (simp add: load_or_empty_def demo_load) (simp add: demo_doc_def)
  obtain m' where 3: "mutated demo_doc ''B'' ''2'' False = Inr m'"
    by (simp add: demo_doc_def mutated_def variable_entries_def variable_value_def bind_result_def)
  have 4: "strip ''B'' = ''B''" by code_simp
  obtain r s3 where "gw_apply (forgejo_writer demo_writer) ''acme'' (manifest_path ''clients'' ''acme'')
      (safe_dump numbered_yaml (JObj m')) (''Set variable '' @ ''B'' @ '' on '' @ ''Client'' @ '' '' @ ''acme'')
      MODE_COMMIT demo_env s1 = (Inr r, s3)"
    using sim_apply [of MODE_COMMIT demo_writer] by blast
  with 1 2 3 4 show ?thesis
    by (simp add: mutate_variables_def bindM_def demo_names Let_def ret_def of_result_def)
       (simp add: demo_service_def ret_def)
qed

lemma demo_start:
  obtains s1 where "service_variables numbered_yaml demo_service ''acme'' ''clients'' ''acme''
      demo_env init_st = (Inr [variable_value ''A'' ''1''], s1)"
    and "git_files demo_files ''main'' (trace s1)
      (file_url demo_writer ''acme'' (manifest_path ''clients'' ''acme'')) =
      Some (safe_dump numbered_yaml demo_doc)"
proof -
  have f: "git_files demo_files ''main'' (trace init_st)
      (file_url demo_writer ''acme'' (manifest_path ''clients'' ''acme'')) =
      Some (safe_dump numbered_yaml demo_doc)"
    by (simp add: init_st_def demo_files_def)
  obtain s1 where 1: "service_variables numbered_yaml demo_service ''acme'' ''clients'' ''acme''
      demo_env init_st = (Inr [variable_value ''A'' ''1''], s1)"
    using demo_variables [OF f demo_listed] by blast
  have "sv_writer demo_service = forgejo_writer demo_writer" by (simp add: demo_service_def)
  from steady_run [OF forgejo.variables_steady [OF this] 1, of demo_files] f
  show thesis by (intro that [OF 1]) (simp add: demo_writer_def)
qed

lemma demo_facts: "git_server demo_files (fj_branch demo_writer) demo_env"
  "sv_writer demo_service = forgejo_writer demo_writer" "sv_mode demo_service \<noteq> MODE_PR"
  using forgejo_sim_serves by (simp_all add: demo_writer_def demo_service_def)

lemma upsert_keeps_variables_witness:
  "\<exists>s1 res s2 s3.
     service_variables numbered_yaml demo_service ''acme'' ''clients'' ''acme'' demo_env init_st =
       (Inr [variable_value ''A'' ''1''], s1) \<and>
     service_commit numbered_yaml demo_service ''acme'' ''clients'' ''acme''
       [(''displayName'', JStr ''Acme'')] [] demo_env s1 = (Inr res, s2) \<and>
     service_variables numbered_yaml demo_service ''acme'' ''clients'' ''acme'' demo_env s2 =
       (Inr [variable_value ''A'' ''1''], s3)"
proof -
  let ?spec = "[(''displayName'', JStr ''Acme'')]"
  have spec: "\<not> jhas (JObj ?spec) ''variables''" "wf_json (JObj ?spec)"
    by (simp_all add: wf_dict_def)
  obtain s1 where 1: "service_variables numbered_yaml demo_service ''acme'' ''clients'' ''acme''
      demo_env init_st = (Inr [variable_value ''A'' ''1''], s1)"
    and f: "git_files demo_files ''main'' (trace s1)
      (file_url demo_writer ''acme'' (manifest_path ''clients'' ''acme'')) =
      Some (safe_dump numbered_yaml demo_doc)"
    by (rule demo_start)
  obtain res s2 where 2: "service_commit numbered_yaml demo_service ''acme'' ''clients'' ''acme'' ?spec []
      demo_env s1 = (Inr res, s2)"
    using demo_commit [OF f] by blast
  obtain tx vs where "git_files demo_files ''main'' (trace s2)
      (file_url demo_writer ''acme'' (manifest_path ''clients'' ''acme'')) = Some tx"
    and "listed numbered_yaml tx = Inr vs"
    by (rule forgejo.commit_effect [OF demo_facts 2])
       (use f listed_carry [OF numbered_yaml_ok demo_listed spec] in \<open>auto simp: demo_writer_def\<close>)
  then obtain s3 where 3: "service_variables numbered_yaml demo_service ''acme'' ''clients'' ''acme''
      demo_env s2 = (Inr vs, s3)"
    using demo_variables by blast
  from upsert_keeps_variables [OF demo_facts(1) numbered_yaml_ok demo_facts(2,3) spec 1 2 3] 1 2 3
  show ?thesis by auto
qed

lemma variable_reads_back_witness:
  "\<exists>s1 res s2 s3.
     service_variables numbered_yaml demo_service ''acme'' ''clients'' ''acme'' demo_env init_st =
       (Inr [variable_value ''A'' ''1''], s1) \<and>
     mutate_variables numbered_yaml demo_service ''acme'' ''clients'' ''acme'' ''B'' ''2'' False
       demo_env s1 = (Inr res, s2) \<and>
     service_variables numbered_yaml demo_service ''acme'' ''clients'' ''acme'' demo_env s2 =
       (Inr [variable_value ''A'' ''1'', variable_value ''B'' ''2''], s3)"
proof -
  obtain s1 where 1: "service_variables numbered_yaml demo_service ''acme'' ''clients'' ''acme''
      demo_env init_st = (Inr [variable_value ''A'' ''1''], s1)"
    and f: "git_files demo_files ''main'' (trace s1)
      (file_url demo_writer ''acme'' (manifest_path ''clients'' ''acme'')) =
      Some (safe_dump numbered_yaml demo_doc)"
    by (rule demo_start)
  obtain res s2 where 2: "mutate_variables numbered_yaml demo_service ''acme'' ''clients'' ''acme''
      ''B'' ''2'' False demo_env s1 = (Inr res, s2)"
    using demo_mutate [OF f] by blast
  obtain t1 m m' where "git_files demo_files ''main'' (trace s1)
      (file_url demo_writer ''acme'' (manifest_path ''clients'' ''acme'')) = Some t1"
    and m: "load_or_empty numbered_yaml t1 = Inr m" "mutated m (strip ''B'') ''2'' False = Inr m'"
    and f2: "git_files demo_files ''main'' (trace s2)
      (file_url demo_writer ''acme'' (manifest_path ''clients'' ''acme'')) =
      Some (safe_dump numbered_yaml (JObj m'))"
    by (rule forgejo.mutate_effect [OF demo_facts 2]) (auto simp: demo_writer_def)
  with f listed_mutated [OF numbered_yaml_ok demo_listed _ m(2)]
  obtain vs where "listed numbered_yaml (safe_dump numbered_yaml (JObj m')) = Inr vs" by auto
  from demo_variables [OF f2 this]
  obtain s3 where 3: "service_variables numbered_yaml demo_service ''acme'' ''clients'' ''acme''
      demo_env s2 = (Inr vs, s3)" by blast
  have "strip ''B'' = ''B''" by code_simp
  with variable_reads_back [OF demo_facts(1) numbered_yaml_ok demo_facts(2,3) 1 2 3] 1 2 3
  show ?thesis by (auto simp: variable_value_def)
qed

end
