(* ===== verification/Api.thy ===== *)
theory Api
  imports Resources Harbor Service OpenBao
begin

text \<open>
  The API's plumbing: the settings (\<open>config.py\<close>), bearer authentication (\<open>auth.py\<close>), the
  cluster reader (\<open>cluster.py\<close>), the store of scoped secrets (\<open>secrets.py\<close>) and the
  dependencies that build the clients of a request (\<open>deps.py\<close>). A raised \<open>HTTPException\<close>
  is \<open>HttpException status detail\<close>.
\<close>

section \<open>Settings\<close>

record settings =
  se_auth_token :: string
  se_allow_anonymous :: bool
  se_forgejo_url :: string
  se_forgejo_token :: string
  se_forgejo_org :: string
  se_git_default_branch :: string
  se_git_mode :: string
  se_client_namespace_prefix :: string
  se_managed_by :: string
  se_openbao_addr :: string
  se_openbao_mount :: string
  se_openbao_token :: string
  se_openbao_auth_mount :: string
  se_openbao_role :: string
  se_scoped_secrets_prefix :: string
  se_authentik_addr :: string
  se_authentik_secret_path :: string
  se_authentik_token_key :: string
  se_access_group_prefix :: string
  se_harbor_url :: string
  se_harbor_host :: string
  se_harbor_project :: string
  se_harbor_username :: string
  se_harbor_secret_path :: string
  se_harbor_secret_key :: string

definition default_settings :: settings where
  "default_settings = \<lparr>
     se_auth_token = [], se_allow_anonymous = False,
     se_forgejo_url = ''http://forgejo-http.forgejo.svc.cluster.local:3000'',
     se_forgejo_token = [], se_forgejo_org = ''clients'',
     se_git_default_branch = ''main'', se_git_mode = ''commit'',
     se_client_namespace_prefix = DEFAULT_CLIENT_NAMESPACE_PREFIX,
     se_managed_by = API_MANAGED_BY,
     se_openbao_addr = [], se_openbao_mount = ''secret'', se_openbao_token = [],
     se_openbao_auth_mount = ''kubernetes'', se_openbao_role = ''adomi-platform-api'',
     se_scoped_secrets_prefix = ''scoped'',
     se_authentik_addr = ''http://authentik-server.authentik.svc.cluster.local'',
     se_authentik_secret_path = ''authentik'', se_authentik_token_key = ''bootstrap-token'',
     se_access_group_prefix = ''app-access-'',
     se_harbor_url = ''http://harbor-core.harbor.svc.cluster.local'', se_harbor_host = [],
     se_harbor_project = ''previews'', se_harbor_username = ''admin'',
     se_harbor_secret_path = ''harbor-app'', se_harbor_secret_key = ''admin-password'' \<rparr>"

section \<open>Bearer authentication\<close>

text \<open>\<open>hmac.compare_digest\<close> takes two strings only when both are ASCII.\<close>

definition ascii_only :: "string \<Rightarrow> bool" where
  "ascii_only s \<longleftrightarrow> (\<forall>c \<in> set s. of_char c < (128 :: nat))"

definition compare_digest :: "string \<Rightarrow> string \<Rightarrow> exn + bool" where
  "compare_digest a b =
     (if ascii_only a \<and> ascii_only b then Inr (a = b) else Inl (PyError ''TypeError''))"

definition unauthorized :: exn where
  "unauthorized = HttpException 401 ''invalid or missing bearer token''"

definition require_token :: "settings \<Rightarrow> string \<Rightarrow> exn + unit" where
  "require_token se authorization =
     (if se_allow_anonymous se then Inr ()
      else if se_auth_token se = []
      then Inl (HttpException 503 ''API auth token not configured'')
      else
        let scheme = before CHR '' '' authorization;
            token = (case after CHR '' '' authorization of Some t \<Rightarrow> t | None \<Rightarrow> []) in
        if lower scheme \<noteq> ''bearer'' then Inl unauthorized
        else bind_result (compare_digest token (se_auth_token se))
               (\<lambda>same. if same then Inr () else Inl unauthorized))"

section \<open>The cluster reader\<close>

text \<open>A custom object's group stands with its version; the selector is the call's body.\<close>

definition reader_get :: "string \<Rightarrow> string \<Rightarrow> string \<Rightarrow> string \<Rightarrow> json option M" where
  "reader_get grp plural namespace name =
     tryM (bindM (callM (Custom VGet grp plural namespace name JNull)) (\<lambda>obj. ret (Some obj)))
       (\<lambda>e. case e of
          Ext (ApiErr status reason) \<Rightarrow>
            if status = 404 then ret None
            else raise (ClusterError (''reading '' @ plural @ ''/'' @ name @ '': '' @ reason))
        | _ \<Rightarrow> raise e)"

definition reader_list :: "string \<Rightarrow> string \<Rightarrow> string \<Rightarrow> string \<Rightarrow> json list M" where
  "reader_list grp plural namespace label_selector =
     bindM (tryM (callM (Custom VList grp plural namespace [] (JStr label_selector)))
       (\<lambda>e. case e of
          Ext (ApiErr _ reason) \<Rightarrow> raise (ClusterError (''listing '' @ plural @ '': '' @ reason))
        | _ \<Rightarrow> raise e))
       (\<lambda>res. ret (jlist (jget res ''items'')))"

section \<open>Scoped secrets\<close>

record secrets_store =
  ss_addr :: string
  ss_mount :: string
  ss_static_token :: string
  ss_auth_mount :: string
  ss_role :: string
  ss_jwt_path :: string

definition new_secrets_store ::
    "string \<Rightarrow> string \<Rightarrow> string \<Rightarrow> string \<Rightarrow> string \<Rightarrow> exn + secrets_store" where
  "new_secrets_store addr mount token auth_mount role =
     (if addr = [] then Inl (SecretsError ''OpenBao address is not configured.'')
      else Inr \<lparr> ss_addr = rstrip_of ''/'' addr, ss_mount = strip_of ''/'' mount,
                 ss_static_token = token, ss_auth_mount = strip_of ''/'' auth_mount,
                 ss_role = role,
                 ss_jwt_path = ''/var/run/secrets/kubernetes.io/serviceaccount/token'' \<rparr>)"

definition store_login :: "secrets_store \<Rightarrow> string M" where
  "store_login ss =
     (if ss_static_token ss \<noteq> [] then ret (ss_static_token ss)
      else if ss_role ss = []
      then raise (SecretsError ''OpenBao role is not configured (and no static token).'')
      else
        bindM (callM (ReadFile (ss_jwt_path ss))) (\<lambda>contents.
        bindM (tryM (callM (KvLogin (ss_addr ss) (ss_auth_mount ss) (ss_role ss)
                              (strip (jstr contents))))
                 (\<lambda>e. raise (SecretsError (''openbao kubernetes login: '' @ exn_str e))))
          (\<lambda>resp.
            let token = sget (oget resp ''auth'') ''client_token'' in
            if token = []
            then raise (SecretsError ''openbao kubernetes login returned no token'')
            else ret token)))"

definition set_store_token :: "string \<Rightarrow> unit M" where
  "set_store_token t = modifyM (\<lambda>s. s\<lparr>store_token := t\<rparr>)"

text \<open>One round of \<open>_call\<close>: \<open>None\<close> is a refusal, \<open>Some None\<close> a missing path.\<close>

definition store_attempt ::
    "secrets_store \<Rightarrow> (string \<Rightarrow> json M) \<Rightarrow> bool \<Rightarrow> json option option M" where
  "store_attempt ss op again =
     bindM (getM store_token) (\<lambda>held.
     bindM (if again \<or> held = [] then store_login ss else ret held) (\<lambda>token.
     thenM (set_store_token token)
    (tryM (bindM (op token) (\<lambda>x. ret (Some (Some x))))
       (\<lambda>e. case e of
          Ext InvalidPath \<Rightarrow> ret (Some None)
        | Ext Denied \<Rightarrow> ret None
        | _ \<Rightarrow> raise e))))"

definition store_call :: "secrets_store \<Rightarrow> (string \<Rightarrow> json M) \<Rightarrow> json option M" where
  "store_call ss op =
     bindM (store_attempt ss op False) (\<lambda>r. case r of
       Some x \<Rightarrow> ret x
     | None \<Rightarrow>
         thenM (set_store_token [])
        (bindM (store_attempt ss op True) (\<lambda>r'. case r' of
           Some x \<Rightarrow> ret x
         | None \<Rightarrow> raise (SecretsError ''openbao: access denied''))))"

definition kv_op :: "secrets_store \<Rightarrow> verb \<Rightarrow> string \<Rightarrow> json \<Rightarrow> string \<Rightarrow> json M" where
  "kv_op ss v path body token = callM (Kv v (ss_mount ss) (strip_of ''/'' path) token body)"

definition store_read :: "secrets_store \<Rightarrow> string \<Rightarrow> json option M" where
  "store_read ss path =
     store_call ss (\<lambda>token.
       bindM (kv_op ss VGet path JNull token) (\<lambda>resp.
       bindM (item resp ''data'') (\<lambda>outer. item outer ''data'')))"

definition store_names :: "secrets_store \<Rightarrow> string \<Rightarrow> string list M" where
  "store_names ss path =
     bindM (store_read ss path) (\<lambda>found. ret (sort (map fst (jdict (or_empty found)))))"

definition store_read_value :: "secrets_store \<Rightarrow> string \<Rightarrow> string \<Rightarrow> string M" where
  "store_read_value ss path key =
     bindM (store_read ss path) (\<lambda>found.
     ret (py_str (jor (jget (or_empty found) key) (JStr []))))"

definition store_set :: "secrets_store \<Rightarrow> string \<Rightarrow> string \<Rightarrow> string \<Rightarrow> unit M" where
  "store_set ss path name value =
     bindM (store_read ss path) (\<lambda>found.
     thenM (store_call ss
       (kv_op ss VCreate path (JObj (dset name (JStr value) (jdict (or_empty found))))))
     (ret ()))"

definition store_remove :: "secrets_store \<Rightarrow> string \<Rightarrow> string \<Rightarrow> bool M" where
  "store_remove ss path name =
     bindM (store_read ss path) (\<lambda>found.
     let data = jdict (or_empty found) in
     if dget data name = None then ret False
     else
       let rest = dremove name data in
       thenM (if rest \<noteq> [] then store_call ss (kv_op ss VCreate path (JObj rest))
              else store_call ss (kv_op ss VDelete path JNull))
       (ret True))"

section \<open>The clients of a request\<close>

definition get_writer :: "settings \<Rightarrow> forgejo M" where
  "get_writer se = of_result (new_forgejo (se_forgejo_url se) (se_forgejo_token se)
     (se_forgejo_org se) (se_git_default_branch se))"

definition get_service :: "settings \<Rightarrow> service M" where
  "get_service se =
     bindM (get_writer se) (\<lambda>w.
     ret \<lparr> sv_writer = forgejo_writer w, sv_prefix = se_client_namespace_prefix se,
           sv_managed_by = se_managed_by se, sv_mode = se_git_mode se \<rparr>)"

text \<open>A new store holds no token yet.\<close>

definition get_secrets_store :: "settings \<Rightarrow> secrets_store M" where
  "get_secrets_store se =
     bindM (of_result (new_secrets_store (se_openbao_addr se) (se_openbao_mount se)
       (se_openbao_token se) (se_openbao_auth_mount se) (se_openbao_role se))) (\<lambda>ss.
     thenM (set_store_token []) (ret ss))"

definition check_backend_ready :: "settings \<Rightarrow> (bool \<times> string) M" where
  "check_backend_ready se = bindM (get_writer se) check_ready"

abbreviation CREDENTIAL_TTL :: int where "CREDENTIAL_TTL \<equiv> 600"

definition set_cred :: "string \<Rightarrow> string \<times> int \<Rightarrow> unit M" where
  "set_cred k v = modifyM (\<lambda>s. s\<lparr>api_creds := dset k v (api_creds s)\<rparr>)"

text \<open>
  The module-level cache \<open>{"value": "", "at": 0.0}\<close> of a credential: read again when it is
  empty or older than the time to live. The value is stored before the time.
\<close>

definition cached_cred :: "string \<Rightarrow> secrets_store \<Rightarrow> string \<Rightarrow> string \<Rightarrow> string M" where
  "cached_cred cache store path key =
     bindM monotonic (\<lambda>now.
     bindM (getM (\<lambda>s. case dget (api_creds s) cache of Some c \<Rightarrow> c | None \<Rightarrow> ([], 0))) (\<lambda>(value, at).
     if value = [] \<or> now - at > CREDENTIAL_TTL
     then bindM (store_read_value store path key) (\<lambda>fresh.
          thenM (set_cred cache (fresh, now)) (ret fresh))
     else ret value))"

end
