(* ===== verification/Identity.thy ===== *)
theory Identity
  imports Api Gates
begin

text \<open>
  Who can reach an application: the Authentik admin client of \<open>identity.py\<close> and the routes
  of \<open>routers/identity.py\<close>. One group per application gates it while the group is bound;
  membership and bindings are Authentik's own state, changed by requests.
\<close>

section \<open>The Authentik admin client\<close>

record authentik_admin =
  aa_base :: string
  aa_token :: string

definition new_authentik_admin :: "string \<Rightarrow> string \<Rightarrow> exn + authentik_admin" where
  "new_authentik_admin base_url token =
     (if base_url = [] then Inl (IdentityError ''Authentik URL is not configured.'')
      else if token = [] then Inl (IdentityError ''Authentik token is not configured.'')
      else Inr \<lparr> aa_base = rstrip_of ''/'' base_url, aa_token = token \<rparr>)"

definition admin_headers :: "authentik_admin \<Rightarrow> (string \<times> string) list" where
  "admin_headers a =
     [(''Authorization'', ''Bearer '' @ aa_token a), (''Content-Type'', ''application/json''),
      (''Accept'', ''application/json'')]"

definition admin_url :: "authentik_admin \<Rightarrow> string \<Rightarrow> string" where
  "admin_url a path = aa_base a @ ''/api/v3/'' @ lstrip_of ''/'' path"

definition admin_call ::
    "authentik_admin \<Rightarrow> string \<Rightarrow> string \<Rightarrow> json \<Rightarrow> (string \<times> string) list \<Rightarrow> call" where
  "admin_call a method path payload params =
     Http method (admin_url a path @ query params) (admin_headers a) payload"

definition admin_request ::
    "authentik_admin \<Rightarrow> string \<Rightarrow> string \<Rightarrow> json \<Rightarrow> (string \<times> string) list \<Rightarrow> json M" where
  "admin_request a method path payload params =
     tryM (callM (admin_call a method path payload params))
       (\<lambda>e. raise (IdentityError (''Authentik request failed: '' @ exn_str e)))"

definition identity_failed :: "string \<Rightarrow> json \<Rightarrow> 'a M" where
  "identity_failed what resp =
     raise (IdentityError (what @ '' failed: '' @ int_str (status_code resp) @ '' '' @ resp_text resp))"

definition admin_json :: "string \<Rightarrow> json \<Rightarrow> json M" where
  "admin_json what resp =
     (if status_code resp \<notin> {200, 201, 204} then identity_failed what resp
      else ret (if status_code resp \<noteq> 204 then resp_json resp else JObj []))"

definition admin_do ::
    "authentik_admin \<Rightarrow> string \<Rightarrow> string \<Rightarrow> json \<Rightarrow> (string \<times> string) list \<Rightarrow> string \<Rightarrow> json M" where
  "admin_do a method path payload params what =
     bindM (admin_request a method path payload params) (admin_json what)"

definition str_or_empty :: "json \<Rightarrow> string \<Rightarrow> json" where
  "str_or_empty u k = jor (jget u k) (JStr [])"

definition access_user :: "json \<Rightarrow> json" where
  "access_user u = JObj
     [(''pk'', jget u ''pk''), (''username'', str_or_empty u ''username''),
      (''name'', str_or_empty u ''name''), (''email'', str_or_empty u ''email'')]"

definition human_account :: "json \<Rightarrow> bool" where
  "human_account u \<longleftrightarrow>
     jget u ''type'' \<in> {JNull, JStr ''internal'', JStr ''external''} \<and>
     truthy (get_or u ''is_active'' (JBool True))"

definition list_users :: "authentik_admin \<Rightarrow> string \<Rightarrow> int \<Rightarrow> json list M" where
  "list_users a search limit =
     bindM (admin_do a ''GET'' ''core/users/'' JNull
       ([(''page_size'', int_str limit), (''ordering'', ''username'')] @
        (if search \<noteq> [] then [(''search'', search)] else [])) ''Listing users'') (\<lambda>data.
     ret (map access_user (filter human_account (lget data ''results''))))"

fun first_with :: "string \<Rightarrow> string \<Rightarrow> json list \<Rightarrow> json option" where
  "first_with key name [] = None"
| "first_with key name (x # xs) =
     (if jget x key = JStr name then Some x else first_with key name xs)"

definition find_group :: "authentik_admin \<Rightarrow> string \<Rightarrow> json option M" where
  "find_group a name =
     bindM (admin_do a ''GET'' ''core/groups/'' JNull
       [(''name'', name), (''include_users'', ''true'')] (''Reading group '' @ repr name)) (\<lambda>data.
     ret (first_with ''name'' name (lget data ''results'')))"

definition ensure_access_group :: "authentik_admin \<Rightarrow> string \<Rightarrow> json M" where
  "ensure_access_group a name =
     bindM (find_group a name) (\<lambda>existing. case existing of
       Some grp \<Rightarrow> ret grp
     | None \<Rightarrow> admin_do a ''POST'' ''core/groups/'' (JObj [(''name'', JStr name)]) []
                (''Creating group '' @ repr name))"

definition group_members :: "json \<Rightarrow> json list" where
  "group_members grp = map access_user (lget grp ''users_obj'')"

definition add_member :: "authentik_admin \<Rightarrow> json \<Rightarrow> int \<Rightarrow> unit M" where
  "add_member a group_pk user_pk =
     thenM (admin_do a ''POST'' (''core/groups/'' @ py_str group_pk @ ''/add_user/'')
       (JObj [(''pk'', JInt user_pk)]) [] ''Adding the user to the group'') (ret ())"

definition remove_member :: "authentik_admin \<Rightarrow> json \<Rightarrow> int \<Rightarrow> unit M" where
  "remove_member a group_pk user_pk =
     thenM (admin_do a ''POST'' (''core/groups/'' @ py_str group_pk @ ''/remove_user/'')
       (JObj [(''pk'', JInt user_pk)]) [] ''Removing the user from the group'') (ret ())"

definition application_by_slug :: "authentik_admin \<Rightarrow> string \<Rightarrow> json option M" where
  "application_by_slug a slug =
     bindM (admin_do a ''GET'' ''core/applications/'' JNull
       [(''slug'', slug), (''superuser_full_list'', ''true'')] (''Reading application '' @ repr slug))
       (\<lambda>data. ret (first_with ''slug'' slug (lget data ''results'')))"

definition group_bindings :: "authentik_admin \<Rightarrow> json \<Rightarrow> json list M" where
  "group_bindings a target_pk =
     bindM (admin_do a ''GET'' ''policies/bindings/'' JNull [(''target'', py_str target_pk)]
       ''Reading access bindings'') (\<lambda>data.
     ret (filter (\<lambda>b. truthy (jget b ''group'')) (lget data ''results'')))"

definition binding_body :: "json \<Rightarrow> json \<Rightarrow> json" where
  "binding_body target_pk group_pk = JObj
     [(''target'', target_pk), (''group'', group_pk), (''order'', JInt 0), (''enabled'', JBool True)]"

definition ensure_binding :: "authentik_admin \<Rightarrow> json \<Rightarrow> json \<Rightarrow> unit M" where
  "ensure_binding a target_pk group_pk =
     bindM (group_bindings a target_pk) (\<lambda>bs.
     if \<exists>b \<in> set bs. jget b ''group'' = group_pk then ret ()
     else thenM (admin_do a ''POST'' ''policies/bindings/'' (binding_body target_pk group_pk) []
                  ''Binding the access group'') (ret ()))"

definition remove_binding :: "authentik_admin \<Rightarrow> json \<Rightarrow> json \<Rightarrow> unit M" where
  "remove_binding a target_pk group_pk =
     bindM (group_bindings a target_pk) (\<lambda>bs.
     forM bs (\<lambda>binding.
       if jget binding ''group'' \<noteq> group_pk then ret ()
       else bindM (item binding ''pk'') (\<lambda>pk.
         bindM (admin_request a ''DELETE'' (''policies/bindings/'' @ py_str pk @ ''/'') JNull [])
           (\<lambda>resp.
             if status_code resp \<in> {204, 404} then ret ()
             else identity_failed ''Removing the access binding'' resp))))"

text \<open>The dependency: the token comes from OpenBao through its cache.\<close>

definition get_identity :: "settings \<Rightarrow> authentik_admin M" where
  "get_identity se =
     bindM (get_secrets_store se) (\<lambda>store.
     bindM (cached_cred ''authentik'' store (se_authentik_secret_path se) (se_authentik_token_key se))
       (\<lambda>token.
     of_result (new_authentik_admin (se_authentik_addr se) token)))"

section \<open>The identity routes\<close>

text \<open>\<open>except IdentityError\<close> and \<open>except ClusterError\<close>: status 502 with the message.\<close>

definition identity_502 :: "'a M \<Rightarrow> 'a M" where
  "identity_502 m = tryM m (\<lambda>e. case e of
     IdentityError t \<Rightarrow> raise (HttpException 502 t) | _ \<Rightarrow> raise e)"

definition cluster_502 :: "'a M \<Rightarrow> 'a M" where
  "cluster_502 m = tryM m (\<lambda>e. case e of
     ClusterError t \<Rightarrow> raise (HttpException 502 t) | _ \<Rightarrow> raise e)"

definition route_list_users :: "authentik_admin \<Rightarrow> string \<Rightarrow> json list M" where
  "route_list_users a search = identity_502 (list_users a search 50)"

definition api_truncate_label :: "string \<Rightarrow> string" where
  "api_truncate_label v = rstrip_of ''-'' (take 63 v)"

definition release :: "string \<Rightarrow> string \<Rightarrow> string \<Rightarrow> string \<times> string" where
  "release client environment app =
     (let namespace = api_truncate_label (client @ ''-'' @ environment) in
      (namespace, api_truncate_label (namespace @ ''-'' @ app)))"

definition sso_slug :: "json \<Rightarrow> json" where
  "sso_slug obj =
     jor (jor (jget (oget obj ''status'') ''slug'') (jget (oget obj ''spec'') ''slug''))
       (jget (oget obj ''metadata'') ''name'')"

definition sso_slugs :: "string \<Rightarrow> string \<Rightarrow> string list M" where
  "sso_slugs namespace rel =
     bindM (cluster_502 (reader_list IDENTITY_GROUP ''ssoapplications'' namespace
       (''app.kubernetes.io/instance='' @ rel))) (\<lambda>items.
     ret (map jstr (filter truthy (map sso_slug items))))"

definition access_path_deps :: "string \<Rightarrow> string \<Rightarrow> string \<Rightarrow> settings \<Rightarrow> string \<times> string \<times> string" where
  "access_path_deps client environment name se =
     (let (namespace, rel) = release client environment name in
      (namespace, rel, se_access_group_prefix se @ rel))"

record access_state =
  ac_available :: bool
  ac_reason :: string
  ac_mode :: string
  ac_group :: string
  ac_applications :: "string list"
  ac_users :: "json list"

text \<open>The loop over the slugs stops at the first application the group is bound to.\<close>

fun bound_to_any :: "authentik_admin \<Rightarrow> json \<Rightarrow> string list \<Rightarrow> bool M" where
  "bound_to_any a grp [] = ret False"
| "bound_to_any a grp (slug # slugs) =
     bindM (application_by_slug a slug) (\<lambda>app. case app of
       None \<Rightarrow> bound_to_any a grp slugs
     | Some ap \<Rightarrow>
         bindM (item ap ''pk'') (\<lambda>pk.
         bindM (group_bindings a pk) (\<lambda>bs.
         if \<exists>b \<in> set bs. jget b ''group'' = jget grp ''pk'' then ret True
         else bound_to_any a grp slugs)))"

definition get_access ::
    "authentik_admin \<Rightarrow> settings \<Rightarrow> string \<Rightarrow> string \<Rightarrow> string \<Rightarrow> access_state M" where
  "get_access a se client environment name =
     (let (namespace, rel, group_name) = access_path_deps client environment name se in
      bindM (sso_slugs namespace rel) (\<lambda>slugs.
      if slugs = []
      then ret \<lparr> ac_available = False, ac_reason = ''no_sso'', ac_mode = ''everyone'',
                 ac_group = group_name, ac_applications = [], ac_users = [] \<rparr>
      else
        bindM (identity_502
          (bindM (find_group a group_name) (\<lambda>found. case found of
             None \<Rightarrow> ret ([], False)
           | Some grp \<Rightarrow> bindM (bound_to_any a grp slugs) (\<lambda>restricted.
               ret (group_members grp, restricted)))))
          (\<lambda>(users, restricted).
        ret \<lparr> ac_available = True, ac_reason = [],
              ac_mode = (if restricted then ''restricted'' else ''everyone''),
              ac_group = group_name, ac_applications = slugs, ac_users = users \<rparr>)))"

definition grant_access ::
    "authentik_admin \<Rightarrow> settings \<Rightarrow> string \<Rightarrow> string \<Rightarrow> string \<Rightarrow> int \<Rightarrow> access_state M" where
  "grant_access a se client environment name user_pk =
     (let (namespace, rel, group_name) = access_path_deps client environment name se in
      bindM (sso_slugs namespace rel) (\<lambda>slugs.
      if slugs = []
      then raise (HttpException 409
        ''The application has no SSO registration; there is nothing to gate.'')
      else
        thenM (identity_502
          (bindM (mapM (application_by_slug a) slugs) (\<lambda>found.
           let apps = map the (filter (\<lambda>x. x \<noteq> None) found) in
           if apps = []
           then raise (HttpException 409
             ''The application is not registered in Authentik yet (still provisioning?).'')
           else
             bindM (ensure_access_group a group_name) (\<lambda>grp.
             bindM (item grp ''pk'') (\<lambda>group_pk.
             thenM (add_member a group_pk user_pk)
             (forM apps (\<lambda>ap. bindM (item ap ''pk'') (\<lambda>pk. ensure_binding a pk group_pk))))))))
        (get_access a se client environment name)))"

definition revoke_access ::
    "authentik_admin \<Rightarrow> settings \<Rightarrow> string \<Rightarrow> string \<Rightarrow> string \<Rightarrow> int \<Rightarrow> access_state M" where
  "revoke_access a se client environment name user_pk =
     (let (namespace, rel, group_name) = access_path_deps client environment name se in
      bindM (sso_slugs namespace rel) (\<lambda>slugs.
        thenM (identity_502
          (bindM (find_group a group_name) (\<lambda>found. case found of
             None \<Rightarrow> ret ()
           | Some grp \<Rightarrow>
               bindM (item grp ''pk'') (\<lambda>group_pk.
               thenM (remove_member a group_pk user_pk)
              (bindM (find_group a group_name) (\<lambda>reread. case reread of
                 None \<Rightarrow> ret ()
               | Some left \<Rightarrow>
                   if group_members left \<noteq> [] then ret ()
                   else forM slugs (\<lambda>slug.
                     bindM (application_by_slug a slug) (\<lambda>app. case app of
                       None \<Rightarrow> ret ()
                     | Some ap \<Rightarrow> bindM (item ap ''pk'') (\<lambda>pk.
                         bindM (item left ''pk'') (\<lambda>left_pk. remove_binding a pk left_pk))))))))))
        (get_access a se client environment name)))"

section \<open>Which requests change access\<close>

text \<open>A request that binds the group, one that unbinds something, and an accepted change of membership.\<close>

fun binds :: "authentik_admin \<Rightarrow> json \<Rightarrow> call \<Rightarrow> bool" where
  "binds a group_pk (Http m url h b) \<longleftrightarrow>
     m = ''POST'' \<and> url = admin_url a ''policies/bindings/'' \<and> jget b ''group'' = group_pk"
| "binds a group_pk _ \<longleftrightarrow> False"

fun deletes :: "call \<Rightarrow> bool" where
  "deletes (Http m url h b) \<longleftrightarrow> m = ''DELETE''"
| "deletes _ \<longleftrightarrow> False"

definition fine :: "resp \<Rightarrow> bool" where
  "fine r = (case r of Inr resp \<Rightarrow> status_code resp \<in> {200, 201, 204} | Inl _ \<Rightarrow> False)"

definition membership ::
    "authentik_admin \<Rightarrow> string \<Rightarrow> json \<Rightarrow> int \<Rightarrow> call \<times> resp \<Rightarrow> bool" where
  "membership a action group_pk user_pk cr \<longleftrightarrow>
     fst cr = admin_call a ''POST'' (''core/groups/'' @ py_str group_pk @ ''/'' @ action @ ''/'')
       (JObj [(''pk'', JInt user_pk)]) [] \<and> fine (snd cr)"

text \<open>A group read whose answer shows the group without members.\<close>

definition shows_empty :: "authentik_admin \<Rightarrow> string \<Rightarrow> call \<times> resp \<Rightarrow> bool" where
  "shows_empty a name cr \<longleftrightarrow>
     fst cr = admin_call a ''GET'' ''core/groups/'' JNull [(''name'', name), (''include_users'', ''true'')] \<and>
     fine (snd cr) \<and>
     (case snd cr of
        Inr resp \<Rightarrow> (case first_with ''name'' name
            (lget (if status_code resp = 204 then JObj [] else resp_json resp) ''results'') of
          Some g \<Rightarrow> group_members g = [] | None \<Rightarrow> False)
      | Inl _ \<Rightarrow> False)"

section \<open>What the parts request\<close>

lemma only_admin_do [only_intros]:
  "P (admin_call a m p b q) \<Longrightarrow> only P (admin_do a m p b q what)"
  unfolding admin_do_def admin_request_def admin_json_def identity_failed_def
  by (intro only_intros)

lemma only_identity_502 [only_intros]: "only P m \<Longrightarrow> only P (identity_502 m)"
  unfolding identity_502_def by (intro only_tryM) (auto intro: only_intros split: exn.split)

lemma only_cluster_502 [only_intros]: "only P m \<Longrightarrow> only P (cluster_502 m)"
  unfolding cluster_502_def by (intro only_tryM) (auto intro: only_intros split: exn.split)

text \<open>Everything that only reads Authentik and the cluster.\<close>

fun reads :: "call \<Rightarrow> bool" where
  "reads (Http m url h b) \<longleftrightarrow> m = ''GET''"
| "reads (Custom v g p n nm b) \<longleftrightarrow> v = VList \<or> v = VGet"
| "reads _ \<longleftrightarrow> False"

lemma reads_admin_call [simp]: "reads (admin_call a m p b q) \<longleftrightarrow> m = ''GET''"
  by (simp add: admin_call_def)

lemma reads_parts [only_intros]:
  "only reads (find_group a name)" "only reads (application_by_slug a slug)"
  "only reads (group_bindings a pk)" "only reads (sso_slugs ns rel)"
  unfolding find_group_def application_by_slug_def group_bindings_def sso_slugs_def reader_list_def
  by (intro only_intros only_tryM; auto intro: only_intros split: exn.split xerr.split)+

lemma reads_bound_to_any [only_intros]: "only reads (bound_to_any a grp slugs)"
  by (induction slugs) (auto intro!: only_intros)

lemma reads_get_access [only_intros]: "only reads (get_access a se c e n)"
  unfolding get_access_def Let_def by (intro only_intros)

lemma reads_no_change: "reads c \<Longrightarrow> \<not> binds a g c" "reads c \<Longrightarrow> \<not> deletes c"
  by (cases c; simp)+

lemma membership_logs:
  "logs (membership a ''add_user'' g u) (add_member a g u)"
  "logs (membership a ''remove_user'' g u) (remove_member a g u)"
  unfolding logs_def add_member_def remove_member_def admin_do_def admin_request_def
  by (auto simp: thenM_Inr bindM_Inr tryM_Inr callM_Inr raise_def admin_json_def ret_def
      identity_failed_def membership_def fine_def split: if_splits)

section \<open>Granting and revoking\<close>

lemma gated_reads: "only reads m \<Longrightarrow> gated Q (binds a g) m" "only reads m \<Longrightarrow> gated Q deletes m"
  by (rule gated_free; erule only_mono; simp add: reads_no_change)+

lemma grows_mono: "only P m \<Longrightarrow> grows m"
  unfolding grows_def by (erule only_mono) simp

lemma gated_identity_502: "gated Q P m \<Longrightarrow> gated Q P (identity_502 m)"
  unfolding identity_502_def
  by (rule gated_tryM) (auto intro!: gated_free only_intros split: exn.split)

lemma no_binding [only_intros]:
  "only (\<lambda>c. \<not> binds a g c) (ensure_access_group a' name)"
  "only (\<lambda>c. \<not> binds a g c) (add_member a g' u)"
  unfolding ensure_access_group_def add_member_def
  by (intro only_intros only_mono [OF reads_parts(1)];
      simp add: reads_no_change admin_call_def query_def admin_url_def lstrip_of_def)+

lemma other_binding:
  "g' \<noteq> g \<Longrightarrow> only (\<lambda>c. \<not> binds a g c) (ensure_binding a' pk g')"
  unfolding ensure_binding_def
  by (intro only_intros only_mono [OF reads_parts(3)];
      simp add: reads_no_change admin_call_def binding_body_def)

lemma gated_add_then_bind:
  "gated (membership a ''add_user'' g u) (binds a g)
     (thenM (add_member a g' u) (forM apps (\<lambda>ap. bindM (item ap ''pk'') (\<lambda>pk. ensure_binding a pk g'))))"
proof (cases "g' = g")
  case True
  have "grows (ensure_binding a pk g')" for pk
    unfolding ensure_binding_def
    by (intro growsI only_intros only_mono [OF reads_parts(3)]) simp_all
  then show ?thesis
    unfolding True
    by (intro gated_after_then membership_logs no_binding growsI only_intros) (simp_all add: grows_def)
next
  case False
  then show ?thesis
    by (intro gated_free only_intros other_binding)
qed

lemma gated_grant:
  "gated (membership a ''add_user'' g u) (binds a g) (grant_access a se client environment name u)"
proof -
  have slugs: "gated (membership a ''add_user'' g u) (binds a g) (mapM (application_by_slug a) slugs)"
    for slugs by (intro gated_reads only_intros)
  show ?thesis
    unfolding grant_access_def Let_def
    by (auto intro!: gated_bindM gated_thenM gated_identity_502 gated_add_then_bind slugs
        gated_reads(1) [OF reads_parts(4)] gated_reads(1) [OF reads_get_access]
        gated_free [OF no_binding(1)] gated_free [OF only_item] gated_free [OF only_raise]
        split: prod.split)
qed

lemma deletes_admin_call [simp]: "deletes (admin_call a m p b q) \<longleftrightarrow> m = ''DELETE''"
  by (simp add: admin_call_def)

lemma shows_empty_read:
  assumes "find_group a name env s = (Inr (Some g), s')" and "group_members g = []"
  shows "\<exists>q \<in> set (trace s'). shows_empty a name q"
  using assms
  by (auto simp: find_group_def admin_do_def admin_request_def bindM_Inr tryM_Inr callM_Inr
      raise_def admin_json_def ret_def identity_failed_def shows_empty_def fine_def
      split: if_splits)

lemma only_delete_free [only_intros]:
  "only (\<lambda>c. \<not> deletes c) (remove_member a g u)"
  unfolding remove_member_def by (intro only_intros) simp

lemma grows_unbind: "grows (forM slugs (\<lambda>slug. bindM (application_by_slug a slug) (\<lambda>app. case app of
     None \<Rightarrow> ret () | Some ap \<Rightarrow> bindM (item ap ''pk'') (\<lambda>pk.
       bindM (item left ''pk'') (\<lambda>left_pk. remove_binding a pk left_pk)))))"
  unfolding remove_binding_def admin_request_def identity_failed_def
  by (intro growsI only_intros only_mono [OF reads_parts(2)] only_mono [OF reads_parts(3)]) simp_all

lemma gated_unbind:
  "gated (shows_empty a name) deletes (bindM (find_group a name) (\<lambda>reread. case reread of
     None \<Rightarrow> ret ()
   | Some left \<Rightarrow>
       if group_members left \<noteq> [] then ret ()
       else forM slugs (\<lambda>slug. bindM (application_by_slug a slug) (\<lambda>app. case app of
         None \<Rightarrow> ret ()
       | Some ap \<Rightarrow> bindM (item ap ''pk'') (\<lambda>pk.
           bindM (item left ''pk'') (\<lambda>left_pk. remove_binding a pk left_pk))))))"
  (is "gated _ _ (bindM _ ?f)")
proof (rule gated_when [where opens = "\<lambda>x. case x of Some g \<Rightarrow> group_members g = [] | None \<Rightarrow> False"])
  show "only (\<lambda>c. \<not> deletes c) (find_group a name)"
    by (rule only_mono [OF reads_parts(1)]) (simp add: reads_no_change)
next
  fix x
  assume "case x of Some g \<Rightarrow> group_members g = [] | None \<Rightarrow> False"
  then show "grows (?f x)" by (cases x) (simp_all add: grows_unbind)
next
  fix x
  assume "\<not> (case x of Some g \<Rightarrow> group_members g = [] | None \<Rightarrow> False)"
  then show "gated (shows_empty a name) deletes (?f x)"
    by (auto intro!: gated_free only_intros split: option.splits)
qed (auto simp: shows_empty_read split: option.splits)

lemma gated_revoke_empty:
  "gated (shows_empty a (snd (snd (access_path_deps client environment name se)))) deletes
     (revoke_access a se client environment name u)"
  unfolding revoke_access_def Let_def
  by (auto intro!: gated_bindM gated_thenM gated_identity_502 gated_unbind
      gated_reads(2) [OF reads_parts(4)] gated_reads(2) [OF reads_parts(1)]
      gated_reads(2) [OF reads_get_access] gated_free [OF only_delete_free]
      gated_free [OF only_item] gated_free [OF only_ret] split: prod.split option.split)

lemma gated_revoke_removed:
  "gated (\<lambda>cr. \<exists>g. membership a ''remove_user'' g u cr) deletes
     (revoke_access a se client environment name u)"
proof -
  have "logs (\<lambda>cr. \<exists>g. membership a ''remove_user'' g u cr) (remove_member a g u)" for g
    using membership_logs(2) [of a g u] unfolding logs_def by blast
  moreover have "grows (bindM (find_group a grp) (\<lambda>reread. case reread of
     None \<Rightarrow> ret ()
   | Some left \<Rightarrow>
       if group_members left \<noteq> [] then ret ()
       else forM slugs (\<lambda>slug. bindM (application_by_slug a slug) (\<lambda>app. case app of
         None \<Rightarrow> ret ()
       | Some ap \<Rightarrow> bindM (item ap ''pk'') (\<lambda>pk.
           bindM (item left ''pk'') (\<lambda>left_pk. remove_binding a pk left_pk))))))" for grp slugs
    by (intro growsI only_intros only_mono [OF reads_parts(1)] grows_unbind [unfolded grows_def])
       simp_all
  ultimately have inner: "gated (\<lambda>cr. \<exists>g. membership a ''remove_user'' g u cr) deletes
      (thenM (remove_member a g u) (bindM (find_group a grp) (\<lambda>reread. case reread of
        None \<Rightarrow> ret ()
      | Some left \<Rightarrow>
          if group_members left \<noteq> [] then ret ()
          else forM slugs (\<lambda>slug. bindM (application_by_slug a slug) (\<lambda>app. case app of
            None \<Rightarrow> ret ()
          | Some ap \<Rightarrow> bindM (item ap ''pk'') (\<lambda>pk.
              bindM (item left ''pk'') (\<lambda>left_pk. remove_binding a pk left_pk)))))))" for g grp slugs
    by (intro gated_after_then only_delete_free)
  show ?thesis
    unfolding revoke_access_def Let_def
    by (auto intro!: gated_bindM gated_thenM gated_identity_502 inner
        gated_reads(2) [OF reads_parts(4)] gated_reads(2) [OF reads_parts(1)]
        gated_reads(2) [OF reads_get_access] 
        gated_free [OF only_item] gated_free [OF only_ret] split: prod.split option.split)
qed

section \<open>Properties\<close>

text \<open>C11. Granting never locks the user out: whatever Authentik answers, a request that binds the
  access group to an application is made only after Authentik accepted the user into that
  group.
\<close>

theorem grant_joins_before_binding:
  "preceded (membership a ''add_user'' group_pk user_pk) (binds a group_pk)
     (trace (snd (grant_access a se client environment name user_pk env init_st)))"
  by (rule gated_run [OF gated_grant]) (simp add: init_st_def)

text \<open>C12. Revoking opens an application only when nobody is left: a binding is deleted only after
  Authentik accepted the removal of the user, and after a read of the access group that
  shows it without members.
\<close>

theorem revoke_unbinds_only_empty:
  "let log = trace (snd (revoke_access a se client environment name user_pk env init_st));
       access_group = se_access_group_prefix se @ snd (release client environment name) in
   preceded (shows_empty a access_group) deletes log \<and>
   preceded (\<lambda>cr. \<exists>group_pk. membership a ''remove_user'' group_pk user_pk cr) deletes log"
  using gated_run [OF gated_revoke_empty [where a = a and se = se and u = user_pk and
      client = client and environment = environment and name = name], of init_st env]
    gated_run [OF gated_revoke_removed [where a = a and se = se and u = user_pk and
      client = client and environment = environment and name = name], of init_st env]
  by (simp add: init_st_def access_path_deps_def case_prod_beta Let_def)

end
