(* ===== verification/Registry.thy ===== *)
theory Registry
  imports Api
begin

text \<open>
  \<open>registry.py\<close> and \<open>routers/images.py\<close>: the read-only Harbor client and the list of a
  client's built images.
\<close>

section \<open>The registry client\<close>

record registry =
  rg_base :: string
  rg_auth :: string

definition new_registry :: "string \<Rightarrow> string \<Rightarrow> string \<Rightarrow> exn + registry" where
  "new_registry base_url username password =
     (if base_url = [] then Inl (RegistryError ''Harbor URL is not configured.'')
      else if username = [] \<or> password = []
      then Inl (RegistryError ''Harbor credentials are not configured.'')
      else Inr \<lparr> rg_base = rstrip_of ''/'' base_url, rg_auth = basic_auth username password \<rparr>)"

definition registry_get :: "registry \<Rightarrow> string \<Rightarrow> (string \<times> string) list \<Rightarrow> json M" where
  "registry_get g path params =
     bindM (tryM (callM (Http ''GET''
         (rg_base g @ ''/api/v2.0/'' @ lstrip_of ''/'' path @ query params)
         [(''Authorization'', ''Basic '' @ rg_auth g), (''Accept'', ''application/json'')] JNull))
       (\<lambda>e. raise (RegistryError (''Harbor request failed: '' @ exn_str e)))) (\<lambda>resp.
     if status_code resp \<noteq> 200
     then raise (RegistryError (''Harbor GET '' @ path @ '' failed: '' @
            int_str (status_code resp) @ '' '' @ resp_text resp))
     else ret (get_or resp ''json'' (JArr [])))"

definition list_repositories :: "registry \<Rightarrow> string \<Rightarrow> string \<Rightarrow> string list M" where
  "list_repositories g project pre =
     bindM (registry_get g (''projects/'' @ project @ ''/repositories'')
       [(''page_size'', ''100''), (''q'', ''name%3D~'' @ pre)]) (\<lambda>repos.
     ret (sort (filter (starts_with pre)
       (map (\<lambda>repo. drop_prefix (project @ ''/'') (sget repo ''name''))
         (jlist (jor repos (JArr [])))))))"

definition list_artifacts :: "registry \<Rightarrow> string \<Rightarrow> string \<Rightarrow> json list M" where
  "list_artifacts g project repository =
     bindM (registry_get g
       (''projects/'' @ project @ ''/repositories/'' @ repository @ ''/artifacts'')
       [(''page_size'', ''100''), (''with_tag'', ''true''), (''sort'', ''-push_time'')]) (\<lambda>arts.
     ret (jlist (jor arts (JArr []))))"

text \<open>The dependency: the password comes from OpenBao through its cache.\<close>

definition get_registry :: "settings \<Rightarrow> registry M" where
  "get_registry se =
     bindM (get_secrets_store se) (\<lambda>store.
     bindM (cached_cred ''harbor'' store (se_harbor_secret_path se) (se_harbor_secret_key se))
       (\<lambda>password.
     of_result (new_registry (se_harbor_url se) (se_harbor_username se) password)))"

section \<open>The images route\<close>

record image_artifact =
  im_repository :: string
  im_application :: string
  im_image :: string
  im_tags :: "string list"
  im_digest :: string
  im_size_bytes :: int
  im_pushed_at :: string

text \<open>\<open>url.split("://", 1)[-1]\<close>\<close>

fun scheme_tail :: "string \<Rightarrow> string option" where
  "scheme_tail [] = None"
| "scheme_tail (c # s) =
     (if starts_with ''://'' (c # s) then Some (drop 2 s) else scheme_tail s)"

definition without_scheme :: "string \<Rightarrow> string" where
  "without_scheme url = (case scheme_tail url of Some t \<Rightarrow> t | None \<Rightarrow> url)"

definition tag_names :: "json \<Rightarrow> string list" where
  "tag_names art = map jstr (filter truthy (map (\<lambda>t. jget t ''name'') (lget art ''tags'')))"

definition image_of :: "settings \<Rightarrow> string \<Rightarrow> string \<Rightarrow> json \<Rightarrow> image_artifact M" where
  "image_of se client repository art =
     (let tags = tag_names art;
          host = sor (se_harbor_host se) (without_scheme (se_harbor_url se));
          ref_tag = (case tags of t # _ \<Rightarrow> t | [] \<Rightarrow> take 19 (sget art ''digest'')) in
      bindM (to_int (jor (jget art ''size'') (JInt 0))) (\<lambda>size.
      ret \<lparr> im_repository = repository,
            im_application = drop_prefix (client @ ''-'') repository,
            im_image = host @ ''/'' @ se_harbor_project se @ ''/'' @ repository @ '':'' @ ref_tag,
            im_tags = tags, im_digest = sget art ''digest'', im_size_bytes = size,
            im_pushed_at = sget art ''push_time'' \<rparr>))"

definition registry_502 :: "'a M \<Rightarrow> 'a M" where
  "registry_502 m = tryM m (\<lambda>e. case e of
     RegistryError t \<Rightarrow> raise (HttpException 502 t) | _ \<Rightarrow> raise e)"

definition repository_images :: "registry \<Rightarrow> settings \<Rightarrow> string \<Rightarrow> string \<Rightarrow> image_artifact list M" where
  "repository_images g se client repository =
     bindM (list_artifacts g (se_harbor_project se) repository) (\<lambda>arts.
     mapM (image_of se client repository) (filter (\<lambda>art. truthy (jget art ''tags'')) arts))"

text \<open>\<open>sorted(..., reverse=True)\<close> keeps the order of equal keys.\<close>

definition newest_first :: "image_artifact list \<Rightarrow> image_artifact list" where
  "newest_first images = rev (sort_key im_pushed_at (rev images))"

definition route_list_images :: "registry \<Rightarrow> settings \<Rightarrow> string \<Rightarrow> image_artifact list M" where
  "route_list_images g se client =
     bindM (registry_502
       (bindM (list_repositories g (se_harbor_project se) (client @ ''-'')) (\<lambda>repositories.
        bindM (mapM (repository_images g se client) repositories) (\<lambda>found.
        ret (concat found))))) (\<lambda>images.
     ret (newest_first images))"

end
