(* ===== verification/Secrets.thy ===== *)
theory Secrets
  imports Api
begin

text \<open>
  What the API's store of scoped secrets does to OpenBao. The abstract state is the map kept
  at each path of the mount, read off the log of answered writes and deletions; setting and
  removing a secret are single updates of it.
\<close>

type_synonym secret_map = "string \<Rightarrow> dict option"

fun kv_change :: "call \<Rightarrow> (string \<times> string \<times> dict option) option" where
  "kv_change (Kv VCreate m path token (JObj d)) = Some (m, path, Some d)"
| "kv_change (Kv VDelete m path token body) = Some (m, path, None)"
| "kv_change _ = None"

fun kv_live :: "secret_map \<Rightarrow> string \<Rightarrow> log \<Rightarrow> secret_map" where
  "kv_live init mnt [] = init"
| "kv_live init mnt ((c, r) # l) =
     (case kv_change c of
        Some (m, path, d) \<Rightarrow>
          if m = mnt \<and> \<not> isl r then (kv_live init mnt l)(path := d) else kv_live init mnt l
      | None \<Rightarrow> kv_live init mnt l)"

text \<open>
  What OpenBao documents: an answered read carries the live map, \<open>InvalidPath\<close> means there
  is none, and a write to a mount that exists is not answered by \<open>InvalidPath\<close>.
\<close>

definition scoped_server :: "secret_map \<Rightarrow> string \<Rightarrow> env \<Rightarrow> bool" where
  "scoped_server init mnt env \<longleftrightarrow>
     (\<forall>l path token. case env l (Kv VGet mnt path token JNull) of
        Inr a \<Rightarrow> (case kv_live init mnt l path of
            Some d \<Rightarrow> a = JObj [(''data'', JObj [(''data'', JObj d)])] | None \<Rightarrow> False)
      | Inl InvalidPath \<Rightarrow> kv_live init mnt l path = None
      | Inl _ \<Rightarrow> True) \<and>
     (\<forall>l v path token body. kv_change (Kv v mnt path token body) \<noteq> None \<longrightarrow>
        env l (Kv v mnt path token body) \<noteq> Inl InvalidPath)"

section \<open>Steps that keep the store\<close>

lemma kv_live_keep:
  "\<forall>cr \<in> set new. kv_change (fst cr) = None \<Longrightarrow> kv_live init mnt (new @ l) = kv_live init mnt l"
  by (induction new) auto

lemma keeps_live:
  assumes "only (\<lambda>c. kv_change c = None) m" and "m env s = (r, s')"
  shows "kv_live init mnt (trace s') = kv_live init mnt (trace s)"
  using onlyE [OF assms(1), where env = env and s = s] assms(2) kv_live_keep by (metis snd_conv)

lemma only_set_store_token [only_intros]: "only P (set_store_token t)"
  unfolding set_store_token_def by (rule only_modifyM) simp

lemma only_store_login [only_intros]:
  "P (ReadFile (ss_jwt_path ss)) \<Longrightarrow> (\<And>a m r j. P (KvLogin a m r j)) \<Longrightarrow> only P (store_login ss)"
  unfolding store_login_def Let_def by (intro only_intros)

lemma only_store_attempt [only_intros]:
  "P (ReadFile (ss_jwt_path ss)) \<Longrightarrow> (\<And>a m r j. P (KvLogin a m r j)) \<Longrightarrow> (\<And>t. only P (op t)) \<Longrightarrow>
   only P (store_attempt ss op again)"
  unfolding store_attempt_def
  by (intro only_intros only_tryM) (auto intro: only_intros split: exn.split xerr.split)

lemma only_store_call [only_intros]:
  "P (ReadFile (ss_jwt_path ss)) \<Longrightarrow> (\<And>a m r j. P (KvLogin a m r j)) \<Longrightarrow> (\<And>t. only P (op t)) \<Longrightarrow>
   only P (store_call ss op)"
  unfolding store_call_def by (intro only_intros)

lemma only_kv_op [only_intros]: "P (Kv v (ss_mount ss) (strip_of ''/'' path) t b) \<Longrightarrow> only P (kv_op ss v path b t)"
  unfolding kv_op_def by (intro only_intros)

lemma only_store_read [only_intros]:
  assumes "P (ReadFile (ss_jwt_path ss))" "\<And>a m r j. P (KvLogin a m r j)"
    "\<And>t. P (Kv VGet (ss_mount ss) (strip_of ''/'' path) t JNull)"
  shows "only P (store_read ss path)"
  unfolding store_read_def item_def by (intro only_intros assms)

section \<open>One attempt\<close>

text \<open>The token is at hand (or the attempt failed), then the operation runs.\<close>

lemma attempt_split:
  assumes "store_attempt ss op again env s = (r, s')"
  obtains e where "r = Inl e" "kv_live init mnt (trace s') = kv_live init mnt (trace s)"
  | token x s1 where "op token env s1 = (x, s')"
      "kv_live init mnt (trace s1) = kv_live init mnt (trace s)"
      "r = (case x of Inr j \<Rightarrow> Inr (Some (Some j))
         | Inl (Ext InvalidPath) \<Rightarrow> Inr (Some None) | Inl (Ext Denied) \<Rightarrow> Inr None | Inl e \<Rightarrow> Inl e)"
proof -
  obtain y s0 where 1: "(if again \<or> store_token s = [] then store_login ss else ret (store_token s)) env s =
      (y, s0)" by (cases "(if again \<or> store_token s = [] then store_login ss else ret (store_token s)) env s")
  have "only (\<lambda>c. kv_change c = None)
      (if again \<or> store_token s = [] then store_login ss else ret (store_token s))"
    by (intro only_intros) simp_all
  from keeps_live [OF this 1] have k: "kv_live init mnt (trace s0) = kv_live init mnt (trace s)" .
  show thesis
  proof (cases y)
    case (Inl e)
    with assms 1 k show thesis
      by (intro that(1)) (auto simp: store_attempt_def bindM_def getM_def)
  next
    case (Inr token)
    obtain x s2 where 2: "op token env (s0\<lparr>store_token := token\<rparr>) = (x, s2)"
      by (cases "op token env (s0\<lparr>store_token := token\<rparr>)")
    from assms 1 2 Inr k show thesis
      by (intro that(2) [of token "s0\<lparr>store_token := token\<rparr>" x])
         (auto simp: store_attempt_def bindM_def getM_def thenM_def set_store_token_def modifyM_def
           tryM_def ret_def raise_def split: sum.splits exn.splits xerr.splits)
  qed
qed

text \<open>The operation of a read, and what an attempt at it finds.\<close>

abbreviation read_op :: "secrets_store \<Rightarrow> string \<Rightarrow> string \<Rightarrow> json M" where
  "read_op ss path token \<equiv>
     bindM (kv_op ss VGet path JNull token) (\<lambda>resp.
     bindM (item resp ''data'') (\<lambda>outer. item outer ''data''))"

lemma attempt_read:
  assumes srv: "scoped_server init (ss_mount ss) env"
    and run: "store_attempt ss (read_op ss path) again env s = (Inr (Some found), s')"
  shows "found = map_option JObj (kv_live init (ss_mount ss) (trace s) (strip_of ''/'' path))"
proof (rule attempt_split [OF run, of init "ss_mount ss"])
  fix token x s1
  assume op: "read_op ss path token env s1 = (x, s')"
    and k: "kv_live init (ss_mount ss) (trace s1) = kv_live init (ss_mount ss) (trace s)"
    and r: "Inr (Some found) = (case x of Inr j \<Rightarrow> Inr (Some (Some j))
         | Inl (Ext InvalidPath) \<Rightarrow> Inr (Some None) | Inl (Ext Denied) \<Rightarrow> Inr None | Inl e \<Rightarrow> Inl e)"
  note srv [unfolded scoped_server_def, THEN conjunct1, rule_format,
      of "trace s1" "strip_of ''/'' path" token]
  with op r k show ?thesis
    by (auto simp: kv_op_def bindM_def callM_def Let_def item_def ret_def raise_def
        split: sum.splits exn.splits xerr.splits option.splits if_splits)
qed simp_all

lemma read_live:
  assumes "scoped_server init (ss_mount ss) env" and "store_read ss path env s = (Inr found, s')"
  shows "found = map_option JObj (kv_live init (ss_mount ss) (trace s) (strip_of ''/'' path))"
    and "kv_live init (ss_mount ss) (trace s') = kv_live init (ss_mount ss) (trace s)"
proof -
  let ?L = "kv_live init (ss_mount ss)"
  have free: "only (\<lambda>c. kv_change c = None) (store_attempt ss (read_op ss path) again)" for again
    unfolding item_def by (intro only_intros) simp_all
  obtain x1 s1 where 1: "store_attempt ss (read_op ss path) False env s = (x1, s1)"
    by (cases "store_attempt ss (read_op ss path) False env s")
  have t: "?L (trace (s1\<lparr>store_token := []\<rparr>)) = ?L (trace s)"
    using keeps_live [OF free 1] by simp
  obtain x2 s2 where 2: "store_attempt ss (read_op ss path) True env (s1\<lparr>store_token := []\<rparr>) = (x2, s2)"
    by (cases "store_attempt ss (read_op ss path) True env (s1\<lparr>store_token := []\<rparr>)")
  show "found = map_option JObj (?L (trace s) (strip_of ''/'' path))"
    using assms(2) 1 2 attempt_read [OF assms(1), of path False s found s1]
      attempt_read [OF assms(1), of path True "s1\<lparr>store_token := []\<rparr>" found s2] t
    by (auto simp: store_read_def store_call_def bindM_def thenM_def set_store_token_def modifyM_def
        ret_def raise_def split: sum.splits option.splits)
  show "?L (trace s') = ?L (trace s)"
  proof (rule keeps_live)
    show "only (\<lambda>c. kv_change c = None) (store_read ss path)" by (intro only_store_read) simp_all
  qed (rule assms(2))
qed

lemma attempt_change:
  assumes srv: "scoped_server init (ss_mount ss) env"
    and c: "\<And>token. kv_change (Kv v (ss_mount ss) (strip_of ''/'' path) token body) =
      Some (ss_mount ss, strip_of ''/'' path, d)"
    and run: "store_attempt ss (kv_op ss v path body) again env s = (r, s')"
  shows "kv_live init (ss_mount ss) (trace s') =
    (case r of Inr (Some _) \<Rightarrow> (kv_live init (ss_mount ss) (trace s))(strip_of ''/'' path := d)
     | _ \<Rightarrow> kv_live init (ss_mount ss) (trace s))"
proof (rule attempt_split [OF run, of init "ss_mount ss"])
  fix token x s1
  assume op: "kv_op ss v path body token env s1 = (x, s')"
    and k: "kv_live init (ss_mount ss) (trace s1) = kv_live init (ss_mount ss) (trace s)"
    and r: "r = (case x of Inr j \<Rightarrow> Inr (Some (Some j))
         | Inl (Ext InvalidPath) \<Rightarrow> Inr (Some None) | Inl (Ext Denied) \<Rightarrow> Inr None | Inl e \<Rightarrow> Inl e)"
  have "env (trace s1) (Kv v (ss_mount ss) (strip_of ''/'' path) token body) \<noteq> Inl InvalidPath"
    using srv c unfolding scoped_server_def by simp
  with op r k c show ?thesis
    by (auto simp: kv_op_def callM_def Let_def split: sum.splits exn.splits xerr.splits)
qed simp_all

lemma call_change:
  assumes srv: "scoped_server init (ss_mount ss) env"
    and c: "\<And>token. kv_change (Kv v (ss_mount ss) (strip_of ''/'' path) token body) =
      Some (ss_mount ss, strip_of ''/'' path, d)"
    and run: "store_call ss (kv_op ss v path body) env s = (r, s')"
  shows "kv_live init (ss_mount ss) (trace s') =
    (if isl r then kv_live init (ss_mount ss) (trace s)
     else (kv_live init (ss_mount ss) (trace s))(strip_of ''/'' path := d))"
proof -
  obtain x1 s1 where 1: "store_attempt ss (kv_op ss v path body) False env s = (x1, s1)"
    by (cases "store_attempt ss (kv_op ss v path body) False env s")
  obtain x2 s2 where 2: "store_attempt ss (kv_op ss v path body) True env (s1\<lparr>store_token := []\<rparr>) = (x2, s2)"
    by (cases "store_attempt ss (kv_op ss v path body) True env (s1\<lparr>store_token := []\<rparr>)")
  show ?thesis
    using run 1 2 attempt_change [OF srv c 1] attempt_change [OF srv c 2]
    by (auto simp: store_call_def bindM_def thenM_def set_store_token_def modifyM_def ret_def raise_def
        split: sum.splits option.splits)
qed

section \<open>The operations refine single updates\<close>

text \<open>C10. Setting and removing a scoped secret refine single updates of the map at its path. Over
  an OpenBao mount that exists, a returned \<open>set\<close> leaves exactly that name with the new
  value, a returned \<open>remove\<close> takes exactly that name away and deletes the path with the last
  one, and reports whether it was there; nothing else changes, and an operation that fails
  has changed nothing.
\<close>

theorem scoped_secrets_refine:
  assumes srv: "scoped_server init (ss_mount ss) env"
  shows "let live = kv_live init (ss_mount ss); p = strip_of ''/'' path;
      old = (case live (trace s) p of Some d \<Rightarrow> d | None \<Rightarrow> []) in
    (case store_set ss path name new env s of
       (Inr _, s') \<Rightarrow> live (trace s') = (live (trace s))(p := Some (dset name (JStr new) old))
     | (Inl _, s') \<Rightarrow> live (trace s') = live (trace s)) \<and>
    (case store_remove ss path name env s of
       (Inr found, s') \<Rightarrow> found = (dget old name \<noteq> None) \<and>
         live (trace s') = (if \<not> found then live (trace s)
           else (live (trace s))(p := (if dremove name old = [] then None
             else Some (dremove name old))))
     | (Inl _, s') \<Rightarrow> live (trace s') = live (trace s))"
proof -
  let ?L = "kv_live init (ss_mount ss)" and ?p = "strip_of ''/'' path"
  obtain x1 s1 where 1: "store_read ss path env s = (x1, s1)" by (cases "store_read ss path env s")
  have k: "?L (trace s1) = ?L (trace s)"
  proof (rule keeps_live)
    show "only (\<lambda>c. kv_change c = None) (store_read ss path)" by (intro only_store_read) simp_all
  qed (rule 1)
  define old where "old = (case ?L (trace s) ?p of Some d \<Rightarrow> d | None \<Rightarrow> [])"
  show ?thesis
  proof (cases x1)
    case (Inl e)
    with 1 k show ?thesis by (simp add: store_set_def store_remove_def bindM_def)
  next
    case (Inr found)
    have old: "jdict (or_empty found) = old"
      using read_live(1) [OF srv 1 [unfolded Inr]]
      by (auto simp: old_def or_empty_def jor_def split: option.split)
    let ?set = "kv_op ss VCreate path (JObj (dset name (JStr new) old))"
    let ?rest = "kv_op ss VCreate path (JObj (dremove name old))"
    let ?del = "kv_op ss VDelete path JNull"
    obtain a sa where a: "store_call ss ?set env s1 = (a, sa)" by (cases "store_call ss ?set env s1")
    obtain b sb where b: "store_call ss ?rest env s1 = (b, sb)" by (cases "store_call ss ?rest env s1")
    obtain c sc where c: "store_call ss ?del env s1 = (c, sc)" by (cases "store_call ss ?del env s1")
    have "?L (trace sa) = (if isl a then ?L (trace s)
        else (?L (trace s))(?p := Some (dset name (JStr new) old)))"
      using call_change [OF srv _ a] k by simp
    moreover have "?L (trace sb) = (if isl b then ?L (trace s)
        else (?L (trace s))(?p := Some (dremove name old)))"
      using call_change [OF srv _ b] k by simp
    moreover have "?L (trace sc) = (if isl c then ?L (trace s) else (?L (trace s))(?p := None))"
      using call_change [OF srv _ c] k by simp
    ultimately show ?thesis
      using 1 Inr a b c k
      by (cases a; cases b; cases c)
         (simp_all add: store_set_def store_remove_def bindM_def thenM_def ret_def Let_def old
           old_def [symmetric])
  qed
qed

text \<open>
  A store whose mount does not exist: \<open>_call\<close> reads the \<open>InvalidPath\<close> of a write as success.
\<close>

definition no_mount :: env where
  "no_mount l c = (case c of Kv _ _ _ _ _ \<Rightarrow> Inl InvalidPath | _ \<Rightarrow> Inr JNull)"

lemma set_reports_lost_write:
  assumes "ss_static_token ss \<noteq> []"
  shows "fst (store_set ss path name new no_mount init_st) = Inr ()"
  using assms
  by (simp add: store_set_def store_read_def store_call_def store_attempt_def store_login_def
      kv_op_def no_mount_def set_store_token_def run_simps init_st_def)

definition held_secrets :: secret_map where
  "held_secrets = (\<lambda>p. if p = ''scoped/clients/acme'' then Some [(''A'', JStr ''1'')] else None)"

definition secrets_env :: env where
  "secrets_env l c = (case c of
     Kv VGet m p t b \<Rightarrow> (case kv_live held_secrets ''secret'' l p of
        Some d \<Rightarrow> Inr (JObj [(''data'', JObj [(''data'', JObj d)])]) | None \<Rightarrow> Inl InvalidPath)
   | _ \<Rightarrow> Inr JNull)"

definition demo_store :: secrets_store where
  "demo_store = \<lparr> ss_addr = ''http://bao'', ss_mount = ''secret'', ss_static_token = ''t'',
     ss_auth_mount = [], ss_role = [], ss_jwt_path = [] \<rparr>"

lemma scoped_secrets_refine_witness:
  "kv_live held_secrets ''secret''
     (trace (snd (store_remove demo_store ''scoped/clients/acme'' ''A'' secrets_env init_st)))
     ''scoped/clients/acme'' = None"
proof -
  let ?p = "''scoped/clients/acme''"
  have srv: "scoped_server held_secrets (ss_mount demo_store) secrets_env"
    by (auto simp: scoped_server_def secrets_env_def demo_store_def
        split: option.split verb.split)
  have p: "strip_of ''/'' ?p = ?p" by code_simp
  have found: "fst (store_remove demo_store ?p ''A'' secrets_env init_st) = Inr True"
    by (simp add: store_remove_def store_read_def store_call_def store_attempt_def store_login_def
        kv_op_def p demo_store_def secrets_env_def set_store_token_def run_simps init_st_def
        held_secrets_def item_def or_empty_def jor_def dremove_def)
  then obtain s' where run: "store_remove demo_store ?p ''A'' secrets_env init_st = (Inr True, s')"
    by (cases "store_remove demo_store ?p ''A'' secrets_env init_st") simp
  have "kv_live held_secrets ''secret'' (trace init_st) ?p = Some [(''A'', JStr ''1'')]"
    by (simp add: init_st_def held_secrets_def)
  with scoped_secrets_refine [OF srv, where path = ?p and name = "''A''" and s = init_st] run p
  show ?thesis by (simp add: Let_def demo_store_def dremove_def)
qed

end
