(* ===== verification/Routers.thy ===== *)
theory Routers
  imports Identity Registry Secrets Application
begin

text \<open>
  The routes under \<open>/v1\<close>: shared helpers (\<open>routers/_common.py\<close>), one group of routes per
  platform object, the repository views (\<open>repo.py\<close>), scoped variables and secrets
  (\<open>scoped.py\<close>), and the application with its authentication and error handler
  (\<open>routers/__init__.py\<close>, \<open>app.py\<close>). A route takes the client its dependency provides.
\<close>

section \<open>Shared helpers\<close>

definition git_502 :: "'a M \<Rightarrow> 'a M" where
  "git_502 m = tryM m (\<lambda>e. case e of
     SchemaError t \<Rightarrow> raise (HttpException 400 t)
   | GitError t \<Rightarrow> raise (HttpException 502 t)
   | _ \<Rightarrow> raise e)"

definition commit :: "yaml \<Rightarrow> service \<Rightarrow> string \<Rightarrow> string \<Rightarrow> string \<Rightarrow> dict \<Rightarrow> dict M" where
  "commit y sv client plural name spec =
     git_502 (service_commit y sv client plural name spec [])"

definition remove_resource :: "service \<Rightarrow> string \<Rightarrow> string \<Rightarrow> string \<Rightarrow> dict M" where
  "remove_resource sv client plural name = git_502 (service_remove sv client plural name)"

definition client_ns :: "settings \<Rightarrow> string \<Rightarrow> string" where
  "client_ns se client = client_namespace client (se_client_namespace_prefix se)"

definition get_resource_status ::
    "settings \<Rightarrow> string \<Rightarrow> string \<Rightarrow> string \<Rightarrow> resource_status M" where
  "get_resource_status se client plural name =
     bindM (cluster_502 (reader_get PLATFORM_GROUP plural (client_ns se client) name)) (\<lambda>found.
     case found of
       None \<Rightarrow> raise (HttpException 404 (plural @ ''/'' @ name @ '' not found''))
     | Some obj \<Rightarrow> ret (status_of_cr obj))"

definition list_status ::
    "string \<Rightarrow> string \<Rightarrow> (resource_status \<Rightarrow> bool) \<Rightarrow> resource_status list M" where
  "list_status plural namespace where_ok =
     bindM (cluster_502 (reader_list PLATFORM_GROUP plural namespace [])) (\<lambda>items.
     ret (filter where_ok (map status_of_cr items)))"

section \<open>One group of routes per object\<close>

definition list_clients :: "resource_status list M" where
  "list_clients = list_status ''clients'' [] (\<lambda>_. True)"

definition put_client :: "yaml \<Rightarrow> service \<Rightarrow> string \<Rightarrow> client_body \<Rightarrow> dict M" where
  "put_client y sv client body = commit y sv client ''clients'' client (client_spec body)"

definition get_client_status :: "settings \<Rightarrow> string \<Rightarrow> resource_status M" where
  "get_client_status se client = get_resource_status se client ''clients'' client"

definition delete_client :: "service \<Rightarrow> string \<Rightarrow> dict M" where
  "delete_client sv client = remove_resource sv client ''clients'' client"

definition list_domains :: "settings \<Rightarrow> string \<Rightarrow> resource_status list M" where
  "list_domains se client = list_status ''domains'' (client_ns se client) (\<lambda>_. True)"

definition put_domain :: "yaml \<Rightarrow> service \<Rightarrow> string \<Rightarrow> string \<Rightarrow> domain_body \<Rightarrow> dict M" where
  "put_domain y sv client name body = commit y sv client ''domains'' name (domain_spec body)"

definition get_domain_status :: "settings \<Rightarrow> string \<Rightarrow> string \<Rightarrow> resource_status M" where
  "get_domain_status se client name = get_resource_status se client ''domains'' name"

definition delete_domain :: "service \<Rightarrow> string \<Rightarrow> string \<Rightarrow> dict M" where
  "delete_domain sv client name = remove_resource sv client ''domains'' name"

definition list_database_servers :: "settings \<Rightarrow> string \<Rightarrow> resource_status list M" where
  "list_database_servers se client = list_status ''databaseservers'' (client_ns se client) (\<lambda>_. True)"

definition put_database_server :: "yaml \<Rightarrow> service \<Rightarrow> string \<Rightarrow> string \<Rightarrow> database_server_body \<Rightarrow> dict M" where
  "put_database_server y sv client name body = commit y sv client ''databaseservers'' name (databaseserver_spec body)"

definition get_database_server_status :: "settings \<Rightarrow> string \<Rightarrow> string \<Rightarrow> resource_status M" where
  "get_database_server_status se client name = get_resource_status se client ''databaseservers'' name"

definition delete_database_server :: "service \<Rightarrow> string \<Rightarrow> string \<Rightarrow> dict M" where
  "delete_database_server sv client name = remove_resource sv client ''databaseservers'' name"

definition list_databases :: "settings \<Rightarrow> string \<Rightarrow> resource_status list M" where
  "list_databases se client = list_status ''databases'' (client_ns se client) (\<lambda>_. True)"

definition put_database :: "yaml \<Rightarrow> service \<Rightarrow> string \<Rightarrow> string \<Rightarrow> database_body \<Rightarrow> dict M" where
  "put_database y sv client name body = commit y sv client ''databases'' name (database_spec body)"

definition get_database_status :: "settings \<Rightarrow> string \<Rightarrow> string \<Rightarrow> resource_status M" where
  "get_database_status se client name = get_resource_status se client ''databases'' name"

definition delete_database :: "service \<Rightarrow> string \<Rightarrow> string \<Rightarrow> dict M" where
  "delete_database sv client name = remove_resource sv client ''databases'' name"

definition list_environments :: "settings \<Rightarrow> string \<Rightarrow> resource_status list M" where
  "list_environments se client = list_status ''environments'' (client_ns se client) (\<lambda>_. True)"

definition put_environment :: "yaml \<Rightarrow> service \<Rightarrow> string \<Rightarrow> string \<Rightarrow> environment_body \<Rightarrow> dict M" where
  "put_environment y sv client name body = commit y sv client ''environments'' name (environment_spec client body)"

definition get_environment_status :: "settings \<Rightarrow> string \<Rightarrow> string \<Rightarrow> resource_status M" where
  "get_environment_status se client name = get_resource_status se client ''environments'' name"

definition delete_environment :: "service \<Rightarrow> string \<Rightarrow> string \<Rightarrow> dict M" where
  "delete_environment sv client name = remove_resource sv client ''environments'' name"

definition list_gitrepositories :: "settings \<Rightarrow> string \<Rightarrow> resource_status list M" where
  "list_gitrepositories se client = list_status ''gitrepositories'' (client_ns se client) (\<lambda>_. True)"

definition put_gitrepository :: "yaml \<Rightarrow> service \<Rightarrow> string \<Rightarrow> string \<Rightarrow> repository_body \<Rightarrow> dict M" where
  "put_gitrepository y sv client name body = commit y sv client ''gitrepositories'' name (gitrepository_spec body)"

definition get_gitrepository_status :: "settings \<Rightarrow> string \<Rightarrow> string \<Rightarrow> resource_status M" where
  "get_gitrepository_status se client name = get_resource_status se client ''gitrepositories'' name"

definition delete_gitrepository :: "service \<Rightarrow> string \<Rightarrow> string \<Rightarrow> dict M" where
  "delete_gitrepository sv client name = remove_resource sv client ''gitrepositories'' name"

definition list_snapshots :: "settings \<Rightarrow> string \<Rightarrow> resource_status list M" where
  "list_snapshots se client = list_status ''snapshots'' (client_ns se client) (\<lambda>_. True)"

definition put_snapshot :: "yaml \<Rightarrow> service \<Rightarrow> string \<Rightarrow> string \<Rightarrow> string \<Rightarrow> dict M" where
  "put_snapshot y sv client name body = commit y sv client ''snapshots'' name (snapshot_spec body)"

definition get_snapshot_status :: "settings \<Rightarrow> string \<Rightarrow> string \<Rightarrow> resource_status M" where
  "get_snapshot_status se client name = get_resource_status se client ''snapshots'' name"

definition delete_snapshot :: "service \<Rightarrow> string \<Rightarrow> string \<Rightarrow> dict M" where
  "delete_snapshot sv client name = remove_resource sv client ''snapshots'' name"

text \<open>Applications stand under an environment; only the list and the spec look at it.\<close>

definition list_applications_of :: "settings \<Rightarrow> string \<Rightarrow> string \<Rightarrow> resource_status list M" where
  "list_applications_of se client environment =
     list_status ''applications'' (client_ns se client)
       (\<lambda>s. jget (oget (rs_spec s) ''environmentRef'') ''name'' = JStr environment)"

definition put_application ::
    "yaml \<Rightarrow> service \<Rightarrow> string \<Rightarrow> string \<Rightarrow> string \<Rightarrow> application_body \<Rightarrow> dict M" where
  "put_application y sv client environment name body =
     commit y sv client ''applications'' name (api_application_spec environment body)"

definition get_application_status ::
    "settings \<Rightarrow> string \<Rightarrow> string \<Rightarrow> string \<Rightarrow> resource_status M" where
  "get_application_status se client environment name =
     get_resource_status se client ''applications'' name"

definition delete_application_manifest :: "service \<Rightarrow> string \<Rightarrow> string \<Rightarrow> string \<Rightarrow> dict M" where
  "delete_application_manifest sv client environment name =
     remove_resource sv client ''applications'' name"

section \<open>The repository views\<close>

definition view_502 :: "'a M \<Rightarrow> 'a M" where
  "view_502 m = tryM m (\<lambda>e. case e of GitError t \<Rightarrow> raise (HttpException 502 t) | _ \<Rightarrow> raise e)"

definition repo_tree :: "forgejo \<Rightarrow> string \<Rightarrow> string option \<Rightarrow> json list M" where
  "repo_tree w client ref = view_502 (list_tree w client ref)"

definition repo_commits :: "forgejo \<Rightarrow> string \<Rightarrow> int \<Rightarrow> string option \<Rightarrow> json list M" where
  "repo_commits w client limit ref = view_502 (list_commits w client limit ref)"

section \<open>Scoped variables and secrets\<close>

text \<open>The optional path segments default to the empty string.\<close>

definition scope_of :: "string \<Rightarrow> string \<Rightarrow> string \<Rightarrow> string \<times> string" where
  "scope_of client environment application =
     (if application \<noteq> [] then (''applications'', application)
      else if environment \<noteq> [] then (''environments'', environment)
      else (''clients'', client))"

definition secret_path :: "settings \<Rightarrow> string \<Rightarrow> string \<Rightarrow> string \<Rightarrow> string" where
  "secret_path se client environment application =
     strip_of ''/'' (se_scoped_secrets_prefix se) @ ''/clients/'' @ client @
     (if environment \<noteq> [] then ''/environments/'' @ environment else []) @
     (if application \<noteq> [] then ''/applications/'' @ application else [])"

definition org_secret_path :: "settings \<Rightarrow> string \<Rightarrow> string" where
  "org_secret_path se org = strip_of ''/'' (se_scoped_secrets_prefix se) @ ''/org/'' @ org"

definition scoped_errors :: "'a M \<Rightarrow> 'a M" where
  "scoped_errors m = tryM m (\<lambda>e. case e of
     NoManifest t \<Rightarrow> raise (HttpException 404 t)
   | SchemaError t \<Rightarrow> raise (HttpException 400 t)
   | _ \<Rightarrow> raise e)"

definition put_variable ::
    "yaml \<Rightarrow> service \<Rightarrow> string \<Rightarrow> string \<times> string \<Rightarrow> string \<Rightarrow> string \<Rightarrow> dict M" where
  "put_variable y sv client scope var value =
     scoped_errors (set_variable y sv client (fst scope) (snd scope) var value)"

definition delete_variable ::
    "yaml \<Rightarrow> service \<Rightarrow> string \<Rightarrow> string \<times> string \<Rightarrow> string \<Rightarrow> dict M" where
  "delete_variable y sv client scope var =
     scoped_errors (remove_variable y sv client (fst scope) (snd scope) var)"

text \<open>\<open>VariableEntry(**v)\<close>: a name that is a string, and a value that is one or is absent.\<close>

definition variable_entry :: "json \<Rightarrow> exn + string \<times> string" where
  "variable_entry v =
     (if \<not> is_obj v then Inl (PyError ''TypeError'')
      else case (jget v ''name'', get_or v ''value'' (JStr [])) of
        (JStr n, JStr x) \<Rightarrow> Inr (n, x)
      | _ \<Rightarrow> Inl (PyError ''ValidationError''))"

definition list_variables ::
    "yaml \<Rightarrow> service \<Rightarrow> string \<Rightarrow> string \<times> string \<Rightarrow> (string \<times> string) list M" where
  "list_variables y sv client scope =
     tryM (bindM (service_variables y sv client (fst scope) (snd scope))
             (mapM (\<lambda>v. of_result (variable_entry v))))
       (\<lambda>e. case e of NoManifest t \<Rightarrow> raise (HttpException 404 t) | _ \<Rightarrow> raise e)"

definition secrets_502 :: "'a M \<Rightarrow> 'a M" where
  "secrets_502 m = tryM m (\<lambda>e. case e of
     SecretsError t \<Rightarrow> raise (HttpException 502 t) | _ \<Rightarrow> raise e)"

text \<open>\<open>str.isalnum\<close> on ASCII names.\<close>

definition secret_name_ok :: "string \<Rightarrow> bool" where
  "secret_name_ok name \<longleftrightarrow>
     (let core = filter (\<lambda>c. c \<noteq> CHR ''_'' \<and> c \<noteq> CHR ''-'') name in
      core \<noteq> [] \<and> set core \<subseteq> set alnum_chars)"

definition validate_secret_name :: "string \<Rightarrow> exn + unit" where
  "validate_secret_name name =
     (if name = [] \<or> \<not> secret_name_ok name
      then Inl (HttpException 400 (''secret names are alphanumeric with '' @ repr ''-'' @ '' / '' @ repr ''_''))
      else Inr ())"

definition put_secret :: "secrets_store \<Rightarrow> string \<Rightarrow> string \<Rightarrow> string \<Rightarrow> dict M" where
  "put_secret ss path name value =
     thenM (of_result (validate_secret_name name))
    (thenM (secrets_502 (store_set ss path name value))
    (ret [(''stored'', JBool True), (''name'', JStr name)]))"

definition delete_scoped_secret :: "secrets_store \<Rightarrow> string \<Rightarrow> string \<Rightarrow> dict M" where
  "delete_scoped_secret ss path name =
     bindM (secrets_502 (store_remove ss path name)) (\<lambda>removed.
     ret [(''deleted'', JBool removed), (''name'', JStr name)])"

definition list_secrets :: "secrets_store \<Rightarrow> string \<Rightarrow> string list M" where
  "list_secrets ss path = secrets_502 (store_names ss path)"

text \<open>The client scope.\<close>

definition list_client_variables ::
    "yaml \<Rightarrow> service \<Rightarrow> string \<Rightarrow> (string \<times> string) list M" where
  "list_client_variables y sv client = list_variables y sv client (scope_of client [] [])"

definition put_client_variable ::
    "yaml \<Rightarrow> service \<Rightarrow> string \<Rightarrow> string \<Rightarrow> string \<Rightarrow> dict M" where
  "put_client_variable y sv client var value =
     put_variable y sv client (scope_of client [] []) var value"

definition delete_client_variable ::
    "yaml \<Rightarrow> service \<Rightarrow> string \<Rightarrow> string \<Rightarrow> dict M" where
  "delete_client_variable y sv client var =
     delete_variable y sv client (scope_of client [] []) var"

definition list_client_secrets ::
    "secrets_store \<Rightarrow> settings \<Rightarrow> string \<Rightarrow> string list M" where
  "list_client_secrets ss se client =
     thenM (of_result (validate_name client ''customer''))
    (list_secrets ss (secret_path se client [] []))"

definition put_client_secret ::
    "secrets_store \<Rightarrow> settings \<Rightarrow> string \<Rightarrow> string \<Rightarrow> string \<Rightarrow> dict M" where
  "put_client_secret ss se client name value =
     thenM (of_result (validate_name client ''customer''))
    (put_secret ss (secret_path se client [] []) name value)"

definition delete_client_secret ::
    "secrets_store \<Rightarrow> settings \<Rightarrow> string \<Rightarrow> string \<Rightarrow> dict M" where
  "delete_client_secret ss se client name =
     thenM (of_result (validate_name client ''customer''))
    (delete_scoped_secret ss (secret_path se client [] []) name)"

text \<open>The environment scope.\<close>

definition list_environment_variables ::
    "yaml \<Rightarrow> service \<Rightarrow> string \<Rightarrow> string \<Rightarrow> (string \<times> string) list M" where
  "list_environment_variables y sv client environment = list_variables y sv client (scope_of client environment [])"

definition put_environment_variable ::
    "yaml \<Rightarrow> service \<Rightarrow> string \<Rightarrow> string \<Rightarrow> string \<Rightarrow> string \<Rightarrow> dict M" where
  "put_environment_variable y sv client environment var value =
     put_variable y sv client (scope_of client environment []) var value"

definition delete_environment_variable ::
    "yaml \<Rightarrow> service \<Rightarrow> string \<Rightarrow> string \<Rightarrow> string \<Rightarrow> dict M" where
  "delete_environment_variable y sv client environment var =
     delete_variable y sv client (scope_of client environment []) var"

definition list_environment_secrets ::
    "secrets_store \<Rightarrow> settings \<Rightarrow> string \<Rightarrow> string \<Rightarrow> string list M" where
  "list_environment_secrets ss se client environment =
     thenM (of_result (validate_name client ''customer''))
    (thenM (of_result (validate_name environment ''environment''))
    (list_secrets ss (secret_path se client environment [])))"

definition put_environment_secret ::
    "secrets_store \<Rightarrow> settings \<Rightarrow> string \<Rightarrow> string \<Rightarrow> string \<Rightarrow> string \<Rightarrow> dict M" where
  "put_environment_secret ss se client environment name value =
     thenM (of_result (validate_name client ''customer''))
    (thenM (of_result (validate_name environment ''environment''))
    (put_secret ss (secret_path se client environment []) name value))"

definition delete_environment_secret ::
    "secrets_store \<Rightarrow> settings \<Rightarrow> string \<Rightarrow> string \<Rightarrow> string \<Rightarrow> dict M" where
  "delete_environment_secret ss se client environment name =
     thenM (of_result (validate_name client ''customer''))
    (thenM (of_result (validate_name environment ''environment''))
    (delete_scoped_secret ss (secret_path se client environment []) name))"

text \<open>The application scope.\<close>

definition list_application_variables ::
    "yaml \<Rightarrow> service \<Rightarrow> string \<Rightarrow> string \<Rightarrow> string \<Rightarrow> (string \<times> string) list M" where
  "list_application_variables y sv client environment application = list_variables y sv client (scope_of client environment application)"

definition put_application_variable ::
    "yaml \<Rightarrow> service \<Rightarrow> string \<Rightarrow> string \<Rightarrow> string \<Rightarrow> string \<Rightarrow> string \<Rightarrow> dict M" where
  "put_application_variable y sv client environment application var value =
     put_variable y sv client (scope_of client environment application) var value"

definition delete_application_variable ::
    "yaml \<Rightarrow> service \<Rightarrow> string \<Rightarrow> string \<Rightarrow> string \<Rightarrow> string \<Rightarrow> dict M" where
  "delete_application_variable y sv client environment application var =
     delete_variable y sv client (scope_of client environment application) var"

definition list_application_secrets ::
    "secrets_store \<Rightarrow> settings \<Rightarrow> string \<Rightarrow> string \<Rightarrow> string \<Rightarrow> string list M" where
  "list_application_secrets ss se client environment application =
     thenM (of_result (validate_name client ''customer''))
    (thenM (of_result (validate_name environment ''environment''))
    (thenM (of_result (validate_name application ''application''))
    (list_secrets ss (secret_path se client environment application))))"

definition put_application_secret ::
    "secrets_store \<Rightarrow> settings \<Rightarrow> string \<Rightarrow> string \<Rightarrow> string \<Rightarrow> string \<Rightarrow> string \<Rightarrow> dict M" where
  "put_application_secret ss se client environment application name value =
     thenM (of_result (validate_name client ''customer''))
    (thenM (of_result (validate_name environment ''environment''))
    (thenM (of_result (validate_name application ''application''))
    (put_secret ss (secret_path se client environment application) name value)))"

definition delete_application_secret ::
    "secrets_store \<Rightarrow> settings \<Rightarrow> string \<Rightarrow> string \<Rightarrow> string \<Rightarrow> string \<Rightarrow> dict M" where
  "delete_application_secret ss se client environment application name =
     thenM (of_result (validate_name client ''customer''))
    (thenM (of_result (validate_name environment ''environment''))
    (thenM (of_result (validate_name application ''application''))
    (delete_scoped_secret ss (secret_path se client environment application) name)))"

text \<open>The organization scope holds secrets only.\<close>

definition list_org_secrets :: "secrets_store \<Rightarrow> settings \<Rightarrow> string \<Rightarrow> string list M" where
  "list_org_secrets ss se org =
     thenM (of_result (validate_name org ''organization'')) (list_secrets ss (org_secret_path se org))"

definition put_org_secret ::
    "secrets_store \<Rightarrow> settings \<Rightarrow> string \<Rightarrow> string \<Rightarrow> string \<Rightarrow> dict M" where
  "put_org_secret ss se org name value =
     thenM (of_result (validate_name org ''organization''))
       (put_secret ss (org_secret_path se org) name value)"

definition delete_org_secret ::
    "secrets_store \<Rightarrow> settings \<Rightarrow> string \<Rightarrow> string \<Rightarrow> dict M" where
  "delete_org_secret ss se org name =
     thenM (of_result (validate_name org ''organization''))
       (delete_scoped_secret ss (org_secret_path se org) name)"

section \<open>The application\<close>

text \<open>Every route of the versioned router checks the token first.\<close>

definition api_router :: "settings \<Rightarrow> string \<Rightarrow> 'a M \<Rightarrow> 'a M" where
  "api_router se authorization route = thenM (of_result (require_token se authorization)) route"

definition schema_error :: "'a M \<Rightarrow> 'a M" where
  "schema_error m = tryM m (\<lambda>e. case e of
     SchemaError t \<Rightarrow> raise (HttpException 400 t) | _ \<Rightarrow> raise e)"

definition serve :: "settings \<Rightarrow> string \<Rightarrow> 'a M \<Rightarrow> 'a M" where
  "serve se authorization route = schema_error (api_router se authorization route)"

definition readyz :: "settings \<Rightarrow> string M" where
  "readyz se =
     bindM (check_backend_ready se) (\<lambda>(ready, detail).
     if \<not> ready then raise (HttpException 503 detail) else ret ''ok'')"

section \<open>Authentication\<close>

text \<open>C33. The front door. The token check passes exactly when anonymous access is allowed, or the
  header is a bearer scheme, one space and the configured ASCII token; when it does not pass,
  whatever the route, the request ends there and nothing outside is asked.
\<close>

theorem token_guards_routes:
  "(require_token se auth = Inr () \<longleftrightarrow> se_allow_anonymous se \<or>
      (se_auth_token se \<noteq> [] \<and> ascii_only (se_auth_token se) \<and>
       (\<exists>scheme. lower scheme = ''bearer'' \<and> auth = scheme @ '' '' @ se_auth_token se))) \<and>
   serve se auth route env s =
     (case require_token se auth of
        Inl e \<Rightarrow> (Inl e, s) | Inr _ \<Rightarrow> schema_error route env s)"
proof
  have no_space: "CHR '' '' \<notin> set scheme" if "lower scheme = ''bearer''" for scheme
  proof
    assume "CHR '' '' \<in> set scheme"
    then have "lower_char CHR '' '' \<in> set (lower scheme)" by (simp add: lower_def)
    moreover have "lower_char CHR '' '' \<notin> set ''bearer''" by code_simp
    ultimately show False using that by simp
  qed
  have split: "before CHR '' '' (h @ CHR '' '' # t) = h" if "CHR '' '' \<notin> set h" for h t :: string
    using that by (induction h) (auto simp: before_def)
  show "require_token se auth = Inr () \<longleftrightarrow> se_allow_anonymous se \<or>
      (se_auth_token se \<noteq> [] \<and> ascii_only (se_auth_token se) \<and>
       (\<exists>scheme. lower scheme = ''bearer'' \<and> auth = scheme @ '' '' @ se_auth_token se))"
    using before_after [of "CHR '' ''" auth]
    by (auto simp: require_token_def Let_def bind_result_def compare_digest_def unauthorized_def
        split after_first_sep no_space split: if_splits option.splits)
  show "serve se auth route env s =
     (case require_token se auth of
        Inl e \<Rightarrow> (Inl e, s) | Inr _ \<Rightarrow> schema_error route env s)"
    by (auto simp: serve_def schema_error_def api_router_def require_token_def compare_digest_def
        unauthorized_def bind_result_def of_result_def thenM_def bindM_def tryM_def raise_def ret_def
        Let_def split: sum.splits option.splits)
qed

section \<open>Where a secret lives\<close>

text \<open>A path segment without a slash ends where the rest begins.\<close>

definition tail_ok :: "string \<Rightarrow> bool" where
  "tail_ok x \<longleftrightarrow> x = [] \<or> hd x = CHR ''/''"

lemma segment_inj:
  assumes "CHR ''/'' \<notin> set p" "CHR ''/'' \<notin> set q" "tail_ok x" "tail_ok y"
  shows "p @ x = q @ y \<longleftrightarrow> p = q \<and> x = y"
proof
  have t: "takeWhile (\<lambda>c. c \<noteq> CHR ''/'') (u @ z) = u" if "CHR ''/'' \<notin> set u" "tail_ok z" for u z
    using that by (induction u) (cases z; auto simp: tail_ok_def)+
  assume e: "p @ x = q @ y"
  with t [OF assms(1,3)] t [OF assms(2,4)] have "p = q" by simp
  with e show "p = q \<and> x = y" by simp
qed simp

lemma valid_no_slash: "validate_name v what = Inr v' \<Longrightarrow> CHR ''/'' \<notin> set v"
proof
  assume v: "validate_name v what = Inr v'" and slash: "CHR ''/'' \<in> set v"
  have labels: "CHR ''/'' \<notin> set (CHR ''-'' # label_ends)" by code_simp
  from v have "dns1123_match v" by (auto simp: validate_name_def split: if_splits)
  then consider "dns_label v" | "v \<noteq> []" "last v = newline" "dns_label (butlast v)"
    by (auto simp: dns1123_match_def)
  then show False
  proof cases
    case 1
    with slash labels show False unfolding dns_label_def by blast
  next
    case 2
    then have "v = butlast v @ [newline]" by (metis append_butlast_last_id)
    with slash have "CHR ''/'' \<in> set (butlast v @ [newline])" by simp
    then have "CHR ''/'' \<in> set (butlast v)" by (auto simp: newline_def)
    with 2 labels show False unfolding dns_label_def by blast
  qed
qed

text \<open>The scopes the routes accept: an application stands under an environment.\<close>

definition scope_ok :: "string \<Rightarrow> string \<Rightarrow> string \<Rightarrow> bool" where
  "scope_ok client environment application \<longleftrightarrow>
     validate_name client ''customer'' = Inr client \<and>
     (environment = [] \<or> validate_name environment ''environment'' = Inr environment) \<and>
     (application = [] \<or> environment \<noteq> [] \<and>
        validate_name application ''application'' = Inr application)"

lemma scope_ok_segments:
  "scope_ok c e a \<Longrightarrow> CHR ''/'' \<notin> set c \<and> CHR ''/'' \<notin> set e \<and> CHR ''/'' \<notin> set a"
  unfolding scope_ok_def using valid_no_slash by auto

text \<open>C34. Scopes are isolated: with validated names, two scopes with the same secret path are the
  same scope, so a secret stored for one is never read for another.
\<close>

theorem secret_scopes_isolated:
  assumes "scope_ok client environment application" and "scope_ok client' environment' application'"
    and "secret_path se client environment application = secret_path se client' environment' application'"
  shows "client = client' \<and> environment = environment' \<and> application = application'"
proof -
  let ?app = "\<lambda>a. if a \<noteq> [] then ''/applications/'' @ a else []"
  let ?env = "\<lambda>e a. (if e \<noteq> [] then ''/environments/'' @ e else []) @ ?app a"
  note s = scope_ok_segments [OF assms(1)] scope_ok_segments [OF assms(2)]
  have "client @ ?env environment application = client' @ ?env environment' application'"
    using assms(3) by (simp add: secret_path_def)
  then have c: "client = client'" and e: "?env environment application = ?env environment' application'"
    using s by (simp_all add: segment_inj tail_ok_def)
  from e assms(1,2) have "environment = [] \<longleftrightarrow> environment' = []"
    by (auto simp: scope_ok_def split: if_splits)
  with e have "environment @ ?app application = environment' @ ?app application'"
    by (simp split: if_splits)
  then have "environment = environment'" and "?app application = ?app application'"
    using s by (simp_all add: segment_inj tail_ok_def)
  with c show ?thesis by (simp split: if_splits)
qed

lemma secret_scopes_isolated_witness:
  "secret_path default_settings ''acme'' ''prod'' ''erp'' = ''scoped/clients/acme/environments/prod/applications/erp'' \<and>
   secret_path default_settings ''acme'' ''prod'' [] \<noteq> secret_path default_settings ''acme'' ''prod'' ''erp''"
proof -
  have ok: "scope_ok ''acme'' ''prod'' ''erp''" "scope_ok ''acme'' ''prod'' []" by code_simp+
  have "secret_path default_settings ''acme'' ''prod'' ''erp'' =
      ''scoped/clients/acme/environments/prod/applications/erp''" by code_simp
  with secret_scopes_isolated [OF ok(2,1), of default_settings] show ?thesis by auto
qed

text \<open>The API and the controller agree on names when they are given the same client name: the
  runtime namespace and Helm release the API looks for are the ones the controller deploys,
  and the paths the API stores secrets at are the ones the controller delivers from.
\<close>

lemma api_and_controller_agree:
  assumes "environment \<noteq> []" and "application \<noteq> []"
  shows "release slug environment (eff_app_name eff) =
      (namespace_name slug environment,
       argo_app_name (eff\<lparr>eff_namespace := namespace_name slug environment\<rparr>)) \<and>
    scoped_secret_paths (se_scoped_secrets_prefix se) org slug environment application =
      (if org \<noteq> [] then [org_secret_path se org] else []) @
      [secret_path se slug [] [], secret_path se slug environment [],
       secret_path se slug environment application]"
  using assms
  by (simp add: release_def argo_app_name_def namespace_name_def truncate_label_def
      api_truncate_label_def Let_def scoped_secret_paths_def secret_path_def org_secret_path_def)

lemma api_and_controller_agree_witness:
  "release ''acme'' ''prod'' ''erp'' = (''acme-prod'', ''acme-prod-erp'') \<and>
   scoped_secret_paths ''scoped'' [] ''acme'' ''prod'' ''erp'' =
     [secret_path default_settings ''acme'' [] [], secret_path default_settings ''acme'' ''prod'' [],
      secret_path default_settings ''acme'' ''prod'' ''erp'']"
proof -
  have "release ''acme'' ''prod'' ''erp'' = (''acme-prod'', ''acme-prod-erp'')" by code_simp
  moreover have "se_scoped_secrets_prefix default_settings = ''scoped''"
    by (simp add: default_settings_def)
  ultimately show ?thesis
    using api_and_controller_agree [of "''prod''" "''erp''" "''acme''" _ default_settings "[]"] by simp
qed

text \<open>But the controller uses the client's slug where the API uses the resource name: a secret
  stored in the client scope is among the paths the controller delivers exactly when the slug
  is the name.
\<close>

lemma client_secret_needs_slug:
  assumes "validate_name client ''customer'' = Inr client"
  shows "secret_path se client [] [] \<in>
      set (scoped_secret_paths (se_scoped_secrets_prefix se) org slug environment application) \<longleftrightarrow>
    slug = client"
proof -
  let ?p = "strip_of ''/'' (se_scoped_secrets_prefix se)"
  have c: "CHR ''/'' \<notin> set client" by (rule valid_no_slash [OF assms])
  have "?p @ ''/clients/'' @ client \<noteq> ?p @ ''/clients/'' @ slug @ ''/environments/'' @ r" for r
  proof
    assume "?p @ ''/clients/'' @ client = ?p @ ''/clients/'' @ slug @ ''/environments/'' @ r"
    then have "CHR ''/'' \<in> set client" by simp
    with c show False ..
  qed
  then show ?thesis
    by (auto simp: secret_path_def scoped_secret_paths_def Let_def)
qed

lemma client_secret_needs_slug_witness:
  "secret_path default_settings ''acme'' [] [] \<notin>
     set (scoped_secret_paths ''scoped'' [] ''acme-corp'' ''prod'' ''erp'')"
proof -
  have "validate_name ''acme'' ''customer'' = Inr ''acme''" by code_simp
  from client_secret_needs_slug [OF this, of default_settings "[]" "''acme-corp''" "''prod''" "''erp''"]
  show ?thesis by (simp add: default_settings_def)
qed

section \<open>What the secret routes ask for\<close>

text \<open>The requests of one scope: its own path of the mount, and what logging in takes.\<close>

fun scope_request :: "secrets_store \<Rightarrow> string \<Rightarrow> call \<Rightarrow> bool" where
  "scope_request ss path (Kv v m p t b) \<longleftrightarrow> m = ss_mount ss \<and> p = strip_of ''/'' path"
| "scope_request ss path (KvLogin a m r j) \<longleftrightarrow> a = ss_addr ss \<and> m = ss_auth_mount ss \<and> r = ss_role ss"
| "scope_request ss path (ReadFile f) \<longleftrightarrow> f = ss_jwt_path ss"
| "scope_request ss path _ \<longleftrightarrow> False"

lemma scope_login: "only (scope_request ss path) (store_login ss)"
  unfolding store_login_def Let_def by (intro only_intros) simp_all

lemma scope_call:
  "(\<And>t. only (scope_request ss path) (op t)) \<Longrightarrow> only (scope_request ss path) (store_call ss op)"
  unfolding store_call_def store_attempt_def
  by (intro only_intros only_tryM scope_login) (auto intro: only_intros split: exn.split xerr.split)

lemma scope_op: "only (scope_request ss path) (kv_op ss v path b t)"
  by (intro only_intros) simp

lemma scope_store:
  "only (scope_request ss path) (store_names ss path)"
  "only (scope_request ss path) (store_set ss path name new)"
  "only (scope_request ss path) (store_remove ss path name)"
  unfolding store_names_def store_set_def store_remove_def store_read_def Let_def
  by (intro only_intros scope_call scope_op only_item)+

lemma scope_routes:
  "only (scope_request ss path) (put_secret ss path name new)"
  "only (scope_request ss path) (delete_scoped_secret ss path name)"
  "only (scope_request ss path) (list_secrets ss path)"
  unfolding put_secret_def delete_scoped_secret_def list_secrets_def secrets_502_def
  by (intro only_intros only_tryM scope_store; auto intro: only_intros split: exn.split)+

text \<open>A secret's value goes to OpenBao and nowhere else. Whatever is answered, the routes that
  store, list and delete an application's secrets ask only for the path of that application's
  scope in the store's mount, and for the login; the same holds of the organization's routes.
\<close>

lemma secrets_stay_in_openbao:
  "only (scope_request ss (secret_path se client environment application))
     (put_application_secret ss se client environment application name new) \<and>
   only (scope_request ss (secret_path se client environment application))
     (list_application_secrets ss se client environment application) \<and>
   only (scope_request ss (secret_path se client environment application))
     (delete_application_secret ss se client environment application name) \<and>
   only (scope_request ss (org_secret_path se org)) (put_org_secret ss se org name new) \<and>
   only (scope_request ss (org_secret_path se org)) (list_org_secrets ss se org) \<and>
   only (scope_request ss (org_secret_path se org)) (delete_org_secret ss se org name)"
  unfolding put_application_secret_def list_application_secrets_def delete_application_secret_def
    put_org_secret_def list_org_secrets_def delete_org_secret_def
  by (intro conjI only_intros scope_routes)

section \<open>Observations\<close>

text \<open>A trailing newline passes the name check.\<close>

lemma validate_name_newline: "validate_name (''acme'' @ [newline]) ''customer'' = Inr (''acme'' @ [newline])"
  by code_simp

text \<open>An error of the git backend leaves the variable routes as it is, where \<open>commit\<close> maps it.\<close>

lemma scoped_git_error_escapes:
  assumes "set_variable y sv client (fst scope) (snd scope) var new env s = (Inl (GitError t), s')"
  shows "put_variable y sv client scope var new env s = (Inl (GitError t), s')"
  using assms by (simp add: put_variable_def scoped_errors_def tryM_def raise_def)

lemma commit_git_error_mapped:
  assumes "service_commit y sv client plural name spec [] env s = (Inl (GitError t), s')"
  shows "commit y sv client plural name spec env s = (Inl (HttpException 502 t), s')"
  using assms by (simp add: commit_def git_502_def tryM_def raise_def)

text \<open>A cached credential is used, however stale, until its time to live has passed.\<close>

lemma cached_cred_not_reread:
  assumes "dget (api_creds s) cache = Some (held, at)" and "held \<noteq> []"
    and "env (trace s) Monotonic = Inr (JInt now)" and "now - at \<le> CREDENTIAL_TTL"
  shows "fst (cached_cred cache store path key env s) = Inr held"
  using assms by (simp add: cached_cred_def monotonic_def bindM_def getM_def ret_def Let_def)

text \<open>A token that is not ASCII is an error of the comparison, not a refusal.\<close>

lemma foreign_token_raises:
  "require_token (default_settings\<lparr>se_auth_token := ''t''\<rparr>) (''Bearer '' @ [CHR 0xE9]) =
     Inl (PyError ''TypeError'')"
  by code_simp

text \<open>Query values are not encoded: a search text can bring parameters of its own.\<close>

lemma query_injects:
  "query [(''search'', ''x&type=service_account'')] = query [(''search'', ''x''), (''type'', ''service_account'')]"
  by (simp add: query_def)

text \<open>The images of the client \<open>a-b\<close> carry the name prefix of the client \<open>a\<close>.\<close>

lemma image_prefix_shared: "starts_with (''a'' @ ''-'') (''a-b'' @ ''-'' @ application)"
  by (simp add: starts_with_def)

text \<open>The environment in the path of an application's status and deletion is not looked at.\<close>

lemma application_environment_ignored:
  "get_application_status se client environment name = get_application_status se client other name"
  "delete_application_manifest sv client environment name = delete_application_manifest sv client other name"
  by (simp_all add: get_application_status_def delete_application_manifest_def)

end
