(* ===== verification/Portal.thy ===== *)
theory Portal
  imports Service
begin

text \<open>
  The Odoo portal's two ways out: the Kubernetes wrapper \<open>models/k8s.py\<close> and the client of
  the platform API \<open>models/api_client.py\<close>. The wrapper turns the cluster's errors into
  \<open>UserError\<close>; an empty namespace is a cluster-scoped call. The HTTP session of the API client
  is the environment, a response the object \<open>Forgejo\<close> describes. Loading a cluster
  configuration is the \<open>kubernetes\<close> package's.
\<close>

section \<open>Resource names\<close>

definition name_chars :: "char list" where
  "name_chars = CHR ''-'' # label_ends"

text \<open>\<open>re.sub(r"[^a-z0-9-]+", "-", s)\<close>: one dash for a run of other characters.\<close>

fun dashed :: "bool \<Rightarrow> string \<Rightarrow> string" where
  "dashed inside [] = []"
| "dashed inside (c # cs) =
     (if c \<in> set name_chars then c # dashed False cs
      else if inside then dashed True cs
      else CHR ''-'' # dashed True cs)"

definition slugify :: "string \<Rightarrow> string" where
  "slugify s =
     sor (strip_of ''-'' (take 63 (strip_of ''-'' (dashed False (lower (strip s)))))) ''item''"

section \<open>The Kubernetes wrapper\<close>

text \<open>\<open>except api_exc as exc: raise UserError(...)\<close>\<close>

definition as_user_error :: "string \<Rightarrow> 'a M \<Rightarrow> 'a M" where
  "as_user_error what m = tryM m (\<lambda>e. case e of
     Ext (ApiErr _ reason) \<Rightarrow> raise (UserError (''Kubernetes error '' @ what @ '': '' @ reason))
   | _ \<Rightarrow> raise e)"

definition portal_get :: "string \<Rightarrow> string \<Rightarrow> string \<Rightarrow> json option M" where
  "portal_get plural name ns =
     as_user_error (''reading '' @ plural @ ''/'' @ name)
       (read_custom PLATFORM_GROUP plural name ns)"

definition live_version :: "json \<Rightarrow> exn + json" where
  "live_version existing =
     (if \<not> jhas existing ''metadata'' then Inl (KeyMissing ''metadata'')
      else if \<not> jhas (jget existing ''metadata'') ''resourceVersion''
      then Inl (KeyMissing ''resourceVersion'')
      else Inr (jget (jget existing ''metadata'') ''resourceVersion''))"

text \<open>\<open>body.setdefault("metadata", {})["resourceVersion"] = v\<close>\<close>

definition with_version :: "dict \<Rightarrow> json \<Rightarrow> dict" where
  "with_version body v =
     dset ''metadata'' (JObj (dset ''resourceVersion'' v (jdict (jget (JObj body) ''metadata'')))) body"

definition portal_apply :: "string \<Rightarrow> string \<Rightarrow> dict \<Rightarrow> string \<Rightarrow> json M" where
  "portal_apply plural name body ns =
     bindM (portal_get plural name ns) (\<lambda>existing.
     as_user_error (''applying '' @ plural @ ''/'' @ name)
       (case existing of
          None \<Rightarrow> callM (Custom VCreate PLATFORM_GROUP plural ns name (JObj body))
        | Some obj \<Rightarrow>
            bindM (of_result (live_version obj)) (\<lambda>v.
            callM (Custom VReplace PLATFORM_GROUP plural ns name (JObj (with_version body v))))))"

definition portal_delete :: "string \<Rightarrow> string \<Rightarrow> string \<Rightarrow> unit M" where
  "portal_delete plural name ns =
     as_user_error (''deleting '' @ plural @ ''/'' @ name)
       (delete_custom PLATFORM_GROUP plural name ns)"

definition portal_list :: "string \<Rightarrow> string \<Rightarrow> json list M" where
  "portal_list plural ns =
     as_user_error (''listing '' @ plural)
       (bindM (callM (Custom VList PLATFORM_GROUP plural ns [] JNull)) (\<lambda>res.
        ret (jlist (get_or res ''items'' (JArr [])))))"

text \<open>The first \<open>Ready\<close> condition.\<close>

definition ready_condition :: "json \<Rightarrow> json" where
  "ready_condition obj =
     (case List.find (\<lambda>c. jget c ''type'' = JStr ''Ready'') (lget (oget obj ''status'') ''conditions'') of
        Some c \<Rightarrow> c
      | None \<Rightarrow> JNull)"

definition ready :: "json \<Rightarrow> string" where
  "ready obj = sget (ready_condition obj) ''status''"

definition ready_message :: "json \<Rightarrow> string" where
  "ready_message obj = sget (ready_condition obj) ''message''"

section \<open>The client of the platform API\<close>

record api_client =
  ac_base :: string
  ac_token :: string

definition new_api_client :: "string \<Rightarrow> string \<Rightarrow> exn + api_client" where
  "new_api_client base_url token =
     (if base_url = [] then Inl (PlatformApiError ''Platform API URL is not configured.'')
      else Inr \<lparr> ac_base = rstrip_of ''/'' base_url, ac_token = token \<rparr>)"

definition ac_headers :: "api_client \<Rightarrow> (string \<times> string) list" where
  "ac_headers a =
     [(''Content-Type'', ''application/json''), (''Accept'', ''application/json'')] @
     (if ac_token a \<noteq> [] then [(''Authorization'', ''Bearer '' @ ac_token a)] else [])"

text \<open>No payload is \<open>JNull\<close>.\<close>

definition ac_request :: "api_client \<Rightarrow> string \<Rightarrow> string \<Rightarrow> json \<Rightarrow> json M" where
  "ac_request a method path payload =
     bindM (tryM (callM (Http method (ac_base a @ path) (ac_headers a) payload))
       (\<lambda>e. raise (PlatformApiError (''Platform API request failed: '' @ exn_str e)))) (\<lambda>resp.
     if status_code resp \<notin> {200, 201, 204}
     then raise (PlatformApiError (''Platform API '' @ method @ '' '' @ path @ '' -> '' @
            int_str (status_code resp) @ '' '' @ resp_text resp))
     else ret resp)"

definition ac_upsert :: "api_client \<Rightarrow> string \<Rightarrow> dict \<Rightarrow> json M" where
  "ac_upsert a path body = ac_request a ''PUT'' path (JObj body)"

definition ac_delete :: "api_client \<Rightarrow> string \<Rightarrow> json M" where
  "ac_delete a path = ac_request a ''DELETE'' path JNull"

definition ac_get :: "api_client \<Rightarrow> string \<Rightarrow> json M" where
  "ac_get a path =
     bindM (ac_request a ''GET'' path JNull) (\<lambda>resp.
     if jhas resp ''json'' then ret (jget resp ''json'')
     else raise (PlatformApiError (''Platform API returned invalid JSON for '' @ path)))"

section \<open>Facts: names\<close>

lemma set_dashed: "set (dashed b s) \<subseteq> set name_chars"
  by (induction b s rule: dashed.induct) (auto simp: name_chars_def)

lemma set_slug_body: "set (strip_of ''-'' (take n (strip_of ''-'' (dashed b s)))) \<subseteq> set name_chars"
  using set_strip_of set_take_subset set_dashed by (meson order_trans)

lemma label_of_slug:
  assumes "set t \<subseteq> set name_chars" and "strip_of ''-'' t \<noteq> []"
  shows "dns_label (strip_of ''-'' t)"
proof -
  let ?t = "strip_of ''-'' t"
  have "set ?t \<subseteq> set name_chars" using assms(1) set_strip_of by blast
  moreover have "hd ?t \<noteq> CHR ''-''" "last ?t \<noteq> CHR ''-''"
    using hd_strip_of [OF assms(2)] last_strip_of [OF assms(2)] by auto
  moreover have "hd ?t \<in> set ?t" "last ?t \<in> set ?t" using assms(2) by simp_all
  ultimately have "hd ?t \<in> set label_ends" "last ?t \<in> set label_ends"
    unfolding name_chars_def by (auto simp del: hd_in_set last_in_set)
  with \<open>set ?t \<subseteq> set name_chars\<close> assms(2) show ?thesis by (simp add: dns_label_def name_chars_def)
qed

lemma length_strip_of: "length (strip_of cs s) \<le> length s"
proof -
  have "length (lstrip_of cs s) \<le> length s" by (simp add: lstrip_of_def length_dropWhile_le)
  with length_rstrip_of [of cs "lstrip_of cs s"] show ?thesis by (simp add: strip_of_def)
qed

lemma slugify_label: "dns_label (slugify s) \<and> length (slugify s) \<le> 63"
proof -
  let ?t = "take 63 (strip_of ''-'' (dashed False (lower (strip s))))"
  have t: "set ?t \<subseteq> set name_chars"
    using set_strip_of set_take_subset set_dashed by (meson order_trans)
  show ?thesis
  proof (cases "strip_of ''-'' ?t = []")
    case True
    have "dns_label ''item''" by code_simp
    with True show ?thesis by (simp add: slugify_def)
  next
    case False
    then have "slugify s = strip_of ''-'' ?t" by (simp add: slugify_def sor_def)
    with label_of_slug [OF t False] length_strip_of [of "''-''" ?t] show ?thesis by simp
  qed
qed

lemma label_not_blank: "set label_ends \<inter> set py_ws = {}" by code_simp

lemma lower_slug_char: "c \<in> set name_chars \<Longrightarrow> lower_char c = c"
proof -
  have "\<forall>c \<in> set name_chars. lower_char c = c" by code_simp
  then show "c \<in> set name_chars \<Longrightarrow> lower_char c = c" by simp
qed

lemma dashed_id: "set s \<subseteq> set name_chars \<Longrightarrow> dashed b s = s"
  by (induction b s rule: dashed.induct) auto

lemma slugify_id:
  assumes "dns_label s" and "length s \<le> 63"
  shows "slugify s = s"
proof -
  have ne: "s \<noteq> []" and e: "hd s \<in> set label_ends" "last s \<in> set label_ends"
    and c: "set s \<subseteq> set name_chars"
    using assms(1) by (auto simp: dns_label_def name_chars_def)
  have d: "CHR ''-'' \<notin> set label_ends" by code_simp
  have "strip s = s" unfolding strip_def using e label_not_blank by (intro strip_of_id) auto
  moreover have "lower s = s"
    unfolding lower_def using c by (intro map_idI) (auto intro: lower_slug_char)
  moreover have "strip_of ''-'' s = s" using e d by (intro strip_of_id) auto
  ultimately show ?thesis using assms(2) c ne by (simp add: slugify_def dashed_id sor_def)
qed

text \<open>C32. The portal's names are always names the API accepts: whatever the user types, the slug is
  a DNS-1123 label of at most 63 characters that passes the API's validation unchanged, and a
  name that is one already is kept.
\<close>

theorem slugify_valid:
  "validate_name (slugify s) what = Inr (slugify s) \<and> slugify (slugify s) = slugify s"
  using slugify_label [of s] by (simp add: validate_name_def dns1123_match_def dns_label_def slugify_id)

section \<open>Facts: the wrapper keeps the contract of apply\<close>

lemma as_user_error_Inr [simp]: "as_user_error what m env s = (Inr x, s') \<longleftrightarrow> m env s = (Inr x, s')"
  by (auto simp: as_user_error_def tryM_def raise_def split: prod.splits sum.splits exn.splits xerr.splits)

lemma as_user_error_trace [simp]: "snd (as_user_error what m env s) = snd (m env s)"
  by (auto simp: as_user_error_def tryM_def raise_def split: prod.splits sum.splits exn.splits xerr.splits)

lemma quiet_as_user_error [quiet_intros]: "quiet m \<Longrightarrow> quiet (as_user_error what m)"
  unfolding as_user_error_def
  by (rule quiet_tryM) (auto intro: quiet_raise split: exn.split xerr.split)

lemma only_as_user_error [only_intros]: "only P m \<Longrightarrow> only P (as_user_error what m)"
  by (simp add: only_def)

type_synonym portal_object = "string \<times> string \<times> dict \<times> string"

definition portal_key :: "portal_object \<Rightarrow> obj_key" where
  "portal_key r = (case r of (plural, name, body, ns) \<Rightarrow> (PLATFORM_GROUP, plural, ns, name))"

definition portal_ensure :: "portal_object \<Rightarrow> json M" where
  "portal_ensure r = (case r of (plural, name, body, ns) \<Rightarrow> portal_apply plural name body ns)"

lemma portal_get_known:
  assumes "kube_faithful env" and "live (trace s) (PLATFORM_GROUP, plural, ns, name)"
  shows "\<exists>y a. portal_get plural name ns env s = (y, s\<lparr>trace := a # trace s\<rparr>) \<and>
    \<not> creates (fst a) \<and> y \<noteq> Inr None"
proof -
  let ?c = "Custom VGet PLATFORM_GROUP plural ns name JNull"
  have "\<And>t. env (trace s) ?c \<noteq> Inl (ApiErr 404 t)"
    using assms unfolding kube_faithful_def by auto
  then show ?thesis
    by (auto simp: portal_get_def as_user_error_def tryM_def read_custom_run Let_def raise_def
        creates_def split: sum.split xerr.split)
qed

text \<open>Applying from the portal is the same contract as the controller's \<open>apply()\<close>: it only reads,
  creates or replaces its own object, and the object exists when it returns.
\<close>

interpretation portal: applied portal_ensure portal_key
proof
  fix r :: portal_object
  obtain plural name body ns where r: "r = (plural, name, body, ns)" by (metis prod_cases4)
  show "quiet (portal_ensure r)"
    unfolding portal_ensure_def r portal_apply_def portal_get_def
    by (auto intro!: quiet_intros simp: live_version_def split: if_splits)
  show "only (touches (portal_key r)) (portal_ensure r)"
    unfolding portal_ensure_def r portal_apply_def portal_get_def read_custom_def
    by (simp add: portal_key_def) (intro only_intros; simp add: touches_def)
  show "live (trace s') (portal_key r)" if "portal_ensure r env s = (Inr x, s')" for env s x s'
    using that
    by (auto simp: portal_ensure_def r portal_apply_def bindM_Inr callM_Inr portal_key_def
        of_result_run split: option.splits)
  show "no_create (portal_ensure r) env s"
    if "kube_faithful env" "live (trace s) (portal_key r)" for env s
  proof -
    from that obtain y a where g: "portal_get plural name ns env s = (y, s\<lparr>trace := a # trace s\<rparr>)"
      and a: "\<not> creates (fst a)" and y: "y \<noteq> Inr None"
      unfolding r portal_key_def by (auto dest: portal_get_known)
    show ?thesis
    proof (cases y)
      case (Inl e)
      with g a show ?thesis
        by (simp add: no_create_def portal_ensure_def r portal_apply_def bindM_def)
    next
      case (Inr z)
      with y obtain obj where z: "z = Some obj" by (cases z) auto
      let ?k = "as_user_error (''applying '' @ plural @ ''/'' @ name)
        (bindM (of_result (live_version obj)) (\<lambda>v.
           callM (Custom VReplace PLATFORM_GROUP plural ns name (JObj (with_version body v)))))"
      have "only (\<lambda>c. \<not> creates c) ?k" by (intro only_intros) (simp add: creates_def)
      then obtain new where "trace (snd (?k env (s\<lparr>trace := a # trace s\<rparr>))) = new @ a # trace s"
        "\<forall>cr \<in> set new. \<not> creates (fst cr)"
        by (rule onlyE [of _ _ env "s\<lparr>trace := a # trace s\<rparr>"]) simp
      with g a Inr z show ?thesis
        by (auto simp: no_create_def portal_ensure_def r portal_apply_def bindM_def
            intro!: exI [of _ "new @ [a]"])
    qed
  qed
qed

end
