(* ===== verification/Bodies.thy ===== *)
theory Bodies
  imports Schema "HOL-Library.Monad_Syntax"
begin

text \<open>
  How the API reads the JSON of a request into a body of \<open>models.py\<close>: the required fields,
  the defaults, the bounds and the aliases the classes declare. An entry that has the
  declared type is taken as it is, and an absent one takes its default; \<open>None\<close> stands for
  everything else, where \<open>pydantic\<close> converts or refuses the value.
\<close>

section \<open>Fields\<close>

definition req_str :: "dict \<Rightarrow> string \<Rightarrow> string option" where
  "req_str d k = (case dget d k of Some (JStr s) \<Rightarrow> Some s | _ \<Rightarrow> None)"

definition def_str :: "dict \<Rightarrow> string \<Rightarrow> string \<Rightarrow> string option" where
  "def_str d k x = (case dget d k of None \<Rightarrow> Some x | Some (JStr s) \<Rightarrow> Some s | _ \<Rightarrow> None)"

definition opt_str :: "dict \<Rightarrow> string \<Rightarrow> string option option" where
  "opt_str d k = (case dget d k of
     None \<Rightarrow> Some None | Some JNull \<Rightarrow> Some None | Some (JStr s) \<Rightarrow> Some (Some s) | _ \<Rightarrow> None)"

definition def_bool :: "dict \<Rightarrow> string \<Rightarrow> bool \<Rightarrow> bool option" where
  "def_bool d k x = (case dget d k of None \<Rightarrow> Some x | Some (JBool b) \<Rightarrow> Some b | _ \<Rightarrow> None)"

definition def_int :: "dict \<Rightarrow> string \<Rightarrow> int \<Rightarrow> int option" where
  "def_int d k x = (case dget d k of None \<Rightarrow> Some x | Some (JInt i) \<Rightarrow> Some i | _ \<Rightarrow> None)"

text \<open>\<open>Field(ge=1)\<close>\<close>

definition at_least_one :: "int \<Rightarrow> int option" where
  "at_least_one i = (if 1 \<le> i then Some i else None)"

definition opt_positive :: "dict \<Rightarrow> string \<Rightarrow> int option option" where
  "opt_positive d k = (case dget d k of
     None \<Rightarrow> Some None | Some JNull \<Rightarrow> Some None
   | Some (JInt i) \<Rightarrow> map_option Some (at_least_one i) | _ \<Rightarrow> None)"

definition opt_dicts :: "dict \<Rightarrow> string \<Rightarrow> json list option option" where
  "opt_dicts d k = (case dget d k of
     None \<Rightarrow> Some None | Some JNull \<Rightarrow> Some None
   | Some (JArr xs) \<Rightarrow> if list_all is_obj xs then Some (Some xs) else None | _ \<Rightarrow> None)"

definition opt_dict :: "dict \<Rightarrow> string \<Rightarrow> dict option option" where
  "opt_dict d k = (case dget d k of
     None \<Rightarrow> Some None | Some JNull \<Rightarrow> Some None | Some (JObj v) \<Rightarrow> Some (Some v) | _ \<Rightarrow> None)"

section \<open>Bodies\<close>

definition read_client_body :: "dict \<Rightarrow> client_body option" where
  "read_client_body d = do {
     display_name \<leftarrow> req_str d ''display_name'';
     slug \<leftarrow> opt_str d ''slug'';
     organization \<leftarrow> opt_str d ''organization'';
     Some \<lparr> cb_display_name = display_name, cb_slug = slug, cb_organization = organization \<rparr> }"

definition read_domain_body :: "dict \<Rightarrow> domain_body option" where
  "read_domain_body d = do {
     fqdn \<leftarrow> req_str d ''fqdn'';
     wildcard \<leftarrow> def_bool d ''wildcard'' True;
     issuer \<leftarrow> opt_str d ''issuer'';
     Some \<lparr> mb_fqdn = fqdn, mb_wildcard = wildcard, mb_issuer = issuer \<rparr> }"

definition read_database_server_body :: "dict \<Rightarrow> database_server_body option" where
  "read_database_server_body d = do {
     engine \<leftarrow> def_str d ''engine'' ''postgres'';
     mode \<leftarrow> def_str d ''mode'' ''cnpg'';
     storage \<leftarrow> def_str d ''storage'' ''10Gi'';
     storage_class \<leftarrow> opt_str d ''storage_class'';
     instances \<leftarrow> Option.bind (def_int d ''instances'' 1) at_least_one;
     environment \<leftarrow> opt_str d ''environment'';
     host \<leftarrow> opt_str d ''host'';
     port \<leftarrow> def_int d ''port'' 5432;
     ssl_mode \<leftarrow> opt_str d ''ssl_mode'';
     admin_user \<leftarrow> opt_str d ''admin_user'';
     admin_path \<leftarrow> opt_str d ''admin_openbao_path'';
     Some \<lparr> sb_engine = engine, sb_mode = mode, sb_storage = storage,
       sb_storage_class = storage_class, sb_instances = instances, sb_environment = environment,
       sb_host = host, sb_port = port, sb_ssl_mode = ssl_mode, sb_admin_user = admin_user,
       sb_admin_openbao_path = admin_path \<rparr> }"

definition read_database_body :: "dict \<Rightarrow> database_body option" where
  "read_database_body d = do {
     server \<leftarrow> req_str d ''server'';
     database_name \<leftarrow> req_str d ''database_name'';
     user \<leftarrow> req_str d ''user'';
     environment \<leftarrow> opt_str d ''environment'';
     Some \<lparr> qb_server = server, qb_database_name = database_name, qb_user = user,
       qb_environment = environment \<rparr> }"

text \<open>The class stands under its alias \<open>class\<close>, or under its own name.\<close>

definition read_environment_body :: "dict \<Rightarrow> environment_body option" where
  "read_environment_body d = do {
     display_name \<leftarrow> opt_str d ''display_name'';
     environment_class \<leftarrow> def_str d
       (if dget d ''class'' = None then ''environment_class'' else ''class'') ''development'';
     Some \<lparr> eb_display_name = display_name, eb_class = environment_class \<rparr> }"

definition read_source :: "dict \<Rightarrow> application_source option option" where
  "read_source d = Option.bind (opt_dict d ''source'') (\<lambda>source. case source of
     None \<Rightarrow> Some None
   | Some s \<Rightarrow> do {
       repository \<leftarrow> req_str s ''repository'';
       ref \<leftarrow> opt_str s ''ref'';
       Some (Some \<lparr> as_repository = repository, as_ref = ref \<rparr>) })"

definition read_application_body :: "dict \<Rightarrow> application_body option" where
  "read_application_body d = do {
     type_name \<leftarrow> req_str d ''type'';
     display_name \<leftarrow> opt_str d ''display_name'';
     databases \<leftarrow> opt_dicts d ''databases'';
     sso \<leftarrow> opt_dicts d ''sso'';
     env \<leftarrow> opt_dicts d ''env'';
     replicas \<leftarrow> opt_positive d ''replicas'';
     host \<leftarrow> opt_str d ''host'';
     domain \<leftarrow> opt_str d ''domain'';
     values \<leftarrow> opt_dict d ''values'';
     source \<leftarrow> read_source d;
     Some \<lparr> ab_type = type_name, ab_display_name = display_name, ab_databases = databases,
       ab_sso = sso, ab_env = env, ab_replicas = replicas, ab_host = host, ab_domain = domain,
       ab_values = values, ab_source = source \<rparr> }"

definition read_preview :: "dict \<Rightarrow> repository_preview option option" where
  "read_preview d = Option.bind (opt_dict d ''preview'') (\<lambda>preview. case preview of
     None \<Rightarrow> Some None
   | Some p \<Rightarrow> do {
       enabled \<leftarrow> def_bool p ''enabled'' True;
       client \<leftarrow> opt_str p ''client'';
       application_type \<leftarrow> opt_str p ''application_type'';
       Some (Some \<lparr> rp_enabled = enabled, rp_client = client,
         rp_application_type = application_type \<rparr>) })"

definition read_repository_body :: "dict \<Rightarrow> repository_body option" where
  "read_repository_body d = do {
     url \<leftarrow> req_str d ''url'';
     default_branch \<leftarrow> def_str d ''default_branch'' ''main'';
     credentials_secret \<leftarrow> opt_str d ''credentials_secret'';
     preview \<leftarrow> read_preview d;
     Some \<lparr> rb_url = url, rb_default_branch = default_branch,
       rb_credentials_secret = credentials_secret, rb_preview = preview \<rparr> }"

definition read_snapshot_body :: "dict \<Rightarrow> string option" where
  "read_snapshot_body d = req_str d ''application''"

lemmas read_defs = req_str_def def_str_def opt_str_def def_bool_def def_int_def at_least_one_def
  opt_positive_def opt_dicts_def opt_dict_def

end
