(* ===== verification/PortalModels.thy ===== *)
theory PortalModels
  imports Portal Bodies
begin

text \<open>
  The portal's models (\<open>models/organization.py\<close>, \<open>client.py\<close>, \<open>environment.py\<close>,
  \<open>domain.py\<close>, \<open>database_server.py\<close>, \<open>git_repository.py\<close>, \<open>snapshot.py\<close>,
  \<open>application_type.py\<close>, \<open>application.py\<close>): each Odoo model is a record of its stored fields;
  a \<open>Char\<close> that is unset is the empty string, a \<open>Many2one\<close> the record it points to (an
  \<open>option\<close> unless it is required), a \<open>One2many\<close> a list. \<open>_api_body\<close> is what the platform
  API is sent, \<open>_k8s_spec\<close> what is applied to the cluster, \<open>_k8s_import_vals\<close> the record made
  from a custom resource; \<open>search(..., limit=1)\<close> on another model is a parameter. The last part
  shows that both ways of writing give the same spec.
\<close>

section \<open>The records\<close>

text \<open>A Variable or Secret; \<open>row_touched\<close> is \<open>write_date or create_date\<close>.\<close>

record config_row =
  row_id :: nat
  row_name :: string
  row_secret :: bool
  row_value :: string
  row_touched :: int

record portal_organization =
  og_k8s_name :: string
  og_name :: string
  og_base_domain :: string
  og_odoo_image_repository :: string
  og_ingress_class :: string
  og_configs :: "config_row list"

record portal_client =
  cl_k8s_name :: string
  cl_name :: string
  cl_slug :: string
  cl_organization :: "portal_organization option"
  cl_configs :: "config_row list"

record portal_environment =
  en_k8s_name :: string
  en_name :: string
  en_client :: portal_client
  en_class :: string
  en_namespace :: string
  en_configs :: "config_row list"

record portal_domain =
  dm_k8s_name :: string
  dm_name :: string
  dm_client :: portal_client
  dm_platform :: bool
  dm_fqdn :: string
  dm_platform_label :: string
  dm_wildcard :: bool
  dm_issuer :: string
  dm_host :: string

record portal_server =
  sr_k8s_name :: string
  sr_name :: string
  sr_client :: "portal_client option"
  sr_environment :: "portal_environment option"
  sr_engine :: string
  sr_external :: bool
  sr_storage :: string
  sr_storage_class :: string
  sr_instances :: int
  sr_host :: string
  sr_port :: int
  sr_ssl_mode :: string
  sr_admin_user :: string
  sr_admin_path :: string
  sr_resolved_host :: string

record portal_repository =
  gr_k8s_name :: string
  gr_name :: string
  gr_client :: "portal_client option"
  gr_url :: string
  gr_default_branch :: string
  gr_credentials :: string
  gr_preview :: bool
  gr_preview_client :: "portal_client option"
  gr_preview_type :: string

record portal_type =
  ty_k8s_name :: string
  ty_name :: string
  ty_repo_url :: string
  ty_chart :: string
  ty_path :: string
  ty_revision :: string
  ty_database_required :: bool
  ty_sso_protocol :: string
  ty_description :: string
  ty_about :: string
  ty_icon :: string
  ty_logo_url :: string
  ty_image_urls :: string
  ty_category :: string
  ty_vendor :: string
  ty_website :: string

record app_database =
  ad_name :: string
  ad_server :: "portal_server option"
  ad_server_name :: string
  ad_database_name :: string
  ad_user :: string
  ad_secret :: string

record app_sso =
  ao_name :: string
  ao_protocol :: string
  ao_redirect_uris :: string
  ao_secret :: string

record app_env =
  ae_name :: string
  ae_value :: string
  ae_secret_name :: string
  ae_secret_key :: string

record portal_application =
  ap_k8s_name :: string
  ap_name :: string
  ap_environment :: portal_environment
  ap_type :: portal_type
  ap_replicas :: int
  ap_domain :: "portal_domain option"
  ap_subdomain :: string
  ap_hostname :: string
  ap_databases :: "app_database list"
  ap_sso :: "app_sso list"
  ap_env :: "app_env list"
  ap_values :: string
  ap_repository :: "portal_repository option"
  ap_source_ref :: string
  ap_url :: string
  ap_phase :: string
  ap_namespace :: string
  ap_configs :: "config_row list"

record portal_snapshot =
  sn_k8s_name :: string
  sn_name :: string
  sn_application :: portal_application
  sn_location :: string
  sn_phase :: string

section \<open>Request bodies and specs\<close>

text \<open>\<open>if x: d[k] = x\<close>\<close>

definition unless_empty :: "string \<Rightarrow> string \<Rightarrow> dict" where
  "unless_empty k x = (if x \<noteq> [] then [(k, JStr x)] else [])"

definition name_of :: "('a \<Rightarrow> string) \<Rightarrow> string \<Rightarrow> 'a option \<Rightarrow> dict" where
  "name_of f k x = (case x of Some r \<Rightarrow> [(k, JStr (f r))] | None \<Rightarrow> [])"

definition ref_of :: "('a \<Rightarrow> string) \<Rightarrow> string \<Rightarrow> 'a option \<Rightarrow> dict" where
  "ref_of f k x = (case x of Some r \<Rightarrow> [(k, ref_to (f r))] | None \<Rightarrow> [])"

definition unless_nothing :: "string \<Rightarrow> dict \<Rightarrow> dict" where
  "unless_nothing k d = (if d \<noteq> [] then [(k, JObj d)] else [])"

definition row_entry :: "config_row \<Rightarrow> json" where
  "row_entry r = JObj [(''name'', JStr (row_name r)), (''value'', JStr (row_value r))]"

definition row_variables :: "config_row list \<Rightarrow> json list" where
  "row_variables rows = map row_entry (filter (\<lambda>r. \<not> row_secret r) rows)"

definition organization_k8s_spec :: "portal_organization \<Rightarrow> dict" where
  "organization_k8s_spec g =
     (if og_base_domain g \<noteq> [] then [(''domain'', JObj [(''base'', JStr (og_base_domain g))])] else []) @
     (if og_odoo_image_repository g \<noteq> []
      then [(''images'', JObj [(''odooRepository'', JStr (og_odoo_image_repository g))])] else []) @
     (if og_ingress_class g \<noteq> []
      then [(''ingress'', JObj [(''className'', JStr (og_ingress_class g))])] else []) @
     (if row_variables (og_configs g) \<noteq> []
      then [(''variables'', JArr (row_variables (og_configs g)))] else [])"

definition client_api_body :: "portal_client \<Rightarrow> dict" where
  "client_api_body c =
     [(''display_name'', JStr (cl_name c))] @
     unless_empty ''slug'' (cl_slug c) @
     name_of og_k8s_name ''organization'' (cl_organization c)"

definition client_k8s_spec :: "portal_client \<Rightarrow> dict" where
  "client_k8s_spec c =
     [(''displayName'', JStr (cl_name c))] @
     unless_empty ''slug'' (cl_slug c) @
     ref_of og_k8s_name ''organizationRef'' (cl_organization c)"

definition environment_api_body :: "portal_environment \<Rightarrow> dict" where
  "environment_api_body e =
     [(''display_name'', JStr (en_name e)), (''class'', JStr (en_class e))]"

definition environment_k8s_spec :: "portal_environment \<Rightarrow> dict" where
  "environment_k8s_spec e =
     [(''clientRef'', ref_to (cl_k8s_name (en_client e))), (''class'', JStr (en_class e)),
      (''displayName'', JStr (en_name e))]"

definition norm_host :: "string \<Rightarrow> string" where
  "norm_host s = lower (strip s)"

definition domain_api_body :: "portal_domain \<Rightarrow> dict" where
  "domain_api_body d =
     [(''fqdn'', JStr (norm_host (dm_fqdn d))), (''wildcard'', JBool (dm_wildcard d))] @
     unless_empty ''issuer'' (dm_issuer d)"

definition domain_k8s_spec :: "portal_domain \<Rightarrow> dict" where
  "domain_k8s_spec d =
     [(''fqdn'', JStr (norm_host (dm_fqdn d))), (''wildcard'', JBool (dm_wildcard d))] @
     unless_empty ''issuer'' (dm_issuer d)"

text \<open>\<open>mode\<close> is one of \<open>cnpg\<close> and \<open>external\<close>.\<close>

definition server_mode :: "portal_server \<Rightarrow> string" where
  "server_mode s = (if sr_external s then ''external'' else ''cnpg'')"

definition server_api_body :: "portal_server \<Rightarrow> dict" where
  "server_api_body s =
     [(''engine'', JStr (sr_engine s)), (''mode'', JStr (server_mode s))] @
     (if \<not> sr_external s
      then unless_empty ''storage'' (sr_storage s) @
           unless_empty ''storage_class'' (sr_storage_class s) @
           opt (sr_instances s \<noteq> 0) ''instances'' (JInt (sr_instances s))
      else unless_empty ''host'' (sr_host s) @
           opt (sr_port s \<noteq> 0) ''port'' (JInt (sr_port s)) @
           unless_empty ''ssl_mode'' (sr_ssl_mode s)) @
     unless_empty ''admin_user'' (sr_admin_user s) @
     unless_empty ''admin_openbao_path'' (sr_admin_path s) @
     name_of en_k8s_name ''environment'' (sr_environment s)"

definition server_k8s_spec :: "portal_server \<Rightarrow> dict" where
  "server_k8s_spec s =
     [(''engine'', JStr (sr_engine s)), (''mode'', JStr (server_mode s))] @
     (if \<not> sr_external s
      then unless_nothing ''cnpg''
        (unless_empty ''storage'' (sr_storage s) @
         unless_empty ''storageClass'' (sr_storage_class s) @
         opt (sr_instances s \<noteq> 0) ''instances'' (JInt (sr_instances s)))
      else unless_nothing ''external''
        (unless_empty ''host'' (sr_host s) @
         opt (sr_port s \<noteq> 0) ''port'' (JInt (sr_port s)) @
         unless_empty ''sslMode'' (sr_ssl_mode s))) @
     unless_nothing ''admin''
       (unless_empty ''user'' (sr_admin_user s) @
        unless_empty ''openbaoPath'' (sr_admin_path s)) @
     ref_of en_k8s_name ''environmentRef'' (sr_environment s)"

definition repository_api_body :: "portal_repository \<Rightarrow> dict" where
  "repository_api_body r =
     [(''url'', JStr (gr_url r)), (''default_branch'', JStr (sor (gr_default_branch r) ''main''))] @
     unless_empty ''credentials_secret'' (gr_credentials r) @
     (if gr_preview r
      then [(''preview'', JObj
        ([(''enabled'', JBool True)] @
         name_of cl_k8s_name ''client'' (gr_preview_client r) @
         unless_empty ''application_type'' (gr_preview_type r)))]
      else [])"

definition repository_k8s_spec :: "portal_repository \<Rightarrow> dict" where
  "repository_k8s_spec r =
     [(''url'', JStr (gr_url r)), (''defaultBranch'', JStr (sor (gr_default_branch r) ''main''))] @
     (if gr_credentials r \<noteq> [] then [(''credentialsSecretRef'', ref_to (gr_credentials r))] else []) @
     (if gr_preview r
      then [(''preview'', JObj
        ([(''enabled'', JBool True)] @
         ref_of cl_k8s_name ''clientRef'' (gr_preview_client r) @
         unless_empty ''applicationType'' (gr_preview_type r)))]
      else [])"

definition snapshot_api_body :: "portal_snapshot \<Rightarrow> dict" where
  "snapshot_api_body s = [(''application'', JStr (ap_k8s_name (sn_application s)))]"

definition snapshot_k8s_spec :: "portal_snapshot \<Rightarrow> dict" where
  "snapshot_k8s_spec s = [(''applicationRef'', ref_to (ap_k8s_name (sn_application s)))]"

section \<open>The catalog\<close>

text \<open>\<open>str.splitlines()\<close> on ASCII line boundaries; a carriage return and a newline are one.\<close>

definition line_ends :: "char list" where
  "line_ends = [newline, CHR 0x0B, CHR 0x0C, CHR 0x0D, CHR 0x1C, CHR 0x1D, CHR 0x1E]"

fun splitlines :: "string \<Rightarrow> string list" where
  "splitlines [] = []"
| "splitlines (c # cs) =
     (if c = CHR 0x0D \<and> cs \<noteq> [] \<and> hd cs = newline then splitlines cs
      else if c \<in> set line_ends then [] # splitlines cs
      else (case splitlines cs of [] \<Rightarrow> [[c]] | l # ls \<Rightarrow> (c # l) # ls))"

definition stripped_lines :: "string \<Rightarrow> string list" where
  "stripped_lines s = filter (\<lambda>l. l \<noteq> []) (map strip (splitlines s))"

definition type_k8s_spec :: "portal_type \<Rightarrow> dict" where
  "type_k8s_spec t =
     [(''displayName'', JStr (ty_name t)),
      (''chart'', JObj
        (unless_empty ''repoURL'' (ty_repo_url t) @ unless_empty ''chart'' (ty_chart t) @
         unless_empty ''path'' (ty_path t) @ unless_empty ''targetRevision'' (ty_revision t))),
      (''database'', JObj [(''required'', JBool (ty_database_required t))])] @
     (if ty_sso_protocol t \<noteq> []
      then [(''sso'', JObj [(''enabled'', JBool True), (''protocol'', JStr (ty_sso_protocol t))])]
      else []) @
     unless_nothing ''catalog''
       (unless_empty ''description'' (ty_description t) @ unless_empty ''about'' (ty_about t) @
        unless_empty ''icon'' (ty_icon t) @ unless_empty ''logoUrl'' (ty_logo_url t) @
        unless_empty ''category'' (ty_category t) @ unless_empty ''vendor'' (ty_vendor t) @
        unless_empty ''websiteUrl'' (ty_website t) @
        (if stripped_lines (ty_image_urls t) \<noteq> []
         then [(''images'', strs (stripped_lines (ty_image_urls t)))] else []))"

section \<open>Applications\<close>

definition database_entry :: "app_database \<Rightarrow> json" where
  "database_entry d = JObj
     ([(''name'', JStr (ad_name d)),
       (''server'', JStr (sor (case ad_server d of Some s \<Rightarrow> sr_k8s_name s | None \<Rightarrow> []) (ad_server_name d))),
       (''credentials'', JObj [(''secret'', JStr (ad_secret d))])] @
      unless_empty ''databaseName'' (ad_database_name d) @
      unless_empty ''user'' (ad_user d))"

definition sso_entry :: "app_sso \<Rightarrow> json" where
  "sso_entry x = JObj
     ([(''name'', JStr (ao_name x)), (''protocol'', JStr (ao_protocol x)),
       (''credentials'', JObj [(''secret'', JStr (ao_secret x))])] @
      (if stripped_lines (ao_redirect_uris x) \<noteq> []
       then [(''redirectUris'', strs (stripped_lines (ao_redirect_uris x)))] else []))"

definition env_entry :: "app_env \<Rightarrow> json" where
  "env_entry e =
     (if ae_secret_name e \<noteq> []
      then JObj [(''name'', JStr (ae_name e)),
        (''valueFrom'', JObj [(''secretKeyRef'', JObj
          [(''name'', JStr (ae_secret_name e)),
           (''key'', JStr (sor (ae_secret_key e) ''password''))])])]
      else JObj [(''name'', JStr (ae_name e)), (''value'', JStr (ae_value e))])"

text \<open>\<open>s.replace(p, "")\<close>\<close>

function remove_all :: "string \<Rightarrow> string \<Rightarrow> string" where
  "remove_all p [] = []"
| "remove_all p (c # s) =
     (if p \<noteq> [] \<and> starts_with p (c # s) then remove_all p (drop (length p) (c # s))
      else c # remove_all p s)"
  by pat_completeness auto
termination
  by (relation "measure (\<lambda>(p, s). length s)") auto

text \<open>The host an application asks for; empty when the platform generates one.\<close>

definition composed_host :: "portal_application \<Rightarrow> string" where
  "composed_host a =
     (if ap_hostname a \<noteq> [] then norm_host (ap_hostname a)
      else case ap_domain a of
        None \<Rightarrow> []
      | Some d \<Rightarrow>
          if ap_subdomain a \<noteq> [] \<and> dm_fqdn d \<noteq> []
          then lower (strip (ap_subdomain a) @ ''.'' @ strip (dm_fqdn d)) else [])"

definition host_effective :: "portal_application \<Rightarrow> string" where
  "host_effective a =
     sor (composed_host a)
       (if ap_url a \<noteq> [] then rstrip_of ''/'' (remove_all ''https://'' (ap_url a)) else [])"

text \<open>\<open>json.loads\<close> is the parameter \<open>loads\<close>, YAML the parameter \<open>y\<close>; text neither reads is ignored.\<close>

definition parse_values :: "(string \<Rightarrow> json option) \<Rightarrow> yaml \<Rightarrow> string \<Rightarrow> json" where
  "parse_values loads y txt =
     (let t = strip txt in
      if t = [] then JObj []
      else case loads t of
        Some j \<Rightarrow> j
      | None \<Rightarrow> (case safe_load y t of Some j \<Rightarrow> jor j (JObj []) | None \<Rightarrow> JObj []))"

definition unless_no_entries :: "string \<Rightarrow> json list \<Rightarrow> dict" where
  "unless_no_entries k xs = (if xs \<noteq> [] then [(k, JArr xs)] else [])"

definition application_api_body ::
    "(string \<Rightarrow> json option) \<Rightarrow> yaml \<Rightarrow> portal_application \<Rightarrow> dict" where
  "application_api_body loads y a =
     [(''type'', JStr (ty_k8s_name (ap_type a))), (''display_name'', JStr (ap_name a))] @
     unless_no_entries ''databases'' (map database_entry (ap_databases a)) @
     unless_no_entries ''sso'' (map sso_entry (ap_sso a)) @
     unless_no_entries ''env'' (map env_entry (ap_env a)) @
     opt (ap_replicas a \<noteq> 0) ''replicas'' (JInt (ap_replicas a)) @
     unless_empty ''host'' (composed_host a) @
     name_of dm_k8s_name ''domain'' (ap_domain a) @
     opt (truthy (parse_values loads y (ap_values a))) ''values'' (parse_values loads y (ap_values a)) @
     (case ap_repository a of
        None \<Rightarrow> []
      | Some r \<Rightarrow> [(''source'', JObj ([(''repository'', JStr (gr_k8s_name r))] @
          unless_empty ''ref'' (ap_source_ref a)))])"

definition application_k8s_spec ::
    "(string \<Rightarrow> json option) \<Rightarrow> yaml \<Rightarrow> portal_application \<Rightarrow> dict" where
  "application_k8s_spec loads y a =
     [(''environmentRef'', ref_to (en_k8s_name (ap_environment a))),
      (''type'', JStr (ty_k8s_name (ap_type a)))] @
     unless_no_entries ''databases'' (map database_entry (ap_databases a)) @
     unless_no_entries ''sso'' (map sso_entry (ap_sso a)) @
     unless_no_entries ''env'' (map env_entry (ap_env a)) @
     opt (ap_replicas a \<noteq> 0) ''replicas'' (JInt (ap_replicas a)) @
     (if composed_host a \<noteq> [] then [(''ingress'', JObj [(''host'', JStr (composed_host a))])] else []) @
     ref_of dm_k8s_name ''domainRef'' (ap_domain a) @
     opt (truthy (parse_values loads y (ap_values a))) ''values'' (parse_values loads y (ap_values a)) @
     (case ap_repository a of
        None \<Rightarrow> []
      | Some r \<Rightarrow> [(''source'', JObj ([(''repositoryRef'', ref_to (gr_k8s_name r))] @
          unless_empty ''ref'' (ap_source_ref a)))])"

section \<open>Both ways of writing give the same spec\<close>

lemma dget_append: "dget (d @ e) k = (case dget d k of None \<Rightarrow> dget e k | Some v \<Rightarrow> Some v)"
  by (induction d) auto

lemma dget_unless_empty [simp]:
  "dget (unless_empty k x) k' = (if k' = k \<and> x \<noteq> [] then Some (JStr x) else None)"
  by (simp add: unless_empty_def)

lemma dget_name_of [simp]:
  "dget (name_of f k x) k' = (if k' = k then map_option (\<lambda>r. JStr (f r)) x else None)"
  by (simp add: name_of_def split: option.split)

lemma dget_opt [simp]: "dget (opt b k v) k' = (if k' = k \<and> b then Some v else None)"
  by (simp add: opt_def)

lemma dget_no_entries [simp]:
  "dget (unless_no_entries k xs) k' = (if k' = k \<and> xs \<noteq> [] then Some (JArr xs) else None)"
  by (simp add: unless_no_entries_def)

text \<open>An empty string and an absent field give the same spec.\<close>

lemma given_unless_empty:
  "given k JStr (if x \<noteq> [] then Some x else None) = unless_empty k x"
  by (simp add: given_def unless_empty_def)

text \<open>A record that could be saved has its required fields, its resource name among them.\<close>

definition linked :: "('a \<Rightarrow> string) \<Rightarrow> 'a option \<Rightarrow> bool" where
  "linked f x \<longleftrightarrow> (case x of None \<Rightarrow> True | Some r \<Rightarrow> f r \<noteq> [])"

lemma client_backends_agree:
  assumes "linked og_k8s_name (cl_organization c)"
  shows "map_option client_spec (read_client_body (client_api_body c)) = Some (client_k8s_spec c)"
  using assms
  by (auto simp: read_client_body_def client_api_body_def read_defs dget_append client_spec_def
      client_k8s_spec_def unless_empty_def ref_of_def given_def linked_def split: option.splits)

lemma environment_backends_agree:
  "map_option (environment_spec (cl_k8s_name (en_client e)))
     (read_environment_body (environment_api_body e)) = Some (environment_k8s_spec e)"
  by (simp add: read_environment_body_def environment_api_body_def read_defs environment_spec_def
      environment_k8s_spec_def present_def)

lemma domain_backends_agree:
  "map_option domain_spec (read_domain_body (domain_api_body d)) = Some (domain_k8s_spec d)"
  by (auto simp: read_domain_body_def domain_api_body_def read_defs dget_append domain_spec_def
      domain_k8s_spec_def unless_empty_def given_def)

lemma snapshot_backends_agree:
  "map_option snapshot_spec (read_snapshot_body (snapshot_api_body s)) = Some (snapshot_k8s_spec s)"
  by (simp add: read_snapshot_body_def snapshot_api_body_def read_defs snapshot_spec_def
      snapshot_k8s_spec_def)

lemma repository_backends_agree:
  assumes "linked cl_k8s_name (gr_preview_client r)"
  shows "map_option gitrepository_spec (read_repository_body (repository_api_body r)) =
    Some (repository_k8s_spec r)"
proof -
  have "read_preview (repository_api_body r) = Some (if gr_preview r
      then Some \<lparr> rp_enabled = True, rp_client = map_option cl_k8s_name (gr_preview_client r),
        rp_application_type = (if gr_preview_type r \<noteq> [] then Some (gr_preview_type r) else None) \<rparr>
      else None)"
    by (auto simp: read_preview_def repository_api_body_def read_defs dget_append split: option.splits)
  with assms show ?thesis
    by (auto simp: read_repository_body_def repository_api_body_def read_defs dget_append
        gitrepository_spec_def repository_k8s_spec_def unless_empty_def ref_of_def given_def
        linked_def split: option.splits)
qed

text \<open>
  An application's \<open>displayName\<close> is the only entry the API adds; it refuses a negative number of
  replicas and chart values that are no object, which the direct write lets through.
\<close>

definition refused_by_api :: "(string \<Rightarrow> json option) \<Rightarrow> yaml \<Rightarrow> portal_application \<Rightarrow> bool" where
  "refused_by_api loads y a \<longleftrightarrow> ap_replicas a < 0 \<or>
     (truthy (parse_values loads y (ap_values a)) \<and> \<not> is_obj (parse_values loads y (ap_values a)))"

definition application_read :: "(string \<Rightarrow> json option) \<Rightarrow> yaml \<Rightarrow> portal_application \<Rightarrow> application_body" where
  "application_read loads y a =
     \<lparr> ab_type = ty_k8s_name (ap_type a), ab_display_name = Some (ap_name a),
       ab_databases = (if ap_databases a = [] then None else Some (map database_entry (ap_databases a))),
       ab_sso = (if ap_sso a = [] then None else Some (map sso_entry (ap_sso a))),
       ab_env = (if ap_env a = [] then None else Some (map env_entry (ap_env a))),
       ab_replicas = (if ap_replicas a = 0 then None else Some (ap_replicas a)),
       ab_host = (if composed_host a = [] then None else Some (composed_host a)),
       ab_domain = map_option dm_k8s_name (ap_domain a),
       ab_values = (if truthy (parse_values loads y (ap_values a))
         then Some (jdict (parse_values loads y (ap_values a))) else None),
       ab_source = map_option (\<lambda>r. \<lparr> as_repository = gr_k8s_name r,
         as_ref = (if ap_source_ref a = [] then None else Some (ap_source_ref a)) \<rparr>) (ap_repository a) \<rparr>"

lemma entries_are_objects [simp]:
  "is_obj (database_entry d)" "is_obj (sso_entry x)" "is_obj (env_entry e)"
  by (simp_all add: database_entry_def sso_entry_def env_entry_def)

lemma dget_source [simp]:
  "dget (case r of None \<Rightarrow> [] | Some x \<Rightarrow> [(k, f x)]) k' = (if k' = k then map_option f r else None)"
  by (simp split: option.split)

lemma read_application:
  "read_application_body (application_api_body loads y a) =
     (if refused_by_api loads y a then None else Some (application_read loads y a))"
proof -
  let ?d = "application_api_body loads y a" and ?v = "parse_values loads y (ap_values a)"
  note body = application_api_body_def map_add_def read_defs
  have "read_source ?d = Some (ab_source (application_read loads y a))"
    by (auto simp: read_source_def body application_read_def Let_def split: option.split)
  moreover have "opt_positive ?d ''replicas'' =
      (if ap_replicas a < 0 then None else Some (ab_replicas (application_read loads y a)))"
    by (auto simp: body application_read_def Let_def)
  moreover have "opt_dict ?d ''values'' = (if truthy ?v \<and> \<not> is_obj ?v then None
      else Some (ab_values (application_read loads y a)))"
    by (cases ?v) (auto simp: body application_read_def Let_def split: option.split)
  moreover have "opt_dicts ?d ''databases'' = Some (ab_databases (application_read loads y a))"
    "opt_dicts ?d ''sso'' = Some (ab_sso (application_read loads y a))"
    "opt_dicts ?d ''env'' = Some (ab_env (application_read loads y a))"
    by (auto simp: body application_read_def Let_def list_all_iff)
  moreover have "req_str ?d ''type'' = Some (ab_type (application_read loads y a))"
    "opt_str ?d ''display_name'' = Some (ab_display_name (application_read loads y a))"
    "opt_str ?d ''host'' = Some (ab_host (application_read loads y a))"
    "opt_str ?d ''domain'' = Some (ab_domain (application_read loads y a))"
    by (auto simp: body application_read_def Let_def split: option.split)
  ultimately show ?thesis by (simp add: read_application_body_def refused_by_api_def)
qed

lemma dremove_append [simp]: "dremove k (d @ e) = dremove k d @ dremove k e"
  by (simp add: dremove_def)

lemma dremove_absent: "k \<notin> fst ` set d \<Longrightarrow> dremove k d = d"
  by (induction d) (auto simp: dremove_def)

lemma parts_agree [simp]:
  "some_list k (if xs = [] then None else Some (map f xs)) = unless_no_entries k (map f xs)"
  "given k g (if x = [] then None else Some x) = (if x \<noteq> [] then [(k, g x)] else [])"
  "linked h z \<Longrightarrow> given k ref_to (map_option h z) = ref_of h k z"
  by (auto simp: some_list_def unless_no_entries_def given_def linked_def ref_of_def split: option.split)

lemma application_backends_agree:
  assumes "\<not> refused_by_api loads y a" and "ap_name a \<noteq> []"
    and "linked dm_k8s_name (ap_domain a)" and "linked gr_k8s_name (ap_repository a)"
  shows "api_application_spec (en_k8s_name (ap_environment a)) (application_read loads y a) =
    take 2 (application_k8s_spec loads y a) @ [(''displayName'', JStr (ap_name a))] @
    drop 2 (application_k8s_spec loads y a)"
proof -
  let ?v = "parse_values loads y (ap_values a)" and ?b = "application_read loads y a"
  have v: "(case ab_values ?b of Some v \<Rightarrow> if v = [] then [] else [(''values'', JObj v)] | None \<Rightarrow> []) =
      opt (truthy ?v) ''values'' ?v"
    using assms(1) by (cases ?v) (auto simp: refused_by_api_def application_read_def opt_def)
  have r: "(case ab_replicas ?b of Some n \<Rightarrow> if n = 0 then [] else [(''replicas'', JInt n)] | None \<Rightarrow> []) =
      opt (ap_replicas a \<noteq> 0) ''replicas'' (JInt (ap_replicas a))"
    by (simp add: application_read_def opt_def)
  have "(case ab_source ?b of
        Some src \<Rightarrow>
          if as_repository src = [] then []
          else [(''source'', JObj ([(''repositoryRef'', ref_to (as_repository src))] @
                  given ''ref'' JStr (as_ref src)))]
      | None \<Rightarrow> []) =
     (case ap_repository a of
        None \<Rightarrow> []
      | Some r \<Rightarrow> [(''source'', JObj ([(''repositoryRef'', ref_to (gr_k8s_name r))] @
          unless_empty ''ref'' (ap_source_ref a)))])"
    using assms(4)
    by (auto simp: application_read_def linked_def unless_empty_def given_def split: option.split)
  with assms(2,3) v r show ?thesis
    by (simp add: api_application_spec_def application_k8s_spec_def application_read_def given_def
        [of "''displayName''"])
qed

text \<open>
  The API also fills in a server's defaults, so the two agree on a server that has them.
\<close>

definition server_complete :: "portal_server \<Rightarrow> bool" where
  "server_complete s \<longleftrightarrow>
     (if sr_external s then sr_host s \<noteq> [] \<and> sr_port s \<noteq> 0
      else sr_storage s \<noteq> [] \<and> 0 < sr_instances s)"

definition server_read :: "portal_server \<Rightarrow> database_server_body" where
  "server_read s =
     (let some = (\<lambda>x. if x = [] then None else Some x) in
      \<lparr> sb_engine = sr_engine s, sb_mode = server_mode s,
        sb_storage = (if sr_external s \<or> sr_storage s = [] then ''10Gi'' else sr_storage s),
        sb_storage_class = (if sr_external s then None else some (sr_storage_class s)),
        sb_instances = (if sr_external s \<or> sr_instances s = 0 then 1 else sr_instances s),
        sb_environment = map_option en_k8s_name (sr_environment s),
        sb_host = (if sr_external s then some (sr_host s) else None),
        sb_port = (if sr_external s \<and> sr_port s \<noteq> 0 then sr_port s else 5432),
        sb_ssl_mode = (if sr_external s then some (sr_ssl_mode s) else None),
        sb_admin_user = some (sr_admin_user s), sb_admin_openbao_path = some (sr_admin_path s) \<rparr>)"

lemma read_server:
  "read_database_server_body (server_api_body s) =
     (if \<not> sr_external s \<and> sr_instances s < 0 then None else Some (server_read s))"
proof -
  let ?d = "server_api_body s"
  note body = server_api_body_def map_add_def read_defs server_read_def Let_def
  have "Option.bind (def_int ?d ''instances'' 1) at_least_one =
      (if \<not> sr_external s \<and> sr_instances s < 0 then None else Some (sb_instances (server_read s)))"
    by (auto simp: body)
  moreover have "def_str ?d ''engine'' ''postgres'' = Some (sb_engine (server_read s))"
    "def_str ?d ''mode'' ''cnpg'' = Some (sb_mode (server_read s))"
    "def_str ?d ''storage'' ''10Gi'' = Some (sb_storage (server_read s))"
    "opt_str ?d ''storage_class'' = Some (sb_storage_class (server_read s))"
    by (auto simp: body)
  moreover have "opt_str ?d ''environment'' = Some (sb_environment (server_read s))"
    "opt_str ?d ''host'' = Some (sb_host (server_read s))"
    "def_int ?d ''port'' 5432 = Some (sb_port (server_read s))"
    "opt_str ?d ''ssl_mode'' = Some (sb_ssl_mode (server_read s))"
    by (auto simp: body split: option.split)
  moreover have "opt_str ?d ''admin_user'' = Some (sb_admin_user (server_read s))"
    "opt_str ?d ''admin_openbao_path'' = Some (sb_admin_openbao_path (server_read s))"
    by (auto simp: body)
  ultimately show ?thesis by (simp add: read_database_server_body_def)
qed

text \<open>Two JSON values that have the same leaves at every path, whatever the order of their keys.\<close>

definition leaf :: "json \<Rightarrow> string list \<Rightarrow> json option" where
  "leaf j ks = map_option (\<lambda>v. if is_obj v then JObj [] else v) (jpath j ks)"

definition same_json :: "json \<Rightarrow> json \<Rightarrow> bool" where
  "same_json a b \<longleftrightarrow> (\<forall>ks. leaf a ks = leaf b ks)"

lemma same_json_refl [simp]: "same_json a a"
  by (simp add: same_json_def)

lemma same_json_objI:
  assumes "\<And>k. rel_option same_json (dget d k) (dget e k)"
  shows "same_json (JObj d) (JObj e)"
  unfolding same_json_def
proof
  fix ks
  show "leaf (JObj d) ks = leaf (JObj e) ks"
  proof (cases ks)
    case Nil
    then show ?thesis by (simp add: leaf_def)
  next
    case (Cons k rest)
    have "rel_option same_json (dget d k) (dget e k)" by (rule assms)
    with Cons show ?thesis
      by (cases "dget d k"; cases "dget e k") (auto simp: leaf_def same_json_def)
  qed
qed

lemma rel_option_same [simp]: "rel_option same_json x x"
  by (cases x) simp_all

lemma server_backends_agree:
  assumes "server_complete s" and "linked en_k8s_name (sr_environment s)"
  shows "same_json (JObj (databaseserver_spec (server_read s))) (JObj (server_k8s_spec s))"
proof -
  let ?cnpg = "\<lambda>i c. JObj ([(''storage'', JStr (sr_storage s))] @ i @ c)"
  let ?i = "[(''instances'', JInt (sr_instances s))]"
  let ?c = "unless_empty ''storageClass'' (sr_storage_class s)"
  let ?env = "ref_of en_k8s_name ''environmentRef'' (sr_environment s)"
  let ?admin = "unless_nothing ''admin''
    (unless_empty ''user'' (sr_admin_user s) @ unless_empty ''openbaoPath'' (sr_admin_path s))"
  let ?head = "\<lambda>m. [(''engine'', JStr (sr_engine s)), (''mode'', JStr m)]"
  have env: "given ''environmentRef'' ref_to (sb_environment (server_read s)) = ?env"
    using assms(2) by (simp add: server_read_def Let_def)
  have admin: "(let admin = present ''user'' (sb_admin_user (server_read s)) @
        present ''openbaoPath'' (sb_admin_openbao_path (server_read s)) in
      if admin = [] then [] else [(''admin'', JObj admin)]) = ?admin"
    by (simp add: server_read_def Let_def present_def unless_nothing_def unless_empty_def)
  show ?thesis
  proof (cases "sr_external s")
    case True
    with assms(1) have "databaseserver_spec (server_read s) = server_k8s_spec s"
      unfolding databaseserver_spec_def env admin server_k8s_spec_def
      by (simp add: server_read_def server_complete_def server_mode_def Let_def present_def
          unless_nothing_def [of "''external''"] unless_empty_def opt_def)
    then show ?thesis by simp
  next
    case False
    have "databaseserver_spec (server_read s) = ?head ''cnpg'' @ [(''cnpg'', ?cnpg ?i ?c)] @ ?admin @ ?env"
      using False assms(1) unfolding databaseserver_spec_def env admin
      by (simp add: server_read_def server_complete_def server_mode_def Let_def unless_empty_def)
    moreover have "server_k8s_spec s = ?head ''cnpg'' @ [(''cnpg'', ?cnpg ?c ?i)] @ ?admin @ ?env"
      using False assms(1)
      by (simp add: server_k8s_spec_def server_complete_def server_mode_def
          unless_nothing_def [of "''cnpg''"] unless_empty_def opt_def)
    moreover have "same_json (?cnpg ?i ?c) (?cnpg ?c ?i)"
      by (rule same_json_objI) (simp add: map_add_def)
    ultimately show ?thesis by (simp only:) (rule same_json_objI, simp add: map_add_def)
  qed
qed

text \<open>C13. The two write backends agree. For every kind the portal writes, the spec the API builds from
  the body the portal sends is the spec the portal would apply itself: equal for clients,
  environments, domains, snapshots and repositories, equal up to the order of keys for a server
  that has its defaults, and equal with the display name added for an application, unless the
  API refuses it.
\<close>

theorem write_backends_agree:
  assumes "linked og_k8s_name (cl_organization c)" and "linked cl_k8s_name (gr_preview_client r)"
    and "ap_name a \<noteq> []" "linked dm_k8s_name (ap_domain a)" "linked gr_k8s_name (ap_repository a)"
    and "server_complete v" and "linked en_k8s_name (sr_environment v)"
  shows "map_option client_spec (read_client_body (client_api_body c)) = Some (client_k8s_spec c) \<and>
    map_option (environment_spec (cl_k8s_name (en_client e)))
      (read_environment_body (environment_api_body e)) = Some (environment_k8s_spec e) \<and>
    map_option domain_spec (read_domain_body (domain_api_body d)) = Some (domain_k8s_spec d) \<and>
    map_option snapshot_spec (read_snapshot_body (snapshot_api_body n)) = Some (snapshot_k8s_spec n) \<and>
    map_option gitrepository_spec (read_repository_body (repository_api_body r)) =
      Some (repository_k8s_spec r) \<and>
    map_option (api_application_spec (en_k8s_name (ap_environment a)))
      (read_application_body (application_api_body loads y a)) =
      (if refused_by_api loads y a then None
       else Some (take 2 (application_k8s_spec loads y a) @ [(''displayName'', JStr (ap_name a))] @
              drop 2 (application_k8s_spec loads y a))) \<and>
    (\<exists>spec. map_option databaseserver_spec (read_database_server_body (server_api_body v)) = Some spec \<and>
      same_json (JObj spec) (JObj (server_k8s_spec v)))"
proof -
  note client_backends_agree [OF assms(1)] repository_backends_agree [OF assms(2)]
    environment_backends_agree domain_backends_agree snapshot_backends_agree
  moreover have "map_option (api_application_spec (en_k8s_name (ap_environment a)))
       (read_application_body (application_api_body loads y a)) =
      (if refused_by_api loads y a then None
       else Some (take 2 (application_k8s_spec loads y a) @ [(''displayName'', JStr (ap_name a))] @
              drop 2 (application_k8s_spec loads y a)))"
    using application_backends_agree [OF _ assms(3-5)] by (simp add: read_application)
  moreover have "\<exists>spec. map_option databaseserver_spec (read_database_server_body (server_api_body v)) = Some spec \<and>
      same_json (JObj spec) (JObj (server_k8s_spec v))"
    using server_backends_agree [OF assms(6,7)] assms(6)
    by (auto simp: read_server server_complete_def)
  ultimately show ?thesis by (intro conjI)
qed

section \<open>A concrete estate\<close>

definition acme_org :: portal_organization where
  "acme_org = \<lparr> og_k8s_name = ''adomi'', og_name = ''Adomi'', og_base_domain = ''adomi.io'',
     og_odoo_image_repository = [], og_ingress_class = ''traefik'', og_configs = [] \<rparr>"

definition acme_inc :: portal_client where
  "acme_inc = \<lparr> cl_k8s_name = ''acme'', cl_name = ''Acme Inc.'', cl_slug = [],
     cl_organization = Some acme_org, cl_configs = [] \<rparr>"

definition acme_prod :: portal_environment where
  "acme_prod = \<lparr> en_k8s_name = ''production'', en_name = ''Production'', en_client = acme_inc,
     en_class = ''production'', en_namespace = [], en_configs = [] \<rparr>"

definition acme_domain :: portal_domain where
  "acme_domain = \<lparr> dm_k8s_name = ''acme-com'', dm_name = ''acme.com'', dm_client = acme_inc,
     dm_platform = False, dm_fqdn = ''Acme.com'', dm_platform_label = [], dm_wildcard = True,
     dm_issuer = [], dm_host = [] \<rparr>"

definition acme_server :: portal_server where
  "acme_server = \<lparr> sr_k8s_name = ''pg'', sr_name = ''pg'', sr_client = Some acme_inc,
     sr_environment = None, sr_engine = ''postgres'', sr_external = False,
     sr_storage = ''10Gi'', sr_storage_class = ''fast'', sr_instances = 1, sr_host = [],
     sr_port = 5432, sr_ssl_mode = [], sr_admin_user = [], sr_admin_path = [],
     sr_resolved_host = [] \<rparr>"

definition acme_repository :: portal_repository where
  "acme_repository = \<lparr> gr_k8s_name = ''erp'', gr_name = ''acme/erp'', gr_client = Some acme_inc,
     gr_url = ''https://github.com/acme/erp'', gr_default_branch = [], gr_credentials = [],
     gr_preview = True, gr_preview_client = Some acme_inc, gr_preview_type = ''odoo'' \<rparr>"

definition odoo_type :: portal_type where
  "odoo_type = \<lparr> ty_k8s_name = ''odoo'', ty_name = ''Odoo'', ty_repo_url = [], ty_chart = [],
     ty_path = [], ty_revision = [], ty_database_required = True, ty_sso_protocol = ''oauth2'',
     ty_description = [], ty_about = [], ty_icon = [], ty_logo_url = [], ty_image_urls = [],
     ty_category = [], ty_vendor = [], ty_website = [] \<rparr>"

definition acme_erp :: portal_application where
  "acme_erp = \<lparr> ap_k8s_name = ''erp'', ap_name = ''ERP'', ap_environment = acme_prod,
     ap_type = odoo_type, ap_replicas = 1, ap_domain = Some acme_domain, ap_subdomain = ''Erp'',
     ap_hostname = [], ap_databases = [], ap_sso = [], ap_env = [], ap_values = [],
     ap_repository = Some acme_repository, ap_source_ref = ''main'', ap_url = [], ap_phase = [],
     ap_namespace = [], ap_configs = [] \<rparr>"

lemmas estate_defs = acme_org_def acme_inc_def acme_prod_def acme_domain_def acme_server_def
  acme_repository_def odoo_type_def acme_erp_def

lemma write_backends_agree_witness:
  "map_option client_spec (read_client_body (client_api_body acme_inc)) =
     Some [(''displayName'', JStr ''Acme Inc.''), (''organizationRef'', ref_to ''adomi'')] \<and>
   map_option (api_application_spec ''production'')
     (read_application_body (application_api_body (\<lambda>t. None) numbered_yaml acme_erp)) =
     Some [(''environmentRef'', ref_to ''production''), (''type'', JStr ''odoo''),
       (''displayName'', JStr ''ERP''), (''replicas'', JInt 1),
       (''ingress'', JObj [(''host'', JStr ''erp.acme.com'')]), (''domainRef'', ref_to ''acme-com''),
       (''source'', JObj [(''repositoryRef'', ref_to ''erp''), (''ref'', JStr ''main'')])]"
proof -
  have hyps: "linked og_k8s_name (cl_organization acme_inc)" "linked cl_k8s_name (gr_preview_client acme_repository)"
    "ap_name acme_erp \<noteq> []" "linked dm_k8s_name (ap_domain acme_erp)"
    "linked gr_k8s_name (ap_repository acme_erp)" "server_complete acme_server"
    "linked en_k8s_name (sr_environment acme_server)"
    by (simp_all add: estate_defs linked_def server_complete_def)
  have "lower (strip ''Erp'' @ ''.'' @ strip ''Acme.com'') = ''erp.acme.com''" by code_simp
  then have host: "composed_host acme_erp = ''erp.acme.com''"
    by (simp add: composed_host_def estate_defs)
  have v: "parse_values (\<lambda>t. None) numbered_yaml (ap_values acme_erp) = JObj []"
    by (simp add: parse_values_def acme_erp_def)
  have "\<not> refused_by_api (\<lambda>t. None) numbered_yaml acme_erp"
    unfolding refused_by_api_def v by (simp add: acme_erp_def)
  moreover have "application_k8s_spec (\<lambda>t. None) numbered_yaml acme_erp =
      [(''environmentRef'', ref_to ''production''), (''type'', JStr ''odoo''), (''replicas'', JInt 1),
       (''ingress'', JObj [(''host'', JStr ''erp.acme.com'')]), (''domainRef'', ref_to ''acme-com''),
       (''source'', JObj [(''repositoryRef'', ref_to ''erp''), (''ref'', JStr ''main'')])]"
    unfolding application_k8s_spec_def host v
    by (simp add: estate_defs unless_no_entries_def opt_def ref_of_def unless_empty_def)
  moreover have "client_k8s_spec acme_inc =
      [(''displayName'', JStr ''Acme Inc.''), (''organizationRef'', ref_to ''adomi'')]"
    by (simp add: client_k8s_spec_def estate_defs unless_empty_def ref_of_def)
  moreover have "en_k8s_name (ap_environment acme_erp) = ''production''" "ap_name acme_erp = ''ERP''"
    by (simp_all add: estate_defs)
  ultimately show ?thesis
    using write_backends_agree [OF hyps, of _ _ _ "\<lambda>t. None" numbered_yaml] by simp
qed

end
