(* ===== verification/PortalSync.thy ===== *)
theory PortalSync
  imports PortalModels
begin

text \<open>
  \<open>models/k8s_mixin.py\<close>: the mixin that keeps a record and its custom resource in step, and
  the parts of the models it calls. The mixin's own fields are the record \<open>tracked\<close> around a
  model's record; the class attributes and methods a model overrides are the record \<open>synced\<close>.
  Writing the status fields and the chatter is Odoo's; \<open>fields.Datetime.now()\<close> is a parameter,
  in seconds. \<open>ir.config_parameter\<close> and the process environment are the record \<open>portal\<close>.
\<close>

section \<open>Configuration\<close>

record portal =
  pl_params :: "(string \<times> string) list"
  pl_environ :: "(string \<times> string) list"

definition get_param :: "portal \<Rightarrow> string \<Rightarrow> string \<Rightarrow> string" where
  "get_param p k x = sor (case dget (pl_params p) k of Some v \<Rightarrow> v | None \<Rightarrow> []) x"

definition getenv :: "portal \<Rightarrow> string \<Rightarrow> string" where
  "getenv p k = (case dget (pl_environ p) k of Some v \<Rightarrow> v | None \<Rightarrow> [])"

definition portal_namespace :: "portal \<Rightarrow> string" where
  "portal_namespace p = get_param p ''adomi_platform.namespace'' ''adomi-system''"

definition sync_enabled :: "portal \<Rightarrow> bool" where
  "sync_enabled p \<longleftrightarrow> get_param p ''adomi_platform.sync_enabled'' ''1'' = ''1''"

definition client_namespace_prefix :: "portal \<Rightarrow> string" where
  "client_namespace_prefix p = get_param p ''adomi_platform.client_namespace_prefix'' ''adomi-client-''"

definition write_backend :: "portal \<Rightarrow> string" where
  "write_backend p =
     sor (getenv p ''ADOMI_WRITE_BACKEND'') (get_param p ''adomi_platform.write_backend'' ''kubernetes'')"

definition platform_api :: "portal \<Rightarrow> exn + api_client" where
  "platform_api p =
     new_api_client
       (sor (getenv p ''ADOMI_PLATFORM_API_URL'') (get_param p ''adomi_platform.api_url'' []))
       (sor (getenv p ''ADOMI_PLATFORM_API_TOKEN'') (get_param p ''adomi_platform.api_token'' []))"

section \<open>What the mixin asks of a model\<close>

record synced =
  sy_plural :: string
  sy_kind :: string
  sy_cluster_scoped :: bool
  sy_k8s_name :: string
  sy_client_slug :: string
  sy_api_path :: string
  sy_api_body :: dict
  sy_spec :: dict

text \<open>The default \<open>_api_path\<close>.\<close>

definition default_api_path :: "string \<Rightarrow> string \<Rightarrow> string \<Rightarrow> string" where
  "default_api_path slug plural name = ''/v1/clients/'' @ slug @ ''/'' @ plural @ ''/'' @ name"

definition slug_of_client :: "portal_client option \<Rightarrow> string" where
  "slug_of_client c = (case c of Some x \<Rightarrow> cl_k8s_name x | None \<Rightarrow> [])"

definition organization_synced :: "portal_organization \<Rightarrow> synced" where
  "organization_synced g = \<lparr> sy_plural = ''organizations'', sy_kind = ''Organization'',
     sy_cluster_scoped = True, sy_k8s_name = og_k8s_name g, sy_client_slug = [],
     sy_api_path = [], sy_api_body = [], sy_spec = organization_k8s_spec g \<rparr>"

definition type_synced :: "portal_type \<Rightarrow> synced" where
  "type_synced t = \<lparr> sy_plural = ''applicationtypes'', sy_kind = ''ApplicationType'',
     sy_cluster_scoped = True, sy_k8s_name = ty_k8s_name t, sy_client_slug = [],
     sy_api_path = [], sy_api_body = [], sy_spec = type_k8s_spec t \<rparr>"

definition client_synced :: "portal_client \<Rightarrow> synced" where
  "client_synced c = \<lparr> sy_plural = ''clients'', sy_kind = ''Client'', sy_cluster_scoped = False,
     sy_k8s_name = cl_k8s_name c, sy_client_slug = cl_k8s_name c,
     sy_api_path = ''/v1/clients/'' @ cl_k8s_name c, sy_api_body = client_api_body c,
     sy_spec = client_k8s_spec c \<rparr>"

definition environment_synced :: "portal_environment \<Rightarrow> synced" where
  "environment_synced e = (let slug = cl_k8s_name (en_client e) in
     \<lparr> sy_plural = ''environments'', sy_kind = ''Environment'', sy_cluster_scoped = False,
       sy_k8s_name = en_k8s_name e, sy_client_slug = slug,
       sy_api_path = default_api_path slug ''environments'' (en_k8s_name e),
       sy_api_body = environment_api_body e, sy_spec = environment_k8s_spec e \<rparr>)"

definition domain_synced :: "portal_domain \<Rightarrow> synced" where
  "domain_synced d = (let slug = cl_k8s_name (dm_client d) in
     \<lparr> sy_plural = ''domains'', sy_kind = ''Domain'', sy_cluster_scoped = False,
       sy_k8s_name = dm_k8s_name d, sy_client_slug = slug,
       sy_api_path = default_api_path slug ''domains'' (dm_k8s_name d),
       sy_api_body = domain_api_body d, sy_spec = domain_k8s_spec d \<rparr>)"

definition server_synced :: "portal_server \<Rightarrow> synced" where
  "server_synced s = (let slug = slug_of_client (sr_client s) in
     \<lparr> sy_plural = ''databaseservers'', sy_kind = ''DatabaseServer'', sy_cluster_scoped = False,
       sy_k8s_name = sr_k8s_name s, sy_client_slug = slug,
       sy_api_path = default_api_path slug ''databaseservers'' (sr_k8s_name s),
       sy_api_body = server_api_body s, sy_spec = server_k8s_spec s \<rparr>)"

definition repository_synced :: "portal_repository \<Rightarrow> synced" where
  "repository_synced r = (let slug = slug_of_client (gr_client r) in
     \<lparr> sy_plural = ''gitrepositories'', sy_kind = ''GitRepository'', sy_cluster_scoped = False,
       sy_k8s_name = gr_k8s_name r, sy_client_slug = slug,
       sy_api_path = default_api_path slug ''gitrepositories'' (gr_k8s_name r),
       sy_api_body = repository_api_body r, sy_spec = repository_k8s_spec r \<rparr>)"

definition application_api_path :: "portal_application \<Rightarrow> string" where
  "application_api_path a =
     ''/v1/clients/'' @ cl_k8s_name (en_client (ap_environment a)) @ ''/environments/'' @
     en_k8s_name (ap_environment a) @ ''/applications/'' @ ap_k8s_name a"

definition application_synced ::
    "(string \<Rightarrow> json option) \<Rightarrow> yaml \<Rightarrow> portal_application \<Rightarrow> synced" where
  "application_synced loads y a =
     \<lparr> sy_plural = ''applications'', sy_kind = ''Application'', sy_cluster_scoped = False,
       sy_k8s_name = ap_k8s_name a, sy_client_slug = cl_k8s_name (en_client (ap_environment a)),
       sy_api_path = application_api_path a,
       sy_api_body = application_api_body loads y a, sy_spec = application_k8s_spec loads y a \<rparr>"

definition snapshot_synced :: "portal_snapshot \<Rightarrow> synced" where
  "snapshot_synced s = (let slug = cl_k8s_name (en_client (ap_environment (sn_application s))) in
     \<lparr> sy_plural = ''snapshots'', sy_kind = ''Snapshot'', sy_cluster_scoped = False,
       sy_k8s_name = sn_k8s_name s, sy_client_slug = slug,
       sy_api_path = default_api_path slug ''snapshots'' (sn_k8s_name s),
       sy_api_body = snapshot_api_body s, sy_spec = snapshot_k8s_spec s \<rparr>)"

section \<open>Pushing\<close>

datatype k8s_state = Pending | Unknown | NotReady | Ready

record 'r tracked =
  tk_record :: 'r
  tk_state :: k8s_state
  tk_message :: string
  tk_last_sync :: int

definition record_ns :: "portal \<Rightarrow> synced \<Rightarrow> string" where
  "record_ns p m =
     (if sy_cluster_scoped m then []
      else if sy_client_slug m \<noteq> [] then client_namespace_prefix p @ sy_client_slug m
      else portal_namespace p)"

definition k8s_body :: "portal \<Rightarrow> synced \<Rightarrow> dict" where
  "k8s_body p m =
     [(''apiVersion'', JStr PLATFORM_GROUP),
      (''kind'', JStr (sy_kind m)),
      (''metadata'', JObj
        ([(''name'', JStr (sy_k8s_name m))] @
         (if \<not> sy_cluster_scoped m then [(''namespace'', JStr (record_ns p m))] else []) @
         [(''labels'', JObj [(''app.kubernetes.io/managed-by'', JStr ''adomi-platform-management'')])])),
      (''spec'', JObj (sy_spec m))]"

definition by_api :: "portal \<Rightarrow> synced \<Rightarrow> bool" where
  "by_api p m \<longleftrightarrow> write_backend p = ''api'' \<and> sy_client_slug m \<noteq> []"

definition api_apply :: "portal \<Rightarrow> synced \<Rightarrow> json M" where
  "api_apply p m =
     bindM (of_result (platform_api p)) (\<lambda>a. ac_upsert a (sy_api_path m) (sy_api_body m))"

definition api_delete :: "portal \<Rightarrow> synced \<Rightarrow> json M" where
  "api_delete p m = bindM (of_result (platform_api p)) (\<lambda>a. ac_delete a (sy_api_path m))"

definition send :: "portal \<Rightarrow> synced \<Rightarrow> unit M" where
  "send p m =
     (if by_api p m then thenM (api_apply p m) (ret ())
      else thenM (portal_apply (sy_plural m) (sy_k8s_name m) (k8s_body p m) (record_ns p m)) (ret ()))"

text \<open>One record of \<open>_k8s_push\<close>: a failure is kept in the status fields.\<close>

definition push :: "portal \<Rightarrow> ('r \<Rightarrow> synced) \<Rightarrow> 'r tracked \<Rightarrow> 'r tracked M" where
  "push p model rec =
     (if sy_k8s_name (model (tk_record rec)) = [] then ret rec
      else tryM (thenM (send p (model (tk_record rec))) (ret rec))
        (\<lambda>e. ret (rec\<lparr>tk_state := Unknown, tk_message := ''Sync failed: '' @ exn_str e\<rparr>)))"

definition push_all :: "portal \<Rightarrow> ('r \<Rightarrow> synced) \<Rightarrow> 'r tracked list \<Rightarrow> 'r tracked list M" where
  "push_all p model recs = mapM (push p model) recs"

definition unlink_remote :: "portal \<Rightarrow> synced \<Rightarrow> unit M" where
  "unlink_remote p m =
     (if sy_k8s_name m = [] then ret ()
      else attempt (if by_api p m then thenM (api_delete p m) (ret ())
                    else portal_delete (sy_plural m) (sy_k8s_name m) (record_ns p m)))"

text \<open>\<open>create\<close>, \<open>write\<close> and \<open>unlink\<close> after the ORM's own work; \<open>quiet_ctx\<close> is \<open>adomi_no_push\<close>.\<close>

definition derive_name :: "string \<Rightarrow> string \<Rightarrow> string" where
  "derive_name k8s_name name = (if k8s_name = [] \<and> name \<noteq> [] then slugify name else k8s_name)"

definition after_write ::
    "portal \<Rightarrow> bool \<Rightarrow> ('r \<Rightarrow> synced) \<Rightarrow> 'r tracked list \<Rightarrow> 'r tracked list M" where
  "after_write p quiet_ctx model recs =
     (if sync_enabled p \<and> \<not> quiet_ctx then push_all p model recs else ret recs)"

definition before_unlink :: "portal \<Rightarrow> bool \<Rightarrow> synced list \<Rightarrow> unit M" where
  "before_unlink p quiet_ctx ms =
     (if sync_enabled p \<and> \<not> quiet_ctx then forM ms (unlink_remote p) else ret ())"

section \<open>Reading the status back\<close>

definition state_of_ready :: "string \<Rightarrow> k8s_state" where
  "state_of_ready r =
     (if r = ''True'' then Ready else if r = ''False'' then NotReady
      else if r = [] then Pending else Unknown)"

text \<open>
  \<open>_adomi_sync_variables\<close>. A row is found by its id, as an ORM record is; a row made here gets
  a new one. Creating a row checks the name pattern, whose end also matches before a newline.
\<close>

definition quiet_seconds :: int where
  "quiet_seconds = 600"

definition env_name_chars :: "char list" where
  "env_name_chars = CHR ''_'' # alnum_chars"

definition env_name :: "string \<Rightarrow> bool" where
  "env_name s \<longleftrightarrow> s \<noteq> [] \<and> hd s \<in> set (CHR ''_'' # upper_letters @ lower_letters) \<and>
     set s \<subseteq> set env_name_chars"

definition env_name_ok :: "string \<Rightarrow> bool" where
  "env_name_ok s \<longleftrightarrow> env_name s \<or> (s \<noteq> [] \<and> last s = newline \<and> env_name (butlast s))"

definition check_row_name :: "string \<Rightarrow> exn + unit" where
  "check_row_name name =
     (if env_name_ok name then Inr ()
      else Inl (ValidationError ''Names must look like environment variables (letters, digits, _).''))"

definition desired_variables :: "json \<Rightarrow> (string \<times> string) list" where
  "desired_variables obj = foldl (\<lambda>d var.
     if sget var ''name'' \<noteq> [] then dset (sget var ''name'') (sget var ''value'') d else d)
     [] (lget (oget obj ''spec'') ''variables'')"

definition existing_variables :: "config_row list \<Rightarrow> (string \<times> config_row) list" where
  "existing_variables rows =
     foldl (\<lambda>d r. dset (row_name r) r d) [] (filter (\<lambda>r. \<not> row_secret r) rows)"

definition fresh_id :: "config_row list \<Rightarrow> nat" where
  "fresh_id rows = Suc (foldr max (map row_id rows) 0)"

definition write_row :: "int \<Rightarrow> nat \<Rightarrow> string \<Rightarrow> config_row list \<Rightarrow> config_row list" where
  "write_row now i v rows =
     map (\<lambda>r. if row_id r = i then r\<lparr>row_value := v, row_touched := now\<rparr> else r) rows"

definition new_row :: "int \<Rightarrow> nat \<Rightarrow> string \<Rightarrow> string \<Rightarrow> config_row" where
  "new_row now i name v =
     \<lparr> row_id = i, row_name = name, row_secret = False, row_value = v, row_touched = now \<rparr>"

fun upsert_rows ::
    "int \<Rightarrow> (string \<times> config_row) list \<Rightarrow> (string \<times> string) list \<Rightarrow> config_row list \<Rightarrow>
     exn + config_row list" where
  "upsert_rows now existing [] rows = Inr rows"
| "upsert_rows now existing ((name, v) # ds) rows =
     (case dget existing name of
        None \<Rightarrow>
          bind_result (check_row_name name) (\<lambda>_.
            upsert_rows now existing ds (rows @ [new_row now (fresh_id rows) name v]))
      | Some r \<Rightarrow>
          upsert_rows now existing ds
            (if row_value r \<noteq> v \<and> row_touched r < now - quiet_seconds
             then write_row now (row_id r) v rows else rows))"

definition vanished :: "int \<Rightarrow> (string \<times> config_row) list \<Rightarrow> (string \<times> string) list \<Rightarrow> nat list" where
  "vanished now existing desired =
     map (row_id \<circ> snd) (filter (\<lambda>(name, r).
       dget desired name = None \<and> row_touched r < now - quiet_seconds) existing)"

definition sync_variables :: "int \<Rightarrow> json \<Rightarrow> config_row list \<Rightarrow> exn + config_row list" where
  "sync_variables now obj rows =
     (let desired = desired_variables obj; existing = existing_variables rows in
      bind_result (upsert_rows now existing desired rows) (\<lambda>rows'.
        Inr (filter (\<lambda>r. row_id r \<notin> set (vanished now existing desired)) rows')))"

text \<open>
  \<open>_k8s_apply_obj\<close>: \<open>status_vals\<close> are the model's own status fields, \<open>variables\<close> what the
  mirroring does to the model's rows (nothing, for a model that has none).
\<close>

definition apply_obj ::
    "(json \<Rightarrow> 'r \<Rightarrow> 'r) \<Rightarrow> (json \<Rightarrow> 'r \<Rightarrow> exn + 'r) \<Rightarrow> int \<Rightarrow> json \<Rightarrow> 'r tracked \<Rightarrow> exn + 'r tracked" where
  "apply_obj status_vals variables now obj rec =
     bind_result (variables obj (status_vals obj (tk_record rec))) (\<lambda>r.
       Inr (rec\<lparr>tk_record := r, tk_state := state_of_ready (ready obj),
         tk_message := ready_message obj, tk_last_sync := now\<rparr>))"

definition sync_one ::
    "portal \<Rightarrow> ('r \<Rightarrow> synced) \<Rightarrow> (json \<Rightarrow> 'r \<Rightarrow> 'r) \<Rightarrow> (json \<Rightarrow> 'r \<Rightarrow> exn + 'r) \<Rightarrow> int \<Rightarrow>
     'r tracked \<Rightarrow> 'r tracked M" where
  "sync_one p model status_vals variables now rec =
     (let m = model (tk_record rec) in
      bindM (portal_get (sy_plural m) (sy_k8s_name m) (record_ns p m)) (\<lambda>found. case found of
        None \<Rightarrow>
          ret (if by_api p m
               then rec\<lparr>tk_state := Pending, tk_last_sync := now, tk_message :=
                 ''Committed to the client repo; waiting for the platform to apply it.''\<rparr>
               else rec\<lparr>tk_state := Unknown, tk_last_sync := now,
                 tk_message := ''Not found in cluster.''\<rparr>)
      | Some obj \<Rightarrow> of_result (apply_obj status_vals variables now obj rec)))"

text \<open>The status fields and rows of each model.\<close>

definition rows_of :: "('r \<Rightarrow> config_row list) \<Rightarrow> (config_row list \<Rightarrow> 'r \<Rightarrow> 'r) \<Rightarrow> int \<Rightarrow>
    json \<Rightarrow> 'r \<Rightarrow> exn + 'r" where
  "rows_of get put now obj r =
     bind_result (sync_variables now obj (get r)) (\<lambda>rows. Inr (put rows r))"

definition no_rows :: "json \<Rightarrow> 'r \<Rightarrow> exn + 'r" where
  "no_rows obj r = Inr r"

definition environment_status_vals :: "json \<Rightarrow> portal_environment \<Rightarrow> portal_environment" where
  "environment_status_vals obj e = e\<lparr>en_namespace := sget (oget obj ''status'') ''namespace''\<rparr>"

definition domain_status_vals :: "json \<Rightarrow> portal_domain \<Rightarrow> portal_domain" where
  "domain_status_vals obj d = d\<lparr>dm_host := sget (oget obj ''status'') ''host''\<rparr>"

definition server_status_vals :: "json \<Rightarrow> portal_server \<Rightarrow> portal_server" where
  "server_status_vals obj s = s\<lparr>sr_resolved_host := sget (oget obj ''status'') ''host''\<rparr>"

definition application_status_vals :: "json \<Rightarrow> portal_application \<Rightarrow> portal_application" where
  "application_status_vals obj a = (let st = oget obj ''status'' in
     a\<lparr>ap_url := sget st ''url'', ap_phase := sget st ''phase'', ap_namespace := sget st ''namespace''\<rparr>)"

definition snapshot_status_vals :: "json \<Rightarrow> portal_snapshot \<Rightarrow> portal_snapshot" where
  "snapshot_status_vals obj s = (let st = oget obj ''status'' in
     s\<lparr>sn_location := sget st ''location'', sn_phase := sget st ''phase''\<rparr>)"

definition refresh_organization :: "int \<Rightarrow> json \<Rightarrow> portal_organization tracked \<Rightarrow> exn + portal_organization tracked" where
  "refresh_organization now =
     apply_obj (\<lambda>_ g. g) (rows_of og_configs (\<lambda>rows g. g\<lparr>og_configs := rows\<rparr>) now) now"

definition refresh_type :: "int \<Rightarrow> json \<Rightarrow> portal_type tracked \<Rightarrow> exn + portal_type tracked" where
  "refresh_type now = apply_obj (\<lambda>_ t. t) no_rows now"

definition refresh_client :: "int \<Rightarrow> json \<Rightarrow> portal_client tracked \<Rightarrow> exn + portal_client tracked" where
  "refresh_client now =
     apply_obj (\<lambda>_ c. c) (rows_of cl_configs (\<lambda>rows c. c\<lparr>cl_configs := rows\<rparr>) now) now"

definition refresh_environment :: "int \<Rightarrow> json \<Rightarrow> portal_environment tracked \<Rightarrow> exn + portal_environment tracked" where
  "refresh_environment now =
     apply_obj environment_status_vals (rows_of en_configs (\<lambda>rows e. e\<lparr>en_configs := rows\<rparr>) now) now"

definition refresh_domain :: "int \<Rightarrow> json \<Rightarrow> portal_domain tracked \<Rightarrow> exn + portal_domain tracked" where
  "refresh_domain now = apply_obj domain_status_vals no_rows now"

definition refresh_server :: "int \<Rightarrow> json \<Rightarrow> portal_server tracked \<Rightarrow> exn + portal_server tracked" where
  "refresh_server now = apply_obj server_status_vals no_rows now"

definition refresh_application :: "int \<Rightarrow> json \<Rightarrow> portal_application tracked \<Rightarrow> exn + portal_application tracked" where
  "refresh_application now =
     apply_obj application_status_vals (rows_of ap_configs (\<lambda>rows a. a\<lparr>ap_configs := rows\<rparr>) now) now"

definition refresh_snapshot :: "int \<Rightarrow> json \<Rightarrow> portal_snapshot tracked \<Rightarrow> exn + portal_snapshot tracked" where
  "refresh_snapshot now = apply_obj snapshot_status_vals no_rows now"

section \<open>Facts: mirroring variables\<close>

abbreviation plain_rows :: "config_row list \<Rightarrow> config_row list" where
  "plain_rows rows \<equiv> filter (\<lambda>r. \<not> row_secret r) rows"

text \<open>The ids are the ORM's; the names are what \<open>name_unique_per_scope\<close> is meant to keep distinct.\<close>

definition rows_ok :: "config_row list \<Rightarrow> bool" where
  "rows_ok rows \<longleftrightarrow> distinct (map row_id rows) \<and> distinct (map row_name (plain_rows rows))"

lemma dget_existing_fold:
  "distinct (map row_name vs) \<Longrightarrow>
   dget (foldl (\<lambda>d r. dset (row_name r) r d) d0 vs) n = (if \<exists>r \<in> set vs. row_name r = n
     then Some (THE r. r \<in> set vs \<and> row_name r = n) else dget d0 n)"
proof (induction vs arbitrary: d0)
  case Nil
  then show ?case by simp
next
  case (Cons x vs)
  have one: "(THE r. r \<in> set (x # vs) \<and> row_name r = row_name x) = x"
    using Cons.prems by (intro the_equality) (auto simp: image_iff)
  show ?case
  proof (cases "row_name x = n")
    case True
    with Cons one show ?thesis by (auto simp: image_iff)
  next
    case False
    then have "(\<lambda>r. r \<in> set (x # vs) \<and> row_name r = n) = (\<lambda>r. r \<in> set vs \<and> row_name r = n)"
      by auto
    with False Cons show ?thesis by simp
  qed
qed

lemma dget_existing:
  assumes "distinct (map row_name (plain_rows rows))"
  shows "dget (existing_variables rows) n = Some r \<longleftrightarrow> r \<in> set (plain_rows rows) \<and> row_name r = n"
proof -
  have u: "r = r'" if "r \<in> set (plain_rows rows)" "r' \<in> set (plain_rows rows)" "row_name r = row_name r'" for r r'
    using assms that unfolding distinct_map by (meson inj_onD)
  show ?thesis
  proof (cases "\<exists>r \<in> set (plain_rows rows). row_name r = n")
    case True
    then obtain r0 where r0: "r0 \<in> set (plain_rows rows)" "row_name r0 = n" by blast
    with u have "(THE r. r \<in> set (plain_rows rows) \<and> row_name r = n) = r0"
      by (intro the_equality) auto
    with True u r0 show ?thesis
      unfolding existing_variables_def dget_existing_fold [OF assms] by auto
  next
    case False
    then show ?thesis unfolding existing_variables_def dget_existing_fold [OF assms] by auto
  qed
qed

lemma wf_desired: "wf_dict (desired_variables obj)"
proof -
  have "wf_dict (foldl (\<lambda>d var. if sget var ''name'' \<noteq> []
      then dset (sget var ''name'') (sget var ''value'') d else d) d vs)" if "wf_dict d" for d vs
    using that by (induction vs arbitrary: d) auto
  then show ?thesis by (simp add: desired_variables_def)
qed

lemma wf_existing: "wf_dict (existing_variables rows)"
proof -
  have "wf_dict (foldl (\<lambda>d r. dset (row_name r) r d) d vs)" if "wf_dict d" for d and vs :: "config_row list"
    using that by (induction vs arbitrary: d) auto
  then show ?thesis by (simp add: existing_variables_def)
qed

text \<open>What the upserts do to one row.\<close>

fun updated ::
    "int \<Rightarrow> (string \<times> config_row) list \<Rightarrow> (string \<times> string) list \<Rightarrow> config_row \<Rightarrow> config_row" where
  "updated now existing [] r = r"
| "updated now existing ((name, v) # ds) r =
     updated now existing ds (case dget existing name of
        Some x \<Rightarrow> if row_value x \<noteq> v \<and> row_touched x < now - quiet_seconds \<and> row_id r = row_id x
          then r\<lparr>row_value := v, row_touched := now\<rparr> else r
      | None \<Rightarrow> r)"

lemma fresh_id_new: "r \<in> set rows \<Longrightarrow> row_id r < fresh_id rows"
proof -
  assume "r \<in> set rows"
  then have "row_id r \<le> foldr max (map row_id rows) 0" by (induction rows) auto
  then show ?thesis by (simp add: fresh_id_def)
qed

lemma updated_other:
  "(\<And>n x. dget existing n = Some x \<Longrightarrow> n \<in> fst ` set ds \<Longrightarrow> row_id x \<noteq> row_id r) \<Longrightarrow>
   updated now existing ds r = r"
proof (induction ds)
  case Nil
  then show ?case by simp
next
  case (Cons d ds)
  obtain n v where d: "d = (n, v)" by (cases d)
  have "updated now existing ds r = r" using Cons by auto
  moreover have "row_id r \<noteq> row_id x" if "dget existing n = Some x" for x
    using Cons.prems [OF that] d by simp
  ultimately show ?case using d by (simp split: option.split)
qed

lemma upsert_shape:
  assumes "upsert_rows now existing ds rows = Inr rows'"
    and "\<And>n x. dget existing n = Some x \<Longrightarrow> row_id x \<in> row_id ` set rows"
  shows "\<exists>news. rows' = map (updated now existing ds) rows @ news \<and>
    (\<forall>r \<in> set news. \<not> row_secret r \<and> (\<forall>n x. dget existing n = Some x \<longrightarrow> row_id x \<noteq> row_id r)) \<and>
    map (\<lambda>r. (row_name r, row_value r)) news = filter (\<lambda>d. dget existing (fst d) = None) ds"
  using assms
proof (induction ds arbitrary: rows)
  case Nil
  then show ?case by (simp add: map_idI)
next
  case (Cons d ds)
  obtain n v where d: "d = (n, v)" by (cases d)
  show ?case
  proof (cases "dget existing n")
    case None
    let ?new = "new_row now (fresh_id rows) n v"
    have fresh: "row_id x \<noteq> row_id ?new" if "dget existing m = Some x" for m x
      using Cons.prems(2) [OF that] fresh_id_new by (auto simp: new_row_def dest: fresh_id_new)
    have "upsert_rows now existing ds (rows @ [?new]) = Inr rows'"
      using Cons.prems(1) None d by (simp add: bind_result_Inr)
    from Cons.IH [OF this] Cons.prems(2) obtain news where
      n: "rows' = map (updated now existing ds) (rows @ [?new]) @ news"
      "\<forall>r \<in> set news. \<not> row_secret r \<and> (\<forall>n x. dget existing n = Some x \<longrightarrow> row_id x \<noteq> row_id r)"
      "map (\<lambda>r. (row_name r, row_value r)) news = filter (\<lambda>d. dget existing (fst d) = None) ds"
      by auto
    moreover have "updated now existing ds ?new = ?new" by (rule updated_other) (rule fresh)
    ultimately show ?thesis
      using d None fresh by (intro exI [of _ "?new # news"]) (auto simp: new_row_def)
  next
    case (Some x)
    let ?step = "\<lambda>r. if row_value x \<noteq> v \<and> row_touched x < now - quiet_seconds \<and> row_id r = row_id x
      then r\<lparr>row_value := v, row_touched := now\<rparr> else r"
    have step: "(if row_value x \<noteq> v \<and> row_touched x < now - quiet_seconds
        then write_row now (row_id x) v rows else rows) = map ?step rows"
      by (auto simp: write_row_def map_idI)
    have "upsert_rows now existing ds (map ?step rows) = Inr rows'"
      using Cons.prems(1) Some d step by simp
    moreover have "map row_id (map ?step rows) = map row_id rows" by simp
    then have "row_id ` set (map ?step rows) = row_id ` set rows" by (metis set_map)
    ultimately show ?thesis
      using Cons.IH [of "map ?step rows"] Cons.prems(2) d Some by (auto simp: comp_def)
  qed
qed

lemma updated_plain:
  assumes ok: "rows_ok rows" and r: "r \<in> set (plain_rows rows)" and "wf_dict ds"
  shows "updated now (existing_variables rows) ds r =
    (case dget ds (row_name r) of
       Some v \<Rightarrow> if row_value r \<noteq> v \<and> row_touched r < now - quiet_seconds
         then r\<lparr>row_value := v, row_touched := now\<rparr> else r
     | None \<Rightarrow> r)"
  using assms(3)
proof (induction ds)
  case Nil
  then show ?case by simp
next
  case (Cons d ds)
  let ?ex = "existing_variables rows"
  obtain n v where d: "d = (n, v)" by (cases d)
  have names: "distinct (map row_name (plain_rows rows))" and ids: "distinct (map row_id rows)"
    using ok by (simp_all add: rows_ok_def)
  have own: "dget ?ex (row_name r) = Some r" using dget_existing [OF names] r by blast
  have other: "row_id x \<noteq> row_id r" if "dget ?ex m = Some x" and "m \<noteq> row_name r" for m x
  proof
    assume "row_id x = row_id r"
    moreover have "x \<in> set rows" "row_name x = m" using dget_existing [OF names] that(1) by auto
    ultimately have "x = r" using ids r by (auto simp: distinct_map inj_on_def)
    with \<open>row_name x = m\<close> that(2) show False by simp
  qed
  show ?case
  proof (cases "n = row_name r")
    case True
    have later: "updated now ?ex ds r' = r'" if "row_id r' = row_id r" for r'
    proof (rule updated_other)
      fix m x assume "dget ?ex m = Some x" "m \<in> fst ` set ds"
      moreover have "m \<noteq> row_name r" using Cons.prems d True calculation(2) by (auto simp: wf_dict_def image_iff)
      ultimately show "row_id x \<noteq> row_id r'" using other that by metis
    qed
    from True d own show ?thesis by (simp add: later)
  next
    case False
    then have "updated now ?ex (d # ds) r = updated now ?ex ds r"
      using d other [of n] by (auto split: option.split)
    with Cons False d show ?thesis by (simp add: wf_dict_def)
  qed
qed

lemma updated_keeps [simp]:
  "row_id (updated now existing ds r) = row_id r"
  "row_name (updated now existing ds r) = row_name r"
  "row_secret (updated now existing ds r) = row_secret r"
  by (induction now existing ds r rule: updated.induct) (auto split: option.split)

lemma vanished_iff:
  assumes "wf_dict existing"
  shows "i \<in> set (vanished now existing desired) \<longleftrightarrow> (\<exists>n x. dget existing n = Some x \<and>
    dget desired n = None \<and> row_touched x < now - quiet_seconds \<and> row_id x = i)"
proof -
  have "(n, x) \<in> set existing \<longleftrightarrow> dget existing n = Some x" for n x
    using assms by (simp add: wf_dict_def)
  then show ?thesis by (force simp: vanished_def)
qed

text \<open>C25. Variables mirror the cluster, with what was just edited protected. Whatever the custom
  resource holds, a sync leaves every secret and every variable touched in the last ten minutes
  as it is; and a name with no such recent edit has, afterwards, exactly the value the resource
  declares, or no row when it declares none. A later sync therefore heals any divergence.
\<close>

theorem sync_variables_mirror:
  assumes ok: "rows_ok rows" and run: "sync_variables now obj rows = Inr rows'"
  shows "(\<forall>r \<in> set rows. row_secret r \<or> now - quiet_seconds \<le> row_touched r \<longrightarrow> r \<in> set rows') \<and>
    (\<forall>n. (\<forall>r \<in> set (plain_rows rows). row_name r = n \<longrightarrow> row_touched r < now - quiet_seconds) \<longrightarrow>
       (\<forall>v. (\<exists>r \<in> set (plain_rows rows'). row_name r = n \<and> row_value r = v) \<longleftrightarrow>
          dget (desired_variables obj) n = Some v))"
proof -
  let ?ex = "existing_variables rows" and ?ds = "desired_variables obj"
  let ?up = "updated now ?ex ?ds" and ?gone = "set (vanished now ?ex ?ds)"
  have names: "distinct (map row_name (plain_rows rows))" and ids: "distinct (map row_id rows)"
    using ok by (simp_all add: rows_ok_def)
  note look = dget_existing [OF names]
  have same: "x = r" if "x \<in> set rows" "r \<in> set rows" "row_id x = row_id r" for x r
    using ids that by (auto simp: distinct_map inj_on_def)
  from run obtain up where "upsert_rows now ?ex ?ds rows = Inr up"
    and rows': "rows' = filter (\<lambda>r. row_id r \<notin> ?gone) up"
    by (auto simp: sync_variables_def Let_def bind_result_Inr)
  with look obtain news where up: "up = map ?up rows @ news"
    and news: "\<And>r. r \<in> set news \<Longrightarrow> \<not> row_secret r \<and> (\<forall>n x. dget ?ex n = Some x \<longrightarrow> row_id x \<noteq> row_id r)"
    and made: "map (\<lambda>r. (row_name r, row_value r)) news = filter (\<lambda>d. dget ?ex (fst d) = None) ?ds"
    using upsert_shape [of now ?ex ?ds rows up] by auto
  have gone: "row_id r \<in> ?gone \<longleftrightarrow> \<not> row_secret r \<and> dget ?ds (row_name r) = None \<and>
      row_touched r < now - quiet_seconds" if "r \<in> set rows" for r
    unfolding vanished_iff [OF wf_existing] look using same that by fastforce
  have kept: "?up r = r \<and> row_id r \<notin> ?gone"
    if "r \<in> set rows" "row_secret r \<or> now - quiet_seconds \<le> row_touched r" for r
  proof (cases "row_secret r")
    case True
    have "?up r = r" by (rule updated_other) (use True look same that(1) in fastforce)
    with True gone that(1) show ?thesis by simp
  next
    case False
    with that updated_plain [OF ok _ wf_desired, of r now obj] gone [of r]
    show ?thesis by (simp split: option.split)
  qed
  have safe: "row_id r \<notin> ?gone" if "r \<in> set news" for r
    using news [OF that] unfolding vanished_iff [OF wf_existing] by blast
  show ?thesis
  proof (intro conjI allI ballI impI)
    fix r
    assume "r \<in> set rows" and "row_secret r \<or> now - quiet_seconds \<le> row_touched r"
    with kept [of r] show "r \<in> set rows'" unfolding rows' up by force
  next
    fix n v
    assume stale: "\<forall>r \<in> set (plain_rows rows). row_name r = n \<longrightarrow> row_touched r < now - quiet_seconds"
    have old: "row_value (?up r) = v" if "r \<in> set (plain_rows rows)" "row_name r = n" "dget ?ds n = Some v" for r v
      using updated_plain [OF ok that(1) wf_desired, of now obj] stale that by auto
    have new: "(\<exists>r \<in> set news. row_name r = n \<and> row_value r = v) \<longleftrightarrow> dget ?ex n = None \<and> dget ?ds n = Some v"
    proof -
      have "(\<exists>r \<in> set news. row_name r = n \<and> row_value r = v) \<longleftrightarrow>
          (n, v) \<in> set (map (\<lambda>r. (row_name r, row_value r)) news)" by auto
      also have "\<dots> \<longleftrightarrow> dget ?ex n = None \<and> dget ?ds n = Some v"
        unfolding made using wf_desired [of obj] by (auto simp: wf_dict_def)
      finally show ?thesis .
    qed
    have "(\<exists>r \<in> set (plain_rows rows'). row_name r = n \<and> row_value r = v) \<longleftrightarrow>
        (\<exists>r \<in> set (plain_rows rows). row_name r = n \<and> row_id r \<notin> ?gone \<and> row_value (?up r) = v) \<or>
        (\<exists>r \<in> set news. row_name r = n \<and> row_value r = v)"
    proof -
      have "set (plain_rows rows') = ?up ` {r \<in> set (plain_rows rows). row_id r \<notin> ?gone} \<union> set news"
        unfolding rows' up using news safe by auto
      then show ?thesis by (simp only: bex_Un bex_simps) auto
    qed
    also have "\<dots> \<longleftrightarrow> dget ?ds n = Some v"
    proof -
      have "(\<exists>r \<in> set (plain_rows rows). row_name r = n \<and> row_id r \<notin> ?gone \<and> row_value (?up r) = v) \<longleftrightarrow>
          dget ?ex n \<noteq> None \<and> dget ?ds n = Some v" (is "?left \<longleftrightarrow> ?right")
      proof
        assume ?left
        then obtain r where r: "r \<in> set (plain_rows rows)" "row_name r = n" "row_id r \<notin> ?gone"
          "row_value (?up r) = v" by blast
        with gone [of r] stale obtain w where "dget ?ds n = Some w" by auto
        with old [OF r(1,2)] r look [of n r] show ?right by simp
      next
        assume right: ?right
        then obtain x where x: "x \<in> set (plain_rows rows)" "row_name x = n" using look by auto
        with gone [of x] right old [OF x] show ?left by auto
      qed
      with new show ?thesis by auto
    qed
    finally show "(\<exists>r \<in> set (plain_rows rows'). row_name r = n \<and> row_value r = v) \<longleftrightarrow>
        dget ?ds n = Some v" .
  qed
qed

definition sample_rows :: "config_row list" where
  "sample_rows =
     [new_row 0 1 ''SMTP_HOST'' ''old'', new_row 5000 2 ''DEBUG'' ''1'', new_row 0 3 ''GONE'' ''x'',
      (new_row 0 4 ''API_KEY'' [])\<lparr>row_secret := True\<rparr>]"

definition sample_cr :: json where
  "sample_cr = JObj [(''spec'', JObj [(''variables'', JArr
     [JObj [(''name'', JStr ''SMTP_HOST''), (''value'', JStr ''mail'')],
      JObj [(''name'', JStr ''REGION''), (''value'', JStr ''eu'')]])])]"

lemma sync_variables_mirror_witness:
  "\<exists>rows'. sync_variables 5100 sample_cr sample_rows = Inr rows' \<and>
     rows' = [new_row 5100 1 ''SMTP_HOST'' ''mail'', new_row 5000 2 ''DEBUG'' ''1'',
       (new_row 0 4 ''API_KEY'' [])\<lparr>row_secret := True\<rparr>, new_row 5100 5 ''REGION'' ''eu''] \<and>
     new_row 5000 2 ''DEBUG'' ''1'' \<in> set rows' \<and>
     (\<exists>r \<in> set (plain_rows rows'). row_name r = ''REGION'' \<and> row_value r = ''eu'')"
proof -
  let ?rows = "[new_row 5100 1 ''SMTP_HOST'' ''mail'', new_row 5000 2 ''DEBUG'' ''1'',
      (new_row 0 4 ''API_KEY'' [])\<lparr>row_secret := True\<rparr>, new_row 5100 5 ''REGION'' ''eu'']"
  have ok: "rows_ok sample_rows" by code_simp
  have run: "sync_variables 5100 sample_cr sample_rows = Inr
     [new_row 5100 1 ''SMTP_HOST'' ''mail'', new_row 5000 2 ''DEBUG'' ''1'',
      (new_row 0 4 ''API_KEY'' [])\<lparr>row_secret := True\<rparr>, new_row 5100 5 ''REGION'' ''eu'']"
    by code_simp
  have "new_row 5000 2 ''DEBUG'' ''1'' \<in> set sample_rows"
    "5100 - quiet_seconds \<le> row_touched (new_row 5000 2 ''DEBUG'' ''1'')"
    "\<forall>r \<in> set (plain_rows sample_rows). row_name r = ''REGION'' \<longrightarrow> row_touched r < 5100 - quiet_seconds"
    "dget (desired_variables sample_cr) ''REGION'' = Some ''eu''"
    by code_simp+
  with sync_variables_mirror [OF ok run]
  have "new_row 5000 2 ''DEBUG'' ''1'' \<in> set ?rows"
    "\<exists>r \<in> set (plain_rows ?rows). row_name r = ''REGION'' \<and> row_value r = ''eu''"
    by blast+
  then show ?thesis using run by (intro exI [of _ ?rows] conjI refl)
qed

section \<open>A write of the portal is kept whatever the cluster answers\<close>

text \<open>The requests a push or a removal may make: the record's own path of the API, or its own object.\<close>

definition own_key :: "portal \<Rightarrow> synced \<Rightarrow> obj_key" where
  "own_key p m = (PLATFORM_GROUP, sy_plural m, record_ns p m, sy_k8s_name m)"

definition own_put :: "portal \<Rightarrow> synced \<Rightarrow> call \<Rightarrow> bool" where
  "own_put p m c \<longleftrightarrow> sy_k8s_name m \<noteq> [] \<and>
     (if by_api p m
      then (\<exists>a. platform_api p = Inr a \<and>
        c = Http ''PUT'' (ac_base a @ sy_api_path m) (ac_headers a) (JObj (sy_api_body m)))
      else touches (own_key p m) c)"

definition own_delete :: "portal \<Rightarrow> synced \<Rightarrow> call \<Rightarrow> bool" where
  "own_delete p m c \<longleftrightarrow> sy_k8s_name m \<noteq> [] \<and>
     (if by_api p m
      then (\<exists>a. platform_api p = Inr a \<and>
        c = Http ''DELETE'' (ac_base a @ sy_api_path m) (ac_headers a) JNull)
      else call_target c = Some (VDelete, own_key p m))"

lemma only_ac_request:
  "P (Http method (ac_base a @ path) (ac_headers a) payload) \<Longrightarrow> only P (ac_request a method path payload)"
  unfolding ac_request_def by (intro only_intros)

lemma only_platform_api:
  "(\<And>a. platform_api p = Inr a \<Longrightarrow> only P (f a)) \<Longrightarrow> only P (bindM (of_result (platform_api p)) f)"
  by (cases "platform_api p") (simp_all add: of_result_def only_raise)

lemma only_portal_apply: "only (touches (PLATFORM_GROUP, plural, ns, name)) (portal_apply plural name body ns)"
  using portal.apply_own [of "(plural, name, body, ns)"] by (simp add: portal_key_def portal_ensure_def)

lemma only_portal_delete:
  "only (\<lambda>c. call_target c = Some (VDelete, PLATFORM_GROUP, plural, ns, name)) (portal_delete plural name ns)"
  unfolding portal_delete_def delete_custom_def
  by (intro only_intros) simp

lemma only_push: "only (own_put p (model (tk_record r))) (push p model r)"
proof -
  let ?m = "model (tk_record r)"
  have "only (own_put p ?m) (send p ?m)" if "sy_k8s_name ?m \<noteq> []"
  proof (cases "by_api p ?m")
    case True
    with that show ?thesis
      unfolding send_def api_apply_def ac_upsert_def
      by simp (intro only_intros only_platform_api only_ac_request; simp add: own_put_def own_delete_def own_key_def)
  next
    case False
    with that show ?thesis
      unfolding send_def using only_mono [OF only_portal_apply]
      by simp (intro only_intros; simp add: own_put_def own_delete_def own_key_def)
  qed
  then show ?thesis unfolding push_def by (auto intro!: only_intros)
qed

lemma only_unlink_remote: "only (own_delete p m) (unlink_remote p m)"
proof (cases "sy_k8s_name m = []")
  case True
  then show ?thesis by (simp add: unlink_remote_def only_ret)
next
  case False
  have "only (own_delete p m) (thenM (api_delete p m) (ret ()))" if "by_api p m"
    unfolding api_delete_def ac_delete_def using that False
    by (intro only_intros only_platform_api only_ac_request) (simp add: own_delete_def)
  moreover have "only (own_delete p m) (portal_delete (sy_plural m) (sy_k8s_name m) (record_ns p m))"
    if "\<not> by_api p m"
    using that False by (intro only_mono [OF only_portal_delete]) (simp add: own_delete_def own_key_def)
  ultimately show ?thesis unfolding unlink_remote_def by (simp add: False only_attempt)
qed

lemma push_returns:
  "\<exists>b s'. push p model r env s = (Inr b, s') \<and> tk_record b = tk_record r \<and>
     (b = r \<or> tk_state b = Unknown)"
  by (auto simp: push_def tryM_def thenM_def bindM_def ret_def split: prod.split sum.split)

lemma push_all_returns:
  "\<exists>bs s'. push_all p model rs env s = (Inr bs, s') \<and> map tk_record bs = map tk_record rs"
proof (induction rs arbitrary: s)
  case Nil
  show ?case by (simp add: push_all_def ret_def)
next
  case (Cons r rs)
  obtain b s1 where "push p model r env s = (Inr b, s1)" "tk_record b = tk_record r"
    using push_returns by blast
  moreover obtain bs s2 where "push_all p model rs env s1 = (Inr bs, s2)" "map tk_record bs = map tk_record rs"
    using Cons by blast
  ultimately show ?case by (simp add: push_all_def bindM_def ret_def)
qed

lemma forM_returns:
  "(\<And>x s. \<exists>s'. f x env s = (Inr (), s')) \<Longrightarrow> \<exists>s'. forM xs f env s = (Inr (), s')"
proof (induction xs arbitrary: s)
  case (Cons x xs)
  then show ?case by (metis forM.simps(2) thenM_run)
qed (simp add: ret_def)

lemma before_unlink_returns: "\<exists>s'. before_unlink p q ms env s = (Inr (), s')"
proof -
  have "\<exists>s'. unlink_remote p m env s = (Inr (), s')" for m s
    by (simp add: unlink_remote_def attempt_returns) (simp add: ret_def)
  then show ?thesis by (auto simp: before_unlink_def ret_def intro: forM_returns)
qed

text \<open>C19. A user's edit is never lost to the cluster. Whatever the API or the Kubernetes server answers,
  writing and deleting records returns, with the records as the user left them, and the
  only requests are those that put or delete the resources of these very records; none is made
  for a record without a resource name, in a context that asks not to push, or with sync disabled.
\<close>

theorem portal_write_never_blocks:
  "(\<exists>recs' s'. after_write p no_push model recs env s = (Inr recs', s') \<and>
      map tk_record recs' = map tk_record recs) \<and>
   only (\<lambda>c. sync_enabled p \<and> \<not> no_push \<and> (\<exists>r. r \<in> set recs \<and>
      own_put p (model (tk_record r)) c))
     (after_write p no_push model recs) \<and>
   (\<exists>s'. before_unlink p no_push ms env s = (Inr (), s')) \<and>
   only (\<lambda>c. sync_enabled p \<and> \<not> no_push \<and> (\<exists>m. m \<in> set ms \<and> own_delete p m c))
     (before_unlink p no_push ms)"
proof (intro conjI)
  show "\<exists>recs' s'. after_write p no_push model recs env s = (Inr recs', s') \<and>
      map tk_record recs' = map tk_record recs"
    using push_all_returns [of p model recs env s] by (auto simp: after_write_def ret_def)
  show "only (\<lambda>c. sync_enabled p \<and> \<not> no_push \<and> (\<exists>r. r \<in> set recs \<and>
      own_put p (model (tk_record r)) c))
     (after_write p no_push model recs)"
    unfolding after_write_def push_all_def
    by (intro only_intros only_mono [OF only_push]) blast
  show "\<exists>s'. before_unlink p no_push ms env s = (Inr (), s')" by (rule before_unlink_returns)
  show "only (\<lambda>c. sync_enabled p \<and> \<not> no_push \<and> (\<exists>m. m \<in> set ms \<and> own_delete p m c))
     (before_unlink p no_push ms)"
    unfolding before_unlink_def
    by (intro only_intros only_mono [OF only_unlink_remote]) blast
qed

end
