(* ===== verification/PortalImport.thy ===== *)
theory PortalImport
  imports PortalSync
begin

text \<open>
  The reverse sync of the portal: \<open>_k8s_import_vals\<close> and \<open>_k8s_identity_domain\<close> of each model,
  and \<open>_adomi_import_one\<close>, \<open>_adomi_import_kind\<close> and \<open>ingest_status\<close> of \<open>models/k8s_mixin.py\<close>.
  A model's table is the list of its records in creation order; a search on another model is a
  parameter \<open>find_...\<close>. \<open>json.dump_json\<close> is the parameter \<open>dump_json\<close>. What the columns of a
  model accept (\<open>required\<close>, the values of a \<open>Selection\<close>, 32-bit integers, the unique constraint of
  the domains) is checked as a record is created; a sweep is one database transaction, which an
  error of the database aborts.
\<close>

section \<open>Which record a custom resource is\<close>

definition obj_name :: "json \<Rightarrow> string" where
  "obj_name obj = sget (oget obj ''metadata'') ''name''"

definition obj_client_slug :: "portal \<Rightarrow> json \<Rightarrow> string" where
  "obj_client_slug p obj =
     (let ns = sget (oget obj ''metadata'') ''namespace''; pre = client_namespace_prefix p in
      if pre \<noteq> [] \<and> starts_with pre ns then drop (length pre) ns else [])"

text \<open>The default identity domain is the name alone; a client narrows it.\<close>

definition narrowed :: "string \<Rightarrow> string \<Rightarrow> bool" where
  "narrowed slug owner \<longleftrightarrow> slug = [] \<or> owner = slug"

definition is_organization :: "json \<Rightarrow> portal_organization \<Rightarrow> bool" where
  "is_organization obj g \<longleftrightarrow> og_k8s_name g = obj_name obj"

definition is_type :: "json \<Rightarrow> portal_type \<Rightarrow> bool" where
  "is_type obj t \<longleftrightarrow> ty_k8s_name t = obj_name obj"

definition is_client :: "json \<Rightarrow> portal_client \<Rightarrow> bool" where
  "is_client obj c \<longleftrightarrow> cl_k8s_name c = obj_name obj"

definition is_environment :: "portal \<Rightarrow> json \<Rightarrow> portal_environment \<Rightarrow> bool" where
  "is_environment p obj e \<longleftrightarrow> en_k8s_name e = obj_name obj \<and>
     narrowed (sor (ref_name (oget obj ''spec'') ''clientRef'') (obj_client_slug p obj))
       (cl_k8s_name (en_client e))"

definition is_domain :: "portal \<Rightarrow> json \<Rightarrow> portal_domain \<Rightarrow> bool" where
  "is_domain p obj d \<longleftrightarrow> dm_k8s_name d = obj_name obj \<and>
     narrowed (obj_client_slug p obj) (cl_k8s_name (dm_client d))"

definition is_server :: "portal \<Rightarrow> json \<Rightarrow> portal_server \<Rightarrow> bool" where
  "is_server p obj s \<longleftrightarrow> sr_k8s_name s = obj_name obj \<and>
     narrowed (obj_client_slug p obj) (slug_of_client (sr_client s))"

definition is_repository :: "portal \<Rightarrow> json \<Rightarrow> portal_repository \<Rightarrow> bool" where
  "is_repository p obj r \<longleftrightarrow> gr_k8s_name r = obj_name obj \<and>
     narrowed (obj_client_slug p obj) (slug_of_client (gr_client r))"

definition is_application :: "portal \<Rightarrow> json \<Rightarrow> portal_application \<Rightarrow> bool" where
  "is_application p obj a \<longleftrightarrow> ap_k8s_name a = obj_name obj \<and>
     narrowed (obj_client_slug p obj) (cl_k8s_name (en_client (ap_environment a))) \<and>
     narrowed (ref_name (oget obj ''spec'') ''environmentRef'') (en_k8s_name (ap_environment a))"

definition is_snapshot :: "portal \<Rightarrow> json \<Rightarrow> portal_snapshot \<Rightarrow> bool" where
  "is_snapshot p obj s \<longleftrightarrow> sn_k8s_name s = obj_name obj \<and>
     narrowed (obj_client_slug p obj)
       (cl_k8s_name (en_client (ap_environment (sn_application s))))"

section \<open>The record made from a custom resource\<close>

text \<open>Each takes the resource name \<open>_adomi_import_one\<close> adds from the object itself.\<close>

definition lookup :: "(string \<Rightarrow> 'a option) \<Rightarrow> string \<Rightarrow> 'a option" where
  "lookup search ref = (if ref \<noteq> [] then search ref else None)"

definition organization_import :: "json \<Rightarrow> portal_organization option" where
  "organization_import obj = (let spec = oget obj ''spec'' in
     Some \<lparr> og_k8s_name = obj_name obj, og_name = obj_name obj,
       og_base_domain = sget (oget spec ''domain'') ''base'',
       og_odoo_image_repository = sget (oget spec ''images'') ''odooRepository'',
       og_ingress_class = sor (sget (oget spec ''ingress'') ''className'') ''traefik'',
       og_configs = [] \<rparr>)"

definition type_import :: "json \<Rightarrow> portal_type option" where
  "type_import obj =
     (let spec = oget obj ''spec''; chart = oget spec ''chart''; catalog = oget spec ''catalog'' in
      Some \<lparr> ty_k8s_name = obj_name obj,
        ty_name = sor (sget spec ''displayName'') (obj_name obj),
        ty_repo_url = sget chart ''repoURL'', ty_chart = sget chart ''chart'',
        ty_path = sget chart ''path'', ty_revision = sget chart ''targetRevision'',
        ty_database_required = truthy (jget (oget spec ''database'') ''required''),
        ty_sso_protocol = sget (oget spec ''sso'') ''protocol'',
        ty_description = sget catalog ''description'', ty_about = sget catalog ''about'',
        ty_icon = sget catalog ''icon'', ty_logo_url = sget catalog ''logoUrl'',
        ty_image_urls = join [newline] (map jstr (lget catalog ''images'')),
        ty_category = sget catalog ''category'', ty_vendor = sget catalog ''vendor'',
        ty_website = sget catalog ''websiteUrl'' \<rparr>)"

definition client_import ::
    "(string \<Rightarrow> portal_organization option) \<Rightarrow> json \<Rightarrow> portal_client option" where
  "client_import find_org obj = (let spec = oget obj ''spec'' in
     Some \<lparr> cl_k8s_name = obj_name obj,
       cl_name = sor (sget spec ''displayName'') (obj_name obj),
       cl_slug = sget spec ''slug'',
       cl_organization = lookup find_org (ref_name spec ''organizationRef''),
       cl_configs = [] \<rparr>)"

definition environment_import ::
    "(string \<Rightarrow> portal_client option) \<Rightarrow> json \<Rightarrow> portal_environment option" where
  "environment_import find_client obj = (let spec = oget obj ''spec'' in
     case lookup find_client (ref_name spec ''clientRef'') of
       None \<Rightarrow> None
     | Some c \<Rightarrow> Some \<lparr> en_k8s_name = obj_name obj,
         en_name = sor (sget spec ''displayName'') (obj_name obj), en_client = c,
         en_class = sor (sget spec ''class'') ''development'', en_namespace = [],
         en_configs = [] \<rparr>)"

definition base_domain_of :: "portal \<Rightarrow> portal_client \<Rightarrow> string" where
  "base_domain_of p c =
     strip (sor (case cl_organization c of Some g \<Rightarrow> og_base_domain g | None \<Rightarrow> [])
       (get_param p ''adomi_platform.base_domain'' []))"

definition domain_import ::
    "portal \<Rightarrow> (string \<Rightarrow> portal_client option) \<Rightarrow> json \<Rightarrow> portal_domain option" where
  "domain_import p find_client obj =
     (case lookup find_client (obj_client_slug p obj) of
        None \<Rightarrow> None
      | Some c \<Rightarrow>
          let spec = oget obj ''spec''; fqdn = norm_host (sget spec ''fqdn'');
              base = lower (base_domain_of p c);
              platform = (base \<noteq> [] \<and> ends_with (''.'' @ base) fqdn) in
          Some \<lparr> dm_k8s_name = obj_name obj, dm_name = sor fqdn (obj_name obj), dm_client = c,
            dm_platform = platform, dm_fqdn = fqdn,
            dm_platform_label = (if platform then take (length fqdn - length base - 1) fqdn else []),
            dm_wildcard = truthy (get_or spec ''wildcard'' (JBool True)),
            dm_issuer = sget spec ''issuer'', dm_host = [] \<rparr>)"

text \<open>A search for a name within a client, or in all when there is no client.\<close>

definition server_import ::
    "portal \<Rightarrow> (string \<Rightarrow> string \<Rightarrow> portal_environment option) \<Rightarrow> json \<Rightarrow> portal_server option" where
  "server_import p find_env obj =
     (let spec = oget obj ''spec''; cnpg = oget spec ''cnpg''; ext = oget spec ''external'';
          admin = oget spec ''admin'';
          environment = lookup (find_env (obj_client_slug p obj)) (ref_name spec ''environmentRef'') in
      Some \<lparr> sr_k8s_name = obj_name obj, sr_name = obj_name obj,
        sr_client = map_option en_client environment, sr_environment = environment,
        sr_engine = sor (sget spec ''engine'') ''postgres'',
        sr_external = (sor (sget spec ''mode'') ''cnpg'' = ''external''),
        sr_storage = sget cnpg ''storage'', sr_storage_class = sget cnpg ''storageClass'',
        sr_instances = jint (jor (jget cnpg ''instances'') (JInt 1)),
        sr_host = sget ext ''host'', sr_port = jint (jor (jget ext ''port'') (JInt 5432)),
        sr_ssl_mode = sget ext ''sslMode'', sr_admin_user = sget admin ''user'',
        sr_admin_path = sget admin ''openbaoPath'', sr_resolved_host = [] \<rparr>)"

definition database_import :: "json \<Rightarrow> app_database" where
  "database_import d = \<lparr> ad_name = sget d ''name'', ad_server = None,
     ad_server_name = sget d ''server'', ad_database_name = sget d ''databaseName'',
     ad_user = sget d ''user'', ad_secret = sget (oget d ''credentials'') ''secret'' \<rparr>"

definition sso_import :: "json \<Rightarrow> app_sso" where
  "sso_import x = \<lparr> ao_name = sget x ''name'', ao_protocol = sor (sget x ''protocol'') ''oauth2'',
     ao_redirect_uris = join [newline] (map jstr (lget x ''redirectUris'')),
     ao_secret = sget (oget x ''credentials'') ''secret'' \<rparr>"

definition env_import :: "json \<Rightarrow> app_env" where
  "env_import e = (let ref = oget (oget e ''valueFrom'') ''secretKeyRef'' in
     \<lparr> ae_name = sget e ''name'', ae_value = sget e ''value'', ae_secret_name = sget ref ''name'',
       ae_secret_key = sget ref ''key'' \<rparr>)"

definition host_vals :: "string \<Rightarrow> portal_domain option \<Rightarrow> string \<times> string" where
  "host_vals host domain =
     (let fqdn = (case domain of Some d \<Rightarrow> norm_host (dm_fqdn d) | None \<Rightarrow> []) in
      if host \<noteq> [] \<and> fqdn \<noteq> [] \<and> ends_with (''.'' @ fqdn) host
      then (take (length host - length fqdn - 1) host, []) else ([], host))"

definition application_import ::
    "portal \<Rightarrow> (json \<Rightarrow> string) \<Rightarrow> (string \<Rightarrow> string \<Rightarrow> portal_environment option) \<Rightarrow>
     (string \<Rightarrow> portal_type option) \<Rightarrow> (portal_client \<Rightarrow> string \<Rightarrow> portal_domain option) \<Rightarrow>
     (string \<Rightarrow> portal_repository option) \<Rightarrow> json \<Rightarrow> portal_application option" where
  "application_import p dump_json find_env find_type find_domain find_repo obj =
     (let spec = oget obj ''spec'' in
      case lookup (find_env (obj_client_slug p obj)) (ref_name spec ''environmentRef'') of
        None \<Rightarrow> None
      | Some e \<Rightarrow> (case lookup find_type (sget spec ''type'') of
          None \<Rightarrow> None
        | Some t \<Rightarrow>
            let domain = lookup (find_domain (en_client e)) (ref_name spec ''domainRef'');
                (subdomain, hostname) =
                  host_vals (norm_host (sget (oget spec ''ingress'') ''host'')) domain;
                source = oget spec ''source''; repo = ref_name source ''repositoryRef'' in
            Some \<lparr> ap_k8s_name = obj_name obj, ap_name = obj_name obj, ap_environment = e,
              ap_type = t, ap_replicas = jint (jor (jget spec ''replicas'') (JInt 1)),
              ap_domain = domain, ap_subdomain = subdomain, ap_hostname = hostname,
              ap_databases = map database_import (lget spec ''databases''),
              ap_sso = map sso_import (lget spec ''sso''),
              ap_env = map env_import (lget spec ''env''),
              ap_values = (if truthy (jget spec ''values'') then dump_json (jget spec ''values'') else []),
              ap_repository = lookup find_repo repo,
              ap_source_ref = (if repo \<noteq> [] then sget source ''ref'' else []),
              ap_url = [], ap_phase = [], ap_namespace = [], ap_configs = [] \<rparr>))"

text \<open>The default \<open>_k8s_import_vals\<close>: repositories and snapshots are not imported.\<close>

definition no_import :: "json \<Rightarrow> 'r option" where
  "no_import obj = None"

section \<open>What \<open>create\<close> accepts\<close>

text \<open>
  The errors of the database driver, by the name of their class. Python's own refusals (a value
  that is not of a \<open>Selection\<close>) come before the statement is sent.
\<close>

definition not_null_violation :: exn where
  "not_null_violation = PyError ''NotNullViolation''"

definition unique_violation :: exn where
  "unique_violation = PyError ''UniqueViolation''"

definition out_of_range :: exn where
  "out_of_range = PyError ''NumericValueOutOfRange''"

definition database_error :: "exn \<Rightarrow> bool" where
  "database_error e \<longleftrightarrow> e = not_null_violation \<or> e = unique_violation \<or> e = out_of_range"

definition wrong_value :: exn where
  "wrong_value = ValueError ''Wrong value''"

text \<open>The first demand that is not met.\<close>

fun demands :: "(bool \<times> exn) list \<Rightarrow> exn + unit" where
  "demands [] = Inr ()"
| "demands ((met, e) # rest) = (if met then demands rest else Inl e)"

text \<open>A \<open>Char\<close> column stores \<open>None\<close> and \<open>False\<close> as NULL, an integer column has 32 bits.\<close>

definition is_null :: "json \<Rightarrow> bool" where
  "is_null v \<longleftrightarrow> v = JNull \<or> v = JBool False"

definition int4 :: "int \<Rightarrow> bool" where
  "int4 i \<longleftrightarrow> - (2 ^ 31) \<le> i \<and> i < 2 ^ 31"

text \<open>Organizations and clients: only the names are required, and a resource has one.\<close>

definition no_checks :: "json \<Rightarrow> 'r \<Rightarrow> 'r tracked list \<Rightarrow> exn + unit" where
  "no_checks obj r db = Inr ()"

definition SSO_PROTOCOLS :: "string list" where
  "SSO_PROTOCOLS = [''oauth2'', ''proxy'']"

definition ENVIRONMENT_CLASSES :: "string list" where
  "ENVIRONMENT_CLASSES = [''production'', ''development'', ''pdi'', ''preview'', ''test'']"

definition type_accepts :: "json \<Rightarrow> portal_type \<Rightarrow> portal_type tracked list \<Rightarrow> exn + unit" where
  "type_accepts obj t db =
     demands [(ty_sso_protocol t = [] \<or> ty_sso_protocol t \<in> set SSO_PROTOCOLS, wrong_value)]"

definition environment_accepts ::
    "json \<Rightarrow> portal_environment \<Rightarrow> portal_environment tracked list \<Rightarrow> exn + unit" where
  "environment_accepts obj e db = demands [(en_class e \<in> set ENVIRONMENT_CLASSES, wrong_value)]"

text \<open>\<open>unique(client_id, fqdn)\<close>; a client is identified by its resource name.\<close>

definition domain_accepts ::
    "json \<Rightarrow> portal_domain \<Rightarrow> portal_domain tracked list \<Rightarrow> exn + unit" where
  "domain_accepts obj d db =
     demands [(\<forall>r \<in> set db. cl_k8s_name (dm_client (tk_record r)) = cl_k8s_name (dm_client d) \<longrightarrow>
                 dm_fqdn (tk_record r) \<noteq> dm_fqdn d, unique_violation)]"

definition server_accepts ::
    "json \<Rightarrow> portal_server \<Rightarrow> portal_server tracked list \<Rightarrow> exn + unit" where
  "server_accepts obj s db =
     demands [(sr_engine s = ''postgres'', wrong_value),
       (sor (sget (oget obj ''spec'') ''mode'') ''cnpg'' \<in> {''cnpg'', ''external''}, wrong_value),
       (int4 (sr_instances s), out_of_range), (int4 (sr_port s), out_of_range)]"

text \<open>
  The row of an application is inserted first, then its databases, its SSO entries and its
  environment lines, each list with one statement.
\<close>

definition line_named :: "json \<Rightarrow> bool" where
  "line_named x \<longleftrightarrow> \<not> is_null (jget x ''name'')"

definition has_secret :: "json \<Rightarrow> bool" where
  "has_secret x \<longleftrightarrow> sget (oget x ''credentials'') ''secret'' \<noteq> []"

definition application_accepts ::
    "json \<Rightarrow> portal_application \<Rightarrow> portal_application tracked list \<Rightarrow> exn + unit" where
  "application_accepts obj a db = (let spec = oget obj ''spec'' in
     demands [(int4 (ap_replicas a), out_of_range),
       (\<forall>d \<in> set (lget spec ''databases''). line_named d \<and> has_secret d, not_null_violation),
       (\<forall>x \<in> set (lget spec ''sso''). sor (sget x ''protocol'') ''oauth2'' \<in> set SSO_PROTOCOLS, wrong_value),
       (\<forall>x \<in> set (lget spec ''sso''). line_named x \<and> has_secret x, not_null_violation),
       (\<forall>e \<in> set (lget spec ''env''). line_named e, not_null_violation)])"

section \<open>Upserting\<close>

definition new_tracked :: "'r \<Rightarrow> 'r tracked" where
  "new_tracked r = \<lparr> tk_record = r, tk_state = Pending, tk_message = [], tk_last_sync = 0 \<rparr>"

fun update_first :: "('a \<Rightarrow> bool) \<Rightarrow> ('a \<Rightarrow> exn + 'a) \<Rightarrow> 'a list \<Rightarrow> exn + 'a list" where
  "update_first P f [] = Inr []"
| "update_first P f (x # xs) =
     (if P x then bind_result (f x) (\<lambda>y. Inr (y # xs))
      else bind_result (update_first P f xs) (\<lambda>ys. Inr (x # ys)))"

definition import_one ::
    "(json \<Rightarrow> 'r \<Rightarrow> bool) \<Rightarrow> (json \<Rightarrow> 'r option) \<Rightarrow>
     (json \<Rightarrow> 'r \<Rightarrow> 'r tracked list \<Rightarrow> exn + unit) \<Rightarrow> (json \<Rightarrow> 'r tracked \<Rightarrow> exn + 'r tracked) \<Rightarrow>
     json \<Rightarrow> 'r tracked list \<Rightarrow> exn + ('r tracked list \<times> bool)" where
  "import_one is_it made accepts refresh obj db =
     (if obj_name obj = [] then Inr (db, False)
      else if \<exists>r \<in> set db. is_it obj (tk_record r)
      then bind_result (update_first (\<lambda>r. is_it obj (tk_record r)) (refresh obj) db)
             (\<lambda>db'. Inr (db', True))
      else case made obj of
        None \<Rightarrow> Inr (db, False)
      | Some r \<Rightarrow> bind_result (accepts obj r db) (\<lambda>_.
          bind_result (refresh obj (new_tracked r)) (\<lambda>r'. Inr (db @ [r'], True))))"

text \<open>
  The sweep catches what one object raises and goes on with the next. After an exception of
  Python's the transaction goes on too; what the failed import leaves in the table is the ORM's,
  the parameter \<open>left\<close>. There is no savepoint around an object, so an error of the database aborts
  the transaction, the state \<open>None\<close>: the search every later import begins with fails.
\<close>

fun import_all ::
    "(json \<Rightarrow> 'r \<Rightarrow> bool) \<Rightarrow> (json \<Rightarrow> 'r option) \<Rightarrow>
     (json \<Rightarrow> 'r \<Rightarrow> 'r tracked list \<Rightarrow> exn + unit) \<Rightarrow> (json \<Rightarrow> 'r tracked \<Rightarrow> exn + 'r tracked) \<Rightarrow>
     (json \<Rightarrow> 'r tracked list \<Rightarrow> 'r tracked list) \<Rightarrow> json list \<Rightarrow> 'r tracked list option \<Rightarrow>
     nat \<Rightarrow> 'r tracked list option \<times> nat" where
  "import_all is_it made accepts refresh left [] t count = (t, count)"
| "import_all is_it made accepts refresh left (obj # objs) None count =
     import_all is_it made accepts refresh left objs None count"
| "import_all is_it made accepts refresh left (obj # objs) (Some db) count =
     (case import_one is_it made accepts refresh obj db of
        Inl e \<Rightarrow> import_all is_it made accepts refresh left objs
          (if database_error e then None else Some (left obj db)) count
      | Inr (db', found) \<Rightarrow> import_all is_it made accepts refresh left objs (Some db')
          (if found then Suc count else count))"

definition import_kind ::
    "string \<Rightarrow> (json \<Rightarrow> 'r \<Rightarrow> bool) \<Rightarrow> (json \<Rightarrow> 'r option) \<Rightarrow>
     (json \<Rightarrow> 'r \<Rightarrow> 'r tracked list \<Rightarrow> exn + unit) \<Rightarrow> (json \<Rightarrow> 'r tracked \<Rightarrow> exn + 'r tracked) \<Rightarrow>
     (json \<Rightarrow> 'r tracked list \<Rightarrow> 'r tracked list) \<Rightarrow> 
     'r tracked list option \<Rightarrow> ('r tracked list option \<times> nat) M" where
  "import_kind plural is_it made accepts refresh left t =
     bindM (portal_list plural [])
       (\<lambda>objs. ret (import_all is_it made accepts refresh left objs t 0))"

definition ingest_status ::
    "(json \<Rightarrow> 'r \<Rightarrow> bool) \<Rightarrow> (json \<Rightarrow> 'r option) \<Rightarrow>
     (json \<Rightarrow> 'r \<Rightarrow> 'r tracked list \<Rightarrow> exn + unit) \<Rightarrow> (json \<Rightarrow> 'r tracked \<Rightarrow> exn + 'r tracked) \<Rightarrow>
     json \<Rightarrow> 'r tracked list \<Rightarrow> exn + ('r tracked list \<times> bool)" where
  "ingest_status is_it made accepts refresh obj db =
     import_one is_it made accepts refresh (jor obj (JObj [])) db"

section \<open>Importing twice\<close>

text \<open>
  What a model owes the sweep: the record made from an object is the one the object's identity
  finds again, and a status refresh does not move it.
\<close>

locale importable =
  fixes is_it :: "json \<Rightarrow> 'r \<Rightarrow> bool"
    and made :: "json \<Rightarrow> 'r option"
    and accepts :: "json \<Rightarrow> 'r \<Rightarrow> 'r tracked list \<Rightarrow> exn + unit"
    and refresh :: "json \<Rightarrow> 'r tracked \<Rightarrow> exn + 'r tracked"
  assumes made_is_it: "obj_name obj \<noteq> [] \<Longrightarrow> made obj = Some new \<Longrightarrow> is_it obj new"
    and refresh_keeps: "refresh obj r = Inr r' \<Longrightarrow> is_it obj' (tk_record r') = is_it obj' (tk_record r)"
begin

definition hits :: "json \<Rightarrow> 'r tracked list \<Rightarrow> nat" where
  "hits obj db = length (filter (\<lambda>r. is_it obj (tk_record r)) db)"

lemma update_first_keeps:
  "update_first P (refresh obj) db = Inr db' \<Longrightarrow> hits obj' db' = hits obj' db \<and> length db' = length db"
proof (induction db arbitrary: db')
  case Nil
  then show ?case by simp
next
  case (Cons x xs)
  then show ?case
    by (auto simp: bind_result_Inr hits_def refresh_keeps split: if_splits)
qed

lemma hits_pos: "0 < hits obj db \<longleftrightarrow> (\<exists>r \<in> set db. is_it obj (tk_record r))"
  by (auto simp: hits_def filter_empty_conv)

lemma import_cases:
  assumes "import_one is_it made accepts refresh obj db = Inr (db', found)"
  obtains (nothing) "\<not> found" "db' = db"
    | (known) "found" "0 < hits obj db" "hits obj db' = hits obj db" "length db' = length db"
    | (created) r where "found" "hits obj db = 0" "db' = db @ [r]" "is_it obj (tk_record r)"
proof -
  consider "obj_name obj = []" | "obj_name obj \<noteq> []" "0 < hits obj db"
    | "obj_name obj \<noteq> []" "hits obj db = 0" by auto
  then show thesis
  proof cases
    case 1
    with assms have "\<not> found" "db' = db" by (simp_all add: import_one_def)
    then show thesis by (rule nothing)
  next
    case 2
    with assms obtain "found" and u: "update_first (\<lambda>r. is_it obj (tk_record r)) (refresh obj) db = Inr db'"
      by (auto simp: import_one_def bind_result_Inr hits_pos)
    with update_first_keeps [OF u, of obj] 2 known show thesis by simp
  next
    case 3
    then have none: "\<not> (\<exists>r \<in> set db. is_it obj (tk_record r))" by (metis hits_pos less_irrefl)
    show thesis
    proof (cases "made obj")
      case None
      with assms 3 none have "\<not> found" "db' = db" by (simp_all add: import_one_def)
      then show thesis by (rule nothing)
    next
      case (Some new)
      with assms 3 none obtain r where r: "refresh obj (new_tracked new) = Inr r" "db' = db @ [r]" "found"
        by (auto simp: import_one_def bind_result_Inr)
      moreover have "is_it obj (tk_record r)"
        using refresh_keeps [OF r(1)] made_is_it [OF 3(1) Some] by (simp add: new_tracked_def)
      ultimately show thesis using 3 created by blast
    qed
  qed
qed

lemma import_once:
  assumes "import_one is_it made accepts refresh obj db = Inr (db', found)"
  shows "hits obj db' = (if found then max 1 (hits obj db) else hits obj db)"
  using assms
proof (cases rule: import_cases)
  case (created r)
  then show ?thesis unfolding hits_def by simp
qed simp_all

lemma import_again:
  assumes "import_one is_it made accepts refresh obj db = Inr (db', True)"
    and again: "import_one is_it made accepts refresh obj db' = Inr (db'', found)"
  shows "found \<and> length db'' = length db' \<and> hits obj db'' = hits obj db'"
proof -
  have pos: "0 < hits obj db'" using import_once [OF assms(1)] by simp
  then have ex: "\<exists>r \<in> set db'. is_it obj (tk_record r)" by (simp add: hits_pos)
  from again show ?thesis
  proof (cases rule: import_cases)
    case nothing
    with assms ex show ?thesis
      by (auto simp: import_one_def bind_result_Inr split: if_splits option.splits)
  next
    case (created r)
    with pos show ?thesis by simp
  qed simp_all
qed

end

text \<open>Searches in the tables of other models.\<close>

definition find_named :: "('r \<Rightarrow> string) \<Rightarrow> 'r tracked list \<Rightarrow> string \<Rightarrow> 'r option" where
  "find_named f db n = map_option tk_record (List.find (\<lambda>r. f (tk_record r) = n) db)"

definition find_environment ::
    "portal_environment tracked list \<Rightarrow> string \<Rightarrow> string \<Rightarrow> portal_environment option" where
  "find_environment db slug n = map_option tk_record (List.find (\<lambda>r.
     en_k8s_name (tk_record r) = n \<and> narrowed slug (cl_k8s_name (en_client (tk_record r)))) db)"

lemma find_named_name: "find_named f db n = Some r \<Longrightarrow> f r = n"
  by (auto simp: find_named_def find_Some_iff)

lemma find_environment_ok:
  "find_environment db slug n = Some e \<Longrightarrow> en_k8s_name e = n \<and> narrowed slug (cl_k8s_name (en_client e))"
  by (auto simp: find_environment_def find_Some_iff)

lemma apply_obj_record:
  "apply_obj sv vs now obj r = Inr r' \<Longrightarrow> vs obj (sv obj (tk_record r)) = Inr (tk_record r')"
  by (auto simp: apply_obj_def bind_result_Inr)

lemma rows_of_Inr: "rows_of get put now obj r = Inr r' \<Longrightarrow> \<exists>rows. r' = put rows r"
  by (auto simp: rows_of_def bind_result_Inr)

interpretation clients: importable is_client "client_import find_org" no_checks "refresh_client now"
  for find_org now
proof
  fix obj obj' new r r'
  show "is_client obj new" if "client_import find_org obj = Some new"
    using that by (auto simp: client_import_def is_client_def Let_def)
  show "is_client obj' (tk_record r') = is_client obj' (tk_record r)"
    if "refresh_client now obj r = Inr r'"
    using apply_obj_record [OF that [unfolded refresh_client_def]]
    by (auto dest!: rows_of_Inr simp: is_client_def)
qed

interpretation environments: importable "is_environment p"
  "environment_import (find_named cl_k8s_name cs)" environment_accepts "refresh_environment now" for p cs now
proof
  fix obj obj' new r r'
  show "is_environment p obj new" if "environment_import (find_named cl_k8s_name cs) obj = Some new"
    using that by (auto simp: environment_import_def lookup_def is_environment_def narrowed_def
        sor_def Let_def dest: find_named_name split: option.splits if_splits)
  show "is_environment p obj' (tk_record r') = is_environment p obj' (tk_record r)"
    if "refresh_environment now obj r = Inr r'"
    using apply_obj_record [OF that [unfolded refresh_environment_def]]
    by (auto dest!: rows_of_Inr simp: is_environment_def environment_status_vals_def)
qed

interpretation domains: importable "is_domain p"
  "domain_import p (find_named cl_k8s_name cs)" domain_accepts "refresh_domain now" for p cs now
proof
  fix obj obj' new r r'
  show "is_domain p obj new" if "domain_import p (find_named cl_k8s_name cs) obj = Some new"
    using that by (auto simp: domain_import_def lookup_def is_domain_def narrowed_def Let_def
        dest: find_named_name split: option.splits if_splits)
  show "is_domain p obj' (tk_record r') = is_domain p obj' (tk_record r)"
    if "refresh_domain now obj r = Inr r'"
    using apply_obj_record [OF that [unfolded refresh_domain_def]]
    by (auto simp: no_rows_def is_domain_def domain_status_vals_def dest!: sym [of _ "tk_record r'"])
qed

interpretation applications: importable "is_application p"
  "application_import p dump_json (find_environment es) find_type find_domain find_repo"
  application_accepts "refresh_application now" for p dump_json es find_type find_domain find_repo now
proof
  fix obj obj' new r r'
  show "is_application p obj new"
    if "application_import p dump_json (find_environment es) find_type find_domain find_repo obj = Some new"
    using that by (auto simp: application_import_def lookup_def is_application_def narrowed_def Let_def
        dest!: find_environment_ok split: option.splits if_splits prod.splits)
  show "is_application p obj' (tk_record r') = is_application p obj' (tk_record r)"
    if "refresh_application now obj r = Inr r'"
    using apply_obj_record [OF that [unfolded refresh_application_def]]
    by (auto dest!: rows_of_Inr simp: is_application_def application_status_vals_def Let_def)
qed

definition settled ::
    "(json \<Rightarrow> 'r \<Rightarrow> bool) \<Rightarrow> (json \<Rightarrow> 'r option) \<Rightarrow>
     (json \<Rightarrow> 'r \<Rightarrow> 'r tracked list \<Rightarrow> exn + unit) \<Rightarrow> (json \<Rightarrow> 'r tracked \<Rightarrow> exn + 'r tracked) \<Rightarrow>
     json \<Rightarrow> 'r tracked list \<Rightarrow> bool" where
  "settled is_it made accepts refresh obj db \<longleftrightarrow>
     (let hits = (\<lambda>db. length (filter (\<lambda>r. is_it obj (tk_record r)) db)) in
      case import_one is_it made accepts refresh obj db of
        Inl _ \<Rightarrow> True
      | Inr (db', found) \<Rightarrow>
          hits db' = (if found then max 1 (hits db) else hits db) \<and>
          (case import_one is_it made accepts refresh obj db' of
             Inl _ \<Rightarrow> True
           | Inr (db'', found') \<Rightarrow> found \<longrightarrow> found' \<and> length db'' = length db' \<and> hits db'' = hits db'))"

context importable
begin

lemma settled_import: "settled is_it made accepts refresh obj db"
proof -
  have "hits obj db' = (if found then max 1 (hits obj db) else hits obj db) \<and>
      (\<forall>db'' found'. import_one is_it made accepts refresh obj db' = Inr (db'', found') \<longrightarrow> found \<longrightarrow>
         found' \<and> length db'' = length db' \<and> hits obj db'' = hits obj db')"
    if "import_one is_it made accepts refresh obj db = Inr (db', found)" for db' found
  proof (intro conjI allI impI)
    show "hits obj db' = (if found then max 1 (hits obj db) else hits obj db)"
      by (rule import_once [OF that])
  next
    fix db'' found'
    assume "import_one is_it made accepts refresh obj db' = Inr (db'', found')" and found
    with import_again [OF that [simplified \<open>found\<close>]]
    show "found'" "length db'' = length db'" "hits obj db'' = hits obj db'" by simp_all
  qed
  then show ?thesis by (simp add: settled_def Let_def hits_def split: sum.split) blast
qed

end

text \<open>C26. The reverse sync settles. Importing a custom resource as a client, an environment, a domain
  or an application leaves at most one record with its identity more than there were, and one
  only if there was none; importing it again finds that record and adds none.
\<close>

theorem import_settles:
  "settled is_client (client_import find_org) no_checks (refresh_client now) obj clients \<and>
   settled (is_environment p) (environment_import (find_named cl_k8s_name clients))
     environment_accepts (refresh_environment now) obj environments \<and>
   settled (is_domain p) (domain_import p (find_named cl_k8s_name clients))
     domain_accepts (refresh_domain now) obj domains \<and>
   settled (is_application p)
     (application_import p dump_json (find_environment environments) find_type find_domain find_repo)
     application_accepts (refresh_application now) obj apps"
  by (intro conjI clients.settled_import environments.settled_import domains.settled_import
      applications.settled_import)

text \<open>
  Not so a database server that belongs to a client but to no environment: its import forgets the
  client, so the sweep does not find it again and makes another one.
\<close>

definition stray_server :: json where
  "stray_server = JObj [(''metadata'', JObj [(''name'', JStr ''pg''), (''namespace'', JStr ''adomi-client-acme'')]),
     (''spec'', JObj [(''engine'', JStr ''postgres''), (''mode'', JStr ''cnpg'')])]"

lemma server_imported_again:
  "(case import_one (is_server p) (server_import p find_env) server_accepts (refresh_server now) stray_server [] of
      Inr (db, _) \<Rightarrow>
        (case import_one (is_server p) (server_import p find_env) server_accepts (refresh_server now) stray_server db of
           Inr (db', _) \<Rightarrow> length db' = 2
         | _ \<Rightarrow> False)
    | _ \<Rightarrow> False)"
  if "p = \<lparr> pl_params = [], pl_environ = [] \<rparr>"
  unfolding that by code_simp

end
