(* ===== verification/PortalRoundtrip.thy ===== *)
theory PortalRoundtrip
  imports PortalImport
begin

text \<open>
  What the portal writes it can read back: a record imported from the custom resource another
  portal wrote writes the same spec again, and publishes the application at the same host.
\<close>

section \<open>The object as written\<close>

definition written :: "portal \<Rightarrow> synced \<Rightarrow> json" where
  "written p m = JObj (k8s_body p m)"

lemma written_simps [simp]:
  "oget (written p m) ''spec'' = JObj (sy_spec m)"
  "obj_name (written p m) = sy_k8s_name m"
  by (simp_all add: written_def k8s_body_def oget_def obj_name_def sget_def jor_def)

lemma prefix_not_empty: "client_namespace_prefix p \<noteq> []"
  by (simp add: client_namespace_prefix_def get_param_def sor_def)

lemma written_slug [simp]:
  "\<not> sy_cluster_scoped m \<Longrightarrow> sy_client_slug m \<noteq> [] \<Longrightarrow>
   obj_client_slug p (written p m) = sy_client_slug m"
  using prefix_not_empty [of p]
  by (simp add: obj_client_slug_def written_def k8s_body_def record_ns_def oget_def sget_def jor_def)

section \<open>Fields read back\<close>

lemma jget_app: "jget (JObj (d @ e)) k = (case dget d k of Some v \<Rightarrow> v | None \<Rightarrow> jget (JObj e) k)"
  by (auto simp: map_add_def split: option.split)

lemma jget_parts [simp]:
  "jget (JObj (unless_empty k x)) k' = (if k' = k \<and> x \<noteq> [] then JStr x else JNull)"
  "jget (JObj (opt b k v)) k' = (if k' = k \<and> b then v else JNull)"
  "jget (JObj (unless_no_entries k xs)) k' = (if k' = k \<and> xs \<noteq> [] then JArr xs else JNull)"
  by (simp_all add: unless_empty_def opt_def unless_no_entries_def)

lemma dget_parts [simp]:
  "dget (ref_of f k x) k' = (if k' = k then map_option (\<lambda>r. ref_to (f r)) x else None)"
  "dget (unless_nothing k d) k' = (if k' = k \<and> d \<noteq> [] then Some (JObj d) else None)"
  by (simp_all add: ref_of_def unless_nothing_def split: option.split)

lemma read_str [simp]: "jstr (jor (JStr s) (JStr [])) = s"
  by (cases s) simp_all

text \<open>Lines that were stripped and joined are the same lines again.\<close>

definition plain_line :: "string \<Rightarrow> bool" where
  "plain_line l \<longleftrightarrow> l \<noteq> [] \<and> strip l = l \<and> set l \<inter> set line_ends = {}"

lemma splitlines_append:
  "set l \<inter> set line_ends = {} \<Longrightarrow> l \<noteq> [] \<Longrightarrow> splitlines (l @ newline # s) = l # splitlines s"
proof (induction l)
  case Nil
  then show ?case by simp
next
  case (Cons c l)
  have nl: "newline \<in> set line_ends" "newline \<noteq> CHR 0x0D" by code_simp+
  have cr: "CHR 0x0D \<in> set line_ends" by code_simp
  show ?case
  proof (cases l)
    case Nil
    with Cons.prems nl cr show ?thesis by auto
  next
    case (Cons d l')
    with Cons.IH Cons.prems cr show ?thesis by auto
  qed
qed

lemma splitlines_single: "set l \<inter> set line_ends = {} \<Longrightarrow> l \<noteq> [] \<Longrightarrow> splitlines l = [l]"
proof (induction l)
  case Nil
  then show ?case by simp
next
  case (Cons c l)
  have cr: "CHR 0x0D \<in> set line_ends" by code_simp
  with Cons show ?case by (cases l) auto
qed

lemma splitlines_join:
  "(\<forall>l \<in> set ls. plain_line l) \<Longrightarrow> splitlines (join [newline] ls) = ls"
proof (induction ls rule: induct_list012)
  case 1
  then show ?case by simp
next
  case (2 x)
  then show ?case by (simp add: splitlines_single plain_line_def)
next
  case (3 x y zs)
  then show ?case by (simp add: splitlines_append plain_line_def)
qed

lemma splitlines_no_ends: "l \<in> set (splitlines s) \<Longrightarrow> set l \<inter> set line_ends = {}"
proof (induction s arbitrary: l)
  case Nil
  then show ?case by simp
next
  case (Cons c s)
  have "newline \<in> set line_ends" by code_simp
  with Cons show ?case by (auto split: if_splits list.splits) (force)+
qed

lemma strip_idem [simp]: "strip (strip s) = strip s"
  by (simp add: strip_def)

lemma stripped_lines_plain: "l \<in> set (stripped_lines s) \<Longrightarrow> plain_line l"
  unfolding stripped_lines_def plain_line_def
  using splitlines_no_ends set_strip_of by (fastforce simp: strip_def)

lemma stripped_lines_join [simp]:
  "stripped_lines (join [newline] (stripped_lines s)) = stripped_lines s"
proof -
  have p: "\<forall>l \<in> set (stripped_lines s). plain_line l" using stripped_lines_plain by blast
  then have "splitlines (join [newline] (stripped_lines s)) = stripped_lines s"
    by (rule splitlines_join)
  moreover have "filter (\<lambda>l. l \<noteq> []) (map strip (stripped_lines s)) = stripped_lines s"
    using p by (subst map_idI) (auto simp: plain_line_def filter_id_conv)
  ultimately show ?thesis by (simp add: stripped_lines_def [of "join _ _"])
qed

lemma stripped_lines_Nil [simp]: "stripped_lines [] = []"
  by (simp add: stripped_lines_def)

lemma entries_read_back [simp]:
  "database_entry (database_import (database_entry d)) = database_entry d"
  "ao_protocol x \<noteq> [] \<Longrightarrow> sso_entry (sso_import (sso_entry x)) = sso_entry x"
  "env_entry (env_import (env_entry e)) = env_entry e"
proof -
  show "database_entry (database_import (database_entry d)) = database_entry d"
    by (auto simp: database_entry_def database_import_def sget_def oget_def jor_def map_add_def
        unless_empty_def sor_def)
  show "sso_entry (sso_import (sso_entry x)) = sso_entry x" if "ao_protocol x \<noteq> []"
    using that by (auto simp: sso_entry_def sso_import_def sget_def oget_def lget_def jor_def
        strs_def sor_def comp_def)
  show "env_entry (env_import (env_entry e)) = env_entry e"
    by (auto simp: env_entry_def env_import_def sget_def oget_def jor_def Let_def sor_def)
qed

section \<open>The host an application is published at\<close>

lemma lower_char_idem: "lower_char (lower_char c) = lower_char c"
proof -
  have d: "\<forall>d \<in> set lower_letters. lower_char d = d" by code_simp
  have r: "map_of (zip upper_letters lower_letters) c = Some d \<Longrightarrow> d \<in> set lower_letters" for c d
    using map_of_SomeD [of "zip upper_letters lower_letters" c d] by (auto dest: set_zip_rightD)
  show ?thesis
  proof (cases "map_of (zip upper_letters lower_letters) c")
    case None
    then show ?thesis by (simp add: lower_char_def)
  next
    case (Some e)
    with r d have "lower_char e = e" by blast
    with Some show ?thesis by (simp add: lower_char_def [of c])
  qed
qed

lemma lower_idem [simp]: "lower (lower s) = lower s"
  by (simp add: lower_def lower_char_idem)

lemma lower_append [simp]: "lower (s @ t) = lower s @ lower t"
  by (simp add: lower_def)

lemma lower_Nil_iff [simp]: "lower s = [] \<longleftrightarrow> s = []"
  by (simp add: lower_def)

lemma lower_dot [simp]: "lower (CHR ''.'' # s) = CHR ''.'' # lower s"
proof -
  have "lower_char CHR ''.'' = CHR ''.''" by code_simp
  then show ?thesis by (simp add: lower_def)
qed

lemma composed_host_lower: "lower (composed_host a) = composed_host a"
  by (simp add: composed_host_def norm_host_def split: option.split del: lower_append)

text \<open>A host name: no blanks in it, and no dot at its start.\<close>

definition host_name :: "string \<Rightarrow> bool" where
  "host_name h \<longleftrightarrow> set h \<inter> set py_ws = {} \<and> \<not> starts_with ''.'' h"

lemma strip_no_blanks: "set h \<inter> set py_ws = {} \<Longrightarrow> strip h = h"
  unfolding strip_def by (rule strip_of_id) (metis disjoint_iff hd_in_set last_in_set)

lemma ends_with_iff: "ends_with p s \<longleftrightarrow> (\<exists>r. s = r @ p)"
proof
  assume "ends_with p s"
  then obtain z where "rev s = rev p @ z"
    by (auto simp: ends_with_def starts_with_iff_prefix prefix_def)
  then have "s = rev z @ p" by (metis rev_append rev_rev_ident)
  then show "\<exists>r. s = r @ p" ..
qed (auto simp: ends_with_def starts_with_iff_prefix)

lemma host_vals_compose:
  assumes h: "host_name h" and low: "lower h = h"
    and vals: "host_vals (norm_host h) domain = (sub, hostname)"
    and b: "ap_subdomain b = sub" "ap_hostname b = hostname" "ap_domain b = domain"
  shows "composed_host b = h"
proof -
  have n: "norm_host h = h" using h low by (simp add: norm_host_def host_name_def strip_no_blanks)
  let ?fqdn = "case domain of Some d \<Rightarrow> norm_host (dm_fqdn d) | None \<Rightarrow> []"
  show ?thesis
  proof (cases "h \<noteq> [] \<and> ?fqdn \<noteq> [] \<and> ends_with (''.'' @ ?fqdn) h")
    case True
    then obtain d where d: "domain = Some d" by (cases domain) auto
    from True obtain r where r: "h = r @ ''.'' @ norm_host (dm_fqdn d)"
      using d by (auto simp: ends_with_iff)
    have sub: "sub = r" "hostname = []" using vals n True d r by (auto simp: host_vals_def)
    have "r \<noteq> []" using h r by (auto simp: host_name_def starts_with_def)
    moreover have "strip r = r" using h r by (intro strip_no_blanks) (auto simp: host_name_def)
    moreover have "length (lower r) = length r" by (simp add: lower_def)
    then have "lower r = r" using low unfolding r lower_append by (metis append_eq_append_conv)
    moreover note this
    moreover have "dm_fqdn d \<noteq> []" using True d by (auto simp: norm_host_def)
    ultimately show ?thesis using b sub d r by (simp add: composed_host_def norm_host_def)
  next
    case False
    then have "sub = []" "hostname = h" using vals n by (auto simp: host_vals_def Let_def)
    with b n show ?thesis by (simp add: composed_host_def split: option.split)
  qed
qed

section \<open>Applications\<close>

text \<open>The fields an application must have, and the searches that find what it points to.\<close>

definition application_complete :: "portal_application \<Rightarrow> bool" where
  "application_complete a \<longleftrightarrow>
     cl_k8s_name (en_client (ap_environment a)) \<noteq> [] \<and> en_k8s_name (ap_environment a) \<noteq> [] \<and>
     ty_k8s_name (ap_type a) \<noteq> [] \<and> linked dm_k8s_name (ap_domain a) \<and>
     linked gr_k8s_name (ap_repository a) \<and> ap_replicas a \<noteq> 0 \<and>
     (\<forall>x \<in> set (ap_sso a). ao_protocol x \<noteq> []) \<and> host_name (composed_host a)"

definition finds ::
    "(string \<Rightarrow> string \<Rightarrow> portal_environment option) \<Rightarrow> (string \<Rightarrow> portal_type option) \<Rightarrow>
     (portal_client \<Rightarrow> string \<Rightarrow> portal_domain option) \<Rightarrow> (string \<Rightarrow> portal_repository option) \<Rightarrow>
     portal_application \<Rightarrow> bool" where
  "finds find_env find_type find_domain find_repo a \<longleftrightarrow>
     (let e = ap_environment a in
      find_env (cl_k8s_name (en_client e)) (en_k8s_name e) = Some e \<and>
      find_type (ty_k8s_name (ap_type a)) = Some (ap_type a) \<and>
      (case ap_domain a of None \<Rightarrow> True
       | Some d \<Rightarrow> find_domain (en_client e) (dm_k8s_name d) = Some d) \<and>
      (case ap_repository a of None \<Rightarrow> True
       | Some r \<Rightarrow> find_repo (gr_k8s_name r) = Some r))"

text \<open>C16. An application survives the way to the cluster and back: importing the custom resource the
  portal wrote, when its searches find what the application points to, gives an application that
  writes the same spec again and is published at the same host.
\<close>

theorem application_roundtrip:
  assumes ok: "application_complete a"
    and refs: "finds find_env find_type find_domain find_repo a"
    and dump: "parse_values loads y (dump_json (parse_values loads y (ap_values a))) =
      parse_values loads y (ap_values a)"
  shows "\<exists>b. application_import p dump_json find_env find_type find_domain find_repo
      (written p (application_synced loads y a)) = Some b \<and>
    application_k8s_spec loads y b = application_k8s_spec loads y a \<and>
    composed_host b = composed_host a"
proof -
  let ?spec = "application_k8s_spec loads y a"
  let ?v = "parse_values loads y (ap_values a)"
  obtain sub hostname where hv: "host_vals (norm_host (composed_host a)) (ap_domain a) = (sub, hostname)"
    by (metis surj_pair)
  note parts = ok [unfolded application_complete_def] refs [unfolded finds_def Let_def]
  have spec: "ref_name (JObj ?spec) ''environmentRef'' = en_k8s_name (ap_environment a)"
    "sget (JObj ?spec) ''type'' = ty_k8s_name (ap_type a)"
    "ref_name (JObj ?spec) ''domainRef'' = (case ap_domain a of Some d \<Rightarrow> dm_k8s_name d | None \<Rightarrow> [])"
    "sget (oget (JObj ?spec) ''ingress'') ''host'' = composed_host a"
    "jint (jor (jget (JObj ?spec) ''replicas'') (JInt 1)) = ap_replicas a"
    "lget (JObj ?spec) ''databases'' = map database_entry (ap_databases a)"
    "lget (JObj ?spec) ''sso'' = map sso_entry (ap_sso a)"
    "lget (JObj ?spec) ''env'' = map env_entry (ap_env a)"
    "jget (JObj ?spec) ''values'' = (if truthy ?v then ?v else JNull)"
    "ref_name (oget (JObj ?spec) ''source'') ''repositoryRef'' =
      (case ap_repository a of Some r \<Rightarrow> gr_k8s_name r | None \<Rightarrow> [])"
    "ap_repository a \<noteq> None \<Longrightarrow> sget (oget (JObj ?spec) ''source'') ''ref'' = ap_source_ref a"
    using parts
    by (auto simp: application_k8s_spec_def map_add_def ref_name_def sget_def oget_def lget_def
        ref_to_def jor_def split: option.splits)
  let ?m = "application_synced loads y a"
  have m: "sy_spec ?m = ?spec" "sy_k8s_name ?m = ap_k8s_name a"
    "obj_client_slug p (written p ?m) = cl_k8s_name (en_client (ap_environment a))"
    using parts by (simp_all add: application_synced_def)
  have "\<exists>b. application_import p dump_json find_env find_type find_domain find_repo (written p ?m) = Some b \<and>
      ap_environment b = ap_environment a \<and> ap_type b = ap_type a \<and> ap_replicas b = ap_replicas a \<and>
      ap_domain b = ap_domain a \<and> ap_subdomain b = sub \<and> ap_hostname b = hostname \<and>
      ap_databases b = map database_import (map database_entry (ap_databases a)) \<and>
      ap_sso b = map sso_import (map sso_entry (ap_sso a)) \<and>
      ap_env b = map env_import (map env_entry (ap_env a)) \<and>
      ap_values b = (if truthy ?v then dump_json ?v else []) \<and>
      ap_repository b = ap_repository a \<and>
      (ap_repository a \<noteq> None \<longrightarrow> ap_source_ref b = ap_source_ref a)"
    using parts hv
    by (auto simp: application_import_def m spec lookup_def linked_def Let_def simp del: jget.simps
        split: option.splits)
  then obtain b where b: "application_import p dump_json find_env find_type find_domain find_repo
      (written p ?m) = Some b" and f: "ap_environment b = ap_environment a" "ap_type b = ap_type a"
      "ap_replicas b = ap_replicas a" "ap_domain b = ap_domain a" "ap_subdomain b = sub"
      "ap_hostname b = hostname" "ap_repository b = ap_repository a"
    and lists: "ap_databases b = map database_import (map database_entry (ap_databases a))"
      "ap_sso b = map sso_import (map sso_entry (ap_sso a))"
      "ap_env b = map env_import (map env_entry (ap_env a))"
    and v: "ap_values b = (if truthy ?v then dump_json ?v else [])"
    and r: "ap_repository a \<noteq> None \<Longrightarrow> ap_source_ref b = ap_source_ref a" by blast
  have host: "composed_host b = composed_host a"
    using parts f hv composed_host_lower by (intro host_vals_compose) auto
  have entries: "map database_entry (ap_databases b) = map database_entry (ap_databases a)"
    "map sso_entry (ap_sso b) = map sso_entry (ap_sso a)"
    "map env_entry (ap_env b) = map env_entry (ap_env a)"
    using lists parts by simp_all
  have "opt (truthy (parse_values loads y (ap_values b))) ''values'' (parse_values loads y (ap_values b)) =
      opt (truthy ?v) ''values'' ?v"
    using v dump by (auto simp: opt_def parse_values_def [of loads y "[]"])
  with entries host f r have "application_k8s_spec loads y b = ?spec"
    by (auto simp: application_k8s_spec_def split: option.split)
  with b host show ?thesis by blast
qed

lemma application_roundtrip_witness:
  "\<exists>b. application_import \<lparr> pl_params = [], pl_environ = [] \<rparr> (\<lambda>j. ''{}'')
      (\<lambda>slug n. if slug = ''acme'' \<and> n = ''production'' then Some acme_prod else None)
      (\<lambda>n. if n = ''odoo'' then Some odoo_type else None)
      (\<lambda>c n. if n = ''acme-com'' then Some acme_domain else None)
      (\<lambda>n. if n = ''erp'' then Some acme_repository else None)
      (written \<lparr> pl_params = [], pl_environ = [] \<rparr>
        (application_synced (\<lambda>t. Some (JObj [])) numbered_yaml acme_erp)) = Some b \<and>
    composed_host b = ''erp.acme.com''"
proof -
  have "lower (strip ''Erp'' @ ''.'' @ strip ''Acme.com'') = ''erp.acme.com''" by code_simp
  then have host: "composed_host acme_erp = ''erp.acme.com''"
    by (simp add: composed_host_def estate_defs)
  have "host_name ''erp.acme.com''" by code_simp
  then have ok: "application_complete acme_erp"
    unfolding application_complete_def host by (simp add: estate_defs linked_def)
  have refs: "finds (\<lambda>slug n. if slug = ''acme'' \<and> n = ''production'' then Some acme_prod else None)
      (\<lambda>n. if n = ''odoo'' then Some odoo_type else None)
      (\<lambda>c n. if n = ''acme-com'' then Some acme_domain else None)
      (\<lambda>n. if n = ''erp'' then Some acme_repository else None) acme_erp"
    by (simp add: finds_def estate_defs)
  have s: "strip ''{}'' = ''{}''" by code_simp
  have dump: "parse_values (\<lambda>t. Some (JObj [])) numbered_yaml
      ((\<lambda>j. ''{}'') (parse_values (\<lambda>t. Some (JObj [])) numbered_yaml (ap_values acme_erp))) =
    parse_values (\<lambda>t. Some (JObj [])) numbered_yaml (ap_values acme_erp)"
    by (simp add: parse_values_def acme_erp_def s)
  from application_roundtrip [OF ok refs, where dump_json = "\<lambda>j. ''{}''", OF dump] host
  show ?thesis by metis
qed

end
