(* ===== verification/PortalConfig.thy ===== *)
theory PortalConfig
  imports PortalSync "HOL-Library.Product_Lexorder"
begin

text \<open>
  \<open>models/scoped_config.py\<close>, the Variables and Secrets of a scope, and
  \<open>get_effective_config\<close> of \<open>models/application.py\<close>, the roll-up a user sees. A row of
  \<open>adomi.scoped.config\<close> is the record \<open>scoped_config\<close>: its \<open>config_row\<close> and its four possible
  owners. The roll-up is compared with the environment the controller gives the workload.
\<close>

section \<open>Variables and Secrets\<close>

record scoped_config =
  sf_row :: config_row
  sf_organization :: "portal_organization option"
  sf_client :: "portal_client option"
  sf_environment :: "portal_environment option"
  sf_application :: "portal_application option"
  sf_secret_set :: bool

definition config_scope :: "scoped_config \<Rightarrow> string" where
  "config_scope r =
     (if sf_application r \<noteq> None then ''application''
      else if sf_environment r \<noteq> None then ''environment''
      else if sf_client r \<noteq> None then ''client'' else ''organization'')"

definition check_scope :: "scoped_config \<Rightarrow> exn + unit" where
  "check_scope r =
     (if length (filter (\<lambda>b. b) [sf_organization r \<noteq> None, sf_client r \<noteq> None,
          sf_environment r \<noteq> None, sf_application r \<noteq> None]) \<noteq> 1
      then Inl (ValidationError ''Set exactly one scope (org/customer/environment/app).'')
      else Inr ())"

definition environment_base :: "portal_environment \<Rightarrow> string" where
  "environment_base e =
     ''/v1/clients/'' @ cl_k8s_name (en_client e) @ ''/environments/'' @ en_k8s_name e"

definition api_base :: "scoped_config \<Rightarrow> string" where
  "api_base r =
     (case sf_application r of
        Some a \<Rightarrow> environment_base (ap_environment a) @ ''/applications/'' @ ap_k8s_name a
      | None \<Rightarrow> (case sf_environment r of
          Some e \<Rightarrow> environment_base e
        | None \<Rightarrow> (case sf_client r of
            Some c \<Rightarrow> ''/v1/clients/'' @ cl_k8s_name c
          | None \<Rightarrow> ''/v1/organizations/'' @
              (case sf_organization r of Some g \<Rightarrow> og_k8s_name g | None \<Rightarrow> ''False''))))"

definition org_variable :: "scoped_config \<Rightarrow> bool" where
  "org_variable r \<longleftrightarrow> sf_organization r \<noteq> None \<and> \<not> row_secret (sf_row r)"

definition push_organization :: "portal \<Rightarrow> portal_organization option \<Rightarrow> unit M" where
  "push_organization p g = (case g of
     None \<Rightarrow> ret ()
   | Some x \<Rightarrow> if og_k8s_name x = [] then ret () else attempt (send p (organization_synced x)))"

definition value_path :: "scoped_config \<Rightarrow> string" where
  "value_path r = api_base r @ (if row_secret (sf_row r) then ''/secrets/'' else ''/variables/'') @
     row_name (sf_row r)"

definition push_value :: "portal \<Rightarrow> api_client \<Rightarrow> string option \<Rightarrow> scoped_config \<Rightarrow> scoped_config M" where
  "push_value p a secret r =
     (if org_variable r then thenM (push_organization p (sf_organization r)) (ret r)
      else if \<not> row_secret (sf_row r)
      then thenM (ac_upsert a (value_path r) [(''value'', JStr (row_value (sf_row r)))]) (ret r)
      else case secret of
        None \<Rightarrow> ret r
      | Some v \<Rightarrow>
          thenM (ac_upsert a (value_path r) [(''value'', JStr v)]) (ret (r\<lparr>sf_secret_set := True\<rparr>)))"

definition push_config :: "portal \<Rightarrow> string option \<Rightarrow> scoped_config list \<Rightarrow> scoped_config list M" where
  "push_config p secret rs =
     bindM (of_result (platform_api p)) (\<lambda>a. mapM (push_value p a secret) rs)"

definition remove_remote :: "portal \<Rightarrow> scoped_config list \<Rightarrow> unit M" where
  "remove_remote p rs =
     bindM (of_result (platform_api p)) (\<lambda>a. forM rs (\<lambda>r.
       if org_variable r then ret () else thenM (ac_delete a (value_path r)) (ret ())))"

definition create_config ::
    "portal \<Rightarrow> bool \<Rightarrow> (scoped_config \<times> string option) list \<Rightarrow> scoped_config list M" where
  "create_config p no_push rs =
     thenM (forM rs (\<lambda>(r, _). thenM (of_result (check_row_name (row_name (sf_row r))))
                                     (of_result (check_scope r))))
       (if no_push then ret (map fst rs)
        else mapM (\<lambda>(r, secret).
          if row_secret (sf_row r) \<and> (secret = None \<or> secret = Some [])
          then raise (UserError (''Provide a value for the secret '' @ row_name (sf_row r) @ ''.''))
          else bindM (push_config p secret [r]) (\<lambda>pushed. ret (hd pushed))) rs)"

definition write_config ::
    "portal \<Rightarrow> bool \<Rightarrow> string option \<Rightarrow> scoped_config list \<Rightarrow> scoped_config list M" where
  "write_config p no_push secret rs = (if no_push then ret rs else push_config p secret rs)"

text \<open>\<open>unlink\<close>; \<open>after\<close> gives an organization as it stands once its rows are gone.\<close>

definition unlink_config ::
    "portal \<Rightarrow> bool \<Rightarrow> (portal_organization \<Rightarrow> portal_organization) \<Rightarrow> scoped_config list \<Rightarrow> unit M" where
  "unlink_config p no_push after_unlink rs =
     thenM (if no_push then ret () else remove_remote p rs)
       (forM (remdups (map (the \<circ> sf_organization) (filter org_variable rs)))
         (\<lambda>g. push_organization p (Some (after_unlink g))))"

section \<open>The roll-up\<close>

record config_entry =
  ce_id :: nat
  ce_name :: string
  ce_secret :: bool
  ce_value :: string
  ce_scope :: string
  ce_overridden :: bool

definition entry_of :: "string \<times> config_row \<Rightarrow> config_entry" where
  "entry_of sr = \<lparr> ce_id = row_id (snd sr), ce_name = row_name (snd sr), ce_secret = row_secret (snd sr),
     ce_value = (if row_secret (snd sr) then [] else row_value (snd sr)), ce_scope = fst sr,
     ce_overridden = False \<rparr>"

text \<open>One row: \<open>winners\<close> maps a name to the position of its entry.\<close>

definition roll_row ::
    "(string \<times> nat) list \<times> config_entry list \<Rightarrow> string \<times> config_row \<Rightarrow>
     (string \<times> nat) list \<times> config_entry list" where
  "roll_row we sr =
     (let (winners, entries) = we; name = row_name (snd sr) in
      (dset name (length entries) winners,
       (case dget winners name of
          None \<Rightarrow> entries
        | Some i \<Rightarrow> entries[i := (entries ! i)\<lparr>ce_overridden := True\<rparr>]) @ [entry_of sr]))"

definition config_chain :: "portal_application \<Rightarrow> (string \<times> config_row) list" where
  "config_chain a =
     (let e = ap_environment a; c = en_client e in
      map (Pair ''organization'') (case cl_organization c of Some g \<Rightarrow> og_configs g | None \<Rightarrow> []) @
      map (Pair ''client'') (cl_configs c) @
      map (Pair ''environment'') (en_configs e) @
      map (Pair ''application'') (ap_configs a))"

definition effective_config :: "portal_application \<Rightarrow> config_entry list" where
  "effective_config a =
     sort_key (\<lambda>e. (ce_name e, ce_overridden e)) (snd (foldl roll_row ([], []) (config_chain a)))"

section \<open>Facts: the last row of a name wins\<close>

definition overridden_at :: "(string \<times> config_row) list \<Rightarrow> nat \<Rightarrow> bool" where
  "overridden_at xs i \<longleftrightarrow> (\<exists>j. i < j \<and> j < length xs \<and> row_name (snd (xs ! j)) = row_name (snd (xs ! i)))"

definition rolled :: "(string \<times> config_row) list \<Rightarrow> (string \<times> nat) list \<times> config_entry list \<Rightarrow> bool" where
  "rolled xs we \<longleftrightarrow> length (snd we) = length xs \<and>
     (\<forall>i < length xs. snd we ! i = (entry_of (xs ! i))\<lparr>ce_overridden := overridden_at xs i\<rparr>) \<and>
     (\<forall>n i. dget (fst we) n = Some i \<longleftrightarrow>
        i < length xs \<and> row_name (snd (xs ! i)) = n \<and> \<not> overridden_at xs i)"

lemma overridden_at_snoc:
  "i < length xs \<Longrightarrow> overridden_at (xs @ [x]) i \<longleftrightarrow>
     overridden_at xs i \<or> row_name (snd x) = row_name (snd (xs ! i))"
  "\<not> overridden_at (xs @ [x]) (length xs)"
proof -
  show "overridden_at (xs @ [x]) i \<longleftrightarrow> overridden_at xs i \<or> row_name (snd x) = row_name (snd (xs ! i))"
    if i: "i < length xs"
  proof
    assume "overridden_at (xs @ [x]) i"
    then obtain j where "i < j" "j < Suc (length xs)"
      "row_name (snd ((xs @ [x]) ! j)) = row_name (snd (xs ! i))"
      using i by (auto simp: overridden_at_def nth_append)
    then show "overridden_at xs i \<or> row_name (snd x) = row_name (snd (xs ! i))"
      by (cases "j = length xs") (auto simp: overridden_at_def nth_append)
  next
    assume "overridden_at xs i \<or> row_name (snd x) = row_name (snd (xs ! i))"
    then show "overridden_at (xs @ [x]) i"
    proof
      assume "overridden_at xs i"
      then show ?thesis using i by (auto simp: overridden_at_def nth_append intro: less_SucI)
    next
      assume "row_name (snd x) = row_name (snd (xs ! i))"
      with i show ?thesis unfolding overridden_at_def by (intro exI [of _ "length xs"]) (simp add: nth_append)
    qed
  qed
qed (simp add: overridden_at_def)

lemma rolled_step:
  assumes "rolled xs we"
  shows "rolled (xs @ [x]) (roll_row we x)"
proof -
  obtain winners entries where we: "we = (winners, entries)" by (cases we)
  let ?n = "row_name (snd x)"
  let ?old = "case dget winners ?n of None \<Rightarrow> entries
    | Some i \<Rightarrow> entries[i := (entries ! i)\<lparr>ce_overridden := True\<rparr>]"
  have len: "length entries = length xs"
    and ent: "\<And>i. i < length xs \<Longrightarrow> entries ! i = (entry_of (xs ! i))\<lparr>ce_overridden := overridden_at xs i\<rparr>"
    and win: "\<And>n i. dget winners n = Some i \<longleftrightarrow>
      i < length xs \<and> row_name (snd (xs ! i)) = n \<and> \<not> overridden_at xs i"
    using assms by (simp_all add: rolled_def we)
  have run: "roll_row we x = (dset ?n (length xs) winners, ?old @ [entry_of x])"
    by (simp add: roll_row_def we len Let_def)
  have "?old ! i = (entry_of (xs ! i))\<lparr>ce_overridden := overridden_at (xs @ [x]) i\<rparr>"
    if i: "i < length xs" for i
  proof (cases "dget winners ?n = Some i")
    case True
    with win [of ?n i] i len ent show ?thesis by (simp add: overridden_at_snoc)
  next
    case False
    have "?old ! i = entries ! i" using False by (auto split: option.split)
    moreover have "overridden_at (xs @ [x]) i = overridden_at xs i"
      using False win [of ?n i] i by (auto simp: overridden_at_snoc)
    ultimately show ?thesis using ent i by simp
  qed
  moreover have "length ?old = length xs" using len by (simp split: option.split)
  moreover have "entry_of x = (entry_of x)\<lparr>ce_overridden := False\<rparr>" by (simp add: entry_of_def)
  ultimately show ?thesis
    unfolding run rolled_def using win
    by (auto simp: nth_append less_Suc_eq overridden_at_snoc)
qed

lemma rolled_fold: "rolled xs (foldl roll_row ([], []) xs)"
proof (induction xs rule: rev_induct)
  case Nil
  show ?case by (simp add: rolled_def)
next
  case (snoc x xs)
  then show ?case using rolled_step by simp
qed

lemma find_rev_Some:
  "List.find P (rev xs) = Some x \<longleftrightarrow>
     (\<exists>i < length xs. xs ! i = x \<and> P x \<and> (\<forall>j. i < j \<and> j < length xs \<longrightarrow> \<not> P (xs ! j)))"
proof (induction xs rule: rev_induct)
  case Nil
  show ?case by simp
next
  case (snoc y ys)
  show ?case
  proof (cases "P y")
    case True
    then have "i = length ys" if "i < Suc (length ys)"
        "\<forall>j. i < j \<and> j < Suc (length ys) \<longrightarrow> \<not> P ((ys @ [y]) ! j)" for i
      using that by (metis less_SucE lessI nth_append_length)
    with True show ?thesis
      by simp (metis lessI less_SucE not_less_eq nth_append_length)
  next
    case False
    then have "(\<forall>j. i < j \<and> j < Suc (length ys) \<longrightarrow> \<not> P ((ys @ [y]) ! j)) \<longleftrightarrow>
        (\<forall>j. i < j \<and> j < length ys \<longrightarrow> \<not> P (ys ! j))" for i
      by (auto simp: nth_append less_Suc_eq)
    with False snoc show ?thesis
      by (simp add: Ex_less_Suc nth_append conj_commute cong: conj_cong) blast
  qed
qed

lemma set_effective_config:
  "e \<in> set (effective_config a) \<and> \<not> ce_overridden e \<longleftrightarrow>
     (\<exists>x. List.find (\<lambda>y. row_name (snd y) = ce_name e) (rev (config_chain a)) = Some x \<and> e = entry_of x)"
  (is "?l = ?r")
proof -
  let ?xs = "config_chain a"
  let ?es = "snd (foldl roll_row ([], []) ?xs)"
  have len: "length ?es = length ?xs"
    and ent: "\<And>i. i < length ?xs \<Longrightarrow>
      ?es ! i = (entry_of (?xs ! i))\<lparr>ce_overridden := overridden_at ?xs i\<rparr>"
    using rolled_fold [of ?xs] by (simp_all add: rolled_def)
  have name: "ce_name (entry_of x) = row_name (snd x)" for x by (simp add: entry_of_def)
  have keep: "(entry_of x)\<lparr>ce_overridden := False\<rparr> = entry_of x" for x by (simp add: entry_of_def)
  have "?l \<longleftrightarrow> (\<exists>i < length ?xs. e = entry_of (?xs ! i) \<and> \<not> overridden_at ?xs i)"
    unfolding effective_config_def set_sort in_set_conv_nth len
    by (auto simp: ent keep) (simp add: entry_of_def)
  also have "\<dots> \<longleftrightarrow> ?r"
  proof
    assume "\<exists>i < length ?xs. e = entry_of (?xs ! i) \<and> \<not> overridden_at ?xs i"
    then obtain i where "i < length ?xs" "e = entry_of (?xs ! i)" "\<not> overridden_at ?xs i" by blast
    then show ?r unfolding find_rev_Some overridden_at_def
      by (intro exI [of _ "?xs ! i"] conjI exI [of _ i]) (simp_all add: name)
  next
    assume ?r
    then obtain x i where "e = entry_of x" "i < length ?xs" "?xs ! i = x"
      "\<forall>j. i < j \<and> j < length ?xs \<longrightarrow> row_name (snd (?xs ! j)) \<noteq> ce_name e"
      unfolding find_rev_Some by blast
    then show "\<exists>i < length ?xs. e = entry_of (?xs ! i) \<and> \<not> overridden_at ?xs i"
      unfolding overridden_at_def by (intro exI [of _ i]) (auto simp: name)
  qed
  finally show ?thesis .
qed

section \<open>The roll-up is what the workload receives\<close>

definition nearest_row :: "string \<Rightarrow> config_row list \<Rightarrow> config_row option" where
  "nearest_row n rs = List.find (\<lambda>r. row_name r = n) (rev rs)"

lemma nearest_row_append:
  "nearest_row n (xs @ ys) =
     (case nearest_row n ys of Some r \<Rightarrow> Some r | None \<Rightarrow> nearest_row n xs)"
  by (induction ys rule: rev_induct) (auto simp: nearest_row_def)

lemma nearest_row_Some: "nearest_row n rs = Some r \<Longrightarrow> r \<in> set rs \<and> row_name r = n"
  unfolding nearest_row_def find_rev_Some by auto

lemma nearest_row_chain:
  "List.find (\<lambda>y. row_name (snd y) = n) (rev xs) = Some x \<Longrightarrow>
     nearest_row n (map snd xs) = Some (snd x)"
  "nearest_row n (map snd xs) = Some r \<Longrightarrow>
     \<exists>x. List.find (\<lambda>y. row_name (snd y) = n) (rev xs) = Some x \<and> snd x = r"
  by (induction xs rule: rev_induct; auto simp: nearest_row_def split: if_splits)+

lemma env_name_strip: "env_name s \<Longrightarrow> strip s = s"
proof -
  assume s: "env_name s"
  have "set env_name_chars \<inter> set py_ws = {}" by code_simp
  with s have "set s \<inter> set py_ws = {}" by (auto simp: env_name_def)
  then show ?thesis unfolding strip_def by (intro strip_of_id) (metis disjoint_iff hd_in_set last_in_set)
qed

lemma named_row_entry:
  "env_name (row_name r) \<Longrightarrow> named n (row_entry r) \<longleftrightarrow> row_name r = n"
proof -
  assume name: "env_name (row_name r)"
  have "sget (row_entry r) ''name'' = row_name r" by (simp add: row_entry_def sget_def jor_def)
  with name show ?thesis by (auto simp: named_def env_name_strip) (simp add: env_name_def)
qed

lemma last_named_row_variables:
  assumes "\<forall>r \<in> set rs. env_name (row_name r)" "\<forall>r \<in> set rs. row_name r = n \<longrightarrow> \<not> row_secret r"
  shows "last_named n (row_variables rs) = map_option row_entry (nearest_row n rs)"
  using assms
proof (induction rs rule: rev_induct)
  case Nil
  show ?case by (simp add: row_variables_def last_named_def nearest_row_def)
next
  case (snoc r rs)
  then have "last_named n (row_variables rs) = map_option row_entry (nearest_row n rs)"
    and "named n (row_entry r) \<longleftrightarrow> row_name r = n" and "row_name r = n \<longrightarrow> \<not> row_secret r"
    by (simp_all add: named_row_entry)
  then show ?case by (simp add: row_variables_def last_named_def nearest_row_def)
qed

lemma nearest_specs:
  assumes "\<And>rs. rs \<in> set rss \<Longrightarrow> last_named n (row_variables rs) = map_option row_entry (nearest_row n rs)"
    and "map (\<lambda>s. lget s ''variables'') specs = map row_variables rss"
  shows "nearest n specs = map_option (\<lambda>r. render_variable n (row_entry r)) (nearest_row n (concat (rev rss)))"
  using assms
proof (induction specs arbitrary: rss)
  case Nil
  then show ?case by (simp add: nearest_row_def)
next
  case (Cons s specs)
  then obtain rs rss' where rss: "rss = rs # rss'" by (cases rss) auto
  with Cons show ?case by (simp add: nearest_row_append split: option.split)
qed

lemma name_of_entry: "ce_name (entry_of x) = row_name (snd x)"
  by (simp add: entry_of_def)

lemma value_of_entry:
  "ce_value (entry_of x) = (if row_secret (snd x) then [] else row_value (snd x))"
  by (simp add: entry_of_def)

lemma find_rev_name:
  "List.find (\<lambda>y. row_name (snd y) = n) (rev xs) = Some x \<Longrightarrow> row_name (snd x) = n"
  by (auto simp: find_rev_Some)

definition config_rows :: "portal_application \<Rightarrow> config_row list list" where
  "config_rows a =
     (let e = ap_environment a; c = en_client e in
      [ap_configs a, en_configs e, cl_configs c,
       case cl_organization c of Some g \<Rightarrow> og_configs g | None \<Rightarrow> []])"

lemma config_chain_rows: "map snd (config_chain a) = concat (rev (config_rows a))"
  by (simp add: config_chain_def config_rows_def Let_def comp_def)

lemma shown_iff_nearest:
  "(\<exists>e \<in> set (effective_config a). ce_name e = n \<and> \<not> ce_overridden e \<and> ce_value e = v) \<longleftrightarrow>
     (\<exists>r. nearest_row n (concat (rev (config_rows a))) = Some r \<and>
          (if row_secret r then [] else row_value r) = v)"
  (is "?l \<longleftrightarrow> ?r")
proof
  assume ?l
  then obtain x where "List.find (\<lambda>y. row_name (snd y) = n) (rev (config_chain a)) = Some x"
    "ce_value (entry_of x) = v"
    using set_effective_config by metis
  then show ?r
    using nearest_row_chain(1) by (metis value_of_entry config_chain_rows)
next
  assume ?r
  then obtain x where x: "List.find (\<lambda>y. row_name (snd y) = n) (rev (config_chain a)) = Some x"
    "ce_value (entry_of x) = v"
    using nearest_row_chain(2) by (metis value_of_entry config_chain_rows)
  with find_rev_name have "ce_name (entry_of x) = n" by (metis name_of_entry)
  with x set_effective_config [of "entry_of x" a] show ?l by blast
qed

lemma rolled_value_runs:
  assumes specs: "map (\<lambda>s. lget s ''variables'') [app_json, environment_json, client_json, org_json] =
      map row_variables (config_rows a)"
    and names: "\<forall>rs \<in> set (config_rows a). \<forall>r \<in> set rs. env_name (row_name r)"
    and plain: "\<forall>rs \<in> set (config_rows a). \<forall>r \<in> set rs. row_name r = n \<longrightarrow> \<not> row_secret r"
    and no_env: "\<forall>v \<in> set (lget app_json ''env''). \<not> named n v"
  shows "(\<exists>e \<in> set (effective_config a). ce_name e = n \<and> \<not> ce_overridden e \<and> ce_value e = v) \<longleftrightarrow>
     dget (merged_dict org_json client_json environment_json app_json) n =
       Some (JObj [(''name'', JStr n), (''value'', JStr v)])"
proof -
  let ?win = "nearest_row n (concat (rev (config_rows a)))"
  have "last_named n (lget app_json ''env'') = None"
    using no_env by (auto simp: last_named_def find_None_iff)
  moreover have "nearest n [app_json, environment_json, client_json, org_json] =
      map_option (\<lambda>r. render_variable n (row_entry r)) ?win"
    using names plain by (intro nearest_specs [OF _ specs] last_named_row_variables) blast+
  ultimately have "dget (merged_dict org_json client_json environment_json app_json) n =
      map_option (\<lambda>r. render_variable n (row_entry r)) ?win"
    unfolding merged_dict_def dget_fold_env dget_fold_scopes by (simp split: option.split)
  moreover have "render_variable n (row_entry r) = JObj [(''name'', JStr n), (''value'', JStr (row_value r))]"
    for r by (simp add: render_variable_def row_entry_def jor_def)
  ultimately have env: "dget (merged_dict org_json client_json environment_json app_json) n =
      Some (JObj [(''name'', JStr n), (''value'', JStr v)]) \<longleftrightarrow>
      (\<exists>r. ?win = Some r \<and> row_value r = v)" by auto
  have "(\<exists>r. ?win = Some r \<and> row_value r = v) \<longleftrightarrow>
      (\<exists>r. ?win = Some r \<and> (if row_secret r then [] else row_value r) = v)"
  proof -
    have "\<not> row_secret r" if "?win = Some r" for r
      using nearest_row_Some [OF that] plain by auto
    then show ?thesis by auto
  qed
  then show ?thesis unfolding shown_iff_nearest env by simp
qed

text \<open>C17. What the portal shows is what the workload gets. For the Variables of the four scopes
  written as the scopes' \<open>variables\<close>, with valid names, and a name that is no \<open>env\<close> entry of the
  application and no Secret anywhere on its chain: the roll-up has an entry of that name and
  value that nothing overrides exactly when the environment the controller merges for the
  workload gives the name that value.\<close>

theorem effective_config_is_workload_env:
  assumes specs: "map (\<lambda>s. lget s ''variables'') [app_json, environment_json, client_json, org_json] =
      map row_variables (config_rows a)"
    and names: "\<forall>rs \<in> set (config_rows a). \<forall>r \<in> set rs. env_name (row_name r)"
    and plain: "\<forall>rs \<in> set (config_rows a). \<forall>r \<in> set rs. row_name r = n \<longrightarrow> \<not> row_secret r"
    and no_env: "\<forall>v \<in> set (lget app_json ''env''). \<not> named n v"
  shows "(\<exists>e \<in> set (effective_config a). ce_name e = n \<and> \<not> ce_overridden e \<and> ce_value e = v) \<longleftrightarrow>
     dget (merged_dict org_json client_json environment_json app_json) n =
       Some (JObj [(''name'', JStr n), (''value'', JStr v)])"
  by (rule rolled_value_runs [OF assms])

definition erp_with :: "config_row list \<Rightarrow> config_row list \<Rightarrow> portal_application" where
  "erp_with of_client of_application =
     acme_erp\<lparr>ap_environment := acme_prod\<lparr>en_client := acme_inc\<lparr>cl_configs := of_client\<rparr>\<rparr>,
              ap_configs := of_application\<rparr>"

definition level_row :: "nat \<Rightarrow> bool \<Rightarrow> string \<Rightarrow> config_row" where
  "level_row i secret v = \<lparr> row_id = i, row_name = ''LEVEL'', row_secret = secret, row_value = v,
     row_touched = 0 \<rparr>"

lemma config_rows_erp_with: "config_rows (erp_with cs as) = [as, [], cs, []]"
  by (simp add: config_rows_def erp_with_def estate_defs)

lemma effective_config_is_workload_env_witness:
  "(\<exists>e \<in> set (effective_config (erp_with [level_row 1 False ''info''] [level_row 2 False ''debug''])).
      ce_name e = ''LEVEL'' \<and> \<not> ce_overridden e \<and> ce_value e = ''debug'') \<longleftrightarrow>
   dget (merged_dict (JObj []) (JObj [(''variables'', JArr (row_variables [level_row 1 False ''info'']))])
          (JObj []) (JObj [(''variables'', JArr (row_variables [level_row 2 False ''debug'']))])) ''LEVEL'' =
     Some (JObj [(''name'', JStr ''LEVEL''), (''value'', JStr ''debug'')])"
proof (rule effective_config_is_workload_env)
  have "env_name ''LEVEL''" by code_simp
  then show "\<forall>rs \<in> set (config_rows (erp_with [level_row 1 False ''info''] [level_row 2 False ''debug''])).
      \<forall>r \<in> set rs. env_name (row_name r)"
    by (simp add: config_rows_erp_with level_row_def)
qed (simp_all add: config_rows_erp_with level_row_def row_variables_def row_entry_def lget_def jor_def)

text \<open>A Secret of a nearer scope is no Variable of the workload: the roll-up shows the client's
  Variable overridden by it, and the workload still gets the Variable, which \<open>env\<close> puts before
  what \<open>envFrom\<close> reads from the Secret.\<close>

lemma secret_shadows_only_in_portal:
  "map (\<lambda>e. (ce_scope e, ce_secret e, ce_overridden e))
     (effective_config (erp_with [level_row 1 False ''info''] [level_row 2 True []])) =
     [(''application'', True, False), (''client'', False, True)]"
  "dget (merged_dict (JObj []) (JObj [(''variables'', JArr (row_variables [level_row 1 False ''info'']))])
     (JObj []) (JObj [(''variables'', JArr (row_variables [level_row 2 True []]))])) ''LEVEL'' =
     Some (JObj [(''name'', JStr ''LEVEL''), (''value'', JStr ''info'')])"
proof -
  show "map (\<lambda>e. (ce_scope e, ce_secret e, ce_overridden e))
     (effective_config (erp_with [level_row 1 False ''info''] [level_row 2 True []])) =
     [(''application'', True, False), (''client'', False, True)]"
    by (simp add: effective_config_def config_chain_def erp_with_def estate_defs level_row_def
        roll_row_def entry_of_def Let_def)
  show "dget (merged_dict (JObj []) (JObj [(''variables'', JArr (row_variables [level_row 1 False ''info'']))])
     (JObj []) (JObj [(''variables'', JArr (row_variables [level_row 2 True []]))])) ''LEVEL'' =
     Some (JObj [(''name'', JStr ''LEVEL''), (''value'', JStr ''info'')])"
    by (code_simp)
qed

end
