(* ===== verification/PortalGithub.thy ===== *)
theory PortalGithub
  imports PortalSync Api Github Sha256
begin

text \<open>
  The portal's GitHub identity: \<open>models/github_client.py\<close> (the REST clients and the webhook
  signature), \<open>models/github_app.py\<close> (the App, its installations and the mirrored repositories)
  and \<open>controllers/github.py\<close>. The rows of a model are a list in search order; a row the ORM
  numbers has its number as a field. \<open>datetime.fromisoformat\<close> and \<open>json.loads\<close> are parameters
  that may fail; random nonces come from the caller.
\<close>

section \<open>The REST client\<close>

record portal_gh =
  pg_token :: string
  pg_root :: string

definition API_ROOT :: string where
  "API_ROOT = ''https://api.github.com''"

definition new_portal_gh :: "string \<Rightarrow> string \<Rightarrow> portal_gh" where
  "new_portal_gh token api_root = \<lparr> pg_token = token, pg_root = rstrip_of ''/'' (sor api_root API_ROOT) \<rparr>"

definition pg_headers :: "string \<Rightarrow> (string \<times> string) list" where
  "pg_headers token =
     [(''Authorization'', ''Bearer '' @ token),
      (''Accept'', ''application/vnd.github+json''),
      (''X-GitHub-Api-Version'', ''2022-11-28''),
      (''User-Agent'', ''adomi-platform-management'')]"

definition resp_ok :: "json \<Rightarrow> bool" where
  "resp_ok resp \<longleftrightarrow> 200 \<le> status_code resp \<and> status_code resp < 300"

text \<open>The message of a failed answer: its JSON \<open>message\<close>, else its text, else its reason.\<close>

definition gh_message :: "json \<Rightarrow> string" where
  "gh_message resp =
     (let j = jor (jget resp ''json'') (JObj []) in
      sor (if jhas resp ''json'' \<and> is_obj j then jstr (jget j ''message'') else take 200 (resp_text resp))
          (sget resp ''reason''))"

definition gh_failed :: "json \<Rightarrow> 'a M" where
  "gh_failed resp = raise (GitHubError (status_code resp) (gh_message resp))"

definition resp_body :: "json \<Rightarrow> json M" where
  "resp_body resp = (if jhas resp ''json'' then ret (jget resp ''json'') else raise (PyError ''JSONDecodeError''))"

definition pg_request :: "portal_gh \<Rightarrow> string \<Rightarrow> string \<Rightarrow> json \<Rightarrow> (string \<times> string) list \<Rightarrow> json M" where
  "pg_request g method path payload params =
     bindM (callM (Http method
       ((if starts_with ''http'' path then path else pg_root g @ path) @ query params)
       (pg_headers (pg_token g)) payload)) (\<lambda>resp.
     if \<not> resp_ok resp then gh_failed resp
     else if status_code resp = 204 \<or> resp_text resp = [] then ret (JObj [])
     else resp_body resp)"

definition pg_user :: "portal_gh \<Rightarrow> json M" where
  "pg_user g = pg_request g ''GET'' ''/user'' JNull []"

definition pg_orgs :: "portal_gh \<Rightarrow> json M" where
  "pg_orgs g = pg_request g ''GET'' ''/user/orgs'' JNull [(''per_page'', ''100'')]"

definition pg_list_repos :: "portal_gh \<Rightarrow> string \<Rightarrow> json M" where
  "pg_list_repos g owner =
     (if owner \<noteq> []
      then pg_request g ''GET'' (''/orgs/'' @ owner @ ''/repos'') JNull
             [(''per_page'', ''100''), (''sort'', ''updated'')]
      else pg_request g ''GET'' ''/user/repos'' JNull
             [(''per_page'', ''100''), (''sort'', ''updated''), (''affiliation'', ''owner'')])"

definition pg_get_repo :: "portal_gh \<Rightarrow> string \<Rightarrow> json M" where
  "pg_get_repo g full_name = pg_request g ''GET'' (''/repos/'' @ full_name) JNull []"

definition pg_installation_repos :: "portal_gh \<Rightarrow> json M" where
  "pg_installation_repos g = pg_request g ''GET'' ''/installation/repositories'' JNull [(''per_page'', ''100'')]"

definition pg_create_repo :: "portal_gh \<Rightarrow> string \<Rightarrow> string \<Rightarrow> bool \<Rightarrow> string \<Rightarrow> bool \<Rightarrow> json M" where
  "pg_create_repo g name owner private description auto_init =
     pg_request g ''POST'' (if owner \<noteq> [] then ''/orgs/'' @ owner @ ''/repos'' else ''/user/repos'')
       (JObj [(''name'', JStr name), (''private'', JBool private),
              (''description'', JStr description), (''auto_init'', JBool auto_init)]) []"

definition pg_generate :: "portal_gh \<Rightarrow> string \<Rightarrow> string \<Rightarrow> string \<Rightarrow> bool \<Rightarrow> string \<Rightarrow> json M" where
  "pg_generate g template name owner private description =
     pg_request g ''POST'' (''/repos/'' @ template @ ''/generate'')
       (JObj ([(''name'', JStr name), (''private'', JBool private),
               (''description'', JStr description), (''include_all_branches'', JBool False)] @
              opt (owner \<noteq> []) ''owner'' (JStr owner))) []"

text \<open>\<open>base64.b64decode\<close> skips what is no base64 character; GitHub breaks the content in lines.\<close>

definition b64_lenient :: "string \<Rightarrow> string option" where
  "b64_lenient s = b64decode (filter (\<lambda>c. c \<in> set b64_chars \<or> c = CHR ''='') s)"

definition contents_path :: "string \<Rightarrow> string \<Rightarrow> string" where
  "contents_path full_name path = ''/repos/'' @ full_name @ ''/contents/'' @ path"

record repo_file =
  rf_text :: string
  rf_sha :: string
  rf_path :: string

definition decoded_file :: "json \<Rightarrow> repo_file option M" where
  "decoded_file data =
     (let content = sget data ''content'' in
      case (if content = [] then Some [] else b64_lenient content) of
        None \<Rightarrow> raise (PyError ''binascii.Error'')
      | Some text \<Rightarrow> ret (Some \<lparr> rf_text = text, rf_sha = sget data ''sha'', rf_path = sget data ''path'' \<rparr>))"

definition pg_get_content :: "portal_gh \<Rightarrow> string \<Rightarrow> string \<Rightarrow> string \<Rightarrow> repo_file option M" where
  "pg_get_content g full_name path ref =
     bindM (tryM (bindM (pg_request g ''GET'' (contents_path full_name path) JNull
                    (if ref \<noteq> [] then [(''ref'', ref)] else [])) (\<lambda>data. ret (Some data)))
       (\<lambda>e. case e of GitHubError n t \<Rightarrow> if n = 404 then ret None else raise e | _ \<Rightarrow> raise e))
     (\<lambda>found. case found of None \<Rightarrow> ret None | Some data \<Rightarrow> decoded_file data)"

definition pg_put_content ::
    "portal_gh \<Rightarrow> string \<Rightarrow> string \<Rightarrow> string \<Rightarrow> string \<Rightarrow> string \<Rightarrow> string \<Rightarrow> json M" where
  "pg_put_content g full_name path text message branch sha =
     pg_request g ''PUT'' (contents_path full_name path)
       (JObj ([(''message'', JStr message), (''content'', JStr (b64encode text))] @
              opt (branch \<noteq> []) ''branch'' (JStr branch) @ opt (sha \<noteq> []) ''sha'' (JStr sha))) []"

definition pg_get_ref :: "portal_gh \<Rightarrow> string \<Rightarrow> string \<Rightarrow> json M" where
  "pg_get_ref g full_name ref = pg_request g ''GET'' (''/repos/'' @ full_name @ ''/git/ref/'' @ ref) JNull []"

definition pg_create_branch :: "portal_gh \<Rightarrow> string \<Rightarrow> string \<Rightarrow> string \<Rightarrow> json M" where
  "pg_create_branch g full_name new_branch from_sha =
     pg_request g ''POST'' (''/repos/'' @ full_name @ ''/git/refs'')
       (JObj [(''ref'', JStr (''refs/heads/'' @ new_branch)), (''sha'', JStr from_sha)]) []"

definition pg_create_pull :: "portal_gh \<Rightarrow> string \<Rightarrow> string \<Rightarrow> string \<Rightarrow> string \<Rightarrow> string \<Rightarrow> json M" where
  "pg_create_pull g full_name head base title body =
     pg_request g ''POST'' (''/repos/'' @ full_name @ ''/pulls'')
       (JObj [(''head'', JStr head), (''base'', JStr base), (''title'', JStr title), (''body'', JStr body)]) []"

definition pg_get_pull :: "portal_gh \<Rightarrow> string \<Rightarrow> int \<Rightarrow> json M" where
  "pg_get_pull g full_name number =
     pg_request g ''GET'' (''/repos/'' @ full_name @ ''/pulls/'' @ int_str number) JNull []"

definition pg_create_issue :: "portal_gh \<Rightarrow> string \<Rightarrow> string \<Rightarrow> string \<Rightarrow> string list \<Rightarrow> json M" where
  "pg_create_issue g full_name title body labels =
     pg_request g ''POST'' (''/repos/'' @ full_name @ ''/issues'')
       (JObj ([(''title'', JStr title), (''body'', JStr body)] @ opt (labels \<noteq> []) ''labels'' (strs labels))) []"

definition pg_get_issue :: "portal_gh \<Rightarrow> string \<Rightarrow> int \<Rightarrow> json M" where
  "pg_get_issue g full_name number =
     pg_request g ''GET'' (''/repos/'' @ full_name @ ''/issues/'' @ int_str number) JNull []"

section \<open>App authentication\<close>

definition portal_jwt :: "string \<Rightarrow> string \<Rightarrow> string M" where
  "portal_jwt app_id pem =
     bindM unix_time (\<lambda>now.
     bindM (callM (SignJwt (JObj [(''iat'', JInt (now - 60)), (''exp'', JInt (now + 9 * 60)),
                                  (''iss'', JStr app_id)]) pem)) (\<lambda>t. ret (jstr t)))"

definition convert_manifest :: "string \<Rightarrow> string \<Rightarrow> json M" where
  "convert_manifest code api_root =
     bindM (callM (Http ''POST'' (rstrip_of ''/'' api_root @ ''/app-manifests/'' @ code @ ''/conversions'')
       [(''Accept'', ''application/vnd.github+json''), (''User-Agent'', ''adomi-platform-management'')] JNull))
     (\<lambda>resp. if \<not> resp_ok resp
       then raise (GitHubError (status_code resp) (take 200 (sor (resp_text resp) (sget resp ''reason''))))
       else resp_body resp)"

definition pga_request :: "portal_gh \<Rightarrow> string \<Rightarrow> string \<Rightarrow> json \<Rightarrow> (string \<times> string) list \<Rightarrow> json M" where
  "pga_request g method path payload params =
     bindM (callM (Http method (pg_root g @ path @ query params) (pg_headers (pg_token g)) payload)) (\<lambda>resp.
     if \<not> resp_ok resp then gh_failed resp
     else if resp_text resp = [] then ret (JObj []) else resp_body resp)"

definition pga_app :: "portal_gh \<Rightarrow> json M" where
  "pga_app g = pga_request g ''GET'' ''/app'' JNull []"

definition pga_list_installations :: "portal_gh \<Rightarrow> json M" where
  "pga_list_installations g = pga_request g ''GET'' ''/app/installations'' JNull [(''per_page'', ''100'')]"

definition pga_get_installation :: "portal_gh \<Rightarrow> string \<Rightarrow> json M" where
  "pga_get_installation g i = pga_request g ''GET'' (''/app/installations/'' @ i) JNull []"

definition pga_installation_token :: "portal_gh \<Rightarrow> string \<Rightarrow> json M" where
  "pga_installation_token g i =
     pga_request g ''POST'' (''/app/installations/'' @ i @ ''/access_tokens'') JNull []"

section \<open>Webhook signatures\<close>

text \<open>\<open>hmac.new(secret, body, sha256).hexdigest()\<close>, as RFC 2104 defines it over the digest.\<close>

definition sha256_bytes :: "nat list \<Rightarrow> nat list" where
  "sha256_bytes bs = concat (map (\<lambda>w. be_bytes 4 (unat w)) (sha_blocks sha_init (words_of (sha_pad bs))))"

definition hmac_key :: "nat list \<Rightarrow> nat list" where
  "hmac_key k = (let k' = (if 64 < length k then sha256_bytes k else k) in k' @ replicate (64 - length k') 0)"

definition hmac_sha256_hex :: "string \<Rightarrow> string \<Rightarrow> string" where
  "hmac_sha256_hex secret body =
     (let k = hmac_key (map byte secret);
          inner = sha256_bytes (map (\<lambda>b. xor b 54) k @ map byte body)
      in concat (map hex_byte (sha256_bytes (map (\<lambda>b. xor b 92) k @ inner))))"

definition verify_webhook_signature :: "string \<Rightarrow> string \<Rightarrow> string \<Rightarrow> exn + bool" where
  "verify_webhook_signature secret body signature_header =
     (if secret = [] \<or> signature_header = [] \<or> \<not> starts_with ''sha256='' signature_header then Inr False
      else compare_digest (''sha256='' @ hmac_sha256_hex secret body) signature_header)"

section \<open>The App and its installations\<close>

record github_repository =
  gy_name :: string
  gy_full_name :: string
  gy_owner_login :: string
  gy_html_url :: string
  gy_private :: bool
  gy_default_branch :: string
  gy_description :: string
  gy_pushed_at :: "int option"

record github_installation =
  gi_app :: nat
  gi_installation_id :: string
  gi_account_login :: string
  gi_account_type :: string
  gi_account_avatar :: string
  gi_html_url :: string
  gi_selection :: string
  gi_suspended :: bool
  gi_repositories :: "github_repository list"
  gi_token :: string
  gi_expiry :: "int option"

datatype app_state = AppDraft | AppCreated | AppInstalled | AppError

record github_app =
  ga_id :: nat
  ga_name :: string
  ga_app_id :: string
  ga_slug :: string
  ga_owner_login :: string
  ga_html_url :: string
  ga_client_id :: string
  ga_client_secret :: string
  ga_webhook_secret :: string
  ga_private_key :: string
  ga_manifest_state :: "string option"
  ga_state :: app_state
  ga_last_error :: string

definition APP_PERMISSIONS :: json where
  "APP_PERMISSIONS = JObj [(''metadata'', JStr ''read''), (''contents'', JStr ''write''),
     (''pull_requests'', JStr ''write''), (''issues'', JStr ''write''),
     (''administration'', JStr ''write'')]"

definition APP_EVENTS :: "string list" where
  "APP_EVENTS = [''push'', ''pull_request'', ''issues'']"

definition portal_base_url :: "portal \<Rightarrow> string" where
  "portal_base_url p = rstrip_of ''/'' (get_param p ''web.base.url'' [])"

definition github_manifest :: "portal \<Rightarrow> github_app \<Rightarrow> json" where
  "github_manifest p a =
     (let base = portal_base_url p in JObj
       [(''name'', JStr (ga_name a)),
        (''url'', JStr (sor base ''https://example.com'')),
        (''hook_attributes'', JObj [(''url'', JStr (base @ ''/adomi_platform/github/webhook'')),
                                    (''active'', JBool True)]),
        (''redirect_url'', JStr (base @ ''/adomi_platform/github/manifest_callback'')),
        (''setup_url'', JStr (base @ ''/adomi_platform/github/setup'')),
        (''callback_urls'', JArr [JStr (base @ ''/adomi_platform/github/oauth_callback'')]),
        (''setup_on_update'', JBool True),
        (''public'', JBool False),
        (''default_permissions'', APP_PERMISSIONS),
        (''default_events'', strs APP_EVENTS)])"

definition app_client :: "github_app \<Rightarrow> portal_gh M" where
  "app_client a =
     (if ga_app_id a = [] \<or> ga_private_key a = []
      then raise (UserError ''This GitHub App is not fully configured yet.'')
      else bindM (portal_jwt (ga_app_id a) (ga_private_key a)) (\<lambda>jwt.
           ret (new_portal_gh jwt API_ROOT)))"

text \<open>The manifest and install flows; \<open>nonce\<close> is \<open>secrets.token_urlsafe(24)\<close>.\<close>

definition start_manifest :: "portal \<Rightarrow> string \<Rightarrow> github_app \<Rightarrow> exn + github_app \<times> string" where
  "start_manifest p nonce a =
     (if portal_base_url p = []
      then Inl (UserError (''Set the portal URL first (System Parameter 'web.base.url') so GitHub '' @
             ''can redirect back here.''))
      else Inr (a\<lparr>ga_manifest_state := Some nonce\<rparr>,
             ''/adomi_platform/github/manifest_new/'' @ nat_str (ga_id a)))"

definition apply_conversion :: "json \<Rightarrow> github_app \<Rightarrow> github_app" where
  "apply_conversion data a =
     a\<lparr>ga_app_id := py_str (jor (jget data ''id'') (JStr [])),
       ga_slug := sget data ''slug'',
       ga_name := sor (sget data ''name'') (ga_name a),
       ga_owner_login := sget (oget data ''owner'') ''login'',
       ga_html_url := sget data ''html_url'',
       ga_client_id := sget data ''client_id'',
       ga_client_secret := sget data ''client_secret'',
       ga_webhook_secret := sget data ''webhook_secret'',
       ga_private_key := sget data ''pem'',
       ga_state := AppCreated, ga_last_error := []\<rparr>"

definition install_app :: "string \<Rightarrow> github_app \<Rightarrow> exn + github_app \<times> string" where
  "install_app nonce a =
     (if ga_slug a = [] then Inl (UserError ''Create the GitHub App first.'')
      else Inr (a\<lparr>ga_manifest_state := Some nonce\<rparr>,
             ''https://github.com/apps/'' @ ga_slug a @ ''/installations/new?state='' @ nonce))"

section \<open>Mirroring GitHub\<close>

text \<open>Writing over the first row a search finds, or adding one.\<close>

fun upsert_first :: "('a \<Rightarrow> bool) \<Rightarrow> ('a \<Rightarrow> 'a) \<Rightarrow> 'a \<Rightarrow> 'a list \<Rightarrow> 'a list" where
  "upsert_first P f fresh [] = [fresh]"
| "upsert_first P f fresh (x # xs) = (if P x then f x # xs else x # upsert_first P f fresh xs)"

definition has_installation :: "json \<Rightarrow> github_installation \<Rightarrow> bool" where
  "has_installation obj i \<longleftrightarrow> gi_installation_id i = py_str (jget obj ''id'')"

definition installation_vals :: "nat \<Rightarrow> json \<Rightarrow> github_installation \<Rightarrow> github_installation" where
  "installation_vals app obj i =
     (let account = oget obj ''account'' in
      i\<lparr>gi_app := app, gi_installation_id := py_str (jget obj ''id''),
        gi_account_login := sget account ''login'', gi_account_type := sget account ''type'',
        gi_account_avatar := sget account ''avatar_url'', gi_html_url := sget obj ''html_url'',
        gi_selection := sget obj ''repository_selection'',
        gi_suspended := truthy (jget obj ''suspended_at'')\<rparr>)"

definition blank_installation :: github_installation where
  "blank_installation = \<lparr> gi_app = 0, gi_installation_id = [], gi_account_login = [],
     gi_account_type = [], gi_account_avatar = [], gi_html_url = [], gi_selection = [],
     gi_suspended = False, gi_repositories = [], gi_token = [], gi_expiry = None \<rparr>"

definition upsert_installation ::
    "nat \<Rightarrow> json \<Rightarrow> github_installation list \<Rightarrow> github_installation list" where
  "upsert_installation app obj =
     upsert_first (has_installation obj) (installation_vals app obj)
       (installation_vals app obj blank_installation)"

text \<open>\<open>action_sync_installations\<close>; the error it records survives when the caller goes on.\<close>

definition sync_installations ::
    "github_app \<Rightarrow> github_installation list \<Rightarrow> (exn option \<times> github_app \<times> github_installation list) M" where
  "sync_installations a insts =
     tryM (bindM (bindM (app_client a) pga_list_installations) (\<lambda>installs.
       let insts' = foldl (\<lambda>is obj. upsert_installation (ga_id a) obj is) insts (jlist installs) in
       ret (None, (if (\<exists>i \<in> set insts'. gi_app i = ga_id a) \<and> ga_state a = AppCreated
                   then a\<lparr>ga_state := AppInstalled\<rparr> else a), insts')))
     (\<lambda>e. ret (Some (UserError (''Could not list installations: '' @ exn_str e)),
              a\<lparr>ga_state := AppError, ga_last_error := exn_str e\<rparr>, insts))"

text \<open>\<open>_handle_webhook\<close>, for a payload that is an object.\<close>

fun change_first :: "('a \<Rightarrow> bool) \<Rightarrow> ('a \<Rightarrow> 'a list) \<Rightarrow> 'a list \<Rightarrow> 'a list" where
  "change_first P f [] = []"
| "change_first P f (x # xs) = (if P x then f x @ xs else x # change_first P f xs)"

definition handle_webhook ::
    "github_app \<Rightarrow> string \<Rightarrow> json \<Rightarrow> github_installation list \<Rightarrow> github_installation list" where
  "handle_webhook a event payload insts =
     (if event \<notin> {''installation'', ''installation_repositories''} then insts
      else let obj = jget payload ''installation''; action = jget payload ''action'' in
        if truthy obj \<and> \<not> is_obj obj then insts
        else if truthy obj \<and> action = JStr ''suspend''
        then change_first (has_installation obj) (\<lambda>i. [i\<lparr>gi_suspended := True\<rparr>]) insts
        else if truthy obj \<and> action = JStr ''deleted''
        then change_first (has_installation obj) (\<lambda>i. []) insts
        else if truthy obj then upsert_installation (ga_id a) obj insts
        else insts)"

section \<open>Installation tokens\<close>

definition portal_now :: "int M" where
  "portal_now = unix_time"

definition parse_time :: "(string \<Rightarrow> int option) \<Rightarrow> string \<Rightarrow> int option" where
  "parse_time iso_time t = (if t = [] then None else iso_time (replace_char CHR ''Z'' [] t))"

definition installation_token ::
    "(string \<Rightarrow> int option) \<Rightarrow> github_app \<Rightarrow> github_installation \<Rightarrow> (string \<times> github_installation) M" where
  "installation_token iso_time a i =
     bindM portal_now (\<lambda>now.
     if gi_token i \<noteq> [] \<and> (\<exists>x. gi_expiry i = Some x \<and> x > now) then ret (gi_token i, i)
     else bindM (bindM (app_client a) (\<lambda>g. pga_installation_token g (gi_installation_id i))) (\<lambda>data.
       ret (sget data ''token'',
            i\<lparr>gi_token := sget data ''token'', gi_expiry := parse_time iso_time (sget data ''expires_at'')\<rparr>)))"

definition installation_client ::
    "(string \<Rightarrow> int option) \<Rightarrow> github_app \<Rightarrow> github_installation \<Rightarrow> (portal_gh \<times> github_installation) M" where
  "installation_client iso_time a i =
     bindM (installation_token iso_time a i) (\<lambda>(token, i'). ret (new_portal_gh token API_ROOT, i'))"

section \<open>Mirrored repositories\<close>

definition repository_vals :: "(string \<Rightarrow> int option) \<Rightarrow> json \<Rightarrow> github_repository" where
  "repository_vals iso_time obj =
     \<lparr> gy_name = sget obj ''name'', gy_full_name = sget obj ''full_name'',
       gy_owner_login = sget (oget obj ''owner'') ''login'', gy_html_url = sget obj ''html_url'',
       gy_private = truthy (jget obj ''private''), gy_default_branch = sget obj ''default_branch'',
       gy_description = sget obj ''description'',
       gy_pushed_at = parse_time iso_time (sget obj ''pushed_at'') \<rparr>"

definition upsert_repository ::
    "(string \<Rightarrow> int option) \<Rightarrow> json \<Rightarrow> github_repository list \<Rightarrow> github_repository list" where
  "upsert_repository iso_time obj =
     upsert_first (\<lambda>r. gy_full_name r = sget obj ''full_name'') (\<lambda>r. repository_vals iso_time obj)
       (repository_vals iso_time obj)"

definition mirrored :: "(string \<Rightarrow> int option) \<Rightarrow> json list \<Rightarrow> github_repository list \<Rightarrow> github_repository list" where
  "mirrored iso_time objs repos =
     filter (\<lambda>r. gy_full_name r \<in> set (map (\<lambda>obj. sget obj ''full_name'') objs))
       (foldl (\<lambda>rs obj. upsert_repository iso_time obj rs) repos objs)"

definition sync_repos ::
    "(string \<Rightarrow> int option) \<Rightarrow> github_app \<Rightarrow> github_installation \<Rightarrow> github_installation M" where
  "sync_repos iso_time a i =
     tryM (bindM (installation_client iso_time a i) (\<lambda>(g, i').
           bindM (pg_installation_repos g) (\<lambda>data.
           ret (i'\<lparr>gi_repositories := mirrored iso_time (lget data ''repositories'') (gi_repositories i')\<rparr>))))
       (\<lambda>e. raise (UserError (''Could not list repositories: '' @ exn_str e)))"

section \<open>The controllers\<close>

text \<open>
  \<open>webhook\<close>: the first App whose secret signed the body handles it. The answer is its status;
  a failure of the handler is swallowed. \<open>loads\<close> is \<open>json.loads\<close>.
\<close>

fun signer :: "string \<Rightarrow> string \<Rightarrow> github_app list \<Rightarrow> exn + github_app option" where
  "signer body signature [] = Inr None"
| "signer body signature (a # as) =
     (if ga_webhook_secret a = [] then signer body signature as
      else bind_result (verify_webhook_signature (ga_webhook_secret a) body signature)
        (\<lambda>ok. if ok then Inr (Some a) else signer body signature as))"

definition github_webhook ::
    "(string \<Rightarrow> json option) \<Rightarrow> github_app list \<Rightarrow> string \<Rightarrow> string \<Rightarrow> string \<Rightarrow>
     github_installation list \<Rightarrow> exn + int \<times> github_installation list" where
  "github_webhook loads apps body signature event insts =
     bind_result (signer body signature apps) (\<lambda>app. case app of
       None \<Rightarrow> Inr (401, insts)
     | Some a \<Rightarrow>
         (let payload = (case loads (sor body ''{}'') of Some j \<Rightarrow> j | None \<Rightarrow> JObj []) in
          Inr (200, if is_obj payload then handle_webhook a event payload insts else insts)))"

text \<open>
  \<open>manifest_callback\<close>: \<open>search([("manifest_state", "=", state)])\<close>, where no state is the search
  for an App that has none. The answer is the redirect.
\<close>

definition apps_page :: string where
  "apps_page = ''/odoo/action-adomi_platform.action_adomi_github_app''"

definition manifest_callback ::
    "string \<Rightarrow> string \<Rightarrow> string option \<Rightarrow> github_app list \<Rightarrow> (string \<times> github_app list) M" where
  "manifest_callback nonce code state apps =
     (case List.find (\<lambda>a. ga_manifest_state a = state) apps of
        None \<Rightarrow> ret (apps_page, apps)
      | Some a \<Rightarrow>
          if code = [] then ret (apps_page, apps)
          else bindM (tryM (bindM (convert_manifest code API_ROOT) (\<lambda>data.
                   if is_obj data then ret (apply_conversion data a) else raise attribute_error))
                 (\<lambda>e. ret (a\<lparr>ga_state := AppError, ga_last_error := exn_str e\<rparr>))) (\<lambda>b.
               let put = (\<lambda>c. map (\<lambda>x. if ga_id x = ga_id a then c else x) apps) in
               if ga_state b = AppError then ret (apps_page @ ''/'' @ nat_str (ga_id a), put b)
               else bindM (of_result (install_app nonce b)) (\<lambda>(c, url). ret (url, put c))))"

definition github_setup ::
    "string option \<Rightarrow> github_app list \<Rightarrow> github_installation list \<Rightarrow>
     (string \<times> github_app list \<times> github_installation list) M" where
  "github_setup state apps insts =
     (case (case List.find (\<lambda>a. ga_manifest_state a = state) apps of
              Some a \<Rightarrow> Some a | None \<Rightarrow> (case apps of [] \<Rightarrow> None | a # _ \<Rightarrow> Some a)) of
        None \<Rightarrow> ret (apps_page, apps, insts)
      | Some a \<Rightarrow>
          bindM (sync_installations a insts) (\<lambda>(_, b, insts').
          ret (apps_page @ ''/'' @ nat_str (ga_id a),
               map (\<lambda>x. if ga_id x = ga_id a then b else x) apps, insts')))"

section \<open>Facts: upserts\<close>

lemma upsert_first_keys:
  assumes "\<And>x. P x \<longleftrightarrow> key x = k" and "\<And>x. key (f x) = k" and "key fresh = k"
  shows "map key (upsert_first P f fresh xs) = (if k \<in> key ` set xs then map key xs else map key xs @ [k])"
  using assms by (induction xs) auto

lemma upsert_first_distinct:
  assumes "\<And>x. P x \<longleftrightarrow> key x = k" and "\<And>x. key (f x) = k" and "key fresh = k"
    and "distinct (map key xs)"
  shows "distinct (map key (upsert_first P f fresh xs))"
  unfolding upsert_first_keys [where P = P and f = f and key = key, OF assms(1-3)] using assms(4) by auto

lemma upsert_first_same:
  assumes "\<And>x. P x \<longleftrightarrow> key x = k" and "\<And>x. f x = fresh" and "key fresh = k"
  shows "set (upsert_first P f fresh xs) \<subseteq> insert fresh (set xs)"
    and "fresh \<in> set (upsert_first P f fresh xs)"
  using assms(2) by (induction xs) auto

definition ids_of :: "github_installation list \<Rightarrow> string list" where
  "ids_of insts = map gi_installation_id insts"

lemma ids_upsert:
  "distinct (ids_of insts) \<Longrightarrow> distinct (ids_of (upsert_installation app obj insts))"
  unfolding ids_of_def upsert_installation_def
  by (rule upsert_first_distinct [where k = "py_str (jget obj ''id'')"])
     (simp_all add: has_installation_def installation_vals_def Let_def)

lemma ids_change_first:
  assumes "distinct (ids_of insts)" and "\<And>i. ids_of (f i) = [] \<or> ids_of (f i) = [gi_installation_id i]"
  shows "distinct (ids_of (change_first P f insts)) \<and>
    set (ids_of (change_first P f insts)) \<subseteq> set (ids_of insts)"
  using assms
proof (induction insts)
  case (Cons i insts)
  show ?case
  proof (cases "P i")
    case True
    with Cons.prems(1) Cons.prems(2) [of i] show ?thesis by (auto simp: ids_of_def)
  next
    case False
    with Cons show ?thesis by (auto simp: ids_of_def)
  qed
qed (simp add: ids_of_def)

lemma ids_handle_webhook:
  "distinct (ids_of insts) \<Longrightarrow> distinct (ids_of (handle_webhook a event payload insts))"
proof -
  assume d: "distinct (ids_of insts)"
  then show ?thesis
    using ids_change_first [OF d, of "\<lambda>i. [i\<lparr>gi_suspended := True\<rparr>]"]
      ids_change_first [OF d, of "\<lambda>i. []"] ids_upsert
    by (simp add: handle_webhook_def Let_def ids_of_def)
qed

section \<open>Webhooks\<close>

lemma signer_signed:
  "signer body signature apps = Inr (Some a) \<Longrightarrow>
     a \<in> set apps \<and> ga_webhook_secret a \<noteq> [] \<and>
     signature = ''sha256='' @ hmac_sha256_hex (ga_webhook_secret a) body"
  by (induction apps)
     (auto simp: bind_result_def verify_webhook_signature_def compare_digest_def
       split: if_splits sum.splits)

text \<open>C20. Only GitHub moves the mirrored installations. Whatever is posted to the public webhook route,
  the installations stay as they were unless the body carries the HMAC-SHA256 signature of a
  configured App's secret; an unsigned body is answered with 401; and however an event changes
  them, two rows never stand for one installation.
\<close>

theorem webhook_needs_signature:
  "(\<forall>code insts'. github_webhook loads apps body signature event insts = Inr (code, insts') \<longrightarrow>
      (code = 401 \<and> insts' = insts \<or>
       (\<exists>a \<in> set apps. ga_webhook_secret a \<noteq> [] \<and>
          signature = ''sha256='' @ hmac_sha256_hex (ga_webhook_secret a) body)) \<and>
      (distinct (ids_of insts) \<longrightarrow> distinct (ids_of insts')))"
proof (intro allI impI conjI)
  fix code insts'
  assume run: "github_webhook loads apps body signature event insts = Inr (code, insts')"
  then obtain found where found: "signer body signature apps = Inr found"
    by (auto simp: github_webhook_def bind_result_def split: sum.splits)
  show "code = 401 \<and> insts' = insts \<or>
     (\<exists>a \<in> set apps. ga_webhook_secret a \<noteq> [] \<and>
        signature = ''sha256='' @ hmac_sha256_hex (ga_webhook_secret a) body)"
  proof (cases found)
    case None
    with run found show ?thesis by (simp add: github_webhook_def bind_result_def)
  next
    case (Some a)
    with signer_signed [of body signature apps a] found show ?thesis by auto
  qed
  show "distinct (ids_of insts')" if "distinct (ids_of insts)"
    using run found that ids_handle_webhook
    by (auto simp: github_webhook_def bind_result_def Let_def split: option.splits if_splits)
qed

definition sample_github_app :: github_app where
  "sample_github_app = \<lparr> ga_id = 1, ga_name = ''Adomi Deploy'', ga_app_id = ''42'', ga_slug = ''adomi'',
     ga_owner_login = ''adomi-io'', ga_html_url = [], ga_client_id = [], ga_client_secret = [],
     ga_webhook_secret = ''s3cret'', ga_private_key = ''pem'', ga_manifest_state = None,
     ga_state = AppCreated, ga_last_error = [] \<rparr>"

definition sample_event :: json where
  "sample_event = JObj [(''action'', JStr ''deleted''), (''installation'', JObj [(''id'', JInt 7)])]"

lemma ascii_hex: "ascii_only (''sha256='' @ concat (map hex_byte bs))"
proof -
  have h: "hex_char n \<in> set ''0123456789abcdef''" for n
    unfolding hex_char_def by (rule nth_mem) simp
  have a: "\<forall>c \<in> set (''sha256='' @ ''0123456789abcdef''). of_char c < (128 :: nat)" by code_simp
  have "set (concat (map hex_byte bs)) \<subseteq> set ''0123456789abcdef''"
    unfolding hex_byte_def using h by (auto simp: subset_iff simp del: list.set(2)) (metis empty_iff insert_iff list.set)
  with a show ?thesis unfolding ascii_only_def set_append by blast
qed

lemma webhook_needs_signature_witness:
  "\<exists>code insts'. github_webhook (\<lambda>t. Some sample_event) [sample_github_app] ''{}''
      (''sha256='' @ hmac_sha256_hex ''s3cret'' ''{}'') ''installation''
      [blank_installation\<lparr>gi_installation_id := ''7''\<rparr>] = Inr (code, insts') \<and>
    code = 200 \<and> insts' = [] \<and> distinct (ids_of insts') \<and>
    (\<exists>a \<in> set [sample_github_app]. ga_webhook_secret a \<noteq> [] \<and>
       ''sha256='' @ hmac_sha256_hex ''s3cret'' ''{}'' = ''sha256='' @ hmac_sha256_hex (ga_webhook_secret a) ''{}'')"
proof -
  let ?sig = "''sha256='' @ hmac_sha256_hex ''s3cret'' ''{}''"
  let ?insts = "[blank_installation\<lparr>gi_installation_id := ''7''\<rparr>]"
  have "verify_webhook_signature ''s3cret'' ''{}'' ?sig = Inr True"
    using ascii_hex by (simp add: verify_webhook_signature_def starts_with_def compare_digest_def
        hmac_sha256_hex_def Let_def)
  then have "signer ''{}'' ?sig [sample_github_app] = Inr (Some sample_github_app)"
    by (simp add: sample_github_app_def bind_result_def del: append.simps)
  then have run: "github_webhook (\<lambda>t. Some sample_event) [sample_github_app] ''{}'' ?sig ''installation'' ?insts =
      Inr (200, [])"
    by (simp add: github_webhook_def bind_result_def sample_event_def handle_webhook_def
        has_installation_def blank_installation_def int_str_def nat_str.simps digit_char_def
        digit_chars_def)
  then show ?thesis
    using webhook_needs_signature [where apps = "[sample_github_app]" and insts = ?insts and body = "''{}''"
        and loads = "\<lambda>t. Some sample_event" and signature = ?sig and event = "''installation''"]
    by (simp add: ids_of_def sample_github_app_def)
qed

text \<open>A redirect without a state takes the first App that has none: whoever calls it with a code of
  an App of their own replaces the App's credentials.\<close>

definition foreign_conversion :: json where
  "foreign_conversion = JObj [(''id'', JInt 9), (''slug'', JStr ''evil''), (''pem'', JStr ''theirs''),
     (''webhook_secret'', JStr ''theirs'')]"

definition github_says :: "json \<Rightarrow> env" where
  "github_says j = (\<lambda>l c. Inr (JObj [(''status_code'', JInt 201), (''text'', JStr ''x''), (''json'', j)]))"

lemma callback_without_state:
  "\<exists>url s'. manifest_callback ''nonce'' ''code'' None [sample_github_app] (github_says foreign_conversion) s =
     (Inr (url, [sample_github_app\<lparr>ga_app_id := ''9'', ga_slug := ''evil'', ga_owner_login := [],
        ga_webhook_secret := ''theirs'', ga_private_key := ''theirs'', ga_manifest_state := Some ''nonce''\<rparr>]), s')"
  by (simp add: manifest_callback_def sample_github_app_def convert_manifest_def github_says_def run_simps
      foreign_conversion_def resp_ok_def status_code_def resp_body_def apply_conversion_def install_app_def
      of_result_def sget_def oget_def jor_def sor_def int_str_def nat_str.simps digit_char_def digit_chars_def Let_def)

section \<open>Installation tokens\<close>

definition clock :: "env \<Rightarrow> log \<Rightarrow> int" where
  "clock env l = (case env l Now of Inr (JInt i) \<Rightarrow> i | _ \<Rightarrow> 0)"

definition token_call :: "github_installation \<Rightarrow> call \<Rightarrow> bool" where
  "token_call i c \<longleftrightarrow> (\<exists>headers. c = Http ''POST''
     (API_ROOT @ ''/app/installations/'' @ gi_installation_id i @ ''/access_tokens'') headers JNull)"

lemma pga_token_answer:
  assumes "pg_root g = API_ROOT" and "pga_installation_token g (gi_installation_id i) env s = (Inr data, s')"
  shows "\<exists>c resp. token_call i c \<and> trace s' = (c, Inr resp) # trace s \<and> resp_ok resp \<and>
    (data = JObj [] \<or> data = jget resp ''json'')"
  using assms
  by (auto simp: pga_installation_token_def pga_request_def bindM_Inr callM_Inr gh_failed_def raise_def
      resp_body_def ret_def query_def token_call_def split: if_splits)

text \<open>C30. A token is handed out only while it is good. When asking for an installation's token
  returns, the token is the cached one and the clock had not reached its expiry, with nothing
  asked of GitHub; or it is the one GitHub answered for this very installation, which is then
  what the cache holds.
\<close>

theorem installation_token_fresh:
  assumes "installation_token iso_time a i env s = (Inr (t, i'), s')"
  shows "(t \<noteq> [] \<and> t = gi_token i \<and> i' = i \<and> (\<exists>x. gi_expiry i = Some x \<and> clock env (trace s) < x) \<and>
      map fst (trace s') = Now # map fst (trace s)) \<or>
    (\<exists>c resp l. token_call i c \<and> trace s' = (c, Inr resp) # l \<and> resp_ok resp \<and>
      t \<in> {[], sget (jget resp ''json'') ''token''} \<and> gi_token i' = t \<and>
      gi_installation_id i' = gi_installation_id i)"
proof -
  obtain s1 where clk: "portal_now env s = (Inr (clock env (trace s)), s1)" "map fst (trace s1) = Now # map fst (trace s)"
    by (simp add: portal_now_def unix_time_def clock_def Let_def split: sum.split json.split)
  show ?thesis
  proof (cases "gi_token i \<noteq> [] \<and> (\<exists>x. gi_expiry i = Some x \<and> clock env (trace s) < x)")
    case True
    with assms clk show ?thesis by (auto simp: installation_token_def bindM_Inr ret_def)
  next
    case False
    with assms clk obtain g s2 data where g: "app_client a env s1 = (Inr g, s2)"
      and data: "pga_installation_token g (gi_installation_id i) env s2 = (Inr data, s')"
      and t: "t = sget data ''token''" "i' = i\<lparr>gi_token := t, gi_expiry := parse_time iso_time (sget data ''expires_at'')\<rparr>"
      by (auto simp: installation_token_def bindM_Inr ret_def)
    have "pg_root g = API_ROOT"
      using g by (auto simp: app_client_def bindM_Inr ret_def raise_def new_portal_gh_def sor_def split: if_splits)
         (simp_all add: API_ROOT_def rstrip_of_def)
    from pga_token_answer [OF this data] t show ?thesis by (auto simp: sget_def jor_def)
  qed
qed

lemma installation_token_fresh_witness:
  "\<exists>t i' s'. installation_token (\<lambda>x. Some 3600) sample_github_app
      (blank_installation\<lparr>gi_installation_id := ''7'', gi_token := ''old'', gi_expiry := Some 0\<rparr>)
      (github_says (JObj [(''token'', JStr ''new''), (''expires_at'', JStr ''2030-01-01T00:00:00Z'')])) init_st =
      (Inr (t, i'), s') \<and> t = ''new'' \<and> gi_token i' = t"
proof -
  let ?i = "blank_installation\<lparr>gi_installation_id := ''7'', gi_token := ''old'', gi_expiry := Some 0\<rparr>"
  let ?env = "github_says (JObj [(''token'', JStr ''new''), (''expires_at'', JStr ''2030-01-01T00:00:00Z'')])"
  obtain i' s' where run: "installation_token (\<lambda>x. Some 3600) sample_github_app ?i ?env init_st = (Inr (''new'', i'), s')"
    by (simp add: installation_token_def portal_now_def unix_time_def app_client_def sample_github_app_def
        portal_jwt_def pga_installation_token_def pga_request_def github_says_def resp_ok_def status_code_def
        resp_text_def resp_body_def sget_def jor_def of_result_def run_simps Let_def init_st_def)
  from installation_token_fresh [OF run] have "gi_token i' = ''new''"
    by (auto simp: blank_installation_def)
  with run show ?thesis by blast
qed

section \<open>The mirror of repositories\<close>

lemma upsert_repositories:
  assumes "distinct (map gy_full_name rs)"
  shows "distinct (map gy_full_name (upsert_repository iso_time obj rs)) \<and>
    set (upsert_repository iso_time obj rs) =
      insert (repository_vals iso_time obj) {r \<in> set rs. gy_full_name r \<noteq> sget obj ''full_name''}"
proof -
  let ?n = "sget obj ''full_name''" and ?v = "repository_vals iso_time obj"
  have v: "gy_full_name ?v = ?n" by (simp add: repository_vals_def)
  have "distinct (map gy_full_name (upsert_repository iso_time obj rs))"
    unfolding upsert_repository_def using assms v by (intro upsert_first_distinct [where k = ?n]) simp_all
  moreover have "set (upsert_first (\<lambda>r. gy_full_name r = ?n) (\<lambda>r. ?v) ?v rs) =
      insert ?v {r \<in> set rs. gy_full_name r \<noteq> ?n}"
    using assms by (induction rs) (auto simp: image_iff)
  ultimately show ?thesis by (simp add: upsert_repository_def)
qed

lemma fold_repositories:
  assumes "distinct (map gy_full_name rs)"
  shows "distinct (map gy_full_name (foldl (\<lambda>rs obj. upsert_repository iso_time obj rs) rs objs)) \<and>
    (\<forall>r. r \<in> set (foldl (\<lambda>rs obj. upsert_repository iso_time obj rs) rs objs) \<longleftrightarrow>
      (case List.find (\<lambda>obj. sget obj ''full_name'' = gy_full_name r) (rev objs) of
         Some obj \<Rightarrow> r = repository_vals iso_time obj
       | None \<Rightarrow> r \<in> set rs))"
proof (induction objs rule: rev_induct)
  case Nil
  with assms show ?case by simp
next
  case (snoc obj objs)
  let ?rs = "foldl (\<lambda>rs obj. upsert_repository iso_time obj rs) rs objs"
  have v: "gy_full_name (repository_vals iso_time obj) = sget obj ''full_name''"
    by (simp add: repository_vals_def)
  from snoc have d: "distinct (map gy_full_name ?rs)" by blast
  from upsert_repositories [OF this, of iso_time obj] snoc v show ?case by auto
qed

text \<open>The mirror is what GitHub lists. After a sync an installation has one row for every repository
  name GitHub listed, with the values of its last entry in the list, and no other row: names
  that were lost are gone.
\<close>

lemma repositories_mirror:
  assumes "distinct (map gy_full_name repos)"
  shows "distinct (map gy_full_name (mirrored iso_time objs repos)) \<and>
    (\<forall>r. r \<in> set (mirrored iso_time objs repos) \<longleftrightarrow>
      (\<exists>obj. List.find (\<lambda>obj. sget obj ''full_name'' = gy_full_name r) (rev objs) = Some obj \<and>
             r = repository_vals iso_time obj))"
proof (intro conjI allI)
  note fold = fold_repositories [OF assms, of iso_time objs]
  then show "distinct (map gy_full_name (mirrored iso_time objs repos))"
    unfolding mirrored_def using distinct_map_filter by blast
  fix r :: github_repository
  have "gy_full_name r \<in> set (map (\<lambda>obj. sget obj ''full_name'') objs) \<longleftrightarrow>
      List.find (\<lambda>obj. sget obj ''full_name'' = gy_full_name r) (rev objs) \<noteq> None"
    by (auto simp: find_None_iff image_iff) metis
  with fold show "r \<in> set (mirrored iso_time objs repos) \<longleftrightarrow>
      (\<exists>obj. List.find (\<lambda>obj. sget obj ''full_name'' = gy_full_name r) (rev objs) = Some obj \<and>
             r = repository_vals iso_time obj)"
    unfolding mirrored_def set_filter by (auto split: option.splits)
qed

definition listed_repo :: "string \<Rightarrow> json" where
  "listed_repo n = JObj [(''name'', JStr n), (''full_name'', JStr (''acme/'' @ n))]"

lemma repositories_mirror_witness:
  "repository_vals (\<lambda>t. None) (listed_repo ''erp'') \<in>
     set (mirrored (\<lambda>t. None) [listed_repo ''erp'', listed_repo ''web'']
       [repository_vals (\<lambda>t. None) (listed_repo ''gone'')]) \<and>
   repository_vals (\<lambda>t. None) (listed_repo ''gone'') \<notin>
     set (mirrored (\<lambda>t. None) [listed_repo ''erp'', listed_repo ''web'']
       [repository_vals (\<lambda>t. None) (listed_repo ''gone'')])"
proof -
  let ?rs = "[repository_vals (\<lambda>t. None) (listed_repo ''gone'')]"
  have "distinct (map gy_full_name ?rs)" by simp
  moreover have "gy_full_name (repository_vals (\<lambda>t. None) (listed_repo n)) = ''acme/'' @ n"
    "sget (listed_repo n) ''full_name'' = ''acme/'' @ n" for n
    by (simp_all add: repository_vals_def listed_repo_def sget_def jor_def)
  ultimately show ?thesis
    using repositories_mirror [of ?rs "\<lambda>t. None" "[listed_repo ''erp'', listed_repo ''web'']"] by simp
qed

end
