(* ===== verification/PortalEstate.thy ===== *)
theory PortalEstate
  imports PortalImport PortalGithub
begin

text \<open>
  The portal as a whole: its tables, \<open>cron_sync_all\<close> of \<open>models/k8s_mixin.py\<close>, which sweeps the
  cluster into them, and the endpoints of \<open>controllers/main.py\<close> the platform pushes to. The tables
  are the record \<open>estate\<close>; what a failed import leaves in a table that has variables is the ORM's,
  the record \<open>leftovers\<close>. Models without variables fail before their row is inserted, if at all.
  The sweep is one transaction over the tables: \<open>None\<close> stands for the aborted one, whose commit
  leaves the tables as they were before the sweep.
\<close>

section \<open>The tables\<close>

record estate =
  es_organizations :: "portal_organization tracked list"
  es_types :: "portal_type tracked list"
  es_clients :: "portal_client tracked list"
  es_domains :: "portal_domain tracked list"
  es_environments :: "portal_environment tracked list"
  es_servers :: "portal_server tracked list"
  es_applications :: "portal_application tracked list"
  es_repositories :: "portal_repository tracked list"
  es_snapshots :: "portal_snapshot tracked list"

record leftovers =
  lf_organization :: "json \<Rightarrow> portal_organization tracked list \<Rightarrow> portal_organization tracked list"
  lf_client :: "json \<Rightarrow> portal_client tracked list \<Rightarrow> portal_client tracked list"
  lf_environment :: "json \<Rightarrow> portal_environment tracked list \<Rightarrow> portal_environment tracked list"
  lf_application :: "json \<Rightarrow> portal_application tracked list \<Rightarrow> portal_application tracked list"

definition as_it_was :: "json \<Rightarrow> 'r list \<Rightarrow> 'r list" where
  "as_it_was obj db = db"

definition refresh_repository :: "int \<Rightarrow> json \<Rightarrow> portal_repository tracked \<Rightarrow> exn + portal_repository tracked" where
  "refresh_repository now = apply_obj (\<lambda>_ r. r) no_rows now"

text \<open>A domain is searched for by its name and its client.\<close>

definition find_domain :: "portal_domain tracked list \<Rightarrow> portal_client \<Rightarrow> string \<Rightarrow> portal_domain option" where
  "find_domain db c n = map_option tk_record (List.find (\<lambda>r.
     dm_k8s_name (tk_record r) = n \<and> cl_k8s_name (dm_client (tk_record r)) = cl_k8s_name c) db)"

text \<open>
  How each model is imported over the tables: one custom resource, and the whole kind. \<open>dump_json\<close>
  is \<open>json.dumps(values, indent=2)\<close>.
\<close>

definition made_client :: "estate \<Rightarrow> json \<Rightarrow> portal_client option" where
  "made_client es = client_import (find_named og_k8s_name (es_organizations es))"

definition made_environment :: "estate \<Rightarrow> json \<Rightarrow> portal_environment option" where
  "made_environment es = environment_import (find_named cl_k8s_name (es_clients es))"

definition made_domain :: "portal \<Rightarrow> estate \<Rightarrow> json \<Rightarrow> portal_domain option" where
  "made_domain p es = domain_import p (find_named cl_k8s_name (es_clients es))"

definition made_server :: "portal \<Rightarrow> estate \<Rightarrow> json \<Rightarrow> portal_server option" where
  "made_server p es = server_import p (find_environment (es_environments es))"

definition made_application ::
    "portal \<Rightarrow> (json \<Rightarrow> string) \<Rightarrow> estate \<Rightarrow> json \<Rightarrow> portal_application option" where
  "made_application p dump_json es =
     application_import p dump_json (find_environment (es_environments es))
       (find_named ty_k8s_name (es_types es)) (find_domain (es_domains es))
       (find_named gr_k8s_name (es_repositories es))"

section \<open>The sweep\<close>

definition sweep ::
    "string \<Rightarrow> (estate \<Rightarrow> 'r tracked list) \<Rightarrow> ('r tracked list \<Rightarrow> estate \<Rightarrow> estate) \<Rightarrow>
     (json \<Rightarrow> 'r \<Rightarrow> bool) \<Rightarrow> (estate \<Rightarrow> json \<Rightarrow> 'r option) \<Rightarrow>
     (json \<Rightarrow> 'r \<Rightarrow> 'r tracked list \<Rightarrow> exn + unit) \<Rightarrow> (json \<Rightarrow> 'r tracked \<Rightarrow> exn + 'r tracked) \<Rightarrow>
     (json \<Rightarrow> 'r tracked list \<Rightarrow> 'r tracked list) \<Rightarrow> estate option \<Rightarrow> estate option M" where
  "sweep plural get put is_it made accepts refresh left t =
     (case t of
        None \<Rightarrow> tryM (bindM (import_kind plural is_it no_import accepts refresh left None)
          (\<lambda>_. ret None)) (\<lambda>_. ret None)
      | Some es \<Rightarrow> tryM (bindM (import_kind plural is_it (made es) accepts refresh left (Some (get es)))
          (\<lambda>(db, _). ret (map_option (\<lambda>db. put db es) db))) (\<lambda>_. ret (Some es)))"

text \<open>The end of the transaction: PostgreSQL answers the COMMIT of an aborted one with a rollback.\<close>

definition committed :: "estate \<Rightarrow> estate option \<Rightarrow> estate" where
  "committed es t = (case t of None \<Rightarrow> es | Some es' \<Rightarrow> es')"

definition cron_sync_all ::
    "portal \<Rightarrow> (json \<Rightarrow> string) \<Rightarrow> leftovers \<Rightarrow> int \<Rightarrow> estate \<Rightarrow> estate M" where
  "cron_sync_all p dump_json lf now es =
     bindM (sweep PLURAL_ORGANIZATIONS es_organizations (\<lambda>db es. es\<lparr>es_organizations := db\<rparr>)
       is_organization (\<lambda>_. organization_import) no_checks (refresh_organization now) (lf_organization lf) (Some es)) (\<lambda>t.
     bindM (sweep PLURAL_APPLICATIONTYPES es_types (\<lambda>db es. es\<lparr>es_types := db\<rparr>)
       is_type (\<lambda>_. type_import) type_accepts (refresh_type now) as_it_was t) (\<lambda>t.
     bindM (sweep PLURAL_CLIENTS es_clients (\<lambda>db es. es\<lparr>es_clients := db\<rparr>)
       is_client made_client no_checks (refresh_client now) (lf_client lf) t) (\<lambda>t.
     bindM (sweep PLURAL_DOMAINS es_domains (\<lambda>db es. es\<lparr>es_domains := db\<rparr>)
       (is_domain p) (made_domain p) domain_accepts (refresh_domain now) as_it_was t) (\<lambda>t.
     bindM (sweep PLURAL_ENVIRONMENTS es_environments (\<lambda>db es. es\<lparr>es_environments := db\<rparr>)
       (is_environment p) made_environment environment_accepts (refresh_environment now) (lf_environment lf) t) (\<lambda>t.
     bindM (sweep PLURAL_DATABASESERVERS es_servers (\<lambda>db es. es\<lparr>es_servers := db\<rparr>)
       (is_server p) (made_server p) server_accepts (refresh_server now) as_it_was t) (\<lambda>t.
     bindM (sweep PLURAL_APPLICATIONS es_applications (\<lambda>db es. es\<lparr>es_applications := db\<rparr>)
       (is_application p) (made_application p dump_json) application_accepts (refresh_application now) (lf_application lf) t) (\<lambda>t.
     bindM (sweep PLURAL_GITREPOSITORIES es_repositories (\<lambda>db es. es\<lparr>es_repositories := db\<rparr>)
       (is_repository p) (\<lambda>_. no_import) no_checks (refresh_repository now) as_it_was t) (\<lambda>t.
     bindM (sweep PLURAL_SNAPSHOTS es_snapshots (\<lambda>db es. es\<lparr>es_snapshots := db\<rparr>)
       (is_snapshot p) (\<lambda>_. no_import) no_checks (refresh_snapshot now) as_it_was t) (\<lambda>t.
     ret (committed es t))))))))))"

section \<open>The endpoints\<close>

definition on_table ::
    "(estate \<Rightarrow> 'r tracked list) \<Rightarrow> ('r tracked list \<Rightarrow> estate \<Rightarrow> estate) \<Rightarrow>
     (json \<Rightarrow> 'r \<Rightarrow> bool) \<Rightarrow> (json \<Rightarrow> 'r option) \<Rightarrow>
     (json \<Rightarrow> 'r \<Rightarrow> 'r tracked list \<Rightarrow> exn + unit) \<Rightarrow> (json \<Rightarrow> 'r tracked \<Rightarrow> exn + 'r tracked) \<Rightarrow>
     (json \<Rightarrow> 'r tracked list \<Rightarrow> 'r tracked list) \<Rightarrow> json \<Rightarrow> estate \<Rightarrow> estate \<times> bool option" where
  "on_table get put is_it made accepts refresh left obj es =
     (case ingest_status is_it made accepts refresh obj (get es) of
        Inl e \<Rightarrow> (if database_error e then es else put (left obj (get es)) es, None)
      | Inr (db, found) \<Rightarrow> (put db es, Some found))"

definition ALLOWED_MODELS :: "string list" where
  "ALLOWED_MODELS =
     [''adomi.organization'', ''adomi.client'', ''adomi.domain'', ''adomi.environment'',
      ''adomi.database.server'', ''adomi.application.type'', ''adomi.application'',
      ''adomi.git.repository'', ''adomi.snapshot'']"

definition ingest_model ::
    "portal \<Rightarrow> (json \<Rightarrow> string) \<Rightarrow> leftovers \<Rightarrow> int \<Rightarrow> string \<Rightarrow> json \<Rightarrow> estate \<Rightarrow> estate \<times> bool option" where
  "ingest_model p dump_json lf now model obj es =
     (if model = ''adomi.organization''
      then on_table es_organizations (\<lambda>db es. es\<lparr>es_organizations := db\<rparr>) is_organization
        organization_import no_checks (refresh_organization now) (lf_organization lf) obj es
      else if model = ''adomi.client''
      then on_table es_clients (\<lambda>db es. es\<lparr>es_clients := db\<rparr>) is_client
        (made_client es) no_checks (refresh_client now) (lf_client lf) obj es
      else if model = ''adomi.domain''
      then on_table es_domains (\<lambda>db es. es\<lparr>es_domains := db\<rparr>) (is_domain p)
        (made_domain p es) domain_accepts (refresh_domain now) as_it_was obj es
      else if model = ''adomi.environment''
      then on_table es_environments (\<lambda>db es. es\<lparr>es_environments := db\<rparr>) (is_environment p)
        (made_environment es) environment_accepts (refresh_environment now) (lf_environment lf) obj es
      else if model = ''adomi.database.server''
      then on_table es_servers (\<lambda>db es. es\<lparr>es_servers := db\<rparr>) (is_server p)
        (made_server p es) server_accepts (refresh_server now) as_it_was obj es
      else if model = ''adomi.application.type''
      then on_table es_types (\<lambda>db es. es\<lparr>es_types := db\<rparr>) is_type
        type_import type_accepts (refresh_type now) as_it_was obj es
      else if model = ''adomi.application''
      then on_table es_applications (\<lambda>db es. es\<lparr>es_applications := db\<rparr>) (is_application p)
        (made_application p dump_json es) application_accepts (refresh_application now) (lf_application lf) obj es
      else if model = ''adomi.git.repository''
      then on_table es_repositories (\<lambda>db es. es\<lparr>es_repositories := db\<rparr>) (is_repository p)
        no_import no_checks (refresh_repository now) as_it_was obj es
      else on_table es_snapshots (\<lambda>db es. es\<lparr>es_snapshots := db\<rparr>) (is_snapshot p)
        no_import no_checks (refresh_snapshot now) as_it_was obj es)"

definition expected_token :: "portal \<Rightarrow> string" where
  "expected_token p =
     strip (sor (getenv p ''ADOMI_INGEST_TOKEN'') (get_param p ''adomi_platform.ingest_token'' []))"

definition bearer_of :: "string \<Rightarrow> string" where
  "bearer_of header = (if starts_with ''Bearer '' header then strip (drop 7 header) else [])"

definition error_body :: "string \<Rightarrow> json" where
  "error_body t = JObj [(''error'', JStr t)]"

text \<open>\<open>model not in ALLOWED_MODELS\<close> hashes the model, which a list or an object refuses.\<close>

definition ingest ::
    "portal \<Rightarrow> (string \<Rightarrow> json option) \<Rightarrow> (json \<Rightarrow> string) \<Rightarrow> leftovers \<Rightarrow> int \<Rightarrow> string \<Rightarrow> string \<Rightarrow> estate \<Rightarrow>
     exn + int \<times> json \<times> estate" where
  "ingest p loads dump_json lf now header body es =
     (if expected_token p = [] \<or> bearer_of header \<noteq> expected_token p
      then Inr (401, error_body ''unauthorized'', es)
      else case loads (sor body ''{}'') of
        None \<Rightarrow> Inr (400, error_body ''invalid json'', es)
      | Some data \<Rightarrow>
          if \<not> is_obj data then Inl attribute_error
          else case jget data ''model'' of
            JArr _ \<Rightarrow> Inl (PyError ''TypeError'')
          | JObj _ \<Rightarrow> Inl (PyError ''TypeError'')
          | model \<Rightarrow>
              if jstr model \<notin> set ALLOWED_MODELS \<or> \<not> truthy (jget data ''name'')
              then Inr (400, error_body ''bad request'', es)
              else (case ingest_model p dump_json lf now (jstr model) (oget data ''object'') es of
                (es', None) \<Rightarrow> Inr (500, error_body ''internal error'', es')
              | (es', Some found) \<Rightarrow>
                  Inr (200, JObj [(''ok'', JBool found), (''matched'', JBool found)], es')))"

definition forgejo_webhook_secret :: "portal \<Rightarrow> string" where
  "forgejo_webhook_secret p =
     strip (sor (getenv p ''ADOMI_FORGEJO_WEBHOOK_SECRET'')
                (get_param p ''adomi_platform.forgejo_webhook_secret'' []))"

definition valid_forgejo_signature :: "string \<Rightarrow> string \<Rightarrow> string \<Rightarrow> exn + bool" where
  "valid_forgejo_signature raw secret signature =
     (if secret = [] \<or> signature = [] then Inr False
      else compare_digest (hmac_sha256_hex secret raw) (lower (strip signature)))"

text \<open>\<open>_on_repo_push\<close>: whether the repository is a client's, and when the sweep is to run.\<close>

definition on_repo_push :: "bool \<Rightarrow> int \<Rightarrow> string \<Rightarrow> estate \<Rightarrow> bool \<times> int list" where
  "on_repo_push has_cron now repo_name es =
     (if repo_name = [] \<or> (\<forall>r \<in> set (es_clients es). cl_k8s_name (tk_record r) \<noteq> repo_name) then (False, [])
      else (True, if has_cron then [now, now + 120] else []))"

definition forgejo_webhook ::
    "portal \<Rightarrow> (string \<Rightarrow> json option) \<Rightarrow> bool \<Rightarrow> int \<Rightarrow> string \<Rightarrow> string \<Rightarrow> string \<Rightarrow> estate \<Rightarrow>
     exn + int \<times> json \<times> int list" where
  "forgejo_webhook p loads has_cron now raw signature event es =
     bind_result (valid_forgejo_signature raw (forgejo_webhook_secret p) signature) (\<lambda>ok.
       if \<not> ok then Inr (401, error_body ''unauthorized'', [])
       else if event \<noteq> ''push''
       then Inr (200, JObj [(''ok'', JBool True), (''ignored'', JStr (sor event ''unknown''))], [])
       else case loads (sor raw ''{}'') of
         None \<Rightarrow> Inr (400, error_body ''invalid json'', [])
       | Some payload \<Rightarrow>
           if \<not> is_obj payload \<or> \<not> is_obj (oget payload ''repository'') then Inl attribute_error
           else let (matched, runs) =
               on_repo_push has_cron now (strip (sget (oget payload ''repository'') ''name'')) es in
             Inr (200, JObj [(''ok'', JBool True), (''matched'', JBool matched)], runs))"

section \<open>Only the platform pushes\<close>

definition other_tables_same :: "string \<Rightarrow> estate \<Rightarrow> estate \<Rightarrow> bool" where
  "other_tables_same model es es' \<longleftrightarrow>
     (model = ''adomi.organization'' \<or> es_organizations es' = es_organizations es) \<and>
     (model = ''adomi.application.type'' \<or> es_types es' = es_types es) \<and>
     (model = ''adomi.client'' \<or> es_clients es' = es_clients es) \<and>
     (model = ''adomi.domain'' \<or> es_domains es' = es_domains es) \<and>
     (model = ''adomi.environment'' \<or> es_environments es' = es_environments es) \<and>
     (model = ''adomi.database.server'' \<or> es_servers es' = es_servers es) \<and>
     (model = ''adomi.application'' \<or> es_applications es' = es_applications es) \<and>
     (model = ''adomi.git.repository'' \<or> es_repositories es' = es_repositories es) \<and>
     (model = ''adomi.snapshot'' \<or> es_snapshots es' = es_snapshots es)"

lemma on_table_put:
  "fst (on_table get put is_it made accepts refresh left obj es) = es \<or>
   (\<exists>db. fst (on_table get put is_it made accepts refresh left obj es) = put db es)"
  by (auto simp: on_table_def split: sum.split prod.split)

lemma ingest_model_frame:
  assumes "model \<in> set ALLOWED_MODELS"
  shows "other_tables_same model es (fst (ingest_model p dump_json lf now model obj es))"
proof -
  have "other_tables_same m es es" for m by (simp add: other_tables_same_def)
  then have put: "other_tables_same m es (fst (on_table get put is_it made accepts refresh left obj es))"
    if "\<And>db. other_tables_same m es (put db es)"
    for m and get :: "estate \<Rightarrow> 'r tracked list" and put is_it made accepts refresh left
    using on_table_put [of get put is_it made accepts refresh left obj es] that by metis
  consider "model = ''adomi.organization''" | "model = ''adomi.client''" | "model = ''adomi.domain''"
    | "model = ''adomi.environment''" | "model = ''adomi.database.server''"
    | "model = ''adomi.application.type''" | "model = ''adomi.application''"
    | "model = ''adomi.git.repository''" | "model = ''adomi.snapshot''"
    using assms unfolding ALLOWED_MODELS_def by (simp only: list.set insert_iff empty_iff) metis
  then show ?thesis
    by cases (simp add: ingest_model_def, rule put, simp add: other_tables_same_def)+
qed

text \<open>C21. Only the platform moves the portal's mirror. Whatever is posted to the public endpoints: a status
  push changes nothing unless its bearer token is the configured one and it names a mirrored
  model, and then only that model's table; and a git push schedules a sweep only when its body
  carries the HMAC-SHA256 signature of the configured secret and its repository is a client's.
\<close>

theorem pushes_need_credentials:
  "(case ingest p loads dump_json lf now header body es of
      Inl _ \<Rightarrow> True
    | Inr (code, answer, es') \<Rightarrow> es' = es \<or>
        expected_token p \<noteq> [] \<and> bearer_of header = expected_token p \<and>
        (\<exists>data model. loads (sor body ''{}'') = Some data \<and> jget data ''model'' = JStr model \<and>
           model \<in> set ALLOWED_MODELS \<and> other_tables_same model es es')) \<and>
   (case forgejo_webhook p loads has_cron now raw signature event es of
      Inl _ \<Rightarrow> True
    | Inr (code, answer, runs) \<Rightarrow> runs = [] \<or>
        forgejo_webhook_secret p \<noteq> [] \<and>
        lower (strip signature) = hmac_sha256_hex (forgejo_webhook_secret p) raw \<and>
        (\<exists>payload r. loads (sor raw ''{}'') = Some payload \<and> r \<in> set (es_clients es) \<and>
           cl_k8s_name (tk_record r) = strip (sget (oget payload ''repository'') ''name'')))"
proof
  show "case ingest p loads dump_json lf now header body es of
      Inl _ \<Rightarrow> True
    | Inr (code, answer, es') \<Rightarrow> es' = es \<or>
        expected_token p \<noteq> [] \<and> bearer_of header = expected_token p \<and>
        (\<exists>data model. loads (sor body ''{}'') = Some data \<and> jget data ''model'' = JStr model \<and>
           model \<in> set ALLOWED_MODELS \<and> other_tables_same model es es')"
  proof (cases "ingest p loads dump_json lf now header body es")
    case (Inr r)
    obtain code answer es' where r: "r = (code, answer, es')" by (cases r)
    show ?thesis
    proof (cases "es' = es")
      case False
      with Inr r obtain data where d: "expected_token p \<noteq> []" "bearer_of header = expected_token p"
        "loads (sor body ''{}'') = Some data"
        by (auto simp: ingest_def split: if_splits option.splits)
      define m where "m = jstr (jget data ''model'')"
      from False Inr r d have m: "m \<in> set ALLOWED_MODELS"
        "es' = fst (ingest_model p dump_json lf now m (oget data ''object'') es)"
        by (auto simp: ingest_def m_def split: if_splits json.splits prod.splits option.splits)
      have "m \<noteq> []" using m(1) by (auto simp: ALLOWED_MODELS_def)
      then have "jget data ''model'' = JStr m" unfolding m_def by (cases "jget data ''model''") auto
      with d m ingest_model_frame [OF m(1)] show ?thesis unfolding Inr r by auto
    qed (simp add: Inr r)
  qed simp
  show "case forgejo_webhook p loads has_cron now raw signature event es of
      Inl _ \<Rightarrow> True
    | Inr (code, answer, runs) \<Rightarrow> runs = [] \<or>
        forgejo_webhook_secret p \<noteq> [] \<and>
        lower (strip signature) = hmac_sha256_hex (forgejo_webhook_secret p) raw \<and>
        (\<exists>payload r. loads (sor raw ''{}'') = Some payload \<and> r \<in> set (es_clients es) \<and>
           cl_k8s_name (tk_record r) = strip (sget (oget payload ''repository'') ''name''))"
    by (auto simp: forgejo_webhook_def bind_result_def valid_forgejo_signature_def compare_digest_def
        on_repo_push_def Let_def split: sum.split option.split if_splits)
qed

section \<open>One sweep imports what has its parents\<close>

text \<open>The list requests of a cluster that answers with the objects of \<open>world\<close>.\<close>

definition list_call :: "string \<Rightarrow> call" where
  "list_call plural = Custom VList PLATFORM_GROUP plural [] [] JNull"

definition cluster_lists :: "(string \<Rightarrow> json list) \<Rightarrow> env \<Rightarrow> bool" where
  "cluster_lists world env \<longleftrightarrow>
     (\<forall>l plural. env l (list_call plural) = Inr (JObj [(''items'', JArr (world plural))]))"

definition after_list :: "(string \<Rightarrow> json list) \<Rightarrow> string \<Rightarrow> st \<Rightarrow> st" where
  "after_list world plural s =
     s\<lparr>trace := (list_call plural, Inr (JObj [(''items'', JArr (world plural))])) # trace s\<rparr>"

lemma sweep_run:
  assumes "cluster_lists world env"
    and "fst (import_all is_it (made es) accepts refresh left (world plural) (Some (get es)) 0) = db"
  shows "sweep plural get put is_it made accepts refresh left (Some es) env s =
    (Inr (map_option (\<lambda>db. put db es) db), after_list world plural s)"
proof -
  have "callM (list_call plural) env s =
      (Inr (JObj [(''items'', JArr (world plural))]), after_list world plural s)"
    using assms(1) by (simp add: cluster_lists_def callM_def after_list_def Let_def)
  then have "portal_list plural [] env s = (Inr (world plural), after_list world plural s)"
    unfolding portal_list_def as_user_error_Inr list_call_def by (simp add: bindM_run ret_def get_or_def)
  then show ?thesis
    using assms(2) by (auto simp: sweep_def import_kind_def tryM_def bindM_def ret_def split: prod.split)
qed

text \<open>Variables the portal accepts, so that importing does not fail.\<close>

definition vars_ok :: "json \<Rightarrow> bool" where
  "vars_ok obj \<longleftrightarrow> (\<forall>nv \<in> set (desired_variables obj). env_name_ok (fst nv))"

lemma upsert_rows_ok:
  "(\<forall>nv \<in> set ds. env_name_ok (fst nv)) \<Longrightarrow> \<exists>rows'. upsert_rows now existing ds rows = Inr rows'"
  by (induction ds arbitrary: rows) (auto simp: check_row_name_def bind_result_def split: option.split)

lemma rows_of_ok: "vars_ok obj \<Longrightarrow> \<exists>r'. apply_obj vals (rows_of get put now) now obj r = Inr r'"
  using upsert_rows_ok [of "desired_variables obj" now]
  by (simp add: apply_obj_def rows_of_def sync_variables_def vars_ok_def Let_def bind_result_def)
     (metis sum.simps(6))

text \<open>A run that no object stops, under an invariant of the table that every import keeps.\<close>

lemma import_one_ok:
  assumes "\<And>r. \<exists>r'. refresh obj r = Inr r'"
    and "\<And>r. \<not> (\<exists>x \<in> set db. is_it obj (tk_record x)) \<Longrightarrow> made obj = Some r \<Longrightarrow> accepts obj r db = Inr ()"
  shows "\<exists>db' found. import_one is_it made accepts refresh obj db = Inr (db', found)"
proof -
  obtain f where f: "\<And>r. refresh obj r = Inr (f r)" using assms(1) by metis
  then have u: "\<exists>db'. update_first P (refresh obj) db = Inr db'" for P
    by (induction db) (auto simp: bind_result_def)
  show ?thesis
    using assms(2) u [of "\<lambda>r. is_it obj (tk_record r)"]
    by (auto simp: import_one_def bind_result_def f split: option.split)
qed

lemma import_all_commits:
  assumes "\<And>obj r. obj \<in> set objs \<Longrightarrow> \<exists>r'. refresh obj r = Inr r'"
    and "\<And>obj r db. obj \<in> set objs \<Longrightarrow> made obj = Some r \<Longrightarrow> accepts obj r db = Inr ()"
  shows "\<exists>db'. fst (import_all is_it made accepts refresh left objs (Some db) n) = Some db'"
  using assms
proof (induction objs arbitrary: db n)
  case (Cons obj objs)
  obtain db' found where "import_one is_it made accepts refresh obj db = Inr (db', found)"
    using import_one_ok [of refresh obj db is_it made accepts] Cons.prems by auto
  with Cons show ?case by simp
qed simp

context importable
begin

lemma import_one_mono:
  "import_one is_it made accepts refresh obj db = Inr (db', found) \<Longrightarrow> 0 < hits obj' db \<Longrightarrow> 0 < hits obj' db'"
  by (auto simp: import_one_def bind_result_Inr hits_pos split: if_splits option.splits)
     (metis hits_pos update_first_keeps)

lemma import_all_covers:
  assumes "\<And>obj r. obj \<in> set objs \<Longrightarrow> \<exists>r'. refresh obj r = Inr r'"
    and "\<And>obj r db. obj \<in> set objs \<Longrightarrow> I db \<Longrightarrow> hits obj db = 0 \<Longrightarrow> made obj = Some r \<Longrightarrow>
           accepts obj r db = Inr ()"
    and "\<And>obj db db' found. obj \<in> set objs \<Longrightarrow> I db \<Longrightarrow>
           import_one is_it made accepts refresh obj db = Inr (db', found) \<Longrightarrow> I db'"
    and "I db"
  shows "\<exists>db'. fst (import_all is_it made accepts refresh left objs (Some db) n) = Some db' \<and>
    (\<forall>obj. 0 < hits obj db \<longrightarrow> 0 < hits obj db') \<and>
    (\<forall>obj \<in> set objs. obj_name obj \<noteq> [] \<longrightarrow> made obj \<noteq> None \<longrightarrow> 0 < hits obj db')"
  using assms
proof (induction objs arbitrary: db n)
  case (Cons x objs)
  have "\<exists>db' found. import_one is_it made accepts refresh x db = Inr (db', found)"
    using Cons.prems(1,2,4) by (intro import_one_ok) (auto simp flip: hits_pos)
  then obtain db' found where one: "import_one is_it made accepts refresh x db = Inr (db', found)"
    by blast
  have I: "I db'" by (rule Cons.prems(3) [OF _ Cons.prems(4) one]) simp
  have "\<exists>db''. fst (import_all is_it made accepts refresh left objs (Some db')
      (if found then Suc n else n)) = Some db'' \<and>
    (\<forall>obj. 0 < hits obj db' \<longrightarrow> 0 < hits obj db'') \<and>
    (\<forall>obj \<in> set objs. obj_name obj \<noteq> [] \<longrightarrow> made obj \<noteq> None \<longrightarrow> 0 < hits obj db'')"
  proof (rule Cons.IH [OF _ _ _ I])
    show "\<exists>r'. refresh obj r = Inr r'" if "obj \<in> set objs" for obj r
      using that by (intro Cons.prems(1)) simp
    show "accepts obj r db = Inr ()"
      if "obj \<in> set objs" "I db" "hits obj db = 0" "made obj = Some r" for obj r db
      using that(1) by (intro Cons.prems(2) [OF _ that(2-4)]) simp
    show "I db'" if "obj \<in> set objs" "I db"
      "import_one is_it made accepts refresh obj db = Inr (db', found)" for obj db db' found
      using that(1) by (intro Cons.prems(3) [OF _ that(2,3)]) simp
  qed
  moreover have "0 < hits x db'" if "obj_name x \<noteq> []" "made x \<noteq> None"
  proof -
    have "found" using one that by (auto simp: import_one_def bind_result_Inr split: if_splits)
    with import_once [OF one] show ?thesis by simp
  qed
  ultimately show ?case using one import_one_mono [OF one] by auto
qed simp

end

interpretation types: importable is_type type_import type_accepts "refresh_type now" for now
proof
  fix obj obj' new r r'
  show "is_type obj new" if "type_import obj = Some new"
    using that by (auto simp: type_import_def is_type_def Let_def)
  show "is_type obj' (tk_record r') = is_type obj' (tk_record r)" if "refresh_type now obj r = Inr r'"
    using apply_obj_record [OF that [unfolded refresh_type_def]] by (simp add: no_rows_def)
qed

text \<open>The parents of a resource among the listed ones.\<close>

definition in_world :: "(string \<Rightarrow> json list) \<Rightarrow> string \<Rightarrow> string \<Rightarrow> bool" where
  "in_world world plural n \<longleftrightarrow> n \<noteq> [] \<and> (\<exists>obj \<in> set (world plural). obj_name obj = n)"

definition domain_placed :: "portal \<Rightarrow> (string \<Rightarrow> json list) \<Rightarrow> json \<Rightarrow> bool" where
  "domain_placed p world obj \<longleftrightarrow> obj \<in> set (world PLURAL_DOMAINS) \<and> obj_name obj \<noteq> [] \<and>
     in_world world PLURAL_CLIENTS (obj_client_slug p obj)"

definition environment_placed :: "(string \<Rightarrow> json list) \<Rightarrow> json \<Rightarrow> bool" where
  "environment_placed world obj \<longleftrightarrow> obj \<in> set (world PLURAL_ENVIRONMENTS) \<and> obj_name obj \<noteq> [] \<and>
     in_world world PLURAL_CLIENTS (ref_name (oget obj ''spec'') ''clientRef'')"

definition application_placed :: "portal \<Rightarrow> (string \<Rightarrow> json list) \<Rightarrow> json \<Rightarrow> bool" where
  "application_placed p world obj \<longleftrightarrow> obj \<in> set (world PLURAL_APPLICATIONS) \<and> obj_name obj \<noteq> [] \<and>
     in_world world PLURAL_APPLICATIONTYPES (sget (oget obj ''spec'') ''type'') \<and>
     (\<exists>e. environment_placed world e \<and>
        obj_name e = ref_name (oget obj ''spec'') ''environmentRef'' \<and>
        narrowed (obj_client_slug p obj) (ref_name (oget e ''spec'') ''clientRef''))"

definition world_vars_ok :: "(string \<Rightarrow> json list) \<Rightarrow> bool" where
  "world_vars_ok world \<longleftrightarrow> (\<forall>plural. \<forall>obj \<in> set (world plural). vars_ok obj)"

text \<open>
  Resources the columns of their model accept. The names and selections are what the schema of the
  custom resources asks for; the secret of a database or SSO entry is not, nor is the range of the
  replicas, nor that two resources do not claim the same domain.
\<close>

definition type_fits :: "json \<Rightarrow> bool" where
  "type_fits obj \<longleftrightarrow>
     sget (oget (oget obj ''spec'') ''sso'') ''protocol'' \<in> set ([] # SSO_PROTOCOLS)"

definition environment_fits :: "json \<Rightarrow> bool" where
  "environment_fits obj \<longleftrightarrow>
     sor (sget (oget obj ''spec'') ''class'') ''development'' \<in> set ENVIRONMENT_CLASSES"

definition server_fits :: "json \<Rightarrow> bool" where
  "server_fits obj \<longleftrightarrow> (let spec = oget obj ''spec'' in
     sor (sget spec ''engine'') ''postgres'' = ''postgres'' \<and>
     sor (sget spec ''mode'') ''cnpg'' \<in> {''cnpg'', ''external''} \<and>
     int4 (jint (jor (jget (oget spec ''cnpg'') ''instances'') (JInt 1))) \<and>
     int4 (jint (jor (jget (oget spec ''external'') ''port'') (JInt 5432))))"

definition application_fits :: "json \<Rightarrow> bool" where
  "application_fits obj \<longleftrightarrow> (let spec = oget obj ''spec'' in
     int4 (jint (jor (jget spec ''replicas'') (JInt 1))) \<and>
     (\<forall>d \<in> set (lget spec ''databases''). line_named d \<and> has_secret d) \<and>
     (\<forall>x \<in> set (lget spec ''sso''). line_named x \<and> has_secret x \<and>
        sor (sget x ''protocol'') ''oauth2'' \<in> set SSO_PROTOCOLS) \<and>
     (\<forall>e \<in> set (lget spec ''env''). line_named e))"

definition domain_key :: "portal \<Rightarrow> json \<Rightarrow> string \<times> string" where
  "domain_key p obj = (obj_client_slug p obj, norm_host (sget (oget obj ''spec'') ''fqdn''))"

definition record_key :: "portal_domain \<Rightarrow> string \<times> string" where
  "record_key d = (cl_k8s_name (dm_client d), dm_fqdn d)"

definition domains_fit :: "portal \<Rightarrow> json list \<Rightarrow> portal_domain tracked list \<Rightarrow> bool" where
  "domains_fit p objs db \<longleftrightarrow> (\<forall>obj \<in> set objs.
     (\<forall>r \<in> set db. record_key (tk_record r) = domain_key p obj \<longrightarrow>
        dm_k8s_name (tk_record r) = obj_name obj) \<and>
     (\<forall>obj' \<in> set objs. domain_key p obj' = domain_key p obj \<longrightarrow> obj_name obj' = obj_name obj))"

definition world_fits :: "portal \<Rightarrow> (string \<Rightarrow> json list) \<Rightarrow> estate \<Rightarrow> bool" where
  "world_fits p world es \<longleftrightarrow>
     (\<forall>obj \<in> set (world PLURAL_APPLICATIONTYPES). type_fits obj) \<and>
     domains_fit p (world PLURAL_DOMAINS) (es_domains es) \<and>
     (\<forall>obj \<in> set (world PLURAL_ENVIRONMENTS). environment_fits obj) \<and>
     (\<forall>obj \<in> set (world PLURAL_DATABASESERVERS). server_fits obj) \<and>
     (\<forall>obj \<in> set (world PLURAL_APPLICATIONS). application_fits obj)"

lemmas fits_defs = type_fits_def environment_fits_def server_fits_def application_fits_def

lemma type_accepted: "type_fits obj \<Longrightarrow> type_import obj = Some t \<Longrightarrow> type_accepts obj t db = Inr ()"
  by (auto simp: fits_defs type_import_def type_accepts_def Let_def)

lemma environment_accepted:
  "environment_fits obj \<Longrightarrow> environment_import fc obj = Some e \<Longrightarrow> environment_accepts obj e db = Inr ()"
  by (auto simp: fits_defs environment_import_def environment_accepts_def Let_def split: option.splits)

lemma server_accepted:
  "server_fits obj \<Longrightarrow> server_import p fe obj = Some r \<Longrightarrow> server_accepts obj r db = Inr ()"
  by (auto simp: fits_defs server_import_def server_accepts_def Let_def)

lemma application_accepted:
  "application_fits obj \<Longrightarrow> application_import p dj fe ft fd fr obj = Some a \<Longrightarrow>
   application_accepts obj a db = Inr ()"
  by (auto simp: fits_defs application_import_def application_accepts_def Let_def
      split: option.splits prod.splits)

lemma domain_made:
  assumes "domain_import p (find_named cl_k8s_name cs) obj = Some d"
  shows "record_key d = domain_key p obj" and "dm_k8s_name d = obj_name obj" and "is_domain p obj d"
  using assms
  by (auto simp: domain_import_def lookup_def record_key_def domain_key_def is_domain_def narrowed_def
      Let_def dest: find_named_name split: option.splits if_splits)

lemma same_key_is_domain:
  "record_key d = domain_key p obj \<Longrightarrow> dm_k8s_name d = obj_name obj \<Longrightarrow> is_domain p obj d"
  by (simp add: record_key_def domain_key_def is_domain_def narrowed_def)

lemma domain_accepted:
  assumes "domains_fit p objs db" and "obj \<in> set objs"
    and "\<not> (\<exists>r \<in> set db. is_domain p obj (tk_record r))"
    and "domain_import p (find_named cl_k8s_name cs) obj = Some d"
  shows "domain_accepts obj d db = Inr ()"
proof -
  have "record_key (tk_record r) \<noteq> record_key d" if "r \<in> set db" for r
    using assms(1-3) that unfolding domain_made(1) [OF assms(4)] domains_fit_def
    by (metis same_key_is_domain)
  then show ?thesis by (auto simp: domain_accepts_def record_key_def)
qed

lemma refresh_domain_keeps:
  "refresh_domain now obj r = Inr r' \<Longrightarrow> record_key (tk_record r') = record_key (tk_record r) \<and>
     dm_k8s_name (tk_record r') = dm_k8s_name (tk_record r)"
  by (auto simp: refresh_domain_def no_rows_def domain_status_vals_def record_key_def
      dest!: apply_obj_record sym [of _ "tk_record r'"])

lemma update_first_from:
  "update_first P f db = Inr db' \<Longrightarrow> r' \<in> set db' \<Longrightarrow> r' \<in> set db \<or> (\<exists>r \<in> set db. f r = Inr r')"
  by (induction db arbitrary: db') (auto simp: bind_result_Inr split: if_splits)

lemma domains_fit_kept:
  assumes "domains_fit p objs db" and "obj \<in> set objs"
    and "import_one (is_domain p) (domain_import p (find_named cl_k8s_name cs)) domain_accepts
      (refresh_domain now) obj db = Inr (db', found)"
  shows "domains_fit p objs db'"
proof -
  have "(\<exists>r \<in> set db. record_key (tk_record r') = record_key (tk_record r) \<and>
      dm_k8s_name (tk_record r') = dm_k8s_name (tk_record r)) \<or>
    record_key (tk_record r') = domain_key p obj \<and> dm_k8s_name (tk_record r') = obj_name obj"
    if "r' \<in> set db'" for r'
    using assms(3) that
    by (auto simp: import_one_def bind_result_Inr new_tracked_def domain_made
        dest!: update_first_from refresh_domain_keeps split: if_splits option.splits)
  with assms(1,2) show ?thesis unfolding domains_fit_def by metis
qed

lemma find_named_hit: "r \<in> set db \<Longrightarrow> f (tk_record r) = n \<Longrightarrow> find_named f db n \<noteq> None"
  by (auto simp: find_named_def find_None_iff)

lemma refreshes_ok:
  "vars_ok obj \<Longrightarrow> \<exists>r'. refresh_organization now obj g = Inr r'"
  "vars_ok obj \<Longrightarrow> \<exists>r'. refresh_client now obj c = Inr r'"
  "vars_ok obj \<Longrightarrow> \<exists>r'. refresh_environment now obj e = Inr r'"
  "vars_ok obj \<Longrightarrow> \<exists>r'. refresh_application now obj a = Inr r'"
  "\<exists>r'. refresh_type now obj t = Inr r'"
  "\<exists>r'. refresh_domain now obj d = Inr r'"
  "\<exists>r'. refresh_server now obj sv = Inr r'"
  "\<exists>r'. refresh_repository now obj rp = Inr r'"
  "\<exists>r'. refresh_snapshot now obj sn = Inr r'"
  unfolding refresh_organization_def refresh_client_def refresh_environment_def refresh_application_def
  by (rule rows_of_ok, assumption)+
     (simp_all add: refresh_type_def refresh_domain_def refresh_server_def refresh_repository_def
       refresh_snapshot_def apply_obj_def no_rows_def bind_result_def)

text \<open>The run of each kind over the listed objects, in a transaction that is still good.\<close>

abbreviation "run_organizations left now objs db \<equiv> fst (import_all is_organization organization_import
  no_checks (refresh_organization now) left objs (Some db) 0)"

abbreviation "run_types left now objs db \<equiv> fst (import_all is_type type_import
  type_accepts (refresh_type now) left objs (Some db) 0)"

abbreviation "run_clients left now find_org objs db \<equiv> fst (import_all is_client (client_import find_org)
  no_checks (refresh_client now) left objs (Some db) 0)"

abbreviation "run_domains left now p cs objs db \<equiv> fst (import_all (is_domain p)
  (domain_import p (find_named cl_k8s_name cs)) domain_accepts (refresh_domain now) left objs (Some db) 0)"

abbreviation "run_environments left now p cs objs db \<equiv> fst (import_all (is_environment p)
  (environment_import (find_named cl_k8s_name cs)) environment_accepts (refresh_environment now) left
  objs (Some db) 0)"

abbreviation "run_servers left now p vs objs db \<equiv> fst (import_all (is_server p)
  (server_import p (find_environment vs)) server_accepts (refresh_server now) left objs (Some db) 0)"

abbreviation "run_applications left now p dump_json vs find_type find_dom find_repo objs db \<equiv>
  fst (import_all (is_application p)
    (application_import p dump_json (find_environment vs) find_type find_dom find_repo)
    application_accepts (refresh_application now) left objs (Some db) 0)"

abbreviation "run_repositories left now p objs db \<equiv> fst (import_all (is_repository p) no_import
  no_checks (refresh_repository now) left objs (Some db) 0)"

abbreviation "run_snapshots left now p objs db \<equiv> fst (import_all (is_snapshot p) no_import
  no_checks (refresh_snapshot now) left objs (Some db) 0)"

lemma clients_covered:
  assumes "world_vars_ok world"
  shows "\<exists>cs. run_clients left now fo (world PLURAL_CLIENTS) db = Some cs \<and>
    (\<forall>n. in_world world PLURAL_CLIENTS n \<longrightarrow> find_named cl_k8s_name cs n \<noteq> None)"
proof -
  obtain cs where cs: "run_clients left now fo (world PLURAL_CLIENTS) db = Some cs"
    "\<forall>obj \<in> set (world PLURAL_CLIENTS). obj_name obj \<noteq> [] \<longrightarrow> client_import fo obj \<noteq> None \<longrightarrow>
       0 < clients.hits obj cs"
    using assms clients.import_all_covers [of "world PLURAL_CLIENTS" now "\<lambda>_. True" fo db left 0]
    by (auto simp: world_vars_ok_def no_checks_def refreshes_ok)
  have "find_named cl_k8s_name cs n \<noteq> None" if n: "in_world world PLURAL_CLIENTS n" for n
  proof -
    obtain obj where obj: "obj \<in> set (world PLURAL_CLIENTS)" "obj_name obj = n" "n \<noteq> []"
      using n by (auto simp: in_world_def)
    with cs(2) obtain r where "r \<in> set cs" "is_client obj (tk_record r)"
      by (auto simp: clients.hits_pos client_import_def Let_def)
    with obj show ?thesis by (metis is_client_def find_named_hit)
  qed
  with cs(1) show ?thesis by blast
qed

lemma types_covered:
  assumes "\<forall>obj \<in> set (world PLURAL_APPLICATIONTYPES). type_fits obj"
  shows "\<exists>ts. run_types left now (world PLURAL_APPLICATIONTYPES) db = Some ts \<and>
    (\<forall>n. in_world world PLURAL_APPLICATIONTYPES n \<longrightarrow> find_named ty_k8s_name ts n \<noteq> None)"
proof -
  obtain ts where ts: "run_types left now (world PLURAL_APPLICATIONTYPES) db = Some ts"
    "\<forall>obj \<in> set (world PLURAL_APPLICATIONTYPES). obj_name obj \<noteq> [] \<longrightarrow> type_import obj \<noteq> None \<longrightarrow>
       0 < types.hits obj ts"
    using assms types.import_all_covers [of "world PLURAL_APPLICATIONTYPES" now "\<lambda>_. True" db left 0]
    by (auto simp: type_accepted refreshes_ok)
  have "find_named ty_k8s_name ts n \<noteq> None" if n: "in_world world PLURAL_APPLICATIONTYPES n" for n
  proof -
    obtain obj where obj: "obj \<in> set (world PLURAL_APPLICATIONTYPES)" "obj_name obj = n" "n \<noteq> []"
      using n by (auto simp: in_world_def)
    with ts(2) obtain r where "r \<in> set ts" "is_type obj (tk_record r)"
      by (auto simp: types.hits_pos type_import_def Let_def)
    with obj show ?thesis by (metis is_type_def find_named_hit)
  qed
  with ts(1) show ?thesis by blast
qed

lemma domains_covered:
  assumes "domains_fit p (world PLURAL_DOMAINS) db"
    and "\<And>n. in_world world PLURAL_CLIENTS n \<Longrightarrow> find_named cl_k8s_name cs n \<noteq> None"
  shows "\<exists>ds. run_domains left now p cs (world PLURAL_DOMAINS) db = Some ds \<and>
    (\<forall>obj. domain_placed p world obj \<longrightarrow> (\<exists>r \<in> set ds. is_domain p obj (tk_record r)))"
proof -
  let ?D = "world PLURAL_DOMAINS" and ?made = "domain_import p (find_named cl_k8s_name cs)"
  have acc: "domain_accepts obj d db = Inr ()"
    if "obj \<in> set ?D" "domains_fit p ?D db" "domains.hits p obj db = 0" "?made obj = Some d" for obj d db
    by (rule domain_accepted [OF that(2,1) _ that(4)]) (use that(3) in \<open>simp flip: domains.hits_pos\<close>)
  have kept: "domains_fit p ?D db'"
    if "obj \<in> set ?D" "domains_fit p ?D db"
      "import_one (is_domain p) ?made domain_accepts (refresh_domain now) obj db = Inr (db', found)"
    for obj db db' found
    by (rule domains_fit_kept [OF that(2,1,3)])
  have "\<exists>ds. run_domains left now p cs ?D db = Some ds \<and>
    (\<forall>obj. 0 < domains.hits p obj db \<longrightarrow> 0 < domains.hits p obj ds) \<and>
    (\<forall>obj \<in> set ?D. obj_name obj \<noteq> [] \<longrightarrow> ?made obj \<noteq> None \<longrightarrow> 0 < domains.hits p obj ds)"
    by (rule domains.import_all_covers [where I = "domains_fit p ?D"])
       (rule refreshes_ok(6) | erule (3) acc | erule (2) kept | rule assms(1))+
  then obtain ds where ds: "run_domains left now p cs ?D db = Some ds"
    "\<forall>obj \<in> set ?D. obj_name obj \<noteq> [] \<longrightarrow> ?made obj \<noteq> None \<longrightarrow> 0 < domains.hits p obj ds"
    by blast
  have "?made obj \<noteq> None" if "domain_placed p world obj" for obj
    using that assms(2) [of "obj_client_slug p obj"]
    by (auto simp: domain_placed_def domain_import_def lookup_def in_world_def Let_def)
  with ds show ?thesis by (auto simp: domain_placed_def domains.hits_pos)
qed

lemma environments_covered:
  assumes "world_vars_ok world" and "\<forall>obj \<in> set (world PLURAL_ENVIRONMENTS). environment_fits obj"
    and "\<And>n. in_world world PLURAL_CLIENTS n \<Longrightarrow> find_named cl_k8s_name cs n \<noteq> None"
  shows "\<exists>vs. run_environments left now p cs (world PLURAL_ENVIRONMENTS) db = Some vs \<and>
    (\<forall>obj. environment_placed world obj \<longrightarrow> (\<exists>r \<in> set vs. is_environment p obj (tk_record r)))"
proof -
  let ?made = "environment_import (find_named cl_k8s_name cs)"
  obtain vs where vs: "run_environments left now p cs (world PLURAL_ENVIRONMENTS) db = Some vs"
    "\<forall>obj \<in> set (world PLURAL_ENVIRONMENTS). obj_name obj \<noteq> [] \<longrightarrow> ?made obj \<noteq> None \<longrightarrow>
       0 < environments.hits p obj vs"
    using assms(1,2) environments.import_all_covers [of "world PLURAL_ENVIRONMENTS" now "\<lambda>_. True" p cs db left 0]
    by (auto simp: world_vars_ok_def environment_accepted refreshes_ok)
  have "?made obj \<noteq> None" if "environment_placed world obj" for obj
    using that assms(3) [of "ref_name (oget obj ''spec'') ''clientRef''"]
    by (auto simp: environment_placed_def environment_import_def lookup_def in_world_def Let_def)
  with vs show ?thesis by (auto simp: environment_placed_def environments.hits_pos)
qed

lemma application_made:
  assumes "application_placed p world obj"
    and "\<And>n. in_world world PLURAL_APPLICATIONTYPES n \<Longrightarrow> find_type n \<noteq> None"
    and envs: "\<And>e. environment_placed world e \<Longrightarrow> \<exists>r \<in> set es. is_environment p e (tk_record r)"
  shows "application_import p dump_json (find_environment es) find_type fd fr obj \<noteq> None"
proof -
  let ?spec = "oget obj ''spec''"
  from assms(1) obtain e where e: "environment_placed world e"
    "obj_name e = ref_name ?spec ''environmentRef''"
    "narrowed (obj_client_slug p obj) (ref_name (oget e ''spec'') ''clientRef'')"
    by (auto simp: application_placed_def)
  from envs [OF e(1)] obtain r where r: "r \<in> set es" "is_environment p e (tk_record r)" by blast
  have "ref_name (oget e ''spec'') ''clientRef'' \<noteq> []" "obj_name e \<noteq> []"
    using e(1) by (auto simp: environment_placed_def in_world_def)
  with r e have "find_environment es (obj_client_slug p obj) (ref_name ?spec ''environmentRef'') \<noteq> None"
    by (auto simp: find_environment_def find_None_iff is_environment_def narrowed_def sor_def)
  moreover have "find_type (sget ?spec ''type'') \<noteq> None" "sget ?spec ''type'' \<noteq> []"
    using assms(1,2) by (auto simp: application_placed_def in_world_def)
  ultimately show ?thesis
    using e \<open>obj_name e \<noteq> []\<close>
    by (auto simp: application_import_def lookup_def Let_def split: option.split prod.split)
qed

lemma applications_covered:
  assumes "world_vars_ok world" and "\<forall>obj \<in> set (world PLURAL_APPLICATIONS). application_fits obj"
    and "\<And>n. in_world world PLURAL_APPLICATIONTYPES n \<Longrightarrow> find_type n \<noteq> None"
    and envs: "\<And>e. environment_placed world e \<Longrightarrow> \<exists>r \<in> set es. is_environment p e (tk_record r)"
  shows "\<exists>apps. run_applications left now p dump_json es find_type fd fr (world PLURAL_APPLICATIONS) db = Some apps \<and>
    (\<forall>obj. application_placed p world obj \<longrightarrow> (\<exists>r \<in> set apps. is_application p obj (tk_record r)))"
proof -
  let ?made = "application_import p dump_json (find_environment es) find_type fd fr"
  obtain apps where apps:
    "run_applications left now p dump_json es find_type fd fr (world PLURAL_APPLICATIONS) db = Some apps"
    "\<forall>obj \<in> set (world PLURAL_APPLICATIONS). obj_name obj \<noteq> [] \<longrightarrow> ?made obj \<noteq> None \<longrightarrow>
       0 < applications.hits p obj apps"
    using assms(1,2) applications.import_all_covers
      [of "world PLURAL_APPLICATIONS" now "\<lambda>_. True" p dump_json es find_type fd fr db left 0]
    by (auto simp: world_vars_ok_def application_accepted refreshes_ok)
  have "?made obj \<noteq> None" if "application_placed p world obj" for obj
    by (rule application_made [OF that assms(3) envs])
  with apps show ?thesis by (auto simp: application_placed_def applications.hits_pos)
qed

text \<open>The kinds nothing is asked of come through.\<close>

lemma other_runs:
  "world_vars_ok world \<Longrightarrow> \<exists>gs. run_organizations left now (world PLURAL_ORGANIZATIONS) db1 = Some gs"
  "\<forall>obj \<in> set (world PLURAL_DATABASESERVERS). server_fits obj \<Longrightarrow>
     \<exists>ss. run_servers left' now p vs (world PLURAL_DATABASESERVERS) db2 = Some ss"
  "\<exists>rs. run_repositories left'' now p objs db3 = Some rs"
  "\<exists>ss. run_snapshots left3 now p objs db4 = Some ss"
  by (rule import_all_commits; auto simp: world_vars_ok_def refreshes_ok no_checks_def server_accepted
        no_import_def)+

text \<open>C22. One sweep mirrors the cluster. Against a cluster that answers its lists, whose variables have
  names the portal accepts and whose resources its columns do (the entries of an application have
  their secrets, no two domains of a client are the same), one run of the sync returns and commits
  a row for every listed client and type, for every domain and environment whose client is listed,
  and for every application whose type and environment are: parents are swept before their
  children, so nothing waits for a second run.
\<close>

theorem cron_sync_imports_all:
  assumes env: "cluster_lists world env" and ok: "world_vars_ok world" and fits: "world_fits p world es"
  shows "\<exists>es' s'. cron_sync_all p dump_json lf now es env s = (Inr es', s') \<and>
    (\<forall>n. in_world world PLURAL_CLIENTS n \<longrightarrow> find_named cl_k8s_name (es_clients es') n \<noteq> None) \<and>
    (\<forall>n. in_world world PLURAL_APPLICATIONTYPES n \<longrightarrow> find_named ty_k8s_name (es_types es') n \<noteq> None) \<and>
    (\<forall>obj. domain_placed p world obj \<longrightarrow>
       (\<exists>r \<in> set (es_domains es'). is_domain p obj (tk_record r))) \<and>
    (\<forall>obj. environment_placed world obj \<longrightarrow>
       (\<exists>r \<in> set (es_environments es'). is_environment p obj (tk_record r))) \<and>
    (\<forall>obj. application_placed p world obj \<longrightarrow>
       (\<exists>r \<in> set (es_applications es'). is_application p obj (tk_record r)))"
proof -
  note f = fits [unfolded world_fits_def]
  obtain gs where gs: "run_organizations (lf_organization lf) now (world PLURAL_ORGANIZATIONS)
      (es_organizations es) = Some gs"
    using other_runs(1) [OF ok] by blast
  obtain ts where ts: "run_types as_it_was now (world PLURAL_APPLICATIONTYPES) (es_types es) = Some ts"
    and t: "\<And>n. in_world world PLURAL_APPLICATIONTYPES n \<Longrightarrow> find_named ty_k8s_name ts n \<noteq> None"
    using types_covered [of world now as_it_was "es_types es"] f by blast
  obtain cs where cs: "run_clients (lf_client lf) now (find_named og_k8s_name gs) (world PLURAL_CLIENTS)
      (es_clients es) = Some cs"
    and c: "\<And>n. in_world world PLURAL_CLIENTS n \<Longrightarrow> find_named cl_k8s_name cs n \<noteq> None"
    using clients_covered [OF ok] by blast
  obtain ds where ds: "run_domains as_it_was now p cs (world PLURAL_DOMAINS) (es_domains es) = Some ds"
    and d: "\<And>obj. domain_placed p world obj \<Longrightarrow> \<exists>r \<in> set ds. is_domain p obj (tk_record r)"
    using domains_covered [of p world "es_domains es" cs now as_it_was] f c by blast
  obtain vs where vs: "run_environments (lf_environment lf) now p cs (world PLURAL_ENVIRONMENTS)
      (es_environments es) = Some vs"
    and e: "\<And>obj. environment_placed world obj \<Longrightarrow> \<exists>r \<in> set vs. is_environment p obj (tk_record r)"
    using environments_covered [OF ok _ c, of p now "lf_environment lf" "es_environments es"] f by blast
  obtain ss where ss: "run_servers as_it_was now p vs (world PLURAL_DATABASESERVERS) (es_servers es) = Some ss"
    using other_runs(2) [of world p vs now as_it_was "es_servers es"] f by blast
  have "\<exists>apps. run_applications (lf_application lf) now p dump_json vs (find_named ty_k8s_name ts)
      (find_domain ds) (find_named gr_k8s_name (es_repositories es)) (world PLURAL_APPLICATIONS)
      (es_applications es) = Some apps \<and>
    (\<forall>obj. application_placed p world obj \<longrightarrow> (\<exists>r \<in> set apps. is_application p obj (tk_record r)))"
    by (rule applications_covered [OF ok]) (use f in blast, erule t, erule e)
  then obtain apps where apps: "run_applications (lf_application lf) now p dump_json vs
      (find_named ty_k8s_name ts) (find_domain ds) (find_named gr_k8s_name (es_repositories es))
      (world PLURAL_APPLICATIONS) (es_applications es) = Some apps"
    and a: "\<And>obj. application_placed p world obj \<Longrightarrow> \<exists>r \<in> set apps. is_application p obj (tk_record r)"
    by blast
  obtain rs where rs: "run_repositories as_it_was now p (world PLURAL_GITREPOSITORIES) (es_repositories es) = Some rs"
    using other_runs(3) by blast
  obtain ns where ns: "run_snapshots as_it_was now p (world PLURAL_SNAPSHOTS) (es_snapshots es) = Some ns"
    using other_runs(4) by blast
  have "\<exists>es' s'. cron_sync_all p dump_json lf now es env s = (Inr es', s') \<and> es_clients es' = cs \<and>
      es_types es' = ts \<and> es_domains es' = ds \<and> es_environments es' = vs \<and> es_applications es' = apps"
    by (simp add: cron_sync_all_def bindM_def sweep_run [OF env] ret_def committed_def made_client_def
        made_environment_def made_domain_def made_server_def made_application_def
        gs ts cs ds vs ss apps rs ns)
  with c t d e a show ?thesis by blast
qed

definition acme_object :: "string \<Rightarrow> (string \<times> json) list \<Rightarrow> json" where
  "acme_object name spec = JObj [(''metadata'', JObj [(''name'', JStr name),
     (''namespace'', JStr ''adomi-client-acme'')]), (''spec'', JObj spec)]"

definition erp_database :: "(string \<times> json) list \<Rightarrow> json" where
  "erp_database credentials = JObj [(''name'', JStr ''main''), (''server'', JStr ''pg''),
     (''credentials'', JObj credentials)]"

text \<open>The resources of one customer, the application's database with the given credentials.\<close>

definition acme_with :: "(string \<times> json) list \<Rightarrow> string \<Rightarrow> json list" where
  "acme_with credentials plural =
     (if plural = PLURAL_CLIENTS then [JObj [(''metadata'', JObj [(''name'', JStr ''acme'')])]]
      else if plural = PLURAL_APPLICATIONTYPES
      then [JObj [(''metadata'', JObj [(''name'', JStr ''odoo'')])]]
      else if plural = PLURAL_DOMAINS
      then [acme_object ''acme-com'' [(''fqdn'', JStr ''acme.com'')]]
      else if plural = PLURAL_ENVIRONMENTS
      then [acme_object ''production'' [(''clientRef'', ref_to ''acme''), (''class'', JStr ''production'')]]
      else if plural = PLURAL_APPLICATIONS
      then [acme_object ''erp'' [(''type'', JStr ''odoo''), (''environmentRef'', ref_to ''production''),
          (''databases'', JArr [erp_database credentials]),
          (''source'', JObj [(''repositoryRef'', ref_to ''erp''), (''ref'', JStr ''main'')])]]
      else [])"

definition acme_world :: "string \<Rightarrow> json list" where
  "acme_world = acme_with [(''secret'', JStr ''erp-db'')]"

definition empty_estate :: estate where
  "empty_estate = \<lparr> es_organizations = [], es_types = [], es_clients = [], es_domains = [],
     es_environments = [], es_servers = [], es_applications = [], es_repositories = [],
     es_snapshots = [] \<rparr>"

definition no_leftovers :: leftovers where
  "no_leftovers = \<lparr> lf_organization = as_it_was, lf_client = as_it_was,
     lf_environment = as_it_was, lf_application = as_it_was \<rparr>"

definition bare_portal :: portal where
  "bare_portal = \<lparr> pl_params = [], pl_environ = [] \<rparr>"

definition listing_env :: "(string \<Rightarrow> json list) \<Rightarrow> env" where
  "listing_env world = (\<lambda>l c. case c of
     Custom v api plural ns name body \<Rightarrow> Inr (JObj [(''items'', JArr (world plural))])
   | _ \<Rightarrow> Inr JNull)"

lemma listing_env_lists: "cluster_lists world (listing_env world)"
  by (simp add: cluster_lists_def listing_env_def list_call_def)

lemma cron_sync_imports_all_witness:
  "\<exists>es' s'. cron_sync_all bare_portal (\<lambda>j. []) no_leftovers 0 empty_estate (listing_env acme_world) init_st =
     (Inr es', s') \<and>
   (\<exists>r \<in> set (es_applications es').
      is_application bare_portal (hd (acme_world PLURAL_APPLICATIONS)) (tk_record r))"
proof -
  have "vars_ok obj" if "obj \<in> set (acme_world plural)" for obj plural
    using that by (auto simp: acme_world_def acme_with_def acme_object_def vars_ok_def
        desired_variables_def lget_def oget_def jor_def split: if_splits)
  then have ok: "world_vars_ok acme_world" by (simp add: world_vars_ok_def)
  have fits: "world_fits bare_portal acme_world empty_estate" by code_simp
  have "application_placed bare_portal acme_world (hd (acme_world PLURAL_APPLICATIONS))"
    unfolding application_placed_def environment_placed_def in_world_def
    by (intro conjI exI [of _ "hd (acme_world PLURAL_ENVIRONMENTS)"]) code_simp+
  with cron_sync_imports_all [OF listing_env_lists ok fits, of "\<lambda>j. []" no_leftovers 0 init_st]
  show ?thesis by blast
qed

text \<open>
  Without the last hypothesis nothing is left of the run. The schema of the custom resources does
  not ask for the secret of a database, the column does: one such application, listed after the
  client, the type, the domain and the environment were imported, aborts the transaction, and the
  tables stay as they were.
\<close>

lemma import_all_aborted: "import_all is_it made accepts refresh left objs None n = (None, n)"
  by (induction objs) simp_all

lemma sweep_aborted:
  "sweep plural get put is_it made accepts refresh left None env s = (Inr None, snd (portal_list plural [] env s))"
  by (auto simp: sweep_def import_kind_def tryM_def bindM_def ret_def import_all_aborted
      split: sum.split prod.split)

definition acme_types :: "portal_type tracked list option" where
  "acme_types = run_types as_it_was 0 (acme_with [] PLURAL_APPLICATIONTYPES) []"

definition acme_clients :: "portal_client tracked list option" where
  "acme_clients = run_clients as_it_was 0 (find_named og_k8s_name []) (acme_with [] PLURAL_CLIENTS) []"

definition acme_domains :: "portal_domain tracked list option" where
  "acme_domains = run_domains as_it_was 0 bare_portal (the acme_clients) (acme_with [] PLURAL_DOMAINS) []"

definition acme_environments :: "portal_environment tracked list option" where
  "acme_environments =
     run_environments as_it_was 0 bare_portal (the acme_clients) (acme_with [] PLURAL_ENVIRONMENTS) []"

lemma acme_parents:
  "length (the acme_types) = 1 \<and> acme_types \<noteq> None" "length (the acme_clients) = 1 \<and> acme_clients \<noteq> None"
  "length (the acme_domains) = 1 \<and> acme_domains \<noteq> None"
  "length (the acme_environments) = 1 \<and> acme_environments \<noteq> None"
  by code_simp+

lemma acme_application_aborts:
  "run_applications as_it_was 0 bare_portal (\<lambda>j. []) (the acme_environments)
     (find_named ty_k8s_name (the acme_types)) (find_domain (the acme_domains)) (find_named gr_k8s_name [])
     (acme_with [] PLURAL_APPLICATIONS) [] = None"
  by code_simp

lemma nothing_listed:
  "acme_with c PLURAL_ORGANIZATIONS = []" "acme_with c PLURAL_DATABASESERVERS = []"
  by (simp_all add: acme_with_def)

lemma incomplete_application_loses_the_sweep:
  "\<exists>s'. cron_sync_all bare_portal (\<lambda>j. []) no_leftovers 0 empty_estate (listing_env (acme_with [])) s =
     (Inr empty_estate, s')"
proof -
  obtain ts cs ds vs where a: "acme_types = Some ts" "acme_clients = Some cs" "acme_domains = Some ds"
    "acme_environments = Some vs"
    using acme_parents by auto
  show ?thesis
    by (simp add: cron_sync_all_def bindM_def ret_def committed_def sweep_aborted sweep_run [OF listing_env_lists] nothing_listed
        no_leftovers_def empty_estate_def made_client_def made_environment_def made_domain_def
        made_server_def made_application_def acme_application_aborts [unfolded a option.sel]
        a(1) [unfolded acme_types_def] a(2) [unfolded acme_clients_def]
        a(3) [unfolded acme_domains_def a(2) option.sel] a(4) [unfolded acme_environments_def a(2) option.sel])
qed

text \<open>
  Repositories are swept after the applications and are never imported, so an application the sweep
  finds first loses its build source: the portal would write it back without one.
\<close>

lemma source_lost_on_import:
  "case made_application bare_portal (\<lambda>j. [])
      (empty_estate\<lparr>es_types := [new_tracked odoo_type], es_environments := [new_tracked acme_prod]\<rparr>)
      (hd (acme_world PLURAL_APPLICATIONS)) of
     None \<Rightarrow> False
   | Some a \<Rightarrow> ap_repository a = None \<and>
       dget (application_k8s_spec (\<lambda>t. None) numbered_yaml a) ''source'' = None"
  by code_simp

end
