(* ===== verification/PortalSignIn.thy ===== *)
theory PortalSignIn
  imports PortalSync
begin

text \<open>
  Who may enter the portal: \<open>models/res_users.py\<close> (roles from the sign-in's groups),
  \<open>models/oidc_setup.py\<close> (the sign-in provider from the environment), \<open>models/authentik_user.py\<close>
  and \<open>wizards/access_wizard.py\<close> (the mirrored directory and granting access), and the cards of
  \<open>models/setup_guide.py\<close>. A group is its external id; \<open>known\<close> lists those that resolve.
\<close>

section \<open>Roles\<close>

record res_user =
  us_id :: nat
  us_login :: string
  us_groups :: "string list"

definition SUPERUSER_ID :: nat where
  "SUPERUSER_ID = 1"

definition link_group :: "string \<Rightarrow> string list \<Rightarrow> string list" where
  "link_group g gs = (if g \<in> set gs then gs else gs @ [g])"

definition unlink_group :: "string \<Rightarrow> string list \<Rightarrow> string list" where
  "unlink_group g gs = filter (\<lambda>h. h \<noteq> g) gs"

text \<open>\<open>admin_group_name in claim\<close>; \<open>None\<close> is the \<open>TypeError\<close> of a claim that holds nothing.\<close>

definition in_claim :: "string \<Rightarrow> json \<Rightarrow> bool option" where
  "in_claim name claim =
     (if \<not> truthy claim then Some False
      else case claim of
        JStr s \<Rightarrow> Some (s = name)
      | JArr xs \<Rightarrow> Some (JStr name \<in> set xs)
      | JObj kvs \<Rightarrow> Some (name \<in> fst ` set kvs)
      | _ \<Rightarrow> None)"

definition oidc_admin_group :: "portal \<Rightarrow> string" where
  "oidc_admin_group p = get_param p ''adomi_platform.oidc_admin_group'' ''Platform Admins''"

definition role_groups :: "string list \<Rightarrow> bool \<Rightarrow> string list \<Rightarrow> string list" where
  "role_groups known is_admin gs =
     (let found = (\<lambda>xs. filter (\<lambda>g. g \<in> set known) xs);
          add = found (''base.group_user'' # (if is_admin then [''base.group_system''] else []));
          remove = found ([''base.group_portal'', ''base.group_public''] @
                          (if is_admin then [] else [''base.group_system'']))
      in foldl (\<lambda>gs g. unlink_group g gs) (foldl (\<lambda>gs g. link_group g gs) gs add) remove)"

text \<open>\<open>_adomi_sync_oidc_groups\<close>; \<open>admin_id\<close> is the bootstrap admin's id, if it resolves.\<close>

definition sync_oidc_groups ::
    "portal \<Rightarrow> string list \<Rightarrow> nat option \<Rightarrow> string \<Rightarrow> json \<Rightarrow> res_user list \<Rightarrow> exn + res_user list" where
  "sync_oidc_groups p known admin_id login validation users =
     (if login = [] then Inr users
      else case List.find (\<lambda>u. us_login u = login) users of
        None \<Rightarrow> Inr users
      | Some u \<Rightarrow>
          if us_id u = SUPERUSER_ID \<or> admin_id = Some (us_id u) then Inr users
          else case in_claim (oidc_admin_group p) (jget validation ''groups'') of
            None \<Rightarrow> Inl (PyError ''TypeError'')
          | Some is_admin \<Rightarrow> Inr (map (\<lambda>x. if us_id x = us_id u
              then x\<lparr>us_groups := role_groups known is_admin (us_groups x)\<rparr> else x) users))"

text \<open>\<open>_auth_oauth_signin\<close> after Odoo's own: a failure does not block the login.\<close>

definition oauth_signin ::
    "portal \<Rightarrow> string list \<Rightarrow> nat option \<Rightarrow> string \<Rightarrow> json \<Rightarrow> res_user list \<Rightarrow> string \<times> res_user list" where
  "oauth_signin p known admin_id login validation users =
     (login, case sync_oidc_groups p known admin_id login validation users of
        Inl _ \<Rightarrow> users | Inr users' \<Rightarrow> users')"

section \<open>The sign-in provider\<close>

definition env_stripped :: "portal \<Rightarrow> string \<Rightarrow> string" where
  "env_stripped p k = strip (getenv p k)"

definition provider_vals :: "string \<Rightarrow> string \<Rightarrow> string \<Rightarrow> string \<Rightarrow> dict" where
  "provider_vals client_id client_secret auth_host slug =
     (let base = ''https://'' @ auth_host @ ''/application/o'' in
      [(''name'', JStr ''Authentik''), (''flow'', JStr ''id_token_code''),
       (''scope'', JStr ''openid profile email groups''),
       (''auth_endpoint'', JStr (base @ ''/authorize/'')),
       (''token_endpoint'', JStr (base @ ''/token/'')),
       (''validation_endpoint'', JStr (base @ ''/userinfo/'')),
       (''jwks_uri'', JStr (base @ ''/'' @ slug @ ''/jwks/'')),
       (''client_id'', JStr client_id), (''client_secret'', JStr client_secret),
       (''enabled'', JBool True), (''css_class'', JStr ''fa fa-fw fa-shield''),
       (''body'', JStr ''Log in with Authentik'')])"

text \<open>The provider behind the external id is a dictionary of its fields, when it exists.\<close>

definition setup_from_env :: "portal \<Rightarrow> dict option \<Rightarrow> portal \<times> dict option \<times> bool" where
  "setup_from_env p provider =
     (let base_url = env_stripped p ''ADOMI_PORTAL_BASE_URL'';
          p' = (if base_url \<noteq> []
                then p\<lparr>pl_params := dset ''web.base.url.freeze'' ''True'' (dset ''web.base.url'' base_url (pl_params p))\<rparr>
                else p);
          client_id = env_stripped p ''ADOMI_OIDC_CLIENT_ID'';
          client_secret = env_stripped p ''ADOMI_OIDC_CLIENT_SECRET'';
          auth_host = env_stripped p ''ADOMI_OIDC_AUTH_HOST'';
          slug = strip (sor (getenv p ''ADOMI_OIDC_APP_SLUG'') ''adomi-platform-management'')
      in if client_id = [] \<or> auth_host = [] then (p', provider, False)
         else (p', Some (dupdate (case provider of Some d \<Rightarrow> d | None \<Rightarrow> [])
                (provider_vals client_id client_secret auth_host slug)), True))"

section \<open>The directory of users\<close>

record authentik_user =
  au_pk :: int
  au_name :: string
  au_username :: string
  au_email :: string

definition user_vals :: "json \<Rightarrow> authentik_user" where
  "user_vals u = \<lparr> au_pk = jint (jget u ''pk''),
     au_name = sor (sget u ''name'') (sget u ''username''), au_username = sget u ''username'',
     au_email = sget u ''email'' \<rparr>"

text \<open>One user of the answer: a mirrored one is written, another is created, once.\<close>

fun upsert_users ::
    "authentik_user list \<Rightarrow> json list \<Rightarrow> authentik_user list \<Rightarrow> exn + authentik_user list" where
  "upsert_users existing [] rows = Inr rows"
| "upsert_users existing (u # us) rows =
     (let pk = jint (jget u ''pk'') in
      if pk = 0 then upsert_users existing us rows
      else if pk \<in> au_pk ` set existing
      then upsert_users existing us (map (\<lambda>r. if au_pk r = pk then user_vals u else r) rows)
      else if pk \<in> au_pk ` set rows then Inl (PyError ''UniqueViolation'')
      else upsert_users existing us (rows @ [user_vals u]))"

definition seen_pks :: "json list \<Rightarrow> int list" where
  "seen_pks users = remdups (filter (\<lambda>pk. pk \<noteq> 0) (map (\<lambda>u. jint (jget u ''pk'')) users))"

definition mirror_users :: "json list \<Rightarrow> authentik_user list \<Rightarrow> exn + authentik_user list" where
  "mirror_users users rows =
     bind_result (upsert_users rows users rows) (\<lambda>rows'.
       Inr (filter (\<lambda>r. au_pk r \<in> set (seen_pks users)) rows'))"

definition sync_from_platform :: "portal \<Rightarrow> authentik_user list \<Rightarrow> (authentik_user list \<times> nat) M" where
  "sync_from_platform p rows =
     bindM (bindM (of_result (platform_api p)) (\<lambda>a. ac_get a ''/v1/identity/users'')) (\<lambda>answer.
     let users = jlist (jor answer (JArr [])) in
     bindM (of_result (mirror_users users rows)) (\<lambda>rows'. ret (rows', length (seen_pks users))))"

section \<open>Granting access\<close>

text \<open>\<open>default_get\<close> of the dialog: a directory that cannot be refreshed stays as it is.\<close>

definition access_dialog :: "portal \<Rightarrow> authentik_user list \<Rightarrow> authentik_user list M" where
  "access_dialog p rows =
     tryM (bindM (sync_from_platform p rows) (\<lambda>(rows', _). ret rows')) (\<lambda>_. ret rows)"

definition access_path :: "portal_application \<Rightarrow> string" where
  "access_path a = application_api_path a @ ''/access''"

definition action_grant :: "portal \<Rightarrow> portal_application \<Rightarrow> int \<Rightarrow> unit M" where
  "action_grant p app pk =
     tryM (bindM (of_result (platform_api p)) (\<lambda>a.
             thenM (ac_upsert a (access_path app @ ''/'' @ int_str pk) []) (ret ())))
       (\<lambda>e. case e of
          PlatformApiError t \<Rightarrow> raise (UserError (''Granting access failed: '' @ t))
        | _ \<Rightarrow> raise e)"

definition action_revoke_access :: "portal \<Rightarrow> portal_application \<Rightarrow> int \<Rightarrow> unit M" where
  "action_revoke_access p app pk =
     bindM (of_result (platform_api p)) (\<lambda>a.
       thenM (ac_delete a (access_path app @ ''/'' @ int_str pk)) (ret ()))"

text \<open>A panel that cannot be filled says so: \<open>PlatformApiError\<close> is an answer, not an error.\<close>

definition unavailable :: "string \<Rightarrow> json" where
  "unavailable reason = JObj [(''available'', JBool False), (''reason'', JStr reason)]"

definition panel_error :: "json M \<Rightarrow> json M" where
  "panel_error m = tryM m (\<lambda>e. case e of
     PlatformApiError t \<Rightarrow> ret (JObj [(''available'', JBool False), (''reason'', JStr ''error''), (''error'', JStr t)])
   | _ \<Rightarrow> raise e)"

definition portal_get_access :: "portal \<Rightarrow> portal_application \<Rightarrow> json M" where
  "portal_get_access p app =
     (if write_backend p \<noteq> ''api'' \<or> ap_k8s_name app = [] then ret (unavailable ''no_api'')
      else panel_error (bindM (of_result (platform_api p)) (\<lambda>a. ac_get a (access_path app))))"

section \<open>Guided setup\<close>

record setup_guide =
  sg_id :: nat
  sg_name :: string
  sg_description :: string
  sg_icon :: string
  sg_sequence :: int
  sg_active :: bool
  sg_action :: nat

text \<open>\<open>search([])\<close> of the active guides in \<open>_order\<close>, \<open>sequence, id\<close>.\<close>

definition get_guides :: "setup_guide list \<Rightarrow> json list" where
  "get_guides gs = map (\<lambda>g. JObj
     [(''id'', JInt (int (sg_id g))), (''name'', JStr (sg_name g)),
      (''description'', JStr (sg_description g)), (''icon'', JStr (sor (sg_icon g) ''fa-rocket'')),
      (''action_id'', JInt (int (sg_action g)))])
     (sort_key sg_sequence (sort_key sg_id (filter sg_active gs)))"

section \<open>Facts: roles\<close>

lemma set_link_group [simp]: "set (link_group g gs) = insert g (set gs)"
  by (auto simp: link_group_def)

lemma set_unlink_group [simp]: "set (unlink_group g gs) = set gs - {g}"
  by (auto simp: unlink_group_def)

lemma set_links: "set (foldl (\<lambda>gs g. link_group g gs) gs add) = set gs \<union> set add"
  by (induction add arbitrary: gs) auto

lemma set_unlinks: "set (foldl (\<lambda>gs g. unlink_group g gs) gs remove) = set gs - set remove"
  by (induction remove arbitrary: gs) auto

definition user_types :: "string set" where
  "user_types = {''base.group_user'', ''base.group_portal'', ''base.group_public'', ''base.group_system''}"

lemma set_role_groups:
  assumes "user_types \<subseteq> set known"
  shows "set (role_groups known is_admin gs) =
    (set gs - user_types) \<union> {''base.group_user''} \<union> (if is_admin then {''base.group_system''} else {})"
  using assms by (auto simp: role_groups_def Let_def set_links set_unlinks user_types_def)

text \<open>C23. Roles follow the groups of the sign-in. After a user other than the superuser and the bootstrap
  admin has signed in, with Odoo's base groups in place and groups in the token: the user is an
  internal user and no portal or public one, has the Settings role exactly when the token lists
  the admin group, and keeps every other group; every other user stays as they were, and the two
  break-glass users are never touched.
\<close>

theorem oidc_roles_follow_groups:
  assumes known: "user_types \<subseteq> set known"
    and claim: "in_claim (oidc_admin_group p) (jget validation ''groups'') = Some is_admin"
    and ids: "distinct (map us_id users)"
    and login: "login \<noteq> []" and u: "List.find (\<lambda>u. us_login u = login) users = Some u"
  shows "let users' = snd (oauth_signin p known admin_id login validation users) in
    map us_id users' = map us_id users \<and>
    (\<forall>x \<in> set users. if x \<noteq> u \<or> us_id u = SUPERUSER_ID \<or> admin_id = Some (us_id u) then x \<in> set users'
      else \<exists>x' \<in> set users'. us_id x' = us_id x \<and> us_login x' = us_login x \<and>
        set (us_groups x') = (set (us_groups x) - user_types) \<union> {''base.group_user''} \<union>
          (if is_admin then {''base.group_system''} else {}))"
proof -
  have uin: "u \<in> set users" using u by (auto simp: find_Some_iff)
  have same: "x = u" if "x \<in> set users" "us_id x = us_id u" for x
    using ids uin that by (auto simp: distinct_map inj_on_def)
  show ?thesis
  proof (cases "us_id u = SUPERUSER_ID \<or> admin_id = Some (us_id u)")
    case True
    then show ?thesis using login u by (auto simp: oauth_signin_def sync_oidc_groups_def Let_def)
  next
    case False
    let ?f = "\<lambda>x. if us_id x = us_id u then x\<lparr>us_groups := role_groups known is_admin (us_groups x)\<rparr> else x"
    have run: "snd (oauth_signin p known admin_id login validation users) = map ?f users"
      using False login u claim by (simp add: oauth_signin_def sync_oidc_groups_def)
    define users' where "users' = map ?f users"
    define u' where "u' = u\<lparr>us_groups := role_groups known is_admin (us_groups u)\<rparr>"
    have ids': "map us_id users' = map us_id users" unfolding users'_def by (induction users) auto
    have keep: "x \<in> set users'" if "x \<in> set users" "x \<noteq> u" for x
      using that same [OF that(1)] unfolding users'_def by (auto simp: image_iff intro!: bexI [of _ x])
    have "?f u \<in> set users'" unfolding users'_def set_map by (rule imageI [OF uin])
    then have u': "u' \<in> set users'" by (simp add: u'_def)
    have "set (us_groups u') = (set (us_groups u) - user_types) \<union> {''base.group_user''} \<union>
        (if is_admin then {''base.group_system''} else {})"
      unfolding u'_def using set_role_groups [OF known, of is_admin "us_groups u"] by simp
    moreover have "us_id u' = us_id u" "us_login u' = us_login u" by (simp_all add: u'_def)
    ultimately show ?thesis
      unfolding run [folded users'_def] Let_def using ids' keep u' False by metis
  qed
qed

lemma oidc_roles_follow_groups_witness:
  "\<exists>x \<in> set (snd (oauth_signin \<lparr> pl_params = [], pl_environ = [] \<rparr>
        [''base.group_user'', ''base.group_portal'', ''base.group_public'', ''base.group_system'']
        (Some 2) ''ann'' (JObj [(''groups'', JArr [JStr ''Platform Admins''])])
        [\<lparr> us_id = 2, us_login = ''admin'', us_groups = [] \<rparr>,
         \<lparr> us_id = 7, us_login = ''ann'', us_groups = [''base.group_portal'', ''sales''] \<rparr>])).
     us_login x = ''ann'' \<and> set (us_groups x) = {''sales'', ''base.group_user'', ''base.group_system''}"
proof -
  let ?p = "\<lparr> pl_params = [], pl_environ = [] \<rparr>"
  let ?v = "JObj [(''groups'', JArr [JStr ''Platform Admins''])]"
  let ?us = "[\<lparr> us_id = 2, us_login = ''admin'', us_groups = [] \<rparr>,
    \<lparr> us_id = 7, us_login = ''ann'', us_groups = [''base.group_portal'', ''sales''] \<rparr>]"
  let ?known = "[''base.group_user'', ''base.group_portal'', ''base.group_public'', ''base.group_system'']"
  have "user_types \<subseteq> set ?known" by (simp add: user_types_def)
  moreover have "in_claim (oidc_admin_group ?p) (jget ?v ''groups'') = Some True"
    by (simp add: in_claim_def oidc_admin_group_def get_param_def sor_def)
  ultimately show ?thesis
    using oidc_roles_follow_groups [of ?known ?p ?v True ?us "''ann''" "?us ! 1" "Some 2"]
    by (auto simp: Let_def SUPERUSER_ID_def user_types_def insert_commute)
qed

end
