(* ===== verification/PortalViews.thy ===== *)
theory PortalViews
  imports "HOL-Library.Multiset" PortalSignIn PortalConfig Github
begin

text \<open>
  What the portal's pages read: \<open>models/observability.py\<close> (deep links, metrics and logs) and the
  panels of \<open>models/client.py\<close> and \<open>models/application.py\<close>. The hooks a model overrides are the record
  \<open>observed\<close>. Floating point stays outside: \<open>as_int\<close> is \<open>int(float(x))\<close> and \<open>as_float\<close> is
  \<open>float(x)\<close>, which fail on what is no number.
\<close>

section \<open>URLs\<close>

definition url_safe :: "char list" where
  "url_safe = alnum_chars @ ''_.-~''"

definition percent :: "char \<Rightarrow> string" where
  "percent c = [CHR ''%'', ''0123456789ABCDEF'' ! (byte c div 16 mod 16), ''0123456789ABCDEF'' ! (byte c mod 16)]"

definition url_quote :: "string \<Rightarrow> string" where
  "url_quote s = concat (map (\<lambda>c. if c \<in> set (CHR ''/'' # url_safe) then [c] else percent c) s)"

definition quote_plus :: "string \<Rightarrow> string" where
  "quote_plus s = concat (map (\<lambda>c. if c = CHR '' '' then ''+'' else if c \<in> set url_safe then [c] else percent c) s)"

definition urlencode :: "(string \<times> string) list \<Rightarrow> string" where
  "urlencode ps = join ''&'' (map (\<lambda>(k, v). quote_plus k @ ''='' @ quote_plus v) ps)"

section \<open>What is observed\<close>

record observed =
  ob_namespace :: string
  ob_pod_regex :: string
  ob_app_url :: string
  ob_argocd_app :: string
  ob_has_source :: bool

definition observed_environment :: "portal_environment \<Rightarrow> observed" where
  "observed_environment e = \<lparr> ob_namespace = en_namespace e, ob_pod_regex = [], ob_app_url = [],
     ob_argocd_app = [], ob_has_source = False \<rparr>"

definition argocd_app_of :: "portal_application \<Rightarrow> string" where
  "argocd_app_of a =
     (if ap_namespace a = [] \<or> ap_k8s_name a = [] then []
      else rstrip_of ''-'' (take 63 (ap_namespace a @ ''-'' @ ap_k8s_name a)))"

definition pod_regex_of :: "portal_application \<Rightarrow> string" where
  "pod_regex_of a = (if argocd_app_of a \<noteq> [] then argocd_app_of a @ ''-.*'' else [])"

definition observed_application :: "portal_application \<Rightarrow> observed" where
  "observed_application a = \<lparr> ob_namespace = ap_namespace a, ob_pod_regex = pod_regex_of a,
     ob_app_url = ap_url a, ob_argocd_app = argocd_app_of a,
     ob_has_source = (ap_repository a \<noteq> None) \<rparr>"

definition in_quotes :: "string \<Rightarrow> string" where
  "in_quotes s = [CHR 0x22] @ s @ [CHR 0x22]"

definition label_filters :: "observed \<Rightarrow> string \<Rightarrow> string" where
  "label_filters ob extra =
     (if ob_namespace ob = [] then []
      else join '','' ([''namespace='' @ in_quotes (ob_namespace ob)] @
        (if ob_pod_regex ob \<noteq> [] then [''pod=~'' @ in_quotes (ob_pod_regex ob)] else []) @
        (if extra \<noteq> [] then [extra] else [])))"

definition obs_param :: "portal \<Rightarrow> string \<Rightarrow> string \<Rightarrow> string" where
  "obs_param p key x = get_param p (''adomi_platform.'' @ key) x"

definition obs_base_domain :: "portal \<Rightarrow> portal_organization list \<Rightarrow> string" where
  "obs_base_domain p orgs =
     (let base = obs_param p ''base_domain'' [] in
      if base \<noteq> [] then base
      else case List.find (\<lambda>g. og_base_domain g \<noteq> []) orgs of Some g \<Rightarrow> og_base_domain g | None \<Rightarrow> [])"

definition obs_host :: "portal \<Rightarrow> portal_organization list \<Rightarrow> string \<Rightarrow> string \<Rightarrow> string" where
  "obs_host p orgs key pre =
     (let explicit = obs_param p (key @ ''_host'') []; base = obs_base_domain p orgs in
      if explicit \<noteq> [] then explicit else if base \<noteq> [] then pre @ ''.'' @ base else [])"

definition PROMETHEUS_DEFAULT :: string where
  "PROMETHEUS_DEFAULT = ''http://kube-prometheus-stack-prometheus.monitoring.svc.cluster.local:9090''"

definition LOKI_DEFAULT :: string where
  "LOKI_DEFAULT = ''http://loki.monitoring.svc.cluster.local:3100''"

definition GRAFANA_DASHBOARD_UID_DEFAULT :: string where
  "GRAFANA_DASHBOARD_UID_DEFAULT = ''85a562078cdf77779eaa1add43ccec1e''"

definition prometheus_url :: "portal \<Rightarrow> string" where
  "prometheus_url p = rstrip_of ''/'' (sor (obs_param p ''prometheus_url'' []) PROMETHEUS_DEFAULT)"

definition loki_url :: "portal \<Rightarrow> string" where
  "loki_url p = rstrip_of ''/'' (sor (obs_param p ''loki_url'' []) LOKI_DEFAULT)"

section \<open>Deep links\<close>

record obs_links =
  lk_app :: string
  lk_argocd :: string
  lk_grafana :: string
  lk_logs :: string
  lk_harbor :: string

definition explore_state :: "observed \<Rightarrow> json" where
  "explore_state ob = JObj
     [(''datasource'', JStr ''loki''),
      (''queries'', JArr [JObj [(''expr'', JStr (''{'' @ label_filters ob [] @ ''}''))]]),
      (''range'', JObj [(''from'', JStr ''now-1h''), (''to'', JStr ''now'')])]"

definition compute_links :: "portal \<Rightarrow> portal_organization list \<Rightarrow> observed \<Rightarrow> obs_links" where
  "compute_links p orgs ob =
     (let ns = ob_namespace ob; argocd = obs_host p orgs ''argocd'' ''argocd'';
          grafana = obs_host p orgs ''grafana'' ''grafana''; harbor = obs_host p orgs ''harbor'' ''harbor'';
          app = ob_argocd_app ob; shown = (grafana \<noteq> [] \<and> ns \<noteq> []) in
      \<lparr> lk_app = ob_app_url ob,
        lk_argocd = (if argocd \<noteq> [] \<and> app \<noteq> []
          then ''https://'' @ argocd @ ''/applications/'' @ obs_param p ''argocd_namespace'' ''argocd'' @ ''/'' @ app
          else []),
        lk_grafana = (if shown
          then ''https://'' @ grafana @ ''/d/'' @
            obs_param p ''grafana_dashboard_uid'' GRAFANA_DASHBOARD_UID_DEFAULT @ ''?var-namespace='' @ ns
          else []),
        lk_logs = (if shown
          then ''https://'' @ grafana @ ''/explore?left='' @ url_quote (dumps (explore_state ob)) else []),
        lk_harbor = (if harbor \<noteq> [] \<and> ob_has_source ob then ''https://'' @ harbor @ ''/harbor/projects'' else []) \<rparr>)"

section \<open>Queries\<close>

definition obs_get_json :: "string \<Rightarrow> json M" where
  "obs_get_json url =
     tryM (callM (Http ''GET'' url [(''Accept'', ''application/json'')] JNull)) (\<lambda>_. ret (JObj []))"

definition obs_window :: "int \<Rightarrow> int \<Rightarrow> int \<Rightarrow> (int \<times> int) M" where
  "obs_window minutes start_s end_s =
     (if start_s \<noteq> 0 \<and> end_s \<noteq> 0 \<and> end_s > start_s then ret (start_s, end_s)
      else bindM unix_time (\<lambda>now. ret (now - minutes * 60, now)))"

definition value_error :: exn where
  "value_error = PyError ''ValueError''"

definition result_list :: "json \<Rightarrow> json list" where
  "result_list data = lget (oget data ''data'') ''result''"

definition values_of :: "json \<Rightarrow> json list" where
  "values_of series = jlist (get_or series ''values'' (JArr []))"

text \<open>A point \<open>[ts, value]\<close> of a series.\<close>

definition point :: "(json \<Rightarrow> int option) \<Rightarrow> (json \<Rightarrow> json option) \<Rightarrow> json \<Rightarrow> exn + json" where
  "point as_int as_value entry =
     (case entry of
        JArr [ts, v] \<Rightarrow> (case (as_int ts, as_value v) of
          (Some t, Some x) \<Rightarrow> Inr (JArr [JInt t, x])
        | _ \<Rightarrow> Inl value_error)
      | _ \<Rightarrow> Inl value_error)"

definition first_series ::
    "(json \<Rightarrow> int option) \<Rightarrow> (json \<Rightarrow> json option) \<Rightarrow> json \<Rightarrow> exn + json list" where
  "first_series as_int as_value data =
     (case result_list data of
        [] \<Rightarrow> Inr []
      | r # _ \<Rightarrow> each_result (point as_int as_value) (values_of r))"

definition prom_range ::
    "(json \<Rightarrow> int option) \<Rightarrow> (json \<Rightarrow> json option) \<Rightarrow> string \<Rightarrow> string \<Rightarrow> int \<Rightarrow> int \<Rightarrow> int \<Rightarrow> json M" where
  "prom_range as_int as_float prom q start stop step =
     bindM (obs_get_json (prom @ ''/api/v1/query_range?'' @ urlencode
       [(''query'', q), (''start'', int_str start), (''end'', int_str stop), (''step'', int_str step)])) (\<lambda>data.
     bindM (of_result (first_series as_int as_float data)) (\<lambda>ps. ret (JArr ps)))"

definition get_metrics ::
    "(json \<Rightarrow> int option) \<Rightarrow> (json \<Rightarrow> json option) \<Rightarrow> portal \<Rightarrow> observed \<Rightarrow> int \<Rightarrow> int \<Rightarrow> int \<Rightarrow> json M" where
  "get_metrics as_int as_float p ob minutes start_s end_s =
     (let selector = label_filters ob (''container!='' @ in_quotes []) in
      if selector = [] then ret (JObj [])
      else bindM (obs_window minutes start_s end_s) (\<lambda>(start, stop).
        let step = max 15 ((stop - start) div 60) in
        bindM (prom_range as_int as_float (prometheus_url p)
          (''sum(rate(container_cpu_usage_seconds_total{'' @ selector @ ''}[5m]))'') start stop step) (\<lambda>cpu.
        bindM (prom_range as_int as_float (prometheus_url p)
          (''sum(container_memory_working_set_bytes{'' @ selector @ ''})'') start stop step) (\<lambda>memory.
        ret (JObj [(''namespace'', JStr (ob_namespace ob)), (''start'', JInt start), (''end'', JInt stop),
          (''series'', JObj [(''cpu'', cpu), (''memory'', memory)])])))))"

definition escape_char :: "char \<Rightarrow> string" where
  "escape_char c = (if c = CHR 0x5C \<or> c = CHR 0x22 then [CHR 0x5C, c] else [c])"

definition log_query :: "observed \<Rightarrow> string \<Rightarrow> string" where
  "log_query ob search =
     (let selector = label_filters ob []; s = strip search in
      if selector = [] then []
      else ''{'' @ selector @ ''}'' @
        (if s \<noteq> []
         then '' |= '' @ [CHR 0x22] @
           replace_char (CHR 0x22) [CHR 0x5C, CHR 0x22] (replace_char (CHR 0x5C) [CHR 0x5C, CHR 0x5C] s) @ [CHR 0x22]
         else []))"

definition nanos :: "int \<Rightarrow> string" where
  "nanos t = int_str (t * 1000000000)"

text \<open>\<open>int(ts_ns)\<close>\<close>

definition int_of :: "json \<Rightarrow> int option" where
  "int_of j = (case j of JInt i \<Rightarrow> Some i | JStr s \<Rightarrow> py_int s | _ \<Rightarrow> None)"

record log_line =
  ll_ts :: int
  ll_pod :: string
  ll_line :: json

definition line_of :: "string \<Rightarrow> json \<Rightarrow> exn + log_line" where
  "line_of pod entry =
     (case entry of
        JArr [ts, line] \<Rightarrow> (case int_of ts of
          Some t \<Rightarrow> Inr \<lparr> ll_ts = t, ll_pod = pod, ll_line = line \<rparr>
        | None \<Rightarrow> Inl value_error)
      | _ \<Rightarrow> Inl value_error)"

definition stream_lines :: "json \<Rightarrow> exn + log_line list" where
  "stream_lines stream = each_result (line_of (sget (oget stream ''stream'') ''pod'')) (values_of stream)"

text \<open>\<open>xs[:n]\<close>\<close>

definition first_n :: "int \<Rightarrow> 'a list \<Rightarrow> 'a list" where
  "first_n n xs = take (nat (if n < 0 then int (length xs) + n else n)) xs"

definition newest_lines :: "log_line list \<Rightarrow> log_line list" where
  "newest_lines ls = sort_key (\<lambda>l. - ll_ts l) ls"

definition get_logs :: "portal \<Rightarrow> observed \<Rightarrow> int \<Rightarrow> int \<Rightarrow> string \<Rightarrow> int \<Rightarrow> int \<Rightarrow> log_line list M" where
  "get_logs p ob limit minutes search start_s end_s =
     (let q = log_query ob search in
      if q = [] then ret []
      else bindM (obs_window minutes start_s end_s) (\<lambda>(start, stop).
        bindM (obs_get_json (loki_url p @ ''/loki/api/v1/query_range?'' @ urlencode
          [(''query'', q), (''limit'', int_str limit), (''start'', nanos start), (''end'', nanos stop),
           (''direction'', ''backward'')])) (\<lambda>data.
        bindM (of_result (each_result stream_lines (result_list data))) (\<lambda>lss.
        ret (first_n limit (newest_lines (concat lss)))))))"

definition get_log_histogram ::
    "(json \<Rightarrow> int option) \<Rightarrow> portal \<Rightarrow> observed \<Rightarrow> int \<Rightarrow> string \<Rightarrow> int \<Rightarrow> int \<Rightarrow> int \<Rightarrow> json M" where
  "get_log_histogram as_int p ob minutes search start_s end_s buckets =
     (let q = log_query ob search in
      if q = [] then ret (JObj [])
      else bindM (obs_window minutes start_s end_s) (\<lambda>(start, stop).
        let step = max 5 ((stop - start) div max 1 buckets) in
        bindM (obs_get_json (loki_url p @ ''/loki/api/v1/query_range?'' @ urlencode
          [(''query'', ''sum(count_over_time('' @ q @ '' ['' @ int_str step @ ''s]))''),
           (''start'', nanos start), (''end'', nanos stop), (''step'', int_str step)])) (\<lambda>data.
        bindM (of_result (first_series as_int (\<lambda>v. map_option JInt (as_int v)) data)) (\<lambda>ps.
        ret (JObj [(''start'', JInt start), (''end'', JInt stop), (''step'', JInt step),
                   (''buckets'', JArr ps)])))))"

section \<open>The panels of a customer\<close>

record repo_panel =
  pn_dirs :: "(string \<times> nat) list"
  pn_root_files :: "string list"
  pn_file_count :: nat

definition is_file :: "json \<Rightarrow> bool" where
  "is_file f \<longleftrightarrow> jget f ''type'' = JStr ''file''"

definition path_head :: "json \<Rightarrow> string" where
  "path_head f = before CHR ''/'' (sget f ''path'')"

definition path_rest :: "json \<Rightarrow> string" where
  "path_rest f = (case after CHR ''/'' (sget f ''path'') of Some r \<Rightarrow> r | None \<Rightarrow> [])"

definition panel_step ::
    "(string \<times> nat) list \<times> string list \<Rightarrow> json \<Rightarrow> (string \<times> nat) list \<times> string list" where
  "panel_step gr f =
     (let (groups, root) = gr in
      if path_rest f = [] then (groups, if is_file f then root @ [path_head f] else root)
      else if is_file f
      then (dset (path_head f) (Suc (case dget groups (path_head f) of Some n \<Rightarrow> n | None \<Rightarrow> 0)) groups, root)
      else (groups, root))"

definition panel_of :: "json list \<Rightarrow> repo_panel" where
  "panel_of files =
     (let (groups, root) = foldl panel_step ([], []) files in
      \<lparr> pn_dirs = sort_key fst groups, pn_root_files = sort_key id root,
        pn_file_count = length (filter is_file files) \<rparr>)"

definition git_public_base :: "portal \<Rightarrow> string" where
  "git_public_base p =
     rstrip_of ''/'' (sor (getenv p ''ADOMI_GIT_PUBLIC_BASE'') (get_param p ''adomi_platform.git_public_base'' []))"

definition infra_repo_url :: "portal \<Rightarrow> portal_client \<Rightarrow> string" where
  "infra_repo_url p c =
     (if git_public_base p \<noteq> [] \<and> cl_k8s_name c \<noteq> [] then git_public_base p @ ''/'' @ cl_k8s_name c else [])"

definition panel_json :: "portal \<Rightarrow> portal_client \<Rightarrow> json list \<Rightarrow> json list \<Rightarrow> json" where
  "panel_json p c files commits =
     (let pn = panel_of files; row = (\<lambda>(n, k). JObj [(''name'', JStr n), (''count'', JInt (int k))]) in JObj
       [(''available'', JBool True), (''repo_url'', JStr (infra_repo_url p c)),
        (''dirs'', JArr (map row (pn_dirs pn))),
        (''root_files'', JArr (map (\<lambda>n. row (n, 0)) (pn_root_files pn))),
        (''file_count'', JInt (int (pn_file_count pn))), (''commits'', JArr commits)])"

definition get_git_panel :: "portal \<Rightarrow> portal_client \<Rightarrow> json M" where
  "get_git_panel p c =
     (if write_backend p \<noteq> ''api'' \<or> cl_k8s_name c = [] then ret (unavailable ''no_repo'')
      else panel_error (bindM (of_result (platform_api p)) (\<lambda>a.
        bindM (ac_get a (''/v1/clients/'' @ cl_k8s_name c @ ''/repo/tree'')) (\<lambda>files.
        bindM (ac_get a (''/v1/clients/'' @ cl_k8s_name c @ ''/repo/commits?limit=8'')) (\<lambda>commits.
        ret (panel_json p c (jlist (jor files (JArr []))) (jlist (jor commits (JArr [])))))))))"

definition get_images :: "portal \<Rightarrow> portal_client \<Rightarrow> json M" where
  "get_images p c =
     (if write_backend p \<noteq> ''api'' \<or> cl_k8s_name c = [] then ret (unavailable ''no_api'')
      else panel_error (bindM (of_result (platform_api p)) (\<lambda>a.
        bindM (ac_get a (''/v1/clients/'' @ cl_k8s_name c @ ''/images'')) (\<lambda>images.
        ret (JObj [(''available'', JBool True), (''images'', jor images (JArr []))])))))"

datatype health = HealthEmpty | HealthDegraded | HealthPending | HealthOk

definition app_health :: "portal_application tracked list \<Rightarrow> health" where
  "app_health apps =
     (if apps = [] then HealthEmpty
      else if \<exists>a \<in> set apps. tk_state a = NotReady then HealthDegraded
      else if \<exists>a \<in> set apps. tk_state a \<in> {Pending, Unknown} then HealthPending else HealthOk)"

datatype stage = Committed | Applied | StageReady | Failed

definition provisioning_stage :: "portal_client tracked \<Rightarrow> stage" where
  "provisioning_stage c =
     (let message = lower (tk_message c) in
      if tk_state c = Ready then StageReady
      else if tk_state c = NotReady \<or> is_infix ''failed'' message then Failed
      else if tk_state c = Pending \<and> (message = [] \<or> starts_with ''committed'' message) then Committed
      else Applied)"

text \<open>The order of the environments on the page, and the servers shown with each.\<close>

definition class_order :: "string \<Rightarrow> nat" where
  "class_order cls = (case dget [(''production'', 0), (''pdi'', 1), (''test'', 2), (''development'', 3),
     (''preview'', 4)] cls of Some n \<Rightarrow> n | None \<Rightarrow> 9)"

definition page_environments :: "portal_environment list \<Rightarrow> portal_environment list" where
  "page_environments es = sort_key (\<lambda>e. class_order (en_class e)) (sort_key en_name es)"

definition page_servers :: "portal_server list \<Rightarrow> portal_environment \<Rightarrow> portal_server list" where
  "page_servers servers e =
     filter (\<lambda>s. sr_environment s = None \<or> map_option en_k8s_name (sr_environment s) = Some (en_k8s_name e)) servers"

section \<open>The search stays a string of the query\<close>

text \<open>
  What Loki's reader of the query makes of a quoted string: the text up to the quote, and the rest.
  A string does not go over the end of a line, and of the escapes only the two the portal writes
  are read.
\<close>

fun read_quoted :: "string \<Rightarrow> (string \<times> string) option" where
  "read_quoted [] = None"
| "read_quoted (c # cs) =
     (if c = CHR 0x22 then Some ([], cs)
      else if c = newline then None
      else if c = CHR 0x5C
      then (case cs of [] \<Rightarrow> None
            | d # ds \<Rightarrow> if d = CHR 0x22 \<or> d = CHR 0x5C
                then map_option (map_prod ((#) d) id) (read_quoted ds) else None)
      else map_option (map_prod ((#) c) id) (read_quoted cs))"

lemma escape_both:
  "replace_char (CHR 0x22) [CHR 0x5C, CHR 0x22] (replace_char (CHR 0x5C) [CHR 0x5C, CHR 0x5C] s)
     = concat (map escape_char s)"
  by (induction s) (auto simp: replace_char_def escape_char_def)

lemma read_escaped:
  "read_quoted (concat (map escape_char s) @ CHR 0x22 # rest) =
     (if newline \<in> set s then None else Some (s, rest))"
  by (induction s) (auto simp: escape_char_def newline_def)

lemma log_query_cases:
  "log_query ob search =
     (if ob_namespace ob = [] then []
      else ''{'' @ label_filters ob [] @ ''}'' @
        (if strip search = [] then []
         else '' |= '' @ [CHR 0x22] @ concat (map escape_char (strip search)) @ [CHR 0x22]))"
  by (simp add: log_query_def Let_def escape_both label_filters_def)

text \<open>C29. A search of the logs stays a string of its query: whatever text the user types, the query is
  the selector of the resource, followed either by nothing or by one line filter whose quoted string
  reads back as exactly the stripped text, with nothing of the query after it; a text of several
  lines is no string to Loki, which refuses the query. The selector itself is wider than the
  application where its pattern is a prefix, see below.\<close>

theorem log_search_stays_in_scope:
  "ob_namespace ob = [] \<and> log_query ob search = [] \<or>
   (\<exists>q. log_query ob search = ''{'' @ label_filters ob [] @ ''}'' @ q \<and>
      (if strip search = [] then q = []
       else \<exists>t. q = '' |= '' @ CHR 0x22 # t \<and>
         read_quoted t = (if newline \<in> set (strip search) then None else Some (strip search, []))))"
proof (cases "ob_namespace ob = []")
  case True
  then show ?thesis by (simp add: log_query_cases)
next
  case False
  then show ?thesis
    using read_escaped [of "strip search" "[]"]
    by (auto simp: log_query_cases)
qed

text \<open>The pods of \<open>erp\<close> are matched by a pattern that also matches those of \<open>erp-test\<close>, an
  application of the same namespace.\<close>

lemma pod_regex_is_a_prefix:
  assumes "argocd_app_of a \<noteq> []" and "argocd_app_of b = argocd_app_of a @ ''-test''"
  shows "pod_regex_of a = argocd_app_of a @ ''-.*'' \<and> starts_with (argocd_app_of a @ ''-'') (argocd_app_of b @ ''-0'')"
  using assms by (simp add: pod_regex_of_def starts_with_def)

section \<open>Lines of a log\<close>

lemma first_n_prefix: "\<exists>rest. xs = first_n n xs @ rest"
  unfolding first_n_def by (metis append_take_drop_id)

lemma newest_lines_sorted: "sorted (map (\<lambda>l. - ll_ts l) (newest_lines ls))"
  by (simp add: newest_lines_def)

lemma first_n_sorted:
  assumes "sorted (map f xs)"
  shows "sorted (map f (first_n n xs))"
  using assms unfolding first_n_def by (metis sorted_wrt_take take_map)

section \<open>Totals of a panel\<close>

lemma dset_total:
  "sum_list (map snd (dset k (Suc (case dget g k of Some n \<Rightarrow> n | None \<Rightarrow> 0)) g)) = Suc (sum_list (map snd g))"
  by (induction g) (auto split: option.splits if_splits)

lemma panel_step_total:
  "sum_list (map snd (fst (panel_step gr f))) + length (snd (panel_step gr f)) =
   sum_list (map snd (fst gr)) + length (snd gr) + (if is_file f then 1 else 0)"
  by (cases gr) (simp add: panel_step_def dset_total)

lemma panel_total:
  "sum_list (map snd (fst (foldl panel_step gr fs))) + length (snd (foldl panel_step gr fs)) =
   sum_list (map snd (fst gr)) + length (snd gr) + length (filter is_file fs)"
  by (induction fs arbitrary: gr) (simp_all add: panel_step_total)

lemma sum_list_sort_key: "sum_list (map f (sort_key k xs)) = sum_list (map f (xs :: 'a list))" for f :: "'a \<Rightarrow> nat"
  by (metis mset_map mset_sort sum_mset_sum_list)

text \<open>The counts of the directories and the files of the root add up to the panel's number of files.\<close>

lemma panel_counts_every_file:
  "sum_list (map snd (pn_dirs (panel_of fs))) + length (pn_root_files (panel_of fs)) = pn_file_count (panel_of fs)"
  using panel_total [of "([], [])" fs]
  by (simp add: panel_of_def split_beta sum_list_sort_key)

section \<open>A page of log lines\<close>

definition log_request :: "portal \<Rightarrow> observed \<Rightarrow> int \<Rightarrow> string \<Rightarrow> int \<Rightarrow> int \<Rightarrow> call" where
  "log_request p ob limit search start stop =
     Http ''GET'' (loki_url p @ ''/loki/api/v1/query_range?'' @ urlencode
       [(''query'', log_query ob search), (''limit'', int_str limit), (''start'', nanos start),
        (''end'', nanos stop), (''direction'', ''backward'')]) [(''Accept'', ''application/json'')] JNull"

lemma get_logs_answer:
  assumes "log_query ob search \<noteq> []" and "0 < start" and "start < stop"
    and "env (trace s) (log_request p ob limit search start stop) = Inr data"
    and "each_result stream_lines (result_list data) = Inr lss"
  shows "fst (get_logs p ob limit minutes search start stop env s) = Inr (first_n limit (newest_lines (concat lss)))"
  using assms
  by (simp add: get_logs_def obs_window_def obs_get_json_def log_request_def run_simps of_result_def Let_def)

text \<open>C31. A page of log lines is the newest part of what Loki answered: for an explicit window, when the
  answer's lines can be read, exactly the \<open>limit\<close> newest of them are returned (all of them when there are
  fewer), newest first, and every line left out is at least as old as every line shown.\<close>

theorem log_page_is_the_newest:
  assumes "log_query ob search \<noteq> []" and "0 < start" and "start < stop" and "0 \<le> limit"
    and "env (trace s) (log_request p ob limit search start stop) = Inr data"
    and "each_result stream_lines (result_list data) = Inr lss"
  shows "\<exists>page rest. fst (get_logs p ob limit minutes search start stop env s) = Inr page
    \<and> mset (page @ rest) = mset (concat lss)
    \<and> sorted_wrt (\<lambda>l m. ll_ts m \<le> ll_ts l) (page @ rest)
    \<and> length page = min (nat limit) (length (concat lss))"
proof -
  let ?all = "newest_lines (concat lss)"
  have all: "first_n limit ?all @ drop (nat limit) ?all = ?all"
    using \<open>0 \<le> limit\<close> by (simp add: first_n_def)
  have "sorted_wrt (\<lambda>l m. ll_ts m \<le> ll_ts l) ?all"
    using newest_lines_sorted [of "concat lss"] by (simp add: sorted_wrt_map)
  moreover have "mset ?all = mset (concat lss)"
    by (simp add: newest_lines_def)
  moreover have "length (first_n limit ?all) = min (nat limit) (length (concat lss))"
    using \<open>0 \<le> limit\<close> by (simp add: first_n_def newest_lines_def min.commute)
  ultimately show ?thesis
    using get_logs_answer [where ob = ob and search = search and start = start and stop = stop and limit = limit
        and p = p and env = env and s = s and data = data and lss = lss and minutes = minutes] assms all
    by metis
qed

definition shop_seen :: observed where
  "shop_seen = \<lparr> ob_namespace = ''acme'', ob_pod_regex = [], ob_app_url = [], ob_argocd_app = [], ob_has_source = False \<rparr>"

definition plain_portal :: portal where
  "plain_portal = \<lparr> pl_params = [], pl_environ = [] \<rparr>"

definition two_lines :: json where
  "two_lines = JObj [(''data'', JObj [(''result'', JArr [JObj
     [(''stream'', JObj [(''pod'', JStr ''web'')]),
      (''values'', JArr [JArr [JStr ''5'', JStr ''old''], JArr [JStr ''9'', JStr ''new'']])]])])]"

lemma log_page_is_the_newest_witness:
  "\<exists>page rest. fst (get_logs plain_portal shop_seen 1 60 [] 1 2 (\<lambda>_ _. Inr two_lines) init_st) = Inr page
    \<and> mset (page @ rest) = mset [\<lparr> ll_ts = 5, ll_pod = ''web'', ll_line = JStr ''old'' \<rparr>,
                                 \<lparr> ll_ts = 9, ll_pod = ''web'', ll_line = JStr ''new'' \<rparr>]
    \<and> sorted_wrt (\<lambda>l m. ll_ts m \<le> ll_ts l) (page @ rest)
    \<and> length page = 1"
proof -
  have lines: "each_result stream_lines (result_list two_lines) =
      Inr [[\<lparr> ll_ts = 5, ll_pod = ''web'', ll_line = JStr ''old'' \<rparr>,
            \<lparr> ll_ts = 9, ll_pod = ''web'', ll_line = JStr ''new'' \<rparr>]]"
    by code_simp
  have asked: "log_query shop_seen [] \<noteq> []" by code_simp
  show ?thesis
    using log_page_is_the_newest [where ob = shop_seen and search = "[]" and start = 1 and stop = 2 and limit = 1
        and env = "\<lambda>_ _. Inr two_lines" and s = init_st and p = plain_portal and minutes = 60, OF asked _ _ _ _ lines]
    by simp
qed

end
