(* ===== verification/Pipeline.thy ===== *)
theory Pipeline
  imports PortalGithub PortalRoundtrip
begin

text \<open>
  The Odoo pipeline of an application: \<open>adomi_platform_odoo/models/pipeline.py\<close> (the manifest, its reader
  and the Dockerfile made from it) and \<open>adomi_platform_odoo/models/application.py\<close> (the Pipeline tab, its
  commit to the customer's repository and its import). YAML is the parameter \<open>y\<close>; text is ASCII.
\<close>

section \<open>The data\<close>

record pipeline_source =
  pe_repo :: string
  pe_branch :: string
  pe_modules :: "string list"

record pipeline_data =
  pd_base_image :: string
  pd_apt :: "string list"
  pd_pip :: "string list"
  pd_addons :: "pipeline_source list"

definition MANIFEST_PATH :: string where
  "MANIFEST_PATH = ''adomi-pipeline.yaml''"

definition DOCKERFILE_PATH :: string where
  "DOCKERFILE_PATH = ''Dockerfile''"

definition DEFAULT_BASE_IMAGE :: string where
  "DEFAULT_BASE_IMAGE = ''ghcr.io/adomi-io/odoo:19.0''"

definition em_dash :: string where
  "em_dash = [CHR 0xE2, CHR 0x80, CHR 0x94]"

definition MANIFEST_HEADER :: string where
  "MANIFEST_HEADER =
     ''# Managed by the Adomi platform (the application's Pipeline tab).'' @ [newline] @
     ''# You can edit this file by hand '' @ em_dash @
     '' the portal imports your changes '' @ em_dash @ '' but the'' @ [newline] @
     ''# Dockerfile is regenerated from it, so edit THIS file, not the Dockerfile.'' @ [newline]"

definition DOCKERFILE_HEADER :: string where
  "DOCKERFILE_HEADER =
     ''# Generated by the Adomi platform from adomi-pipeline.yaml.'' @ [newline] @
     ''# Do not edit by hand: change adomi-pipeline.yaml (or the Pipeline tab in the'' @ [newline] @
     ''# portal) and this file is regenerated on the next commit.'' @ [newline]"

section \<open>The manifest\<close>

definition source_doc :: "pipeline_source \<Rightarrow> json" where
  "source_doc x = JObj [(''repo'', JStr (pe_repo x)), (''branch'', JStr (pe_branch x)),
     (''modules'', strs (pe_modules x))]"

definition manifest_doc :: "pipeline_data \<Rightarrow> json" where
  "manifest_doc d = JObj
     [(''odooBaseImage'', JStr (sor (pd_base_image d) DEFAULT_BASE_IMAGE)),
      (''apt'', strs (pd_apt d)), (''pip'', strs (pd_pip d)),
      (''addons'', JArr (map source_doc (pd_addons d)))]"

definition render_manifest :: "yaml \<Rightarrow> pipeline_data \<Rightarrow> string" where
  "render_manifest y d = MANIFEST_HEADER @ safe_dump y (manifest_doc d)"

text \<open>\<open>[str(x) for x in v or []]\<close>\<close>

definition str_list :: "json \<Rightarrow> exn + string list" where
  "str_list v = bind_result (py_list v) (\<lambda>xs. Inr (map py_str xs))"

definition parse_source :: "json \<Rightarrow> exn + pipeline_source" where
  "parse_source x =
     bind_result (attr_get x ''modules'') (\<lambda>ms. bind_result (str_list ms) (\<lambda>modules.
       Inr \<lparr> pe_repo = py_str (jor (jget x ''repo'') (JStr [])),
             pe_branch = py_str (jor (jget x ''branch'') (JStr [])), pe_modules = modules \<rparr>))"

text \<open>\<open>for s in addons if s and s.get("repo")\<close>\<close>

fun parse_sources :: "json list \<Rightarrow> exn + pipeline_source list" where
  "parse_sources [] = Inr []"
| "parse_sources (x # xs) =
     (if \<not> truthy x then parse_sources xs
      else bind_result (attr_get x ''repo'') (\<lambda>repo.
        if \<not> truthy repo then parse_sources xs
        else bind_result (parse_source x) (\<lambda>p.
          bind_result (parse_sources xs) (\<lambda>ps. Inr (p # ps)))))"

definition parse_doc :: "json \<Rightarrow> exn + pipeline_data" where
  "parse_doc doc =
     bind_result (attr_get doc ''odooBaseImage'') (\<lambda>image.
     bind_result (str_list (jget doc ''apt'')) (\<lambda>apt.
     bind_result (str_list (jget doc ''pip'')) (\<lambda>pip.
     bind_result (py_list (jget doc ''addons'')) (\<lambda>entries.
     bind_result (parse_sources entries) (\<lambda>addons.
       Inr \<lparr> pd_base_image = jstr (jor image (JStr [])), pd_apt = apt, pd_pip = pip, pd_addons = addons \<rparr>)))))"

definition parse_manifest :: "yaml \<Rightarrow> string \<Rightarrow> exn + pipeline_data" where
  "parse_manifest y text = bind_result (load_or_empty y text) parse_doc"

section \<open>The Dockerfile\<close>

definition drop_git :: "string \<Rightarrow> string" where
  "drop_git tail = drop_suffix ''.git'' tail"

text \<open>\<open>s.rsplit("/", 1)[-1]\<close>\<close>

definition after_slash :: "string \<Rightarrow> string" where
  "after_slash s = rev (takeWhile (\<lambda>c. c \<noteq> CHR ''/'') (rev s))"

definition stage_name :: "string \<Rightarrow> nat \<Rightarrow> string" where
  "stage_name url index =
     (let tail = drop_git (after_slash (rstrip_of ''/'' url));
          slug = sor (strip_of ''_'' (map (\<lambda>c. if c \<in> set alnum_chars then c else CHR ''_'') (lower tail))) ''src''
      in ''addons_'' @ nat_str index @ ''_'' @ slug)"

definition continued :: "string \<Rightarrow> string" where
  "continued l = l @ '' '' @ [CHR 0x5C]"

text \<open>\<open>lines[-1] = lines[-1].rstrip(\<dots>)\<close> with a space and a backslash\<close>

definition end_continued :: "string list \<Rightarrow> string list" where
  "end_continued ls = (if ls = [] then [] else butlast ls @ [rstrip_of [CHR '' '', CHR 0x5C] (last ls)])"

definition all_addons_line :: string where
  "all_addons_line = ''    && for m in /tmp/src/*/__manifest__.py; do cp -a '' @ [CHR 0x22] @ ''$(dirname '' @
     [CHR 0x22] @ ''$m'' @ [CHR 0x22] @ '')'' @ [CHR 0x22] @ '' /tmp/extra_addons/; done''"

definition stage_from :: "string \<Rightarrow> string" where
  "stage_from stage = ''FROM addons_base AS '' @ stage"

definition stage_copy :: "string \<Rightarrow> string" where
  "stage_copy stage = ''COPY --from='' @ stage @ '' /tmp/extra_addons/ /volumes/extra_addons/''"

definition clone_line :: "pipeline_source \<Rightarrow> string" where
  "clone_line x = continued (''RUN git clone --depth 1 '' @
     (if pe_branch x \<noteq> [] then ''--branch '' @ pe_branch x @ '' '' else []) @ pe_repo x @ '' /tmp/src'')"

definition module_lines :: "pipeline_source \<Rightarrow> string list" where
  "module_lines x =
     (if pe_modules x \<noteq> []
      then end_continued (map (\<lambda>m. continued (''    && cp -a /tmp/src/'' @ m @ '' /tmp/extra_addons/'')) (pe_modules x))
      else [all_addons_line])"

definition stage_lines :: "nat \<times> pipeline_source \<Rightarrow> string list" where
  "stage_lines ix = [stage_from (stage_name (pe_repo (snd ix)) (fst ix)), [], clone_line (snd ix)] @
     module_lines (snd ix) @ [[]]"

definition stages :: "pipeline_data \<Rightarrow> string list" where
  "stages d = map (\<lambda>ix. stage_name (pe_repo (snd ix)) (fst ix)) (enumerate 0 (pd_addons d))"

definition addons_lines :: "pipeline_data \<Rightarrow> string list" where
  "addons_lines d =
     (if pd_addons d = [] then []
      else [''FROM alpine:3.20 AS addons_base'', [], continued ''RUN apk add --no-cache git'',
            ''    && mkdir -p /tmp/extra_addons'', []] @
        concat (map stage_lines (enumerate 0 (pd_addons d))))"

definition apt_lines :: "string list \<Rightarrow> string list" where
  "apt_lines apt =
     (if apt = [] then []
      else [continued ''RUN apt-get update'',
            continued ''    && apt-get install -y --no-install-recommends''] @
        map (\<lambda>p. continued (''        '' @ p)) apt @ [''    && rm -rf /var/lib/apt/lists/*'', []])"

definition pip_lines :: "string list \<Rightarrow> string list" where
  "pip_lines pip =
     (if pip = [] then []
      else end_continued (continued ''RUN pip install'' # map (\<lambda>p. continued (''        '' @ p)) pip) @ [[]])"

definition dockerfile_lines :: "pipeline_data \<Rightarrow> string list" where
  "dockerfile_lines d =
     [DOCKERFILE_HEADER, ''ARG ODOO_BASE_IMAGE='' @ sor (pd_base_image d) DEFAULT_BASE_IMAGE, []] @
     addons_lines d @
     [''FROM ${ODOO_BASE_IMAGE} AS configuration_layer'', [], ''USER root'', []] @
     apt_lines (pd_apt d) @ pip_lines (pd_pip d) @
     [''FROM configuration_layer'', [], ''USER ubuntu'', [], ''WORKDIR /volumes'', [],
      ''COPY config/odoo.conf /volumes/config/odoo.conf'', [],
      ''COPY extra_addons /volumes/extra_addons''] @
     map stage_copy (stages d) @ [[], ''COPY addons /volumes/addons'', []]"

definition render_dockerfile :: "pipeline_data \<Rightarrow> string" where
  "render_dockerfile d = join [newline] (dockerfile_lines d)"

section \<open>The Pipeline tab\<close>

record addon_source =
  as_sequence :: int
  as_repo_url :: string
  as_branch :: string
  as_modules :: string

record odoo_application =
  oa_app :: "portal_application tracked"
  oa_base_image :: string
  oa_apt :: string
  oa_pip :: string
  oa_sources :: "addon_source list"
  oa_synced_at :: "int option"

definition is_odoo_type :: "portal_type \<Rightarrow> bool" where
  "is_odoo_type t \<longleftrightarrow> ty_k8s_name t = ''odoo''"

definition pipeline_entry :: "addon_source \<Rightarrow> pipeline_source" where
  "pipeline_entry x = \<lparr> pe_repo = as_repo_url x, pe_branch = as_branch x, pe_modules = stripped_lines (as_modules x) \<rparr>"

definition odoo_pipeline_data :: "odoo_application \<Rightarrow> pipeline_data" where
  "odoo_pipeline_data oa = \<lparr> pd_base_image = oa_base_image oa, pd_apt = stripped_lines (oa_apt oa),
     pd_pip = stripped_lines (oa_pip oa),
     pd_addons = map pipeline_entry (sort_key as_sequence (oa_sources oa)) \<rparr>"

text \<open>The GitHub Apps of the portal with the installations that mirror repositories.\<close>

type_synonym gh_hosts = "(github_app \<times> github_installation) list"

definition mirror_of :: "gh_hosts \<Rightarrow> string \<Rightarrow> (github_app \<times> github_installation) option" where
  "mirror_of hosts full_name =
     List.find (\<lambda>(a, i). \<exists>r \<in> set (gi_repositories i). gy_full_name r = full_name) hosts"

definition odoo_pipeline_repo ::
    "(string \<Rightarrow> int option) \<Rightarrow> gh_hosts \<Rightarrow> odoo_application \<Rightarrow> (portal_gh \<times> string \<times> string) M" where
  "odoo_pipeline_repo iso_time hosts oa =
     (case ap_repository (tk_record (oa_app oa)) of
        None \<Rightarrow> raise (UserError ''Link a pipeline repository first (the launch wizard creates one).'')
      | Some r \<Rightarrow> (case mirror_of hosts (gr_name r) of
          None \<Rightarrow> raise (UserError (''No GitHub connection covers '' @ gr_name r @
            '' '' @ em_dash @ '' install the GitHub App on that account and sync its repositories.''))
        | Some (a, i) \<Rightarrow> bindM (installation_client iso_time a i) (\<lambda>(g, i').
            ret (g, gr_name r, sor (gr_default_branch r) ''main''))))"

definition commit_file :: "portal_gh \<Rightarrow> string \<Rightarrow> string \<Rightarrow> string \<times> string \<Rightarrow> unit M" where
  "commit_file g full_name branch pt =
     bindM (pg_get_content g full_name (fst pt) branch) (\<lambda>current.
       if map_option rf_text current = Some (snd pt) then ret ()
       else thenM (pg_put_content g full_name (fst pt) (snd pt) ''Update Odoo pipeline (via the Adomi portal)''
         branch (case current of Some f \<Rightarrow> rf_sha f | None \<Rightarrow> [])) (ret ()))"

definition pipeline_files :: "yaml \<Rightarrow> pipeline_data \<Rightarrow> (string \<times> string) list" where
  "pipeline_files y d = [(MANIFEST_PATH, render_manifest y d), (DOCKERFILE_PATH, render_dockerfile d)]"

text \<open>\<open>write\<close> on the application record pushes it, as every write does.\<close>

definition rewritten ::
    "portal \<Rightarrow> (string \<Rightarrow> json option) \<Rightarrow> yaml \<Rightarrow> odoo_application \<Rightarrow> odoo_application M" where
  "rewritten p loads y oa =
     bindM (after_write p False (application_synced loads y) [oa_app oa]) (\<lambda>as. ret (oa\<lparr>oa_app := hd as\<rparr>))"

definition commit_pipeline ::
    "portal \<Rightarrow> (string \<Rightarrow> json option) \<Rightarrow> yaml \<Rightarrow> (string \<Rightarrow> int option) \<Rightarrow> gh_hosts \<Rightarrow>
     odoo_application \<Rightarrow> odoo_application M" where
  "commit_pipeline p loads y iso_time hosts oa =
     bindM (odoo_pipeline_repo iso_time hosts oa) (\<lambda>(g, full_name, branch).
     thenM (forM (pipeline_files y (odoo_pipeline_data oa)) (commit_file g full_name branch))
       (bindM portal_now (\<lambda>now. rewritten p loads y (oa\<lparr>oa_synced_at := Some now\<rparr>))))"

definition imported_source :: "nat \<times> pipeline_source \<Rightarrow> addon_source" where
  "imported_source ix = \<lparr> as_sequence = (int (fst ix) + 1) * 10, as_repo_url = pe_repo (snd ix),
     as_branch = pe_branch (snd ix), as_modules = join [newline] (pe_modules (snd ix)) \<rparr>"

definition import_vals :: "pipeline_data \<Rightarrow> odoo_application \<Rightarrow> odoo_application" where
  "import_vals d oa = oa\<lparr> oa_base_image := pd_base_image d, oa_apt := join [newline] (pd_apt d),
     oa_pip := join [newline] (pd_pip d),
     oa_sources := map imported_source (enumerate 0 (pd_addons d)) \<rparr>"

definition import_pipeline ::
    "portal \<Rightarrow> (string \<Rightarrow> json option) \<Rightarrow> yaml \<Rightarrow> (string \<Rightarrow> int option) \<Rightarrow> gh_hosts \<Rightarrow>
     odoo_application \<Rightarrow> odoo_application M" where
  "import_pipeline p loads y iso_time hosts oa =
     bindM (odoo_pipeline_repo iso_time hosts oa) (\<lambda>(g, full_name, branch).
     bindM (pg_get_content g full_name MANIFEST_PATH branch) (\<lambda>current.
     case current of
       None \<Rightarrow> raise (UserError (full_name @ '' has no '' @ MANIFEST_PATH @ '' yet '' @ em_dash @ '' commit the pipeline once first.''))
     | Some f \<Rightarrow> bindM (of_result (parse_manifest y (rf_text f))) (\<lambda>d. rewritten p loads y (import_vals d oa))))"

section \<open>What is committed reads back\<close>

lemma py_list_strs [simp]: "py_list (strs xs) = Inr (map JStr xs)"
  by (cases xs) (simp_all add: py_list_def strs_def)

lemma str_list_strs [simp]: "str_list (strs xs) = Inr xs"
  by (simp add: str_list_def bind_result_def comp_def)

lemma py_str_or_empty [simp]: "py_str (jor (JStr s) (JStr [])) = s"
  by (cases s) simp_all

lemma parse_source_doc: "parse_source (source_doc x) = Inr x"
  by (cases x) (auto simp: parse_source_def source_doc_def attr_get_def bind_result_def)

lemma parse_sources_docs: "(\<forall>x \<in> set xs. pe_repo x \<noteq> []) \<Longrightarrow> parse_sources (map source_doc xs) = Inr xs"
proof (induction xs)
  case Nil
  then show ?case by simp
next
  case (Cons x xs)
  then have "truthy (source_doc x)" "attr_get (source_doc x) ''repo'' = Inr (JStr (pe_repo x))"
    by (simp_all add: source_doc_def attr_get_def)
  with Cons show ?case by (simp add: bind_result_def parse_source_doc)
qed

lemma parse_manifest_doc:
  assumes "\<forall>x \<in> set (pd_addons d). pe_repo x \<noteq> []"
  shows "parse_doc (manifest_doc d) = Inr (d\<lparr>pd_base_image := sor (pd_base_image d) DEFAULT_BASE_IMAGE\<rparr>)"
proof -
  have "py_list (JArr (map source_doc (pd_addons d))) = Inr (map source_doc (pd_addons d))"
    by (cases "pd_addons d") (simp_all add: py_list_def)
  with parse_sources_docs [OF assms] show ?thesis
    by (simp add: parse_doc_def manifest_doc_def attr_get_def bind_result_def)
qed

lemma parse_rendered:
  assumes "safe_load y (render_manifest y d) = Some (manifest_doc d)"
    and "\<forall>x \<in> set (pd_addons d). pe_repo x \<noteq> []"
  shows "parse_manifest y (render_manifest y d) = Inr (d\<lparr>pd_base_image := sor (pd_base_image d) DEFAULT_BASE_IMAGE\<rparr>)"
proof -
  have "jor (manifest_doc d) (JObj []) = manifest_doc d" by (simp add: manifest_doc_def)
  with assms show ?thesis
    by (simp add: parse_manifest_def load_or_empty_def parse_manifest_doc bind_result_def)
qed

lemma sorted_imported: "sort_key as_sequence (map imported_source (enumerate n xs)) = map imported_source (enumerate n xs)"
proof (rule sort_key_id_if_sorted)
  show "sorted (map as_sequence (map imported_source (enumerate n xs)))"
    by (induction xs arbitrary: n) (auto simp: imported_source_def comp_def in_set_enumerate_eq)
qed

lemma entries_imported:
  "map (pipeline_entry \<circ> imported_source) (enumerate n (map pipeline_entry xs)) = map pipeline_entry xs"
  by (induction xs arbitrary: n) (simp_all add: pipeline_entry_def imported_source_def)

lemma imported_data:
  "odoo_pipeline_data (import_vals ((odoo_pipeline_data oa)\<lparr>pd_base_image := img\<rparr>) ob) =
     (odoo_pipeline_data oa)\<lparr>pd_base_image := img\<rparr>"
  by (simp add: odoo_pipeline_data_def import_vals_def sorted_imported entries_imported)

lemma default_image [simp]: "sor (sor b DEFAULT_BASE_IMAGE) DEFAULT_BASE_IMAGE = sor b DEFAULT_BASE_IMAGE"
  by (simp add: sor_def)

lemma same_files:
  "pipeline_files y (d\<lparr>pd_base_image := sor (pd_base_image d) DEFAULT_BASE_IMAGE\<rparr>) = pipeline_files y d"
  by (simp add: pipeline_files_def render_manifest_def manifest_doc_def render_dockerfile_def
      dockerfile_lines_def addons_lines_def stages_def)

text \<open>C28. What the Pipeline tab commits reads back: when the YAML reader gives back the document that was
  dumped under the manifest's comment, and every addon source has its repository, importing the committed
  manifest into any application gives it exactly the committed pipeline (with the default base image written
  out), and committing from there produces the very same manifest and Dockerfile.\<close>

theorem pipeline_reads_back:
  assumes "safe_load y (render_manifest y (odoo_pipeline_data oa)) = Some (manifest_doc (odoo_pipeline_data oa))"
    and "\<forall>x \<in> set (oa_sources oa). as_repo_url x \<noteq> []"
  shows "\<exists>d. parse_manifest y (render_manifest y (odoo_pipeline_data oa)) = Inr d
    \<and> odoo_pipeline_data (import_vals d ob) =
        (odoo_pipeline_data oa)\<lparr>pd_base_image := sor (oa_base_image oa) DEFAULT_BASE_IMAGE\<rparr>
    \<and> pipeline_files y (odoo_pipeline_data (import_vals d ob)) = pipeline_files y (odoo_pipeline_data oa)"
proof -
  define d where "d = odoo_pipeline_data oa"
  have img: "pd_base_image d = oa_base_image oa" by (simp add: d_def odoo_pipeline_data_def)
  have "\<forall>x \<in> set (pd_addons d). pe_repo x \<noteq> []"
    using assms(2) by (auto simp: d_def odoo_pipeline_data_def pipeline_entry_def)
  then have parsed: "parse_manifest y (render_manifest y d) = Inr (d\<lparr>pd_base_image := sor (oa_base_image oa) DEFAULT_BASE_IMAGE\<rparr>)"
    using parse_rendered assms(1) img by (metis d_def)
  have "odoo_pipeline_data (import_vals (d\<lparr>pd_base_image := sor (oa_base_image oa) DEFAULT_BASE_IMAGE\<rparr>) ob) =
      d\<lparr>pd_base_image := sor (oa_base_image oa) DEFAULT_BASE_IMAGE\<rparr>"
    by (simp only: d_def imported_data)
  with parsed same_files [of y d] img show ?thesis
    by (metis d_def)
qed

definition one_source :: odoo_application where
  "one_source = \<lparr> oa_app = new_tracked acme_erp, oa_base_image = [], oa_apt = ''libpq-dev'', oa_pip = [],
     oa_sources = [\<lparr> as_sequence = 10, as_repo_url = ''https://github.com/OCA/web.git'', as_branch = ''19.0'',
                      as_modules = ''web_responsive'' \<rparr>], oa_synced_at = None \<rparr>"

definition one_document :: yaml where
  "one_document = \<lparr> safe_dump = (\<lambda>_. ''addons: ...''),
     safe_load = (\<lambda>_. Some (manifest_doc (odoo_pipeline_data one_source))) \<rparr>"

lemma pipeline_reads_back_witness:
  "\<exists>d. parse_manifest one_document (render_manifest one_document (odoo_pipeline_data one_source)) = Inr d
    \<and> odoo_pipeline_data (import_vals d one_source) =
        (odoo_pipeline_data one_source)\<lparr>pd_base_image := ''ghcr.io/adomi-io/odoo:19.0''\<rparr>
    \<and> pipeline_files one_document (odoo_pipeline_data (import_vals d one_source)) =
        pipeline_files one_document (odoo_pipeline_data one_source)"
proof -
  have image: "sor (oa_base_image one_source) DEFAULT_BASE_IMAGE = ''ghcr.io/adomi-io/odoo:19.0''" by code_simp
  have load: "safe_load one_document (render_manifest one_document (odoo_pipeline_data one_source)) =
      Some (manifest_doc (odoo_pipeline_data one_source))"
    by (simp add: one_document_def)
  have repos: "\<forall>x \<in> set (oa_sources one_source). as_repo_url x \<noteq> []"
    by (simp add: one_source_def)
  show ?thesis using pipeline_reads_back [OF load repos] image by metis
qed

section \<open>One stage per source\<close>

lemma nat_str_ne [simp]: "nat_str n \<noteq> []"
  by (subst nat_str.simps) simp

lemma digit_char_inj: "m < 10 \<Longrightarrow> n < 10 \<Longrightarrow> digit_char m = digit_char n \<Longrightarrow> m = n"
proof -
  have d: "distinct digit_chars" "length digit_chars = 10" by code_simp+
  assume "m < 10" "n < 10" "digit_char m = digit_char n"
  then show ?thesis using d by (simp add: digit_char_def nth_eq_iff_index_eq)
qed

lemma nat_str_inj: "nat_str m = nat_str n \<Longrightarrow> m = n"
proof (induction m arbitrary: n rule: nat_str.induct)
  case (1 m)
  have step: "nat_str k = (if k < 10 then [digit_char k] else nat_str (k div 10) @ [digit_char (k mod 10)])" for k
    by (subst nat_str.simps) (simp add: digit_char_def)
  show ?case
  proof (cases "m < 10")
    case True
    with 1 step [of m] step [of n] show ?thesis
      by (auto simp: digit_char_inj split: if_splits) (metis nat_str_ne)
  next
    case False
    with 1 step [of m] step [of n] have big: "\<not> n < 10" by (auto split: if_splits)
    with False 1(2) step [of m] step [of n]
    have "nat_str (m div 10) = nat_str (n div 10)" "digit_char (m mod 10) = digit_char (n mod 10)" by simp_all
    then have "m div 10 = n div 10" "m mod 10 = n mod 10" using 1(1) False digit_char_inj by auto
    then show ?thesis by (metis div_mult_mod_eq)
  qed
qed

lemma nat_str_digits: "set (nat_str n) \<subseteq> set digit_chars"
proof (induction n rule: nat_str.induct)
  case (1 n)
  have "digit_char k \<in> set digit_chars" for k
  proof -
    have "length digit_chars = 10" by code_simp
    then show ?thesis by (simp add: digit_char_def)
  qed
  with 1 show ?case by (subst nat_str.simps) auto
qed

lemma index_of_stage: "stage_name u i = stage_name v j \<Longrightarrow> i = j"
proof -
  have us: "CHR ''_'' \<notin> set (nat_str n)" for n
  proof -
    have "CHR ''_'' \<notin> set digit_chars" by code_simp
    with nat_str_digits [of n] show ?thesis by auto
  qed
  then have cut: "takeWhile (\<lambda>c. c \<noteq> CHR ''_'') (nat_str n @ CHR ''_'' # s) = nat_str n" for n s
    by (simp add: takeWhile_tail) (metis takeWhile_eq_all_conv)
  assume "stage_name u i = stage_name v j"
  then have "takeWhile (\<lambda>c. c \<noteq> CHR ''_'') (drop 7 (stage_name u i)) =
      takeWhile (\<lambda>c. c \<noteq> CHR ''_'') (drop 7 (stage_name v j))" by simp
  then have "nat_str i = nat_str j" by (simp add: stage_name_def Let_def cut)
  then show ?thesis by (rule nat_str_inj)
qed

lemma distinct_stages: "distinct (stages d)"
proof -
  have "inj_on (\<lambda>ix. stage_name (pe_repo (snd ix)) (fst ix)) (set (enumerate 0 (pd_addons d)))"
    by (rule inj_onI) (auto simp: in_set_enumerate_eq dest: index_of_stage)
  then show ?thesis by (simp add: stages_def distinct_map)
qed

lemma end_continued_starts:
  "l \<in> set (end_continued ls) \<Longrightarrow> starts_with p l \<Longrightarrow> \<exists>m \<in> set ls. starts_with p m"
proof -
  assume l: "l \<in> set (end_continued ls)" "starts_with p l"
  then have ne: "ls \<noteq> []" by (auto simp: end_continued_def)
  show ?thesis
  proof (cases "l \<in> set (butlast ls)")
    case True
    with l show ?thesis by (meson in_set_butlastD)
  next
    case False
    with l ne have "l = rstrip_of [CHR '' '', CHR 0x5C] (last ls)" by (auto simp: end_continued_def)
    with l have "starts_with p (last ls)"
      by (metis rstrip_of_prefix prefix_order.trans starts_with_iff_prefix)
    with ne show ?thesis by (meson last_in_set)
  qed
qed

definition is_copy :: "string \<Rightarrow> bool" where
  "is_copy l \<longleftrightarrow> starts_with ''COPY --from='' l"

definition is_stage :: "string \<Rightarrow> bool" where
  "is_stage l \<longleftrightarrow> starts_with ''FROM addons_base AS '' l"

lemma end_continued_neither:
  "(\<And>m. m \<in> set ls \<Longrightarrow> \<not> is_copy m \<and> \<not> is_stage m) \<Longrightarrow>
   filter is_copy (end_continued ls) = [] \<and> filter is_stage (end_continued ls) = []"
  unfolding is_copy_def is_stage_def filter_empty_conv using end_continued_starts by meson

lemma module_lines_neither: "filter is_copy (module_lines x) = [] \<and> filter is_stage (module_lines x) = []"
proof (cases "pe_modules x = []")
  case True
  then show ?thesis
    by (simp add: module_lines_def all_addons_line_def is_copy_def is_stage_def starts_with_def)
next
  case False
  then show ?thesis unfolding module_lines_def
    by (simp, intro end_continued_neither)
       (auto simp: continued_def is_copy_def is_stage_def starts_with_def)
qed

lemma stage_lines_filter:
  "filter is_copy (stage_lines ix) = [] \<and>
   filter is_stage (stage_lines ix) = [stage_from (stage_name (pe_repo (snd ix)) (fst ix))]"
  using module_lines_neither [of "snd ix"]
  by (simp add: stage_lines_def clone_line_def continued_def stage_from_def)
     (simp add: is_copy_def is_stage_def starts_with_def)

lemma addons_lines_filter:
  "filter is_copy (addons_lines d) = [] \<and> filter is_stage (addons_lines d) = map stage_from (stages d)"
proof -
  have "filter is_copy (concat (map stage_lines xs)) = [] \<and>
      filter is_stage (concat (map stage_lines xs)) =
        map (\<lambda>ix. stage_from (stage_name (pe_repo (snd ix)) (fst ix))) xs" for xs
    by (induction xs) (simp_all add: stage_lines_filter)
  then show ?thesis
    by (simp add: addons_lines_def stages_def continued_def comp_def)
       (simp add: is_copy_def is_stage_def starts_with_def)
qed

lemma apt_lines_neither: "filter is_copy (apt_lines apt) = [] \<and> filter is_stage (apt_lines apt) = []"
  by (auto simp: apt_lines_def continued_def is_copy_def is_stage_def starts_with_def filter_empty_conv)

lemma pip_lines_neither: "filter is_copy (pip_lines pip) = [] \<and> filter is_stage (pip_lines pip) = []"
proof -
  have "filter is_copy (end_continued (continued ''RUN pip install'' # map (\<lambda>p. continued (''        '' @ p)) pip)) = [] \<and>
      filter is_stage (end_continued (continued ''RUN pip install'' # map (\<lambda>p. continued (''        '' @ p)) pip)) = []"
    by (rule end_continued_neither) (auto simp: continued_def is_copy_def is_stage_def starts_with_def)
  then show ?thesis by (simp add: pip_lines_def) (simp add: is_copy_def is_stage_def starts_with_def)
qed

text \<open>The image takes every addon source exactly once: the Dockerfile has one build stage and one
  \<open>COPY --from\<close> line per source, in the order of the sources, and no two stages share a name, whatever the
  repositories are called and whatever packages and modules are listed.\<close>

lemma dockerfile_copies_each_source:
  "filter is_stage (dockerfile_lines d) = map stage_from (stages d)
    \<and> filter is_copy (dockerfile_lines d) = map stage_copy (stages d)
    \<and> length (stages d) = length (pd_addons d) \<and> distinct (stages d)"
proof -
  have copies: "filter is_copy (map stage_copy xs) = map stage_copy xs \<and> filter is_stage (map stage_copy xs) = []" for xs
    by (induction xs) (simp_all add: stage_copy_def is_copy_def is_stage_def starts_with_def)
  have plain: "\<not> is_copy l \<and> \<not> is_stage l" if "l \<in> set [DOCKERFILE_HEADER,
      ''ARG ODOO_BASE_IMAGE='' @ sor (pd_base_image d) DEFAULT_BASE_IMAGE, [],
      ''FROM ${ODOO_BASE_IMAGE} AS configuration_layer'', ''USER root'', ''FROM configuration_layer'',
      ''USER ubuntu'', ''WORKDIR /volumes'', ''COPY config/odoo.conf /volumes/config/odoo.conf'',
      ''COPY extra_addons /volumes/extra_addons'', ''COPY addons /volumes/addons'']" for l
    using that by (auto simp: DOCKERFILE_HEADER_def is_copy_def is_stage_def starts_with_def)
  show ?thesis
    using addons_lines_filter [of d] apt_lines_neither [of "pd_apt d"] pip_lines_neither [of "pd_pip d"]
      copies [of "stages d"] plain distinct_stages [of d]
    by (simp add: dockerfile_lines_def stages_def)
qed

end
