(* ===== verification/PortalWizard.thy ===== *)
theory PortalWizard
  imports Pipeline PortalConfig Database
begin

text \<open>
  The launch wizard: \<open>adomi_platform/wizards/deploy_wizard.py\<close> and what the Odoo product adds to it in
  \<open>adomi_platform_odoo/wizards/deploy_wizard.py\<close>. A function of the core that the product overrides is
  followed by its override, which calls it as \<open>super()\<close> does. Records are told apart by their resource name.
\<close>

section \<open>The wizard record\<close>

record wizard_line =
  wl_secret :: bool
  wl_name :: string
  wl_value :: string

datatype repo_mode = GenerateRepo | ExistingRepo | DecideLater

record deploy_wizard =
  wz_state :: string
  wz_organization :: "portal_organization option"
  wz_client :: "portal_client option"
  wz_environment :: "portal_environment option"
  wz_type :: "portal_type option"
  wz_app_name :: string
  wz_domain :: "portal_domain option"
  wz_subdomain :: string
  wz_hostname :: string
  wz_server :: "portal_server option"
  wz_database_name :: string
  wz_lines :: "wizard_line list"
  wz_edition :: string
  wz_repo_mode :: repo_mode
  wz_account :: "(github_app \<times> github_installation) option"
  wz_repo_name :: string
  wz_existing :: "github_repository option"
  wz_enterprise_repo :: string

definition needs_database :: "deploy_wizard \<Rightarrow> bool" where
  "needs_database w \<longleftrightarrow> (case wz_type w of Some t \<Rightarrow> ty_database_required t | None \<Rightarrow> False)"

definition wizard_is_odoo :: "deploy_wizard \<Rightarrow> bool" where
  "wizard_is_odoo w \<longleftrightarrow> (case wz_type w of Some t \<Rightarrow> is_odoo_type t | None \<Rightarrow> False)"

section \<open>Steps\<close>

definition core_steps :: "(string \<times> string) list" where
  "core_steps = [(''target'', ''Customer & environment''), (''app'', ''Application''),
     (''database'', ''Database''), (''config'', ''Variables & secrets''), (''review'', ''Review & launch'')]"

fun insert_after :: "string \<Rightarrow> string \<times> string \<Rightarrow> (string \<times> string) list \<Rightarrow> (string \<times> string) list" where
  "insert_after k x [] = []"
| "insert_after k x (s # ss) = (if fst s = k then s # x # ss else s # insert_after k x ss)"

definition wizard_steps :: "(string \<times> string) list" where
  "wizard_steps = insert_after ''app'' (''odoo'', ''Your Odoo project'') core_steps"

definition core_step_visible :: "deploy_wizard \<Rightarrow> string \<Rightarrow> bool" where
  "core_step_visible w step \<longleftrightarrow> (if step = ''database'' then needs_database w else True)"

definition step_visible :: "deploy_wizard \<Rightarrow> string \<Rightarrow> bool" where
  "step_visible w step \<longleftrightarrow> (if step = ''odoo'' then wizard_is_odoo w else core_step_visible w step)"

definition visible_steps :: "deploy_wizard \<Rightarrow> string list" where
  "visible_steps w = filter (step_visible w) (map fst wizard_steps)"

definition current_step :: "deploy_wizard \<Rightarrow> string" where
  "current_step w = (if wz_state w \<in> set (visible_steps w) then wz_state w else hd (visible_steps w))"

definition step_label :: "deploy_wizard \<Rightarrow> string" where
  "step_label w = (case dget wizard_steps (current_step w) of Some l \<Rightarrow> l | None \<Rightarrow> current_step w)"

definition is_first_step :: "deploy_wizard \<Rightarrow> bool" where
  "is_first_step w \<longleftrightarrow> current_step w = hd (visible_steps w)"

definition is_last_step :: "deploy_wizard \<Rightarrow> bool" where
  "is_last_step w \<longleftrightarrow> current_step w = last (visible_steps w)"

fun index_of :: "'a \<Rightarrow> 'a list \<Rightarrow> nat" where
  "index_of x [] = 0"
| "index_of x (y # ys) = (if x = y then 0 else Suc (index_of x ys))"

definition goto_step :: "int \<Rightarrow> deploy_wizard \<Rightarrow> deploy_wizard" where
  "goto_step offset w =
     (let ss = visible_steps w; idx = (if wz_state w \<in> set ss then index_of (wz_state w) ss else 0) in
      w\<lparr>wz_state := ss ! nat (max 0 (min (int (length ss) - 1) (int idx + offset)))\<rparr>)"

definition core_validate :: "deploy_wizard \<Rightarrow> string \<Rightarrow> exn + unit" where
  "core_validate w step =
     (if step = ''target'' \<and> wz_client w = None
      then Inl (UserError ''Pick a customer (or create one right in the field).'')
      else if step = ''target'' \<and> wz_environment w = None
      then Inl (UserError ''Pick an environment (or create one right in the field).'')
      else if step = ''app'' \<and> wz_type w = None
      then Inl (UserError ''Choose an application from the catalog.'')
      else if step = ''app'' \<and> wz_app_name w = []
      then Inl (UserError ''Give the application a name.'')
      else Inr ())"

definition odoo_validate :: "deploy_wizard \<Rightarrow> exn + unit" where
  "odoo_validate w =
     (if wz_repo_mode w \<noteq> DecideLater \<and> wz_account w = None
      then Inl (UserError ''Pick the GitHub account for the pipeline repository, or skip the repository for now.'')
      else if wz_repo_mode w = ExistingRepo \<and> wz_existing w = None
      then Inl (UserError ''Pick the existing repository to use.'')
      else if wz_edition w = ''enterprise'' \<and> wz_enterprise_repo w = []
      then Inl (UserError (''Enterprise needs your enterprise repository (a private mirror of '' @
             ''odoo/enterprise on your GitHub).''))
      else Inr ())"

definition validate_step :: "deploy_wizard \<Rightarrow> string \<Rightarrow> exn + unit" where
  "validate_step w step =
     bind_result (core_validate w step) (\<lambda>_.
       if step = ''odoo'' \<and> wizard_is_odoo w then odoo_validate w else Inr ())"

definition action_next :: "deploy_wizard \<Rightarrow> exn + deploy_wizard" where
  "action_next w = bind_result (validate_step w (wz_state w)) (\<lambda>_. Inr (goto_step 1 w))"

definition action_back :: "deploy_wizard \<Rightarrow> deploy_wizard" where
  "action_back w = goto_step (- 1) w"

section \<open>Defaults and edits\<close>

definition only_one :: "'a list \<Rightarrow> 'a option" where
  "only_one xs = (case xs of [x] \<Rightarrow> Some x | _ \<Rightarrow> None)"

definition of_client :: "portal_client \<Rightarrow> portal_environment \<Rightarrow> bool" where
  "of_client c e \<longleftrightarrow> cl_k8s_name (en_client e) = cl_k8s_name c"

definition or_else :: "'a option \<Rightarrow> 'a option \<Rightarrow> 'a option" where
  "or_else x y = (case x of Some z \<Rightarrow> Some z | None \<Rightarrow> y)"

definition default_get ::
    "portal_organization list \<Rightarrow> portal_client list \<Rightarrow> portal_environment list \<Rightarrow> portal_type list \<Rightarrow>
     string \<Rightarrow> deploy_wizard \<Rightarrow> deploy_wizard" where
  "default_get orgs clients envs types type_slug w =
     (let w1 = w\<lparr>wz_organization := or_else (wz_organization w) (only_one orgs)\<rparr>;
          w2 = w1\<lparr>wz_client := or_else (wz_client w1) (only_one clients)\<rparr>;
          w3 = (case wz_client w2 of
                  None \<Rightarrow> w2
                | Some c \<Rightarrow> w2\<lparr>wz_environment := or_else (wz_environment w2) (only_one (filter (of_client c) envs))\<rparr>)
      in if type_slug = [] then w3
         else w3\<lparr>wz_type := or_else (wz_type w3) (List.find (\<lambda>t. ty_k8s_name t = type_slug) types)\<rparr>)"

definition onchange_organization :: "deploy_wizard \<Rightarrow> deploy_wizard" where
  "onchange_organization w =
     (case (wz_organization w, wz_client w) of
        (Some g, Some c) \<Rightarrow> (case cl_organization c of
            Some h \<Rightarrow> if og_k8s_name h \<noteq> og_k8s_name g then w\<lparr>wz_client := None\<rparr> else w
          | None \<Rightarrow> w)
      | _ \<Rightarrow> w)"

definition onchange_client :: "portal_environment list \<Rightarrow> deploy_wizard \<Rightarrow> deploy_wizard" where
  "onchange_client envs w =
     (case wz_client w of
        None \<Rightarrow> w
      | Some c \<Rightarrow>
          let org = or_else (cl_organization c) (wz_organization w);
              kept = (case wz_environment w of Some e \<Rightarrow> if of_client c e then Some e else None | None \<Rightarrow> None);
              dom = (case wz_domain w of
                       Some d \<Rightarrow> if cl_k8s_name (dm_client d) = cl_k8s_name c then Some d else None
                     | None \<Rightarrow> None)
          in w\<lparr>wz_organization := org, wz_domain := dom,
               wz_environment := or_else kept (only_one (filter (of_client c) envs))\<rparr>)"

definition onchange_type :: "deploy_wizard \<Rightarrow> deploy_wizard" where
  "onchange_type w = (case wz_type w of
     Some t \<Rightarrow> if wz_app_name w = [] then w\<lparr>wz_app_name := ty_name t\<rparr> else w
   | None \<Rightarrow> w)"

definition onchange_app_name :: "deploy_wizard \<Rightarrow> deploy_wizard" where
  "onchange_app_name w =
     (if wz_app_name w \<noteq> [] \<and> wz_subdomain w = [] then w\<lparr>wz_subdomain := slugify (wz_app_name w)\<rparr> else w)"

definition host_preview :: "deploy_wizard \<Rightarrow> string" where
  "host_preview w =
     (let fqdn = (case wz_domain w of Some d \<Rightarrow> dm_fqdn d | None \<Rightarrow> []) in
      if wz_hostname w \<noteq> [] then lower (strip (wz_hostname w))
      else if wz_subdomain w \<noteq> [] \<and> fqdn \<noteq> []
      then lower (strip (wz_subdomain w) @ ''.'' @ strip fqdn)
      else ''(generated under the organization domain)'')"

text \<open>The account's repositories are read again when one of them is to be picked.\<close>

definition onchange_odoo_repo_source ::
    "(string \<Rightarrow> int option) \<Rightarrow> (github_repository \<Rightarrow> github_installation \<Rightarrow> bool) \<Rightarrow> deploy_wizard \<Rightarrow> deploy_wizard M" where
  "onchange_odoo_repo_source iso_time belongs w =
     (let w1 = (case wz_existing w of
                  None \<Rightarrow> w
                | Some r \<Rightarrow> (case wz_account w of
                    Some (a, i) \<Rightarrow> if belongs r i then w else w\<lparr>wz_existing := None\<rparr>
                  | None \<Rightarrow> w\<lparr>wz_existing := None\<rparr>)) in
      case wz_account w1 of
        None \<Rightarrow> ret w1
      | Some (a, i) \<Rightarrow>
          if wz_repo_mode w1 = ExistingRepo
          then tryM (bindM (sync_repos iso_time a i) (\<lambda>i'. ret (w1\<lparr>wz_account := Some (a, i')\<rparr>))) (\<lambda>_. ret w1)
          else ret w1)"

section \<open>What the steps show\<close>

definition database_label :: "deploy_wizard \<Rightarrow> string" where
  "database_label w = sor (wz_database_name w) (slugify (wz_app_name w))"

definition field_of :: "('a \<Rightarrow> string) \<Rightarrow> 'a option \<Rightarrow> string" where
  "field_of f x = (case x of Some r \<Rightarrow> f r | None \<Rightarrow> [])"

definition core_review_lines :: "deploy_wizard \<Rightarrow> (string \<times> string) list" where
  "core_review_lines w =
     [(''Customer'', field_of cl_name (wz_client w)), (''Environment'', field_of en_name (wz_environment w)),
      (''Application'', wz_app_name w @ '' ('' @ field_of ty_name (wz_type w) @ '')''),
      (''Web address'', host_preview w)] @
     (case wz_server w of
        Some s \<Rightarrow> if needs_database w then [(''Database'', database_label w @ '' on '' @ sr_name s)] else []
      | None \<Rightarrow> []) @
     (if wz_lines w \<noteq> [] then [(''Variables & secrets'', join '', '' (map wl_name (wz_lines w)))] else [])"

definition edition_label :: "string \<Rightarrow> string" where
  "edition_label e = (if e = ''enterprise'' then ''Enterprise'' else ''Community'')"

definition BOILERPLATE_TEMPLATE :: string where
  "BOILERPLATE_TEMPLATE = ''adomi-io/odoo-boilerplate''"

definition odoo_repo_name :: "deploy_wizard \<Rightarrow> string" where
  "odoo_repo_name w =
     sor (wz_repo_name w) (slugify (sor (field_of cl_k8s_name (wz_client w)) ''customer'') @ ''-odoo'')"

definition review_lines :: "deploy_wizard \<Rightarrow> (string \<times> string) list" where
  "review_lines w = core_review_lines w @
     (if \<not> wizard_is_odoo w then []
      else [(''Odoo edition'', edition_label (wz_edition w))] @
        (case (wz_repo_mode w, wz_account w, wz_existing w) of
           (GenerateRepo, Some (a, i), _) \<Rightarrow>
             [(''Pipeline repository'', gi_account_login i @ ''/'' @ odoo_repo_name w @ '' (from '' @
               BOILERPLATE_TEMPLATE @ '')'')]
         | (ExistingRepo, _, Some r) \<Rightarrow> [(''Pipeline repository'', gy_full_name r)]
         | _ \<Rightarrow> []))"

definition provided_lines :: "deploy_wizard \<Rightarrow> (string \<times> string) list" where
  "provided_lines w =
     [(''Web address'', host_preview w)] @
     (case wz_server w of
        Some s \<Rightarrow> if needs_database w
          then [(''Database connection'', database_label w @ '' on '' @ sr_name s @ '' '' @ em_dash @
            '' host, port, credentials injected as environment variables from the platform vault'')]
          else []
      | None \<Rightarrow> []) @
     (if field_of ty_sso_protocol (wz_type w) \<noteq> []
      then [(''Single sign-on'', ''An identity client is provisioned and its credentials injected'')] else [])"

text \<open>The HTML table of a summary.\<close>

definition summary_table :: "string \<Rightarrow> (string \<times> string) list \<Rightarrow> string" where
  "summary_table cls rows = ''<table class='table table-sm mb-0'>'' @
     concat (map (\<lambda>(l, v). ''<tr><td class='' @ [CHR 0x27] @ cls @ [CHR 0x27] @ ''>'' @ l @ ''</td><td>'' @ v @ ''</td></tr>'') rows) @
     ''</table>''"

section \<open>The application\<close>

definition core_application ::
    "deploy_wizard \<Rightarrow> portal_environment \<Rightarrow> portal_type \<Rightarrow> portal_application" where
  "core_application w e t =
     (let slug = slugify (wz_app_name w) in
      \<lparr> ap_k8s_name = slug, ap_name = wz_app_name w, ap_environment = e, ap_type = t, ap_replicas = 1,
        ap_domain = wz_domain w, ap_subdomain = lower (strip (wz_subdomain w)), ap_hostname = wz_hostname w,
        ap_databases =
          (case wz_server w of
             Some s \<Rightarrow> if ty_database_required t
               then [\<lparr> ad_name = slug, ad_server = None, ad_server_name = sr_k8s_name s,
                       ad_database_name = sor (wz_database_name w) slug, ad_user = [],
                       ad_secret = slug @ ''-db'' \<rparr>]
               else []
           | None \<Rightarrow> []),
        ap_sso = [], ap_env = [], ap_values = [], ap_repository = None, ap_source_ref = [],
        ap_url = [], ap_phase = [], ap_namespace = [], ap_configs = [] \<rparr>)"

definition odoo_values :: "deploy_wizard \<Rightarrow> json" where
  "odoo_values w = JObj [(''odoo'', JObj ((''edition'', JStr (wz_edition w)) #
     (if wz_edition w = ''enterprise'' \<and> wz_enterprise_repo w \<noteq> []
      then [(''enterpriseRepository'', JStr (wz_enterprise_repo w))] else [])))]"

definition ODOO_DB_ENV :: "(string \<times> string) list" where
  "ODOO_DB_ENV = [(''ODOO_DB_HOST'', ''host''), (''ODOO_DB_PORT'', ''port''), (''ODOO_DB_USER'', ''user''),
     (''ODOO_DB_NAME'', ''dbname''), (''ODOO_DB_PASSWORD'', ''password'')]"

text \<open>The environment of the first database that has a Secret.\<close>

fun database_env :: "app_database list \<Rightarrow> app_env list" where
  "database_env [] = []"
| "database_env (d # ds) =
     (if ad_secret d = [] then database_env ds
      else map (\<lambda>(n, k). \<lparr> ae_name = n, ae_value = [], ae_secret_name = ad_secret d, ae_secret_key = k \<rparr>) ODOO_DB_ENV)"

definition wizard_application ::
    "deploy_wizard \<Rightarrow> portal_environment \<Rightarrow> portal_type \<Rightarrow> portal_application" where
  "wizard_application w e t =
     (let a = core_application w e t in
      if is_odoo_type t
      then a\<lparr>ap_values := dumps (odoo_values w), ap_env := ap_env a @ database_env (ap_databases a)\<rparr>
      else a)"

section \<open>Launch\<close>

text \<open>\<open>create\<close>: the record is pushed and its status read back, neither failing the caller.\<close>

definition created ::
    "portal \<Rightarrow> ('r \<Rightarrow> synced) \<Rightarrow> (json \<Rightarrow> 'r \<Rightarrow> 'r) \<Rightarrow> (json \<Rightarrow> 'r \<Rightarrow> exn + 'r) \<Rightarrow> int \<Rightarrow> 'r \<Rightarrow> 'r tracked M" where
  "created p model status_vals variables now r =
     (if sync_enabled p
      then bindM (push p model (new_tracked r)) (\<lambda>t.
        tryM (sync_one p model status_vals variables now t) (\<lambda>_. ret t))
      else ret (new_tracked r))"

definition created_application ::
    "portal \<Rightarrow> (string \<Rightarrow> json option) \<Rightarrow> yaml \<Rightarrow> int \<Rightarrow> portal_application \<Rightarrow> portal_application tracked M" where
  "created_application p loads y now a =
     created p (application_synced loads y) application_status_vals
       (rows_of ap_configs (\<lambda>rows x. x\<lparr>ap_configs := rows\<rparr>) now) now a"

definition line_config :: "int \<Rightarrow> portal_application \<Rightarrow> wizard_line \<Rightarrow> scoped_config \<times> string option" where
  "line_config now a l =
     (\<lparr> sf_row = \<lparr> row_id = fresh_id (ap_configs a), row_name = wl_name l, row_secret = wl_secret l,
          row_value = (if wl_secret l then [] else wl_value l), row_touched = now \<rparr>,
        sf_organization = None, sf_client = None, sf_environment = None, sf_application = Some a,
        sf_secret_set = False \<rparr>,
      if wl_secret l then Some (wl_value l) else None)"

definition core_after_launch ::
    "portal \<Rightarrow> int \<Rightarrow> deploy_wizard \<Rightarrow> portal_application \<Rightarrow> scoped_config list M" where
  "core_after_launch p now w a =
     bindM (mapM (\<lambda>l. create_config p False [line_config now a l]) (wz_lines w)) (\<lambda>cs. ret (concat cs))"

record odoo_project =
  oj_name :: string
  oj_application :: string
  oj_edition :: string

text \<open>What a launch leaves in the portal.\<close>

record launched =
  ln_application :: "portal_application tracked"
  ln_configs :: "scoped_config list"
  ln_project :: "odoo_project option"
  ln_repository :: "portal_repository tracked option"

definition link_pipeline_repo ::
    "portal \<Rightarrow> (string \<Rightarrow> json option) \<Rightarrow> yaml \<Rightarrow> int \<Rightarrow> launched \<Rightarrow> string \<Rightarrow> string \<Rightarrow> string \<Rightarrow> launched M" where
  "link_pipeline_repo p loads y now ln full_name url branch =
     (let a = ln_application ln;
          r = \<lparr> gr_k8s_name = slugify (after_slash full_name), gr_name = full_name,
                gr_client = Some (en_client (ap_environment (tk_record a))), gr_url = url,
                gr_default_branch = sor branch ''master'', gr_credentials = [], gr_preview = False,
                gr_preview_client = None, gr_preview_type = [] \<rparr> in
      bindM (created p repository_synced (\<lambda>_ x. x) no_rows now r) (\<lambda>tr.
      bindM (after_write p False (application_synced loads y)
               [a\<lparr>tk_record := (tk_record a)\<lparr>ap_repository := Some (tk_record tr)\<rparr>\<rparr>]) (\<lambda>as.
      ret (ln\<lparr>ln_application := hd as, ln_repository := Some tr\<rparr>))))"

definition generate_repo ::
    "portal \<Rightarrow> (string \<Rightarrow> json option) \<Rightarrow> yaml \<Rightarrow> (string \<Rightarrow> int option) \<Rightarrow> int \<Rightarrow> deploy_wizard \<Rightarrow>
     github_app \<Rightarrow> github_installation \<Rightarrow> launched \<Rightarrow> launched M" where
  "generate_repo p loads y iso_time now w ga i ln =
     (let owner = gi_account_login i; repo_name = odoo_repo_name w;
          client_name = cl_name (en_client (ap_environment (tk_record (ln_application ln)))) in
      bindM (installation_client iso_time ga i) (\<lambda>(g, i').
      bindM (pg_generate g BOILERPLATE_TEMPLATE repo_name owner True
               (''Odoo pipeline for '' @ client_name @ '' (generated by the Adomi platform)'')) (\<lambda>repo.
      link_pipeline_repo p loads y now ln (owner @ ''/'' @ repo_name)
        (sor (sget repo ''html_url'') (''https://github.com/'' @ owner @ ''/'' @ repo_name))
        (sget repo ''default_branch''))))"

definition link_repo ::
    "portal \<Rightarrow> (string \<Rightarrow> json option) \<Rightarrow> yaml \<Rightarrow> (string \<Rightarrow> int option) \<Rightarrow> int \<Rightarrow> deploy_wizard \<Rightarrow>
     launched \<Rightarrow> launched M" where
  "link_repo p loads y iso_time now w ln =
     (case (wz_repo_mode w, wz_account w, wz_existing w) of
        (ExistingRepo, _, Some r) \<Rightarrow>
          link_pipeline_repo p loads y now ln (gy_full_name r)
            (sor (gy_html_url r) (''https://github.com/'' @ gy_full_name r)) (gy_default_branch r)
      | (GenerateRepo, Some (ga, i), _) \<Rightarrow> generate_repo p loads y iso_time now w ga i ln
      | _ \<Rightarrow> ret ln)"

definition after_launch ::
    "portal \<Rightarrow> (string \<Rightarrow> json option) \<Rightarrow> yaml \<Rightarrow> (string \<Rightarrow> int option) \<Rightarrow> int \<Rightarrow> deploy_wizard \<Rightarrow>
     portal_application tracked \<Rightarrow> launched M" where
  "after_launch p loads y iso_time now w a =
     bindM (core_after_launch p now w (tk_record a)) (\<lambda>cs.
       let ln = \<lparr> ln_application = a, ln_configs = cs, ln_project = None, ln_repository = None \<rparr>;
           project = \<lparr> oj_name = field_of cl_name (wz_client w) @ '' '' @ em_dash @ '' '' @ ap_name (tk_record a),
             oj_application = ap_k8s_name (tk_record a), oj_edition = wz_edition w \<rparr> in
       if wizard_is_odoo w then link_repo p loads y iso_time now w (ln\<lparr>ln_project := Some project\<rparr>) else ret ln)"

definition action_launch ::
    "portal \<Rightarrow> (string \<Rightarrow> json option) \<Rightarrow> yaml \<Rightarrow> (string \<Rightarrow> int option) \<Rightarrow> int \<Rightarrow> deploy_wizard \<Rightarrow> launched M" where
  "action_launch p loads y iso_time now w =
     thenM (of_result (validate_step w ''target''))
    (thenM (of_result (validate_step w ''app''))
       (case (wz_environment w, wz_type w) of
          (Some e, Some t) \<Rightarrow>
            bindM (created_application p loads y now (wizard_application w e t)) (after_launch p loads y iso_time now w)
        | _ \<Rightarrow> raise attribute_error))"

section \<open>Walking through the steps\<close>

lemma step_visible_state: "step_visible (w\<lparr>wz_state := x\<rparr>) = step_visible w"
  by (rule ext) (simp add: step_visible_def core_step_visible_def needs_database_def wizard_is_odoo_def)

lemma visible_goto [simp]: "visible_steps (goto_step k w) = visible_steps w"
  unfolding goto_step_def Let_def visible_steps_def step_visible_state by (rule refl)

lemma target_visible: "''target'' = hd (visible_steps w)" "visible_steps w \<noteq> []"
  by (simp_all add: visible_steps_def wizard_steps_def core_steps_def step_visible_def core_step_visible_def)

lemma distinct_visible: "distinct (visible_steps w)"
proof -
  have "distinct (map fst wizard_steps)" by (simp add: wizard_steps_def core_steps_def)
  then show ?thesis by (simp add: visible_steps_def)
qed

lemma index_of_nth: "distinct xs \<Longrightarrow> i < length xs \<Longrightarrow> index_of (xs ! i) xs = i"
  by (induction xs arbitrary: i) (auto simp: nth_Cons split: nat.splits)

lemma goto_nth:
  assumes "wz_state w = visible_steps w ! i" and "i < length (visible_steps w)"
  shows "wz_state (goto_step k w) =
    visible_steps w ! nat (max 0 (min (int (length (visible_steps w)) - 1) (int i + k)))"
  using assms distinct_visible [of w] by (simp add: goto_step_def Let_def index_of_nth)

lemma one_up: "0 < l \<Longrightarrow> nat (max 0 (min (int l - 1) (int (min k (l - 1)) + 1))) = min (Suc k) (l - 1)"
  by (cases "k < l - 1") (auto simp: min_def max_def)

lemma below_last: "0 < l \<Longrightarrow> min k (l - 1) < l" for k l :: nat
  by linarith

lemma one_down: "0 < l \<Longrightarrow> i < l \<Longrightarrow> nat (max 0 (min (int l - 1) (int i + - 1))) = i - 1"
  by (cases i) (simp_all add: min_def max_def)

lemma walk_visible: "visible_steps ((goto_step 1 ^^ n) w) = visible_steps w"
  by (induction n) simp_all

lemma walk_state:
  assumes "wz_state w = ''target''"
  shows "wz_state ((goto_step 1 ^^ n) w) = visible_steps w ! min n (length (visible_steps w) - 1)"
proof (induction n)
  case 0
  have "wz_state w = visible_steps w ! 0"
    using assms target_visible [of w] hd_conv_nth by metis
  then show ?case by simp
next
  case (Suc n)
  have l: "0 < length (visible_steps w)" using target_visible(2) by simp
  have "wz_state (goto_step 1 ((goto_step 1 ^^ n) w)) = visible_steps w !
      nat (max 0 (min (int (length (visible_steps w)) - 1) (int (min n (length (visible_steps w) - 1)) + 1)))"
    using goto_nth [where w = "(goto_step 1 ^^ n) w" and k = 1, unfolded walk_visible, OF Suc below_last [OF l]] .
  then show ?case unfolding one_up [OF l] by simp
qed

text \<open>The wizard leads through every step that applies, once and in order: from its first step, the
  \<open>n\<close>-th \<open>Next\<close> shows the \<open>n\<close>-th visible step, the last one stays where it is, and \<open>Back\<close> from any later
  step returns to the one before it.\<close>

lemma wizard_shows_each_step:
  assumes "wz_state w = ''target''"
  shows "wz_state ((goto_step 1 ^^ n) w) = visible_steps w ! min n (length (visible_steps w) - 1)
    \<and> visible_steps ((goto_step 1 ^^ n) w) = visible_steps w
    \<and> wz_state (action_back ((goto_step 1 ^^ n) w)) =
        visible_steps w ! (min n (length (visible_steps w) - 1) - 1)"
proof -
  have l: "0 < length (visible_steps w)" using target_visible(2) by simp
  have "wz_state (goto_step (- 1) ((goto_step 1 ^^ n) w)) = visible_steps w !
      nat (max 0 (min (int (length (visible_steps w)) - 1) (int (min n (length (visible_steps w) - 1)) + - 1)))"
    using goto_nth [where w = "(goto_step 1 ^^ n) w" and k = "- 1", unfolded walk_visible,
        OF walk_state [OF assms] below_last [OF l]] .
  then show ?thesis
    unfolding action_back_def one_down [OF l below_last [OF l]] using walk_state [OF assms] walk_visible by metis
qed

definition new_wizard :: deploy_wizard where
  "new_wizard = \<lparr> wz_state = ''target'', wz_organization = None, wz_client = Some acme_inc,
     wz_environment = Some acme_prod, wz_type = Some odoo_type, wz_app_name = ''My ERP'', wz_domain = None,
     wz_subdomain = [], wz_hostname = [], wz_server = Some acme_server, wz_database_name = [], wz_lines = [],
     wz_edition = ''community'', wz_repo_mode = DecideLater, wz_account = None, wz_repo_name = [],
     wz_existing = None, wz_enterprise_repo = [] \<rparr>"

lemma wizard_shows_each_step_witness:
  "wz_state ((goto_step 1 ^^ 2) new_wizard) = ''odoo''
    \<and> visible_steps ((goto_step 1 ^^ 2) new_wizard) = [''target'', ''app'', ''odoo'', ''database'', ''config'', ''review'']
    \<and> wz_state (action_back ((goto_step 1 ^^ 2) new_wizard)) = ''app''"
proof -
  have start: "wz_state new_wizard = ''target''" by (simp add: new_wizard_def)
  have steps: "visible_steps new_wizard = [''target'', ''app'', ''odoo'', ''database'', ''config'', ''review'']"
    by (simp add: visible_steps_def wizard_steps_def core_steps_def step_visible_def core_step_visible_def
        needs_database_def wizard_is_odoo_def new_wizard_def is_odoo_type_def odoo_type_def)
  show ?thesis using wizard_shows_each_step [OF start, of 2] unfolding steps by simp
qed

section \<open>The database of a launched application\<close>

definition password_key_of :: "json \<Rightarrow> string" where
  "password_key_of entry = sor (sget (oget entry ''credentials'') ''passwordKey'') ''password''"

text \<open>C27. What the wizard launches is wired from end to end: an Odoo application that needs a database is
  created with one database on the chosen server; every \<open>ODOO_DB_*\<close> variable reads the Secret that the
  pushed database entry asks the controller to deliver; and each key it reads is one the controller's
  ExternalSecret for that Secret writes, wherever the database turns out to live.\<close>

theorem wizard_wires_database:
  assumes "is_odoo_type t" and "ty_database_required t" and "wz_server w = Some s"
  shows "\<exists>d. ap_databases (wizard_application w e t) = [d]
    \<and> sget (database_entry d) ''server'' = sr_k8s_name s
    \<and> map ae_name (ap_env (wizard_application w e t)) = map fst ODOO_DB_ENV
    \<and> map ae_secret_name (ap_env (wizard_application w e t)) =
        replicate 5 (sget (oget (database_entry d) ''credentials'') ''secret'')
    \<and> set (map ae_secret_key (ap_env (wizard_application w e t))) \<subseteq>
        fst ` set (es_template (database_external_secret cfg
          (sget (oget (database_entry d) ''credentials'') ''secret'') ns path (password_key_of (database_entry d))
          host port dbname user labels))"
proof -
  define d where "d = \<lparr> ad_name = slugify (wz_app_name w), ad_server = None, ad_server_name = sr_k8s_name s,
    ad_database_name = sor (wz_database_name w) (slugify (wz_app_name w)), ad_user = [],
    ad_secret = slugify (wz_app_name w) @ ''-db'' \<rparr>"
  have db: "ap_databases (core_application w e t) = [d]"
    using assms by (simp add: core_application_def Let_def d_def)
  have entry: "sget (database_entry d) ''server'' = sr_k8s_name s"
    "sget (oget (database_entry d) ''credentials'') ''secret'' = ad_secret d"
    "password_key_of (database_entry d) = ''password''"
    by (simp_all add: database_entry_def password_key_of_def d_def sor_def sget_def oget_def unless_empty_def)
  have env: "ap_env (wizard_application w e t) =
      map (\<lambda>(n, k). \<lparr> ae_name = n, ae_value = [], ae_secret_name = ad_secret d, ae_secret_key = k \<rparr>) ODOO_DB_ENV"
    using assms db by (simp add: wizard_application_def Let_def core_application_def d_def)
  have keys: "set (map snd ODOO_DB_ENV) \<subseteq> fst ` set (es_template (database_external_secret cfg
      (ad_secret d) ns path ''password'' host port dbname user labels))"
    by (simp add: ODOO_DB_ENV_def es_template_def database_external_secret_def external_secret0_def
        fetched_keys_def setdefault_def)
  have dbs: "ap_databases (wizard_application w e t) = [d]"
    using assms db by (simp add: wizard_application_def Let_def)
  have "map ae_name (ap_env (wizard_application w e t)) = map fst ODOO_DB_ENV"
    and "map ae_secret_name (ap_env (wizard_application w e t)) = replicate 5 (ad_secret d)"
    and "map ae_secret_key (ap_env (wizard_application w e t)) = map snd ODOO_DB_ENV"
    unfolding env by (simp_all add: ODOO_DB_ENV_def numeral_eq_Suc)
  with dbs entry keys show ?thesis by (intro exI [of _ d]) simp
qed

lemma wizard_wires_database_witness:
  "\<exists>d. ap_databases (wizard_application new_wizard acme_prod odoo_type) = [d]
    \<and> sget (database_entry d) ''server'' = ''pg''
    \<and> map ae_name (ap_env (wizard_application new_wizard acme_prod odoo_type)) =
        [''ODOO_DB_HOST'', ''ODOO_DB_PORT'', ''ODOO_DB_USER'', ''ODOO_DB_NAME'', ''ODOO_DB_PASSWORD'']"
proof -
  have t: "is_odoo_type odoo_type" "ty_database_required odoo_type" "wz_server new_wizard = Some acme_server"
    "sr_k8s_name acme_server = ''pg''"
    by (simp_all add: is_odoo_type_def odoo_type_def new_wizard_def acme_server_def)
  obtain d where "ap_databases (wizard_application new_wizard acme_prod odoo_type) = [d]"
    "sget (database_entry d) ''server'' = ''pg''"
    "map ae_name (ap_env (wizard_application new_wizard acme_prod odoo_type)) = map fst ODOO_DB_ENV"
    using wizard_wires_database [OF t(1-3), where e = acme_prod] t(4) by metis
  then show ?thesis by (simp add: ODOO_DB_ENV_def)
qed

section \<open>A launch that fails half way\<close>

text \<open>
  A secret line without a value stops the launch only after the application was created, and so pushed: the
  portal's transaction is rolled back, what was pushed is not.
\<close>

lemma blank_secret_pushes_first:
  assumes "wz_client w \<noteq> None" and "wz_environment w = Some e" and "wz_type w = Some t" and "wz_app_name w \<noteq> []"
    and "wz_lines w = \<lparr> wl_secret = True, wl_name = n, wl_value = [] \<rparr> # ls" and "check_row_name n = Inr ()"
    and "created_application p loads y now (wizard_application w e t) env s = (Inr a, s')"
  shows "action_launch p loads y iso_time now w env s = (Inl (UserError (''Provide a value for the secret '' @ n @ ''.'')), s')"
proof -
  have valid: "validate_step w ''target'' = Inr ()" "validate_step w ''app'' = Inr ()"
    using assms(1-4) by (auto simp: validate_step_def core_validate_def bind_result_def)
  have "create_config p False [line_config now x \<lparr> wl_secret = True, wl_name = n, wl_value = [] \<rparr>] =
      raise (UserError (''Provide a value for the secret '' @ n @ ''.''))" for x
    using assms(6) by (simp add: create_config_def line_config_def check_scope_def of_result_def)
  then have "after_launch p loads y iso_time now w a = raise (UserError (''Provide a value for the secret '' @ n @ ''.''))"
    by (simp add: after_launch_def core_after_launch_def assms(5))
  then show ?thesis
    using valid assms(2,3,7) by (simp add: action_launch_def of_result_def bindM_run raise_def)
qed

end
