(* ===== verification/Dispatch.thy ===== *)
theory Dispatch
  imports Routers PortalSignIn PortalConfig
begin

text \<open>
  Which endpoint of the API answers a request: the paths of \<open>routers/*.py\<close> as \<open>routers/__init__.py\<close>
  includes them, and the writing endpoints behind them. The framework's rule is that a template fits a path
  of as many segments, when every fixed segment is equal and every parameter takes a non-empty segment.
  With it the portal's requests meet the API: what a push of the portal makes the API commit.
\<close>

section \<open>Templates\<close>

datatype seg = Lit string | Par

type_synonym route = "string \<times> seg list \<times> string"

definition path_segments :: "string \<Rightarrow> string list" where
  "path_segments path = split_on CHR ''/'' (before CHR ''?'' path)"

fun fits :: "seg list \<Rightarrow> string list \<Rightarrow> string list option" where
  "fits [] ss = (if ss = [] then Some [] else None)"
| "fits (p # ps) [] = None"
| "fits (Lit l # ps) (s # ss) = (if s = l then fits ps ss else None)"
| "fits (Par # ps) (s # ss) = (if s = [] then None else map_option ((#) s) (fits ps ss))"

definition under :: "seg list \<Rightarrow> route list \<Rightarrow> route list" where
  "under pre rs = map (\<lambda>(m, t, f). (m, pre @ t, f)) rs"

section \<open>The routers\<close>

definition clients_router :: "route list" where
  "clients_router = under [Lit ''clients'']
     [(''GET'', [], ''list_clients''), (''PUT'', [Par], ''put_client''),
      (''GET'', [Par], ''get_client''), (''DELETE'', [Par], ''delete_client'')]"

definition domains_router :: "route list" where
  "domains_router = under [Lit ''clients'', Par, Lit ''domains'']
     [(''GET'', [], ''list_domains''), (''PUT'', [Par], ''put_domain''),
      (''GET'', [Par], ''get_domain''), (''DELETE'', [Par], ''delete_domain'')]"

definition databaseservers_router :: "route list" where
  "databaseservers_router = under [Lit ''clients'', Par, Lit ''databaseservers'']
     [(''GET'', [], ''list_database_servers''), (''PUT'', [Par], ''put_database_server''),
      (''GET'', [Par], ''get_database_server''), (''DELETE'', [Par], ''delete_database_server'')]"

definition databases_router :: "route list" where
  "databases_router = under [Lit ''clients'', Par, Lit ''databases'']
     [(''GET'', [], ''list_databases''), (''PUT'', [Par], ''put_database''),
      (''GET'', [Par], ''get_database''), (''DELETE'', [Par], ''delete_database'')]"

definition environments_router :: "route list" where
  "environments_router = under [Lit ''clients'', Par, Lit ''environments'']
     [(''GET'', [], ''list_environments''), (''PUT'', [Par], ''put_environment''),
      (''GET'', [Par], ''get_environment''), (''DELETE'', [Par], ''delete_environment'')]"

definition applications_router :: "route list" where
  "applications_router = under [Lit ''clients'', Par, Lit ''environments'', Par, Lit ''applications'']
     [(''GET'', [], ''list_applications''), (''PUT'', [Par], ''put_application''),
      (''GET'', [Par], ''get_application''), (''DELETE'', [Par], ''delete_application'')]"

definition gitrepositories_router :: "route list" where
  "gitrepositories_router = under [Lit ''clients'', Par, Lit ''gitrepositories'']
     [(''GET'', [], ''list_gitrepositories''), (''PUT'', [Par], ''put_gitrepository''),
      (''GET'', [Par], ''get_gitrepository''), (''DELETE'', [Par], ''delete_gitrepository'')]"

definition repo_router :: "route list" where
  "repo_router = under [Lit ''clients'', Par, Lit ''repo'']
     [(''GET'', [Lit ''tree''], ''repo_tree''), (''GET'', [Lit ''commits''], ''repo_commits'')]"

definition snapshots_router :: "route list" where
  "snapshots_router = under [Lit ''clients'', Par, Lit ''snapshots'']
     [(''GET'', [], ''list_snapshots''), (''PUT'', [Par], ''put_snapshot''),
      (''GET'', [Par], ''get_snapshot''), (''DELETE'', [Par], ''delete_snapshot'')]"

text \<open>The routes of one scope: its variables and its secrets.\<close>

definition scoped_client_routes :: "route list" where
  "scoped_client_routes = under [Lit ''clients'', Par]
     [(''GET'', [Lit ''variables''], ''list_client_variables''),
      (''PUT'', [Lit ''variables'', Par], ''put_client_variable''),
      (''DELETE'', [Lit ''variables'', Par], ''delete_client_variable''),
      (''GET'', [Lit ''secrets''], ''list_client_secrets''),
      (''PUT'', [Lit ''secrets'', Par], ''put_client_secret''),
      (''DELETE'', [Lit ''secrets'', Par], ''delete_client_secret'')]"

definition scoped_environment_routes :: "route list" where
  "scoped_environment_routes = under [Lit ''clients'', Par, Lit ''environments'', Par]
     [(''GET'', [Lit ''variables''], ''list_environment_variables''),
      (''PUT'', [Lit ''variables'', Par], ''put_environment_variable''),
      (''DELETE'', [Lit ''variables'', Par], ''delete_environment_variable''),
      (''GET'', [Lit ''secrets''], ''list_environment_secrets''),
      (''PUT'', [Lit ''secrets'', Par], ''put_environment_secret''),
      (''DELETE'', [Lit ''secrets'', Par], ''delete_environment_secret'')]"

definition scoped_application_routes :: "route list" where
  "scoped_application_routes = under [Lit ''clients'', Par, Lit ''environments'', Par, Lit ''applications'', Par]
     [(''GET'', [Lit ''variables''], ''list_application_variables''),
      (''PUT'', [Lit ''variables'', Par], ''put_application_variable''),
      (''DELETE'', [Lit ''variables'', Par], ''delete_application_variable''),
      (''GET'', [Lit ''secrets''], ''list_application_secrets''),
      (''PUT'', [Lit ''secrets'', Par], ''put_application_secret''),
      (''DELETE'', [Lit ''secrets'', Par], ''delete_application_secret'')]"

definition scoped_organization_routes :: "route list" where
  "scoped_organization_routes = under [Lit ''organizations'', Par, Lit ''secrets'']
     [(''GET'', [], ''list_org_secrets''), (''PUT'', [Par], ''put_org_secret''),
      (''DELETE'', [Par], ''delete_org_secret'')]"

definition scoped_router :: "route list" where
  "scoped_router = scoped_client_routes @ scoped_environment_routes @ scoped_application_routes @
     scoped_organization_routes"

definition images_router :: "route list" where
  "images_router = under [Lit ''clients'', Par, Lit ''images''] [(''GET'', [], ''list_images'')]"

definition identity_router :: "route list" where
  "identity_router = [(''GET'', [Lit ''identity'', Lit ''users''], ''list_users'')]"

definition access_router :: "route list" where
  "access_router = under [Lit ''clients'', Par, Lit ''environments'', Par, Lit ''applications'', Par, Lit ''access'']
     [(''GET'', [], ''get_access''), (''PUT'', [Par], ''grant_access''), (''DELETE'', [Par], ''revoke_access'')]"

definition api_routes :: "route list" where
  "api_routes = under [Lit [], Lit ''v1'']
     (clients_router @ domains_router @ databaseservers_router @ databases_router @ environments_router @
      applications_router @ gitrepositories_router @ repo_router @ snapshots_router @ scoped_router @
      images_router @ identity_router @ access_router)"

text \<open>Every route that fits a request, with its arguments.\<close>

definition answered_by :: "string \<Rightarrow> string \<Rightarrow> (string \<times> string list) list" where
  "answered_by meth path = List.map_filter (\<lambda>(m, t, f).
     if m = meth then map_option (\<lambda>args. (f, args)) (fits t (path_segments path)) else None) api_routes"

section \<open>The writing endpoints\<close>

definition validated :: "'b option \<Rightarrow> ('b \<Rightarrow> dict M) \<Rightarrow> dict M" where
  "validated r f = (case r of None \<Rightarrow> raise (HttpException 422 ''Unprocessable Entity'') | Some b \<Rightarrow> f b)"

definition read_value :: "dict \<Rightarrow> string option" where
  "read_value d = req_str d ''value''"

definition api_put ::
    "settings \<Rightarrow> yaml \<Rightarrow> service \<Rightarrow> secrets_store \<Rightarrow> string \<Rightarrow> string list \<Rightarrow> dict \<Rightarrow> dict M option" where
  "api_put se y sv ss f args body = (case args of
     [c] \<Rightarrow> if f = ''put_client'' then Some (validated (read_client_body body) (put_client y sv c)) else None
   | [c, n] \<Rightarrow>
       if f = ''put_domain'' then Some (validated (read_domain_body body) (put_domain y sv c n))
       else if f = ''put_database_server''
       then Some (validated (read_database_server_body body) (put_database_server y sv c n))
       else if f = ''put_database'' then Some (validated (read_database_body body) (put_database y sv c n))
       else if f = ''put_environment'' then Some (validated (read_environment_body body) (put_environment y sv c n))
       else if f = ''put_gitrepository'' then Some (validated (read_repository_body body) (put_gitrepository y sv c n))
       else if f = ''put_snapshot'' then Some (validated (read_snapshot_body body) (put_snapshot y sv c n))
       else if f = ''put_client_variable'' then Some (validated (read_value body) (put_client_variable y sv c n))
       else if f = ''put_client_secret'' then Some (validated (read_value body) (put_client_secret ss se c n))
       else if f = ''put_org_secret'' then Some (validated (read_value body) (put_org_secret ss se c n))
       else None
   | [c, e, n] \<Rightarrow>
       if f = ''put_application'' then Some (validated (read_application_body body) (put_application y sv c e n))
       else if f = ''put_environment_variable''
       then Some (validated (read_value body) (put_environment_variable y sv c e n))
       else if f = ''put_environment_secret'' then Some (validated (read_value body) (put_environment_secret ss se c e n))
       else None
   | [c, e, a, n] \<Rightarrow>
       if f = ''put_application_variable''
       then Some (validated (read_value body) (put_application_variable y sv c e a n))
       else if f = ''put_application_secret''
       then Some (validated (read_value body) (put_application_secret ss se c e a n))
       else None
   | _ \<Rightarrow> None)"

definition api_delete_route ::
    "settings \<Rightarrow> yaml \<Rightarrow> service \<Rightarrow> secrets_store \<Rightarrow> string \<Rightarrow> string list \<Rightarrow> dict M option" where
  "api_delete_route se y sv ss f args = (case args of
     [c] \<Rightarrow> if f = ''delete_client'' then Some (delete_client sv c) else None
   | [c, n] \<Rightarrow>
       if f = ''delete_domain'' then Some (delete_domain sv c n)
       else if f = ''delete_database_server'' then Some (delete_database_server sv c n)
       else if f = ''delete_database'' then Some (delete_database sv c n)
       else if f = ''delete_environment'' then Some (delete_environment sv c n)
       else if f = ''delete_gitrepository'' then Some (delete_gitrepository sv c n)
       else if f = ''delete_snapshot'' then Some (delete_snapshot sv c n)
       else if f = ''delete_client_variable'' then Some (delete_client_variable y sv c n)
       else if f = ''delete_client_secret'' then Some (delete_client_secret ss se c n)
       else if f = ''delete_org_secret'' then Some (delete_org_secret ss se c n)
       else None
   | [c, e, n] \<Rightarrow>
       if f = ''delete_application'' then Some (delete_application_manifest sv c e n)
       else if f = ''delete_environment_variable'' then Some (delete_environment_variable y sv c e n)
       else if f = ''delete_environment_secret'' then Some (delete_environment_secret ss se c e n)
       else None
   | [c, e, a, n] \<Rightarrow>
       if f = ''delete_application_variable'' then Some (delete_application_variable y sv c e a n)
       else if f = ''delete_application_secret'' then Some (delete_application_secret ss se c e a n)
       else None
   | _ \<Rightarrow> None)"

text \<open>A writing request as the application answers it, behind the token check of every router. None is an
  answer this composition does not give: no endpoint fits (the framework's 404 or 405), or the endpoint
  reads, or it is one of the access endpoints, which \<open>Identity\<close> models on the Authentik client.\<close>

definition api_serve ::
    "settings \<Rightarrow> yaml \<Rightarrow> service \<Rightarrow> secrets_store \<Rightarrow> string \<Rightarrow> string \<Rightarrow> string \<Rightarrow> dict \<Rightarrow> dict M option" where
  "api_serve se y sv ss authorization meth path body =
     (case answered_by meth path of
        [] \<Rightarrow> None
      | (f, args) # _ \<Rightarrow> map_option (serve se authorization)
          (if meth = ''PUT'' then api_put se y sv ss f args body
           else if meth = ''DELETE'' then api_delete_route se y sv ss f args
           else None))"

section \<open>Requests of the portal\<close>

definition plain_name :: "string \<Rightarrow> bool" where
  "plain_name s \<longleftrightarrow> s \<noteq> [] \<and> CHR ''/'' \<notin> set s \<and> CHR ''?'' \<notin> set s"

lemma split_on_name: "CHR ''/'' \<notin> set s \<Longrightarrow> split_on CHR ''/'' s = [s]"
  by (induction s) auto

lemma split_on_segment:
  "CHR ''/'' \<notin> set s \<Longrightarrow> split_on CHR ''/'' (s @ CHR ''/'' # rest) = s # split_on CHR ''/'' rest"
  by (induction s) auto

lemma before_name: "CHR ''?'' \<notin> set s \<Longrightarrow> before CHR ''?'' (s @ rest) = s @ before CHR ''?'' rest"
  by (induction s) (auto simp: before_def)

lemma before_name_end: "CHR ''?'' \<notin> set s \<Longrightarrow> before CHR ''?'' s = s"
  by (induction s) (auto simp: before_def)

lemma before_cons: "before CHR ''?'' (c # s) = (if c = CHR ''?'' then [] else c # before CHR ''?'' s)"
  by (simp add: before_def)

lemmas segment_simps = path_segments_def split_on_name split_on_segment before_name before_name_end before_cons

text \<open>The writing routes, by method.\<close>

definition routed :: "string \<Rightarrow> string list \<Rightarrow> (string \<times> string list) list" where
  "routed meth ss = List.map_filter (\<lambda>(t, f). map_option (\<lambda>args. (f, args)) (fits t ss))
     (map snd (filter (\<lambda>r. fst r = meth) api_routes))"

lemma answered_by_routed: "answered_by meth path = routed meth (path_segments path)"
proof -
  have "List.map_filter (\<lambda>(m, t, f). if m = meth then map_option (\<lambda>args. (f, args)) (fits t ss) else None) rs =
      List.map_filter (\<lambda>(t, f). map_option (\<lambda>args. (f, args)) (fits t ss)) (map snd (filter (\<lambda>r. fst r = meth) rs))"
    for ss rs
    by (induction rs) (auto simp: List.map_filter_simps split: option.split if_splits)
  then show ?thesis unfolding answered_by_def routed_def by blast
qed

lemmas route_tables = api_routes_def under_def clients_router_def domains_router_def databaseservers_router_def
  databases_router_def environments_router_def applications_router_def gitrepositories_router_def
  repo_router_def snapshots_router_def scoped_router_def scoped_client_routes_def
  scoped_environment_routes_def scoped_application_routes_def scoped_organization_routes_def
  images_router_def identity_router_def access_router_def

abbreviation at_client :: "seg list \<Rightarrow> seg list" where
  "at_client t \<equiv> Lit [] # Lit ''v1'' # Lit ''clients'' # Par # t"

abbreviation at_environment :: "seg list \<Rightarrow> seg list" where
  "at_environment t \<equiv> at_client (Lit ''environments'' # Par # t)"

abbreviation at_application :: "seg list \<Rightarrow> seg list" where
  "at_application t \<equiv> at_environment (Lit ''applications'' # Par # t)"

lemma put_table:
  "map snd (filter (\<lambda>r. fst r = ''PUT'') api_routes) =
    [(at_client [], ''put_client''), (at_client [Lit ''domains'', Par], ''put_domain''),
     (at_client [Lit ''databaseservers'', Par], ''put_database_server''),
     (at_client [Lit ''databases'', Par], ''put_database''),
     (at_client [Lit ''environments'', Par], ''put_environment''),
     (at_environment [Lit ''applications'', Par], ''put_application''),
     (at_client [Lit ''gitrepositories'', Par], ''put_gitrepository''),
     (at_client [Lit ''snapshots'', Par], ''put_snapshot''),
     (at_client [Lit ''variables'', Par], ''put_client_variable''),
     (at_client [Lit ''secrets'', Par], ''put_client_secret''),
     (at_environment [Lit ''variables'', Par], ''put_environment_variable''),
     (at_environment [Lit ''secrets'', Par], ''put_environment_secret''),
     (at_application [Lit ''variables'', Par], ''put_application_variable''),
     (at_application [Lit ''secrets'', Par], ''put_application_secret''),
     ([Lit [], Lit ''v1'', Lit ''organizations'', Par, Lit ''secrets'', Par], ''put_org_secret''),
     (at_application [Lit ''access'', Par], ''grant_access'')]"
  by (simp add: route_tables)

lemma delete_table:
  "map snd (filter (\<lambda>r. fst r = ''DELETE'') api_routes) =
    [(at_client [], ''delete_client''), (at_client [Lit ''domains'', Par], ''delete_domain''),
     (at_client [Lit ''databaseservers'', Par], ''delete_database_server''),
     (at_client [Lit ''databases'', Par], ''delete_database''),
     (at_client [Lit ''environments'', Par], ''delete_environment''),
     (at_environment [Lit ''applications'', Par], ''delete_application''),
     (at_client [Lit ''gitrepositories'', Par], ''delete_gitrepository''),
     (at_client [Lit ''snapshots'', Par], ''delete_snapshot''),
     (at_client [Lit ''variables'', Par], ''delete_client_variable''),
     (at_client [Lit ''secrets'', Par], ''delete_client_secret''),
     (at_environment [Lit ''variables'', Par], ''delete_environment_variable''),
     (at_environment [Lit ''secrets'', Par], ''delete_environment_secret''),
     (at_application [Lit ''variables'', Par], ''delete_application_variable''),
     (at_application [Lit ''secrets'', Par], ''delete_application_secret''),
     ([Lit [], Lit ''v1'', Lit ''organizations'', Par, Lit ''secrets'', Par], ''delete_org_secret''),
     (at_application [Lit ''access'', Par], ''revoke_access'')]"
  by (simp add: route_tables)

lemma resource_routes:
  assumes "c \<noteq> []" and "n \<noteq> []"
  shows "routed ''PUT'' [[], ''v1'', ''clients'', c] = [(''put_client'', [c])]"
    and "routed ''DELETE'' [[], ''v1'', ''clients'', c] = [(''delete_client'', [c])]"
    and "routed ''PUT'' [[], ''v1'', ''clients'', c, ''domains'', n] = [(''put_domain'', [c, n])]"
    and "routed ''DELETE'' [[], ''v1'', ''clients'', c, ''domains'', n] = [(''delete_domain'', [c, n])]"
    and "routed ''PUT'' [[], ''v1'', ''clients'', c, ''databaseservers'', n] = [(''put_database_server'', [c, n])]"
    and "routed ''DELETE'' [[], ''v1'', ''clients'', c, ''databaseservers'', n] = [(''delete_database_server'', [c, n])]"
    and "routed ''PUT'' [[], ''v1'', ''clients'', c, ''environments'', n] = [(''put_environment'', [c, n])]"
    and "routed ''DELETE'' [[], ''v1'', ''clients'', c, ''environments'', n] = [(''delete_environment'', [c, n])]"
    and "routed ''PUT'' [[], ''v1'', ''clients'', c, ''gitrepositories'', n] = [(''put_gitrepository'', [c, n])]"
    and "routed ''DELETE'' [[], ''v1'', ''clients'', c, ''gitrepositories'', n] = [(''delete_gitrepository'', [c, n])]"
    and "routed ''PUT'' [[], ''v1'', ''clients'', c, ''snapshots'', n] = [(''put_snapshot'', [c, n])]"
    and "routed ''DELETE'' [[], ''v1'', ''clients'', c, ''snapshots'', n] = [(''delete_snapshot'', [c, n])]"
  unfolding routed_def put_table delete_table using assms by (simp_all add: List.map_filter_simps)

lemma application_routes:
  assumes "c \<noteq> []" and "e \<noteq> []" and "n \<noteq> []"
  shows "routed ''PUT'' [[], ''v1'', ''clients'', c, ''environments'', e, ''applications'', n] =
      [(''put_application'', [c, e, n])]"
    and "routed ''DELETE'' [[], ''v1'', ''clients'', c, ''environments'', e, ''applications'', n] =
      [(''delete_application'', [c, e, n])]"
  unfolding routed_def put_table delete_table using assms by (simp_all add: List.map_filter_simps)

lemma value_routes:
  assumes "c \<noteq> []" and "e \<noteq> []" and "a \<noteq> []" and "n \<noteq> []"
  shows "routed ''PUT'' [[], ''v1'', ''clients'', c, ''variables'', n] = [(''put_client_variable'', [c, n])]"
    and "routed ''DELETE'' [[], ''v1'', ''clients'', c, ''variables'', n] = [(''delete_client_variable'', [c, n])]"
    and "routed ''PUT'' [[], ''v1'', ''clients'', c, ''secrets'', n] = [(''put_client_secret'', [c, n])]"
    and "routed ''DELETE'' [[], ''v1'', ''clients'', c, ''secrets'', n] = [(''delete_client_secret'', [c, n])]"
    and "routed ''PUT'' [[], ''v1'', ''clients'', c, ''environments'', e, ''variables'', n] =
      [(''put_environment_variable'', [c, e, n])]"
    and "routed ''DELETE'' [[], ''v1'', ''clients'', c, ''environments'', e, ''variables'', n] =
      [(''delete_environment_variable'', [c, e, n])]"
    and "routed ''PUT'' [[], ''v1'', ''clients'', c, ''environments'', e, ''secrets'', n] =
      [(''put_environment_secret'', [c, e, n])]"
    and "routed ''DELETE'' [[], ''v1'', ''clients'', c, ''environments'', e, ''secrets'', n] =
      [(''delete_environment_secret'', [c, e, n])]"
    and "routed ''PUT'' [[], ''v1'', ''clients'', c, ''environments'', e, ''applications'', a, ''variables'', n] =
      [(''put_application_variable'', [c, e, a, n])]"
    and "routed ''DELETE'' [[], ''v1'', ''clients'', c, ''environments'', e, ''applications'', a, ''variables'', n] =
      [(''delete_application_variable'', [c, e, a, n])]"
    and "routed ''PUT'' [[], ''v1'', ''clients'', c, ''environments'', e, ''applications'', a, ''secrets'', n] =
      [(''put_application_secret'', [c, e, a, n])]"
    and "routed ''DELETE'' [[], ''v1'', ''clients'', c, ''environments'', e, ''applications'', a, ''secrets'', n] =
      [(''delete_application_secret'', [c, e, a, n])]"
  unfolding routed_def put_table delete_table using assms by (simp_all add: List.map_filter_simps)

section \<open>A push is a commit of the same spec\<close>

text \<open>A label as Kubernetes has it: what the portal's slugs are.\<close>

definition k8s_label :: "string \<Rightarrow> bool" where
  "k8s_label s \<longleftrightarrow> s \<noteq> [] \<and> dns_label s \<and> length s \<le> 63"

lemma label_plain: "k8s_label s \<Longrightarrow> plain_name s"
proof -
  assume s: "k8s_label s"
  have labels: "CHR ''/'' \<notin> set (CHR ''-'' # label_ends)" "CHR ''?'' \<notin> set (CHR ''-'' # label_ends)" by code_simp+
  from s have "set s \<subseteq> set (CHR ''-'' # label_ends)" by (auto simp: k8s_label_def dns_label_def)
  with s labels show "plain_name s" unfolding plain_name_def k8s_label_def by blast
qed

lemma label_valid: "k8s_label s \<Longrightarrow> validate_name s what = Inr s"
  by (simp add: k8s_label_def validate_name_def dns1123_match_def)

lemma validated_commit:
  "map_option f r = Some spec \<Longrightarrow> validated r (\<lambda>b. commit y sv c p n (f b)) = commit y sv c p n spec"
  by (auto simp: validated_def)

lemma put_is_commit:
  "put_client y sv c = (\<lambda>b. commit y sv c ''clients'' c (client_spec b))"
  "put_domain y sv c n = (\<lambda>b. commit y sv c ''domains'' n (domain_spec b))"
  "put_environment y sv c n = (\<lambda>b. commit y sv c ''environments'' n (environment_spec c b))"
  "put_gitrepository y sv c n = (\<lambda>b. commit y sv c ''gitrepositories'' n (gitrepository_spec b))"
  "put_snapshot y sv c n = (\<lambda>b. commit y sv c ''snapshots'' n (snapshot_spec b))"
  "put_database_server y sv c n = (\<lambda>b. commit y sv c ''databaseservers'' n (databaseserver_spec b))"
  "put_application y sv c e n = (\<lambda>b. commit y sv c ''applications'' n (api_application_spec e b))"
  by (auto simp: put_client_def put_domain_def put_environment_def put_gitrepository_def put_snapshot_def
      put_database_server_def put_application_def)

lemma delete_is_remove:
  "delete_client sv c = remove_resource sv c ''clients'' c"
  "delete_domain sv c n = remove_resource sv c ''domains'' n"
  "delete_environment sv c n = remove_resource sv c ''environments'' n"
  "delete_gitrepository sv c n = remove_resource sv c ''gitrepositories'' n"
  "delete_snapshot sv c n = remove_resource sv c ''snapshots'' n"
  "delete_database_server sv c n = remove_resource sv c ''databaseservers'' n"
  "delete_application_manifest sv c e n = remove_resource sv c ''applications'' n"
  by (simp_all add: delete_client_def delete_domain_def delete_environment_def delete_gitrepository_def
      delete_snapshot_def delete_database_server_def delete_application_manifest_def)

text \<open>The API as a server of one method and path.\<close>

lemma served_put:
  assumes "routed ''PUT'' (path_segments path) = [(f, args)]"
  shows "api_serve se y sv ss auth ''PUT'' path body =
    map_option (serve se auth) (api_put se y sv ss f args body)"
  using assms by (simp add: api_serve_def answered_by_routed)

lemma served_delete:
  assumes "routed ''DELETE'' (path_segments path) = [(f, args)]"
  shows "api_serve se y sv ss auth ''DELETE'' path body =
    map_option (serve se auth) (api_delete_route se y sv ss f args)"
  using assms by (simp add: api_serve_def answered_by_routed)

lemma client_path: "plain_name c \<Longrightarrow> path_segments (''/v1/clients/'' @ c) = [[], ''v1'', ''clients'', c]"
  by (simp add: plain_name_def segment_simps)

lemma resource_path:
  assumes "plain_name c" and "plain_name n" and "CHR ''/'' \<notin> set p" and "CHR ''?'' \<notin> set p"
  shows "path_segments (default_api_path c p n) = [[], ''v1'', ''clients'', c, p, n]"
  using assms by (simp add: plain_name_def default_api_path_def segment_simps)

lemma application_path:
  assumes "plain_name (cl_k8s_name (en_client (ap_environment a)))" and "plain_name (en_k8s_name (ap_environment a))"
    and "plain_name (ap_k8s_name a)"
  shows "path_segments (application_api_path a) =
    [[], ''v1'', ''clients'', cl_k8s_name (en_client (ap_environment a)), ''environments'',
     en_k8s_name (ap_environment a), ''applications'', ap_k8s_name a]"
  using assms by (simp add: plain_name_def application_api_path_def segment_simps)

text \<open>Writing the record of \<open>m\<close> is committing \<open>spec\<close> as its resource, and removing it is removing that
  resource: of the same client, of the same kind, under the same name.\<close>

definition commits_as ::
    "settings \<Rightarrow> yaml \<Rightarrow> service \<Rightarrow> secrets_store \<Rightarrow> string \<Rightarrow> synced \<Rightarrow> dict \<Rightarrow> bool" where
  "commits_as se y sv ss auth m spec \<longleftrightarrow>
     api_serve se y sv ss auth ''PUT'' (sy_api_path m) (sy_api_body m) =
       Some (serve se auth (commit y sv (sy_client_slug m) (sy_plural m) (sy_k8s_name m) spec)) \<and>
     (\<forall>body. api_serve se y sv ss auth ''DELETE'' (sy_api_path m) body =
       Some (serve se auth (remove_resource sv (sy_client_slug m) (sy_plural m) (sy_k8s_name m))))"

lemma commits_as_route:
  assumes "routed ''PUT'' (path_segments (sy_api_path m)) = [(f, args)]"
    and "routed ''DELETE'' (path_segments (sy_api_path m)) = [(g, args')]"
    and "api_put se y sv ss f args (sy_api_body m) =
      Some (commit y sv (sy_client_slug m) (sy_plural m) (sy_k8s_name m) spec)"
    and "api_delete_route se y sv ss g args' =
      Some (remove_resource sv (sy_client_slug m) (sy_plural m) (sy_k8s_name m))"
  shows "commits_as se y sv ss auth m spec"
  using served_put [OF assms(1)] served_delete [OF assms(2)] assms(3,4) by (simp add: commits_as_def)

lemma client_commits:
  assumes "plain_name (cl_k8s_name c)" and "linked og_k8s_name (cl_organization c)"
  shows "commits_as se y sv ss auth (client_synced c) (sy_spec (client_synced c))"
proof (rule commits_as_route)
  have ne: "cl_k8s_name c \<noteq> []" using assms(1) by (simp add: plain_name_def)
  show "routed ''PUT'' (path_segments (sy_api_path (client_synced c))) = [(''put_client'', [cl_k8s_name c])]"
    "routed ''DELETE'' (path_segments (sy_api_path (client_synced c))) = [(''delete_client'', [cl_k8s_name c])]"
    using resource_routes [OF ne ne] client_path [OF assms(1)] by (simp_all add: client_synced_def)
qed (simp_all add: api_put_def api_delete_route_def put_is_commit delete_is_remove client_synced_def
    validated_commit [OF client_backends_agree [OF assms(2)]])

lemma environment_commits:
  assumes "plain_name (cl_k8s_name (en_client e))" and "plain_name (en_k8s_name e)"
  shows "commits_as se y sv ss auth (environment_synced e) (sy_spec (environment_synced e))"
proof (rule commits_as_route)
  have ne: "cl_k8s_name (en_client e) \<noteq> []" "en_k8s_name e \<noteq> []" using assms by (simp_all add: plain_name_def)
  show "routed ''PUT'' (path_segments (sy_api_path (environment_synced e))) =
      [(''put_environment'', [cl_k8s_name (en_client e), en_k8s_name e])]"
    "routed ''DELETE'' (path_segments (sy_api_path (environment_synced e))) =
      [(''delete_environment'', [cl_k8s_name (en_client e), en_k8s_name e])]"
    using resource_routes [OF ne] resource_path [OF assms, of "''environments''"]
    by (simp_all add: environment_synced_def Let_def)
qed (simp_all add: api_put_def api_delete_route_def put_is_commit delete_is_remove environment_synced_def Let_def
    validated_commit [OF environment_backends_agree])

lemma domain_commits:
  assumes "plain_name (cl_k8s_name (dm_client d))" and "plain_name (dm_k8s_name d)"
  shows "commits_as se y sv ss auth (domain_synced d) (sy_spec (domain_synced d))"
proof (rule commits_as_route)
  have ne: "cl_k8s_name (dm_client d) \<noteq> []" "dm_k8s_name d \<noteq> []" using assms by (simp_all add: plain_name_def)
  show "routed ''PUT'' (path_segments (sy_api_path (domain_synced d))) =
      [(''put_domain'', [cl_k8s_name (dm_client d), dm_k8s_name d])]"
    "routed ''DELETE'' (path_segments (sy_api_path (domain_synced d))) =
      [(''delete_domain'', [cl_k8s_name (dm_client d), dm_k8s_name d])]"
    using resource_routes [OF ne] resource_path [OF assms, of "''domains''"]
    by (simp_all add: domain_synced_def Let_def)
qed (simp_all add: api_put_def api_delete_route_def put_is_commit delete_is_remove domain_synced_def Let_def
    validated_commit [OF domain_backends_agree])

lemma repository_commits:
  assumes "plain_name (slug_of_client (gr_client r))" and "plain_name (gr_k8s_name r)"
    and "linked cl_k8s_name (gr_preview_client r)"
  shows "commits_as se y sv ss auth (repository_synced r) (sy_spec (repository_synced r))"
proof (rule commits_as_route)
  have ne: "slug_of_client (gr_client r) \<noteq> []" "gr_k8s_name r \<noteq> []" using assms by (simp_all add: plain_name_def)
  show "routed ''PUT'' (path_segments (sy_api_path (repository_synced r))) =
      [(''put_gitrepository'', [slug_of_client (gr_client r), gr_k8s_name r])]"
    "routed ''DELETE'' (path_segments (sy_api_path (repository_synced r))) =
      [(''delete_gitrepository'', [slug_of_client (gr_client r), gr_k8s_name r])]"
    using resource_routes [OF ne] resource_path [OF assms(1,2), of "''gitrepositories''"]
    by (simp_all add: repository_synced_def Let_def)
qed (simp_all add: api_put_def api_delete_route_def put_is_commit delete_is_remove repository_synced_def Let_def
    validated_commit [OF repository_backends_agree [OF assms(3)]])

lemma snapshot_commits:
  assumes "plain_name (cl_k8s_name (en_client (ap_environment (sn_application s))))" and "plain_name (sn_k8s_name s)"
  shows "commits_as se y sv ss auth (snapshot_synced s) (sy_spec (snapshot_synced s))"
proof (rule commits_as_route)
  have ne: "cl_k8s_name (en_client (ap_environment (sn_application s))) \<noteq> []" "sn_k8s_name s \<noteq> []"
    using assms by (simp_all add: plain_name_def)
  show "routed ''PUT'' (path_segments (sy_api_path (snapshot_synced s))) =
      [(''put_snapshot'', [cl_k8s_name (en_client (ap_environment (sn_application s))), sn_k8s_name s])]"
    "routed ''DELETE'' (path_segments (sy_api_path (snapshot_synced s))) =
      [(''delete_snapshot'', [cl_k8s_name (en_client (ap_environment (sn_application s))), sn_k8s_name s])]"
    using resource_routes [OF ne] resource_path [OF assms, of "''snapshots''"]
    by (simp_all add: snapshot_synced_def Let_def)
qed (simp_all add: api_put_def api_delete_route_def put_is_commit delete_is_remove snapshot_synced_def Let_def
    validated_commit [OF snapshot_backends_agree])

lemma server_commits:
  assumes "plain_name (slug_of_client (sr_client v))" and "plain_name (sr_k8s_name v)" and "server_complete v"
  shows "commits_as se y sv ss auth (server_synced v) (databaseserver_spec (server_read v))"
proof (rule commits_as_route)
  have ne: "slug_of_client (sr_client v) \<noteq> []" "sr_k8s_name v \<noteq> []" using assms by (simp_all add: plain_name_def)
  have read: "read_database_server_body (server_api_body v) = Some (server_read v)"
    using assms(3) by (auto simp: read_server server_complete_def)
  show "routed ''PUT'' (path_segments (sy_api_path (server_synced v))) =
      [(''put_database_server'', [slug_of_client (sr_client v), sr_k8s_name v])]"
    "routed ''DELETE'' (path_segments (sy_api_path (server_synced v))) =
      [(''delete_database_server'', [slug_of_client (sr_client v), sr_k8s_name v])]"
    using resource_routes [OF ne] resource_path [OF assms(1,2), of "''databaseservers''"]
    by (simp_all add: server_synced_def Let_def)
  show "api_put se y sv ss ''put_database_server'' [slug_of_client (sr_client v), sr_k8s_name v] (sy_api_body (server_synced v)) =
      Some (commit y sv (sy_client_slug (server_synced v)) (sy_plural (server_synced v)) (sy_k8s_name (server_synced v))
        (databaseserver_spec (server_read v)))"
    by (simp add: api_put_def put_is_commit server_synced_def Let_def read validated_def)
qed (simp add: api_delete_route_def delete_is_remove server_synced_def Let_def)

lemma application_commits:
  assumes "plain_name (cl_k8s_name (en_client (ap_environment a)))" and "plain_name (en_k8s_name (ap_environment a))"
    and "plain_name (ap_k8s_name a)" and "\<not> refused_by_api loads yl a"
  shows "commits_as se y sv ss auth (application_synced loads yl a)
    (api_application_spec (en_k8s_name (ap_environment a)) (application_read loads yl a))"
proof (rule commits_as_route)
  let ?c = "cl_k8s_name (en_client (ap_environment a))" and ?e = "en_k8s_name (ap_environment a)"
  have ne: "?c \<noteq> []" "?e \<noteq> []" "ap_k8s_name a \<noteq> []" using assms by (simp_all add: plain_name_def)
  show "routed ''PUT'' (path_segments (sy_api_path (application_synced loads yl a))) =
      [(''put_application'', [?c, ?e, ap_k8s_name a])]"
    "routed ''DELETE'' (path_segments (sy_api_path (application_synced loads yl a))) =
      [(''delete_application'', [?c, ?e, ap_k8s_name a])]"
    using application_routes [OF ne] application_path [OF assms(1-3)] by (simp_all add: application_synced_def)
qed (simp_all add: api_put_def api_delete_route_def put_is_commit delete_is_remove application_synced_def
    read_application assms(4) validated_def)

text \<open>C14. What the portal pushes is what the API commits. Sent to the API, the write of a portal record
  reaches, behind the token check, exactly the endpoint that commits to the same client's repository, as the
  same kind and name, the spec the portal would have applied to the cluster itself (for an application with
  its display name added, for a server up to defaults that are written out); and the removal of the record
  removes that resource. So the two write backends of the portal state one intent.\<close>

theorem portal_push_is_commit:
  assumes labels: "k8s_label (sy_client_slug m)" "k8s_label (sy_k8s_name m)"
    and m: "m \<in> {client_synced c, environment_synced e, domain_synced d, repository_synced r, snapshot_synced n,
                 server_synced v, application_synced loads yl a}"
    and "linked og_k8s_name (cl_organization c)" and "linked cl_k8s_name (gr_preview_client r)"
    and v: "server_complete v" "linked en_k8s_name (sr_environment v)"
    and a: "k8s_label (en_k8s_name (ap_environment a))" "\<not> refused_by_api loads yl a" "ap_name a \<noteq> []"
      "linked dm_k8s_name (ap_domain a)" "linked gr_k8s_name (ap_repository a)"
  shows "\<exists>spec. commits_as se y sv ss auth m spec \<and>
    (if m = application_synced loads yl a
     then spec = take 2 (sy_spec m) @ [(''displayName'', JStr (ap_name a))] @ drop 2 (sy_spec m)
     else same_json (JObj spec) (JObj (sy_spec m)))"
proof -
  have plain: "plain_name (sy_client_slug m)" "plain_name (sy_k8s_name m)" "plain_name (en_k8s_name (ap_environment a))"
    using labels a(1) by (simp_all add: label_plain)
  show ?thesis
  proof (cases "m = application_synced loads yl a")
    case True
    then have "commits_as se y sv ss auth m
        (api_application_spec (en_k8s_name (ap_environment a)) (application_read loads yl a))"
      using application_commits [OF _ plain(3) _ a(2)] plain(1,2) by (simp add: application_synced_def)
    with True show ?thesis
      using application_backends_agree [OF a(2-5)] by (auto simp: application_synced_def)
  next
    case False
    have same: "same_json j j" for j by (simp add: same_json_def)
    from False m consider "m = client_synced c" | "m = environment_synced e" | "m = domain_synced d"
      | "m = repository_synced r" | "m = snapshot_synced n" | "m = server_synced v" by auto
    then have "\<exists>spec. commits_as se y sv ss auth m spec \<and> same_json (JObj spec) (JObj (sy_spec m))"
    proof cases
      case 1
      then have "commits_as se y sv ss auth m (sy_spec m)"
        using client_commits [OF _ assms(4)] plain by (simp add: client_synced_def)
      then show ?thesis using same by blast
    next
      case 2
      then have "commits_as se y sv ss auth m (sy_spec m)"
        using environment_commits plain by (simp add: environment_synced_def Let_def)
      then show ?thesis using same by blast
    next
      case 3
      then have "commits_as se y sv ss auth m (sy_spec m)"
        using domain_commits plain by (simp add: domain_synced_def Let_def)
      then show ?thesis using same by blast
    next
      case 4
      then have "commits_as se y sv ss auth m (sy_spec m)"
        using repository_commits [OF _ _ assms(5)] plain by (simp add: repository_synced_def Let_def)
      then show ?thesis using same by blast
    next
      case 5
      then have "commits_as se y sv ss auth m (sy_spec m)"
        using snapshot_commits plain by (simp add: snapshot_synced_def Let_def)
      then show ?thesis using same by blast
    next
      case 6
      then have "commits_as se y sv ss auth m (databaseserver_spec (server_read v))"
        using server_commits [OF _ _ v(1)] plain by (simp add: server_synced_def Let_def)
      then show ?thesis using server_backends_agree [OF v] 6 by (auto simp: server_synced_def Let_def)
    qed
    with False show ?thesis by simp
  qed
qed

lemma portal_push_is_commit_witness:
  "\<forall>se y sv ss auth. api_serve se y sv ss auth ''PUT''
      ''/v1/clients/acme/environments/production/applications/erp''
      (application_api_body (\<lambda>t. None) numbered_yaml acme_erp) =
    Some (serve se auth (commit y sv ''acme'' ''applications'' ''erp''
      [(''environmentRef'', ref_to ''production''), (''type'', JStr ''odoo''),
       (''displayName'', JStr ''ERP''), (''replicas'', JInt 1),
       (''ingress'', JObj [(''host'', JStr ''erp.acme.com'')]), (''domainRef'', ref_to ''acme-com''),
       (''source'', JObj [(''repositoryRef'', ref_to ''erp''), (''ref'', JStr ''main'')])]))"
proof -
  let ?m = "application_synced (\<lambda>t. None) numbered_yaml acme_erp"
  have labels: "k8s_label ''acme''" "k8s_label ''erp''" "k8s_label ''production''" by code_simp+
  have m: "sy_client_slug ?m = ''acme''" "sy_k8s_name ?m = ''erp''" "sy_plural ?m = ''applications''"
    "sy_api_path ?m = ''/v1/clients/acme/environments/production/applications/erp''"
    "sy_api_body ?m = application_api_body (\<lambda>t. None) numbered_yaml acme_erp"
    by (simp_all add: application_synced_def application_api_path_def estate_defs)
  have "lower (strip ''Erp'' @ ''.'' @ strip ''Acme.com'') = ''erp.acme.com''" by code_simp
  then have host: "composed_host acme_erp = ''erp.acme.com''"
    by (simp add: composed_host_def estate_defs)
  have v: "parse_values (\<lambda>t. None) numbered_yaml (ap_values acme_erp) = JObj []"
    by (simp add: parse_values_def acme_erp_def)
  have "sy_spec ?m = application_k8s_spec (\<lambda>t. None) numbered_yaml acme_erp" by (simp add: application_synced_def)
  also have "\<dots> = [(''environmentRef'', ref_to ''production''), (''type'', JStr ''odoo''), (''replicas'', JInt 1),
       (''ingress'', JObj [(''host'', JStr ''erp.acme.com'')]), (''domainRef'', ref_to ''acme-com''),
       (''source'', JObj [(''repositoryRef'', ref_to ''erp''), (''ref'', JStr ''main'')])]"
    unfolding application_k8s_spec_def host v
    by (simp add: estate_defs unless_no_entries_def opt_def ref_of_def unless_empty_def)
  finally have spec: "sy_spec ?m = \<dots>" .
  have "\<not> refused_by_api (\<lambda>t. None) numbered_yaml acme_erp"
    unfolding refused_by_api_def v by (simp add: acme_erp_def)
  moreover have "linked og_k8s_name (cl_organization acme_inc)" "linked cl_k8s_name (gr_preview_client acme_repository)"
    "server_complete acme_server" "linked en_k8s_name (sr_environment acme_server)"
    "k8s_label (en_k8s_name (ap_environment acme_erp))"
    "ap_name acme_erp \<noteq> []" "linked dm_k8s_name (ap_domain acme_erp)" "linked gr_k8s_name (ap_repository acme_erp)"
    using labels by (simp_all add: estate_defs linked_def server_complete_def)
  ultimately have "commits_as se y sv ss auth ?m
      (take 2 (sy_spec ?m) @ [(''displayName'', JStr (ap_name acme_erp))] @ drop 2 (sy_spec ?m))" for se y sv ss auth
    using portal_push_is_commit [of ?m acme_inc _ _ acme_repository _ acme_server "\<lambda>t. None" numbered_yaml acme_erp
        se y sv ss auth] labels m(1,2) by auto
  then show ?thesis unfolding commits_as_def m spec by (simp add: acme_erp_def)
qed

section \<open>A value reaches its scope\<close>

text \<open>The names of a row's owner, outermost first: the client, its environment, its application.\<close>

definition owner_names :: "scoped_config \<Rightarrow> string list" where
  "owner_names r = (case sf_application r of
     Some a \<Rightarrow> [cl_k8s_name (en_client (ap_environment a)), en_k8s_name (ap_environment a), ap_k8s_name a]
   | None \<Rightarrow> (case sf_environment r of
       Some e \<Rightarrow> [cl_k8s_name (en_client e), en_k8s_name e]
     | None \<Rightarrow> (case sf_client r of Some c \<Rightarrow> [cl_k8s_name c] | None \<Rightarrow> [])))"

fun owner_scope :: "string list \<Rightarrow> string \<times> string \<times> string" where
  "owner_scope [c, e, a] = (c, e, a)"
| "owner_scope [c, e] = (c, e, [])"
| "owner_scope [c] = (c, [], [])"
| "owner_scope _ = ([], [], [])"

lemma env_name_plain: "env_name s \<Longrightarrow> plain_name s"
proof -
  assume s: "env_name s"
  have chars: "CHR ''/'' \<notin> set env_name_chars" "CHR ''?'' \<notin> set env_name_chars" by code_simp+
  from s have "s \<noteq> []" "set s \<subseteq> set env_name_chars" by (simp_all add: env_name_def)
  with chars show ?thesis unfolding plain_name_def by blast
qed

lemma value_segments:
  assumes "list_all k8s_label (owner_names r)" "owner_names r \<noteq> []" "env_name (row_name (sf_row r))"
  shows "path_segments (value_path r) =
    (case owner_scope (owner_names r) of (c, e, a) \<Rightarrow> [[], ''v1'', ''clients'', c] @
      (if e = [] then [] else [''environments'', e]) @ (if a = [] then [] else [''applications'', a]) @
      [if row_secret (sf_row r) then ''secrets'' else ''variables'', row_name (sf_row r)])"
proof -
  have "\<forall>s \<in> set (row_name (sf_row r) # owner_names r). plain_name s"
    using assms(1,3) label_plain env_name_plain by (auto simp: list_all_iff)
  then show ?thesis using assms(2)
    by (cases "sf_application r"; cases "sf_environment r"; cases "sf_client r")
       (auto simp: owner_names_def value_path_def api_base_def environment_base_def plain_name_def segment_simps)
qed

lemma label_names: "list_all k8s_label (owner_names r) \<Longrightarrow> s \<in> set (owner_names r) \<Longrightarrow> s \<noteq> []"
  by (auto simp: list_all_iff k8s_label_def)

lemma bind_valid: "k8s_label s \<Longrightarrow> thenM (of_result (validate_name s what)) m = m"
  by (simp add: label_valid of_result_def thenM_def bindM_def ret_def)

lemmas scope_endpoints = api_put_def api_delete_route_def put_client_variable_def put_client_secret_def
  delete_client_variable_def delete_client_secret_def put_environment_variable_def put_environment_secret_def
  delete_environment_variable_def delete_environment_secret_def put_application_variable_def
  put_application_secret_def delete_application_variable_def delete_application_secret_def
  validated_def read_value_def req_str_def bind_valid

text \<open>C18. A value set in the portal lands in the scope it was set on, and nowhere else. For a row owned by a
  client, an environment or an application, the request the portal sends when the row is saved is answered
  by the endpoint that sets the variable of that name on the manifest of exactly that owner, or, for a
  secret, the key of that name at that owner's secret path; and the request of a removed row unsets the same.\<close>

theorem portal_value_reaches_scope:
  assumes "list_all k8s_label (owner_names r)" and "owner_names r \<noteq> []" and "env_name (row_name (sf_row r))"
  shows "api_serve se y sv ss auth ''PUT'' (value_path r) [(''value'', JStr v)] =
      Some (serve se auth (case owner_scope (owner_names r) of (c, e, a) \<Rightarrow>
        if row_secret (sf_row r) then put_secret ss (secret_path se c e a) (row_name (sf_row r)) v
        else put_variable y sv c (scope_of c e a) (row_name (sf_row r)) v)) \<and>
    api_serve se y sv ss auth ''DELETE'' (value_path r) body =
      Some (serve se auth (case owner_scope (owner_names r) of (c, e, a) \<Rightarrow>
        if row_secret (sf_row r) then delete_scoped_secret ss (secret_path se c e a) (row_name (sf_row r))
        else delete_variable y sv c (scope_of c e a) (row_name (sf_row r))))"
proof -
  have n: "row_name (sf_row r) \<noteq> []" using assms(3) by (simp add: env_name_def)
  consider c where "owner_names r = [c]" | c e where "owner_names r = [c, e]"
    | c e a where "owner_names r = [c, e, a]"
    using assms(2) by (auto simp: owner_names_def split: option.splits)
  then show ?thesis
  proof cases
    case 1
    then have "k8s_label c" "c \<noteq> []" using assms(1) by (auto simp: k8s_label_def)
    then show ?thesis using 1 n value_segments [OF assms]
      by (cases "row_secret (sf_row r)")
         (simp_all add: served_put served_delete value_routes scope_endpoints)
  next
    case 2
    then have "k8s_label c" "k8s_label e" "c \<noteq> []" "e \<noteq> []" using assms(1) by (auto simp: k8s_label_def)
    then show ?thesis using 2 n value_segments [OF assms]
      by (cases "row_secret (sf_row r)")
         (simp_all add: served_put served_delete value_routes scope_endpoints)
  next
    case 3
    then have "k8s_label c" "k8s_label e" "k8s_label a" "c \<noteq> []" "e \<noteq> []" "a \<noteq> []"
      using assms(1) by (auto simp: k8s_label_def)
    then show ?thesis using 3 n value_segments [OF assms]
      by (cases "row_secret (sf_row r)")
         (simp_all add: served_put served_delete value_routes scope_endpoints)
  qed
qed

lemma portal_value_reaches_scope_witness:
  "\<forall>se y sv ss auth. api_serve se y sv ss auth ''PUT''
      ''/v1/clients/acme/environments/production/secrets/API_KEY'' [(''value'', JStr ''s3cret'')] =
    Some (serve se auth (put_secret ss (secret_path se ''acme'' ''production'' []) ''API_KEY'' ''s3cret''))"
proof -
  define r where "r = \<lparr> sf_row = \<lparr> row_id = 1, row_name = ''API_KEY'', row_secret = True, row_value = [], row_touched = 0 \<rparr>,
    sf_organization = None, sf_client = None, sf_environment = Some acme_prod, sf_application = None,
    sf_secret_set = False \<rparr>"
  have "k8s_label ''acme''" "k8s_label ''production''" "env_name ''API_KEY''" by code_simp+
  then show ?thesis
    using portal_value_reaches_scope [of r _ _ _ _ _ "''s3cret''"]
    by (simp add: r_def owner_names_def value_path_def api_base_def environment_base_def estate_defs)
qed

section \<open>Observations\<close>

text \<open>Saving rows sets their names as they are now and unsets none: a Variable that was renamed stays set under
  its old name as well.\<close>

lemma config_write_sets_only:
  assumes "list_all (\<lambda>r. \<not> org_variable r) rs"
  shows "only (\<lambda>q. \<exists>a r h b. platform_api p = Inr a \<and> r \<in> set rs \<and> q = Http ''PUT'' (ac_base a @ value_path r) h b)
    (write_config p no_push secret rs)" (is "only ?P _")
proof -
  have "only ?P (push_value p a secret r)" if "platform_api p = Inr a" "r \<in> set rs" for a r
  proof -
    have "\<not> org_variable r" using assms that(2) by (simp add: list_all_iff)
    moreover have "only ?P (thenM (ac_upsert a (value_path r) body) m)" if "only ?P m"
      for body and m :: "scoped_config M"
      unfolding ac_upsert_def using that \<open>platform_api p = Inr a\<close> \<open>r \<in> set rs\<close>
      by (intro only_intros only_ac_request) auto
    ultimately show ?thesis unfolding push_value_def by (auto intro: only_intros split: option.split)
  qed
  then show ?thesis
    unfolding write_config_def push_config_def by (auto intro!: only_intros only_platform_api)
qed

text \<open>A Secret that was renamed is not moved: no request is made, and the row still says its value is set.\<close>

lemma renamed_secret_not_moved:
  assumes "row_secret (sf_row r)" and "platform_api p = Inr a"
  shows "write_config p no_push None [r] env s = (Inr [r], s)"
  using assms by (simp add: write_config_def push_config_def push_value_def org_variable_def of_result_def bindM_def ret_def)

text \<open>The name check of the portal lets a trailing newline pass, and names the API refuses for a secret.\<close>

lemma row_name_newline: "check_row_name (''API_KEY'' @ [newline]) = Inr ()"
  by code_simp

lemma underscore_secret: "check_row_name ''_'' = Inr () \<and> secret_name_ok ''_'' = False"
  by code_simp

end
