(* ===== verification/PortalPage.thy ===== *)
theory PortalPage
  imports PortalViews PortalConfig PortalRoundtrip
begin

text \<open>
  What the portal's forms fill in and what the customer page reads: the onchange handlers and defaults of
  \<open>models/domain.py\<close>, \<open>_onchange_environment_scope_domain\<close> of \<open>models/application.py\<close>, and
  \<open>get_portal_data\<close> of \<open>models/client.py\<close>. Database ids are parts of the rows; a text
  that is unset, which Python reads as False, is the empty string.
\<close>

section \<open>The domain form\<close>

definition edge_host :: "portal \<Rightarrow> string" where
  "edge_host p = strip (get_param p ''adomi_platform.edge_host'' [])"

definition cname_target :: "portal \<Rightarrow> portal_domain \<Rightarrow> string" where
  "cname_target p d = sor (edge_host p) (base_domain_of p (dm_client d))"

definition onchange_platform_fqdn :: "portal \<Rightarrow> portal_domain \<Rightarrow> portal_domain" where
  "onchange_platform_fqdn p d =
     (if dm_platform d
      then let base = base_domain_of p (dm_client d);
               label = slugify (sor (dm_platform_label d) (cl_k8s_name (dm_client d))) in
           if base \<noteq> [] \<and> label \<noteq> [] \<and> label \<noteq> ''item''
           then d\<lparr>dm_fqdn := label @ ''.'' @ base\<rparr> else d
      else d)"

definition onchange_fqdn_name :: "portal_domain \<Rightarrow> portal_domain" where
  "onchange_fqdn_name d =
     (let d = (if dm_fqdn d \<noteq> [] \<and> dm_name d = [] then d\<lparr>dm_name := dm_fqdn d\<rparr> else d) in
      if dm_fqdn d \<noteq> [] \<and> dm_k8s_name d = [] then d\<lparr>dm_k8s_name := slugify (dm_fqdn d)\<rparr> else d)"

text \<open>\<open>create\<close> of the mixin and of the domain: the defaults of one \<open>vals\<close>, before the record is made.\<close>

definition k8s_defaults :: "dict \<Rightarrow> dict" where
  "k8s_defaults vals =
     (if sget (JObj vals) ''k8s_name'' = [] \<and> sget (JObj vals) ''name'' \<noteq> []
      then dset ''k8s_name'' (JStr (slugify (sget (JObj vals) ''name''))) vals else vals)"

definition domain_defaults :: "dict \<Rightarrow> dict" where
  "domain_defaults vals =
     (let fqdn = sget (JObj vals) ''fqdn'' in k8s_defaults
      (if fqdn = [] then vals
       else let named = (if dget vals ''name'' = None then dset ''name'' (JStr fqdn) vals else vals) in
            if sget (JObj named) ''k8s_name'' = [] then dset ''k8s_name'' (JStr (slugify fqdn)) named else named))"

text \<open>The domain of an application stays within its customer.\<close>

definition onchange_scope_domain :: "portal_application \<Rightarrow> portal_application" where
  "onchange_scope_domain a = (case ap_domain a of
     Some d \<Rightarrow> if cl_k8s_name (dm_client d) \<noteq> cl_k8s_name (en_client (ap_environment a))
               then a\<lparr>ap_domain := None\<rparr> else a
   | None \<Rightarrow> a)"

section \<open>A platform domain survives the way to the cluster and back\<close>

lemma blank_lower: "lower_char c \<in> set py_ws \<longleftrightarrow> c \<in> set py_ws"
proof -
  have "\<forall>d \<in> set lower_letters. d \<notin> set py_ws" "\<forall>d \<in> set py_ws. lower_char d = d" by code_simp+
  moreover have "lower_char c = c \<or> lower_char c \<in> set lower_letters"
    using map_of_SomeD [of "zip upper_letters lower_letters" c]
    by (auto simp: lower_char_def split: option.split dest: set_zip_rightD)
  ultimately show ?thesis by metis
qed

lemma dotted_host:
  assumes "dns_label l" and "base \<noteq> []" and "strip base = base"
  shows "norm_host (l @ ''.'' @ base) = l @ ''.'' @ lower base"
    and "norm_host (l @ ''.'' @ lower base) = l @ ''.'' @ lower base"
proof -
  have c: "l \<noteq> []" "hd l \<in> set label_ends" "set l \<subseteq> set name_chars"
    using assms(1) by (simp_all add: dns_label_def name_chars_def)
  then have l: "l \<noteq> []" "hd l \<notin> set py_ws" using label_not_blank by blast+
  have low: "lower l = l" unfolding lower_def using c(3) by (intro map_idI) (blast intro: lower_slug_char)
  have b: "last base \<notin> set py_ws"
    using last_strip_of [of py_ws base] assms(2,3) by (simp add: strip_def)
  then have "last (lower base) \<notin> set py_ws" using assms(2) by (simp add: lower_def last_map blank_lower)
  with b l assms(2) have "strip (l @ ''.'' @ base) = l @ ''.'' @ base"
    "strip (l @ ''.'' @ lower base) = l @ ''.'' @ lower base"
    unfolding strip_def by (intro strip_of_id; simp)+
  with low show "norm_host (l @ ''.'' @ base) = l @ ''.'' @ lower base"
    "norm_host (l @ ''.'' @ lower base) = l @ ''.'' @ lower base"
    by (simp_all add: norm_host_def)
qed

text \<open>The name the form derives for a domain of the platform is read back as one: importing the resource the
  portal wrote gives a platform domain with the same label, and it writes the same spec again. The label of
  the form is the slug of what was typed, or of the customer.\<close>

lemma platform_domain_roundtrip:
  assumes platform: "dm_platform d" and base: "base_domain_of p (dm_client d) \<noteq> []"
    and label: "slugify (sor (dm_platform_label d) (cl_k8s_name (dm_client d))) \<noteq> ''item''" (is "?label \<noteq> _")
    and client: "cl_k8s_name (dm_client d) \<noteq> []" "find_client (cl_k8s_name (dm_client d)) = Some (dm_client d)"
  shows "\<exists>b. domain_import p find_client (written p (domain_synced (onchange_platform_fqdn p d))) = Some b \<and>
    dm_platform b \<and> dm_platform_label b = ?label \<and>
    dm_fqdn b = ?label @ ''.'' @ lower (base_domain_of p (dm_client d)) \<and>
    domain_k8s_spec b = domain_k8s_spec (onchange_platform_fqdn p d)"
proof -
  let ?base = "base_domain_of p (dm_client d)"
  have l: "dns_label ?label" "?label \<noteq> []" using slugify_label by (auto simp: dns_label_def)
  have s: "strip ?base = ?base" by (simp add: base_domain_of_def)
  have d: "onchange_platform_fqdn p d = d\<lparr>dm_fqdn := ?label @ ''.'' @ ?base\<rparr>"
    using platform base label l(2) by (simp add: onchange_platform_fqdn_def Let_def)
  let ?d = "d\<lparr>dm_fqdn := ?label @ ''.'' @ ?base\<rparr>" and ?host = "?label @ ''.'' @ lower ?base"
  have client': "dm_client ?d = dm_client d" by simp
  have slug: "obj_client_slug p (written p (domain_synced ?d)) = cl_k8s_name (dm_client d)"
    using client(1) by (subst written_slug) (simp_all add: domain_synced_def Let_def)
  have spec: "sget (JObj (sy_spec (domain_synced ?d))) ''fqdn'' = ?host"
    "get_or (JObj (sy_spec (domain_synced ?d))) ''wildcard'' (JBool True) = JBool (dm_wildcard d)"
    "sget (JObj (sy_spec (domain_synced ?d))) ''issuer'' = dm_issuer d"
    using dotted_host [OF l(1) base s]
    by (simp_all add: domain_synced_def Let_def domain_k8s_spec_def sget_def get_or_def unless_empty_def)
  have "ends_with (''.'' @ lower ?base) ?host" by (auto simp: ends_with_iff)
  moreover have "take (length ?host - length (lower ?base) - 1) ?host = ?label" by simp
  ultimately show ?thesis
    using dotted_host [OF l(1) base s] base client
    unfolding d domain_import_def written_simps slug lookup_def Let_def spec
    by (simp add: domain_k8s_spec_def)
qed

section \<open>Repositories get their customer\<close>

text \<open>The migration to 19.0.12.0.0: a repository without a customer takes that of the first application built
  from it; the write that stores it pushes it, as every write does.\<close>

definition scope_repository :: "portal_application list \<Rightarrow> portal_repository \<Rightarrow> portal_repository" where
  "scope_repository apps r =
     (if gr_client r \<noteq> None then r
      else case find (\<lambda>a. ap_repository a = Some r) apps of
        None \<Rightarrow> r
      | Some a \<Rightarrow> r\<lparr>gr_client := Some (en_client (ap_environment a))\<rparr>)"

definition scope_repositories ::
    "portal_application list \<Rightarrow> portal_repository list \<Rightarrow> portal_repository list" where
  "scope_repositories apps = map (scope_repository apps)"

lemma scoped_once: "scope_repository apps r = r \<or> gr_client (scope_repository apps r) \<noteq> None"
  by (auto simp: scope_repository_def split: option.split)

section \<open>The customer page\<close>

type_synonym 'a row = "int \<times> 'a tracked"

abbreviation row_record :: "'a row \<Rightarrow> 'a" where
  "row_record r \<equiv> tk_record (snd r)"

record portal_page =
  pg_client :: "portal_client row"
  pg_partner :: string
  pg_domains :: "portal_domain row list"
  pg_servers :: "portal_server row list"
  pg_environments :: "(portal_environment row \<times> portal_application row list) list"
  pg_database_id :: "app_database \<Rightarrow> int"

definition state_text :: "k8s_state \<Rightarrow> string" where
  "state_text s = (case s of Pending \<Rightarrow> ''pending'' | Unknown \<Rightarrow> ''unknown'' | NotReady \<Rightarrow> ''not_ready''
     | Ready \<Rightarrow> ''ready'')"

definition stage_text :: "stage \<Rightarrow> string" where
  "stage_text s = (case s of Committed \<Rightarrow> ''committed'' | Applied \<Rightarrow> ''applied'' | StageReady \<Rightarrow> ''ready''
     | Failed \<Rightarrow> ''failed'')"

definition health_text :: "health \<Rightarrow> string" where
  "health_text h = (case h of HealthEmpty \<Rightarrow> ''empty'' | HealthOk \<Rightarrow> ''ok'' | HealthPending \<Rightarrow> ''pending''
     | HealthDegraded \<Rightarrow> ''degraded'')"

definition page_apps :: "portal_page \<Rightarrow> portal_application row list" where
  "page_apps pg = concat (map snd (pg_environments pg))"

definition domain_data :: "portal \<Rightarrow> portal_page \<Rightarrow> portal_domain row \<Rightarrow> json" where
  "domain_data p pg r = (let d = row_record r in JObj
     [(''id'', JInt (fst r)), (''fqdn'', JStr (dm_fqdn d)),
      (''mode'', JStr (if dm_platform d then ''platform'' else ''byo'')),
      (''wildcard'', JBool (dm_wildcard d)), (''state'', JStr (state_text (tk_state (snd r)))),
      (''message'', JStr (tk_message (snd r))), (''cname_target'', JStr (cname_target p d)),
      (''app_count'', JInt (int (length (filter (\<lambda>a.
         map_option dm_k8s_name (ap_domain (row_record a)) = Some (dm_k8s_name d)) (page_apps pg)))))])"

definition server_data :: "portal_server row \<Rightarrow> json" where
  "server_data r = (let s = row_record r in JObj
     [(''id'', JInt (fst r)), (''name'', JStr (sr_name s)), (''mode'', JStr (server_mode s)),
      (''engine'', JStr (sr_engine s)), (''storage'', JStr (sr_storage s)), (''instances'', JInt (sr_instances s)),
      (''external_host'', JStr (sr_host s)), (''external_port'', JInt (sr_port s)),
      (''host'', JStr (sr_resolved_host s)),
      (''environment'', JStr (case sr_environment s of Some e \<Rightarrow> en_name e | None \<Rightarrow> [])),
      (''state'', JStr (state_text (tk_state (snd r))))])"

definition database_data :: "portal_page \<Rightarrow> app_database \<Rightarrow> json" where
  "database_data pg d = JObj
     [(''id'', JInt (pg_database_id pg d)), (''name'', JStr (ad_name d)),
      (''server'', JStr (sor (case ad_server d of Some s \<Rightarrow> sr_name s | None \<Rightarrow> []) (ad_server_name d))),
      (''server_mode'', JStr (case ad_server d of Some s \<Rightarrow> server_mode s | None \<Rightarrow> [])),
      (''database_name'', JStr (sor (ad_database_name d) (ad_name d))), (''secret'', JStr (ad_secret d))]"

definition config_data :: "config_entry \<Rightarrow> json" where
  "config_data e = JObj
     [(''id'', JInt (int (ce_id e))), (''name'', JStr (ce_name e)),
      (''kind'', JStr (if ce_secret e then ''secret'' else ''variable'')), (''value'', JStr (ce_value e)),
      (''scope'', JStr (ce_scope e)), (''overridden'', JBool (ce_overridden e))]"

definition app_data :: "portal_page \<Rightarrow> portal_application row \<Rightarrow> json" where
  "app_data pg r = (let a = row_record r in JObj
     [(''id'', JInt (fst r)), (''name'', JStr (ap_name a)), (''k8s_name'', JStr (ap_k8s_name a)),
      (''type'', JStr (sor (ty_name (ap_type a)) (ty_k8s_name (ap_type a)))),
      (''state'', JStr (state_text (tk_state (snd r)))), (''message'', JStr (tk_message (snd r))),
      (''phase'', JStr (ap_phase a)), (''url'', JStr (ap_url a)),
      (''host'', JObj [(''subdomain'', JStr (ap_subdomain a)),
         (''domain'', JStr (case ap_domain a of Some d \<Rightarrow> dm_fqdn d | None \<Rightarrow> [])),
         (''hostname'', JStr (ap_hostname a)), (''effective'', JStr (host_effective a))]),
      (''databases'', JArr (map (database_data pg) (ap_databases a))),
      (''config'', JArr (map config_data (effective_config a)))])"

definition sorted_environments ::
    "(portal_environment row \<times> portal_application row list) list \<Rightarrow>
     (portal_environment row \<times> portal_application row list) list" where
  "sorted_environments es =
     sort_key (\<lambda>ea. class_order (en_class (row_record (fst ea)))) (sort_key (\<lambda>ea. en_name (row_record (fst ea))) es)"

definition servers_of :: "portal_page \<Rightarrow> portal_environment \<Rightarrow> portal_server row list" where
  "servers_of pg e = filter (\<lambda>s. sr_environment (row_record s) = None \<or>
     map_option en_k8s_name (sr_environment (row_record s)) = Some (en_k8s_name e)) (pg_servers pg)"

definition environment_data ::
    "portal_page \<Rightarrow> portal_environment row \<times> portal_application row list \<Rightarrow> json" where
  "environment_data pg ea = (let r = fst ea; e = row_record r in JObj
     [(''id'', JInt (fst r)), (''name'', JStr (en_name e)), (''environment_class'', JStr (en_class e)),
      (''namespace'', JStr (en_namespace e)), (''state'', JStr (state_text (tk_state (snd r)))),
      (''message'', JStr (tk_message (snd r))),
      (''servers'', JArr (map server_data (servers_of pg e))),
      (''apps'', JArr (map (app_data pg) (snd ea)))])"

definition client_data :: "portal \<Rightarrow> portal_page \<Rightarrow> json" where
  "client_data p pg =
     (let r = pg_client pg; c = row_record r; apps = map snd (page_apps pg);
          org = (\<lambda>f. case cl_organization c of Some g \<Rightarrow> f g | None \<Rightarrow> []) in JObj
     [(''id'', JInt (fst r)), (''name'', JStr (cl_name c)), (''slug'', JStr (cl_k8s_name c)),
      (''organization'', JStr (org og_name)), (''partner'', JStr (pg_partner pg)),
      (''health'', JStr (health_text (app_health apps))), (''state'', JStr (state_text (tk_state (snd r)))),
      (''message'', JStr (tk_message (snd r))),
      (''application_count'', JInt (int (length apps))),
      (''application_ready_count'', JInt (int (length (filter (\<lambda>a. tk_state a = Ready) apps)))),
      (''environment_count'', JInt (int (length (pg_environments pg)))),
      (''provisioning_stage'', JStr (stage_text (provisioning_stage (snd r)))),
      (''infra_repo_url'', JStr (infra_repo_url p c)), (''base_domain'', JStr (org og_base_domain))])"

definition get_portal_data :: "portal \<Rightarrow> portal_page \<Rightarrow> json" where
  "get_portal_data p pg = JObj
     [(''client'', client_data p pg),
      (''domains'', JArr (map (domain_data p pg) (pg_domains pg))),
      (''servers'', JArr (map server_data (pg_servers pg))),
      (''environments'', JArr (map (environment_data pg) (sorted_environments (pg_environments pg))))]"

section \<open>The page and the secrets\<close>

definition redact_row :: "config_row \<Rightarrow> config_row" where
  "redact_row r = (if row_secret r then r\<lparr>row_value := []\<rparr> else r)"

definition redact_client :: "portal_client \<Rightarrow> portal_client" where
  "redact_client c = c\<lparr>cl_configs := map redact_row (cl_configs c),
     cl_organization := map_option (\<lambda>g. g\<lparr>og_configs := map redact_row (og_configs g)\<rparr>) (cl_organization c)\<rparr>"

definition redact_environment :: "portal_environment \<Rightarrow> portal_environment" where
  "redact_environment e =
     e\<lparr>en_client := redact_client (en_client e), en_configs := map redact_row (en_configs e)\<rparr>"

definition redact_app :: "portal_application \<Rightarrow> portal_application" where
  "redact_app a =
     a\<lparr>ap_environment := redact_environment (ap_environment a), ap_configs := map redact_row (ap_configs a)\<rparr>"

definition on_record :: "('a \<Rightarrow> 'a) \<Rightarrow> 'a row \<Rightarrow> 'a row" where
  "on_record f r = (fst r, snd r\<lparr>tk_record := f (tk_record (snd r))\<rparr>)"

definition redact_page :: "portal_page \<Rightarrow> portal_page" where
  "redact_page pg = pg\<lparr>pg_client := on_record redact_client (pg_client pg),
     pg_environments := map (map_prod (on_record redact_environment) (map (on_record redact_app)))
       (pg_environments pg)\<rparr>"

lemma redact_row_simps [simp]: "row_name (redact_row r) = row_name r" "entry_of (s, redact_row r) = entry_of (s, r)"
  by (simp_all add: redact_row_def entry_of_def)

lemma roll_redacted: "roll_row we (s, redact_row r) = roll_row we (s, r)"
  by (simp add: roll_row_def)

lemma roll_all_redacted: "foldl roll_row we (map (map_prod id redact_row) xs) = foldl roll_row we xs"
  by (induction xs arbitrary: we) (auto simp: roll_redacted split: prod.split)

lemma chain_redacted: "config_chain (redact_app a) = map (map_prod id redact_row) (config_chain a)"
  by (auto simp: config_chain_def redact_app_def redact_environment_def redact_client_def Let_def split: option.split)

lemma effective_config_redacted: "effective_config (redact_app a) = effective_config a"
  by (simp add: effective_config_def chain_redacted roll_all_redacted)

lemma redact_app_simps [simp]:
  "ap_name (redact_app a) = ap_name a" "ap_k8s_name (redact_app a) = ap_k8s_name a" "ap_type (redact_app a) = ap_type a"
  "ap_phase (redact_app a) = ap_phase a" "ap_url (redact_app a) = ap_url a"
  "ap_subdomain (redact_app a) = ap_subdomain a" "ap_domain (redact_app a) = ap_domain a"
  "ap_hostname (redact_app a) = ap_hostname a" "ap_databases (redact_app a) = ap_databases a"
  "host_effective (redact_app a) = host_effective a"
  by (simp_all add: redact_app_def host_effective_def composed_host_def split: option.split)

lemma redact_environment_simps [simp]:
  "en_name (redact_environment e) = en_name e" "en_k8s_name (redact_environment e) = en_k8s_name e"
  "en_class (redact_environment e) = en_class e" "en_namespace (redact_environment e) = en_namespace e"
  by (simp_all add: redact_environment_def)

lemma on_record_simps [simp]:
  "fst (on_record f r) = fst r" "tk_record (snd (on_record f r)) = f (tk_record (snd r))"
  "tk_state (snd (on_record f r)) = tk_state (snd r)" "tk_message (snd (on_record f r)) = tk_message (snd r)"
  by (simp_all add: on_record_def)

lemma redact_page_simps [simp]:
  "pg_client (redact_page pg) = on_record redact_client (pg_client pg)" "pg_partner (redact_page pg) = pg_partner pg"
  "pg_domains (redact_page pg) = pg_domains pg" "pg_servers (redact_page pg) = pg_servers pg"
  "pg_database_id (redact_page pg) = pg_database_id pg"
  "pg_environments (redact_page pg) =
     map (map_prod (on_record redact_environment) (map (on_record redact_app))) (pg_environments pg)"
  by (simp_all add: redact_page_def)

lemma page_apps_redacted [simp]: "page_apps (redact_page pg) = map (on_record redact_app) (page_apps pg)"
proof -
  have "concat (map snd (map (map_prod f (map g)) es)) = map g (concat (map snd es))"
    for f and g :: "portal_application row \<Rightarrow> portal_application row"
      and es :: "(portal_environment row \<times> portal_application row list) list"
    by (induction es) auto
  then show ?thesis by (simp add: page_apps_def)
qed

lemma sort_key_map: "sort_key k (map f xs) = map f (sort_key (k \<circ> f) xs)"
proof -
  have "insort_key k (f x) (map f ys) = map f (insort_key (k \<circ> f) x ys)" for x ys
    by (induction ys) auto
  then show ?thesis by (induction xs) (simp_all add: comp_def)
qed

lemma sorted_redacted:
  "sorted_environments (map (map_prod (on_record redact_environment) (map (on_record redact_app))) es) =
    map (map_prod (on_record redact_environment) (map (on_record redact_app))) (sorted_environments es)"
  by (simp add: sorted_environments_def sort_key_map comp_def)

lemma app_data_redacted: "app_data (redact_page pg) (on_record redact_app r) = app_data pg r"
  by (simp add: app_data_def Let_def effective_config_redacted database_data_def [abs_def])

lemma environment_data_redacted:
  "environment_data (redact_page pg) (map_prod (on_record redact_environment) (map (on_record redact_app)) ea) =
    environment_data pg ea"
  by (cases ea) (simp add: environment_data_def Let_def servers_of_def app_data_redacted comp_def)

text \<open>C24. The customer page never shows a secret value. The whole payload of the page is the same when every
  secret of the applications, of their environments, of the customer and of its organization is blanked: it
  depends on secrets only by their names and scopes, also where a secret overrides a variable.\<close>

theorem page_hides_secrets: "get_portal_data p (redact_page pg) = get_portal_data p pg"
proof -
  have "domain_data p (redact_page pg) = domain_data p pg"
    by (simp add: domain_data_def [abs_def] filter_map comp_def)
  moreover have "client_data p (redact_page pg) = client_data p pg"
  proof -
    have "app_health (map (snd \<circ> on_record redact_app) apps) = app_health (map snd apps)" for apps
      by (simp add: app_health_def)
    moreover have "provisioning_stage (snd (on_record redact_client r)) = provisioning_stage (snd r)" for r
      by (simp add: provisioning_stage_def Let_def)
    ultimately show ?thesis
      by (simp add: client_data_def redact_client_def infra_repo_url_def Let_def filter_map comp_def
          split: option.split)
  qed
  moreover have "map (environment_data (redact_page pg)) (sorted_environments (pg_environments (redact_page pg))) =
      map (environment_data pg) (sorted_environments (pg_environments pg))"
    by (simp add: sorted_redacted environment_data_redacted comp_def)
  ultimately show ?thesis by (simp add: get_portal_data_def)
qed

end
