(* ===== verification/EndToEnd.thy ===== *)
theory EndToEnd
  imports Dispatch PortalPage Application
begin

text \<open>
  From the portal to the workload: the custom resources the portal's records become, read by \<open>compute\<close> of
  the operator, and the status the operator publishes, read by the portal. What the portal shows of an
  application is what the operator runs.
\<close>

section \<open>The records as custom resources\<close>

text \<open>A spec as it stands in the cluster: what was written of the record, and the Variables of its rows.\<close>

definition in_cluster :: "dict \<Rightarrow> config_row list \<Rightarrow> json" where
  "in_cluster spec rows = JObj (spec @ unless_no_entries ''variables'' (row_variables rows))"

definition workload ::
    "config \<Rightarrow> (string \<Rightarrow> json option) \<Rightarrow> yaml \<Rightarrow> portal_organization \<Rightarrow> portal_application \<Rightarrow> effective" where
  "workload cfg loads y g a =
     (let e = ap_environment a; c = en_client e in
      compute cfg (JObj (organization_k8s_spec g))
        (cl_k8s_name c) (in_cluster (client_k8s_spec c) (cl_configs c))
        (en_k8s_name e) (in_cluster (environment_k8s_spec e) (en_configs e))
        (ap_k8s_name a) (in_cluster (application_k8s_spec loads y a) (ap_configs a))
        (JObj (type_k8s_spec (ap_type a)))
        (case ap_domain a of Some d \<Rightarrow> norm_host (dm_fqdn d) | None \<Rightarrow> []) (og_k8s_name g))"

text \<open>The resource with the status of a deployment, as far as the portal reads it.\<close>

definition reported :: "effective \<Rightarrow> json" where
  "reported w = JObj [(''status'', JObj
     [(''namespace'', JStr (eff_namespace w)), (''url'', JStr (eff_url w)), (''phase'', JStr ''Deployed'')])]"

section \<open>Hosts\<close>

lemma strip_lower: "strip (lower s) = lower (strip s)"
  by (simp add: strip_def strip_of_def lstrip_of_def rstrip_of_def lower_def dropWhile_map rev_map comp_def blank_lower)

lemma strip_dotted: "strip (strip s @ ''.'' @ strip t) = strip s @ ''.'' @ strip t"
proof -
  have dot: "CHR ''.'' \<notin> set py_ws" by code_simp
  have "hd (strip s @ ''.'' @ strip t) \<notin> set py_ws" 
    using dot hd_strip_of [of py_ws s] by (cases "strip s") (auto simp: strip_def)
  moreover have "last (strip s @ ''.'' @ strip t) \<notin> set py_ws"
    using dot last_strip_of [of py_ws t] by (cases "strip t = []") (auto simp: strip_def)
  ultimately show ?thesis unfolding strip_def [of "strip s @ ''.'' @ strip t"] by (intro strip_of_id) simp
qed

lemma strip_composed_host: "strip (composed_host a) = composed_host a"
  by (simp add: composed_host_def norm_host_def strip_lower strip_dotted del: lower_append append_Cons append_Nil
      split: option.split)

lemma remove_all_id: "x \<in> set p \<Longrightarrow> x \<notin> set s \<Longrightarrow> remove_all p s = s"
proof (induction p s rule: remove_all.induct)
  case (2 p c s)
  then have "\<not> starts_with p (c # s)" by (metis in_set_takeD starts_with_def)
  with 2 show ?case by simp
qed simp

lemma host_of_url:
  assumes "h \<noteq> []" and "CHR ''/'' \<notin> set h"
  shows "rstrip_of ''/'' (remove_all ''https://'' (''https://'' @ h)) = h"
proof -
  have "remove_all ''https://'' (''https://'' @ h) = remove_all ''https://'' h" by (simp add: starts_with_def)
  also have "\<dots> = h" using assms(2) by (intro remove_all_id [of "CHR ''/''"]) simp_all
  finally have "remove_all ''https://'' (''https://'' @ h) = h" .
  moreover have "last h \<noteq> CHR ''/''" using assms by (metis last_in_set)
  ultimately show ?thesis using assms(1) by (simp add: rstrip_of_id)
qed

section \<open>The specs read by the operator\<close>

lemma in_cluster_reads:
  "dget spec ''variables'' = None \<Longrightarrow> lget (in_cluster spec rows) ''variables'' = row_variables rows"
  "k \<noteq> ''variables'' \<Longrightarrow> jget (in_cluster spec rows) k = jget (JObj spec) k"
  by (auto simp: in_cluster_def lget_def jget_app jor_def map_add_def split: option.splits)

lemma no_variables:
  "dget (client_k8s_spec c) ''variables'' = None" "dget (environment_k8s_spec e) ''variables'' = None"
  "dget (application_k8s_spec loads y a) ''variables'' = None"
  by (simp_all add: client_k8s_spec_def environment_k8s_spec_def application_k8s_spec_def dget_append
      split: option.split)

lemma workload_reads:
  "sget (in_cluster (client_k8s_spec c) rows) ''slug'' = cl_slug c"
  "sget (oget (in_cluster (application_k8s_spec loads y a) rows) ''ingress'') ''host'' = composed_host a"
  "lget (in_cluster (application_k8s_spec loads y a) rows) ''env'' = map env_entry (ap_env a)"
proof -
  show "sget (in_cluster (client_k8s_spec c) rows) ''slug'' = cl_slug c"
    by (simp add: sget_def in_cluster_reads) (simp add: client_k8s_spec_def map_add_def split: option.split)
  show "sget (oget (in_cluster (application_k8s_spec loads y a) rows) ''ingress'') ''host'' = composed_host a"
    by (simp add: oget_def in_cluster_reads)
       (auto simp: application_k8s_spec_def map_add_def sget_def jor_def split: option.splits)
  show "lget (in_cluster (application_k8s_spec loads y a) rows) ''env'' = map env_entry (ap_env a)"
    by (simp add: lget_def in_cluster_reads)
       (auto simp: application_k8s_spec_def map_add_def jor_def split: option.splits)
qed

lemma org_reads: "lget (JObj (organization_k8s_spec g)) ''variables'' = row_variables (og_configs g)"
  by (auto simp: organization_k8s_spec_def lget_def map_add_def jor_def split: option.splits)

text \<open>Every entry of the merged environment stands under its own name.\<close>

definition keyed :: "dict \<Rightarrow> bool" where
  "keyed d \<longleftrightarrow> (\<forall>(k, v) \<in> set d. strip (sget v ''name'') = k)"

lemma set_dset_subset: "set (dset k v d) \<subseteq> insert (k, v) (set d)"
  by (induction k v d rule: dset.induct) auto

lemma keyed_dset: "keyed d \<Longrightarrow> strip (sget v ''name'') = k \<Longrightarrow> keyed (dset k v d)"
  using set_dset_subset by (fastforce simp: keyed_def)

lemma keyed_steps: "keyed d \<Longrightarrow> keyed (add_variable d v)" "keyed d \<Longrightarrow> keyed (add_env_entry d v)"
  by (auto simp: add_variable_def add_env_entry_def Let_def sget_def intro!: keyed_dset)

lemma keyed_merged: "keyed (merged_dict org client environment app)"
proof -
  have fold: "keyed (foldl f d xs)" if "keyed d" "\<And>d x. keyed d \<Longrightarrow> keyed (f d x)" for f :: "dict \<Rightarrow> json \<Rightarrow> dict" and d xs
    using that by (induction xs arbitrary: d) auto
  have "keyed []" by (simp add: keyed_def)
  moreover have "keyed (add_scope d s)" if "keyed d" for d s
    unfolding add_scope_def using that keyed_steps(1) by (intro fold)
  ultimately show ?thesis unfolding merged_dict_def using keyed_steps(2) by (intro fold)
qed

lemma merged_wf: "wf_dict (merged_dict org client environment app)"
  unfolding merged_dict_def by (intro wf_fold_env wf_fold_scopes) simp

lemma merged_env_entry:
  assumes "strip n = n"
  shows "JObj [(''name'', JStr n), (''value'', v)] \<in> set (merged_env org client environment app) \<longleftrightarrow>
    dget (merged_dict org client environment app) n = Some (JObj [(''name'', JStr n), (''value'', v)])"
    (is "?e \<in> _ \<longleftrightarrow> dget ?d n = _")
proof
  assume "?e \<in> set (merged_env org client environment app)"
  then obtain k where k: "(k, ?e) \<in> set ?d" by (auto simp: merged_env_def)
  then have "k = n" using keyed_merged [of org client environment app] assms by (auto simp: keyed_def sget_def)
  with k show "dget ?d n = Some ?e"
    using merged_wf [of org client environment app] by (auto simp: wf_dict_def intro: map_of_is_SomeI)
next
  assume "dget ?d n = Some ?e"
  then show "?e \<in> set (merged_env org client environment app)"
    unfolding merged_env_def by (metis map_of_SomeD image_eqI list.set_map snd_conv)
qed

section \<open>What is shown is what runs\<close>

lemma workload_fields:
  assumes "sor (cl_slug (en_client (ap_environment a))) (cl_k8s_name (en_client (ap_environment a))) =
      cl_k8s_name (en_client (ap_environment a))"
    and "strip (cl_k8s_name (en_client (ap_environment a))) = cl_k8s_name (en_client (ap_environment a))"
  shows "eff_client_slug (workload cfg loads y g a) = cl_k8s_name (en_client (ap_environment a))"
    and "eff_namespace (workload cfg loads y g a) =
      namespace_name (cl_k8s_name (en_client (ap_environment a))) (en_k8s_name (ap_environment a))"
    and "eff_app_name (workload cfg loads y g a) = ap_k8s_name a"
    and "composed_host a \<noteq> [] \<Longrightarrow> eff_hostname (workload cfg loads y g a) = composed_host a"
    and "eff_url (workload cfg loads y g a) =
      (if eff_hostname (workload cfg loads y g a) \<noteq> [] then ''https://'' @ eff_hostname (workload cfg loads y g a) else [])"
    and "eff_scoped_secret_paths (workload cfg loads y g a) =
      scoped_secret_paths (scoped_secrets_prefix cfg) (og_k8s_name g) (cl_k8s_name (en_client (ap_environment a)))
        (en_k8s_name (ap_environment a)) (ap_k8s_name a)"
  using assms by (simp_all add: workload_def compute_def Let_def slug_of_def workload_reads strip_composed_host)

lemma workload_env:
  "eff_env (workload cfg loads y g a) = (let e = ap_environment a; c = en_client e in
     merged_env (JObj (organization_k8s_spec g)) (in_cluster (client_k8s_spec c) (cl_configs c))
       (in_cluster (environment_k8s_spec e) (en_configs e)) (in_cluster (application_k8s_spec loads y a) (ap_configs a)))"
  by (simp add: workload_def compute_def Let_def)

lemma namespace_not_empty:
  assumes "k8s_label client"
  shows "namespace_name client environment \<noteq> []"
proof -
  have "CHR ''-'' \<notin> set label_ends" by code_simp
  with assms have "client \<noteq> []" "hd client \<noteq> CHR ''-''" by (auto simp: k8s_label_def dns_label_def)
  then obtain x rest where "client = x # rest" "x \<noteq> CHR ''-''" by (cases client) auto
  then show ?thesis by (simp add: namespace_name_def truncate_label_def rstrip_of_def)
qed

text \<open>C15. What the portal shows of an application is what the operator runs. For the custom resources the
  portal's records become, and the status the operator publishes for them: the host on the page is the host
  the operator publishes, and the one asked for when one is; the deployment the page links and searches is
  the operator's Argo CD Application, which is also the release the API looks at; the secrets of the scopes
  are delivered from where the API stores them; and a Variable of a valid name that no explicit entry and no
  Secret of its chain shares is shown with a value exactly when the workload's environment has that value.
  The customer's slug is its resource name, and a host has no slash in it.\<close>

theorem portal_shows_what_runs:
  assumes "cl_organization (en_client (ap_environment a)) = Some g" and "og_k8s_name g \<noteq> []"
    and slug: "k8s_label client" "client = cl_k8s_name (en_client (ap_environment a))"
      "sor (cl_slug (en_client (ap_environment a))) client = client"
    and names: "en_k8s_name (ap_environment a) \<noteq> []" "ap_k8s_name a \<noteq> []"
    and host: "eff_hostname (workload cfg loads y g a) \<noteq> []" "CHR ''/'' \<notin> set (eff_hostname (workload cfg loads y g a))"
    and pre: "se_scoped_secrets_prefix se = scoped_secrets_prefix cfg"
    and rows: "\<forall>rs \<in> set (config_rows a). \<forall>r \<in> set rs. env_name (row_name r)"
    and n: "env_name n" "\<forall>rs \<in> set (config_rows a). \<forall>r \<in> set rs. row_name r = n \<longrightarrow> \<not> row_secret r"
      "\<forall>e \<in> set (ap_env a). strip (ae_name e) \<noteq> n"
    and w: "w = workload cfg loads y g a" and shown: "b = application_status_vals (reported w) a"
  shows "host_effective b = eff_hostname w \<and> (composed_host a \<noteq> [] \<longrightarrow> eff_hostname w = composed_host a) \<and>
    argocd_app_of b = argo_app_name w \<and>
    release client (en_k8s_name (ap_environment a)) (ap_k8s_name a) = (ap_namespace b, argocd_app_of b) \<and>
    eff_scoped_secret_paths w = [org_secret_path se (og_k8s_name g), secret_path se client [] [],
      secret_path se client (en_k8s_name (ap_environment a)) [],
      secret_path se client (en_k8s_name (ap_environment a)) (ap_k8s_name a)] \<and>
    ((\<exists>e \<in> set (effective_config b). ce_name e = n \<and> \<not> ce_overridden e \<and> ce_value e = v) \<longleftrightarrow>
      JObj [(''name'', JStr n), (''value'', JStr v)] \<in> set (eff_env w))"
proof -
  have st: "strip client = client"
    using label_not_blank slug(1) unfolding strip_def k8s_label_def dns_label_def
    by (intro strip_of_id) (metis disjoint_iff)
  note fields = workload_fields [of a cfg loads y g, folded slug(2), OF slug(3) st, folded w]
  have b: "ap_url b = ''https://'' @ eff_hostname w" "ap_namespace b = eff_namespace w" "ap_k8s_name b = ap_k8s_name a"
    "composed_host b = composed_host a" "effective_config b = effective_config a"
    using fields(5) host unfolding shown w [symmetric]
    by (simp_all add: application_status_vals_def reported_def oget_def sget_def jor_def Let_def composed_host_def
        effective_config_def config_chain_def del: append_Cons split: option.split)
  have "host_effective b = eff_hostname w"
    using host [folded w] fields(4) host_of_url b(1)
    by (cases "composed_host a = []") (simp_all add: host_effective_def b(4) sor_def)
  moreover have argo: "argocd_app_of b = argo_app_name w"
    using names(2) namespace_not_empty [OF slug(1)] fields(2,3)
    by (simp add: argocd_app_of_def argo_app_name_def b(2,3))
  moreover have "release client (en_k8s_name (ap_environment a)) (ap_k8s_name a) = (ap_namespace b, argocd_app_of b)"
    unfolding argo b(2) using fields(2,3)
    by (simp add: release_def argo_app_name_def namespace_name_def truncate_label_def api_truncate_label_def Let_def)
  moreover have "eff_scoped_secret_paths w = [org_secret_path se (og_k8s_name g), secret_path se client [] [],
      secret_path se client (en_k8s_name (ap_environment a)) [],
      secret_path se client (en_k8s_name (ap_environment a)) (ap_k8s_name a)]"
    using assms(2) names pre fields(6)
    by (simp add: scoped_secret_paths_def secret_path_def org_secret_path_def Let_def)
  moreover have "(\<exists>e \<in> set (effective_config b). ce_name e = n \<and> \<not> ce_overridden e \<and> ce_value e = v) \<longleftrightarrow>
      JObj [(''name'', JStr n), (''value'', JStr v)] \<in> set (eff_env w)"
  proof -
    let ?e = "ap_environment a" and ?c = "en_client (ap_environment a)"
    have "map (\<lambda>s. lget s ''variables'') [in_cluster (application_k8s_spec loads y a) (ap_configs a),
        in_cluster (environment_k8s_spec ?e) (en_configs ?e), in_cluster (client_k8s_spec ?c) (cl_configs ?c),
        JObj (organization_k8s_spec g)] = map row_variables (config_rows a)"
      using assms(1) by (simp add: config_rows_def Let_def in_cluster_reads(1) no_variables org_reads)
    moreover have "\<forall>x \<in> set (lget (in_cluster (application_k8s_spec loads y a) (ap_configs a)) ''env''). \<not> named n x"
      using n(3) by (auto simp: workload_reads named_def env_entry_def sget_def jor_def)
    ultimately show ?thesis
      unfolding b(5) w workload_env Let_def merged_env_entry [OF env_name_strip [OF n(1)]]
      using rows n(2) by (intro rolled_value_runs)
  qed
  ultimately show ?thesis using fields(4) by blast
qed

definition shown_erp :: portal_application where
  "shown_erp = erp_with [level_row 1 False ''info''] [level_row 2 False ''debug'']"

definition erp_workload :: effective where
  "erp_workload = workload default_config (\<lambda>t. None) numbered_yaml acme_org shown_erp"

lemma portal_shows_what_runs_witness:
  "host_effective (application_status_vals (reported erp_workload) shown_erp) = ''erp.acme.com'' \<and>
   argocd_app_of (application_status_vals (reported erp_workload) shown_erp) = ''acme-production-erp'' \<and>
   argo_app_name erp_workload = ''acme-production-erp'' \<and>
   JObj [(''name'', JStr ''LEVEL''), (''value'', JStr ''debug'')] \<in> set (eff_env erp_workload)"
proof -
  let ?a = shown_erp and ?b = "application_status_vals (reported erp_workload) shown_erp"
  have labels: "k8s_label ''acme''" "env_name ''LEVEL''" by code_simp+
  have fields: "cl_organization (en_client (ap_environment ?a)) = Some acme_org" "og_k8s_name acme_org \<noteq> []"
    "cl_k8s_name (en_client (ap_environment ?a)) = ''acme''" "cl_slug (en_client (ap_environment ?a)) = []"
    "en_k8s_name (ap_environment ?a) = ''production''" "ap_k8s_name ?a = ''erp''" "ap_env ?a = []"
    by (simp_all add: shown_erp_def erp_with_def estate_defs)
  have "lower (strip ''Erp'' @ ''.'' @ strip ''Acme.com'') = ''erp.acme.com''" by code_simp
  then have composed: "composed_host ?a = ''erp.acme.com''"
    by (simp add: shown_erp_def erp_with_def composed_host_def estate_defs)
  have acme: "strip ''acme'' = ''acme''" by code_simp
  have host: "eff_hostname erp_workload = ''erp.acme.com''"
    unfolding erp_workload_def composed [symmetric]
  proof (rule workload_fields(4))
    show "composed_host ?a \<noteq> []" unfolding composed by simp
  qed (simp_all only: fields(3,4) acme sor_simps)
  have rel: "release ''acme'' ''production'' ''erp'' = (''acme-production'', ''acme-production-erp'')" by code_simp
  have pre: "se_scoped_secrets_prefix default_settings = scoped_secrets_prefix default_config"
    by (simp add: default_settings_def default_config_def)
  have rows: "\<forall>rs \<in> set (config_rows ?a). \<forall>r \<in> set rs. env_name (row_name r)"
    "\<forall>rs \<in> set (config_rows ?a). \<forall>r \<in> set rs. row_name r = ''LEVEL'' \<longrightarrow> \<not> row_secret r"
    using labels by (simp_all add: shown_erp_def config_rows_erp_with level_row_def)
  have more: "sor (cl_slug (en_client (ap_environment ?a))) ''acme'' = ''acme''"
    "en_k8s_name (ap_environment ?a) \<noteq> []" "ap_k8s_name ?a \<noteq> []"
    "eff_hostname (workload default_config (\<lambda>t. None) numbered_yaml acme_org ?a) \<noteq> []"
    "CHR ''/'' \<notin> set (eff_hostname (workload default_config (\<lambda>t. None) numbered_yaml acme_org ?a))"
    "\<forall>e \<in> set (ap_env ?a). strip (ae_name e) \<noteq> ''LEVEL''"
    unfolding host [unfolded erp_workload_def] fields by simp_all
  note all = portal_shows_what_runs [OF fields(1,2) labels(1) fields(3) [symmetric] more(1-5) pre rows(1) labels(2)
      rows(2) more(6) erp_workload_def refl, of "''debug''", unfolded fields(5,6) rel]
  have "effective_config ?b = effective_config ?a"
    by (simp add: application_status_vals_def effective_config_def config_chain_def Let_def split: option.split)
  moreover have "\<exists>e \<in> set (effective_config ?a). ce_name e = ''LEVEL'' \<and> \<not> ce_overridden e \<and> ce_value e = ''debug''"
    by (simp add: effective_config_def config_chain_def shown_erp_def erp_with_def estate_defs level_row_def
        roll_row_def entry_of_def Let_def)
  ultimately show ?thesis using all host by (metis prod.inject)
qed

end
