(* ===== verification/Startup.thy ===== *)
theory Startup
  imports Operator Api
begin

text \<open>
  How the processes start: \<open>operator.py\<close>, \<open>__main__.py\<close> and \<open>state.py\<close> of the operator, \<open>__main__.py\<close> of
  the API. What Kopf and uvicorn are told is a record; loading a Kubernetes configuration is the
  parameters \<open>incluster\<close> (whether it exists) and \<open>kubeconfig\<close> (the error of the fallback, if any).
\<close>

section \<open>The operator\<close>

definition SSO_FINALIZER :: string where
  "SSO_FINALIZER = ''identity.adomi.io/ssoapplication-cleanup''"

record process =
  ps_provider :: "config option"
  ps_incluster :: "bool option"
  ps_finalizer :: string
  ps_posting :: bool

definition fresh_process :: process where
  "fresh_process = \<lparr> ps_provider = None, ps_incluster = None, ps_finalizer = [], ps_posting = False \<rparr>"

definition set_provider :: "config \<Rightarrow> process \<Rightarrow> process" where
  "set_provider cfg ps = ps\<lparr>ps_provider := Some cfg\<rparr>"

definition provider :: "process \<Rightarrow> exn + config" where
  "provider ps = (case ps_provider ps of
     None \<Rightarrow> Inl (RuntimeError ''backend Provider not initialised; operator startup did not run'')
   | Some cfg \<Rightarrow> Inr cfg)"

definition configure ::
    "bool \<Rightarrow> exn option \<Rightarrow> (string \<Rightarrow> string option) \<Rightarrow> process \<Rightarrow> exn + process" where
  "configure incluster kubeconfig env ps =
     (case (if incluster then None else kubeconfig) of
        Some e \<Rightarrow> Inl e
      | None \<Rightarrow> (case from_env env of
          None \<Rightarrow> Inl (ValueError ''unknown auth mode'')
        | Some cfg \<Rightarrow> Inr ((set_provider cfg (ps\<lparr>ps_incluster := Some incluster\<rparr>))
            \<lparr>ps_finalizer := SSO_FINALIZER, ps_posting := True\<rparr>)))"

record kopf_run =
  kr_clusterwide :: bool
  kr_standalone :: bool
  kr_liveness :: string

definition operator_main :: kopf_run where
  "operator_main = \<lparr> kr_clusterwide = True, kr_standalone = True,
     kr_liveness = ''http://0.0.0.0:8080/healthz'' \<rparr>"

text \<open>A handler asks \<open>state.provider()\<close> for its backends, and runs with the provider's configuration.\<close>

definition run_handler ::
    "process \<Rightarrow> string \<Rightarrow> json \<Rightarrow> json \<Rightarrow> json \<Rightarrow> string \<Rightarrow> string \<Rightarrow> unit M" where
  "run_handler ps plural spec meta status name ns =
     bindM (of_result (provider ps)) (\<lambda>cfg.
     case dget (handlers cfg) plural of
       None \<Rightarrow> ret ()
     | Some run \<Rightarrow> run spec meta status name ns)"

section \<open>The API\<close>

text \<open>\<open>os.environ.get\<close>: an empty variable is a value, where \<open>_env\<close> of the operator takes the default.\<close>

definition env_get :: "(string \<Rightarrow> string option) \<Rightarrow> string \<Rightarrow> string \<Rightarrow> string" where
  "env_get env name dflt = (case env name of Some v \<Rightarrow> v | None \<Rightarrow> dflt)"

definition api_main :: "(string \<Rightarrow> string option) \<Rightarrow> exn + string \<times> int" where
  "api_main env = (case py_int (env_get env ''ADOMI_API_PORT'' ''8080'') of
     None \<Rightarrow> Inl (ValueError ''invalid literal for int()'')
   | Some port \<Rightarrow> Inr (env_get env ''ADOMI_API_HOST'' ''0.0.0.0'', port))"

definition openapi_file :: "string list \<Rightarrow> string" where
  "openapi_file argv = (case argv of _ # out # _ \<Rightarrow> out | _ \<Rightarrow> ''openapi.json'')"

section \<open>Facts\<close>

text \<open>A process whose start-up came through runs its handlers with the configuration of its environment; one
  whose start-up failed runs none.\<close>

lemma configured_handlers:
  assumes "configure incluster kubeconfig env fresh_process = Inr ps"
  shows "\<exists>cfg. from_env env = Some cfg \<and> provider ps = Inr cfg \<and> ps_finalizer ps = SSO_FINALIZER \<and>
    (\<forall>run. dget (handlers cfg) plural = Some run \<longrightarrow>
      run_handler ps plural spec meta status name ns = run spec meta status name ns)"
  using assms
  by (auto simp: configure_def provider_def set_provider_def run_handler_def of_result_def bindM_def ret_def
      split: option.splits if_splits)

lemma unconfigured_handlers:
  "run_handler fresh_process plural spec meta status name ns env s =
     (Inl (RuntimeError ''backend Provider not initialised; operator startup did not run''), s)"
  by (simp add: run_handler_def provider_def fresh_process_def of_result_def raise_def bindM_def)

lemma api_main_default: "api_main (\<lambda>_. None) = Inr (''0.0.0.0'', 8080)"
  by code_simp

end
