(* ===== verification/Migrations.thy ===== *)
theory Migrations
  imports Effects
begin

text \<open>
  The database migration of the \<open>adomi_platform\<close> addon to 19.0.4.0.0 (\<open>migrations/19.0.4.0.0/pre-migrate.py\<close>),
  which renames \<open>adomi.workspace\<close> to \<open>adomi.environment\<close> in place. A table is its columns and its rows; a row
  maps a column to its text, and a column it does not map is NULL or not text. A statement on a table or a
  column that does not exist, or a rename to one that does, is PostgreSQL's error; keys and triggers are not
  modelled. Statements run in one transaction: an error leaves the database as it was.
\<close>

section \<open>Tables and statements\<close>

type_synonym sql_row = "(string \<times> string) list"

record sql_table =
  st_columns :: "string list"
  st_rows :: "sql_row list"

type_synonym database = "(string \<times> sql_table) list"

definition sql_error :: "string \<Rightarrow> exn" where
  "sql_error t = PyError t"

definition table_exists :: "database \<Rightarrow> string \<Rightarrow> bool" where
  "table_exists db t \<longleftrightarrow> dget db t \<noteq> None"

definition column_exists :: "database \<Rightarrow> string \<Rightarrow> string \<Rightarrow> bool" where
  "column_exists db t c = (case dget db t of Some tb \<Rightarrow> c \<in> set (st_columns tb) | None \<Rightarrow> False)"

text \<open>\<open>UPDATE t SET col = f(row) WHERE P(row)\<close>, over the columns \<open>cols\<close> it names.\<close>

definition sql_update ::
    "string \<Rightarrow> string list \<Rightarrow> string \<Rightarrow> (sql_row \<Rightarrow> string) \<Rightarrow> (sql_row \<Rightarrow> bool) \<Rightarrow> database \<Rightarrow> exn + database" where
  "sql_update t cols col f P db = (case dget db t of
     None \<Rightarrow> Inl (sql_error ''UndefinedTable'')
   | Some tb \<Rightarrow>
       if \<not> set (col # cols) \<subseteq> set (st_columns tb) then Inl (sql_error ''UndefinedColumn'')
       else Inr (map (\<lambda>(n, x). (n, if n = t
         then x\<lparr>st_rows := map (\<lambda>r. if P r then dset col (f r) r else r) (st_rows x)\<rparr> else x)) db))"

definition set_where :: "string \<Rightarrow> string \<Rightarrow> string \<Rightarrow> (string \<times> string) list \<Rightarrow> database \<Rightarrow> exn + database" where
  "set_where t col v conds =
     sql_update t (map fst conds) col (\<lambda>_. v) (\<lambda>r. list_all (\<lambda>(c, x). dget r c = Some x) conds)"

definition rename_table :: "string \<Rightarrow> string \<Rightarrow> database \<Rightarrow> exn + database" where
  "rename_table old new db =
     (if \<not> table_exists db old then Inl (sql_error ''UndefinedTable'')
      else if table_exists db new then Inl (sql_error ''DuplicateTable'')
      else Inr (map (\<lambda>(n, x). (if n = old then new else n, x)) db))"

definition rename_column :: "string \<Rightarrow> string \<Rightarrow> string \<Rightarrow> database \<Rightarrow> exn + database" where
  "rename_column t old new db =
     (if \<not> column_exists db t old then Inl (sql_error ''UndefinedColumn'')
      else if column_exists db t new then Inl (sql_error ''DuplicateColumn'')
      else Inr (map (\<lambda>(n, x). (n, if n = t
        then x\<lparr>st_columns := map (\<lambda>c. if c = old then new else c) (st_columns x),
               st_rows := map (map (\<lambda>(c, v). (if c = old then new else c, v))) (st_rows x)\<rparr> else x)) db))"

text \<open>\<open>replace(s, old, new)\<close>\<close>

function replace_text :: "string \<Rightarrow> string \<Rightarrow> string \<Rightarrow> string" where
  "replace_text old new [] = []"
| "replace_text old new (c # s) =
     (if old \<noteq> [] \<and> starts_with old (c # s) then new @ replace_text old new (drop (length old) (c # s))
      else c # replace_text old new s)"
  by pat_completeness auto
termination
  by (relation "measure (\<lambda>(old, new, s). length s)") auto

section \<open>The migration\<close>

fun run_all :: "(database \<Rightarrow> exn + database) list \<Rightarrow> database \<Rightarrow> exn + database" where
  "run_all [] db = Inr db"
| "run_all (f # fs) db = (case f db of Inl e \<Rightarrow> Inl e | Inr db' \<Rightarrow> run_all fs db')"

definition when_there :: "(database \<Rightarrow> bool) \<Rightarrow> (database \<Rightarrow> exn + database) list \<Rightarrow> database \<Rightarrow> exn + database" where
  "when_there P fs db = (if P db then run_all fs db else Inr db)"

definition rename_model :: "string \<Rightarrow> string \<Rightarrow> database \<Rightarrow> exn + database" where
  "rename_model t col = set_where t col ''adomi.environment'' [(col, ''adomi.workspace'')]"

definition model_registry :: "(database \<Rightarrow> exn + database) list" where
  "model_registry = [rename_model ''ir_model'' ''model'', rename_model ''ir_model_fields'' ''model'',
     rename_model ''ir_model_fields'' ''relation'', rename_model ''ir_model_data'' ''model'']"

definition table_and_columns :: "(database \<Rightarrow> exn + database) list" where
  "table_and_columns =
     [rename_table ''adomi_workspace'' ''adomi_environment'',
      when_there (\<lambda>db. column_exists db ''adomi_environment'' ''workspace_class'')
        [rename_column ''adomi_environment'' ''workspace_class'' ''environment_class'',
         set_where ''ir_model_fields'' ''name'' ''environment_class''
           [(''model'', ''adomi.environment''), (''name'', ''workspace_class'')]],
      when_there (\<lambda>db. column_exists db ''adomi_application'' ''workspace_id'')
        [rename_column ''adomi_application'' ''workspace_id'' ''environment_id'',
         set_where ''ir_model_fields'' ''name'' ''environment_id''
           [(''model'', ''adomi.application''), (''name'', ''workspace_id'')]]]"

definition xmlids :: "database \<Rightarrow> exn + database" where
  "xmlids = sql_update ''ir_model_data'' [''module''] ''name''
     (\<lambda>r. replace_text ''workspace'' ''environment'' (case dget r ''name'' of Some n \<Rightarrow> n | None \<Rightarrow> []))
     (\<lambda>r. dget r ''module'' = Some ''adomi_platform'' \<and>
          (case dget r ''name'' of Some n \<Rightarrow> is_infix ''workspace'' n | None \<Rightarrow> False))"

definition references :: "(string \<times> string) list" where
  "references = [(''mail_message'', ''model''), (''mail_followers'', ''res_model''), (''ir_attachment'', ''res_model'')]"

definition chatter :: "(database \<Rightarrow> exn + database) list" where
  "chatter = map (\<lambda>(t, col). when_there (\<lambda>db. table_exists db t) [rename_model t col]) references"

definition pre_migrate :: "database \<Rightarrow> exn + database" where
  "pre_migrate db =
     (if \<not> table_exists db ''adomi_workspace'' then Inr db
      else run_all (model_registry @ table_and_columns @ [xmlids] @ chatter) db)"

section \<open>What a step keeps and what it makes true\<close>

definition keeps :: "(database \<Rightarrow> exn + database) \<Rightarrow> (database \<Rightarrow> bool) \<Rightarrow> bool" where
  "keeps f Q \<longleftrightarrow> (\<forall>db db'. f db = Inr db' \<longrightarrow> Q db \<longrightarrow> Q db')"

definition makes :: "(database \<Rightarrow> exn + database) \<Rightarrow> (database \<Rightarrow> bool) \<Rightarrow> bool" where
  "makes f Q \<longleftrightarrow> (\<forall>db db'. f db = Inr db' \<longrightarrow> Q db')"

named_theorems kept

lemma run_all_keeps [kept]: "list_all (\<lambda>f. keeps f Q) fs \<Longrightarrow> keeps (run_all fs) Q"
proof (induction fs)
  case (Cons f fs)
  then show ?case by (fastforce simp: keeps_def split: sum.splits)
qed (simp add: keeps_def)

lemma run_all_makes: "f \<in> set fs \<Longrightarrow> makes f Q \<Longrightarrow> list_all (\<lambda>g. keeps g Q) fs \<Longrightarrow> makes (run_all fs) Q"
proof (induction fs)
  case (Cons g fs)
  show ?case
  proof (cases "g = f")
    case True
    with Cons.prems run_all_keeps [of Q fs] show ?thesis
      by (fastforce simp: makes_def keeps_def split: sum.splits)
  next
    case False
    with Cons have "makes (run_all fs) Q" by simp
    then show ?thesis by (auto simp: makes_def split: sum.splits)
  qed
qed simp

lemma when_there_keeps [kept]: "list_all (\<lambda>f. keeps f Q) fs \<Longrightarrow> keeps (when_there P fs) Q"
  using run_all_keeps [of Q fs] by (auto simp: keeps_def when_there_def)

definition sizes :: "database \<Rightarrow> nat list" where
  "sizes db = map (\<lambda>(_, x). length (st_rows x)) db"

lemma sizes_map:
  "(\<And>nx. length (st_rows (snd (f nx))) = length (st_rows (snd nx))) \<Longrightarrow> sizes (map f db) = sizes db"
  by (simp add: sizes_def comp_def case_prod_beta)

definition clean :: "string \<times> string \<Rightarrow> database \<Rightarrow> bool" where
  "clean tc db \<longleftrightarrow> (\<forall>(n, x) \<in> set db. n = fst tc \<longrightarrow>
     (\<forall>r \<in> set (st_rows x). dget r (snd tc) \<noteq> Some ''adomi.workspace''))"

definition gone :: "database \<Rightarrow> bool" where
  "gone db \<longleftrightarrow> \<not> table_exists db ''adomi_workspace''"

lemma gone_iff: "gone db \<longleftrightarrow> ''adomi_workspace'' \<notin> fst ` set db"
  by (simp add: gone_def table_exists_def map_of_eq_None_iff)

lemma update_shape:
  "sql_update t cols col f P db = Inr db' \<Longrightarrow> db' = map (\<lambda>(n, x). (n, if n = t
     then x\<lparr>st_rows := map (\<lambda>r. if P r then dset col (f r) r else r) (st_rows x)\<rparr> else x)) db"
  by (simp add: sql_update_def split: option.splits if_splits)

lemma update_keeps [kept]:
  "keeps (sql_update t cols col f P) (\<lambda>db. sizes db = s)"
  "keeps (sql_update t cols col f P) gone"
  "(t, col) \<noteq> tc \<or> (\<forall>r. f r \<noteq> ''adomi.workspace'') \<Longrightarrow> keeps (sql_update t cols col f P) (clean tc)"
proof -
  show "keeps (sql_update t cols col f P) (\<lambda>db. sizes db = s)"
    unfolding keeps_def by (auto dest!: update_shape simp: sizes_map split: prod.split)
  show "keeps (sql_update t cols col f P) gone"
    unfolding keeps_def gone_iff by (force dest!: update_shape)
  show "(t, col) \<noteq> tc \<or> (\<forall>r. f r \<noteq> ''adomi.workspace'') \<Longrightarrow> keeps (sql_update t cols col f P) (clean tc)"
    unfolding keeps_def clean_def by (fastforce dest!: update_shape split: if_splits)
qed

lemma rename_table_keeps [kept]:
  "keeps (rename_table old new) (\<lambda>db. sizes db = s)"
  "fst tc \<noteq> new \<Longrightarrow> keeps (rename_table old new) (clean tc)"
  by (auto simp: keeps_def rename_table_def sizes_map clean_def split: if_splits prod.split)

lemma rename_column_keeps [kept]:
  "keeps (rename_column t old new) (\<lambda>db. sizes db = s)"
  "keeps (rename_column t old new) gone"
  "fst tc \<noteq> t \<Longrightarrow> keeps (rename_column t old new) (clean tc)"
proof -
  show "keeps (rename_column t old new) (\<lambda>db. sizes db = s)"
    by (auto simp: keeps_def rename_column_def sizes_map split: if_splits prod.split)
qed (force simp: keeps_def rename_column_def gone_iff clean_def split: if_splits)+

lemma set_where_keeps [kept]:
  "keeps (set_where t col v conds) (\<lambda>db. sizes db = s)"
  "keeps (set_where t col v conds) gone"
  "(t, col) \<noteq> tc \<or> v \<noteq> ''adomi.workspace'' \<Longrightarrow> keeps (set_where t col v conds) (clean tc)"
  unfolding set_where_def by (auto intro: update_keeps)

lemma rename_table_makes: "makes (rename_table ''adomi_workspace'' new) gone \<or> new = ''adomi_workspace''"
  by (force simp: makes_def rename_table_def gone_iff split: if_splits)

lemma rename_model_makes: "makes (rename_model t col) (clean (t, col))"
  unfolding makes_def clean_def rename_model_def set_where_def
  by (fastforce dest!: update_shape split: if_splits)

lemma chatter_makes: "makes (when_there (\<lambda>db. table_exists db t) [rename_model t col]) (clean (t, col))"
proof -
  have "clean (t, col) db" if "\<not> table_exists db t" for db
    using that by (auto simp: table_exists_def clean_def map_of_eq_None_iff rev_image_eqI)
  then show ?thesis using rename_model_makes [of t col]
    by (auto simp: makes_def when_there_def split: sum.splits)
qed

lemma makes_keeps: "makes f Q \<Longrightarrow> keeps f Q"
  by (simp add: makes_def keeps_def)

section \<open>The migration is complete\<close>

definition watched :: "(string \<times> string) list" where
  "watched = [(''ir_model'', ''model''), (''ir_model_fields'', ''model''), (''ir_model_fields'', ''relation''),
     (''ir_model_data'', ''model'')] @ references"

abbreviation migration :: "(database \<Rightarrow> exn + database) list" where
  "migration \<equiv> model_registry @ table_and_columns @ [xmlids] @ chatter"

lemmas migration_defs = model_registry_def table_and_columns_def xmlids_def chatter_def references_def rename_model_def

lemma migration_keeps_sizes: "list_all (\<lambda>f. keeps f (\<lambda>db. sizes db = s)) migration"
  by (simp add: migration_defs kept)

lemma migration_keeps_gone: "list_all (\<lambda>f. keeps f gone) migration"
  using rename_table_makes [of "''adomi_environment''"] by (simp add: migration_defs kept makes_keeps)

lemma migration_keeps_clean: "tc \<in> set watched \<Longrightarrow> list_all (\<lambda>f. keeps f (clean tc)) migration"
  by (auto simp: migration_defs watched_def kept)

lemma migration_makes_clean: "tc \<in> set watched \<Longrightarrow> makes (run_all migration) (clean tc)"
proof -
  assume tc: "tc \<in> set watched"
  note rest = migration_keeps_clean [OF tc]
  consider "rename_model (fst tc) (snd tc) \<in> set migration"
    | "when_there (\<lambda>db. table_exists db (fst tc)) [rename_model (fst tc) (snd tc)] \<in> set migration"
    using tc by (auto simp: watched_def references_def model_registry_def chatter_def)
  then show ?thesis
  proof cases
    case 1
    from run_all_makes [OF this] rename_model_makes [of "fst tc" "snd tc"] rest show ?thesis by simp
  next
    case 2
    from run_all_makes [OF this] chatter_makes [of "fst tc" "snd tc"] rest show ?thesis by simp
  qed
qed

lemma migration_makes_gone: "makes (run_all migration) gone"
proof (rule run_all_makes [OF _ _ migration_keeps_gone])
  show "rename_table ''adomi_workspace'' ''adomi_environment'' \<in> set migration"
    by (simp add: table_and_columns_def)
  show "makes (rename_table ''adomi_workspace'' ''adomi_environment'') gone"
    using rename_table_makes [of "''adomi_environment''"] by simp
qed

lemma makesD: "makes f Q \<Longrightarrow> f db = Inr db' \<Longrightarrow> Q db'"
  by (simp add: makes_def)

lemma keepsD: "keeps f Q \<Longrightarrow> f db = Inr db' \<Longrightarrow> Q db \<Longrightarrow> Q db'"
  by (simp add: keeps_def)

text \<open>A database that holds the old model is migrated completely: every table keeps its rows, no reference to the
  old model is left in the registry, the chatter or the attachments, and migrating again changes nothing.\<close>

lemma migration_complete:
  assumes "table_exists db ''adomi_workspace''" and "pre_migrate db = Inr db'"
  shows "sizes db' = sizes db \<and> pre_migrate db' = Inr db' \<and> list_all (\<lambda>tc. clean tc db') watched"
proof -
  have run: "run_all migration db = Inr db'" using assms unfolding pre_migrate_def by simp
  have "sizes db' = sizes db"
    by (rule keepsD [OF run_all_keeps [OF migration_keeps_sizes] run refl])
  moreover have "gone db'" by (rule makesD [OF migration_makes_gone run])
  then have "pre_migrate db' = Inr db'" unfolding pre_migrate_def gone_def by simp
  moreover have "list_all (\<lambda>tc. clean tc db') watched"
    unfolding list_all_iff using makesD [OF migration_makes_clean run] by blast
  ultimately show ?thesis by simp
qed

text \<open>A small database, migrated.\<close>

definition old_database :: database where
  "old_database =
     [(''ir_model'', \<lparr> st_columns = [''model''], st_rows = [[(''model'', ''adomi.workspace'')]] \<rparr>),
      (''ir_model_fields'', \<lparr> st_columns = [''model'', ''relation'', ''name''],
         st_rows = [[(''model'', ''adomi.workspace''), (''name'', ''workspace_class'')]] \<rparr>),
      (''ir_model_data'', \<lparr> st_columns = [''model'', ''module'', ''name''], st_rows =
         [[(''model'', ''adomi.workspace''), (''module'', ''adomi_platform''), (''name'', ''view_workspace_form'')]] \<rparr>),
      (''adomi_workspace'', \<lparr> st_columns = [''workspace_class''], st_rows = [[(''workspace_class'', ''test'')]] \<rparr>)]"

lemma migration_complete_example:
  "map (\<lambda>(n, x). (n, st_rows x)) (projr (pre_migrate old_database)) =
     [(''ir_model'', [[(''model'', ''adomi.environment'')]]),
      (''ir_model_fields'', [[(''model'', ''adomi.environment''), (''name'', ''environment_class'')]]),
      (''ir_model_data'', [[(''model'', ''adomi.environment''), (''module'', ''adomi_platform''),
         (''name'', ''view_environment_form'')]]),
      (''adomi_environment'', [[(''environment_class'', ''test'')]])]"
  by code_simp

end
