(* ===== verification/Spec2Isabelle.thy ===== *)
theory Spec2Isabelle
  imports Operator DeployRun Retry Store Routers PortalRoundtrip PortalConfig PortalEstate PortalViews PortalWizard EndToEnd Startup Migrations
begin

text \<open>
  A verification library for the Adomi platform: the Kubernetes operator that turns the
  custom resources of \<open>platform.adomi.io\<close> into running applications, the API that producers
  use to state what they want, and the Odoo portal, the producer the repository contains.

  \<^bold>\<open>The program.\<close> The operator (\<open>src/src/adomi_platform_controller\<close>) registers one
  \<open>Reconciler\<close> per custom resource with Kopf. A reconcile handler reads what the resource
  refers to, writes Kubernetes objects (namespaces, secrets, Argo CD Applications, Argo
  Workflows and Events, CNPG clusters, ExternalSecrets), talks to OpenBao, Authentik, Harbor,
  GitHub and the Odoo portal, and reports in the Ready condition; a step that is not finished
  raises a \<open>TemporaryError\<close>, and Kopf calls the handler again. The API
  (\<open>src/src/adomi_platform_api\<close>, with names and manifests in
  \<open>src/src/adomi_platform_schema\<close>) turns request bodies into manifests and commits them to
  the client's repository in Forgejo, from where Argo CD applies them; secrets go straight to
  OpenBao, access groups straight to Authentik. The two meet only in names: the namespace,
  the release and the OpenBao paths that both derive on their own (\<open>Routers\<close> states when
  they agree). The portal (\<open>src/src/adomi_platform_management/addons\<close>, the addons
  \<open>adomi_platform\<close> and \<open>adomi_platform_odoo\<close>) keeps one record per platform object. Saving a
  record pushes it, through the API or, for objects without a client, straight to the cluster;
  a cron sweep and the status pushes of the operator import what the cluster holds, and the
  wizards, panels and the Odoo pipeline are built on those two directions. \<open>Dispatch\<close> closes
  the circle: which endpoint of the API each request of the portal reaches, and what it commits.

  \<^bold>\<open>How it is modelled.\<close> Every definition is a translation of the function or class that the
  manifest's map names. \<open>Prelude\<close> fixes strings (lists of 8-bit characters, a non-ASCII
  string as its UTF-8 bytes), JSON values and ordered dictionaries. \<open>Effects\<close> gives the
  computations: \<open>'a M = env \<Rightarrow> st \<Rightarrow> (exn + 'a) \<times> st\<close>. The environment \<open>env\<close> answers each
  request from the log of the requests and answers before it and is a parameter everywhere:
  whatever a theorem does not assume about it may happen, a failure of any single request
  included. The state is that log (newest first), the status patch of the handler and the
  caches of the process. A Python exception is a value of \<open>exn\<close>; every \<open>raise\<close>, every
  \<open>except\<close> and every early return of the code is a branch of the model.
  \<^item> The configuration and the provider's clients are arguments of the handlers; the lock
    around the token cache makes that function one atomic step.
  \<^item> Fields typed by a CRD schema or validated by pydantic have that type; \<open>None\<close> of a string
    field the code only tests for truth is the empty string, elsewhere an \<open>option\<close>.
  \<^item> Times are whole seconds; log messages are left out.
  \<^item> The urllib clients (GitHub, Harbor, Odoo) see an HTTP error as an answer \<open>HttpErr\<close>; the
    httpx clients (Forgejo, Authentik and Harbor in the API) get a response of any status.
  \<^item> Base64 is strict where Python drops stray characters; \<open>str.isalnum\<close>, \<open>lower\<close> and
    \<open>splitlines\<close> are those of ASCII text.
  \<^item> Libraries (hvac, the generated Authentik client, PyYAML, Kopf, JWT signing) are not in
    the repository: they are requests to the environment or parameters, and what a theorem
    needs of them is a named hypothesis that states their documentation
    (\<open>kv_server\<close>, \<open>scoped_server\<close>, \<open>git_server\<close>, \<open>yaml_ok\<close>), each with a concrete
    instance in the witness.
  \<^item> A model of the portal is a record, its table the list of its records in creation order, a
    search the first match; the ORM, \<open>ir.config_parameter\<close> and the process environment are the
    record \<open>portal\<close> or arguments, the user's clock is an argument. An unset field, which Odoo
    reads as False, is the empty string or None.
  \<^item> What the columns of a model accept (required fields, selections, 32-bit integers, the unique
    domain of a client) is checked where resources are imported (\<open>type_accepts\<close> to
    \<open>application_accepts\<close>); the forms make the same demands of what a user enters. The cron sweep
    is one database transaction: the state \<open>None\<close> of \<open>import_all\<close> is the one an error of the
    database has aborted, and \<open>committed\<close> says what its end leaves.

  \<^bold>\<open>The theories.\<close>
  \<^item> Shared: \<open>Prelude\<close>; \<open>Effects\<close> (the monad, \<open>only\<close>: bounds on what a computation requests,
    \<open>logs\<close>: what a returned computation has seen, \<open>quiet\<close>: clients never report); \<open>Runs\<close>
    (computations that come through); \<open>Encoding\<close> (base64, JSON text); \<open>Sha256\<close> (the digest in
    Job names, over 32-bit words); \<open>Gates\<close> (a request made only after another was answered).
  \<^item> Operator core: \<open>Conditions\<close> (\<open>conditions.py\<close>, \<open>handlers/_common.py\<close>; the contract of a
    reconciler as the locale \<open>reconciler\<close>), \<open>Config\<close> (\<open>config.py\<close>), \<open>Resolve\<close>
    (\<open>resolve.py\<close>: merging of variables and values, names, \<open>compute\<close>), \<open>Kube\<close>
    (\<open>kube.py\<close>, \<open>namespaces.py\<close>; the interface \<open>applied\<close> of a resource that can be applied
    and deleted), \<open>Resources\<close> (the manifests), \<open>Requeue\<close> (\<open>requeue.py\<close>), \<open>Scopes\<close>
    (client, environment, domain, organization, application type).
  \<^item> Backends: \<open>OpenBao\<close> (\<open>openbao.py\<close>, \<open>secretgen.py\<close>, \<open>backend.py\<close>), \<open>Store\<close> (its
    refinement: \<open>ensure_keys\<close> is one abstract generate-once step), \<open>Authentik\<close>
    (\<open>authentik.py\<close>, \<open>oidc.py\<close>), \<open>Github\<close>, \<open>Harbor\<close>.
  \<^item> Handlers: \<open>Sso\<close> (SSO applications), \<open>Database\<close> (databases, servers, snapshots, their
    Jobs and Workflows), \<open>Application\<close> (the engine: build, restore, deploy), \<open>Deploy\<close> (its
    gates and finalizer), \<open>DeployRun\<close> (one complete run, the witness of the gates),
    \<open>Previews\<close> (preview pipelines, portal notifications), \<open>Retry\<close> (Kopf's retry loop
    \<open>kopf_retry\<close>, liveness of polling), \<open>Operator\<close> (all handlers, by kind), \<open>Startup\<close> (the
    start-up hook, the provider handlers run with, the address the API listens on).
  \<^item> API: \<open>Schema\<close> (names, manifests, bodies, specs, status), \<open>Forgejo\<close> (\<open>git/forgejo.py\<close>),
    \<open>GitStore\<close> (the contract \<open>GitWriter\<close> as the locale \<open>git_backend\<close>, with the files of the
    default branch as its state, interpreted on the Forgejo client), \<open>Service\<close>
    (\<open>service.py\<close>), \<open>Api\<close> (settings, token check, cluster reader, secrets store, credential
    caches), \<open>Secrets\<close> (the store refines single updates), \<open>Identity\<close> (access groups),
    \<open>Registry\<close> (images), \<open>Routers\<close> (all endpoints, scoped configuration, the application),
    \<open>Bodies\<close> (how a request's JSON becomes a body of \<open>models.py\<close>).
  \<^item> Portal, data and sync: \<open>Portal\<close> (\<open>k8s.py\<close>, \<open>api_client.py\<close>, names), \<open>PortalModels\<close> (one
    record per model, the body and the spec it writes, the estate of the witnesses), \<open>PortalSync\<close>
    (\<open>k8s_mixin.py\<close>: push, removal, status refresh, mirrored variables), \<open>PortalImport\<close> (the
    reverse import and what the columns accept; its locale \<open>importable\<close>), \<open>PortalRoundtrip\<close> (written, then imported),
    \<open>PortalConfig\<close> (\<open>scoped_config.py\<close>, the roll-up of Variables), \<open>PortalEstate\<close> (all tables,
    the cron sweep, the endpoints of \<open>controllers/main.py\<close>), \<open>PortalPage\<close> (the domain form, the
    payload of the customer page).
  \<^item> Portal, services: \<open>PortalGithub\<close> (GitHub Apps, their tokens and the signed webhook),
    \<open>PortalSignIn\<close> (roles from a sign-in, the OAuth provider, access, setup guides),
    \<open>PortalViews\<close> (\<open>observability.py\<close> and the panels), \<open>Pipeline\<close> (the Odoo pipeline: manifest,
    Dockerfile, commit and import), \<open>PortalWizard\<close> (the launch wizard and its Odoo product),
    \<open>Migrations\<close> (the renaming of workspaces to environments, as SQL on tables).
  \<^item> Composition: \<open>Dispatch\<close> (the route table of the API; a request of the portal as the API
    answers it), \<open>EndToEnd\<close> (the records of the portal as custom resources the operator reads,
    and its status as the portal reads it).

  \<^bold>\<open>What the lemmas show.\<close> A handler reports how it ended, and never Ready after a failure
  (\<open>handlers_report\<close>); deployment waits for the build and the restore (\<open>deploy_after_build\<close>,
  \<open>deploy_after_restore\<close>); merges give the nearest scope's value (\<open>merged_env_nearest_wins\<close>,
  \<open>deep_merge_last_setter_wins\<close>); stored credentials are never overwritten
  (\<open>ensure_keys_refines\<close>); a polling handler becomes Ready once its Workflow has
  (\<open>snapshot_eventually_ready\<close>); finalizers return and delete exactly what they own. On the
  API side an upsert keeps committed variables, variables and secrets read back what was
  set, pull-request mode changes nothing, a binding follows membership, scopes do not share
  secret paths, and no route acts before the token check. For the portal: both of its write
  backends state the same intent (\<open>write_backends_agree\<close>), each of its requests reaches the one
  endpoint that commits it (\<open>portal_push_is_commit\<close>, \<open>portal_value_reaches_scope\<close>), what it
  shows of an application is what the operator runs (\<open>portal_shows_what_runs\<close>), what it
  wrote it reads back, and reads once (\<open>application_roundtrip\<close>, \<open>import_settles\<close>,
  \<open>pipeline_reads_back\<close>, \<open>platform_domain_roundtrip\<close>); saving never blocks the user
  (\<open>portal_write_never_blocks\<close>), a sweep of resources the columns accept
  commits a record for everything listed (\<open>cron_sync_imports_all\<close>; a single one they do not
  accept loses the whole run, \<open>incomplete_application_loses_the_sweep\<close>), the roll-up of Variables is the environment the operator merges and
  hides secrets (\<open>effective_config_is_workload_env\<close>, \<open>page_hides_secrets\<close>), the endpoints and
  the webhook act only on valid credentials (\<open>pushes_need_credentials\<close>,
  \<open>webhook_needs_signature\<close>), and roles follow the groups of a sign-in. Where the code does not do what it
  says, a lemma shows the behaviour and the manifest lists it as a finding.

  \<^bold>\<open>Bounds.\<close> \<open>kopf_retry n\<close> runs a handler at most \<open>n + 1\<close> times; \<open>retry_returns\<close> shows that
  as many calls as polls still needed are enough. Polls, retries under a fresh token (two
  attempts) and loops over lists are otherwise as in the code and terminate by structure.

  \<^bold>\<open>Not modelled.\<close> The Odoo framework and what only calls into it: views, window actions,
  chatter and bus messages, HTML pages and redirects, the labels and help texts of fields,
  access rules and the addon manifests. Parsing of floating point numbers in metrics (a parameter). Loading a
  kubeconfig, serving (uvicorn), the OpenAPI document. Routing answers of the web framework
  itself (404, 405, redirects of a trailing slash). Charts, manifests and scripts around the
  Python code.
\<close>

end
